(* ===== verification/R56_Prelude.thy ===== *)
theory R56_Prelude
  imports Main "HOL-Library.Word" "HOL-Library.Monad_Syntax"
begin

text \<open>
  The shared vocabulary of the development: the C integer types of the driver as words,
  byte memory as a function from addresses, ring indices that wrap at a bound, and the generic
  facts about them that the component theories use through the simplifier.
  The data model is LP64 (the 64-bit x86 Linux kernel): \<open>unsigned long\<close> has eight bytes,
  \<open>unsigned int\<close> four, and a page has 4096 bytes.
\<close>

unbundle bit_operations_syntax

type_synonym u8 = "8 word"
type_synonym u16 = "16 word"
type_synonym u32 = "32 word"
type_synonym u64 = "64 word"

text \<open>The test \<open>x & m\<close> of C in a condition.\<close>

definition tst :: "'a::len word \<Rightarrow> 'a word \<Rightarrow> bool" where
  "tst x m \<longleftrightarrow> x AND m \<noteq> 0"

lemma tst_0 [simp]: "\<not> tst 0 m" "\<not> tst x 0"
  by (simp_all add: tst_def)

lemma tst_mono: "tst x m \<Longrightarrow> m AND k = m \<Longrightarrow> tst x k"
  unfolding tst_def by (metis and.assoc and.commute zero_and_eq)

lemma tst_iff_bit: "tst x m \<longleftrightarrow> (\<exists>n. bit x n \<and> bit m n)"
  by (auto simp: tst_def bit_eq_iff bit_simps dest: bit_imp_le_length)

text \<open>
  A predicate on states carried through the assignments of a \<open>let\<close> chain without
  unfolding it: a step that produces the next state, one that also returns a value, and one that
  only names a value.
\<close>

lemma let_inv: "P e \<Longrightarrow> (\<And>x. P x \<Longrightarrow> P (f x)) \<Longrightarrow> P (Let e f)"
  by simp

lemma let_pair_inv:
  "P (snd e) \<Longrightarrow> (\<And>a x. P x \<Longrightarrow> P (f a x)) \<Longrightarrow> P (let (a, x) = e in f a x)"
  by (simp add: case_prod_unfold)

lemma let_value: "(\<And>a. P (f a)) \<Longrightarrow> P (Let e f)"
  by simp

text \<open>Byte memory: what \<open>memcpy\<close> and \<open>memset\<close> write and what a reader of a range sees.\<close>

type_synonym memory = "nat \<Rightarrow> u8"

definition mem_write :: "nat \<Rightarrow> u8 list \<Rightarrow> memory \<Rightarrow> memory" where
  "mem_write a bs m = (\<lambda>x. if a \<le> x \<and> x < a + length bs then bs ! (x - a) else m x)"

definition mem_read :: "nat \<Rightarrow> nat \<Rightarrow> memory \<Rightarrow> u8 list" where
  "mem_read a n m = map m [a..<a + n]"

lemma length_mem_read [simp]: "length (mem_read a n m) = n"
  by (simp add: mem_read_def)

lemma nth_mem_read [simp]: "i < n \<Longrightarrow> mem_read a n m ! i = m (a + i)"
  by (simp add: mem_read_def)

lemma mem_write_Nil [simp]: "mem_write a [] m = m"
  by (rule ext) (auto simp: mem_write_def)

lemma mem_read_0 [simp]: "mem_read a 0 m = []"
  by (simp add: mem_read_def)

lemma mem_read_add: "mem_read a (n + k) m = mem_read a n m @ mem_read (a + n) k m"
  by (rule nth_equalityI) (auto simp: nth_append)

lemma mem_read_write_same [simp]: "mem_read a (length bs) (mem_write a bs m) = bs"
  by (rule nth_equalityI) (auto simp: mem_write_def)

lemma mem_read_write_prefix: "n \<le> length bs \<Longrightarrow> mem_read a n (mem_write a bs m) = take n bs"
  by (rule nth_equalityI) (auto simp: mem_write_def)

lemma mem_read_write_disjoint:
  "a + n \<le> b \<or> b + length bs \<le> a \<Longrightarrow> mem_read a n (mem_write b bs m) = mem_read a n m"
  by (rule nth_equalityI) (auto simp: mem_write_def)

lemma mem_write_append: "mem_write a (bs @ cs) m = mem_write (a + length bs) cs (mem_write a bs m)"
  by (rule ext) (auto simp: mem_write_def nth_append)

text \<open>
  The index of the next entry of a circular list: \<open>if (++i == n) i = 0\<close>.
\<close>

definition ring_next :: "nat \<Rightarrow> nat \<Rightarrow> nat" where
  "ring_next n i = (if Suc i = n then 0 else Suc i)"

lemma ring_next_less [simp]: "i < n \<Longrightarrow> ring_next n i < n"
  by (auto simp: ring_next_def)

lemma ring_next_mod: "i < n \<Longrightarrow> ring_next n i = Suc i mod n"
  by (auto simp: ring_next_def)

lemma ring_next_funpow: "i < n \<Longrightarrow> (ring_next n ^^ k) i = (i + k) mod n"
proof (induction k)
  case 0
  then show ?case by simp
next
  case (Suc k)
  then have "(ring_next n ^^ Suc k) i = ring_next n ((i + k) mod n)" by simp
  also have "\<dots> = Suc ((i + k) mod n) mod n"
    using Suc.prems by (intro ring_next_mod) simp
  finally show ?case by (simp add: mod_Suc_eq)
qed

text \<open>Arithmetic on sizes.\<close>

lemma unat_of_nat_small: "n < 2 ^ LENGTH('a) \<Longrightarrow> unat (of_nat n :: 'a::len word) = n"
  by (simp add: unsigned_of_nat take_bit_nat_eq_self)

lemma ceiling_div:
  fixes x d :: nat
  assumes "0 < d"
  shows "(x + (d - 1)) div d = (if x mod d = 0 then x div d else x div d + 1)"
proof -
  have "(x + (d - 1)) div d = (d * (x div d) + (x mod d + (d - 1))) div d" by simp
  also have "\<dots> = x div d + (x mod d + (d - 1)) div d" using assms by (simp only: div_mult_self4)
  also have "(x mod d + (d - 1)) div d = (if x mod d = 0 then 0 else 1)"
  proof (cases "x mod d = 0")
    case False
    then have "x mod d + (d - 1) = d * 1 + (x mod d - 1)" using assms by simp
    then have "(x mod d + (d - 1)) div d = 1 + (x mod d - 1) div d" using assms by (simp only: div_mult_self4)
    moreover have "x mod d - 1 < d" using assms by (simp add: less_imp_diff_less)
    ultimately show ?thesis using False by simp
  qed (use assms in simp)
  finally show ?thesis by simp
qed

end
