(* ===== verification/R56_Consts.thy ===== *)
theory R56_Consts
  imports R56_Prelude
begin

text \<open>
  The numeric constants of \<open>include/route56.h\<close>, \<open>driver/z16c32.h\<close> and
  \<open>driver/route56.c\<close> under the names they have there, and the constants of the Linux
  user and kernel headers that the driver tests (termios flags, tty port flags, flip-buffer flags,
  modem lines), which are fixed by the kernel interface.
  All are input abbreviations, so a term always shows the numeral and the simplifier
  evaluates comparisons and bit operations on it directly.
\<close>

text \<open>Bit masks (\<open>include/route56.h\<close>), at the width of the 16-bit registers.\<close>

abbreviation (input) BIT0 :: u16 where "BIT0 \<equiv> 0x1"
abbreviation (input) BIT1 :: u16 where "BIT1 \<equiv> 0x2"
abbreviation (input) BIT2 :: u16 where "BIT2 \<equiv> 0x4"
abbreviation (input) BIT3 :: u16 where "BIT3 \<equiv> 0x8"
abbreviation (input) BIT4 :: u16 where "BIT4 \<equiv> 0x10"
abbreviation (input) BIT5 :: u16 where "BIT5 \<equiv> 0x20"
abbreviation (input) BIT6 :: u16 where "BIT6 \<equiv> 0x40"
abbreviation (input) BIT7 :: u16 where "BIT7 \<equiv> 0x80"
abbreviation (input) BIT8 :: u16 where "BIT8 \<equiv> 0x100"
abbreviation (input) BIT9 :: u16 where "BIT9 \<equiv> 0x200"
abbreviation (input) BIT10 :: u16 where "BIT10 \<equiv> 0x400"
abbreviation (input) BIT11 :: u16 where "BIT11 \<equiv> 0x800"
abbreviation (input) BIT12 :: u16 where "BIT12 \<equiv> 0x1000"
abbreviation (input) BIT13 :: u16 where "BIT13 \<equiv> 0x2000"
abbreviation (input) BIT14 :: u16 where "BIT14 \<equiv> 0x4000"
abbreviation (input) BIT15 :: u16 where "BIT15 \<equiv> 0x8000"

text \<open>Register addresses of the 16C32 (\<open>driver/z16c32.h\<close>).\<close>

abbreviation (input) BCR :: u16 where "BCR \<equiv> 0x80"
abbreviation (input) CCAR :: u16 where "CCAR \<equiv> 0x80"
abbreviation (input) CMR :: u16 where "CMR \<equiv> 0x82"
abbreviation (input) CCSR :: u16 where "CCSR \<equiv> 0x84"
abbreviation (input) CCR :: u16 where "CCR \<equiv> 0x86"
abbreviation (input) PSR :: u16 where "PSR \<equiv> 0x88"
abbreviation (input) PCR :: u16 where "PCR \<equiv> 0x8a"
abbreviation (input) TMDR :: u16 where "TMDR \<equiv> 0x8c"
abbreviation (input) TMCR :: u16 where "TMCR \<equiv> 0x8e"
abbreviation (input) CMCR :: u16 where "CMCR \<equiv> 0x90"
abbreviation (input) HCR :: u16 where "HCR \<equiv> 0x92"
abbreviation (input) IVR :: u16 where "IVR \<equiv> 0x94"
abbreviation (input) IOCR :: u16 where "IOCR \<equiv> 0x96"
abbreviation (input) ICR :: u16 where "ICR \<equiv> 0x98"
abbreviation (input) DCCR :: u16 where "DCCR \<equiv> 0x9a"
abbreviation (input) MISR :: u16 where "MISR \<equiv> 0x9c"
abbreviation (input) SICR :: u16 where "SICR \<equiv> 0x9e"
abbreviation (input) RDR :: u16 where "RDR \<equiv> 0xa0"
abbreviation (input) RMR :: u16 where "RMR \<equiv> 0xa2"
abbreviation (input) RCSR :: u16 where "RCSR \<equiv> 0xa4"
abbreviation (input) RICR :: u16 where "RICR \<equiv> 0xa6"
abbreviation (input) RSR :: u16 where "RSR \<equiv> 0xa8"
abbreviation (input) RCLR :: u16 where "RCLR \<equiv> 0xaa"
abbreviation (input) RCCR :: u16 where "RCCR \<equiv> 0xac"
abbreviation (input) TC0R :: u16 where "TC0R \<equiv> 0xae"
abbreviation (input) TDR :: u16 where "TDR \<equiv> 0xb0"
abbreviation (input) TMR :: u16 where "TMR \<equiv> 0xb2"
abbreviation (input) TCSR :: u16 where "TCSR \<equiv> 0xb4"
abbreviation (input) TICR :: u16 where "TICR \<equiv> 0xb6"
abbreviation (input) TSR :: u16 where "TSR \<equiv> 0xb8"
abbreviation (input) TCLR :: u16 where "TCLR \<equiv> 0xba"
abbreviation (input) TCCR :: u16 where "TCCR \<equiv> 0xbc"
abbreviation (input) TC1R :: u16 where "TC1R \<equiv> 0xbe"
abbreviation (input) DCAR :: u16 where "DCAR \<equiv> 0x0"
abbreviation (input) TDMR :: u16 where "TDMR \<equiv> 0x2"
abbreviation (input) DCR :: u16 where "DCR \<equiv> 0x6"
abbreviation (input) DACR :: u16 where "DACR \<equiv> 0x8"
abbreviation (input) BDCR :: u16 where "BDCR \<equiv> 0x12"
abbreviation (input) DIVR :: u16 where "DIVR \<equiv> 0x14"
abbreviation (input) DICR :: u16 where "DICR \<equiv> 0x18"
abbreviation (input) CDIR :: u16 where "CDIR \<equiv> 0x1a"
abbreviation (input) SDIR :: u16 where "SDIR \<equiv> 0x1c"
abbreviation (input) TDIAR :: u16 where "TDIAR \<equiv> 0x1e"
abbreviation (input) TBCR :: u16 where "TBCR \<equiv> 0x2a"
abbreviation (input) TARL :: u16 where "TARL \<equiv> 0x2c"
abbreviation (input) TARU :: u16 where "TARU \<equiv> 0x2e"
abbreviation (input) NTBCR :: u16 where "NTBCR \<equiv> 0x3a"
abbreviation (input) NTARL :: u16 where "NTARL \<equiv> 0x3c"
abbreviation (input) NTARU :: u16 where "NTARU \<equiv> 0x3e"
abbreviation (input) RDMR :: u16 where "RDMR \<equiv> 0x42"
abbreviation (input) RDIAR :: u16 where "RDIAR \<equiv> 0x5e"
abbreviation (input) RBCR :: u16 where "RBCR \<equiv> 0x6a"
abbreviation (input) RARL :: u16 where "RARL \<equiv> 0x6c"
abbreviation (input) RARU :: u16 where "RARU \<equiv> 0x6e"
abbreviation (input) NRBCR :: u16 where "NRBCR \<equiv> 0x7a"
abbreviation (input) NRARL :: u16 where "NRARL \<equiv> 0x7c"
abbreviation (input) NRARU :: u16 where "NRARU \<equiv> 0x7e"

text \<open>Channel, DMA, transmit and receive commands.\<close>

abbreviation (input) RTCmd_Null :: u16 where "RTCmd_Null \<equiv> 0"
abbreviation (input) RTCmd_ResetHighestIus :: u16 where "RTCmd_ResetHighestIus \<equiv> 0x1000"
abbreviation (input) RTCmd_TriggerChannelLoadDma :: u16 where "RTCmd_TriggerChannelLoadDma \<equiv> 0x2000"
abbreviation (input) RTCmd_TriggerRxDma :: u16 where "RTCmd_TriggerRxDma \<equiv> 0x2800"
abbreviation (input) RTCmd_TriggerTxDma :: u16 where "RTCmd_TriggerTxDma \<equiv> 0x3000"
abbreviation (input) RTCmd_TriggerRxAndTxDma :: u16 where "RTCmd_TriggerRxAndTxDma \<equiv> 0x3800"
abbreviation (input) RTCmd_PurgeRxFifo :: u16 where "RTCmd_PurgeRxFifo \<equiv> 0x4800"
abbreviation (input) RTCmd_PurgeTxFifo :: u16 where "RTCmd_PurgeTxFifo \<equiv> 0x5000"
abbreviation (input) RTCmd_PurgeRxAndTxFifo :: u16 where "RTCmd_PurgeRxAndTxFifo \<equiv> 0x5800"
abbreviation (input) RTCmd_LoadRcc :: u16 where "RTCmd_LoadRcc \<equiv> 0x6800"
abbreviation (input) RTCmd_LoadTcc :: u16 where "RTCmd_LoadTcc \<equiv> 0x7000"
abbreviation (input) RTCmd_LoadRccAndTcc :: u16 where "RTCmd_LoadRccAndTcc \<equiv> 0x7800"
abbreviation (input) RTCmd_LoadTC0 :: u16 where "RTCmd_LoadTC0 \<equiv> 0x8800"
abbreviation (input) RTCmd_LoadTC1 :: u16 where "RTCmd_LoadTC1 \<equiv> 0x9000"
abbreviation (input) RTCmd_LoadTC0AndTC1 :: u16 where "RTCmd_LoadTC0AndTC1 \<equiv> 0x9800"
abbreviation (input) RTCmd_SerialDataLSBFirst :: u16 where "RTCmd_SerialDataLSBFirst \<equiv> 0xa000"
abbreviation (input) RTCmd_SerialDataMSBFirst :: u16 where "RTCmd_SerialDataMSBFirst \<equiv> 0xa800"
abbreviation (input) RTCmd_SelectBigEndian :: u16 where "RTCmd_SelectBigEndian \<equiv> 0xb000"
abbreviation (input) RTCmd_SelectLittleEndian :: u16 where "RTCmd_SelectLittleEndian \<equiv> 0xb800"
abbreviation (input) DmaCmd_Null :: u16 where "DmaCmd_Null \<equiv> 0"
abbreviation (input) DmaCmd_ResetTxChannel :: u16 where "DmaCmd_ResetTxChannel \<equiv> 0x1000"
abbreviation (input) DmaCmd_ResetRxChannel :: u16 where "DmaCmd_ResetRxChannel \<equiv> 0x1200"
abbreviation (input) DmaCmd_StartTxChannel :: u16 where "DmaCmd_StartTxChannel \<equiv> 0x2000"
abbreviation (input) DmaCmd_StartRxChannel :: u16 where "DmaCmd_StartRxChannel \<equiv> 0x2200"
abbreviation (input) DmaCmd_ContinueTxChannel :: u16 where "DmaCmd_ContinueTxChannel \<equiv> 0x3000"
abbreviation (input) DmaCmd_ContinueRxChannel :: u16 where "DmaCmd_ContinueRxChannel \<equiv> 0x3200"
abbreviation (input) DmaCmd_PauseTxChannel :: u16 where "DmaCmd_PauseTxChannel \<equiv> 0x4000"
abbreviation (input) DmaCmd_PauseRxChannel :: u16 where "DmaCmd_PauseRxChannel \<equiv> 0x4200"
abbreviation (input) DmaCmd_AbortTxChannel :: u16 where "DmaCmd_AbortTxChannel \<equiv> 0x5000"
abbreviation (input) DmaCmd_AbortRxChannel :: u16 where "DmaCmd_AbortRxChannel \<equiv> 0x5200"
abbreviation (input) DmaCmd_InitTxChannel :: u16 where "DmaCmd_InitTxChannel \<equiv> 0x7000"
abbreviation (input) DmaCmd_InitRxChannel :: u16 where "DmaCmd_InitRxChannel \<equiv> 0x7200"
abbreviation (input) DmaCmd_ResetHighestDmaIus :: u16 where "DmaCmd_ResetHighestDmaIus \<equiv> 0x8000"
abbreviation (input) DmaCmd_ResetAllChannels :: u16 where "DmaCmd_ResetAllChannels \<equiv> 0x9000"
abbreviation (input) DmaCmd_StartAllChannels :: u16 where "DmaCmd_StartAllChannels \<equiv> 0xa000"
abbreviation (input) DmaCmd_ContinueAllChannels :: u16 where "DmaCmd_ContinueAllChannels \<equiv> 0xb000"
abbreviation (input) DmaCmd_PauseAllChannels :: u16 where "DmaCmd_PauseAllChannels \<equiv> 0xc000"
abbreviation (input) DmaCmd_AbortAllChannels :: u16 where "DmaCmd_AbortAllChannels \<equiv> 0xd000"
abbreviation (input) DmaCmd_InitAllChannels :: u16 where "DmaCmd_InitAllChannels \<equiv> 0xf000"
abbreviation (input) TCmd_Null :: u16 where "TCmd_Null \<equiv> 0"
abbreviation (input) TCmd_ClearTxCRC :: u16 where "TCmd_ClearTxCRC \<equiv> 0x2000"
abbreviation (input) TCmd_SelectTicrTtsaData :: u16 where "TCmd_SelectTicrTtsaData \<equiv> 0x4000"
abbreviation (input) TCmd_SelectTicrTxFifostatus :: u16 where "TCmd_SelectTicrTxFifostatus \<equiv> 0x5000"
abbreviation (input) TCmd_SelectTicrIntLevel :: u16 where "TCmd_SelectTicrIntLevel \<equiv> 0x6000"
abbreviation (input) TCmd_SelectTicrdma_level :: u16 where "TCmd_SelectTicrdma_level \<equiv> 0x7000"
abbreviation (input) TCmd_SendFrame :: u16 where "TCmd_SendFrame \<equiv> 0x8000"
abbreviation (input) TCmd_SendAbort :: u16 where "TCmd_SendAbort \<equiv> 0x9000"
abbreviation (input) TCmd_EnableDleInsertion :: u16 where "TCmd_EnableDleInsertion \<equiv> 0xc000"
abbreviation (input) TCmd_DisableDleInsertion :: u16 where "TCmd_DisableDleInsertion \<equiv> 0xd000"
abbreviation (input) TCmd_ClearEofEom :: u16 where "TCmd_ClearEofEom \<equiv> 0xe000"
abbreviation (input) TCmd_SetEofEom :: u16 where "TCmd_SetEofEom \<equiv> 0xf000"
abbreviation (input) RCmd_Null :: u16 where "RCmd_Null \<equiv> 0"
abbreviation (input) RCmd_ClearRxCRC :: u16 where "RCmd_ClearRxCRC \<equiv> 0x2000"
abbreviation (input) RCmd_EnterHuntmode :: u16 where "RCmd_EnterHuntmode \<equiv> 0x3000"
abbreviation (input) RCmd_SelectRicrRtsaData :: u16 where "RCmd_SelectRicrRtsaData \<equiv> 0x4000"
abbreviation (input) RCmd_SelectRicrRxFifostatus :: u16 where "RCmd_SelectRicrRxFifostatus \<equiv> 0x5000"
abbreviation (input) RCmd_SelectRicrIntLevel :: u16 where "RCmd_SelectRicrIntLevel \<equiv> 0x6000"
abbreviation (input) RCmd_SelectRicrdma_level :: u16 where "RCmd_SelectRicrdma_level \<equiv> 0x7000"

text \<open>Interrupt sources and status bits.\<close>

abbreviation (input) RECEIVE_STATUS :: u16 where "RECEIVE_STATUS \<equiv> 0x20"
abbreviation (input) RECEIVE_DATA :: u16 where "RECEIVE_DATA \<equiv> 0x10"
abbreviation (input) TRANSMIT_STATUS :: u16 where "TRANSMIT_STATUS \<equiv> 8"
abbreviation (input) TRANSMIT_DATA :: u16 where "TRANSMIT_DATA \<equiv> 4"
abbreviation (input) IO_PIN :: u16 where "IO_PIN \<equiv> 2"
abbreviation (input) MISC :: u16 where "MISC \<equiv> 1"
abbreviation (input) RXSTATUS_SHORT_FRAME :: u16 where "RXSTATUS_SHORT_FRAME \<equiv> 0x100"
abbreviation (input) RXSTATUS_CODE_VIOLATION :: u16 where "RXSTATUS_CODE_VIOLATION \<equiv> 0x100"
abbreviation (input) RXSTATUS_EXITED_HUNT :: u16 where "RXSTATUS_EXITED_HUNT \<equiv> 0x80"
abbreviation (input) RXSTATUS_IDLE_RECEIVED :: u16 where "RXSTATUS_IDLE_RECEIVED \<equiv> 0x40"
abbreviation (input) RXSTATUS_BREAK_RECEIVED :: u16 where "RXSTATUS_BREAK_RECEIVED \<equiv> 0x20"
abbreviation (input) RXSTATUS_ABORT_RECEIVED :: u16 where "RXSTATUS_ABORT_RECEIVED \<equiv> 0x20"
abbreviation (input) RXSTATUS_RXBOUND :: u16 where "RXSTATUS_RXBOUND \<equiv> 0x10"
abbreviation (input) RXSTATUS_CRC_ERROR :: u16 where "RXSTATUS_CRC_ERROR \<equiv> 8"
abbreviation (input) RXSTATUS_FRAMING_ERROR :: u16 where "RXSTATUS_FRAMING_ERROR \<equiv> 8"
abbreviation (input) RXSTATUS_ABORT :: u16 where "RXSTATUS_ABORT \<equiv> 4"
abbreviation (input) RXSTATUS_PARITY_ERROR :: u16 where "RXSTATUS_PARITY_ERROR \<equiv> 4"
abbreviation (input) RXSTATUS_OVERRUN :: u16 where "RXSTATUS_OVERRUN \<equiv> 2"
abbreviation (input) RXSTATUS_DATA_AVAILABLE :: u16 where "RXSTATUS_DATA_AVAILABLE \<equiv> 1"
abbreviation (input) RXSTATUS_ALL :: u16 where "RXSTATUS_ALL \<equiv> 0x1f6"
abbreviation (input) IDLEMODE_FLAGS :: u16 where "IDLEMODE_FLAGS \<equiv> 0"
abbreviation (input) IDLEMODE_ALT_ONE_ZERO :: u16 where "IDLEMODE_ALT_ONE_ZERO \<equiv> 0x100"
abbreviation (input) IDLEMODE_ZERO :: u16 where "IDLEMODE_ZERO \<equiv> 0x200"
abbreviation (input) IDLEMODE_ONE :: u16 where "IDLEMODE_ONE \<equiv> 0x300"
abbreviation (input) IDLEMODE_ALT_MARK_SPACE :: u16 where "IDLEMODE_ALT_MARK_SPACE \<equiv> 0x500"
abbreviation (input) IDLEMODE_SPACE :: u16 where "IDLEMODE_SPACE \<equiv> 0x600"
abbreviation (input) IDLEMODE_MARK :: u16 where "IDLEMODE_MARK \<equiv> 0x700"
abbreviation (input) IDLEMODE_MASK :: u16 where "IDLEMODE_MASK \<equiv> 0x700"
abbreviation (input) IUSC_PRE_SL1660 :: u16 where "IUSC_PRE_SL1660 \<equiv> 0x4553"
abbreviation (input) TCSR_UNDERWAIT :: u16 where "TCSR_UNDERWAIT \<equiv> 0x800"
abbreviation (input) TXSTATUS_PREAMBLE_SENT :: u16 where "TXSTATUS_PREAMBLE_SENT \<equiv> 0x80"
abbreviation (input) TXSTATUS_IDLE_SENT :: u16 where "TXSTATUS_IDLE_SENT \<equiv> 0x40"
abbreviation (input) TXSTATUS_ABORT_SENT :: u16 where "TXSTATUS_ABORT_SENT \<equiv> 0x20"
abbreviation (input) TXSTATUS_EOF_SENT :: u16 where "TXSTATUS_EOF_SENT \<equiv> 0x10"
abbreviation (input) TXSTATUS_EOM_SENT :: u16 where "TXSTATUS_EOM_SENT \<equiv> 0x10"
abbreviation (input) TXSTATUS_CRC_SENT :: u16 where "TXSTATUS_CRC_SENT \<equiv> 8"
abbreviation (input) TXSTATUS_ALL_SENT :: u16 where "TXSTATUS_ALL_SENT \<equiv> 4"
abbreviation (input) TXSTATUS_UNDERRUN :: u16 where "TXSTATUS_UNDERRUN \<equiv> 2"
abbreviation (input) TXSTATUS_FIFO_EMPTY :: u16 where "TXSTATUS_FIFO_EMPTY \<equiv> 1"
abbreviation (input) TXSTATUS_ALL :: u16 where "TXSTATUS_ALL \<equiv> 0xfa"
abbreviation (input) TXSTATUS_EOF :: u16 where "TXSTATUS_EOF \<equiv> 0x10"
abbreviation (input) MISCSTATUS_RXC_LATCHED :: u16 where "MISCSTATUS_RXC_LATCHED \<equiv> 0x8000"
abbreviation (input) MISCSTATUS_RXC :: u16 where "MISCSTATUS_RXC \<equiv> 0x4000"
abbreviation (input) MISCSTATUS_TXC_LATCHED :: u16 where "MISCSTATUS_TXC_LATCHED \<equiv> 0x2000"
abbreviation (input) MISCSTATUS_TXC :: u16 where "MISCSTATUS_TXC \<equiv> 0x1000"
abbreviation (input) MISCSTATUS_RI_LATCHED :: u16 where "MISCSTATUS_RI_LATCHED \<equiv> 0x800"
abbreviation (input) MISCSTATUS_RI :: u16 where "MISCSTATUS_RI \<equiv> 0x400"
abbreviation (input) MISCSTATUS_DSR_LATCHED :: u16 where "MISCSTATUS_DSR_LATCHED \<equiv> 0x200"
abbreviation (input) MISCSTATUS_DSR :: u16 where "MISCSTATUS_DSR \<equiv> 0x100"
abbreviation (input) MISCSTATUS_DCD_LATCHED :: u16 where "MISCSTATUS_DCD_LATCHED \<equiv> 0x80"
abbreviation (input) MISCSTATUS_DCD :: u16 where "MISCSTATUS_DCD \<equiv> 0x40"
abbreviation (input) MISCSTATUS_CTS_LATCHED :: u16 where "MISCSTATUS_CTS_LATCHED \<equiv> 0x20"
abbreviation (input) MISCSTATUS_CTS :: u16 where "MISCSTATUS_CTS \<equiv> 0x10"
abbreviation (input) MISCSTATUS_RCC_UNDERRUN :: u16 where "MISCSTATUS_RCC_UNDERRUN \<equiv> 8"
abbreviation (input) MISCSTATUS_DPLL_NO_SYNC :: u16 where "MISCSTATUS_DPLL_NO_SYNC \<equiv> 4"
abbreviation (input) MISCSTATUS_BRG1_ZERO :: u16 where "MISCSTATUS_BRG1_ZERO \<equiv> 2"
abbreviation (input) MISCSTATUS_BRG0_ZERO :: u16 where "MISCSTATUS_BRG0_ZERO \<equiv> 1"
abbreviation (input) SICR_RXC_ACTIVE :: u16 where "SICR_RXC_ACTIVE \<equiv> 0x8000"
abbreviation (input) SICR_RXC_INACTIVE :: u16 where "SICR_RXC_INACTIVE \<equiv> 0x4000"
abbreviation (input) SICR_RXC :: u16 where "SICR_RXC \<equiv> 0xc000"
abbreviation (input) SICR_TXC_ACTIVE :: u16 where "SICR_TXC_ACTIVE \<equiv> 0x2000"
abbreviation (input) SICR_TXC_INACTIVE :: u16 where "SICR_TXC_INACTIVE \<equiv> 0x1000"
abbreviation (input) SICR_TXC :: u16 where "SICR_TXC \<equiv> 0x3000"
abbreviation (input) SICR_RI_ACTIVE :: u16 where "SICR_RI_ACTIVE \<equiv> 0x800"
abbreviation (input) SICR_RI_INACTIVE :: u16 where "SICR_RI_INACTIVE \<equiv> 0x400"
abbreviation (input) SICR_RI :: u16 where "SICR_RI \<equiv> 0xc00"
abbreviation (input) SICR_DSR_ACTIVE :: u16 where "SICR_DSR_ACTIVE \<equiv> 0x200"
abbreviation (input) SICR_DSR_INACTIVE :: u16 where "SICR_DSR_INACTIVE \<equiv> 0x100"
abbreviation (input) SICR_DSR :: u16 where "SICR_DSR \<equiv> 0x300"
abbreviation (input) SICR_DCD_ACTIVE :: u16 where "SICR_DCD_ACTIVE \<equiv> 0x80"
abbreviation (input) SICR_DCD_INACTIVE :: u16 where "SICR_DCD_INACTIVE \<equiv> 0x40"
abbreviation (input) SICR_DCD :: u16 where "SICR_DCD \<equiv> 0xc0"
abbreviation (input) SICR_CTS_ACTIVE :: u16 where "SICR_CTS_ACTIVE \<equiv> 0x20"
abbreviation (input) SICR_CTS_INACTIVE :: u16 where "SICR_CTS_INACTIVE \<equiv> 0x10"
abbreviation (input) SICR_CTS :: u16 where "SICR_CTS \<equiv> 0x30"
abbreviation (input) SICR_RCC_UNDERFLOW :: u16 where "SICR_RCC_UNDERFLOW \<equiv> 8"
abbreviation (input) SICR_DPLL_NO_SYNC :: u16 where "SICR_DPLL_NO_SYNC \<equiv> 4"
abbreviation (input) SICR_BRG1_ZERO :: u16 where "SICR_BRG1_ZERO \<equiv> 2"
abbreviation (input) SICR_BRG0_ZERO :: u16 where "SICR_BRG0_ZERO \<equiv> 1"
abbreviation (input) DICR_MASTER :: u16 where "DICR_MASTER \<equiv> 0x8000"
abbreviation (input) DICR_TRANSMIT :: u16 where "DICR_TRANSMIT \<equiv> 1"
abbreviation (input) DICR_RECEIVE :: u16 where "DICR_RECEIVE \<equiv> 2"
abbreviation (input) DISABLE_UNCONDITIONAL :: u16 where "DISABLE_UNCONDITIONAL \<equiv> 0"
abbreviation (input) DISABLE_END_OF_FRAME :: u16 where "DISABLE_END_OF_FRAME \<equiv> 1"
abbreviation (input) ENABLE_UNCONDITIONAL :: u16 where "ENABLE_UNCONDITIONAL \<equiv> 2"
abbreviation (input) ENABLE_AUTO_CTS :: u16 where "ENABLE_AUTO_CTS \<equiv> 3"
abbreviation (input) ENABLE_AUTO_DCD :: u16 where "ENABLE_AUTO_DCD \<equiv> 3"
abbreviation (input) DCPIN :: u16 where "DCPIN \<equiv> 2"
abbreviation (input) SDPIN :: u16 where "SDPIN \<equiv> 4"
abbreviation (input) LSBONLY :: u16 where "LSBONLY \<equiv> 0x40"
abbreviation (input) DATAREG :: u16 where "DATAREG \<equiv> DCPIN + SDPIN"

text \<open>Parameters of the user interface (\<open>include/route56.h\<close>).\<close>

abbreviation (input) HDLC_FLAG_UNDERRUN_ABORT7 :: u16 where "HDLC_FLAG_UNDERRUN_ABORT7 \<equiv> 0"
abbreviation (input) HDLC_FLAG_UNDERRUN_ABORT15 :: u16 where "HDLC_FLAG_UNDERRUN_ABORT15 \<equiv> 1"
abbreviation (input) HDLC_FLAG_UNDERRUN_FLAG :: u16 where "HDLC_FLAG_UNDERRUN_FLAG \<equiv> 2"
abbreviation (input) HDLC_FLAG_UNDERRUN_CRC :: u16 where "HDLC_FLAG_UNDERRUN_CRC \<equiv> 4"
abbreviation (input) HDLC_FLAG_SHARE_ZERO :: u16 where "HDLC_FLAG_SHARE_ZERO \<equiv> 0x10"
abbreviation (input) HDLC_FLAG_AUTO_CTS :: u16 where "HDLC_FLAG_AUTO_CTS \<equiv> 0x20"
abbreviation (input) HDLC_FLAG_AUTO_DCD :: u16 where "HDLC_FLAG_AUTO_DCD \<equiv> 0x40"
abbreviation (input) HDLC_FLAG_AUTO_RTS :: u16 where "HDLC_FLAG_AUTO_RTS \<equiv> 0x80"
abbreviation (input) HDLC_FLAG_RXC_DPLL :: u16 where "HDLC_FLAG_RXC_DPLL \<equiv> 0x100"
abbreviation (input) HDLC_FLAG_RXC_BRG :: u16 where "HDLC_FLAG_RXC_BRG \<equiv> 0x200"
abbreviation (input) HDLC_FLAG_RXC_TXCPIN :: u16 where "HDLC_FLAG_RXC_TXCPIN \<equiv> 0x8000"
abbreviation (input) HDLC_FLAG_RXC_RXCPIN :: u16 where "HDLC_FLAG_RXC_RXCPIN \<equiv> 0"
abbreviation (input) HDLC_FLAG_TXC_DPLL :: u16 where "HDLC_FLAG_TXC_DPLL \<equiv> 0x400"
abbreviation (input) HDLC_FLAG_TXC_BRG :: u16 where "HDLC_FLAG_TXC_BRG \<equiv> 0x800"
abbreviation (input) HDLC_FLAG_TXC_TXCPIN :: u16 where "HDLC_FLAG_TXC_TXCPIN \<equiv> 0"
abbreviation (input) HDLC_FLAG_TXC_RXCPIN :: u16 where "HDLC_FLAG_TXC_RXCPIN \<equiv> 8"
abbreviation (input) HDLC_FLAG_DPLL_DIV8 :: u16 where "HDLC_FLAG_DPLL_DIV8 \<equiv> 0x1000"
abbreviation (input) HDLC_FLAG_DPLL_DIV16 :: u16 where "HDLC_FLAG_DPLL_DIV16 \<equiv> 0x2000"
abbreviation (input) HDLC_FLAG_DPLL_DIV32 :: u16 where "HDLC_FLAG_DPLL_DIV32 \<equiv> 0"
abbreviation (input) HDLC_FLAG_HDLC_LOOPMODE :: u16 where "HDLC_FLAG_HDLC_LOOPMODE \<equiv> 0x4000"
abbreviation (input) HDLC_CRC_NONE :: u16 where "HDLC_CRC_NONE \<equiv> 0"
abbreviation (input) HDLC_CRC_16_CCITT :: u16 where "HDLC_CRC_16_CCITT \<equiv> 1"
abbreviation (input) HDLC_CRC_32_CCITT :: u16 where "HDLC_CRC_32_CCITT \<equiv> 2"
abbreviation (input) HDLC_CRC_MASK :: u16 where "HDLC_CRC_MASK \<equiv> 0xff"
abbreviation (input) HDLC_CRC_RETURN_EX :: u16 where "HDLC_CRC_RETURN_EX \<equiv> 0x8000"
abbreviation (input) RX_OK :: u8 where "RX_OK \<equiv> 0"
abbreviation (input) RX_CRC_ERROR :: u8 where "RX_CRC_ERROR \<equiv> 1"
abbreviation (input) HDLC_TXIDLE_FLAGS :: u32 where "HDLC_TXIDLE_FLAGS \<equiv> 0"
abbreviation (input) HDLC_TXIDLE_ALT_ZEROS_ONES :: u32 where "HDLC_TXIDLE_ALT_ZEROS_ONES \<equiv> 1"
abbreviation (input) HDLC_TXIDLE_ZEROS :: u32 where "HDLC_TXIDLE_ZEROS \<equiv> 2"
abbreviation (input) HDLC_TXIDLE_ONES :: u32 where "HDLC_TXIDLE_ONES \<equiv> 3"
abbreviation (input) HDLC_TXIDLE_ALT_MARK_SPACE :: u32 where "HDLC_TXIDLE_ALT_MARK_SPACE \<equiv> 4"
abbreviation (input) HDLC_TXIDLE_SPACE :: u32 where "HDLC_TXIDLE_SPACE \<equiv> 5"
abbreviation (input) HDLC_TXIDLE_MARK :: u32 where "HDLC_TXIDLE_MARK \<equiv> 6"
abbreviation (input) HDLC_ENCODING_NRZ :: u8 where "HDLC_ENCODING_NRZ \<equiv> 0"
abbreviation (input) HDLC_ENCODING_NRZB :: u8 where "HDLC_ENCODING_NRZB \<equiv> 1"
abbreviation (input) HDLC_ENCODING_NRZI_MARK :: u8 where "HDLC_ENCODING_NRZI_MARK \<equiv> 2"
abbreviation (input) HDLC_ENCODING_NRZI_SPACE :: u8 where "HDLC_ENCODING_NRZI_SPACE \<equiv> 3"
abbreviation (input) HDLC_ENCODING_BIPHASE_MARK :: u8 where "HDLC_ENCODING_BIPHASE_MARK \<equiv> 4"
abbreviation (input) HDLC_ENCODING_BIPHASE_SPACE :: u8 where "HDLC_ENCODING_BIPHASE_SPACE \<equiv> 5"
abbreviation (input) HDLC_ENCODING_BIPHASE_LEVEL :: u8 where "HDLC_ENCODING_BIPHASE_LEVEL \<equiv> 6"
abbreviation (input) HDLC_ENCODING_DIFF_BIPHASE_LEVEL :: u8 where "HDLC_ENCODING_DIFF_BIPHASE_LEVEL \<equiv> 7"
abbreviation (input) HDLC_PREAMBLE_LENGTH_8BITS :: u8 where "HDLC_PREAMBLE_LENGTH_8BITS \<equiv> 0"
abbreviation (input) HDLC_PREAMBLE_LENGTH_16BITS :: u8 where "HDLC_PREAMBLE_LENGTH_16BITS \<equiv> 1"
abbreviation (input) HDLC_PREAMBLE_LENGTH_32BITS :: u8 where "HDLC_PREAMBLE_LENGTH_32BITS \<equiv> 2"
abbreviation (input) HDLC_PREAMBLE_LENGTH_64BITS :: u8 where "HDLC_PREAMBLE_LENGTH_64BITS \<equiv> 3"
abbreviation (input) HDLC_PREAMBLE_PATTERN_NONE :: u8 where "HDLC_PREAMBLE_PATTERN_NONE \<equiv> 0"
abbreviation (input) HDLC_PREAMBLE_PATTERN_ZEROS :: u8 where "HDLC_PREAMBLE_PATTERN_ZEROS \<equiv> 1"
abbreviation (input) HDLC_PREAMBLE_PATTERN_FLAGS :: u8 where "HDLC_PREAMBLE_PATTERN_FLAGS \<equiv> 2"
abbreviation (input) HDLC_PREAMBLE_PATTERN_10 :: u8 where "HDLC_PREAMBLE_PATTERN_10 \<equiv> 3"
abbreviation (input) HDLC_PREAMBLE_PATTERN_01 :: u8 where "HDLC_PREAMBLE_PATTERN_01 \<equiv> 4"
abbreviation (input) HDLC_PREAMBLE_PATTERN_ONES :: u8 where "HDLC_PREAMBLE_PATTERN_ONES \<equiv> 5"
abbreviation (input) ASYNC_PARITY_NONE :: u8 where "ASYNC_PARITY_NONE \<equiv> 0"
abbreviation (input) ASYNC_PARITY_EVEN :: u8 where "ASYNC_PARITY_EVEN \<equiv> 1"
abbreviation (input) ASYNC_PARITY_ODD :: u8 where "ASYNC_PARITY_ODD \<equiv> 2"
abbreviation (input) ASYNC_PARITY_SPACE :: u8 where "ASYNC_PARITY_SPACE \<equiv> 3"
abbreviation (input) R56_MODE_ASYNC :: u64 where "R56_MODE_ASYNC \<equiv> 1"
abbreviation (input) R56_MODE_HDLC :: u64 where "R56_MODE_HDLC \<equiv> 2"
abbreviation (input) R56_MODE_RAW :: u64 where "R56_MODE_RAW \<equiv> 6"
abbreviation (input) R56_BUS_TYPE_ISA :: u32 where "R56_BUS_TYPE_ISA \<equiv> 1"
abbreviation (input) R56_BUS_TYPE_PCI :: u32 where "R56_BUS_TYPE_PCI \<equiv> 5"
abbreviation (input) R56_PCI_XTAL_SPEED :: u32 where "R56_PCI_XTAL_SPEED \<equiv> 0x1312d00"
abbreviation (input) R56_ISA_XTAL_SPEED :: u32 where "R56_ISA_XTAL_SPEED \<equiv> 0xe10000"
abbreviation (input) RS232 :: u8 where "RS232 \<equiv> 2"
abbreviation (input) RS485_TERM :: u8 where "RS485_TERM \<equiv> 4"
abbreviation (input) RS485_NOTERM :: u8 where "RS485_NOTERM \<equiv> 5"
abbreviation (input) RS530 :: u8 where "RS530 \<equiv> 0xd"
abbreviation (input) R56_INTERFACE_MASK :: u8 where "R56_INTERFACE_MASK \<equiv> 0xf"
abbreviation (input) R56_INTERFACE_NE :: u8 where "R56_INTERFACE_NE \<equiv> 0x80"
abbreviation (input) R561_DEVICE_ID :: int where "R561_DEVICE_ID \<equiv> 0x5101"
abbreviation (input) R562_DEVICE_ID :: int where "R562_DEVICE_ID \<equiv> 0x5104"
abbreviation (input) R563_DEVICE_ID :: int where "R563_DEVICE_ID \<equiv> 0x3514"
abbreviation (input) R564_DEVICE_ID :: int where "R564_DEVICE_ID \<equiv> 0x9063"
abbreviation (input) R565_DEVICE_ID :: int where "R565_DEVICE_ID \<equiv> 0x5105"
abbreviation (input) SerialSignal_DCD :: u8 where "SerialSignal_DCD \<equiv> 1"
abbreviation (input) SerialSignal_TXD :: u8 where "SerialSignal_TXD \<equiv> 2"
abbreviation (input) SerialSignal_RI :: u8 where "SerialSignal_RI \<equiv> 4"
abbreviation (input) SerialSignal_RXD :: u8 where "SerialSignal_RXD \<equiv> 8"
abbreviation (input) SerialSignal_CTS :: u8 where "SerialSignal_CTS \<equiv> 0x10"
abbreviation (input) SerialSignal_RTS :: u8 where "SerialSignal_RTS \<equiv> 0x20"
abbreviation (input) SerialSignal_DSR :: u8 where "SerialSignal_DSR \<equiv> 0x40"
abbreviation (input) SerialSignal_DTR :: u8 where "SerialSignal_DTR \<equiv> 0x80"
abbreviation (input) DiagStatus_OK :: u32 where "DiagStatus_OK \<equiv> 0"
abbreviation (input) DiagStatus_AddressFailure :: u32 where "DiagStatus_AddressFailure \<equiv> 1"
abbreviation (input) DiagStatus_AddressConflict :: u32 where "DiagStatus_AddressConflict \<equiv> 2"
abbreviation (input) DiagStatus_IrqFailure :: u32 where "DiagStatus_IrqFailure \<equiv> 3"
abbreviation (input) DiagStatus_IrqConflict :: u32 where "DiagStatus_IrqConflict \<equiv> 4"
abbreviation (input) DiagStatus_DmaFailure :: u32 where "DiagStatus_DmaFailure \<equiv> 5"
abbreviation (input) DiagStatus_DmaConflict :: u32 where "DiagStatus_DmaConflict \<equiv> 6"
abbreviation (input) DiagStatus_PciAdapterNotFound :: u32 where "DiagStatus_PciAdapterNotFound \<equiv> 7"
abbreviation (input) DiagStatus_CantAssignPciResources :: u32 where "DiagStatus_CantAssignPciResources \<equiv> 8"
abbreviation (input) DiagStatus_CantAssignPciMemAddr :: u32 where "DiagStatus_CantAssignPciMemAddr \<equiv> 9"
abbreviation (input) DiagStatus_CantAssignPciIoAddr :: u32 where "DiagStatus_CantAssignPciIoAddr \<equiv> 0xa"
abbreviation (input) DiagStatus_CantAssignPciIrq :: u32 where "DiagStatus_CantAssignPciIrq \<equiv> 0xb"
abbreviation (input) DiagStatus_MemoryError :: u32 where "DiagStatus_MemoryError \<equiv> 0xc"
abbreviation (input) Rt56Event_DsrActive :: u32 where "Rt56Event_DsrActive \<equiv> 1"
abbreviation (input) Rt56Event_DsrInactive :: u32 where "Rt56Event_DsrInactive \<equiv> 2"
abbreviation (input) Rt56Event_Dsr :: u32 where "Rt56Event_Dsr \<equiv> 3"
abbreviation (input) Rt56Event_CtsActive :: u32 where "Rt56Event_CtsActive \<equiv> 4"
abbreviation (input) Rt56Event_CtsInactive :: u32 where "Rt56Event_CtsInactive \<equiv> 8"
abbreviation (input) Rt56Event_Cts :: u32 where "Rt56Event_Cts \<equiv> 0xc"
abbreviation (input) Rt56Event_DcdActive :: u32 where "Rt56Event_DcdActive \<equiv> 0x10"
abbreviation (input) Rt56Event_DcdInactive :: u32 where "Rt56Event_DcdInactive \<equiv> 0x20"
abbreviation (input) Rt56Event_Dcd :: u32 where "Rt56Event_Dcd \<equiv> 0x30"
abbreviation (input) Rt56Event_RiActive :: u32 where "Rt56Event_RiActive \<equiv> 0x40"
abbreviation (input) Rt56Event_RiInactive :: u32 where "Rt56Event_RiInactive \<equiv> 0x80"
abbreviation (input) Rt56Event_Ri :: u32 where "Rt56Event_Ri \<equiv> 0xc0"
abbreviation (input) Rt56Event_ExitHuntMode :: u32 where "Rt56Event_ExitHuntMode \<equiv> 0x100"
abbreviation (input) Rt56Event_IdleReceived :: u32 where "Rt56Event_IdleReceived \<equiv> 0x200"
abbreviation (input) HDLC_MAX_FRAME_SIZE :: int where "HDLC_MAX_FRAME_SIZE \<equiv> 0xffff"

text \<open>Driver constants (\<open>driver/route56.c\<close>). The page size is that of x86.\<close>

abbreviation (input) BH_RECEIVE :: u32 where "BH_RECEIVE \<equiv> 1"
abbreviation (input) BH_TRANSMIT :: u32 where "BH_TRANSMIT \<equiv> 2"
abbreviation (input) BH_STATUS :: u32 where "BH_STATUS \<equiv> 4"
abbreviation (input) IO_PIN_SHUTDOWN_LIMIT :: int where "IO_PIN_SHUTDOWN_LIMIT \<equiv> 0x64"
abbreviation (input) WAKEUP_CHARS :: int where "WAKEUP_CHARS \<equiv> 0x100"
abbreviation (input) SERIAL_XMIT_SIZE :: int where "SERIAL_XMIT_SIZE \<equiv> 0x1000"
abbreviation (input) MAX_TX_HOLDING_BUFFERS :: int where "MAX_TX_HOLDING_BUFFERS \<equiv> 5"
abbreviation (input) DMABUFFERSIZE :: nat where "DMABUFFERSIZE \<equiv> 4096"
abbreviation (input) BUFFERLISTSIZE :: nat where "BUFFERLISTSIZE \<equiv> 4096"
abbreviation (input) MAXRXFRAMES :: u32 where "MAXRXFRAMES \<equiv> 7"
abbreviation (input) SHARED_MEM_ADDRESS_SIZE :: nat where "SHARED_MEM_ADDRESS_SIZE \<equiv> 0x40000"
abbreviation (input) RCLRVALUE :: u32 where "RCLRVALUE \<equiv> 0xffff"
text \<open>Values of \<open>driver/z16c32.h\<close> used to program the reset state.\<close>

abbreviation (input) BRQ_Signal_TotemPole :: u16 where "BRQ_Signal_TotemPole \<equiv> 8"
abbreviation (input) BusWidth_16BitBus :: u16 where "BusWidth_16BitBus \<equiv> 4"
abbreviation (input) IRQ_Signal_OpenDrain :: u16 where "IRQ_Signal_OpenDrain \<equiv> 2"
abbreviation (input) ShiftedAddr_ShiftRightMode :: u16 where "ShiftedAddr_ShiftRightMode \<equiv> 1"
abbreviation (input) ChannelCommand_SelctD7_0_1st :: u16 where "ChannelCommand_SelctD7_0_1st \<equiv> 0xb800"
abbreviation (input) RCC_FIFO_Clear_Reset :: u16 where "RCC_FIFO_Clear_Reset \<equiv> 0x2000"
abbreviation (input) PORT0_1BypassCTR_Yes :: u16 where "PORT0_1BypassCTR_Yes \<equiv> 0x20"
abbreviation (input) Port7_PinCtrl_TxCompleteOut :: u16 where "Port7_PinCtrl_TxCompleteOut \<equiv> 0x4000"
abbreviation (input) Port7_PinCtrl_Output1 :: u16 where "Port7_PinCtrl_Output1 \<equiv> 0xc000"
abbreviation (input) Port6_PinCtrl_Output1 :: u16 where "Port6_PinCtrl_Output1 \<equiv> 0x3000"
abbreviation (input) Port5_PinCtrl_Output1 :: u16 where "Port5_PinCtrl_Output1 \<equiv> 0xc00"
abbreviation (input) Port4_PinCtrl_Input :: u16 where "Port4_PinCtrl_Input \<equiv> 0"
abbreviation (input) Port3_PinCtrl_Input :: u16 where "Port3_PinCtrl_Input \<equiv> 0"
abbreviation (input) Port2_PinCtrl_Input :: u16 where "Port2_PinCtrl_Input \<equiv> 0"
abbreviation (input) Port1_PinCtrl_CTR1_Clock :: u16 where "Port1_PinCtrl_CTR1_Clock \<equiv> 4"
abbreviation (input) Port0_PinCtrl_CTR0_Clock :: u16 where "Port0_PinCtrl_CTR0_Clock \<equiv> 1"

text \<open>Termios flags (Linux \<open>asm-generic/termbits.h\<close>).\<close>

abbreviation (input) CBAUD :: u32 where "CBAUD \<equiv> 0x100f"
abbreviation (input) CSIZE :: u32 where "CSIZE \<equiv> 0x30"
abbreviation (input) CS5 :: u32 where "CS5 \<equiv> 0"
abbreviation (input) CS6 :: u32 where "CS6 \<equiv> 0x10"
abbreviation (input) CS7 :: u32 where "CS7 \<equiv> 0x20"
abbreviation (input) CS8 :: u32 where "CS8 \<equiv> 0x30"
abbreviation (input) CSTOPB :: u32 where "CSTOPB \<equiv> 0x40"
abbreviation (input) CREAD :: u32 where "CREAD \<equiv> 0x80"
abbreviation (input) PARENB :: u32 where "PARENB \<equiv> 0x100"
abbreviation (input) PARODD :: u32 where "PARODD \<equiv> 0x200"
abbreviation (input) HUPCL :: u32 where "HUPCL \<equiv> 0x400"
abbreviation (input) CLOCAL :: u32 where "CLOCAL \<equiv> 0x800"
abbreviation (input) CMSPAR :: u32 where "CMSPAR \<equiv> 0x40000000"
abbreviation (input) CRTSCTS :: u32 where "CRTSCTS \<equiv> 0x80000000"
abbreviation (input) IGNBRK :: u32 where "IGNBRK \<equiv> 1"
abbreviation (input) BRKINT :: u32 where "BRKINT \<equiv> 2"
abbreviation (input) IGNPAR :: u32 where "IGNPAR \<equiv> 4"
abbreviation (input) PARMRK :: u32 where "PARMRK \<equiv> 8"
abbreviation (input) INPCK :: u32 where "INPCK \<equiv> 0x10"
abbreviation (input) IXOFF :: u32 where "IXOFF \<equiv> 0x1000"

text \<open>Port flags (Linux \<open>tty_flags.h\<close>), tty flag bits, flip-buffer flags and modem lines.\<close>

abbreviation (input) ASYNC_HUP_NOTIFY :: u32 where "ASYNC_HUP_NOTIFY \<equiv> 0x1"
abbreviation (input) ASYNC_SAK :: u32 where "ASYNC_SAK \<equiv> 0x4"
abbreviation (input) ASYNC_LOW_LATENCY :: u32 where "ASYNC_LOW_LATENCY \<equiv> 0x2000"
abbreviation (input) ASYNC_CHECK_CD :: u32 where "ASYNC_CHECK_CD \<equiv> 0x2000000"
abbreviation (input) ASYNC_CTS_FLOW :: u32 where "ASYNC_CTS_FLOW \<equiv> 0x4000000"
abbreviation (input) ASYNC_CLOSING :: u32 where "ASYNC_CLOSING \<equiv> 0x8000000"
abbreviation (input) ASYNC_NORMAL_ACTIVE :: u32 where "ASYNC_NORMAL_ACTIVE \<equiv> 0x20000000"
abbreviation (input) ASYNC_INITIALIZED :: u32 where "ASYNC_INITIALIZED \<equiv> 0x80000000"
abbreviation (input) TTY_THROTTLED_bit :: u32 where "TTY_THROTTLED_bit \<equiv> 1"
abbreviation (input) TTY_IO_ERROR_bit :: u32 where "TTY_IO_ERROR_bit \<equiv> 2"
abbreviation (input) TTY_NORMAL :: u8 where "TTY_NORMAL \<equiv> 0"
abbreviation (input) TTY_BREAK :: u8 where "TTY_BREAK \<equiv> 1"
abbreviation (input) TTY_FRAME :: u8 where "TTY_FRAME \<equiv> 2"
abbreviation (input) TTY_PARITY :: u8 where "TTY_PARITY \<equiv> 3"
abbreviation (input) TTY_OVERRUN :: u8 where "TTY_OVERRUN \<equiv> 4"
abbreviation (input) TIOCM_DTR :: u32 where "TIOCM_DTR \<equiv> 0x2"
abbreviation (input) TIOCM_RTS :: u32 where "TIOCM_RTS \<equiv> 0x4"
abbreviation (input) TIOCM_CTS :: u32 where "TIOCM_CTS \<equiv> 0x20"
abbreviation (input) TIOCM_CAR :: u32 where "TIOCM_CAR \<equiv> 0x40"
abbreviation (input) TIOCM_RNG :: u32 where "TIOCM_RNG \<equiv> 0x80"
abbreviation (input) TIOCM_DSR :: u32 where "TIOCM_DSR \<equiv> 0x100"

text \<open>Kernel error numbers.\<close>

abbreviation (input) EIO :: int where "EIO \<equiv> 5"
abbreviation (input) EAGAIN :: int where "EAGAIN \<equiv> 11"
abbreviation (input) ENOMEM :: int where "ENOMEM \<equiv> 12"
abbreviation (input) EFAULT :: int where "EFAULT \<equiv> 14"
abbreviation (input) EBUSY :: int where "EBUSY \<equiv> 16"
abbreviation (input) ENODEV :: int where "ENODEV \<equiv> 19"
abbreviation (input) EINVAL :: int where "EINVAL \<equiv> 22"
abbreviation (input) ERESTARTSYS :: int where "ERESTARTSYS \<equiv> 512"
abbreviation (input) ENOIOCTLCMD :: int where "ENOIOCTLCMD \<equiv> 515"

end
