(* ===== verification/R56_State.thy ===== *)
theory R56_State
  imports R56_Consts
begin

text \<open>
  The data of the driver: the user-visible parameter block and counters of
  \<open>include/route56.h\<close>, the DMA buffer entry, the transmit holding buffer and the device
  instance of \<open>driver/route56.c\<close>, as records with the fields of the C structures.
  A pointer that the driver tests against NULL is an option; a pointer to an array of buffer
  entries is the list of its entries, the empty list standing for NULL; an address is a natural
  number and 0 is NULL.

  The \<open>world\<close> puts the device instance next to what the code calls but does not contain:
  the trace of port accesses and kernel calls made so far, the adapter and the kernel as functions
  from that trace to the value of the access or call made last (the parameters of the model), and
  byte memory.
\<close>

subsection \<open>Structures of the interface\<close>

record R56_PARAMS =
  mode :: u64
  loopback :: u8
  "interface" :: u8
  flags :: u16
  encoding :: u8
  clock_speed :: u64
  addr_filter :: u8
  crc_type :: u16
  preamble_length :: u8
  preamble :: u8
  data_rate :: u64
  data_bits :: u8
  stop_bits :: u8
  parity :: u8

definition default_params :: R56_PARAMS where
  "default_params =
     \<lparr> mode = R56_MODE_HDLC, loopback = 0, interface = RS530,
       flags = HDLC_FLAG_UNDERRUN_ABORT15, encoding = HDLC_ENCODING_NRZI_SPACE,
       clock_speed = 0, addr_filter = 0xff, crc_type = HDLC_CRC_16_CCITT,
       preamble_length = HDLC_PREAMBLE_LENGTH_8BITS, preamble = HDLC_PREAMBLE_PATTERN_NONE,
       data_rate = 9600, data_bits = 8, stop_bits = 1, parity = ASYNC_PARITY_NONE \<rparr>"

record r56_icount =
  ic_cts :: u32
  ic_dsr :: u32
  ic_rng :: u32
  ic_dcd :: u32
  ic_tx :: u32
  ic_rx :: u32
  ic_frame :: u32
  ic_parity :: u32
  ic_overrun :: u32
  ic_brk :: u32
  ic_buf_overrun :: u32
  ic_txok :: u32
  ic_txunder :: u32
  ic_txabort :: u32
  ic_txtimeout :: u32
  ic_rxshort :: u32
  ic_rxlong :: u32
  ic_rxabort :: u32
  ic_rxover :: u32
  ic_rxcrc :: u32
  ic_rxok :: u32
  ic_exithunt :: u32
  ic_rxidle :: u32

definition zero_icount :: r56_icount where
  "zero_icount =
     \<lparr> ic_cts = 0, ic_dsr = 0, ic_rng = 0, ic_dcd = 0, ic_tx = 0, ic_rx = 0, ic_frame = 0,
       ic_parity = 0, ic_overrun = 0, ic_brk = 0, ic_buf_overrun = 0, ic_txok = 0,
       ic_txunder = 0, ic_txabort = 0, ic_txtimeout = 0, ic_rxshort = 0, ic_rxlong = 0,
       ic_rxabort = 0, ic_rxover = 0, ic_rxcrc = 0, ic_rxok = 0, ic_exithunt = 0,
       ic_rxidle = 0 \<rparr>"

subsection \<open>Structures of the driver\<close>

record DMABUFFERENTRY =
  phys_addr :: u32
  count :: u16
  status :: u16
  rcc :: u16
  reserved :: u16
  link :: u32
  virt_addr :: nat
  phys_entry :: u32
  dma_addr :: u64

text \<open>
  The size of the structure under LP64: the eight-byte fields \<open>virt_addr\<close> and
  \<open>dma_addr\<close> are aligned to eight bytes.
\<close>

abbreviation (input) sizeof_DMABUFFERENTRY :: nat where
  "sizeof_DMABUFFERENTRY \<equiv> 40"

definition zero_entry :: DMABUFFERENTRY where
  "zero_entry =
     \<lparr> phys_addr = 0, count = 0, status = 0, rcc = 0, reserved = 0, link = 0,
       virt_addr = 0, phys_entry = 0, dma_addr = 0 \<rparr>"

text \<open>
  The store \<open>*((unsigned long *)&(entry.count)) = v\<close>: eight bytes that cover the
  fields \<open>count\<close>, \<open>status\<close>, \<open>rcc\<close> and \<open>reserved\<close>, low bytes first.
\<close>

definition store_ulong_at_count :: "u64 \<Rightarrow> DMABUFFERENTRY \<Rightarrow> DMABUFFERENTRY" where
  "store_ulong_at_count v e =
     e\<lparr> count := ucast v, status := ucast (drop_bit 16 v), rcc := ucast (drop_bit 32 v),
        reserved := ucast (drop_bit 48 v) \<rparr>"

record input_signal_events =
  ri_up :: int
  ri_down :: int
  dsr_up :: int
  dsr_down :: int
  dcd_up :: int
  dcd_down :: int
  cts_up :: int
  cts_down :: int

record tx_holding_buffer =
  buffer_size :: int
  buffer :: "u8 list option"

text \<open>The part of the kernel's \<open>tty_struct\<close> the driver reads and writes.\<close>

record tty_struct =
  stopped :: bool
  hw_stopped :: bool
  tty_flags :: u32
  c_cflag :: u32
  c_iflag :: u32
  stop_char :: int
  start_char :: int
  baud_rate :: u64

record r56_struct =
  port_tty :: "tty_struct option"
  port_flags :: u32
  port_count :: int
  port_blocked_open :: int
  line :: int
  hw_version :: int
  icount :: r56_icount
  timeout :: int
  x_char :: int
  read_status_mask :: u16
  ignore_status_mask :: u16
  xmit_buf :: "u8 list option"
  xmit_head :: int
  xmit_tail :: int
  xmit_cnt :: int
  tx_timer :: bool
  max_frame_size :: u32
  pending_bh :: u32
  bh_running :: bool
  isr_overflow :: int
  bh_requested :: bool
  dcd_chkcount :: int
  cts_chkcount :: int
  dsr_chkcount :: int
  ri_chkcount :: int
  buffer_list :: nat
  buffer_list_phys :: u32
  rx_buffer_count :: u32
  rx_buffer_list :: "DMABUFFERENTRY list"
  current_rx_buffer :: u32
  num_tx_dma_buffers :: int
  tx_dma_buffers_used :: int
  tx_buffer_count :: u32
  tx_buffer_list :: "DMABUFFERENTRY list"
  start_tx_dma_buffer :: int
  current_tx_buffer :: int
  intermediate_rxbuffer :: "u8 list option"
  num_tx_holding_buffers :: int
  get_tx_holding_index :: int
  put_tx_holding_index :: int
  tx_holding_count :: int
  tx_holding_buffers :: "tx_holding_buffer list"
  rx_enabled :: bool
  rx_overflow :: bool
  rx_rcc_underrun :: bool
  tx_enabled :: bool
  tx_active :: bool
  idle_mode :: u32
  cmr_value :: u16
  tcsr_value :: u16
  bus_type :: u32
  io_base :: u32
  io_addr_requested :: bool
  irq_requested :: bool
  dma_requested :: bool
  mbre_bit :: u16
  loopback_bits :: u16
  usc_idle_mode :: u16
  params :: R56_PARAMS
  serial_signals :: u8
  irq_occurred :: bool
  init_error :: u32
  last_mem_alloc :: u32
  memory_base :: nat
  phys_memory_base :: u32
  lcr_base :: nat
  phys_lcr_base :: u32
  lcr_offset :: u32
  lcr_mem_requested :: bool
  drop_rts_on_tx_done :: bool
  enable_rx_on_tx_done :: bool
  loopmode_insert_requested :: bool
  loopmode_send_done_requested :: bool
  sig_events :: input_signal_events
  netcount :: int

text \<open>The zeroed structures that \<open>kzalloc\<close> and \<open>memset\<close> produce.\<close>

definition zero_params :: R56_PARAMS where
  "zero_params =
     \<lparr> mode = 0, loopback = 0, interface = 0, flags = 0, encoding = 0, clock_speed = 0,
       addr_filter = 0, crc_type = 0, preamble_length = 0, preamble = 0, data_rate = 0,
       data_bits = 0, stop_bits = 0, parity = 0 \<rparr>"

definition zero_sig_events :: input_signal_events where
  "zero_sig_events =
     \<lparr> ri_up = 0, ri_down = 0, dsr_up = 0, dsr_down = 0, dcd_up = 0, dcd_down = 0,
       cts_up = 0, cts_down = 0 \<rparr>"

definition zero_holding_buffer :: tx_holding_buffer where
  "zero_holding_buffer = \<lparr> buffer_size = 0, buffer = None \<rparr>"

definition zero_info :: r56_struct where
  "zero_info =
     \<lparr>
       port_tty = None, port_flags = 0, port_count = 0, port_blocked_open = 0, line = 0,
       hw_version = 0, icount = zero_icount, timeout = 0, x_char = 0, read_status_mask = 0,
       ignore_status_mask = 0, xmit_buf = None, xmit_head = 0, xmit_tail = 0, xmit_cnt = 0,
       tx_timer = False, max_frame_size = 0, pending_bh = 0, bh_running = False,
       isr_overflow = 0, bh_requested = False, dcd_chkcount = 0, cts_chkcount = 0,
       dsr_chkcount = 0, ri_chkcount = 0, buffer_list = 0, buffer_list_phys = 0,
       rx_buffer_count = 0, rx_buffer_list = [], current_rx_buffer = 0, num_tx_dma_buffers = 0,
       tx_dma_buffers_used = 0, tx_buffer_count = 0, tx_buffer_list = [],
       start_tx_dma_buffer = 0, current_tx_buffer = 0, intermediate_rxbuffer = None,
       num_tx_holding_buffers = 0, get_tx_holding_index = 0, put_tx_holding_index = 0,
       tx_holding_count = 0, tx_holding_buffers = replicate 5 zero_holding_buffer, rx_enabled = False, rx_overflow = False,
       rx_rcc_underrun = False, tx_enabled = False, tx_active = False, idle_mode = 0,
       cmr_value = 0, tcsr_value = 0, bus_type = 0, io_base = 0, io_addr_requested = False,
       irq_requested = False, dma_requested = False, mbre_bit = 0, loopback_bits = 0,
       usc_idle_mode = 0, params = zero_params, serial_signals = 0, irq_occurred = False,
       init_error = 0, last_mem_alloc = 0, memory_base = 0, phys_memory_base = 0, lcr_base = 0,
       phys_lcr_base = 0, lcr_offset = 0, lcr_mem_requested = False,
       drop_rts_on_tx_done = False, enable_rx_on_tx_done = False,
       loopmode_insert_requested = False, loopmode_send_done_requested = False,
       sig_events = zero_sig_events, netcount = 0 \<rparr>"

subsection \<open>Accesses, calls and the world\<close>

datatype wait_queue = Status_event_wait_q | Event_wait_q | Open_wait_q

datatype kcall =
    Wake_up_interruptible wait_queue
  | Tty_wakeup | Tty_hangup | Do_SAK
  | Tty_insert_flip_char u8 u8 | Tty_flip_buffer_push
  | Ldisc_receive_buf "u8 list"
  | Mod_timer | Del_timer
  | Schedule_work
  | Request_region | Release_region | Request_irq | Free_irq | Request_dma | Free_dma
  | Ioremap u32 nat | Iounmap nat
  | Dma_alloc_coherent nat | Dma_free_coherent nat
  | Kmalloc nat | Kfree | Get_zeroed_page | Free_page
  | Set_dma_mode | Enable_dma | Disable_dma
  | Time_after | Msleep | Schedule | Signal_pending | Interruptible_sleep_on
  | Add_wait_queue wait_queue | Remove_wait_queue wait_queue | Waitqueue_active wait_queue
  | Tty_hung_up_p | Tty_ldisc_flush | Tty_port_close_start | Tty_port_close_end | Capable

datatype event =
    Outb u32 u8 | Inb u32 | Writew u16 u16 | Readw u16 | Writel nat u32 | Readl nat
  | Call kcall

text \<open>
  What is outside the program, as functions of the history: \<open>dev_inb\<close>,
  \<open>dev_readw\<close> and \<open>dev_readl\<close> are the adapter's answers to a port read, to a
  register read and to a read of shared memory that comes after the given accesses,
  \<open>dev_dma\<close> is what its DMA controller has made of the receive entries and of memory by
  then, \<open>os_ret\<close> is the kernel's return value of the call that the
  given history ends with, \<open>os_dma\<close> the bus address that a coherent allocation also
  returns, \<open>os_mem\<close> the contents of a block it allocates, \<open>hz\<close> is the timer frequency of the kernel.
\<close>

record environment =
  dev_inb :: "event list \<Rightarrow> u32 \<Rightarrow> u8"
  dev_readw :: "event list \<Rightarrow> u16 \<Rightarrow> u16"
  dev_readl :: "event list \<Rightarrow> nat \<Rightarrow> u32"
  dev_dma :: "event list \<Rightarrow> DMABUFFERENTRY list \<times> memory \<Rightarrow> DMABUFFERENTRY list \<times> memory"
  os_ret :: "event list \<Rightarrow> int"
  os_dma :: "event list \<Rightarrow> u64"
  os_mem :: "event list \<Rightarrow> nat \<Rightarrow> u8"
  hz :: int

record world =
  info :: r56_struct
  env :: environment
  trace :: "event list"
  mem :: memory

definition emit :: "event \<Rightarrow> world \<Rightarrow> world" where
  "emit e w = w\<lparr> trace := trace w @ [e] \<rparr>"

definition kcall :: "kcall \<Rightarrow> world \<Rightarrow> world" where
  "kcall c w = emit (Call c) w"

lemma emit_simps [simp]:
  "info (emit e w) = info w" "env (emit e w) = env w" "mem (emit e w) = mem w"
  "trace (emit e w) = trace w @ [e]"
  by (simp_all add: emit_def)

lemma kcall_simps [simp]:
  "info (kcall c w) = info w" "env (kcall c w) = env w" "mem (kcall c w) = mem w"
  "trace (kcall c w) = trace w @ [Call c]"
  by (simp_all add: kcall_def)

text \<open>Assignments to fields of the device instance and of its nested structures.\<close>

abbreviation set_info :: "(r56_struct \<Rightarrow> r56_struct) \<Rightarrow> world \<Rightarrow> world" where
  "set_info f w \<equiv> info_update f w"

abbreviation set_icount :: "(r56_icount \<Rightarrow> r56_icount) \<Rightarrow> world \<Rightarrow> world" where
  "set_icount f w \<equiv> info_update (icount_update f) w"

abbreviation set_params :: "(R56_PARAMS \<Rightarrow> R56_PARAMS) \<Rightarrow> world \<Rightarrow> world" where
  "set_params f w \<equiv> info_update (params_update f) w"

lemma info_update_eqI: "f (info w) = g (info w) \<Longrightarrow> info_update f w = info_update g w"
  by (cases w) simp

text \<open>Array access: an index outside the array is undefined behaviour, the value None.\<close>

definition aget :: "'a list \<Rightarrow> nat \<Rightarrow> 'a option" where
  "aget xs i = (if i < length xs then Some (xs ! i) else None)"

definition aset :: "'a list \<Rightarrow> nat \<Rightarrow> 'a \<Rightarrow> 'a list option" where
  "aset xs i v = (if i < length xs then Some (xs[i := v]) else None)"

lemma aget_Some_iff [simp]: "aget xs i = Some v \<longleftrightarrow> i < length xs \<and> v = xs ! i"
  by (auto simp: aget_def)

lemma aget_in [simp]: "i < length xs \<Longrightarrow> aget xs i = Some (xs ! i)"
  by (simp add: aget_def)

lemma aset_in [simp]: "i < length xs \<Longrightarrow> aset xs i v = Some (xs[i := v])"
  by (simp add: aset_def)

lemma aset_Some_iff [simp]: "aset xs i v = Some ys \<longleftrightarrow> i < length xs \<and> ys = xs[i := v]"
  by (auto simp: aset_def)

end
