(* ===== verification/R56_Bus.thy ===== *)
theory R56_Bus
  imports R56_State
begin

text \<open>
  Access to the 16C32 serial controller: port input and output, the register accessors
  \<open>usc_OutReg\<close> and \<open>usc_InReg\<close> with the bank switching of the model 5101
  adapter, and the command and interrupt macros built on them.

  The interface the rest of the driver relies on is the locale \<open>register_bus\<close>: a write
  reaches exactly the named register, a read writes none, and neither touches the device
  instance. It is interpreted on the two accessors; everything after it uses only its facts.
\<close>

subsection \<open>Port and register accesses\<close>

definition inb :: "u32 \<Rightarrow> world \<Rightarrow> u8 \<times> world" where
  "inb a w = (dev_inb (env w) (trace w) a, emit (Inb a) w)"

definition outb :: "u8 \<Rightarrow> u32 \<Rightarrow> world \<Rightarrow> world" where
  "outb v a w = emit (Outb a v) w"

definition readw :: "u16 \<Rightarrow> world \<Rightarrow> u16 \<times> world" where
  "readw r w = (dev_readw (env w) (trace w) r, emit (Readw r) w)"

definition writew :: "u16 \<Rightarrow> u16 \<Rightarrow> world \<Rightarrow> world" where
  "writew v r w = emit (Writew r v) w"

definition usc_OutReg :: "world \<Rightarrow> u16 \<Rightarrow> u16 \<Rightarrow> world" where
  "usc_OutReg w RegAddr RegValue =
    (let (temp, NeedsChanged, w) =
          (if hw_version (info w) = R561_DEVICE_ID
           then let (temp, w) = inb (io_base (info w)) w
                in if \<not> tst temp 0x80 \<or> tst temp 0x40
                   then let temp = (temp OR 0x80) AND NOT 0x40;
                            w = outb temp (io_base (info w)) w;
                            (_, w) = inb (io_base (info w)) w
                        in (temp, True, w)
                   else (temp, False, w)
           else (0, False, w));
         w = writew RegValue RegAddr w
     in if NeedsChanged
        then let w = outb (temp OR 0x40) (io_base (info w)) w
             in snd (inb (io_base (info w)) w)
        else w)"

definition usc_InReg :: "world \<Rightarrow> u16 \<Rightarrow> u16 \<times> world" where
  "usc_InReg w RegAddr =
    (let (temp, NeedsChanged, w) =
          (if hw_version (info w) = R561_DEVICE_ID
           then let (temp, w) = inb (io_base (info w)) w
                in if \<not> tst temp 0x80 \<or> tst temp 0x40
                   then let temp = (temp OR 0x80) AND NOT 0x40;
                            w = outb temp (io_base (info w)) w;
                            (_, w) = inb (io_base (info w)) w
                        in (temp, True, w)
                   else (temp, False, w)
           else (0, False, w));
         (old, w) = readw RegAddr w
     in (old,
         if NeedsChanged
         then let w = outb (temp OR 0x40) (io_base (info w)) w
              in snd (inb (io_base (info w)) w)
         else w))"

subsection \<open>The register writes of a history\<close>

fun write_of :: "event \<Rightarrow> (u16 \<times> u16) list" where
  "write_of (Writew r v) = [(r, v)]"
| "write_of _ = []"

definition writes :: "event list \<Rightarrow> (u16 \<times> u16) list" where
  "writes es = concat (map write_of es)"

text \<open>The value the driver wrote last to each register.\<close>

definition wrote :: "world \<Rightarrow> u16 \<Rightarrow> u16 option" where
  "wrote w = map_of (rev (writes (trace w)))"

lemma writes_append [simp]: "writes (es @ fs) = writes es @ writes fs"
  by (simp add: writes_def)

lemma writes_Nil [simp]: "writes [] = []"
  by (simp add: writes_def)

lemma writes_single [simp]: "writes [e] = write_of e"
  by (simp add: writes_def)

lemma wrote_emit: "wrote (emit e w) = (case e of Writew r v \<Rightarrow> (wrote w)(r \<mapsto> v) | _ \<Rightarrow> wrote w)"
  by (cases e) (simp_all add: wrote_def)

lemma wrote_kcall [simp]: "wrote (kcall c w) = wrote w"
  by (simp add: kcall_def wrote_emit)

lemma wrote_info_update [simp]: "wrote (info_update f w) = wrote w"
  by (simp add: wrote_def)

lemma wrote_mem_update [simp]: "wrote (mem_update f w) = wrote w"
  by (simp add: wrote_def)

lemma wrote_outb [simp]: "wrote (outb v a w) = wrote w"
  by (simp add: outb_def wrote_emit)

lemma wrote_inb [simp]: "wrote (snd (inb a w)) = wrote w"
  by (simp add: inb_def wrote_emit)

lemma outb_frame [simp]:
  "info (outb v a w) = info w" "env (outb v a w) = env w" "mem (outb v a w) = mem w"
  by (simp_all add: outb_def)

lemma inb_frame [simp]:
  "info (snd (inb a w)) = info w" "env (snd (inb a w)) = env w" "mem (snd (inb a w)) = mem w"
  by (simp_all add: inb_def)

lemma writew_frame [simp]:
  "info (writew v r w) = info w" "env (writew v r w) = env w" "mem (writew v r w) = mem w"
  "wrote (writew v r w) = (wrote w)(r \<mapsto> v)"
  by (simp_all add: writew_def wrote_emit)

lemma readw_frame [simp]:
  "info (snd (readw r w)) = info w" "env (snd (readw r w)) = env w"
  "mem (snd (readw r w)) = mem w" "wrote (snd (readw r w)) = wrote w"
  by (simp_all add: readw_def wrote_emit)

text \<open>
  The value of an output port after a history, and an adapter whose ports and registers read back
  what was written: the instance at which the hypotheses on the adapter are shown to hold.
\<close>

fun port_after :: "u32 \<Rightarrow> u8 \<Rightarrow> event list \<Rightarrow> u8" where
  "port_after a b [] = b"
| "port_after a b (Outb a' v # es) = port_after a (if a' = a then v else b) es"
| "port_after a b (_ # es) = port_after a b es"

lemma port_after_append: "port_after a b (es @ fs) = port_after a (port_after a b es) fs"
  by (induction a b es rule: port_after.induct) simp_all

fun last_writel :: "nat \<Rightarrow> u32 \<Rightarrow> event list \<Rightarrow> u32" where
  "last_writel a v [] = v"
| "last_writel a v (Writel a' u # es) = last_writel a (if a' = a then u else v) es"
| "last_writel a v (_ # es) = last_writel a v es"

definition regfile_env :: environment where
  "regfile_env =
     \<lparr> dev_inb = (\<lambda>es a. port_after a 0 es),
       dev_readw = (\<lambda>es r. case map_of (rev (writes es)) r of None \<Rightarrow> 0 | Some v \<Rightarrow> v),
       dev_readl = (\<lambda>es a. last_writel a 0 es), dev_dma = (\<lambda>es. id),
       os_ret = (\<lambda>es. 0), os_dma = (\<lambda>es. 0), os_mem = (\<lambda>es n. 0), hz = 100 \<rparr>"

definition world0 :: world where
  "world0 = \<lparr> info = zero_info, env = regfile_env, trace = [], mem = (\<lambda>_. 0) \<rparr>"

subsection \<open>The interface of a register bus\<close>

locale register_bus =
  fixes out :: "'w \<Rightarrow> u16 \<Rightarrow> u16 \<Rightarrow> 'w"
    and inp :: "'w \<Rightarrow> u16 \<Rightarrow> u16 \<times> 'w"
    and rmw :: "'w \<Rightarrow> u16 \<Rightarrow> (u16 \<Rightarrow> u16) \<Rightarrow> 'w"
    and shadow :: "'w \<Rightarrow> u16 \<Rightarrow> u16 option"
    and inst :: "'w \<Rightarrow> 'i"
    and rest :: "'w \<Rightarrow> 'r"
  assumes shadow_out: "shadow (out w r v) = (shadow w)(r \<mapsto> v)"
    and shadow_inp: "shadow (snd (inp w r)) = shadow w"
    and inst_out: "inst (out w r v) = inst w"
    and inst_inp: "inst (snd (inp w r)) = inst w"
    and rest_out: "rest (out w r v) = rest w"
    and rest_inp: "rest (snd (inp w r)) = rest w"
    and rmw_eq: "rmw w r f = out (snd (inp w r)) r (f (fst (inp w r)))"
begin

lemma inst_rmw: "inst (rmw w r f) = inst w"
  by (simp add: rmw_eq inst_out inst_inp)

lemma rest_rmw: "rest (rmw w r f) = rest w"
  by (simp add: rmw_eq rest_out rest_inp)

lemma shadow_rmw: "shadow (rmw w r f) = (shadow w)(r \<mapsto> f (fst (inp w r)))"
  by (simp add: rmw_eq shadow_out shadow_inp)

lemma shadow_rmw_other: "r \<noteq> r' \<Longrightarrow> shadow (rmw w r f) r' = shadow w r'"
  by (simp add: shadow_rmw)

text \<open>A property of the written value that holds for every value read.\<close>

lemma shadow_rmw_prop:
  assumes "\<And>v. P (f v)"
  shows "\<exists>v. shadow (rmw w r f) r = Some v \<and> P v"
  using assms by (simp add: shadow_rmw)

text \<open>A sequence of writes leaves, in each register, the last value of the sequence.\<close>

fun outs :: "'w \<Rightarrow> (u16 \<times> u16) list \<Rightarrow> 'w" where
  "outs w [] = w"
| "outs w ((r, v) # rs) = outs (out w r v) rs"

lemma shadow_outs: "shadow (outs w rs) = shadow w ++ map_of (rev rs)"
  by (induction w rs rule: outs.induct) (simp_all add: shadow_out del: fun_upd_apply)

lemma inst_outs: "inst (outs w rs) = inst w"
  by (induction w rs rule: outs.induct) (simp_all add: inst_out)

end

lemma usc_OutReg_frame [simp]:
  "info (usc_OutReg w r v) = info w" "env (usc_OutReg w r v) = env w"
  "mem (usc_OutReg w r v) = mem w"
  by (simp_all add: usc_OutReg_def Let_def case_prod_unfold)

lemma wrote_usc_OutReg [simp]: "wrote (usc_OutReg w r v) = (wrote w)(r \<mapsto> v)"
  by (simp add: usc_OutReg_def Let_def case_prod_unfold)

lemma usc_InReg_frame [simp]:
  "info (snd (usc_InReg w r)) = info w" "env (snd (usc_InReg w r)) = env w"
  "mem (snd (usc_InReg w r)) = mem w" "wrote (snd (usc_InReg w r)) = wrote w"
  by (simp_all add: usc_InReg_def Let_def case_prod_unfold)

text \<open>The pattern \<open>usc_OutReg(info, R, f(usc_InReg(info, R)))\<close> of the driver.\<close>

definition usc_rmw :: "world \<Rightarrow> u16 \<Rightarrow> (u16 \<Rightarrow> u16) \<Rightarrow> world" where
  "usc_rmw w r f = (let (v, w) = usc_InReg w r in usc_OutReg w r (f v))"

interpretation usc: register_bus usc_OutReg usc_InReg usc_rmw wrote info "\<lambda>w. (env w, mem w)"
  by unfold_locales (simp_all add: usc_rmw_def case_prod_unfold Let_def)

lemma usc_rmw_frame [simp]:
  "info (usc_rmw w r f) = info w" "env (usc_rmw w r f) = env w" "mem (usc_rmw w r f) = mem w"
  using usc.rest_rmw [of w r f] by (simp_all add: usc.inst_rmw)

lemmas wrote_usc_rmw [simp] = usc.shadow_rmw

subsection \<open>Command and interrupt macros\<close>

definition usc_UnlatchRxstatusBits :: "world \<Rightarrow> u16 \<Rightarrow> world" where
  "usc_UnlatchRxstatusBits a b = usc_OutReg a RCSR (b AND RXSTATUS_ALL)"

definition usc_UnlatchTxstatusBits :: "world \<Rightarrow> u16 \<Rightarrow> world" where
  "usc_UnlatchTxstatusBits a b = usc_OutReg a TCSR (tcsr_value (info a) + (b AND 0x00FF))"

definition usc_UnlatchIostatusBits :: "world \<Rightarrow> u16 \<Rightarrow> world" where
  "usc_UnlatchIostatusBits a b = usc_OutReg a MISR (b AND 0xaaa0)"

definition usc_UnlatchMiscstatusBits :: "world \<Rightarrow> u16 \<Rightarrow> world" where
  "usc_UnlatchMiscstatusBits a b = usc_OutReg a MISR (b AND 0x000f)"

definition usc_EnableInterrupts :: "world \<Rightarrow> u16 \<Rightarrow> world" where
  "usc_EnableInterrupts a b = usc_rmw a ICR (\<lambda>v. (v AND 0xff00) + 0xc0 + b)"

definition usc_DisableInterrupts :: "world \<Rightarrow> u16 \<Rightarrow> world" where
  "usc_DisableInterrupts a b = usc_rmw a ICR (\<lambda>v. (v AND 0xff00) + 0x80 + b)"

definition usc_EnableMasterIrqBit :: "world \<Rightarrow> world" where
  "usc_EnableMasterIrqBit a =
    (let a = usc_rmw a ICR (\<lambda>v. (v AND 0x0f00) + 0xb000)
     in outb 0x40 (io_base (info a) + 4) a)"

definition usc_DisableMasterIrqBit :: "world \<Rightarrow> world" where
  "usc_DisableMasterIrqBit a =
    (let a = usc_rmw a ICR (\<lambda>v. v AND 0x7f00)
     in outb 0x00 (io_base (info a) + 4) a)"

definition usc_ClearIrqPendingBits :: "world \<Rightarrow> u16 \<Rightarrow> world" where
  "usc_ClearIrqPendingBits a b = usc_OutReg a DCCR (0x40 + b)"

definition usc_EnableStatusIrqs :: "world \<Rightarrow> u16 \<Rightarrow> world" where
  "usc_EnableStatusIrqs a b = usc_rmw a SICR (\<lambda>v. v OR b)"

definition usc_DisablestatusIrqs :: "world \<Rightarrow> u16 \<Rightarrow> world" where
  "usc_DisablestatusIrqs a b = usc_rmw a SICR (\<lambda>v. v AND NOT b)"

definition usc_EnableTransmitter :: "world \<Rightarrow> u16 \<Rightarrow> world" where
  "usc_EnableTransmitter a b = usc_rmw a TMR (\<lambda>v. (v AND 0xfffc) OR b)"

definition usc_EnableReceiver :: "world \<Rightarrow> u16 \<Rightarrow> world" where
  "usc_EnableReceiver a b = usc_rmw a RMR (\<lambda>v. (v AND 0xfffc) OR b)"

definition usc_TCmd :: "world \<Rightarrow> u16 \<Rightarrow> world" where
  "usc_TCmd a b = usc_OutReg a TCSR (tcsr_value (info a) + b)"

definition usc_RCmd :: "world \<Rightarrow> u16 \<Rightarrow> world" where
  "usc_RCmd a b = usc_OutReg a RCSR b"

definition usc_SetTransmitSyncChars :: "world \<Rightarrow> u8 \<Rightarrow> u8 \<Rightarrow> world" where
  "usc_SetTransmitSyncChars a s0 s1 = usc_OutReg a TSR (push_bit 8 (ucast s0) OR ucast s1)"

definition usc_RTCmd :: "world \<Rightarrow> u16 \<Rightarrow> world" where
  "usc_RTCmd w Cmd = usc_OutReg w CCAR (Cmd + loopback_bits (info w))"

definition usc_DmaCmd :: "world \<Rightarrow> u16 \<Rightarrow> world" where
  "usc_DmaCmd w Cmd = usc_OutReg w DCAR (Cmd + mbre_bit (info w))"

definition usc_OutDmaReg :: "world \<Rightarrow> u16 \<Rightarrow> u16 \<Rightarrow> world" where
  "usc_OutDmaReg w RegAddr RegValue = usc_OutReg w RegAddr RegValue"

definition usc_InDmaReg :: "world \<Rightarrow> u16 \<Rightarrow> u16 \<times> world" where
  "usc_InDmaReg w RegAddr = usc_InReg w RegAddr"

definition usc_EnableDmaInterrupts :: "world \<Rightarrow> u16 \<Rightarrow> world" where
  "usc_EnableDmaInterrupts a b = (let (v, a) = usc_InDmaReg a DICR in usc_OutDmaReg a DICR (v OR b))"

definition usc_DisableDmaInterrupts :: "world \<Rightarrow> u16 \<Rightarrow> world" where
  "usc_DisableDmaInterrupts a b =
     (let (v, a) = usc_InDmaReg a DICR in usc_OutDmaReg a DICR (v AND NOT b))"

lemmas usc_macro_defs =
  usc_UnlatchRxstatusBits_def usc_UnlatchTxstatusBits_def usc_UnlatchIostatusBits_def
  usc_UnlatchMiscstatusBits_def usc_EnableInterrupts_def usc_DisableInterrupts_def
  usc_EnableMasterIrqBit_def usc_DisableMasterIrqBit_def usc_ClearIrqPendingBits_def
  usc_EnableStatusIrqs_def usc_DisablestatusIrqs_def usc_EnableTransmitter_def
  usc_EnableReceiver_def usc_TCmd_def usc_RCmd_def usc_SetTransmitSyncChars_def
  usc_RTCmd_def usc_DmaCmd_def usc_OutDmaReg_def usc_InDmaReg_def
  usc_EnableDmaInterrupts_def usc_DisableDmaInterrupts_def Let_def case_prod_unfold

text \<open>No macro changes the device instance, the environment or memory.\<close>

lemma info_usc_macros [simp]:
  "info (usc_UnlatchRxstatusBits w b) = info w"
  "info (usc_UnlatchTxstatusBits w b) = info w"
  "info (usc_UnlatchIostatusBits w b) = info w"
  "info (usc_UnlatchMiscstatusBits w b) = info w"
  "info (usc_EnableInterrupts w b) = info w"
  "info (usc_DisableInterrupts w b) = info w"
  "info (usc_EnableMasterIrqBit w) = info w"
  "info (usc_DisableMasterIrqBit w) = info w"
  "info (usc_ClearIrqPendingBits w b) = info w"
  "info (usc_EnableStatusIrqs w b) = info w"
  "info (usc_DisablestatusIrqs w b) = info w"
  "info (usc_EnableTransmitter w b) = info w"
  "info (usc_EnableReceiver w b) = info w"
  "info (usc_TCmd w b) = info w"
  "info (usc_RCmd w b) = info w"
  "info (usc_SetTransmitSyncChars w s0 s1) = info w"
  "info (usc_RTCmd w b) = info w"
  "info (usc_DmaCmd w b) = info w"
  "info (usc_OutDmaReg w r v) = info w"
  "info (usc_EnableDmaInterrupts w b) = info w"
  "info (usc_DisableDmaInterrupts w b) = info w"
  "info (snd (usc_InDmaReg w r)) = info w"
  by (simp_all add: usc_macro_defs)

lemma env_usc_macros [simp]:
  "env (usc_UnlatchRxstatusBits w b) = env w"
  "env (usc_UnlatchTxstatusBits w b) = env w"
  "env (usc_UnlatchIostatusBits w b) = env w"
  "env (usc_UnlatchMiscstatusBits w b) = env w"
  "env (usc_EnableInterrupts w b) = env w"
  "env (usc_DisableInterrupts w b) = env w"
  "env (usc_EnableMasterIrqBit w) = env w"
  "env (usc_DisableMasterIrqBit w) = env w"
  "env (usc_ClearIrqPendingBits w b) = env w"
  "env (usc_EnableStatusIrqs w b) = env w"
  "env (usc_DisablestatusIrqs w b) = env w"
  "env (usc_EnableTransmitter w b) = env w"
  "env (usc_EnableReceiver w b) = env w"
  "env (usc_TCmd w b) = env w"
  "env (usc_RCmd w b) = env w"
  "env (usc_SetTransmitSyncChars w s0 s1) = env w"
  "env (usc_RTCmd w b) = env w"
  "env (usc_DmaCmd w b) = env w"
  "env (usc_OutDmaReg w r v) = env w"
  "env (usc_EnableDmaInterrupts w b) = env w"
  "env (usc_DisableDmaInterrupts w b) = env w"
  "env (snd (usc_InDmaReg w r)) = env w"
  by (simp_all add: usc_macro_defs)

lemma mem_usc_macros [simp]:
  "mem (usc_UnlatchRxstatusBits w b) = mem w"
  "mem (usc_UnlatchTxstatusBits w b) = mem w"
  "mem (usc_UnlatchIostatusBits w b) = mem w"
  "mem (usc_UnlatchMiscstatusBits w b) = mem w"
  "mem (usc_EnableInterrupts w b) = mem w"
  "mem (usc_DisableInterrupts w b) = mem w"
  "mem (usc_EnableMasterIrqBit w) = mem w"
  "mem (usc_DisableMasterIrqBit w) = mem w"
  "mem (usc_ClearIrqPendingBits w b) = mem w"
  "mem (usc_EnableStatusIrqs w b) = mem w"
  "mem (usc_DisablestatusIrqs w b) = mem w"
  "mem (usc_EnableTransmitter w b) = mem w"
  "mem (usc_EnableReceiver w b) = mem w"
  "mem (usc_TCmd w b) = mem w"
  "mem (usc_RCmd w b) = mem w"
  "mem (usc_SetTransmitSyncChars w s0 s1) = mem w"
  "mem (usc_RTCmd w b) = mem w"
  "mem (usc_DmaCmd w b) = mem w"
  "mem (usc_OutDmaReg w r v) = mem w"
  "mem (usc_EnableDmaInterrupts w b) = mem w"
  "mem (usc_DisableDmaInterrupts w b) = mem w"
  "mem (snd (usc_InDmaReg w r)) = mem w"
  by (simp_all add: usc_macro_defs)

lemma wrote_usc_macros [simp]:
  "wrote (usc_UnlatchRxstatusBits w b) = (wrote w)(RCSR \<mapsto> b AND RXSTATUS_ALL)"
  "wrote (usc_UnlatchTxstatusBits w b) = (wrote w)(TCSR \<mapsto> tcsr_value (info w) + (b AND 0xff))"
  "wrote (usc_UnlatchIostatusBits w b) = (wrote w)(MISR \<mapsto> b AND 0xaaa0)"
  "wrote (usc_UnlatchMiscstatusBits w b) = (wrote w)(MISR \<mapsto> b AND 0xf)"
  "wrote (usc_EnableInterrupts w b) =
     (wrote w)(ICR \<mapsto> (fst (usc_InReg w ICR) AND 0xff00) + 0xc0 + b)"
  "wrote (usc_DisableInterrupts w b) =
     (wrote w)(ICR \<mapsto> (fst (usc_InReg w ICR) AND 0xff00) + 0x80 + b)"
  "wrote (usc_EnableMasterIrqBit w) =
     (wrote w)(ICR \<mapsto> (fst (usc_InReg w ICR) AND 0x0f00) + 0xb000)"
  "wrote (usc_DisableMasterIrqBit w) = (wrote w)(ICR \<mapsto> fst (usc_InReg w ICR) AND 0x7f00)"
  "wrote (usc_ClearIrqPendingBits w b) = (wrote w)(DCCR \<mapsto> 0x40 + b)"
  "wrote (usc_EnableStatusIrqs w b) = (wrote w)(SICR \<mapsto> fst (usc_InReg w SICR) OR b)"
  "wrote (usc_DisablestatusIrqs w b) = (wrote w)(SICR \<mapsto> fst (usc_InReg w SICR) AND NOT b)"
  "wrote (usc_EnableTransmitter w b) =
     (wrote w)(TMR \<mapsto> (fst (usc_InReg w TMR) AND 0xfffc) OR b)"
  "wrote (usc_EnableReceiver w b) =
     (wrote w)(RMR \<mapsto> (fst (usc_InReg w RMR) AND 0xfffc) OR b)"
  "wrote (usc_TCmd w b) = (wrote w)(TCSR \<mapsto> tcsr_value (info w) + b)"
  "wrote (usc_RCmd w b) = (wrote w)(RCSR \<mapsto> b)"
  "wrote (usc_SetTransmitSyncChars w s0 s1) =
     (wrote w)(TSR \<mapsto> push_bit 8 (ucast s0) OR ucast s1)"
  "wrote (usc_RTCmd w b) = (wrote w)(CCAR \<mapsto> b + loopback_bits (info w))"
  "wrote (usc_DmaCmd w b) = (wrote w)(DCAR \<mapsto> b + mbre_bit (info w))"
  "wrote (usc_OutDmaReg w r v) = (wrote w)(r \<mapsto> v)"
  "wrote (snd (usc_InDmaReg w r)) = wrote w"
  "wrote (usc_EnableDmaInterrupts w b) = (wrote w)(DICR \<mapsto> fst (usc_InReg w DICR) OR b)"
  "wrote (usc_DisableDmaInterrupts w b) =
     (wrote w)(DICR \<mapsto> fst (usc_InReg w DICR) AND NOT b)"
  by (simp_all add: usc_macro_defs)

end
