(* ===== verification/R56_Usc.thy ===== *)
theory R56_Usc
  imports R56_Bus
begin

text \<open>
  Programming of the 16C32 that needs no buffer lists: the modem signals, the transmit idle
  pattern, the baud rate generators, the internal loopback, the HDLC loop mode, stopping the
  receiver and the transmitter, and the three mode set-up routines of
  \<open>driver/route56.c\<close>.
\<close>

subsection \<open>Modem signals\<close>

definition usc_get_serial_signals :: "world \<Rightarrow> world" where
  "usc_get_serial_signals w =
    (let w = set_info (serial_signals_update (\<lambda>s. s AND (SerialSignal_DTR + SerialSignal_RTS))) w;
         (st, w) = usc_InReg w MISR;
         w = (if tst st MISCSTATUS_CTS
              then set_info (serial_signals_update (\<lambda>s. s OR SerialSignal_CTS)) w else w);
         w = (if tst st MISCSTATUS_DCD
              then set_info (serial_signals_update (\<lambda>s. s OR SerialSignal_DCD)) w else w);
         w = (if tst st MISCSTATUS_RI
              then set_info (serial_signals_update (\<lambda>s. s OR SerialSignal_RI)) w else w);
         w = (if tst st MISCSTATUS_DSR
              then set_info (serial_signals_update (\<lambda>s. s OR SerialSignal_DSR)) w else w)
     in w)"

definition usc_set_serial_signals :: "world \<Rightarrow> world" where
  "usc_set_serial_signals w =
    (let V24Out = serial_signals (info w);
         (Control, w) = usc_InReg w PCR;
         Control = (if tst V24Out SerialSignal_RTS
                    then (Control AND NOT (BIT14 + BIT15)) OR BIT15
                    else Control OR (BIT14 + BIT15));
         Control = (if tst V24Out SerialSignal_DTR
                    then (Control AND NOT (BIT12 + BIT13)) OR BIT13
                    else Control OR (BIT12 + BIT13))
     in usc_OutReg w PCR Control)"

subsection \<open>Transmit idle pattern\<close>

definition txidle_bits :: "u32 \<Rightarrow> u16" where
  "txidle_bits m =
    (if m = HDLC_TXIDLE_FLAGS then IDLEMODE_FLAGS
     else if m = HDLC_TXIDLE_ALT_ZEROS_ONES then IDLEMODE_ALT_ONE_ZERO
     else if m = HDLC_TXIDLE_ZEROS then IDLEMODE_ZERO
     else if m = HDLC_TXIDLE_ONES then IDLEMODE_ONE
     else if m = HDLC_TXIDLE_ALT_MARK_SPACE then IDLEMODE_ALT_MARK_SPACE
     else if m = HDLC_TXIDLE_SPACE then IDLEMODE_SPACE
     else if m = HDLC_TXIDLE_MARK then IDLEMODE_MARK
     else IDLEMODE_FLAGS)"

definition txidle_syncpat :: "u32 \<Rightarrow> u8" where
  "txidle_syncpat m =
    (if m = HDLC_TXIDLE_FLAGS then 0x7e
     else if m = HDLC_TXIDLE_ALT_ZEROS_ONES then 0x55
     else if m = HDLC_TXIDLE_ZEROS \<or> m = HDLC_TXIDLE_SPACE then 0x00
     else if m = HDLC_TXIDLE_ONES \<or> m = HDLC_TXIDLE_MARK then 0xff
     else if m = HDLC_TXIDLE_ALT_MARK_SPACE then 0xaa
     else 0)"

definition usc_set_txidle :: "world \<Rightarrow> world" where
  "usc_set_txidle w =
    (let idle = txidle_bits (idle_mode (info w));
         w = set_info (\<lambda>i. i\<lparr> usc_idle_mode := idle,
                              tcsr_value := (tcsr_value i AND NOT IDLEMODE_MASK) + idle \<rparr>) w;
         w = usc_OutReg w TCSR (tcsr_value (info w))
     in if mode (params (info w)) = R56_MODE_RAW
        then let syncpat = txidle_syncpat (idle_mode (info w))
             in usc_SetTransmitSyncChars w syncpat syncpat
        else w)"

subsection \<open>Clocks\<close>

definition xtal_speed :: "r56_struct \<Rightarrow> u32" where
  "xtal_speed i = (if bus_type i = R56_BUS_TYPE_PCI then R56_PCI_XTAL_SPEED else R56_ISA_XTAL_SPEED)"

definition aux_clock_tc :: "u32 \<Rightarrow> u32 \<Rightarrow> u16" where
  "aux_clock_tc XtalSpeed rate =
    (let Tc = ucast (XtalSpeed div rate) :: u16
     in if ((XtalSpeed mod rate) * 2) div rate = 0 then Tc - 1 else Tc)"

definition usc_enable_aux_clock :: "world \<Rightarrow> u32 \<Rightarrow> world" where
  "usc_enable_aux_clock w rate =
    (if rate \<noteq> 0
     then let XtalSpeed = xtal_speed (info w);
              w = usc_OutReg w TC0R (aux_clock_tc XtalSpeed rate)
          in usc_rmw w HCR (\<lambda>v. (v AND NOT BIT1) OR BIT0)
     else usc_rmw w HCR (\<lambda>v. v AND NOT BIT0))"

definition async_clock_tc :: "u32 \<Rightarrow> u32 \<Rightarrow> u16" where
  "async_clock_tc XtalSpeed rate = ucast (XtalSpeed div rate - 1)"

definition usc_enable_async_clock :: "world \<Rightarrow> u32 \<Rightarrow> world" where
  "usc_enable_async_clock w rate =
    (if rate \<noteq> 0
     then let w = usc_OutReg w CMCR 0x0064;
              w = usc_OutReg w TC0R (async_clock_tc (xtal_speed (info w)) rate);
              w = usc_rmw w HCR (\<lambda>v. (v AND NOT BIT1) OR BIT0)
          in usc_rmw w IOCR (\<lambda>v. (v AND 0xfff8) OR 0x0004)
     else usc_rmw w HCR (\<lambda>v. v AND NOT BIT0))"

definition loopback_tc :: "u32 \<Rightarrow> u64 \<Rightarrow> u16" where
  "loopback_tc XtalSpeed speed =
    (if speed \<noteq> 0 then ucast (ucast XtalSpeed div speed - 1) else 8)"

definition usc_enable_loopback :: "world \<Rightarrow> int \<Rightarrow> world" where
  "usc_enable_loopback w enable =
    (if enable \<noteq> 0
     then let w = usc_rmw w IOCR (\<lambda>v. v OR (BIT7 + BIT6));
              w = usc_OutReg w CMCR 0x0064;
              w = usc_OutReg w TC0R
                    (loopback_tc (xtal_speed (info w)) (clock_speed (params (info w))));
              w = usc_rmw w HCR (\<lambda>v. (v AND NOT BIT1) OR BIT0);
              w = usc_rmw w IOCR (\<lambda>v. (v AND 0xfff8) OR 0x0004);
              w = set_info (loopback_bits_update (\<lambda>_. 0x300)) w
          in usc_OutReg w CCAR 0x0300
     else let w = usc_rmw w IOCR (\<lambda>v. v AND NOT (BIT7 + BIT6));
              w = set_info (loopback_bits_update (\<lambda>_. 0)) w
          in usc_OutReg w CCAR 0)"

definition usc_set_interface :: "world \<Rightarrow> world" where
  "usc_set_interface w =
    (if hw_version (info w) \<noteq> R565_DEVICE_ID
     then outb (R56_INTERFACE_MASK AND interface (params (info w))) (io_base (info w) + 5) w
     else let w = set_params (interface_update (\<lambda>_. RS232)) w
          in outb 0x00 (io_base (info w) + 5) w)"

subsection \<open>Stopping receiver and transmitter\<close>

definition usc_stop_receiver :: "world \<Rightarrow> world" where
  "usc_stop_receiver w =
    (let w = usc_DmaCmd w DmaCmd_ResetRxChannel;
         w = usc_UnlatchRxstatusBits w RXSTATUS_ALL;
         w = usc_ClearIrqPendingBits w (RECEIVE_DATA + RECEIVE_STATUS);
         w = usc_DisableInterrupts w (RECEIVE_DATA + RECEIVE_STATUS);
         w = usc_EnableReceiver w DISABLE_UNCONDITIONAL;
         w = usc_rmw w CCSR (\<lambda>v. v OR BIT13);
         w = usc_RTCmd w RTCmd_PurgeRxFifo
     in set_info (\<lambda>i. i\<lparr> rx_enabled := False, rx_overflow := False, rx_rcc_underrun := False \<rparr>) w)"

text \<open>
  \<open>del_timer\<close> and \<open>mod_timer\<close> of the kernel: the transmit timer is pending or not.
\<close>

definition del_timer :: "world \<Rightarrow> world" where
  "del_timer w = set_info (tx_timer_update (\<lambda>_. False)) (kcall Del_timer w)"

definition mod_timer :: "world \<Rightarrow> world" where
  "mod_timer w = set_info (tx_timer_update (\<lambda>_. True)) (kcall Mod_timer w)"

definition usc_stop_transmitter :: "world \<Rightarrow> world" where
  "usc_stop_transmitter w =
    (let w = del_timer w;
         w = usc_UnlatchTxstatusBits w TXSTATUS_ALL;
         w = usc_ClearIrqPendingBits w (TRANSMIT_STATUS + TRANSMIT_DATA);
         w = usc_DisableInterrupts w (TRANSMIT_STATUS + TRANSMIT_DATA);
         w = usc_EnableTransmitter w DISABLE_UNCONDITIONAL;
         w = usc_DmaCmd w DmaCmd_ResetTxChannel;
         w = usc_RTCmd w RTCmd_PurgeTxFifo
     in set_info (\<lambda>i. i\<lparr> tx_enabled := False, tx_active := False \<rparr>) w)"

subsection \<open>HDLC loop mode\<close>

definition usc_loopmode_active :: "world \<Rightarrow> bool \<times> world" where
  "usc_loopmode_active w = (let (v, w) = usc_InReg w CCSR in (tst v BIT7, w))"

definition usc_loopmode_send_done :: "world \<Rightarrow> world" where
  "usc_loopmode_send_done w =
    (let w = set_info (\<lambda>i. i\<lparr> loopmode_send_done_requested := False,
                             cmr_value := cmr_value i AND NOT BIT13 \<rparr>) w
     in usc_OutReg w CMR (cmr_value (info w)))"

definition usc_loopmode_cancel_transmit :: "world \<Rightarrow> world" where
  "usc_loopmode_cancel_transmit w =
    (let w = usc_RTCmd w RTCmd_PurgeTxFifo;
         w = usc_DmaCmd w DmaCmd_ResetTxChannel
     in usc_loopmode_send_done w)"

definition usc_loopmode_insert_request :: "world \<Rightarrow> world" where
  "usc_loopmode_insert_request w =
    (let w = set_info (loopmode_insert_requested_update (\<lambda>_. True)) w;
         w = usc_rmw w RICR (\<lambda>v. v OR RXSTATUS_ABORT_RECEIVED);
         w = set_info (\<lambda>i. i\<lparr> cmr_value := cmr_value i OR BIT13 \<rparr>) w
     in usc_OutReg w CMR (cmr_value (info w)))"

subsection \<open>Effect on the device instance\<close>

text \<open>
  The exact new device instance of each routine. With these equations the simplifier computes
  any field after any sequence of calls.
\<close>

definition read_signals :: "u8 \<Rightarrow> u16 \<Rightarrow> u8" where
  "read_signals s st =
    (s AND (SerialSignal_DTR + SerialSignal_RTS)) OR
    (if tst st MISCSTATUS_CTS then SerialSignal_CTS else 0) OR
    (if tst st MISCSTATUS_DCD then SerialSignal_DCD else 0) OR
    (if tst st MISCSTATUS_RI then SerialSignal_RI else 0) OR
    (if tst st MISCSTATUS_DSR then SerialSignal_DSR else 0)"

lemma usc_InReg_info_update:
  "fst (usc_InReg (info_update f w) r) = fst (usc_InReg w r)"
  if "hw_version (f (info w)) = hw_version (info w)" "io_base (f (info w)) = io_base (info w)"
  using that by (simp add: usc_InReg_def Let_def case_prod_unfold inb_def outb_def readw_def emit_def)

lemma info_usc_get_serial_signals [simp]:
  "info (usc_get_serial_signals w) =
     (info w)\<lparr> serial_signals :=
        read_signals (serial_signals (info w)) (fst (usc_InReg w MISR)) \<rparr>"
  by (simp add: usc_get_serial_signals_def Let_def case_prod_unfold read_signals_def
      usc_InReg_info_update or.assoc)

lemma info_usc_set_serial_signals [simp]: "info (usc_set_serial_signals w) = info w"
  by (simp add: usc_set_serial_signals_def Let_def case_prod_unfold)

lemma info_usc_set_txidle [simp]:
  "info (usc_set_txidle w) =
     (info w)\<lparr> usc_idle_mode := txidle_bits (idle_mode (info w)),
       tcsr_value := (tcsr_value (info w) AND NOT IDLEMODE_MASK) +
                     txidle_bits (idle_mode (info w)) \<rparr>"
  by (simp add: usc_set_txidle_def Let_def)

lemma info_usc_enable_clock [simp]:
  "info (usc_enable_aux_clock w rate) = info w"
  "info (usc_enable_async_clock w rate) = info w"
  by (simp_all add: usc_enable_aux_clock_def usc_enable_async_clock_def Let_def)

lemma info_usc_enable_loopback [simp]:
  "info (usc_enable_loopback w enable) =
     (info w)\<lparr> loopback_bits := if enable \<noteq> 0 then 0x300 else 0 \<rparr>"
  by (simp add: usc_enable_loopback_def Let_def)

definition chosen_interface :: "r56_struct \<Rightarrow> u8" where
  "chosen_interface i = (if hw_version i \<noteq> R565_DEVICE_ID then interface (params i) else RS232)"

lemma info_usc_set_interface [simp]:
  "info (usc_set_interface w) =
     (info w)\<lparr> params := (params (info w))\<lparr> interface := chosen_interface (info w) \<rparr> \<rparr>"
  by (simp add: usc_set_interface_def Let_def chosen_interface_def)

lemma info_timer [simp]:
  "info (del_timer w) = (info w)\<lparr> tx_timer := False \<rparr>"
  "info (mod_timer w) = (info w)\<lparr> tx_timer := True \<rparr>"
  by (simp_all add: del_timer_def mod_timer_def)

lemma info_usc_stop_receiver [simp]:
  "info (usc_stop_receiver w) =
     (info w)\<lparr> rx_enabled := False, rx_overflow := False, rx_rcc_underrun := False \<rparr>"
  by (simp add: usc_stop_receiver_def Let_def)

lemma info_usc_stop_transmitter [simp]:
  "info (usc_stop_transmitter w) =
     (info w)\<lparr> tx_timer := False, tx_enabled := False, tx_active := False \<rparr>"
  by (simp add: usc_stop_transmitter_def Let_def)

lemma info_usc_loopmode [simp]:
  "info (snd (usc_loopmode_active w)) = info w"
  "info (usc_loopmode_send_done w) =
     (info w)\<lparr> loopmode_send_done_requested := False,
       cmr_value := cmr_value (info w) AND NOT BIT13 \<rparr>"
  "info (usc_loopmode_cancel_transmit w) =
     (info w)\<lparr> loopmode_send_done_requested := False,
       cmr_value := cmr_value (info w) AND NOT BIT13 \<rparr>"
  "info (usc_loopmode_insert_request w) =
     (info w)\<lparr> loopmode_insert_requested := True,
       cmr_value := cmr_value (info w) OR BIT13 \<rparr>"
  by (simp_all add: usc_loopmode_active_def usc_loopmode_send_done_def
      usc_loopmode_cancel_transmit_def usc_loopmode_insert_request_def Let_def case_prod_unfold)

lemmas usc_routine_defs =
  usc_get_serial_signals_def usc_set_serial_signals_def usc_set_txidle_def
  usc_enable_aux_clock_def usc_enable_async_clock_def usc_enable_loopback_def
  usc_set_interface_def del_timer_def mod_timer_def usc_stop_receiver_def
  usc_stop_transmitter_def usc_loopmode_active_def usc_loopmode_send_done_def
  usc_loopmode_cancel_transmit_def usc_loopmode_insert_request_def

lemma env_usc_routines [simp]:
  "env (usc_get_serial_signals w) = env w"
  "env (usc_set_serial_signals w) = env w"
  "env (usc_set_txidle w) = env w"
  "env (usc_enable_aux_clock w rate) = env w"
  "env (usc_enable_async_clock w rate) = env w"
  "env (usc_enable_loopback w enable) = env w"
  "env (usc_set_interface w) = env w"
  "env (del_timer w) = env w"
  "env (mod_timer w) = env w"
  "env (usc_stop_receiver w) = env w"
  "env (usc_stop_transmitter w) = env w"
  "env (snd (usc_loopmode_active w)) = env w"
  "env (usc_loopmode_send_done w) = env w"
  "env (usc_loopmode_cancel_transmit w) = env w"
  "env (usc_loopmode_insert_request w) = env w"
  by (simp_all add: usc_routine_defs Let_def case_prod_unfold)

lemma mem_usc_routines [simp]:
  "mem (usc_get_serial_signals w) = mem w"
  "mem (usc_set_serial_signals w) = mem w"
  "mem (usc_set_txidle w) = mem w"
  "mem (usc_enable_aux_clock w rate) = mem w"
  "mem (usc_enable_async_clock w rate) = mem w"
  "mem (usc_enable_loopback w enable) = mem w"
  "mem (usc_set_interface w) = mem w"
  "mem (del_timer w) = mem w"
  "mem (mod_timer w) = mem w"
  "mem (usc_stop_receiver w) = mem w"
  "mem (usc_stop_transmitter w) = mem w"
  "mem (snd (usc_loopmode_active w)) = mem w"
  "mem (usc_loopmode_send_done w) = mem w"
  "mem (usc_loopmode_cancel_transmit w) = mem w"
  "mem (usc_loopmode_insert_request w) = mem w"
  by (simp_all add: usc_routine_defs Let_def case_prod_unfold)

subsection \<open>Properties\<close>

text \<open>The bank register of the model 5101: access enabled and the controller selected.\<close>

definition register_bank :: "u8 \<Rightarrow> bool" where
  "register_bank b \<longleftrightarrow> tst b 0x80 \<and> \<not> tst b 0x40"

lemma register_bank_select: "register_bank ((b OR 0x80) AND NOT 0x40)"
  by (simp add: register_bank_def tst_def word_ao_dist word_bw_assocs word_bw_lcs)

lemmas bus_trace_defs =
  usc_OutReg_def usc_InReg_def inb_def outb_def writew_def readw_def emit_def writes_def

text \<open>on the model 5101, whose bank port reads back what was written to it, the register
  write of \<open>usc_OutReg\<close> always takes place while the bank port has register access
  enabled and the controller (not the shared memory) selected, whatever the bank was before.\<close>

theorem usc_OutReg_selects_register_bank:
  assumes hw: "hw_version (info w) = R561_DEVICE_ID"
    and reads_back: "dev_inb (env w) (trace w) (io_base (info w)) =
                       port_after (io_base (info w)) b (trace w)"
  shows "\<exists>pre post. trace (usc_OutReg w r v) = trace w @ pre @ Writew r v # post \<and>
           writes pre = [] \<and> writes post = [] \<and>
           register_bank (port_after (io_base (info w)) b (trace w @ pre))"
proof (cases "register_bank (port_after (io_base (info w)) b (trace w))")
  case True
  show ?thesis
    by (rule exI [of _ "[Inb (io_base (info w))]"], rule exI [of _ "[]"])
      (use True hw reads_back in
        \<open>simp add: bus_trace_defs port_after_append register_bank_def Let_def\<close>)
next
  case False
  let ?a = "io_base (info w)"
  let ?t = "(dev_inb (env w) (trace w) ?a OR 0x80) AND NOT 0x40"
  show ?thesis
    by (rule exI [of _ "[Inb ?a, Outb ?a ?t, Inb ?a]"],
        rule exI [of _ "[Outb ?a (?t OR 0x40), Inb ?a]"])
      (use False hw reads_back register_bank_select in
        \<open>auto simp: bus_trace_defs port_after_append register_bank_def Let_def\<close>)
qed

theorem usc_OutReg_selects_register_bank_witness:
  "\<exists>pre post. trace (usc_OutReg (world0\<lparr>info := zero_info\<lparr>hw_version := R561_DEVICE_ID\<rparr>\<rparr>) CMR 5) =
       [] @ pre @ Writew CMR 5 # post \<and> writes pre = [] \<and> writes post = [] \<and>
       register_bank (port_after 0 0 ([] @ pre))"
  using usc_OutReg_selects_register_bank
      [of "world0\<lparr>info := zero_info\<lparr>hw_version := R561_DEVICE_ID\<rparr>\<rparr>" 0 CMR 5]
  by (simp add: world0_def regfile_env_def zero_info_def)

text \<open>\<open>usc_set_serial_signals\<close> drives port 7 (RTS) and port 6 (DTR) low exactly when the
  signal is asserted, and leaves the other twelve bits of the port control register as read.\<close>

theorem set_serial_signals_drives_pins:
  "\<exists>c. wrote (usc_set_serial_signals w) PCR = Some c \<and>
       c AND 0xc000 = (if tst (serial_signals (info w)) SerialSignal_RTS then 0x8000 else 0xc000) \<and>
       c AND 0x3000 = (if tst (serial_signals (info w)) SerialSignal_DTR then 0x2000 else 0x3000) \<and>
       c AND 0x0fff = fst (usc_InReg w PCR) AND 0x0fff"
  by (simp add: usc_set_serial_signals_def Let_def case_prod_unfold word_bw_assocs word_ao_dist
      word_bw_lcs)

lemma nearest_quotient:
  fixes X r :: nat
  assumes "0 < r"
  shows "2 * \<bar>int X - int (if (X mod r) * 2 div r = 0 then X div r else X div r + 1) * int r\<bar> \<le> int r"
proof -
  have "X = (X div r) * r + X mod r" by simp
  then have X: "int X = int (X div r) * int r + int (X mod r)" by (metis of_nat_add of_nat_mult)
  have m: "X mod r < r" using assms by simp
  show ?thesis
  proof (cases "(X mod r) * 2 < r")
    case True
    then show ?thesis by (simp add: X)
  next
    case False
    then have "(X mod r) * 2 div r \<noteq> 0" using assms by (simp add: div_eq_0_iff)
    then show ?thesis using False m by (simp add: X algebra_simps)
  qed
qed

lemma unat_ucast_u16: "unat (ucast (x :: u32) :: u16) = unat x mod 65536"
  by (simp add: unsigned_ucast_eq take_bit_eq_mod)

lemma aux_clock_tc_quotient:
  assumes "306 \<le> unat r" and "unat r \<le> unat X" and X: "unat X \<le> 20000000"
  shows "unat (aux_clock_tc X r) + 1 =
      (if unat X mod unat r * 2 div unat r = 0 then unat X div unat r else unat X div unat r + 1)"
proof -
  let ?X = "unat X" and ?r = "unat r"
  have "?X div ?r \<le> 20000000 div 306"
    using div_le_mono [OF X, of ?r] div_le_mono2 [OF _ assms(1), of 20000000] by linarith
  then have q: "?X div ?r < 65536" by simp
  have q0: "0 < ?X div ?r" using assms by (simp add: div_greater_zero_iff)
  have "?X mod ?r \<le> 20000000" using X mod_less_eq_dividend le_trans by blast
  then have m: "unat (X mod r * 2) = ?X mod ?r * 2"
    by (simp add: unat_word_ariths unat_mod)
  have c: "X mod r * 2 div r = 0 \<longleftrightarrow> ?X mod ?r * 2 div ?r = 0"
    unfolding m [symmetric] unat_div [symmetric] by (rule unat_eq_zero [symmetric])
  have t: "unat (ucast (X div r) :: u16) = ?X div ?r" using q
    by (simp add: unat_ucast_u16 unat_div)
  then have nz: "(ucast (X div r) :: u16) \<noteq> 0" using q0 by auto
  show ?thesis
    using t nz q0 unat_minus_one [OF nz] by (simp add: aux_clock_tc_def Let_def c)
qed

text \<open>C33: for every rate from 306 bps up to the crystal frequency, the time constant that
  \<open>usc_enable_aux_clock\<close> programs (the generator divides by \<open>Tc + 1\<close>) is the
  nearest integer to crystal over rate: the frequency error is at most half a rate step.\<close>

theorem aux_clock_nearest:
  assumes "306 \<le> unat r" and "unat r \<le> unat (xtal_speed i)"
  shows "2 * \<bar>int (unat (xtal_speed i)) -
              (int (unat (aux_clock_tc (xtal_speed i) r)) + 1) * int (unat r)\<bar> \<le> int (unat r)"
proof -
  let ?q = "if unat (xtal_speed i) mod unat r * 2 div unat r = 0
            then unat (xtal_speed i) div unat r else unat (xtal_speed i) div unat r + 1"
  have "unat (xtal_speed i) \<le> 20000000" by (simp add: xtal_speed_def)
  then have "unat (aux_clock_tc (xtal_speed i) r) + 1 = ?q"
    by (rule aux_clock_tc_quotient [OF assms])
  then have q: "int (unat (aux_clock_tc (xtal_speed i) r)) + 1 = int ?q"
    by linarith
  have "0 < unat r" using assms(1) by simp
  then show ?thesis
    unfolding q by (rule nearest_quotient)
qed

theorem aux_clock_nearest_witness:
  "2 * \<bar>int (unat (xtal_speed zero_info)) -
        (int (unat (aux_clock_tc (xtal_speed zero_info) 9600)) + 1) * int (unat (9600::u32))\<bar>
   \<le> int (unat (9600::u32))"
  using aux_clock_nearest [of 9600 zero_info] by (simp add: xtal_speed_def zero_info_def)

lemma txidle_bits_masked:
  "txidle_bits m AND NOT IDLEMODE_MASK = 0"
  by (simp add: txidle_bits_def)

lemma replace_masked_bits:
  fixes t v m :: "'a::len word"
  assumes "v AND NOT m = 0"
  shows "((t AND NOT m) + v) AND m = v" and "((t AND NOT m) + v) AND NOT m = t AND NOT m"
proof -
  have vm: "v AND m = v"
    by (rule bit_word_eqI) (use assms in \<open>auto simp: bit_simps bit_eq_iff\<close>)
  have "(t AND NOT m) AND v = 0"
    by (rule bit_word_eqI) (use vm in \<open>auto simp: bit_simps bit_eq_iff\<close>)
  then have e: "(t AND NOT m) + v = (t AND NOT m) OR v"
    by (rule disjunctive_add_eq_or)
  show "((t AND NOT m) + v) AND m = v"
    by (simp add: e word_ao_dist word_bw_assocs vm)
  show "((t AND NOT m) + v) AND NOT m = t AND NOT m"
    by (simp add: e word_ao_dist word_bw_assocs assms)
qed

text \<open>\<open>usc_set_txidle\<close> puts the hardware pattern of the requested idle mode into
  bits 10..8 of the transmit command register, keeps the other bits, writes the result to the
  controller, and the seven modes of the interface have seven different patterns.\<close>

theorem set_txidle_programs_pattern:
  "tcsr_value (info (usc_set_txidle w)) AND IDLEMODE_MASK = txidle_bits (idle_mode (info w)) \<and>
   tcsr_value (info (usc_set_txidle w)) AND NOT IDLEMODE_MASK =
     tcsr_value (info w) AND NOT IDLEMODE_MASK \<and>
   wrote (usc_set_txidle w) TCSR = Some (tcsr_value (info (usc_set_txidle w))) \<and>
   distinct (map txidle_bits
     [HDLC_TXIDLE_FLAGS, HDLC_TXIDLE_ALT_ZEROS_ONES, HDLC_TXIDLE_ZEROS, HDLC_TXIDLE_ONES,
      HDLC_TXIDLE_ALT_MARK_SPACE, HDLC_TXIDLE_SPACE, HDLC_TXIDLE_MARK])"
proof -
  have "distinct (map txidle_bits [0, 1, 2, 3, 4, 5, 6])"
    by (simp add: txidle_bits_def)
  then show ?thesis
    using replace_masked_bits [OF txidle_bits_masked]
    by (simp add: usc_set_txidle_def Let_def)
qed

text \<open>Stopping the receiver and the transmitter writes the disable code to the enable
  field of the mode register of that direction, clears the enabled flags, and stops the
  transmit timer.\<close>

lemma stop_receiver_and_transmitter:
  "(\<exists>v. wrote (usc_stop_receiver w) RMR = Some v \<and> v AND 3 = 0) \<and>
   (\<exists>v. wrote (usc_stop_transmitter w) TMR = Some v \<and> v AND 3 = 0) \<and>
   \<not> rx_enabled (info (usc_stop_receiver w)) \<and>
   \<not> tx_enabled (info (usc_stop_transmitter w)) \<and> \<not> tx_active (info (usc_stop_transmitter w)) \<and>
   \<not> tx_timer (info (usc_stop_transmitter w))"
  by (simp add: usc_stop_receiver_def usc_stop_transmitter_def Let_def word_bw_assocs)

end
