(* ===== verification/R56_Mode.thy ===== *)
theory R56_Mode
  imports R56_Usc
begin

text \<open>
  The mode set-up routines of \<open>driver/route56.c\<close>: \<open>usc_set_sdlc_mode\<close> (in the
  order of the source, one definition for each register group it programs),
  \<open>usc_loopback_frame\<close>, \<open>usc_set_sync_mode\<close>, \<open>usc_set_async_mode\<close> and
  \<open>usc_reset\<close>.
\<close>

subsection \<open>SDLC mode\<close>

definition sdlc_chip_is_PreSL1660 :: "world \<Rightarrow> bool \<times> world" where
  "sdlc_chip_is_PreSL1660 w =
    (let w = usc_OutReg w TMCR 0x1f;
         (RegValue, w) = usc_InReg w TMDR
     in (RegValue = IUSC_PRE_SL1660, w))"

definition sdlc_channel_mode :: "world \<Rightarrow> world" where
  "sdlc_channel_mode w =
    (let p = params (info w);
         (RegValue, w) =
           (if tst (flags p) HDLC_FLAG_HDLC_LOOPMODE then (0x8e06, w)
            else let (RegValue, w) =
                   (if mode p = R56_MODE_RAW
                    then let RegValue = 0x0101;
                             w = usc_OutReg w CMR RegValue;
                             w = usc_rmw w IOCR (\<lambda>v. (v AND NOT (BIT13 OR BIT12)) OR BIT12)
                         in (RegValue OR 0x0400, w)
                    else (if tst (flags p) HDLC_FLAG_UNDERRUN_ABORT15 then 0x0606 OR BIT14
                          else if tst (flags p) HDLC_FLAG_UNDERRUN_FLAG then 0x0606 OR BIT15
                          else if tst (flags p) HDLC_FLAG_UNDERRUN_CRC then 0x0606 OR (BIT15 + BIT14)
                          else 0x0606, w))
                 in (if preamble p \<noteq> HDLC_PREAMBLE_PATTERN_NONE then RegValue OR BIT13
                     else RegValue, w));
         RegValue = (if mode p = R56_MODE_HDLC \<and> tst (flags p) HDLC_FLAG_SHARE_ZERO
                     then RegValue OR BIT12 else RegValue);
         (RegValue, w) = (if addr_filter p \<noteq> 0xff
                          then (RegValue OR BIT4, usc_OutReg w RSR (ucast (addr_filter p)))
                          else (RegValue, w));
         w = usc_OutReg w CMR RegValue
     in set_info (cmr_value_update (\<lambda>_. RegValue)) w)"

text \<open>The encoding field, bits 15..13 of the receive and transmit mode registers.\<close>

definition encoding_bits :: "u8 \<Rightarrow> u16" where
  "encoding_bits e =
    (if e = HDLC_ENCODING_NRZB then BIT13
     else if e = HDLC_ENCODING_NRZI_MARK then BIT14
     else if e = HDLC_ENCODING_NRZI_SPACE then BIT14 + BIT13
     else if e = HDLC_ENCODING_BIPHASE_MARK then BIT15
     else if e = HDLC_ENCODING_BIPHASE_SPACE then BIT15 + BIT13
     else if e = HDLC_ENCODING_BIPHASE_LEVEL then BIT15 + BIT14
     else if e = HDLC_ENCODING_DIFF_BIPHASE_LEVEL then BIT15 + BIT14 + BIT13
     else 0)"

definition sdlc_rmr_value :: "R56_PARAMS \<Rightarrow> u16" where
  "sdlc_rmr_value p =
    (let RegValue = 0x0500 OR encoding_bits (encoding p)
     in if crc_type p AND HDLC_CRC_MASK = HDLC_CRC_16_CCITT then RegValue OR BIT9
        else if crc_type p AND HDLC_CRC_MASK = HDLC_CRC_32_CCITT
             then RegValue OR (BIT12 OR BIT10 OR BIT9)
        else RegValue)"

definition sdlc_receive_mode :: "world \<Rightarrow> world" where
  "sdlc_receive_mode w =
    (let w = usc_OutReg w RMR (sdlc_rmr_value (params (info w)));
         w = usc_OutReg w RCLR (ucast RCLRVALUE);
         w = usc_RCmd w RCmd_SelectRicrdma_level;
         (RegValue, w) = usc_InReg w RICR;
         RegValue = RegValue AND 0xc0;
         w = (if bus_type (info w) = R56_BUS_TYPE_PCI then usc_OutReg w RICR (0x010a OR RegValue)
              else usc_OutReg w RICR (0x140a OR RegValue));
         w = usc_UnlatchRxstatusBits w RXSTATUS_ALL
     in usc_ClearIrqPendingBits w RECEIVE_STATUS)"

definition sdlc_tmr_value :: "R56_PARAMS \<Rightarrow> u16" where
  "sdlc_tmr_value p =
    (let RegValue = 0x0400 OR encoding_bits (encoding p)
     in if crc_type p AND HDLC_CRC_MASK = HDLC_CRC_16_CCITT then RegValue OR (BIT9 + BIT8)
        else if crc_type p AND HDLC_CRC_MASK = HDLC_CRC_32_CCITT
             then RegValue OR (BIT12 OR BIT10 OR BIT9 OR BIT8)
        else RegValue)"

definition sdlc_transmit_mode :: "bool \<Rightarrow> world \<Rightarrow> world" where
  "sdlc_transmit_mode PreSL1660 w =
    (let w = usc_OutReg w TMR (sdlc_tmr_value (params (info w)));
         w = usc_set_txidle w;
         w = usc_TCmd w TCmd_SelectTicrdma_level;
         w = (if bus_type (info w) = R56_BUS_TYPE_PCI then usc_OutReg w TICR 0x0136
              else usc_OutReg w TICR 0x1436);
         w = usc_UnlatchTxstatusBits w TXSTATUS_ALL;
         w = usc_ClearIrqPendingBits w TRANSMIT_STATUS;
         w = set_info (tcsr_value_update (\<lambda>_. if PreSL1660 then 0 else TCSR_UNDERWAIT)) w
     in usc_OutReg w TCSR (tcsr_value (info w)))"

definition sdlc_clock_pins :: "world \<Rightarrow> world" where
  "sdlc_clock_pins w =
    (let f = flags (params (info w));
         w = usc_rmw w PCR (\<lambda>v. (v AND NOT 0x0c00) OR 0x0800);
         w = usc_rmw w IOCR (\<lambda>v. (v AND NOT 0x0038) OR 0x0008);
         w = usc_rmw w IOCR (\<lambda>v. (v AND NOT 0x0007) OR 0x0001);
         (RegValue, w) =
           (if tst f HDLC_FLAG_RXC_DPLL then (0x0040 OR 0x0003, w)
            else if tst f HDLC_FLAG_RXC_BRG then (0x0040 OR 0x0004, w)
            else if tst f HDLC_FLAG_RXC_TXCPIN then (0x0040 OR 0x0002, w)
            else (0x0040 OR 0x0001, usc_rmw w IOCR (\<lambda>v. v AND NOT 0x0007)));
         (RegValue, w) =
           (if tst f HDLC_FLAG_TXC_DPLL then (RegValue OR 0x0018, w)
            else if tst f HDLC_FLAG_TXC_BRG then (RegValue OR 0x0020, w)
            else if tst f HDLC_FLAG_TXC_RXCPIN then (RegValue OR 0x0008, w)
            else let w = usc_rmw w PCR (\<lambda>v. v OR 0x0c00);
                     w = usc_rmw w IOCR (\<lambda>v. v AND NOT 0x0038)
                 in (RegValue OR 0x0010, w))
     in usc_OutReg w CMCR RegValue)"

definition dpll_tc :: "u32 \<Rightarrow> u32 \<Rightarrow> u64 \<Rightarrow> u16" where
  "dpll_tc XtalSpeed DpllDivisor speed =
    (if speed \<noteq> 0
     then let q = ucast (XtalSpeed div DpllDivisor) :: u64;
              Tc = ucast (q div speed) :: u16
          in if ((q mod speed) * 2) div speed = 0 then Tc - 1 else Tc
     else - 1)"

definition dpll_mode_bits :: "u8 \<Rightarrow> u16" where
  "dpll_mode_bits e =
    (if e = HDLC_ENCODING_NRZ \<or> e = HDLC_ENCODING_NRZB \<or> e = HDLC_ENCODING_NRZI_MARK \<or>
        e = HDLC_ENCODING_NRZI_SPACE then BIT8
     else if e = HDLC_ENCODING_BIPHASE_MARK \<or> e = HDLC_ENCODING_BIPHASE_SPACE then BIT9
     else if e = HDLC_ENCODING_BIPHASE_LEVEL \<or> e = HDLC_ENCODING_DIFF_BIPHASE_LEVEL
       then BIT9 + BIT8
     else 0)"

definition sdlc_hardware_config :: "world \<Rightarrow> world" where
  "sdlc_hardware_config w =
    (let p = params (info w);
         (RegValue, w) =
           (if tst (flags p) (HDLC_FLAG_RXC_DPLL + HDLC_FLAG_TXC_DPLL)
            then let XtalSpeed = xtal_speed (info w);
                     (DpllDivisor, RegValue) =
                       (if tst (flags p) HDLC_FLAG_DPLL_DIV16 then (16, 0x0001 OR BIT10)
                        else if tst (flags p) HDLC_FLAG_DPLL_DIV8 then (8, 0x0001 OR BIT11)
                        else (32, 0x0001));
                     w = usc_OutReg w TC1R (dpll_tc XtalSpeed DpllDivisor (clock_speed p))
                 in ((RegValue OR BIT4) OR dpll_mode_bits (encoding p), w)
            else (0x0001, w))
     in usc_OutReg w HCR RegValue)"

definition sdlc_status_irqs :: "world \<Rightarrow> world" where
  "sdlc_status_irqs w =
    (let w = usc_OutReg w CCSR 0x1020;
         w = (if tst (flags (params (info w))) HDLC_FLAG_AUTO_CTS
              then usc_rmw w SICR (\<lambda>v. v OR SICR_CTS_INACTIVE) else w);
         w = usc_EnableMasterIrqBit w;
         w = usc_ClearIrqPendingBits w (RECEIVE_STATUS + RECEIVE_DATA + TRANSMIT_STATUS +
                                        TRANSMIT_DATA + MISC);
         w = usc_rmw w SICR (\<lambda>v. v OR BIT3)
     in usc_EnableInterrupts w MISC)"

definition sdlc_dma_mode :: "world \<Rightarrow> world" where
  "sdlc_dma_mode w =
    (let w = set_info (mbre_bit_update (\<lambda>_. 0)) w;
         w = usc_OutReg w DCAR 0;
         w = usc_DmaCmd w DmaCmd_ResetAllChannels;
         w = set_info (mbre_bit_update (\<lambda>_. BIT8)) w;
         w = usc_OutReg w DCAR BIT8;
         w = (if bus_type (info w) = R56_BUS_TYPE_ISA
              then usc_rmw w PCR (\<lambda>v. (v OR BIT15) AND NOT BIT14) else w);
         w = (if bus_type (info w) = R56_BUS_TYPE_PCI then usc_OutDmaReg w DCR 0xa00b
              else usc_OutDmaReg w DCR 0x800b);
         w = usc_OutDmaReg w RDMR 0xf200;
         w = usc_OutDmaReg w TDMR 0xf200;
         w = usc_OutDmaReg w DICR 0x9000;
         (_, w) = usc_InDmaReg w RDMR;
         (_, w) = usc_InDmaReg w TDMR
     in usc_OutDmaReg w CDIR 0x0303)"

definition sdlc_ccr_value :: "R56_PARAMS \<Rightarrow> u16" where
  "sdlc_ccr_value p =
    0x8080 OR
    (if preamble_length p = HDLC_PREAMBLE_LENGTH_16BITS then BIT10
     else if preamble_length p = HDLC_PREAMBLE_LENGTH_32BITS then BIT11
     else if preamble_length p = HDLC_PREAMBLE_LENGTH_64BITS then BIT11 + BIT10
     else 0) OR
    (if preamble p = HDLC_PREAMBLE_PATTERN_FLAGS then BIT8 + BIT12
     else if preamble p = HDLC_PREAMBLE_PATTERN_ONES then BIT8
     else if preamble p = HDLC_PREAMBLE_PATTERN_10 then BIT9
     else if preamble p = HDLC_PREAMBLE_PATTERN_01 then BIT9 + BIT8
     else 0)"

definition usc_set_sdlc_mode :: "world \<Rightarrow> world" where
  "usc_set_sdlc_mode w =
    (let (PreSL1660, w) = sdlc_chip_is_PreSL1660 w;
         w = sdlc_channel_mode w;
         w = sdlc_receive_mode w;
         w = sdlc_transmit_mode PreSL1660 w;
         w = sdlc_clock_pins w;
         w = sdlc_hardware_config w;
         w = sdlc_status_irqs w;
         w = sdlc_dma_mode w;
         w = usc_OutReg w CCR (sdlc_ccr_value (params (info w)));
         w = (if bus_type (info w) = R56_BUS_TYPE_PCI then usc_OutDmaReg w BDCR 0x0000
              else usc_OutDmaReg w BDCR 0x2000);
         w = usc_stop_transmitter w;
         w = usc_stop_receiver w
     in usc_set_interface w)"

subsection \<open>Dummy frame, synchronous and asynchronous mode\<close>

text \<open>\<open>for (i = 0; i < n; i++) if (usc_InReg(info, RCSR) & m) break;\<close>\<close>

fun poll_rcsr :: "nat \<Rightarrow> u16 \<Rightarrow> world \<Rightarrow> world" where
  "poll_rcsr 0 m w = w"
| "poll_rcsr (Suc n) m w =
     (let (v, w) = usc_InReg w RCSR in if tst v m then w else poll_rcsr n m w)"

definition usc_loopback_frame :: "world \<Rightarrow> world" where
  "usc_loopback_frame w =
    (let oldmode = mode (params (info w));
         w = set_params (mode_update (\<lambda>_. R56_MODE_HDLC)) w;
         w = usc_DisableMasterIrqBit w;
         w = usc_set_sdlc_mode w;
         w = usc_enable_loopback w 1;
         w = usc_OutReg w TC0R 0;
         w = usc_OutReg w CCR 0x0100;
         w = usc_RTCmd w RTCmd_PurgeRxFifo;
         w = usc_EnableReceiver w ENABLE_UNCONDITIONAL;
         w = usc_OutReg w TCLR 2;
         w = usc_RTCmd w RTCmd_PurgeTxFifo;
         w = usc_UnlatchTxstatusBits w TXSTATUS_ALL;
         w = usc_OutReg w DATAREG 0;
         w = usc_TCmd w TCmd_SendFrame;
         w = usc_EnableTransmitter w ENABLE_UNCONDITIONAL;
         w = poll_rcsr 1000 (BIT8 + BIT4 + BIT3 + BIT1) w;
         w = usc_enable_loopback w 0;
         w = usc_EnableMasterIrqBit w
     in set_params (mode_update (\<lambda>_. oldmode)) w)"

definition usc_set_sync_mode :: "world \<Rightarrow> world" where
  "usc_set_sync_mode w =
    (let w = usc_loopback_frame w;
         w = usc_set_sdlc_mode w;
         w = (if bus_type (info w) = R56_BUS_TYPE_ISA
              then usc_rmw w PCR (\<lambda>v. (v OR BIT13) AND NOT BIT12) else w);
         w = usc_enable_aux_clock w (ucast (clock_speed (params (info w))))
     in if loopback (params (info w)) \<noteq> 0 then usc_enable_loopback w 1 else w)"

definition async_char_bits :: "R56_PARAMS \<Rightarrow> u16" where
  "async_char_bits p =
    (let RegValue = (if data_bits p \<noteq> 8 then BIT4 + BIT3 + BIT2 else 0)
     in if parity p \<noteq> ASYNC_PARITY_NONE
        then let RegValue = RegValue OR BIT5
             in if parity p \<noteq> ASYNC_PARITY_ODD then RegValue OR BIT6 else RegValue
        else RegValue)"

definition async_program_channel :: "world \<Rightarrow> world" where
  "async_program_channel w =
    (let p = params (info w);
         w = usc_OutReg w CMR (if stop_bits p \<noteq> 1 then BIT14 else 0);
         w = usc_OutReg w RMR (async_char_bits p);
         w = usc_RCmd w RCmd_SelectRicrIntLevel;
         w = usc_OutReg w RICR 0x0000;
         w = usc_UnlatchRxstatusBits w RXSTATUS_ALL;
         w = usc_ClearIrqPendingBits w RECEIVE_STATUS;
         w = usc_OutReg w TMR (async_char_bits p);
         w = usc_set_txidle w;
         w = usc_TCmd w TCmd_SelectTicrIntLevel;
         w = usc_OutReg w TICR 0x1f40;
         w = usc_UnlatchTxstatusBits w TXSTATUS_ALL
     in usc_ClearIrqPendingBits w TRANSMIT_STATUS)"

definition usc_set_async_mode :: "world \<Rightarrow> world" where
  "usc_set_async_mode w =
    (let w = usc_DisableMasterIrqBit w;
         w = outb 0 (io_base (info w) + 5) w;
         w = usc_OutReg w DCAR 0;
         w = usc_DmaCmd w DmaCmd_ResetAllChannels;
         w = usc_loopback_frame w;
         w = async_program_channel w;
         w = usc_enable_async_clock w (ucast (data_rate (params (info w))));
         w = usc_OutReg w CCSR 0x0020;
         w = usc_DisableInterrupts w (TRANSMIT_STATUS + TRANSMIT_DATA + RECEIVE_DATA + RECEIVE_STATUS);
         w = usc_ClearIrqPendingBits w (TRANSMIT_STATUS + TRANSMIT_DATA + RECEIVE_DATA +
                                        RECEIVE_STATUS);
         w = usc_EnableMasterIrqBit w;
         w = (if bus_type (info w) = R56_BUS_TYPE_ISA
              then usc_rmw w PCR (\<lambda>v. (v OR BIT13) AND NOT BIT12) else w)
     in usc_set_interface w)"

subsection \<open>Reset\<close>

text \<open>\<open>while ((i++ < n) && (inb(port) & 0x10)) outb(0xff, port);\<close>\<close>

fun reset_assert :: "nat \<Rightarrow> u32 \<Rightarrow> world \<Rightarrow> world" where
  "reset_assert 0 port w = w"
| "reset_assert (Suc n) port w =
     (let (v, w) = inb port w
      in if tst v 0x10 then reset_assert n port (outb 0xff port w) else w)"

text \<open>\<open>while ((i++ < n) && (!(inb(port) & 0x10)));\<close>\<close>

fun reset_wait :: "nat \<Rightarrow> u32 \<Rightarrow> world \<Rightarrow> world" where
  "reset_wait 0 port w = w"
| "reset_wait (Suc n) port w =
     (let (v, w) = inb port w in if \<not> tst v 0x10 then reset_wait n port w else w)"

definition usc_reset :: "world \<Rightarrow> world" where
  "usc_reset w =
    (let base = io_base (info w);
         w = (if bus_type (info w) = R56_BUS_TYPE_PCI
              then let w = outb 0 (base + 5) w;
                       w = (if hw_version (info w) = R561_DEVICE_ID
                            then reset_assert 1000 (base + 3) w
                            else outb 0xff (base + 3) w);
                       w = reset_wait 1000 (base + 3) w;
                       w = outb 0x00 (base + 3) w;
                       w = (if hw_version (info w) = R561_DEVICE_ID
                            then let (v, w) = inb base w in outb (v OR 0xC0) base w
                            else w);
                       w = set_info (\<lambda>i. i\<lparr> mbre_bit := 0, loopback_bits := 0,
                                            usc_idle_mode := 0 \<rparr>) w;
                       w = usc_OutReg w BCR (BRQ_Signal_TotemPole OR BusWidth_16BitBus OR
                                             IRQ_Signal_OpenDrain OR ShiftedAddr_ShiftRightMode);
                       w = usc_RTCmd w ChannelCommand_SelctD7_0_1st;
                       wValue = (Port6_PinCtrl_Output1 OR Port5_PinCtrl_Output1 OR
                                 Port4_PinCtrl_Input OR Port3_PinCtrl_Input OR
                                 Port2_PinCtrl_Input OR Port1_PinCtrl_CTR1_Clock OR
                                 Port0_PinCtrl_CTR0_Clock);
                       wValue = (if interface (params (info w)) = RS485_TERM \<or>
                                    interface (params (info w)) = RS485_NOTERM
                                 then wValue OR Port7_PinCtrl_TxCompleteOut
                                 else wValue OR Port7_PinCtrl_Output1);
                       w = usc_OutReg w PCR wValue;
                       w = usc_OutReg w IOCR 0x0000
                   in usc_OutReg w CCSR (RCC_FIFO_Clear_Reset OR PORT0_1BypassCTR_Yes)
              else w)
     in outb 0xFF (base + 5) w)"

subsection \<open>Effect on the device instance\<close>

definition sdlc_cmr_value :: "R56_PARAMS \<Rightarrow> u16" where
  "sdlc_cmr_value p =
    ((if tst (flags p) HDLC_FLAG_HDLC_LOOPMODE then 0x8e06
      else (if mode p = R56_MODE_RAW then 0x0501
            else if tst (flags p) HDLC_FLAG_UNDERRUN_ABORT15 then 0x4606
            else if tst (flags p) HDLC_FLAG_UNDERRUN_FLAG then 0x8606
            else if tst (flags p) HDLC_FLAG_UNDERRUN_CRC then 0xc606
            else 0x0606) OR
           (if preamble p \<noteq> HDLC_PREAMBLE_PATTERN_NONE then BIT13 else 0)) OR
     (if mode p = R56_MODE_HDLC \<and> tst (flags p) HDLC_FLAG_SHARE_ZERO then BIT12 else 0)) OR
    (if addr_filter p \<noteq> 0xff then BIT4 else 0)"

lemmas info_frame =
  let_inv [where P = "\<lambda>x. info x = i" for i] let_pair_inv [where P = "\<lambda>x. info x = i" for i]
  let_value [where P = "\<lambda>x. info x = i" for i]

lemmas wrote_frame =
  let_inv [where P = "\<lambda>x. wrote x r = v" for r v]
  let_pair_inv [where P = "\<lambda>x. wrote x r = v" for r v]
  let_value [where P = "\<lambda>x. wrote x r = v" for r v]

lemma sdlc_chip_frame [simp]:
  "info (snd (sdlc_chip_is_PreSL1660 w)) = info w"
  "env (snd (sdlc_chip_is_PreSL1660 w)) = env w" "mem (snd (sdlc_chip_is_PreSL1660 w)) = mem w"
  by (simp_all add: sdlc_chip_is_PreSL1660_def Let_def case_prod_unfold)

lemma info_sdlc_channel_mode [simp]:
  "info (sdlc_channel_mode w) = (info w)\<lparr> cmr_value := sdlc_cmr_value (params (info w)) \<rparr>"
  by (cases "tst (flags (params (info w))) HDLC_FLAG_HDLC_LOOPMODE";
      cases "mode (params (info w)) = R56_MODE_RAW"; cases "addr_filter (params (info w)) = 0xff")
    (simp_all add: sdlc_channel_mode_def sdlc_cmr_value_def Let_def case_prod_unfold)

lemma info_sdlc_receive_mode [simp]: "info (sdlc_receive_mode w) = info w"
  by (simp add: sdlc_receive_mode_def Let_def case_prod_unfold)

lemma info_sdlc_transmit_mode [simp]:
  "info (sdlc_transmit_mode pre w) =
     (info w)\<lparr> usc_idle_mode := txidle_bits (idle_mode (info w)),
       tcsr_value := if pre then 0 else TCSR_UNDERWAIT \<rparr>"
  by (simp add: sdlc_transmit_mode_def Let_def)

lemma info_sdlc_clock_pins [simp]: "info (sdlc_clock_pins w) = info w"
  unfolding sdlc_clock_pins_def by (intro info_frame) simp_all

lemma info_sdlc_hardware_config [simp]: "info (sdlc_hardware_config w) = info w"
  by (simp add: sdlc_hardware_config_def Let_def case_prod_unfold)

lemma info_sdlc_status_irqs [simp]: "info (sdlc_status_irqs w) = info w"
  by (simp add: sdlc_status_irqs_def Let_def)

lemma info_sdlc_dma_mode [simp]: "info (sdlc_dma_mode w) = (info w)\<lparr> mbre_bit := BIT8 \<rparr>"
  by (simp add: sdlc_dma_mode_def Let_def case_prod_unfold)

lemmas sdlc_part_defs =
  sdlc_channel_mode_def sdlc_receive_mode_def sdlc_transmit_mode_def sdlc_clock_pins_def
  sdlc_hardware_config_def sdlc_status_irqs_def sdlc_dma_mode_def

lemma env_sdlc_parts [simp]:
  "env (sdlc_channel_mode w) = env w" "env (sdlc_receive_mode w) = env w"
  "env (sdlc_transmit_mode pre w) = env w" "env (sdlc_clock_pins w) = env w"
  "env (sdlc_hardware_config w) = env w" "env (sdlc_status_irqs w) = env w"
  "env (sdlc_dma_mode w) = env w"
  by (simp_all add: sdlc_part_defs Let_def case_prod_unfold)

lemma mem_sdlc_parts [simp]:
  "mem (sdlc_channel_mode w) = mem w" "mem (sdlc_receive_mode w) = mem w"
  "mem (sdlc_transmit_mode pre w) = mem w" "mem (sdlc_clock_pins w) = mem w"
  "mem (sdlc_hardware_config w) = mem w" "mem (sdlc_status_irqs w) = mem w"
  "mem (sdlc_dma_mode w) = mem w"
  by (simp_all add: sdlc_part_defs Let_def case_prod_unfold)

text \<open>The instance after \<open>usc_set_sdlc_mode\<close>; \<open>pre\<close> is the chip revision test.\<close>

definition sdlc_info :: "bool \<Rightarrow> r56_struct \<Rightarrow> r56_struct" where
  "sdlc_info pre i =
     i\<lparr> cmr_value := sdlc_cmr_value (params i), usc_idle_mode := txidle_bits (idle_mode i),
        tcsr_value := if pre then 0 else TCSR_UNDERWAIT, mbre_bit := BIT8,
        tx_timer := False, tx_enabled := False, tx_active := False,
        rx_enabled := False, rx_overflow := False, rx_rcc_underrun := False,
        params := (params i)\<lparr> interface := chosen_interface i \<rparr> \<rparr>"

lemma info_usc_set_sdlc_mode:
  "info (usc_set_sdlc_mode w) = sdlc_info (fst (sdlc_chip_is_PreSL1660 w)) (info w)"
  by (simp add: usc_set_sdlc_mode_def sdlc_info_def Let_def case_prod_unfold chosen_interface_def)

lemma usc_set_sdlc_mode_frame [simp]:
  "env (usc_set_sdlc_mode w) = env w" "mem (usc_set_sdlc_mode w) = mem w"
  by (simp_all add: usc_set_sdlc_mode_def Let_def case_prod_unfold)

lemma poll_rcsr_frame [simp]:
  "info (poll_rcsr n m w) = info w" "env (poll_rcsr n m w) = env w"
  "mem (poll_rcsr n m w) = mem w" "wrote (poll_rcsr n m w) = wrote w"
  by (induction n arbitrary: w) (simp_all add: Let_def case_prod_unfold)

text \<open>
  The fields that the mode set-up routines may change, set to fixed values: two instances with
  equal \<open>driver_core\<close> agree in every other field, among them all buffers, counters, queues
  and the pending work.
\<close>

definition driver_core :: "r56_struct \<Rightarrow> r56_struct" where
  "driver_core i =
     i\<lparr> cmr_value := 0, usc_idle_mode := 0, tcsr_value := 0, mbre_bit := 0, loopback_bits := 0,
        tx_timer := False, tx_enabled := False, tx_active := False,
        rx_enabled := False, rx_overflow := False, rx_rcc_underrun := False,
        params := (params i)\<lparr> interface := 0 \<rparr> \<rparr>"

lemma driver_core_sdlc_info [simp]: "driver_core (sdlc_info pre i) = driver_core i"
  by (simp add: driver_core_def sdlc_info_def)

lemma sdlc_info_fields [simp]:
  "params (sdlc_info pre i) = (params i)\<lparr> interface := chosen_interface i \<rparr>"
  "bus_type (sdlc_info pre i) = bus_type i" "hw_version (sdlc_info pre i) = hw_version i"
  "tx_enabled (sdlc_info pre i) = False" "tx_active (sdlc_info pre i) = False"
  "rx_enabled (sdlc_info pre i) = False" "tx_timer (sdlc_info pre i) = False"
  "rx_overflow (sdlc_info pre i) = False" "rx_rcc_underrun (sdlc_info pre i) = False"
  "tcsr_value (sdlc_info pre i) = (if pre then 0 else TCSR_UNDERWAIT)"
  "cmr_value (sdlc_info pre i) = sdlc_cmr_value (params i)"
  "mbre_bit (sdlc_info pre i) = BIT8" "loopback_bits (sdlc_info pre i) = loopback_bits i"
  "idle_mode (sdlc_info pre i) = idle_mode i" "io_base (sdlc_info pre i) = io_base i"
  by (simp_all add: sdlc_info_def)

lemma chosen_interface_params [simp]:
  "chosen_interface (i\<lparr> params := p \<rparr>) = (if hw_version i \<noteq> R565_DEVICE_ID then interface p else RS232)"
  by (simp add: chosen_interface_def)

definition loopback_frame_info :: "bool \<Rightarrow> r56_struct \<Rightarrow> r56_struct" where
  "loopback_frame_info pre i =
     params_update (mode_update (\<lambda>_. mode (params i)))
       ((sdlc_info pre (params_update (mode_update (\<lambda>_. R56_MODE_HDLC)) i))\<lparr> loopback_bits := 0 \<rparr>)"

lemma info_usc_loopback_frame:
  "\<exists>pre. info (usc_loopback_frame w) = loopback_frame_info pre (info w)"
  by (simp add: usc_loopback_frame_def loopback_frame_info_def Let_def info_usc_set_sdlc_mode) blast

lemma usc_loopback_frame_frame [simp]:
  "env (usc_loopback_frame w) = env w" "mem (usc_loopback_frame w) = mem w"
  by (simp_all add: usc_loopback_frame_def Let_def)

lemma loopback_frame_info_fields [simp]:
  "params (loopback_frame_info pre i) = (params i)\<lparr> interface := chosen_interface i \<rparr>"
  "bus_type (loopback_frame_info pre i) = bus_type i"
  "hw_version (loopback_frame_info pre i) = hw_version i"
  "idle_mode (loopback_frame_info pre i) = idle_mode i"
  "tx_enabled (loopback_frame_info pre i) = False"
  "tx_active (loopback_frame_info pre i) = False"
  "rx_enabled (loopback_frame_info pre i) = False"
  "loopback_bits (loopback_frame_info pre i) = 0"
  by (simp_all add: loopback_frame_info_def chosen_interface_def)

lemma chosen_interface_sdlc_info [simp]:
  "chosen_interface (sdlc_info pre i) = chosen_interface i"
  "chosen_interface (loopback_frame_info pre i) = chosen_interface i"
  by (simp_all add: chosen_interface_def)

lemma driver_core_loopback_frame_info [simp]:
  "driver_core (loopback_frame_info pre i) = driver_core i"
  by (simp add: loopback_frame_info_def driver_core_def sdlc_info_def)

lemma usc_set_sync_mode_frame [simp]:
  "env (usc_set_sync_mode w) = env w" "mem (usc_set_sync_mode w) = mem w"
  by (simp_all add: usc_set_sync_mode_def Let_def)

lemma info_usc_set_sync_mode:
  "\<exists>pre pre'. info (usc_set_sync_mode w) =
     (sdlc_info pre' (loopback_frame_info pre (info w)))\<lparr> loopback_bits :=
        if loopback (params (info w)) \<noteq> 0 then 0x300 else 0 \<rparr>"
proof -
  obtain pre where pre: "info (usc_loopback_frame w) = loopback_frame_info pre (info w)"
    using info_usc_loopback_frame by blast
  define w' where "w' = usc_loopback_frame w"
  have "info (usc_set_sync_mode w) =
     (sdlc_info (fst (sdlc_chip_is_PreSL1660 w')) (info w'))\<lparr> loopback_bits :=
        if loopback (params (info w)) \<noteq> 0 then 0x300 else 0 \<rparr>"
    by (simp add: usc_set_sync_mode_def Let_def info_usc_set_sdlc_mode w'_def [symmetric])
       (simp add: sdlc_info_def w'_def pre)
  then show ?thesis by (auto simp: w'_def pre)
qed

lemma async_program_channel_frame [simp]:
  "info (async_program_channel w) = info (usc_set_txidle w)"
  "env (async_program_channel w) = env w" "mem (async_program_channel w) = mem w"
  by (simp_all add: async_program_channel_def Let_def)

lemma usc_set_async_mode_frame [simp]:
  "env (usc_set_async_mode w) = env w" "mem (usc_set_async_mode w) = mem w"
  by (simp_all add: usc_set_async_mode_def Let_def)

lemma reset_assert_frame [simp]:
  "info (reset_assert n a w) = info w" "env (reset_assert n a w) = env w"
  "mem (reset_assert n a w) = mem w" "wrote (reset_assert n a w) = wrote w"
  by (induction n arbitrary: w) (simp_all add: Let_def case_prod_unfold)

lemma reset_wait_frame [simp]:
  "info (reset_wait n a w) = info w" "env (reset_wait n a w) = env w"
  "mem (reset_wait n a w) = mem w" "wrote (reset_wait n a w) = wrote w"
  by (induction n arbitrary: w) (simp_all add: Let_def case_prod_unfold)

lemma info_usc_reset [simp]:
  "info (usc_reset w) =
     (if bus_type (info w) = R56_BUS_TYPE_PCI
      then (info w)\<lparr> mbre_bit := 0, loopback_bits := 0, usc_idle_mode := 0 \<rparr> else info w)"
  by (simp add: usc_reset_def Let_def case_prod_unfold)

lemma usc_reset_frame [simp]: "env (usc_reset w) = env w" "mem (usc_reset w) = mem w"
  by (simp_all add: usc_reset_def Let_def case_prod_unfold)

subsection \<open>Properties\<close>

lemma wrote_sdlc_channel_mode:
  "wrote (sdlc_channel_mode w) CMR = Some (sdlc_cmr_value (params (info w)))"
  by (cases "tst (flags (params (info w))) HDLC_FLAG_HDLC_LOOPMODE";
      cases "mode (params (info w)) = R56_MODE_RAW"; cases "addr_filter (params (info w)) = 0xff")
    (simp_all add: sdlc_channel_mode_def sdlc_cmr_value_def Let_def case_prod_unfold)

lemma wrote_sdlc_clock_pins:
  "r \<noteq> PCR \<Longrightarrow> r \<noteq> IOCR \<Longrightarrow> r \<noteq> CMCR \<Longrightarrow> wrote (sdlc_clock_pins w) r = wrote w r"
  unfolding sdlc_clock_pins_def by (intro wrote_frame) simp_all

lemma wrote_sdlc_parts_CMR [simp]:
  "wrote (sdlc_receive_mode w) CMR = wrote w CMR"
  "wrote (sdlc_transmit_mode pre w) CMR = wrote w CMR"
  "wrote (sdlc_clock_pins w) CMR = wrote w CMR"
  "wrote (sdlc_hardware_config w) CMR = wrote w CMR"
  "wrote (sdlc_status_irqs w) CMR = wrote w CMR"
  "wrote (sdlc_dma_mode w) CMR = wrote w CMR"
  by (simp_all add: wrote_sdlc_clock_pins sdlc_receive_mode_def sdlc_transmit_mode_def
      usc_set_txidle_def sdlc_hardware_config_def sdlc_status_irqs_def sdlc_dma_mode_def
      Let_def case_prod_unfold)

lemma wrote_usc_set_interface [simp]: "wrote (usc_set_interface w) = wrote w"
  by (simp add: usc_set_interface_def Let_def)

lemma wrote_usc_stop [simp]:
  "wrote (usc_stop_receiver w) CMR = wrote w CMR"
  "wrote (usc_stop_transmitter w) CMR = wrote w CMR"
  "wrote (usc_stop_receiver w) TMR = wrote w TMR"
  by (simp_all add: usc_stop_receiver_def usc_stop_transmitter_def del_timer_def Let_def)

lemma stop_disables_field:
  "\<exists>v. wrote (usc_stop_receiver w) RMR = Some v \<and> v AND 3 = 0"
  "\<exists>v. wrote (usc_stop_transmitter w) TMR = Some v \<and> v AND 3 = 0"
  by (simp_all add: usc_stop_receiver_def usc_stop_transmitter_def Let_def word_bw_assocs)

text \<open>C32: \<open>usc_set_sdlc_mode\<close> leaves in the channel mode register exactly the value kept in
  \<open>cmr_value\<close>, which is the encoding of the parameters, leaves receiver and transmitter
  disabled in the mode registers and in the flags of the instance, stops the transmit timer, and
  changes no other part of the instance (buffers, queues, counters, pending work) nor memory.\<close>

theorem set_sdlc_mode_programs_channel:
  "wrote (usc_set_sdlc_mode w) CMR = Some (sdlc_cmr_value (params (info w))) \<and>
   cmr_value (info (usc_set_sdlc_mode w)) = sdlc_cmr_value (params (info w)) \<and>
   (\<exists>v. wrote (usc_set_sdlc_mode w) RMR = Some v \<and> v AND 3 = 0) \<and>
   (\<exists>v. wrote (usc_set_sdlc_mode w) TMR = Some v \<and> v AND 3 = 0) \<and>
   \<not> rx_enabled (info (usc_set_sdlc_mode w)) \<and> \<not> tx_enabled (info (usc_set_sdlc_mode w)) \<and>
   \<not> tx_active (info (usc_set_sdlc_mode w)) \<and> \<not> tx_timer (info (usc_set_sdlc_mode w)) \<and>
   driver_core (info (usc_set_sdlc_mode w)) = driver_core (info w) \<and>
   mem (usc_set_sdlc_mode w) = mem w"
  using stop_disables_field
  by (simp add: info_usc_set_sdlc_mode)
     (simp add: usc_set_sdlc_mode_def Let_def case_prod_unfold wrote_sdlc_channel_mode)

text \<open>whatever transmit idle mode is selected, after \<open>usc_set_sdlc_mode\<close> the idle
  field (bits 10..8) of the transmit command and status register and of its copy
  \<open>tcsr_value\<close> is zero, the code of idle flags: the pattern that
  \<open>usc_set_txidle\<close> programs in the middle of the routine does not survive it.\<close>

theorem set_sdlc_mode_loses_idle_pattern:
  "tcsr_value (info (usc_set_sdlc_mode w)) AND IDLEMODE_MASK = txidle_bits HDLC_TXIDLE_FLAGS"
  by (simp add: info_usc_set_sdlc_mode txidle_bits_def)

end
