(* ===== verification/R56_Dma.thy ===== *)
theory R56_Dma
  imports R56_Mode
begin

text \<open>
  The DMA buffer entry lists and data buffers of \<open>driver/route56.c\<close>: sizing and
  allocation (\<open>r56_allocate_dma_buffers\<close> and the routines it calls), release, reset,
  and the intermediate receive buffer and transmit holding buffers.

  The page with the buffer entries is kept as the two typed lists \<open>rx_buffer_list\<close> and
  \<open>tx_buffer_list\<close> of the instance; entries that would lie outside that page have no
  value (the allocation returns None). The data pages are ranges of byte memory.
\<close>

subsection \<open>Kernel allocation\<close>

definition kmalloc :: "nat \<Rightarrow> world \<Rightarrow> u8 list option \<times> world" where
  "kmalloc n w =
    (let w = kcall (Kmalloc n) w
     in (if os_ret (env w) (trace w) = 0 then None
         else Some (map (os_mem (env w) (trace w)) [0..<n]), w))"

definition dma_alloc_coherent :: "nat \<Rightarrow> world \<Rightarrow> nat \<times> u64 \<times> world" where
  "dma_alloc_coherent n w =
    (let w = kcall (Dma_alloc_coherent n) w
     in (nat (os_ret (env w) (trace w)), os_dma (env w) (trace w), w))"

subsection \<open>Reset of the buffer lists\<close>

text \<open>
  \<open>for (; i < n; i++) *((unsigned long *)&(list[i].count)) = v;\<close>
\<close>

function store_counts :: "u64 \<Rightarrow> nat \<Rightarrow> nat \<Rightarrow> DMABUFFERENTRY list \<Rightarrow> DMABUFFERENTRY list option" where
  "store_counts v i n es =
    (if i < n
     then do { e \<leftarrow> aget es i;
               es \<leftarrow> aset es i (store_ulong_at_count v e);
               store_counts v (Suc i) n es }
     else Some es)"
  by pat_completeness auto
termination store_counts
  by (relation "measure (\<lambda>(v, i, n, es). n - i)") auto

declare store_counts.simps [simp del]

definition r56_reset_tx_dma_buffers :: "world \<Rightarrow> world option" where
  "r56_reset_tx_dma_buffers w =
    do { es \<leftarrow> store_counts 0 0 (unat (tx_buffer_count (info w))) (tx_buffer_list (info w));
         Some (set_info (\<lambda>i. i\<lparr> tx_buffer_list := es, current_tx_buffer := 0,
                                start_tx_dma_buffer := 0, tx_dma_buffers_used := 0,
                                get_tx_holding_index := 0, put_tx_holding_index := 0,
                                tx_holding_count := 0 \<rparr>) w) }"

definition r56_reset_rx_dma_buffers :: "world \<Rightarrow> world option" where
  "r56_reset_rx_dma_buffers w =
    do { es \<leftarrow> store_counts (of_nat DMABUFFERSIZE) 0 (unat (rx_buffer_count (info w)))
                             (rx_buffer_list (info w));
         Some (set_info (\<lambda>i. i\<lparr> rx_buffer_list := es, current_rx_buffer := 0 \<rparr>) w) }"

definition num_free_tx_dma_buffers :: "r56_struct \<Rightarrow> int" where
  "num_free_tx_dma_buffers i = sint (tx_buffer_count i - of_int (tx_dma_buffers_used i))"

subsection \<open>Allocation\<close>

text \<open>
  The loop that links one circular list: entry \<open>i\<close> of \<open>n\<close>, the list starting at
  entry \<open>first\<close> of the buffer list page at bus address \<open>phys\<close>.
\<close>

definition link_entry :: "u32 \<Rightarrow> nat \<Rightarrow> nat \<Rightarrow> nat \<Rightarrow> DMABUFFERENTRY" where
  "link_entry phys first n i =
     zero_entry\<lparr> phys_entry := phys + of_nat ((first + i) * sizeof_DMABUFFERENTRY),
                 link := (if i < n - 1
                          then phys + of_nat (first * sizeof_DMABUFFERENTRY) +
                               of_nat ((i + 1) * sizeof_DMABUFFERENTRY)
                          else phys + of_nat (first * sizeof_DMABUFFERENTRY)) \<rparr>"

definition r56_alloc_buffer_list_memory :: "world \<Rightarrow> (int \<times> world) option" where
  "r56_alloc_buffer_list_memory w =
    (let (ok, w) =
       (if bus_type (info w) = R56_BUS_TYPE_PCI
        then (True, set_info (\<lambda>i. i\<lparr> buffer_list := memory_base i + unat (last_mem_alloc i),
                                      buffer_list_phys := last_mem_alloc i,
                                      last_mem_alloc := last_mem_alloc i + of_nat BUFFERLISTSIZE \<rparr>) w)
        else let (va, da, w) = dma_alloc_coherent BUFFERLISTSIZE w;
                 w = set_info (\<lambda>i. i\<lparr> buffer_list := va \<rparr>) w
             in if va = 0 then (False, w)
                else (True, set_info (\<lambda>i. i\<lparr> buffer_list_phys := ucast da \<rparr>) w))
     in if \<not> ok then Some (- ENOMEM, w)
        else let nrx = unat (rx_buffer_count (info w));
                 ntx = unat (tx_buffer_count (info w));
                 phys = buffer_list_phys (info w)
             in if (nrx + ntx) * sizeof_DMABUFFERENTRY \<le> BUFFERLISTSIZE
                then Some (0, set_info (\<lambda>i. i\<lparr>
                       rx_buffer_list := map (link_entry phys 0 nrx) [0..<nrx],
                       tx_buffer_list := map (link_entry phys nrx ntx) [0..<ntx] \<rparr>) w)
                else None)"

function alloc_frames ::
  "nat \<Rightarrow> nat \<Rightarrow> DMABUFFERENTRY list \<Rightarrow> world \<Rightarrow> (int \<times> DMABUFFERENTRY list \<times> world) option" where
  "alloc_frames i n es w =
    (if i < n
     then do { e \<leftarrow> aget es i;
               if bus_type (info w) = R56_BUS_TYPE_PCI
               then do { es \<leftarrow> aset es i (e\<lparr> virt_addr := memory_base (info w) +
                                                           unat (last_mem_alloc (info w)),
                                              phys_addr := last_mem_alloc (info w) \<rparr>);
                         alloc_frames (Suc i) n es
                           (set_info (last_mem_alloc_update (\<lambda>a. a + of_nat DMABUFFERSIZE)) w) }
               else let (va, da, w) = dma_alloc_coherent DMABUFFERSIZE w;
                        e = e\<lparr> virt_addr := va, dma_addr := da \<rparr>
                    in if va = 0
                       then do { es \<leftarrow> aset es i e; Some (- ENOMEM, es, w) }
                       else do { es \<leftarrow> aset es i (e\<lparr> phys_addr := ucast da \<rparr>);
                                 alloc_frames (Suc i) n es w } }
     else Some (0, es, w))"
  by pat_completeness auto
termination alloc_frames
  by (relation "measure (\<lambda>(i, n, es, w). n - i)") auto

declare alloc_frames.simps [simp del]

definition r56_alloc_frame_memory ::
  "DMABUFFERENTRY list \<Rightarrow> nat \<Rightarrow> world \<Rightarrow> (int \<times> DMABUFFERENTRY list \<times> world) option" where
  "r56_alloc_frame_memory BufferList Buffercount w = alloc_frames 0 Buffercount BufferList w"

definition r56_alloc_intermediate_rxbuffer_memory :: "world \<Rightarrow> int \<times> world" where
  "r56_alloc_intermediate_rxbuffer_memory w =
    (let (b, w) = kmalloc (unat (max_frame_size (info w))) w;
         w = set_info (intermediate_rxbuffer_update (\<lambda>_. b)) w
     in (if b = None then - ENOMEM else 0, w))"

text \<open>\<open>for (--i; i >= 0; i--) { kfree(buffers[i].buffer); buffers[i].buffer = NULL; }\<close>\<close>

fun free_holding_below :: "nat \<Rightarrow> world \<Rightarrow> world option" where
  "free_holding_below 0 w = Some w"
| "free_holding_below (Suc i) w =
    do { b \<leftarrow> aget (tx_holding_buffers (info w)) i;
         bs \<leftarrow> aset (tx_holding_buffers (info w)) i (b\<lparr> buffer := None \<rparr>);
         free_holding_below i (set_info (tx_holding_buffers_update (\<lambda>_. bs)) (kcall Kfree w)) }"

function alloc_holding :: "nat \<Rightarrow> nat \<Rightarrow> world \<Rightarrow> (int \<times> world) option" where
  "alloc_holding i n w =
    (if i < n
     then let (b, w) = kmalloc (unat (max_frame_size (info w))) w
          in do { h \<leftarrow> aget (tx_holding_buffers (info w)) i;
                  hs \<leftarrow> aset (tx_holding_buffers (info w)) i (h\<lparr> buffer := b \<rparr>);
                  let w = set_info (tx_holding_buffers_update (\<lambda>_. hs)) w
                  in if b = None
                     then do { w \<leftarrow> free_holding_below i w; Some (- ENOMEM, w) }
                     else alloc_holding (Suc i) n w }
     else Some (0, w))"
  by pat_completeness auto
termination alloc_holding
  by (relation "measure (\<lambda>(i, n, w). n - i)") auto

declare alloc_holding.simps [simp del]

definition r56_alloc_intermediate_txbuffer_memory :: "world \<Rightarrow> (int \<times> world) option" where
  "r56_alloc_intermediate_txbuffer_memory w =
    (let w = set_info (tx_holding_buffers_update
               (\<lambda>_. replicate (nat MAX_TX_HOLDING_BUFFERS) zero_holding_buffer)) w
     in alloc_holding 0 (nat (num_tx_holding_buffers (info w))) w)"

text \<open>The number of buffers of each list, in \<open>unsigned int\<close> arithmetic.\<close>

definition buffers_per_frame :: "u32 \<Rightarrow> u16" where
  "buffers_per_frame sz =
    (let BuffersPerFrame = ucast (sz div of_nat DMABUFFERSIZE)
     in if sz mod of_nat DMABUFFERSIZE \<noteq> 0 then BuffersPerFrame + 1 else BuffersPerFrame)"

definition dma_buffer_counts :: "world \<Rightarrow> world" where
  "dma_buffer_counts w =
    (let BuffersPerFrame = ucast (buffers_per_frame (max_frame_size (info w))) :: u32;
         tx = of_int (num_tx_dma_buffers (info w)) * BuffersPerFrame;
         rx = (if bus_type (info w) = R56_BUS_TYPE_PCI then 62 - tx
               else let rx = BuffersPerFrame * MAXRXFRAMES + 6
                    in if tx + rx > 62 then 62 - tx else rx)
     in set_info (\<lambda>i. i\<lparr> last_mem_alloc := 0, tx_buffer_count := tx, rx_buffer_count := rx \<rparr>) w)"

definition r56_allocate_dma_buffers :: "world \<Rightarrow> (int \<times> world) option" where
  "r56_allocate_dma_buffers w =
    do { (r, w) \<leftarrow> r56_alloc_buffer_list_memory (dma_buffer_counts w);
         if r < 0 then Some (- ENOMEM, w)
         else do {
           (r, es, w) \<leftarrow> r56_alloc_frame_memory (rx_buffer_list (info w))
                           (unat (rx_buffer_count (info w))) w;
           let w = set_info (rx_buffer_list_update (\<lambda>_. es)) w
           in if r < 0 then Some (- ENOMEM, w)
              else do {
                (r, es, w) \<leftarrow> r56_alloc_frame_memory (tx_buffer_list (info w))
                                (unat (tx_buffer_count (info w))) w;
                let w = set_info (tx_buffer_list_update (\<lambda>_. es)) w
                in if r < 0 then Some (- ENOMEM, w)
                   else let (r, w) = r56_alloc_intermediate_rxbuffer_memory w
                        in if r < 0 then Some (- ENOMEM, w)
                           else do {
                             (r, w) \<leftarrow> r56_alloc_intermediate_txbuffer_memory w;
                             if r < 0 then Some (- ENOMEM, w)
                             else do { w \<leftarrow> r56_reset_rx_dma_buffers w;
                                       w \<leftarrow> r56_reset_tx_dma_buffers w;
                                       Some (0, w) } } } } }"

subsection \<open>Release\<close>

definition r56_free_buffer_list_memory :: "world \<Rightarrow> world" where
  "r56_free_buffer_list_memory w =
    (let w = (if buffer_list (info w) \<noteq> 0 \<and> bus_type (info w) \<noteq> R56_BUS_TYPE_PCI
              then kcall (Dma_free_coherent (buffer_list (info w))) w else w)
     in set_info (\<lambda>i. i\<lparr> buffer_list := 0, rx_buffer_list := [], tx_buffer_list := [] \<rparr>) w)"

function free_frames ::
  "nat \<Rightarrow> nat \<Rightarrow> DMABUFFERENTRY list \<Rightarrow> world \<Rightarrow> (DMABUFFERENTRY list \<times> world) option" where
  "free_frames i n es w =
    (if i < n
     then do { e \<leftarrow> aget es i;
               if virt_addr e \<noteq> 0
               then do { es \<leftarrow> aset es i (e\<lparr> virt_addr := 0 \<rparr>);
                         free_frames (Suc i) n es
                           (if bus_type (info w) \<noteq> R56_BUS_TYPE_PCI
                            then kcall (Dma_free_coherent (virt_addr e)) w else w) }
               else free_frames (Suc i) n es w }
     else Some (es, w))"
  by pat_completeness auto
termination free_frames
  by (relation "measure (\<lambda>(i, n, es, w). n - i)") (auto split: if_splits)

declare free_frames.simps [simp del]

definition r56_free_frame_memory ::
  "DMABUFFERENTRY list \<Rightarrow> nat \<Rightarrow> world \<Rightarrow> (DMABUFFERENTRY list \<times> world) option" where
  "r56_free_frame_memory BufferList Buffercount w =
    (if BufferList \<noteq> [] then free_frames 0 Buffercount BufferList w else Some (BufferList, w))"

definition r56_free_dma_buffers :: "world \<Rightarrow> world option" where
  "r56_free_dma_buffers w =
    do { (es, w) \<leftarrow> r56_free_frame_memory (rx_buffer_list (info w))
                      (unat (rx_buffer_count (info w))) w;
         let w = set_info (rx_buffer_list_update (\<lambda>_. es)) w
         in do { (es, w) \<leftarrow> r56_free_frame_memory (tx_buffer_list (info w))
                               (unat (tx_buffer_count (info w))) w;
                 let w = set_info (tx_buffer_list_update (\<lambda>_. es)) w
                 in Some (r56_free_buffer_list_memory w) } }"

definition r56_free_intermediate_rxbuffer_memory :: "world \<Rightarrow> world" where
  "r56_free_intermediate_rxbuffer_memory w =
     set_info (intermediate_rxbuffer_update (\<lambda>_. None)) (kcall Kfree w)"

function free_holding :: "nat \<Rightarrow> nat \<Rightarrow> world \<Rightarrow> world option" where
  "free_holding i n w =
    (if i < n
     then do { h \<leftarrow> aget (tx_holding_buffers (info w)) i;
               hs \<leftarrow> aset (tx_holding_buffers (info w)) i (h\<lparr> buffer := None \<rparr>);
               free_holding (Suc i) n
                 (set_info (tx_holding_buffers_update (\<lambda>_. hs)) (kcall Kfree w)) }
     else Some w)"
  by pat_completeness auto
termination free_holding
  by (relation "measure (\<lambda>(i, n, w). n - i)") auto

declare free_holding.simps [simp del]

definition r56_free_intermediate_txbuffer_memory :: "world \<Rightarrow> world option" where
  "r56_free_intermediate_txbuffer_memory w =
    do { w \<leftarrow> free_holding 0 (nat (num_tx_holding_buffers (info w))) w;
         Some (set_info (\<lambda>i. i\<lparr> get_tx_holding_index := 0, put_tx_holding_index := 0,
                                tx_holding_count := 0 \<rparr>) w) }"

subsection \<open>Loops and allocation in closed form\<close>

lemma store_ulong_fields [simp]:
  "phys_addr (store_ulong_at_count v e) = phys_addr e" "link (store_ulong_at_count v e) = link e"
  "virt_addr (store_ulong_at_count v e) = virt_addr e"
  "phys_entry (store_ulong_at_count v e) = phys_entry e"
  "count (store_ulong_at_count v e) = ucast v"
  "status (store_ulong_at_count v e) = ucast (drop_bit 16 v)"
  by (simp_all add: store_ulong_at_count_def)

lemma store_counts_from:
  "i \<le> n \<Longrightarrow> n \<le> length es \<Longrightarrow>
   store_counts v i n es =
     Some (take i es @ map (store_ulong_at_count v) (take (n - i) (drop i es)) @ drop n es)"
proof (induction v i n es rule: store_counts.induct)
  case (1 v i n es)
  show ?case
  proof (cases "i < n")
    case True
    then have i: "i < length es" using "1.prems" by simp
    have d: "drop i es = es ! i # drop (Suc i) es" using i by (simp add: Cons_nth_drop_Suc)
    have t: "take (Suc i) (es[i := x]) = take i es @ [x]" for x
      using i by (simp add: take_Suc_conv_app_nth)
    have n: "n - i = Suc (n - Suc i)" using True by simp
    show ?thesis using True i 1
      by (subst store_counts.simps) (simp add: t d n)
  next
    case False
    then show ?thesis using "1.prems" by (subst store_counts.simps) simp
  qed
qed

lemma store_counts_all [simp]:
  "store_counts v 0 (length es) es = Some (map (store_ulong_at_count v) es)"
  by (simp add: store_counts_from)

lemma alloc_frames_pci:
  "i \<le> n \<Longrightarrow> n = length es \<Longrightarrow> bus_type (info w) = R56_BUS_TYPE_PCI \<Longrightarrow>
   alloc_frames i n es w =
     Some (0, take i es @
              map (\<lambda>k. (es ! k)\<lparr> virt_addr := memory_base (info w) +
                                    unat (last_mem_alloc (info w) + of_nat (4096 * (k - i))),
                                  phys_addr := last_mem_alloc (info w) + of_nat (4096 * (k - i)) \<rparr>)
                [i..<n],
           set_info (last_mem_alloc_update (\<lambda>a. a + of_nat (4096 * (n - i)))) w)"
proof (induction "n - i" arbitrary: i es w)
  case 0
  then show ?case by (subst alloc_frames.simps) simp
next
  case (Suc m)
  then have i: "i < n" and m: "m = n - Suc i" by simp_all
  define es' where "es' = es[i := (es ! i)\<lparr> virt_addr := memory_base (info w) + unat (last_mem_alloc (info w)),
                                             phys_addr := last_mem_alloc (info w) \<rparr>]"
  define w' where "w' = set_info (last_mem_alloc_update (\<lambda>a. a + 4096)) w"
  have "alloc_frames i n es w = alloc_frames (Suc i) n es' w'"
    using Suc.prems i by (subst alloc_frames.simps) (simp add: es'_def w'_def)
  also have "\<dots> = Some (0, take (Suc i) es' @
              map (\<lambda>k. (es' ! k)\<lparr> virt_addr := memory_base (info w') +
                                    unat (last_mem_alloc (info w') + of_nat (4096 * (k - Suc i))),
                                  phys_addr := last_mem_alloc (info w') + of_nat (4096 * (k - Suc i)) \<rparr>)
                [Suc i..<n],
           set_info (last_mem_alloc_update (\<lambda>a. a + of_nat (4096 * (n - Suc i)))) w')"
    using Suc.prems i by (intro Suc.hyps(1) m) (simp_all add: es'_def w'_def)
  also have "take (Suc i) es' = take i es @ [es' ! i]"
    using Suc.prems i by (simp add: es'_def take_Suc_conv_app_nth)
  finally show ?case
    using Suc.prems i
    by (simp add: es'_def w'_def upt_conv_Cons comp_def algebra_simps Suc_diff_Suc)
qed

lemma kmalloc_frame [simp]:
  "info (snd (kmalloc n w)) = info w" "env (snd (kmalloc n w)) = env w"
  "mem (snd (kmalloc n w)) = mem w"
  by (simp_all add: kmalloc_def Let_def)

lemma kmalloc_succeeds: "\<forall>es. os_ret (env w) es \<noteq> 0 \<Longrightarrow> fst (kmalloc n w) \<noteq> None"
  by (simp add: kmalloc_def Let_def)

lemma kmalloc_length: "fst (kmalloc n w) = Some b \<Longrightarrow> length b = n"
  by (auto simp: kmalloc_def Let_def split: if_splits)

text \<open>Two states that differ at most in the memory of the holding buffers and the trace.\<close>

definition holding_frame :: "world \<Rightarrow> world \<Rightarrow> bool" where
  "holding_frame w w' \<longleftrightarrow>
     env w' = env w \<and> mem w' = mem w \<and>
     (\<exists>hs. map buffer_size hs = map buffer_size (tx_holding_buffers (info w)) \<and>
           info w' = (info w)\<lparr> tx_holding_buffers := hs \<rparr>)"

lemma buffer_size_update [simp]:
  "map buffer_size (hs[i := (hs ! i)\<lparr> buffer := b \<rparr>]) = map buffer_size hs"
  by (simp add: map_update) (metis list_update_id map_update)

lemma holding_frame_refl [simp]: "holding_frame w w"
  by (auto simp: holding_frame_def intro!: exI [of _ "tx_holding_buffers (info w)"])

lemma holding_frame_trans: "holding_frame u v \<Longrightarrow> holding_frame v w \<Longrightarrow> holding_frame u w"
  by (auto simp: holding_frame_def)

lemma holding_frameI:
  "info w' = (info w)\<lparr> tx_holding_buffers := hs \<rparr> \<Longrightarrow>
   map buffer_size hs = map buffer_size (tx_holding_buffers (info w)) \<Longrightarrow> env w' = env w \<Longrightarrow>
   mem w' = mem w \<Longrightarrow> holding_frame w w'"
  by (auto simp: holding_frame_def)

lemma free_holding_below_total:
  "n \<le> length (tx_holding_buffers (info w)) \<Longrightarrow>
   \<exists>w'. free_holding_below n w = Some w' \<and> holding_frame w w'"
proof (induction n arbitrary: w)
  case (Suc n)
  define hs where "hs = (tx_holding_buffers (info w))[n := (tx_holding_buffers (info w) ! n)\<lparr> buffer := None \<rparr>]"
  define w1 where "w1 = set_info (tx_holding_buffers_update (\<lambda>_. hs)) (kcall Kfree w)"
  have "holding_frame w w1" by (rule holding_frameI [where hs = hs]) (simp_all add: w1_def hs_def)
  moreover have "n \<le> length (tx_holding_buffers (info w1))" using Suc.prems by (simp add: w1_def hs_def)
  then obtain w' where "free_holding_below n w1 = Some w'" "holding_frame w1 w'"
    using Suc.IH by blast
  ultimately show ?case
    using Suc.prems holding_frame_trans by (auto simp: w1_def hs_def)
qed simp

definition held_size :: "nat \<Rightarrow> tx_holding_buffer \<Rightarrow> bool" where
  "held_size n h \<longleftrightarrow> (case buffer h of None \<Rightarrow> False | Some b \<Rightarrow> length b = n)"

lemma alloc_holding_total:
  "i \<le> n \<Longrightarrow> n \<le> length (tx_holding_buffers (info w)) \<Longrightarrow>
   \<forall>k<i. held_size (unat (max_frame_size (info w))) (tx_holding_buffers (info w) ! k) \<Longrightarrow>
   \<exists>r w'. alloc_holding i n w = Some (r, w') \<and> holding_frame w w' \<and> (r = 0 \<or> r = - ENOMEM) \<and>
     ((\<forall>es. os_ret (env w) es \<noteq> 0) \<longrightarrow> r = 0) \<and>
     (r = 0 \<longrightarrow> (\<forall>k<n. held_size (unat (max_frame_size (info w))) (tx_holding_buffers (info w') ! k)))"
proof (induction "n - i" arbitrary: i w)
  case 0
  then show ?case by (subst alloc_holding.simps) auto
next
  case (Suc m)
  then have i: "i < n" and m: "m = n - Suc i" by simp_all
  define F where "F = unat (max_frame_size (info w))"
  obtain b w0 where km: "kmalloc F w = (b, w0)" by (cases "kmalloc F w")
  have w0: "info w0 = info w" "env w0 = env w" "mem w0 = mem w"
    using kmalloc_frame [of F w] km by simp_all
  define hs where "hs = (tx_holding_buffers (info w))[i := (tx_holding_buffers (info w) ! i)\<lparr> buffer := b \<rparr>]"
  define w1 where "w1 = set_info (tx_holding_buffers_update (\<lambda>_. hs)) w0"
  have fr: "holding_frame w w1"
    by (rule holding_frameI [where hs = hs]) (simp_all add: w1_def w0 hs_def)
  have len: "n \<le> length (tx_holding_buffers (info w1))" using Suc.prems by (simp add: w1_def hs_def)
  have env1: "env w1 = env w" by (simp add: w1_def w0)
  have mf: "max_frame_size (info w1) = max_frame_size (info w)" by (simp add: w1_def w0)
  have step: "alloc_holding i n w =
      (if b = None then do { w \<leftarrow> free_holding_below i w1; Some (- ENOMEM, w) }
       else alloc_holding (Suc i) n w1)"
    using i Suc.prems
    by (subst alloc_holding.simps) (simp add: km [unfolded F_def] w0 w1_def hs_def Let_def)
  show ?case
  proof (cases b)
    case None
    have "i \<le> length (tx_holding_buffers (info w1))" using i len by simp
    then obtain w' where "free_holding_below i w1 = Some w'" "holding_frame w1 w'"
      using free_holding_below_total by blast
    moreover have "\<not> (\<forall>es. os_ret (env w) es \<noteq> 0)" using kmalloc_succeeds [of w F] None km by auto
    ultimately show ?thesis using None fr holding_frame_trans by (auto simp: step)
  next
    case (Some c)
    then have "length c = F" using kmalloc_length [of F w c] km by simp
    then have "\<forall>k<Suc i. held_size (unat (max_frame_size (info w1))) (tx_holding_buffers (info w1) ! k)"
      using Suc.prems i Some by (auto simp: w1_def w0 hs_def nth_list_update held_size_def less_Suc_eq F_def)
    from Suc.hyps(1) [OF m _ len this] i fr show ?thesis
      unfolding mf env1 by (auto simp: step Some intro: holding_frame_trans)
  qed
qed

lemma unat_buffers_per_frame:
  assumes "unat sz < 2 ^ 27"
  shows "unat (buffers_per_frame sz) = (unat sz + 4095) div 4096"
proof -
  have q: "unat sz div 4096 < 65535" using assms by simp
  have u: "unat (ucast (sz div 4096) :: u16) = unat sz div 4096"
    using q by (simp add: unat_ucast_u16 unat_div)
  have m: "sz mod 4096 = 0 \<longleftrightarrow> unat sz mod 4096 = 0"
    by (simp add: unat_eq_0 [symmetric] unat_mod)
  have "unat (ucast (sz div 4096) + 1 :: u16) = unat sz div 4096 + 1"
    using q by (simp add: unat_word_ariths u)
  then show ?thesis
    using ceiling_div [of 4096 "unat sz"] by (simp add: buffers_per_frame_def Let_def m u)
qed

subsection \<open>Properties\<close>

text \<open>
  The layout of the 256 KB window of a PCI adapter: page 0 holds the buffer entries, pages 1 to 62
  the data buffers, receive list first; both lists are circular through their links, all receive
  buffers are empty and all transmit buffers free.
\<close>

definition circular :: "DMABUFFERENTRY list \<Rightarrow> bool" where
  "circular es \<longleftrightarrow> (\<forall>k<length es. link (es ! k) = phys_entry (es ! (Suc k mod length es)))"

definition rx_ring :: "r56_struct \<Rightarrow> bool" where
  "rx_ring i \<longleftrightarrow>
     length (rx_buffer_list i) = unat (rx_buffer_count i) \<and>
     unat (current_rx_buffer i) < length (rx_buffer_list i)"

definition tx_ring :: "r56_struct \<Rightarrow> bool" where
  "tx_ring i \<longleftrightarrow>
     length (tx_buffer_list i) = unat (tx_buffer_count i) \<and>
     0 \<le> current_tx_buffer i \<and> nat (current_tx_buffer i) < length (tx_buffer_list i) \<and>
     0 \<le> start_tx_dma_buffer i \<and> nat (start_tx_dma_buffer i) < length (tx_buffer_list i)"

definition holding_ready :: "r56_struct \<Rightarrow> bool" where
  "holding_ready i \<longleftrightarrow>
     nat (num_tx_holding_buffers i) \<le> length (tx_holding_buffers i) \<and>
     (\<forall>k<nat (num_tx_holding_buffers i).
        held_size (unat (max_frame_size i)) (tx_holding_buffers i ! k))"

definition pci_layout :: "r56_struct \<Rightarrow> bool" where
  "pci_layout i \<longleftrightarrow>
     rx_ring i \<and> tx_ring i \<and> length (rx_buffer_list i @ tx_buffer_list i) = 62 \<and>
     circular (rx_buffer_list i) \<and> circular (tx_buffer_list i) \<and>
     (\<forall>k<62. virt_addr ((rx_buffer_list i @ tx_buffer_list i) ! k) = memory_base i + 4096 * (k + 1) \<and>
             phys_addr ((rx_buffer_list i @ tx_buffer_list i) ! k) = of_nat (4096 * (k + 1)) \<and>
             phys_entry ((rx_buffer_list i @ tx_buffer_list i) ! k) = of_nat (40 * k)) \<and>
     (\<forall>e\<in>set (rx_buffer_list i). count e = 4096 \<and> status e = 0) \<and>
     (\<forall>e\<in>set (tx_buffer_list i). count e = 0 \<and> status e = 0) \<and>
     holding_ready i"

definition pci_entry :: "nat \<Rightarrow> nat \<Rightarrow> nat \<Rightarrow> nat \<Rightarrow> DMABUFFERENTRY" where
  "pci_entry base first n k =
     (link_entry 0 first n k)\<lparr> virt_addr := base + 4096 * (first + k + 1),
                                phys_addr := of_nat (4096 * (first + k + 1)) \<rparr>"

lemma circular_link_entries:
  "(\<And>k. k < n \<Longrightarrow> link (f k) = link (link_entry phys first n k)) \<Longrightarrow>
   (\<And>k. k < n \<Longrightarrow> phys_entry (f k) = phys_entry (link_entry phys first n k)) \<Longrightarrow>
   circular (map f [0..<n])"
  unfolding circular_def
proof (intro allI impI)
  fix k
  assume f: "\<And>k. k < n \<Longrightarrow> link (f k) = link (link_entry phys first n k)"
    "\<And>k. k < n \<Longrightarrow> phys_entry (f k) = phys_entry (link_entry phys first n k)"
    and "k < length (map f [0..<n])"
  then have k: "k < n" by simp
  then have "link (f k) = phys_entry (f (Suc k mod n))"
    by (cases "Suc k = n") (auto simp: f link_entry_def algebra_simps)
  then show "link (map f [0..<n] ! k) = phys_entry (map f [0..<n] ! (Suc k mod length (map f [0..<n])))"
    using k by simp
qed

lemma last_mem_alloc_update_eqI:
  "f (last_mem_alloc i) = g (last_mem_alloc i) \<Longrightarrow> last_mem_alloc_update f i = last_mem_alloc_update g i"
  by (cases i) simp

lemma alloc_frames_pci_entries:
  assumes "bus_type (info w) = R56_BUS_TYPE_PCI"
    and "last_mem_alloc (info w) = of_nat (4096 * (first + 1))" and "first + n \<le> 62"
  shows "alloc_frames 0 n (map (link_entry 0 first n) [0..<n]) w =
    Some (0, map (pci_entry (memory_base (info w)) first n) [0..<n],
          set_info (last_mem_alloc_update (\<lambda>_. of_nat (4096 * (first + n + 1)))) w)"
proof -
  have u: "unat (of_nat m :: u32) = m" if "m < 300000" for m
    using that by (intro unat_of_nat_small) simp
  have "last_mem_alloc (info w) + of_nat (4096 * k) = of_nat (4096 * (first + k + 1))" for k
    unfolding assms(2) of_nat_add [symmetric] by (simp add: algebra_simps)
  note e = this
  have "map (\<lambda>k. ((map (link_entry 0 first n) [0..<n]) ! k)
             \<lparr> virt_addr := memory_base (info w) +
                   unat (last_mem_alloc (info w) + of_nat (4096 * (k - 0))),
               phys_addr := last_mem_alloc (info w) + of_nat (4096 * (k - 0)) \<rparr>) [0..<n] =
        map (pci_entry (memory_base (info w)) first n) [0..<n]"
    using assms(3) by (intro map_cong) (simp_all add: e u pci_entry_def del: of_nat_mult of_nat_add)
  moreover have "set_info (last_mem_alloc_update (\<lambda>a. a + of_nat (4096 * n))) w =
      set_info (last_mem_alloc_update (\<lambda>_. of_nat (4096 * (first + n + 1)))) w"
    by (rule info_update_eqI, rule last_mem_alloc_update_eqI) (rule e)
  ultimately show ?thesis
    using alloc_frames_pci [of 0 n "map (link_entry 0 first n) [0..<n]" w] assms(1)
    by (simp del: of_nat_mult of_nat_add)
qed


lemma alloc_frame_memory_pci:
  "bus_type (info w) = R56_BUS_TYPE_PCI \<Longrightarrow>
   last_mem_alloc (info w) = of_nat (4096 * (first + 1)) \<Longrightarrow> first + n \<le> 62 \<Longrightarrow>
   r56_alloc_frame_memory (map (link_entry 0 first n) [0..<n]) n w =
     Some (0, map (pci_entry (memory_base (info w)) first n) [0..<n],
           set_info (last_mem_alloc_update (\<lambda>_. of_nat (4096 * (first + n + 1)))) w)"
  by (simp only: r56_alloc_frame_memory_def alloc_frames_pci_entries)

text \<open>The state after both lists are allocated.\<close>

definition pci_allocated :: "nat \<Rightarrow> nat \<Rightarrow> world \<Rightarrow> world" where
  "pci_allocated nrx ntx w =
     set_info (\<lambda>i. i\<lparr> buffer_list := memory_base i, buffer_list_phys := 0,
                      last_mem_alloc := of_nat (4096 * (nrx + ntx + 1)),
                      rx_buffer_list := map (pci_entry (memory_base i) 0 nrx) [0..<nrx],
                      tx_buffer_list := map (pci_entry (memory_base i) nrx ntx) [0..<ntx] \<rparr>) w"

lemma allocate_pci_prefix:
  assumes pci: "bus_type (info w) = R56_BUS_TYPE_PCI"
    and n: "nrx = unat (rx_buffer_count (info w))" "ntx = unat (tx_buffer_count (info w))"
    and "nrx + ntx = 62" and l: "last_mem_alloc (info w) = 0"
  shows "\<exists>w1 w2. r56_alloc_buffer_list_memory w = Some (0, w1) \<and>
     rx_buffer_count (info w1) = rx_buffer_count (info w) \<and>
     r56_alloc_frame_memory (rx_buffer_list (info w1)) nrx w1 =
       Some (0, map (pci_entry (memory_base (info w)) 0 nrx) [0..<nrx], w2) \<and>
     tx_buffer_count (info w2) = tx_buffer_count (info w) \<and>
     r56_alloc_frame_memory (tx_buffer_list (info w2)) ntx
        (set_info (rx_buffer_list_update (\<lambda>_. map (pci_entry (memory_base (info w)) 0 nrx) [0..<nrx])) w2) =
       Some (0, map (pci_entry (memory_base (info w)) nrx ntx) [0..<ntx],
             (pci_allocated nrx ntx w)\<lparr> info := (info (pci_allocated nrx ntx w))
                \<lparr> tx_buffer_list := map (link_entry 0 nrx ntx) [0..<ntx] \<rparr> \<rparr>)"
proof -
  define w1 where "w1 = set_info (\<lambda>i. i\<lparr> buffer_list := memory_base i, buffer_list_phys := 0,
      last_mem_alloc := 4096, rx_buffer_list := map (link_entry 0 0 nrx) [0..<nrx],
      tx_buffer_list := map (link_entry 0 nrx ntx) [0..<ntx] \<rparr>) w"
  define w2 where "w2 = set_info (last_mem_alloc_update (\<lambda>_. of_nat (4096 * (0 + nrx + 1)))) w1"
  have "(unat (rx_buffer_count (info w)) + unat (tx_buffer_count (info w))) * 40 \<le> 4096"
    using assms by simp
  then have 1: "r56_alloc_buffer_list_memory w = Some (0, w1)"
    using l pci
    by (simp add: r56_alloc_buffer_list_memory_def w1_def n Let_def)
  have 2: "r56_alloc_frame_memory (rx_buffer_list (info w1)) nrx w1 =
      Some (0, map (pci_entry (memory_base (info w)) 0 nrx) [0..<nrx], w2)"
    using alloc_frame_memory_pci [of w1 0 nrx] pci assms(4)
    by (simp add: w1_def w2_def)
  have 3: "r56_alloc_frame_memory (tx_buffer_list (info w2)) ntx
        (set_info (rx_buffer_list_update (\<lambda>_. map (pci_entry (memory_base (info w)) 0 nrx) [0..<nrx])) w2) =
       Some (0, map (pci_entry (memory_base (info w)) nrx ntx) [0..<ntx],
             (pci_allocated nrx ntx w)\<lparr> info := (info (pci_allocated nrx ntx w))
                \<lparr> tx_buffer_list := map (link_entry 0 nrx ntx) [0..<ntx] \<rparr> \<rparr>)"
    using alloc_frame_memory_pci [of
       "set_info (rx_buffer_list_update (\<lambda>_. map (pci_entry (memory_base (info w)) 0 nrx) [0..<nrx])) w2"
       nrx ntx] pci assms(4)
    by (simp add: w1_def w2_def pci_allocated_def del: of_nat_mult of_nat_add)
  show ?thesis
    using 1 2 3 by (simp add: w2_def) (simp add: w1_def)
qed


definition reset_lists :: "world \<Rightarrow> world" where
  "reset_lists w =
     set_info (\<lambda>i. i\<lparr> rx_buffer_list := map (store_ulong_at_count 4096) (rx_buffer_list i),
                      current_rx_buffer := 0,
                      tx_buffer_list := map (store_ulong_at_count 0) (tx_buffer_list i),
                      current_tx_buffer := 0, start_tx_dma_buffer := 0, tx_dma_buffers_used := 0,
                      get_tx_holding_index := 0, put_tx_holding_index := 0,
                      tx_holding_count := 0 \<rparr>) w"

lemma reset_rx_dma_buffers_eq:
  "length (rx_buffer_list (info w)) = unat (rx_buffer_count (info w)) \<Longrightarrow>
   r56_reset_rx_dma_buffers w =
     Some (set_info (\<lambda>i. i\<lparr> rx_buffer_list := map (store_ulong_at_count 4096) (rx_buffer_list i),
                            current_rx_buffer := 0 \<rparr>) w)"
  using store_counts_all [of 4096 "rx_buffer_list (info w)"]
  by (simp add: r56_reset_rx_dma_buffers_def)

lemma reset_tx_dma_buffers_eq:
  "length (tx_buffer_list (info w)) = unat (tx_buffer_count (info w)) \<Longrightarrow>
   r56_reset_tx_dma_buffers w =
     Some (set_info (\<lambda>i. i\<lparr> tx_buffer_list := map (store_ulong_at_count 0) (tx_buffer_list i),
                            current_tx_buffer := 0, start_tx_dma_buffer := 0,
                            tx_dma_buffers_used := 0, get_tx_holding_index := 0,
                            put_tx_holding_index := 0, tx_holding_count := 0 \<rparr>) w)"
  using store_counts_all [of 0 "tx_buffer_list (info w)"]
  by (simp add: r56_reset_tx_dma_buffers_def)

lemma pci_entry_links:
  "link (pci_entry b f n k) = link (link_entry 0 f n k)"
  "phys_entry (pci_entry b f n k) = phys_entry (link_entry 0 f n k)"
  by (simp_all add: pci_entry_def)

lemma pci_layout_reset:
  assumes "nrx = unat (rx_buffer_count (info w))" "ntx = unat (tx_buffer_count (info w))"
    and "nrx + ntx = 62" "0 < nrx" "0 < ntx" "holding_ready (info w)"
    and "rx_buffer_list (info w) = map (pci_entry (memory_base (info w)) 0 nrx) [0..<nrx]"
    and "tx_buffer_list (info w) = map (pci_entry (memory_base (info w)) nrx ntx) [0..<ntx]"
  shows "pci_layout (info (reset_lists w))"
proof -
  have c: "circular (map (store_ulong_at_count v \<circ> pci_entry b f n) [0..<n])" for v b f n
    by (rule circular_link_entries [where phys = 0 and first = f])
      (simp_all add: pci_entry_links)
  have e: "virt_addr ((rx_buffer_list (info (reset_lists w)) @ tx_buffer_list (info (reset_lists w))) ! k) =
      memory_base (info w) + 4096 * (k + 1) \<and>
      phys_addr ((rx_buffer_list (info (reset_lists w)) @ tx_buffer_list (info (reset_lists w))) ! k) =
      of_nat (4096 * (k + 1)) \<and>
      phys_entry ((rx_buffer_list (info (reset_lists w)) @ tx_buffer_list (info (reset_lists w))) ! k) =
      of_nat (40 * k)" if "k < 62" for k
    using that assms
    by (auto simp: reset_lists_def nth_append pci_entry_def link_entry_def algebra_simps)
  show ?thesis
    using assms c e
    by (simp add: pci_layout_def rx_ring_def tx_ring_def)
       (auto simp: reset_lists_def holding_ready_def)
qed


lemma dma_buffer_counts_info:
  assumes "bus_type (info w) = R56_BUS_TYPE_PCI" and "unat (max_frame_size (info w)) \<le> 65535"
    and "0 < num_tx_dma_buffers (info w)"
    and "nat (num_tx_dma_buffers (info w)) * ((unat (max_frame_size (info w)) + 4095) div 4096) \<le> 61"
  shows "unat (tx_buffer_count (info (dma_buffer_counts w))) =
           nat (num_tx_dma_buffers (info w)) * ((unat (max_frame_size (info w)) + 4095) div 4096)"
    and "unat (rx_buffer_count (info (dma_buffer_counts w))) =
           62 - nat (num_tx_dma_buffers (info w)) * ((unat (max_frame_size (info w)) + 4095) div 4096)"
proof -
  let ?b = "(unat (max_frame_size (info w)) + 4095) div 4096"
  let ?n = "nat (num_tx_dma_buffers (info w))"
  have b: "unat (ucast (buffers_per_frame (max_frame_size (info w))) :: u32) = ?b"
    using assms(2) unat_buffers_per_frame [of "max_frame_size (info w)"]
    by (simp add: unsigned_ucast_eq take_bit_nat_eq_self)
  have n: "(of_int (num_tx_dma_buffers (info w)) :: u32) = of_nat ?n" using assms(3) by simp
  have "(ucast (buffers_per_frame (max_frame_size (info w))) :: u32) = of_nat ?b"
    unfolding word_unat_eq_iff b using assms(2) by (subst unat_of_nat_small) simp_all
  then have t: "tx_buffer_count (info (dma_buffer_counts w)) = of_nat (?n * ?b)"
    using n by (simp add: dma_buffer_counts_def Let_def)
  then show u: "unat (tx_buffer_count (info (dma_buffer_counts w))) = ?n * ?b"
    using assms(4) by (simp only: t) (intro unat_of_nat_small, simp)
  have "rx_buffer_count (info (dma_buffer_counts w)) = of_nat (62 - ?n * ?b)"
    using t assms(1,4) by (simp add: dma_buffer_counts_def Let_def of_nat_diff)
  then show "unat (rx_buffer_count (info (dma_buffer_counts w))) = 62 - ?n * ?b"
    by (simp only:) (intro unat_of_nat_small, simp)
qed

lemma dma_buffer_counts_frame [simp]:
  "bus_type (info (dma_buffer_counts w)) = bus_type (info w)"
  "last_mem_alloc (info (dma_buffer_counts w)) = 0"
  "max_frame_size (info (dma_buffer_counts w)) = max_frame_size (info w)"
  "num_tx_holding_buffers (info (dma_buffer_counts w)) = num_tx_holding_buffers (info w)"
  "memory_base (info (dma_buffer_counts w)) = memory_base (info w)"
  "env (dma_buffer_counts w) = env w"
  by (simp_all add: dma_buffer_counts_def Let_def)

text \<open>The last two steps: the intermediate buffers, then the reset of both lists.\<close>

definition allocate_tail :: "world \<Rightarrow> (int \<times> world) option" where
  "allocate_tail w =
    (let (r, w) = r56_alloc_intermediate_rxbuffer_memory w
     in if r < 0 then Some (- ENOMEM, w)
        else do { (r, w) \<leftarrow> r56_alloc_intermediate_txbuffer_memory w;
                  if r < 0 then Some (- ENOMEM, w)
                  else do { w \<leftarrow> r56_reset_rx_dma_buffers w;
                            w \<leftarrow> r56_reset_tx_dma_buffers w;
                            Some (0, w) } })"

text \<open>The result of an allocation that succeeds, and what holds also of one that fails.\<close>

definition allocated :: "r56_struct \<Rightarrow> r56_struct \<Rightarrow> bool" where
  "allocated i i' \<longleftrightarrow>
     pci_layout i' \<and>
     (\<exists>b. intermediate_rxbuffer i' = Some b \<and> length b = unat (max_frame_size i)) \<and>
     (\<forall>h\<in>set (tx_holding_buffers i'). buffer_size h = 0) \<and>
     tx_holding_count i' = 0 \<and> get_tx_holding_index i' = 0 \<and> put_tx_holding_index i' = 0"

definition list_lengths :: "r56_struct \<Rightarrow> bool" where
  "list_lengths i \<longleftrightarrow>
     length (rx_buffer_list i) = unat (rx_buffer_count i) \<and> length (tx_buffer_list i) = unat (tx_buffer_count i)"

lemma allocate_tail_layout:
  assumes "nrx = unat (rx_buffer_count (info w))" "ntx = unat (tx_buffer_count (info w))"
    and "nrx + ntx = 62" "0 < nrx" "0 < ntx" "num_tx_holding_buffers (info w) \<le> 5"
    and "rx_buffer_list (info w) = map (pci_entry (memory_base (info w)) 0 nrx) [0..<nrx]"
    and "tx_buffer_list (info w) = map (pci_entry (memory_base (info w)) nrx ntx) [0..<ntx]"
  shows "\<exists>r w'. allocate_tail w = Some (r, w') \<and> (r = 0 \<or> r = - ENOMEM) \<and>
           ((\<forall>es. os_ret (env w) es \<noteq> 0) \<longrightarrow> r = 0) \<and>
           (r = 0 \<longrightarrow> allocated (info w) (info w')) \<and>
           list_lengths (info w') \<and> length (tx_holding_buffers (info w')) \<in> {5, length (tx_holding_buffers (info w))}"
proof -
  obtain b w0 where km: "kmalloc (unat (max_frame_size (info w))) w = (b, w0)" by fastforce
  have w0: "info w0 = info w" "env w0 = env w" using kmalloc_frame [of _ w] km by (metis snd_conv)+
  define w1 where "w1 = set_info (intermediate_rxbuffer_update (\<lambda>_. b)) w0"
  define w2 where "w2 = set_info (tx_holding_buffers_update (\<lambda>_. replicate 5 zero_holding_buffer)) w1"
  have rx: "r56_alloc_intermediate_rxbuffer_memory w = (if b = None then - ENOMEM else 0, w1)"
    by (simp add: r56_alloc_intermediate_rxbuffer_memory_def km w1_def)
  show ?thesis
  proof (cases b)
    case None
    then have "\<not> (\<forall>es. os_ret (env w) es \<noteq> 0)" using kmalloc_succeeds [of w] km by (metis fst_conv)
    then show ?thesis using None assms by (simp add: allocate_tail_def rx list_lengths_def w1_def w0)
  next
    case (Some c)
    have c: "length c = unat (max_frame_size (info w))"
      using kmalloc_length [of _ w c] km Some by (metis fst_conv)
    have tx: "r56_alloc_intermediate_txbuffer_memory w1 =
        alloc_holding 0 (nat (num_tx_holding_buffers (info w))) w2"
      by (simp add: r56_alloc_intermediate_txbuffer_memory_def w2_def w1_def w0)
    obtain r w3 where a: "alloc_holding 0 (nat (num_tx_holding_buffers (info w))) w2 = Some (r, w3)"
      and fr: "holding_frame w2 w3" and r: "r = 0 \<or> r = - ENOMEM"
      and succ: "(\<forall>es. os_ret (env w2) es \<noteq> 0) \<longrightarrow> r = 0"
      and held: "r = 0 \<longrightarrow> (\<forall>k<nat (num_tx_holding_buffers (info w)).
             held_size (unat (max_frame_size (info w2))) (tx_holding_buffers (info w3) ! k))"
      using alloc_holding_total [of 0 "nat (num_tx_holding_buffers (info w))" w2] assms(6)
      by (force simp: w2_def)
    from fr obtain hs where sizes: "map buffer_size hs = map buffer_size (replicate 5 zero_holding_buffer)"
      and i3: "info w3 = (info w2)\<lparr> tx_holding_buffers := hs \<rparr>"
      by (auto simp: holding_frame_def w2_def)
    have hs: "length hs = 5" using map_eq_imp_length_eq [OF sizes] by simp
    have zero: "\<forall>h\<in>set hs. buffer_size h = 0"
    proof -
      have "set (map buffer_size hs) = {0}" unfolding sizes by (simp add: zero_holding_buffer_def)
      then show ?thesis by auto
    qed
    have i3': "info w3 = (info w)\<lparr> intermediate_rxbuffer := b, tx_holding_buffers := hs \<rparr>"
      by (simp add: i3 w2_def w1_def w0)
    show ?thesis
    proof (cases "r = 0")
      case True
      have "holding_ready (info w3)"
        using held True hs assms(6) by (auto simp: holding_ready_def i3 w2_def w1_def w0)
      then have "pci_layout (info (reset_lists w3))"
        using assms by (intro pci_layout_reset [where nrx = nrx and ntx = ntx]) (simp_all add: i3')
      moreover have "allocate_tail w = Some (0, reset_lists w3)"
        using assms True
        by (simp add: allocate_tail_def rx Some tx a i3' reset_rx_dma_buffers_eq
            reset_tx_dma_buffers_eq reset_lists_def)
      ultimately show ?thesis
        using c Some zero hs assms by (simp add: allocated_def list_lengths_def) (simp add: reset_lists_def i3')
    next
      case False
      then show ?thesis using r succ assms hs
        by (simp add: allocate_tail_def rx Some tx a list_lengths_def i3') (simp add: w2_def w1_def w0)
    qed
  qed
qed


lemma allocate_dma_buffers_total:
  assumes pci: "bus_type (info w) = R56_BUS_TYPE_PCI"
    and size: "unat (max_frame_size (info w)) \<le> 65535" "0 < max_frame_size (info w)"
    and tx: "0 < num_tx_dma_buffers (info w)"
      "nat (num_tx_dma_buffers (info w)) * ((unat (max_frame_size (info w)) + 4095) div 4096) \<le> 61"
    and hold: "num_tx_holding_buffers (info w) \<le> 5"
  shows "\<exists>r w'. r56_allocate_dma_buffers w = Some (r, w') \<and> (r = 0 \<or> r = - ENOMEM) \<and>
           ((\<forall>es. os_ret (env w) es \<noteq> 0) \<longrightarrow> r = 0) \<and>
           (r = 0 \<longrightarrow> allocated (info w) (info w')) \<and>
           list_lengths (info w') \<and> length (tx_holding_buffers (info w')) \<in> {5, length (tx_holding_buffers (info w))}"
proof -
  define v where "v = dma_buffer_counts w"
  define nrx ntx where "nrx = unat (rx_buffer_count (info v))" and "ntx = unat (tx_buffer_count (info v))"
  have n: "nrx + ntx = 62" "0 < nrx" "0 < ntx"
    using dma_buffer_counts_info [OF pci size(1) tx] tx size(2)
    by (simp_all add: nrx_def ntx_def v_def word_less_nat_alt)
  have v: "bus_type (info v) = R56_BUS_TYPE_PCI" "last_mem_alloc (info v) = 0"
    using pci by (simp_all add: v_def)
  obtain w1 w2 where w1: "r56_alloc_buffer_list_memory v = Some (0, w1)"
      "rx_buffer_count (info w1) = rx_buffer_count (info v)"
    and w2: "r56_alloc_frame_memory (rx_buffer_list (info w1)) nrx w1 =
       Some (0, map (pci_entry (memory_base (info v)) 0 nrx) [0..<nrx], w2)"
      "tx_buffer_count (info w2) = tx_buffer_count (info v)"
    and w3: "r56_alloc_frame_memory (tx_buffer_list (info w2)) ntx
        (set_info (rx_buffer_list_update (\<lambda>_. map (pci_entry (memory_base (info v)) 0 nrx) [0..<nrx])) w2) =
       Some (0, map (pci_entry (memory_base (info v)) nrx ntx) [0..<ntx],
             (pci_allocated nrx ntx v)\<lparr> info := (info (pci_allocated nrx ntx v))
                \<lparr> tx_buffer_list := map (link_entry 0 nrx ntx) [0..<ntx] \<rparr> \<rparr>)"
    using allocate_pci_prefix [OF v(1) nrx_def ntx_def n(1) v(2)] by blast
  have "set_info (tx_buffer_list_update (\<lambda>_. map (pci_entry (memory_base (info v)) nrx ntx) [0..<ntx]))
      ((pci_allocated nrx ntx v)\<lparr> info := (info (pci_allocated nrx ntx v))
         \<lparr> tx_buffer_list := map (link_entry 0 nrx ntx) [0..<ntx] \<rparr> \<rparr>) = pci_allocated nrx ntx v"
    by (cases v) (simp add: pci_allocated_def)
  then have "r56_allocate_dma_buffers w = allocate_tail (pci_allocated nrx ntx v)"
    using w1 w2 w3
    by (simp add: r56_allocate_dma_buffers_def v_def [symmetric] nrx_def [symmetric]
        ntx_def [symmetric] allocate_tail_def)
  then show ?thesis
    using allocate_tail_layout [of nrx "pci_allocated nrx ntx v" ntx] n hold
    by (simp add: pci_allocated_def nrx_def [symmetric] ntx_def [symmetric])
      (simp add: v_def allocated_def dma_buffer_counts_def Let_def)
qed



text \<open>the number of transmit buffers (a module parameter) is not limited: as soon as the
  transmit buffers need more than the 62 data pages, the receive count \<open>62 - tx\<close> wraps
  around and the loops that link the lists write outside the entry page.\<close>

theorem allocate_dma_buffers_overcommit:
  assumes "bus_type (info w) = R56_BUS_TYPE_PCI"
    and "62 < unat (of_int (num_tx_dma_buffers (info w)) *
                    (ucast (buffers_per_frame (max_frame_size (info w))) :: u32))"
  shows "r56_allocate_dma_buffers w = None"
proof -
  define t where "t = of_int (num_tx_dma_buffers (info w)) *
                    (ucast (buffers_per_frame (max_frame_size (info w))) :: u32)"
  have c: "tx_buffer_count (info (dma_buffer_counts w)) = t"
    "rx_buffer_count (info (dma_buffer_counts w)) = 62 - t"
    using assms(1) by (simp_all add: dma_buffer_counts_def Let_def t_def)
  have "unat (62 - t) + unat t = 2 ^ 32 + 62"
    using assms(2) unsigned_less [of t, where ?'a = nat] by (simp add: t_def [symmetric] unat_sub_if')
  then have "\<not> (unat (62 - t) + unat t) * 40 \<le> 4096" by simp
  then have "r56_alloc_buffer_list_memory (dma_buffer_counts w) = None"
    using assms(1) by (simp add: r56_alloc_buffer_list_memory_def c Let_def)
  then show ?thesis by (simp add: r56_allocate_dma_buffers_def)
qed

theorem allocate_dma_buffers_overcommit_witness:
  "r56_allocate_dma_buffers
     (world0\<lparr> info := zero_info\<lparr> bus_type := R56_BUS_TYPE_PCI, max_frame_size := 4096,
                                 num_tx_dma_buffers := 63 \<rparr> \<rparr>) = None"
  using allocate_dma_buffers_overcommit
    [of "world0\<lparr> info := zero_info\<lparr> bus_type := R56_BUS_TYPE_PCI, max_frame_size := 4096,
                                 num_tx_dma_buffers := 63 \<rparr> \<rparr>"]
  by (simp add: world0_def zero_info_def buffers_per_frame_def Let_def)

end
