(* ===== verification/R56_Rx.thy ===== *)
theory R56_Rx
  imports R56_Dma
begin

text \<open>
  The receive path of \<open>driver/route56.c\<close>: starting the receiver, returning frames from the
  ring of receive buffers (\<open>r56_get_rx_frame\<close> in HDLC mode, \<open>r56_get_raw_rx_frame\<close>
  in the other modes), recycling their buffers, and the recovery from a receive overrun.

  The loops of the source that run until they meet an entry of the ring are partial functions:
  not returning, like an access outside the ring, is the value None. The theorems show that they
  return for every ring, and what.
\<close>

subsection \<open>Starting the receiver\<close>

text \<open>Program the address of the first receive entry and let the receive DMA channel run.\<close>

definition start_rx_dma :: "u32 \<Rightarrow> world \<Rightarrow> world" where
  "start_rx_dma phys w =
    (let w = usc_OutDmaReg w NRARL (ucast phys);
         w = usc_OutDmaReg w NRARU (ucast (drop_bit 16 phys));
         w = usc_UnlatchRxstatusBits w RXSTATUS_ALL;
         w = usc_ClearIrqPendingBits w (RECEIVE_DATA + RECEIVE_STATUS);
         w = usc_EnableInterrupts w RECEIVE_STATUS;
         w = usc_OutDmaReg w RDIAR (BIT3 + BIT2);
         w = usc_rmw w DICR (\<lambda>v. v OR BIT1);
         w = usc_DmaCmd w DmaCmd_InitRxChannel
     in if tst (flags (params (info w))) HDLC_FLAG_AUTO_DCD
        then usc_EnableReceiver w ENABLE_AUTO_DCD
        else usc_EnableReceiver w ENABLE_UNCONDITIONAL)"

definition usc_start_receiver :: "world \<Rightarrow> world option" where
  "usc_start_receiver w =
    do { w \<leftarrow> r56_reset_rx_dma_buffers w;
         let w = usc_stop_receiver w;
             w = usc_rmw w CCSR (\<lambda>v. v OR BIT13);
             w = usc_RTCmd w RTCmd_PurgeRxFifo
         in do {
           w \<leftarrow> (if mode (params (info w)) = R56_MODE_HDLC \<or> mode (params (info w)) = R56_MODE_RAW
                 then do { e \<leftarrow> aget (rx_buffer_list (info w)) 0;
                           Some (start_rx_dma (phys_entry e) w) }
                 else let w = usc_UnlatchRxstatusBits w RXSTATUS_ALL;
                          w = usc_ClearIrqPendingBits w (RECEIVE_DATA + RECEIVE_STATUS);
                          w = usc_EnableInterrupts w RECEIVE_DATA;
                          w = usc_RTCmd w RTCmd_PurgeRxFifo;
                          w = usc_RCmd w RCmd_EnterHuntmode
                      in Some (usc_EnableReceiver w ENABLE_UNCONDITIONAL));
           let w = usc_OutReg w CCSR 0x1020
           in Some (set_info (rx_enabled_update (\<lambda>_. True)) w) } }"

subsection \<open>Recycling buffers\<close>

partial_function (option) free_rx_loop ::
  "nat \<Rightarrow> nat \<Rightarrow> nat \<Rightarrow> DMABUFFERENTRY list \<Rightarrow> (nat \<times> DMABUFFERENTRY list) option" where
  [code]: "free_rx_loop n EndIndex Index es =
    do { e \<leftarrow> aget es Index;
         es \<leftarrow> aset es Index (store_ulong_at_count (of_nat DMABUFFERSIZE) e);
         if Index = EndIndex then Some (ring_next n Index, es)
         else free_rx_loop n EndIndex (ring_next n Index) es }"

definition r56_free_rx_frame_buffers :: "nat \<Rightarrow> nat \<Rightarrow> world \<Rightarrow> world option" where
  "r56_free_rx_frame_buffers StartIndex EndIndex w =
    do { (Index, es) \<leftarrow> free_rx_loop (unat (rx_buffer_count (info w))) EndIndex StartIndex
                          (rx_buffer_list (info w));
         Some (set_info (\<lambda>i. i\<lparr> rx_buffer_list := es, current_rx_buffer := of_nat Index \<rparr>) w) }"

subsection \<open>Returning a frame\<close>

definition ldisc_receive_buf :: "u8 list \<Rightarrow> world \<Rightarrow> world" where
  "ldisc_receive_buf data w =
    (if port_tty (info w) = None then w else kcall (Ldisc_receive_buf data) w)"

text \<open>
  The search for the last buffer of the next frame: a frame found, an unused buffer met, or the
  whole ring searched without either.
\<close>

datatype rx_search = Rx_frame nat | Rx_none nat | Rx_wrapped nat

partial_function (option) rx_find_end ::
  "nat \<Rightarrow> DMABUFFERENTRY list \<Rightarrow> nat \<Rightarrow> nat \<Rightarrow> rx_search option" where
  [code]: "rx_find_end n es StartIndex EndIndex =
    do { e \<leftarrow> aget es EndIndex;
         if status e \<noteq> 0 then Some (Rx_frame EndIndex)
         else if count e \<noteq> 0 then Some (Rx_none EndIndex)
         else let EndIndex = ring_next n EndIndex
              in if EndIndex = StartIndex then Some (Rx_wrapped EndIndex)
                 else rx_find_end n es StartIndex EndIndex }"

text \<open>The counter of a frame received with an error.\<close>

definition count_rx_error :: "u16 \<Rightarrow> world \<Rightarrow> world" where
  "count_rx_error st w =
    (if tst st RXSTATUS_SHORT_FRAME then set_icount (ic_rxshort_update (\<lambda>n. n + 1)) w
     else if tst st RXSTATUS_ABORT then set_icount (ic_rxabort_update (\<lambda>n. n + 1)) w
     else if tst st RXSTATUS_OVERRUN then set_icount (ic_rxover_update (\<lambda>n. n + 1)) w
     else set_icount (ic_rxcrc_update (\<lambda>n. n + 1)) w)"

definition rx_error_only_crc :: "u16 \<Rightarrow> bool" where
  "rx_error_only_crc st \<longleftrightarrow>
     \<not> tst st RXSTATUS_SHORT_FRAME \<and> \<not> tst st RXSTATUS_ABORT \<and> \<not> tst st RXSTATUS_OVERRUN"

abbreviation (input) RXSTATUS_ERRORS :: u16 where
  "RXSTATUS_ERRORS \<equiv> RXSTATUS_SHORT_FRAME + RXSTATUS_OVERRUN + RXSTATUS_CRC_ERROR + RXSTATUS_ABORT"

definition rx_framesize :: "R56_PARAMS \<Rightarrow> DMABUFFERENTRY \<Rightarrow> u32" where
  "rx_framesize p e =
    (if tst (status e) RXSTATUS_ERRORS \<and>
        \<not> (rx_error_only_crc (status e) \<and> tst (crc_type p) HDLC_CRC_RETURN_EX)
     then 0
     else let framesize = RCLRVALUE - ucast (rcc e)
          in if crc_type p = HDLC_CRC_16_CCITT then framesize - 2
             else if crc_type p = HDLC_CRC_32_CCITT then framesize - 4
             else framesize)"

text \<open>\<open>memcpy\<close> into the intermediate buffer at an offset.\<close>

definition blit :: "'a list \<Rightarrow> nat \<Rightarrow> 'a list \<Rightarrow> 'a list option" where
  "blit buf off bs =
    (if off + length bs \<le> length buf then Some (take off buf @ bs @ drop (off + length bs) buf)
     else None)"

function copy_rx ::
  "memory \<Rightarrow> DMABUFFERENTRY list \<Rightarrow> nat \<Rightarrow> nat \<Rightarrow> nat \<Rightarrow> nat \<Rightarrow> u8 list \<Rightarrow> u8 list option" where
  "copy_rx m es n copy_count index off buf =
    (if copy_count = 0 then Some buf
     else let partial_count = (if copy_count > DMABUFFERSIZE then DMABUFFERSIZE else copy_count)
          in do { e \<leftarrow> aget es index;
                  buf \<leftarrow> blit buf off (mem_read (virt_addr e) partial_count m);
                  copy_rx m es n (copy_count - partial_count) (ring_next n index)
                    (off + partial_count) buf })"
  by pat_completeness auto
termination copy_rx
  by (relation "measure (\<lambda>(m, es, n, c, index, off, buf). c)") auto

declare copy_rx.simps [simp del]

text \<open>A frame of the receive ring put together in the intermediate buffer: the bytes that are handed on, if any.\<close>

definition rx_assemble :: "nat \<Rightarrow> DMABUFFERENTRY \<Rightarrow> world \<Rightarrow> (u8 list option \<times> world) option" where
  "rx_assemble StartIndex e w =
    (let p = params (info w);
         framesize = rx_framesize p e;
         ex = tst (crc_type p) HDLC_CRC_RETURN_EX
     in if framesize = 0 then Some (None, w)
        else if ex \<and> framesize + 1 > max_frame_size (info w) \<or> framesize > max_frame_size (info w)
        then Some (None, set_icount (ic_rxlong_update (\<lambda>n. n + 1)) w)
        else let w = (if \<not> tst (status e) RXSTATUS_CRC_ERROR
                      then set_icount (ic_rxok_update (\<lambda>n. n + 1)) w else w)
             in if framesize \<ge> 0x80000000 then None
                else do {
                  buf \<leftarrow> intermediate_rxbuffer (info w);
                  buf \<leftarrow> copy_rx (mem w) (rx_buffer_list (info w)) (unat (rx_buffer_count (info w)))
                            (unat framesize) StartIndex 0 buf;
                  buf \<leftarrow> (if ex then aset buf (unat framesize)
                                   (if tst (status e) RXSTATUS_CRC_ERROR then RX_CRC_ERROR else RX_OK)
                          else Some buf);
                  let w = set_info (intermediate_rxbuffer_update (\<lambda>_. Some buf)) w;
                      framesize = (if ex then framesize + 1 else framesize)
                  in Some (Some (take (unat framesize) buf), w) })"

definition rx_deliver :: "nat \<Rightarrow> DMABUFFERENTRY \<Rightarrow> world \<Rightarrow> world option" where
  "rx_deliver StartIndex e w =
    do { (frame, w) \<leftarrow> rx_assemble StartIndex e w;
         Some (case frame of None \<Rightarrow> w | Some bs \<Rightarrow> ldisc_receive_buf bs w) }"

text \<open>The restart of the receiver at the label \<open>Cleanup\<close>.\<close>

definition rx_cleanup :: "nat \<Rightarrow> world \<Rightarrow> world option" where
  "rx_cleanup EndIndex w =
    (if rx_enabled (info w) \<and> rx_overflow (info w)
     then do { e \<leftarrow> aget (rx_buffer_list (info w)) EndIndex;
               if status e = 0 \<and> count e \<noteq> 0 then usc_start_receiver w else Some w }
     else Some w)"

definition r56_get_rx_frame :: "world \<Rightarrow> (bool \<times> world) option" where
  "r56_get_rx_frame w =
    (let StartIndex = unat (current_rx_buffer (info w))
     in do { r \<leftarrow> rx_find_end (unat (rx_buffer_count (info w))) (rx_buffer_list (info w))
                    StartIndex StartIndex;
             case r of
               Rx_none EndIndex \<Rightarrow> do { w \<leftarrow> rx_cleanup EndIndex w; Some (False, w) }
             | Rx_wrapped EndIndex \<Rightarrow>
                 do { w \<leftarrow> (if rx_enabled (info w) then usc_start_receiver w else Some w);
                      w \<leftarrow> rx_cleanup EndIndex w;
                      Some (False, w) }
             | Rx_frame EndIndex \<Rightarrow>
                 do { e \<leftarrow> aget (rx_buffer_list (info w)) EndIndex;
                      w \<leftarrow> rx_deliver StartIndex e
                             (if tst (status e) RXSTATUS_ERRORS then count_rx_error (status e) w else w);
                      w \<leftarrow> r56_free_rx_frame_buffers StartIndex EndIndex w;
                      w \<leftarrow> rx_cleanup EndIndex w;
                      Some (True, w) } })"

definition raw_framesize :: "DMABUFFERENTRY \<Rightarrow> u32" where
  "raw_framesize e =
    (let framesize =
           (if tst (status e) RXSTATUS_ERRORS then 0
            else if status e \<noteq> 0 \<and> rcc e \<noteq> 0 then RCLRVALUE - ucast (rcc e)
            else of_nat DMABUFFERSIZE)
     in if framesize > of_nat DMABUFFERSIZE then framesize mod of_nat DMABUFFERSIZE else framesize)"

definition raw_deliver :: "DMABUFFERENTRY \<Rightarrow> world \<Rightarrow> world option" where
  "raw_deliver e w =
    (let framesize = raw_framesize e
     in if framesize \<noteq> 0
        then do { buf \<leftarrow> intermediate_rxbuffer (info w);
                  buf \<leftarrow> blit buf 0 (mem_read (virt_addr e) (unat framesize) (mem w));
                  let w = set_info (intermediate_rxbuffer_update (\<lambda>_. Some buf)) w;
                      w = set_icount (ic_rxok_update (\<lambda>n. n + 1)) w
                  in Some (ldisc_receive_buf (take (unat framesize) buf) w) }
        else Some w)"

definition r56_get_raw_rx_frame :: "world \<Rightarrow> (bool \<times> world) option" where
  "r56_get_raw_rx_frame w =
    (let CurrentIndex = unat (current_rx_buffer (info w));
         NextIndex = ring_next (unat (rx_buffer_count (info w))) CurrentIndex
     in do { e \<leftarrow> aget (rx_buffer_list (info w)) CurrentIndex;
             f \<leftarrow> aget (rx_buffer_list (info w)) NextIndex;
             (r, w) \<leftarrow>
               (if status e \<noteq> 0 \<or> count e = 0 \<and> count f = 0
                then do { w \<leftarrow> raw_deliver e
                               (if tst (status e) RXSTATUS_ERRORS then count_rx_error (status e) w
                                else w);
                          w \<leftarrow> r56_free_rx_frame_buffers CurrentIndex CurrentIndex w;
                          Some (True, w) }
                else Some (False, w));
             w \<leftarrow> rx_cleanup CurrentIndex w;
             Some (r, w) })"

subsection \<open>Receive overrun\<close>

text \<open>
  The search for an unfinished frame. The result is \<open>frame_start_index\<close>,
  \<open>start_of_frame_found\<close>, \<open>end_of_frame_found\<close> and \<open>end_index\<close>, or that
  the whole ring is in use.
\<close>

datatype overrun_search = Overrun_stop nat bool bool nat | Overrun_all

partial_function (option) overrun_scan ::
  "nat \<Rightarrow> DMABUFFERENTRY list \<Rightarrow> nat \<Rightarrow> nat \<Rightarrow> bool \<Rightarrow> bool \<Rightarrow> nat \<Rightarrow> overrun_search option" where
  [code]: "overrun_scan n es start_index frame_start sof eof end_index =
    do { e \<leftarrow> aget es end_index;
         if count e \<noteq> 0 then Some (Overrun_stop frame_start sof eof end_index)
         else let frame_start = (if \<not> sof then end_index else frame_start);
                  eof = (if \<not> sof then False else eof);
                  sof = True;
                  (sof, eof) = (if status e \<noteq> 0 then (False, True) else (sof, eof));
                  end_index = ring_next n end_index
              in if start_index = end_index then Some Overrun_all
                 else overrun_scan n es start_index frame_start sof eof end_index }"

text \<open>\<open>do { list[start_index++] = free; wrap } while (start_index != end_index);\<close>\<close>

partial_function (option) overrun_reset ::
  "nat \<Rightarrow> nat \<Rightarrow> nat \<Rightarrow> DMABUFFERENTRY list \<Rightarrow> DMABUFFERENTRY list option" where
  [code]: "overrun_reset n end_index start_index es =
    do { e \<leftarrow> aget es start_index;
         es \<leftarrow> aset es start_index (store_ulong_at_count (of_nat DMABUFFERSIZE) e);
         if ring_next n start_index = end_index then Some es
         else overrun_reset n end_index (ring_next n start_index) es }"

definition reprogram_rx_dma :: "nat \<Rightarrow> world \<Rightarrow> world option" where
  "reprogram_rx_dma frame_start w =
    (let w = usc_UnlatchRxstatusBits w RXSTATUS_ALL;
         w = usc_ClearIrqPendingBits w (RECEIVE_DATA OR RECEIVE_STATUS);
         w = usc_UnlatchRxstatusBits w (RECEIVE_DATA OR RECEIVE_STATUS);
         w = usc_EnableReceiver w DISABLE_UNCONDITIONAL;
         w = usc_rmw w CCSR (\<lambda>v. v OR BIT13)
     in do { e \<leftarrow> aget (rx_buffer_list (info w)) frame_start;
             Some (start_rx_dma (phys_entry e) w) })"

definition usc_process_rxoverrun_sync :: "world \<Rightarrow> world option" where
  "usc_process_rxoverrun_sync w =
    (let w = usc_DmaCmd w DmaCmd_PauseRxChannel;
         w = usc_RCmd w RCmd_EnterHuntmode;
         w = usc_RTCmd w RTCmd_PurgeRxFifo;
         start_index = unat (current_rx_buffer (info w));
         n = unat (rx_buffer_count (info w))
     in do { r \<leftarrow> overrun_scan n (rx_buffer_list (info w)) start_index start_index False False
                    start_index;
             case r of
               Overrun_all \<Rightarrow>
                 do { w \<leftarrow> r56_reset_rx_dma_buffers w; reprogram_rx_dma 0 w }
             | Overrun_stop frame_start sof eof end_index \<Rightarrow>
                 if sof \<and> \<not> eof
                 then do { es \<leftarrow> overrun_reset n end_index frame_start (rx_buffer_list (info w));
                           reprogram_rx_dma frame_start
                             (set_info (rx_buffer_list_update (\<lambda>_. es)) w) }
                 else let w = usc_rmw w CCSR (\<lambda>v. v OR BIT13)
                      in Some (usc_RTCmd w RTCmd_PurgeRxFifo) })"

subsection \<open>The receive path in closed form\<close>

lemma start_rx_dma_frame [simp]:
  "info (start_rx_dma phys w) = info w" "env (start_rx_dma phys w) = env w"
  "mem (start_rx_dma phys w) = mem w"
  by (simp_all add: start_rx_dma_def Let_def)

abbreviation free_entry :: "DMABUFFERENTRY \<Rightarrow> DMABUFFERENTRY" where
  "free_entry \<equiv> store_ulong_at_count 4096"

definition is_free :: "DMABUFFERENTRY \<Rightarrow> bool" where
  "is_free e \<longleftrightarrow> status e = 0 \<and> count e \<noteq> 0"

lemma free_entry_simps [simp]:
  "free_entry (free_entry e) = free_entry e" "status (free_entry e) = 0" "count (free_entry e) = 4096"
  "is_free (free_entry e)"
  by (simp_all add: store_ulong_at_count_def is_free_def)

definition started_info :: "r56_struct \<Rightarrow> r56_struct" where
  "started_info i =
     i\<lparr> rx_buffer_list := map free_entry (rx_buffer_list i), current_rx_buffer := 0,
        rx_enabled := True, rx_overflow := False, rx_rcc_underrun := False \<rparr>"

lemma usc_start_receiver_total:
  assumes "rx_ring (info w)"
  shows "\<exists>w'. usc_start_receiver w = Some w' \<and> info w' = started_info (info w) \<and>
           env w' = env w \<and> mem w' = mem w"
proof -
  have "0 < length (rx_buffer_list (info w))" using assms by (auto simp: rx_ring_def)
  then show ?thesis
    using assms
    by (simp add: usc_start_receiver_def reset_rx_dma_buffers_eq rx_ring_def Let_def started_info_def)
qed

lemma rx_ring_started [simp]: "rx_ring i \<Longrightarrow> rx_ring (started_info i)"
  by (auto simp: rx_ring_def started_info_def)

text \<open>The search, against a reference that looks at the rotated list.\<close>

definition in_use :: "DMABUFFERENTRY \<Rightarrow> bool" where
  "in_use e \<longleftrightarrow> status e = 0 \<and> count e = 0"

definition rx_next_frame :: "DMABUFFERENTRY list \<Rightarrow> nat \<Rightarrow> rx_search" where
  "rx_next_frame es s =
    (let k = length (takeWhile in_use (rotate s es)); j = (s + k) mod length es
     in if k = length es then Rx_wrapped s
        else if status (es ! j) \<noteq> 0 then Rx_frame j else Rx_none j)"

lemma ring_next_add: "s < n \<Longrightarrow> ring_next n ((s + k) mod n) = (s + Suc k) mod n"
  by (simp add: ring_next_mod mod_Suc_eq)

lemma add_mod_eq_self: "s < n \<Longrightarrow> k < n \<Longrightarrow> (s + k) mod n = s \<Longrightarrow> k = (0::nat)"
  by (cases "s + k < n") (simp_all add: le_mod_geq not_less)

lemma ring_index_less [simp]: "s < n \<Longrightarrow> (s + k) mod n < (n::nat)"
  by (rule mod_less_divisor) simp

lemma rx_find_end_skip:
  assumes "s < length es"
  shows "k < length es \<Longrightarrow> \<forall>j<k. in_use (es ! ((s + j) mod length es)) \<Longrightarrow>
    rx_find_end (length es) es s s = rx_find_end (length es) es s ((s + k) mod length es)"
proof (induction k)
  case 0
  then show ?case using assms by simp
next
  case (Suc k)
  let ?j = "(s + k) mod length es"
  have j: "?j < length es" using assms by simp
  have "in_use (es ! ?j)" using Suc.prems by simp
  moreover have "(s + Suc k) mod length es \<noteq> s"
    using add_mod_eq_self [of s "length es" "Suc k"] assms Suc.prems by auto
  ultimately have "rx_find_end (length es) es s ?j = rx_find_end (length es) es s ((s + Suc k) mod length es)"
    using j assms
    by (subst rx_find_end.simps) (simp add: in_use_def ring_next_add Let_def)
  then show ?case using Suc by simp
qed

lemma rx_find_end_eq:
  assumes "s < length es"
  shows "rx_find_end (length es) es s s = Some (rx_next_frame es s)"
proof -
  define k where "k = length (takeWhile in_use (rotate s es))"
  have pre: "in_use (es ! ((s + j) mod length es))" if "j < k" for j
  proof -
    have "j < length es" using that length_takeWhile_le [of in_use "rotate s es"] by (simp add: k_def)
    then have "takeWhile in_use (rotate s es) ! j = es ! ((s + j) mod length es)"
      using that by (simp add: takeWhile_nth k_def nth_rotate)
    then show ?thesis using that by (metis k_def nth_mem set_takeWhileD)
  qed
  have kle: "k \<le> length es" using length_takeWhile_le [of in_use "rotate s es"] by (simp add: k_def)
  have ne: "\<not> in_use (es ! ((s + k) mod length es))" if "k < length es"
  proof -
    have "length (takeWhile in_use (rotate s es)) < length (rotate s es)" using that by (simp add: k_def)
    then have "\<not> in_use (rotate s es ! k)" unfolding k_def by (rule nth_length_takeWhile)
    then show ?thesis using that by (simp add: nth_rotate)
  qed
  show ?thesis
  proof (cases "k = length es")
    case True
    define m where "m = length es - 1"
    have m: "m < length es" "Suc m = length es" using assms by (auto simp: m_def)
    let ?j = "(s + m) mod length es"
    have j: "?j < length es" using assms by simp
    have "rx_find_end (length es) es s s = rx_find_end (length es) es s ?j"
      using assms m pre True by (intro rx_find_end_skip) auto
    also have "\<dots> = Some (Rx_wrapped s)"
    proof -
      have "ring_next (length es) ?j = s" using assms m by (simp add: ring_next_add)
      moreover have "in_use (es ! ?j)" using pre m True by simp
      ultimately show ?thesis using j by (subst rx_find_end.simps) (simp add: in_use_def Let_def)
    qed
    finally show ?thesis using True by (simp add: rx_next_frame_def k_def)
  next
    case False
    then have k: "k < length es" using kle by simp
    have j: "(s + k) mod length es < length es" using assms by simp
    have "rx_find_end (length es) es s s = rx_find_end (length es) es s ((s + k) mod length es)"
      using assms k pre by (intro rx_find_end_skip) auto
    then show ?thesis
      using j ne [OF k] False
      by (subst (asm) (2) rx_find_end.simps)
         (auto simp: in_use_def rx_next_frame_def k_def [symmetric] Let_def)
  qed
qed


text \<open>The entries of a cyclic span, and a list with the entries of a set of indices freed.\<close>

definition span :: "nat \<Rightarrow> nat \<Rightarrow> nat \<Rightarrow> nat set" where
  "span n s d = (\<lambda>j. (s + j) mod n) ` {..d}"

definition freed :: "nat set \<Rightarrow> DMABUFFERENTRY list \<Rightarrow> DMABUFFERENTRY list" where
  "freed A es = map (\<lambda>(k, e). if k \<in> A then free_entry e else e) (enumerate 0 es)"

lemma length_freed [simp]: "length (freed A es) = length es"
  by (simp add: freed_def)

lemma nth_freed [simp]:
  "k < length es \<Longrightarrow> freed A es ! k = (if k \<in> A then free_entry (es ! k) else es ! k)"
  by (simp add: freed_def nth_enumerate_eq)

lemma span_0 [simp]: "s < n \<Longrightarrow> span n s 0 = {s}"
  by (simp add: span_def)

lemma span_Suc: "s < n \<Longrightarrow> span n s (Suc d) = insert s (span n (ring_next n s) d)"
proof -
  assume s: "s < n"
  have "{..Suc d} = insert 0 (Suc ` {..d})" by (auto simp: image_iff) (metis Suc_pred atMost_iff gr0I Suc_le_mono)
  then have "span n s (Suc d) = insert s ((\<lambda>j. (s + Suc j) mod n) ` {..d})"
    using s by (simp add: span_def image_comp comp_def)
  also have "(\<lambda>j. (s + Suc j) mod n) ` {..d} = span n (ring_next n s) d"
    using s by (simp add: span_def ring_next_mod mod_add_left_eq)
  finally show ?thesis .
qed

lemma freed_update: "s < length es \<Longrightarrow> freed A (es[s := free_entry (es ! s)]) = freed (insert s A) es"
  by (rule nth_equalityI) (auto simp: nth_list_update)

lemma free_rx_loop_eq:
  assumes "n = length es" "s < n" "d < n" "e = (s + d) mod n"
  shows "free_rx_loop n e s es = Some (ring_next n e, freed (span n s d) es)"
  using assms
proof (induction d arbitrary: s es)
  case 0
  then show ?case
    by (subst free_rx_loop.simps) (simp add: freed_update [of _ _ "{}", symmetric], simp add: freed_def enumerate_eq_zip map_snd_zip_take comp_def case_prod_unfold)
next
  case (Suc d)
  have ne: "s \<noteq> e" using Suc.prems add_mod_eq_self [of s n "Suc d"] by auto
  have e: "e = (ring_next n s + d) mod n"
    using Suc.prems by (simp add: ring_next_mod mod_add_left_eq)
  have "free_rx_loop n e s es = free_rx_loop n e (ring_next n s) (es[s := free_entry (es ! s)])"
    using Suc.prems ne by (subst free_rx_loop.simps) simp
  also have "\<dots> = Some (ring_next n e, freed (span n (ring_next n s) d) (es[s := free_entry (es ! s)]))"
    using Suc.prems e by (intro Suc.IH) simp_all
  finally show ?case
    using Suc.prems by (simp add: freed_update span_Suc)
qed

text \<open>Byte \<open>k\<close> of a frame that starts in buffer \<open>s\<close> of the ring.\<close>

definition frame_bytes :: "memory \<Rightarrow> DMABUFFERENTRY list \<Rightarrow> nat \<Rightarrow> nat \<Rightarrow> u8 list" where
  "frame_bytes m es s sz =
     map (\<lambda>k. m (virt_addr (es ! ((s + k div 4096) mod length es)) + k mod 4096)) [0..<sz]"

lemma length_frame_bytes [simp]: "length (frame_bytes m es s sz) = sz"
  by (simp add: frame_bytes_def)

lemma frame_bytes_step:
  assumes "s < length es"
  shows "frame_bytes m es s sz =
    mem_read (virt_addr (es ! s)) (min 4096 sz) m @
    frame_bytes m es (ring_next (length es) s) (sz - min 4096 sz)"
  using assms
  by (intro nth_equalityI)
     (auto simp: frame_bytes_def nth_append ring_next_mod mod_add_left_eq min_def not_less
        le_div_geq le_mod_geq)

lemma blit_fits:
  "off + length bs \<le> length buf \<Longrightarrow> blit buf off bs = Some (take off buf @ bs @ drop (off + length bs) buf)"
  by (simp add: blit_def)

lemma copy_rx_eq:
  "s < length es \<Longrightarrow> off + c \<le> length buf \<Longrightarrow>
   copy_rx m es (length es) c s off buf =
     Some (take off buf @ frame_bytes m es s c @ drop (off + c) buf)"
proof (induction c arbitrary: s off buf rule: less_induct)
  case (less c)
  show ?case
  proof (cases "c = 0")
    case True
    then show ?thesis by (subst copy_rx.simps) (simp add: frame_bytes_def)
  next
    case False
    define p where "p = min 4096 c"
    have p: "(if c > 4096 then 4096 else c) = p" "0 < p" "p \<le> c" "c - p < c"
      using False by (auto simp: p_def)
    define bs where "bs = mem_read (virt_addr (es ! s)) p m"
    have bs: "length bs = p" by (simp add: bs_def)
    define buf' where "buf' = take off buf @ bs @ drop (off + p) buf"
    have b: "blit buf off bs = Some buf'"
      using less.prems p by (simp add: blit_fits buf'_def bs)
    have l: "length buf' = length buf" using less.prems p by (simp add: buf'_def bs)
    have "copy_rx m es (length es) c s off buf =
        copy_rx m es (length es) (c - p) (ring_next (length es) s) (off + p) buf'"
      using less.prems False b by (subst copy_rx.simps) (simp add: p Let_def bs_def)
    also have "\<dots> = Some (take (off + p) buf' @ frame_bytes m es (ring_next (length es) s) (c - p) @
        drop (off + p + (c - p)) buf')"
      using less.prems p l by (intro less.IH) simp_all
    also have "take (off + p) buf' = take off buf @ bs"
      using less.prems p bs by (simp add: buf'_def)
    also have "drop (off + p + (c - p)) buf' = drop (off + c) buf"
      using less.prems p bs by (simp add: buf'_def add.commute)
    finally show ?thesis
      using frame_bytes_step [OF less.prems(1), of m c] by (simp add: bs_def p_def)
  qed
qed


text \<open>
  The state in which the receive path works: a ring, and an intermediate buffer of the maximal
  frame size, which is in the range that \<open>r56_add_device\<close> enforces.
\<close>

definition buffer_of_size :: "nat \<Rightarrow> u8 list option \<Rightarrow> bool" where
  "buffer_of_size n x \<longleftrightarrow> (case x of None \<Rightarrow> False | Some b \<Rightarrow> length b = n)"

lemma buffer_of_size_Some [simp]: "buffer_of_size n (Some b) \<longleftrightarrow> length b = n"
  by (simp add: buffer_of_size_def)

definition rx_ready :: "r56_struct \<Rightarrow> bool" where
  "rx_ready i \<longleftrightarrow>
     rx_ring i \<and>
     buffer_of_size (unat (max_frame_size i)) (intermediate_rxbuffer i) \<and>
     4096 \<le> max_frame_size i \<and> max_frame_size i \<le> 65535"

lemma rx_readyE:
  assumes "rx_ready i"
  obtains b where "rx_ring i" "intermediate_rxbuffer i = Some b" "length b = unat (max_frame_size i)"
    "4096 \<le> max_frame_size i" "max_frame_size i \<le> 65535"
  using assms by (auto simp: rx_ready_def buffer_of_size_def split: option.splits)

lemma rx_ready_started [simp]: "rx_ready i \<Longrightarrow> rx_ready (started_info i)"
  by (simp add: rx_ready_def started_info_def rx_ring_def)

lemma count_rx_error_frame [simp]:
  "rx_buffer_list (info (count_rx_error st w)) = rx_buffer_list (info w)"
  "rx_buffer_count (info (count_rx_error st w)) = rx_buffer_count (info w)"
  "current_rx_buffer (info (count_rx_error st w)) = current_rx_buffer (info w)"
  "params (info (count_rx_error st w)) = params (info w)"
  "max_frame_size (info (count_rx_error st w)) = max_frame_size (info w)"
  "intermediate_rxbuffer (info (count_rx_error st w)) = intermediate_rxbuffer (info w)"
  "port_tty (info (count_rx_error st w)) = port_tty (info w)"
  "rx_enabled (info (count_rx_error st w)) = rx_enabled (info w)"
  "rx_overflow (info (count_rx_error st w)) = rx_overflow (info w)"
  "rx_ring (info (count_rx_error st w)) = rx_ring (info w)"
  "rx_ready (info (count_rx_error st w)) = rx_ready (info w)"
  "mem (count_rx_error st w) = mem w" "env (count_rx_error st w) = env w"
  "trace (count_rx_error st w) = trace w"
  by (simp_all add: count_rx_error_def rx_ring_def rx_ready_def)

text \<open>What one received frame hands to the line discipline, if anything.\<close>

definition rx_payload :: "world \<Rightarrow> nat \<Rightarrow> DMABUFFERENTRY \<Rightarrow> u8 list option" where
  "rx_payload w s e =
    (let p = params (info w); fs = rx_framesize p e; ex = tst (crc_type p) HDLC_CRC_RETURN_EX;
         limit = max_frame_size (info w)
     in if fs = 0 \<or> fs > limit \<or> ex \<and> fs + 1 > limit then None
        else Some (frame_bytes (mem w) (rx_buffer_list (info w)) s (unat fs) @
                   (if ex then [if tst (status e) RXSTATUS_CRC_ERROR then RX_CRC_ERROR else RX_OK]
                    else [])))"

definition rx_counters :: "r56_struct \<Rightarrow> DMABUFFERENTRY \<Rightarrow> r56_icount \<Rightarrow> r56_icount" where
  "rx_counters i e c =
    (let p = params i; fs = rx_framesize p e; ex = tst (crc_type p) HDLC_CRC_RETURN_EX
     in if fs = 0 then c
        else if ex \<and> fs + 1 > max_frame_size i \<or> fs > max_frame_size i
        then c\<lparr> ic_rxlong := ic_rxlong c + 1 \<rparr>
        else if tst (status e) RXSTATUS_CRC_ERROR then c
        else c\<lparr> ic_rxok := ic_rxok c + 1 \<rparr>)"

definition deliver_trace :: "r56_struct \<Rightarrow> u8 list option \<Rightarrow> event list" where
  "deliver_trace i d =
    (case d of None \<Rightarrow> [] | Some bs \<Rightarrow> if port_tty i = None then [] else [Call (Ldisc_receive_buf bs)])"

lemma take_Suc_update:
  "n < length xs \<Longrightarrow> take (Suc n) (xs[n := x]) = take n xs @ [x]"
  by (simp add: take_Suc_conv_app_nth)

lemma rx_assemble_total:
  assumes ready: "rx_ready (info w)" and s: "s < length (rx_buffer_list (info w))"
  shows "\<exists>b w'. rx_assemble s e w = Some (rx_payload w s e, w') \<and> length b = unat (max_frame_size (info w)) \<and>
      info w' = (info w)\<lparr> intermediate_rxbuffer := Some b,
                          icount := rx_counters (info w) e (icount (info w)) \<rparr> \<and>
      env w' = env w \<and> mem w' = mem w \<and>
      trace w' = trace w"
proof -
  from ready obtain b where ring: "rx_ring (info w)" and b: "intermediate_rxbuffer (info w) = Some b"
    and lb: "length b = unat (max_frame_size (info w))" and lim: "max_frame_size (info w) \<le> 65535"
    by (rule rx_readyE)
  define fs where "fs = rx_framesize (params (info w)) e"
  define ex where "ex = tst (crc_type (params (info w))) HDLC_CRC_RETURN_EX"
  consider "fs = 0" | "fs \<noteq> 0" "ex \<and> fs + 1 > max_frame_size (info w) \<or> fs > max_frame_size (info w)"
    | "fs \<noteq> 0" "fs \<le> max_frame_size (info w)" "ex \<longrightarrow> fs + 1 \<le> max_frame_size (info w)"
    using not_less by blast
  then show ?thesis
  proof cases
    case 1
    then have z: "rx_framesize (params (info w)) e = 0" by (simp add: fs_def)
    show ?thesis
    proof (intro exI conjI)
      show "rx_assemble s e w = Some (rx_payload w s e, w)" by (simp add: rx_assemble_def rx_payload_def z)
      show "info w = (info w)\<lparr> intermediate_rxbuffer := Some b,
          icount := rx_counters (info w) e (icount (info w)) \<rparr>"
        using b by (simp add: rx_counters_def z)
    qed (simp_all add: lb)
  next
    case 2
    then have d: "rx_assemble s e w = Some (None, set_icount (ic_rxlong_update (\<lambda>n. n + 1)) w)"
      by (simp add: rx_assemble_def fs_def [symmetric] ex_def [symmetric] Let_def)
    from 2 have p: "rx_payload w s e = None"
      by (auto simp: rx_payload_def fs_def [symmetric] ex_def [symmetric] Let_def)
    from 2 have c: "rx_counters (info w) e c = c\<lparr> ic_rxlong := ic_rxlong c + 1 \<rparr>" for c
      by (simp add: rx_counters_def fs_def [symmetric] ex_def [symmetric] Let_def)
    show ?thesis
    proof (intro exI conjI)
      show "info (set_icount (ic_rxlong_update (\<lambda>n. n + 1)) w) = (info w)\<lparr> intermediate_rxbuffer := Some b,
          icount := rx_counters (info w) e (icount (info w)) \<rparr>"
        using b by (simp add: c)
    qed (use d lb in \<open>simp_all add: p\<close>)
  next
    case 3
    have fl: "unat fs \<le> length b" using 3(2) lb by (simp add: word_le_nat_alt)
    have small: "unat fs \<le> 65535" using 3(2) lim by (simp add: word_le_nat_alt)
    then have fs1: "unat (fs + 1) = unat fs + 1" by (simp add: unat_word_ariths)
    have f31: "\<not> 0x80000000 \<le> fs" using small by (simp add: word_le_nat_alt)
    have n: "unat (rx_buffer_count (info w)) = length (rx_buffer_list (info w))"
      using ring by (simp add: rx_ring_def)
    define fb where "fb = frame_bytes (mem w) (rx_buffer_list (info w)) s (unat fs)"
    define b1 where "b1 = fb @ drop (unat fs) b"
    have c: "copy_rx (mem w) (rx_buffer_list (info w)) (length (rx_buffer_list (info w))) (unat fs) s 0 b =
        Some b1"
      using copy_rx_eq [OF s, of 0 "unat fs" b "mem w"] fl by (simp add: b1_def fb_def)
    have l1: "length b1 = length b" using fl by (simp add: b1_def fb_def)
    define w1 where "w1 = (if \<not> tst (status e) RXSTATUS_CRC_ERROR
                      then set_icount (ic_rxok_update (\<lambda>n. n + 1)) w else w)"
    have w1: "intermediate_rxbuffer (info w1) = Some b" "rx_buffer_list (info w1) = rx_buffer_list (info w)"
      "rx_buffer_count (info w1) = rx_buffer_count (info w)" "mem w1 = mem w"
      using b by (simp_all add: w1_def)
    define st where "st = (if tst (status e) RXSTATUS_CRC_ERROR then RX_CRC_ERROR else RX_OK)"
    define b2 where "b2 = (if ex then b1[unat fs := st] else b1)"
    define pl where "pl = fb @ (if ex then [st] else [])"
    have ltx: "unat fs < length b1" if ex
      using 3 that fs1 lb l1 by (simp add: word_le_nat_alt)
    have t: "take (unat (if ex then fs + 1 else fs)) b2 = pl"
    proof (cases ex)
      case True
      then show ?thesis
        using take_Suc_update [OF ltx, of st] by (simp add: b2_def pl_def fs1) (simp add: b1_def fb_def)
    qed (simp add: b2_def pl_def b1_def fb_def)
    have cond: "\<not> (ex \<and> fs + 1 > max_frame_size (info w) \<or> fs > max_frame_size (info w))"
      using 3 by (auto simp: not_less)
    have a: "(if ex then aset b1 (unat fs) st else Some b1) = Some b2"
      using ltx by (simp add: b2_def)
    have "rx_assemble s e w = Some (Some pl, set_info (intermediate_rxbuffer_update (\<lambda>_. Some b2)) w1)"
      unfolding rx_assemble_def fs_def [symmetric] ex_def [symmetric] Let_def w1_def [symmetric]
        st_def [symmetric]
      using 3(1) f31 by (simp only: cond if_False if_True) (simp add: w1 n c a t)
    note d = this
    have p: "rx_payload w s e = Some pl"
      unfolding rx_payload_def fs_def [symmetric] ex_def [symmetric] Let_def st_def [symmetric]
      using 3(1) cond by (simp add: pl_def fb_def)
    have "rx_counters (info w) e (icount (info w)) = icount (info w1)"
      unfolding rx_counters_def fs_def [symmetric] ex_def [symmetric] Let_def
      using 3(1) cond by (simp add: w1_def)
    note k = this
    show ?thesis
    proof (intro exI conjI)
      show "rx_assemble s e w = Some (rx_payload w s e, set_info (intermediate_rxbuffer_update (\<lambda>_. Some b2)) w1)"
        unfolding p by (rule d)
      show "length b2 = unat (max_frame_size (info w))" using l1 lb by (simp add: b2_def)
      show "info (set_info (intermediate_rxbuffer_update (\<lambda>_. Some b2)) w1) =
          (info w)\<lparr> intermediate_rxbuffer := Some b2,
            icount := rx_counters (info w) e (icount (info w)) \<rparr>"
        unfolding k by (simp add: w1_def)
    qed (simp_all add: w1_def)
  qed
qed

lemma rx_deliver_total:
  assumes ready: "rx_ready (info w)" and s: "s < length (rx_buffer_list (info w))"
  shows "\<exists>b w'. rx_deliver s e w = Some w' \<and> length b = unat (max_frame_size (info w)) \<and>
      info w' = (info w)\<lparr> intermediate_rxbuffer := Some b,
                          icount := rx_counters (info w) e (icount (info w)) \<rparr> \<and>
      env w' = env w \<and> mem w' = mem w \<and>
      trace w' = trace w @ deliver_trace (info w) (rx_payload w s e)"
proof -
  from rx_assemble_total [OF assms] obtain b w1 where w1: "rx_assemble s e w = Some (rx_payload w s e, w1)"
    "length b = unat (max_frame_size (info w))"
    "info w1 = (info w)\<lparr> intermediate_rxbuffer := Some b, icount := rx_counters (info w) e (icount (info w)) \<rparr>"
    "env w1 = env w" "mem w1 = mem w" "trace w1 = trace w" by blast
  define w2 where "w2 = (case rx_payload w s e of None \<Rightarrow> w1 | Some bs \<Rightarrow> ldisc_receive_buf bs w1)"
  have tty: "port_tty (info w1) = port_tty (info w)" by (simp add: w1(3))
  have "info w2 = info w1" "env w2 = env w1" "mem w2 = mem w1"
    "trace w2 = trace w1 @ deliver_trace (info w) (rx_payload w s e)"
    by (auto simp add: w2_def deliver_trace_def ldisc_receive_buf_def tty split: option.split)
  moreover have "rx_deliver s e w = Some w2" by (simp add: rx_deliver_def w1(1) w2_def)
  ultimately show ?thesis using w1(2-6) by metis
qed


lemma rx_cleanup_eq:
  assumes "E < length (rx_buffer_list (info w))"
  shows "rx_cleanup E w =
    (if rx_enabled (info w) \<and> rx_overflow (info w) \<and> is_free (rx_buffer_list (info w) ! E)
     then usc_start_receiver w else Some w)"
  using assms by (simp add: rx_cleanup_def is_free_def)

lemma rx_next_frame_index:
  assumes "s < length es"
  shows "\<exists>d<length es. case rx_next_frame es s of
           Rx_frame j \<Rightarrow> j = (s + d) mod length es \<and> status (es ! j) \<noteq> 0
         | Rx_none j \<Rightarrow> j = (s + d) mod length es \<and> is_free (es ! j)
         | Rx_wrapped j \<Rightarrow> j = s"
proof -
  define k where "k = length (takeWhile in_use (rotate s es))"
  have kle: "k \<le> length es" using length_takeWhile_le [of in_use "rotate s es"] by (simp add: k_def)
  show ?thesis
  proof (cases "k = length es")
    case True
    then show ?thesis
      using assms by (intro exI [of _ 0]) (auto simp: rx_next_frame_def k_def)
  next
    case False
    then have k: "k < length es" using kle by simp
    then have "length (takeWhile in_use (rotate s es)) < length (rotate s es)" by (simp add: k_def)
    then have "\<not> in_use (rotate s es ! k)" unfolding k_def by (rule nth_length_takeWhile)
    then have "\<not> in_use (es ! ((s + k) mod length es))" using k by (simp add: nth_rotate)
    then show ?thesis
      using k by (intro exI [of _ k])
        (auto simp: rx_next_frame_def k_def [symmetric] Let_def in_use_def is_free_def)
  qed
qed

text \<open>All counters of one received frame.\<close>

definition error_counters :: "u16 \<Rightarrow> r56_icount \<Rightarrow> r56_icount" where
  "error_counters st c =
    (if tst st RXSTATUS_SHORT_FRAME then c\<lparr> ic_rxshort := ic_rxshort c + 1 \<rparr>
     else if tst st RXSTATUS_ABORT then c\<lparr> ic_rxabort := ic_rxabort c + 1 \<rparr>
     else if tst st RXSTATUS_OVERRUN then c\<lparr> ic_rxover := ic_rxover c + 1 \<rparr>
     else c\<lparr> ic_rxcrc := ic_rxcrc c + 1 \<rparr>)"

lemma info_count_rx_error:
  "info (count_rx_error st w) = (info w)\<lparr> icount := error_counters st (icount (info w)) \<rparr>"
  by (simp add: count_rx_error_def error_counters_def)

lemma rx_counters_icount [simp]: "rx_counters (i\<lparr> icount := c \<rparr>) = rx_counters i"
  by (simp add: rx_counters_def fun_eq_iff Let_def)

definition frame_counters :: "r56_struct \<Rightarrow> DMABUFFERENTRY \<Rightarrow> r56_icount" where
  "frame_counters i e =
     rx_counters i e (if tst (status e) RXSTATUS_ERRORS then error_counters (status e) (icount i)
                      else icount i)"

text \<open>The instance after a frame in the buffers \<open>s\<close> to \<open>j\<close> was returned.\<close>

definition consumed :: "nat \<Rightarrow> nat \<Rightarrow> u8 list \<Rightarrow> r56_icount \<Rightarrow> r56_struct \<Rightarrow> r56_struct" where
  "consumed s d b c i =
     i\<lparr> intermediate_rxbuffer := Some b, icount := c,
        rx_buffer_list := freed (span (length (rx_buffer_list i)) s d) (rx_buffer_list i),
        current_rx_buffer := of_nat ((s + Suc d) mod length (rx_buffer_list i)) \<rparr>"

lemma rx_ring_consumed:
  assumes "rx_ring i" "s < length (rx_buffer_list i)"
  shows "rx_ring (consumed s d b c i)"
proof -
  have "unat (of_nat k :: u32) \<le> k" for k by (simp add: unsigned_of_nat take_bit_eq_mod)
  then have "unat (of_nat ((s + Suc d) mod length (rx_buffer_list i)) :: u32) < length (rx_buffer_list i)"
    using assms(2) by (meson le_less_trans ring_index_less)
  then show ?thesis using assms(1) by (simp add: rx_ring_def consumed_def)
qed

lemma rx_ready_consumed:
  "rx_ready i \<Longrightarrow> s < length (rx_buffer_list i) \<Longrightarrow> length b = unat (max_frame_size i) \<Longrightarrow>
   rx_ready (consumed s d b c i)"
  by (simp add: rx_ready_def rx_ring_consumed) (simp add: consumed_def)

lemma free_rx_frame_buffers_eq:
  assumes "rx_ring (info w)" "s < length (rx_buffer_list (info w))" "d < length (rx_buffer_list (info w))"
  shows "r56_free_rx_frame_buffers s ((s + d) mod length (rx_buffer_list (info w))) w =
    Some (set_info (\<lambda>i. i\<lparr> rx_buffer_list := freed (span (length (rx_buffer_list i)) s d) (rx_buffer_list i),
        current_rx_buffer := of_nat ((s + Suc d) mod length (rx_buffer_list i)) \<rparr>) w)"
proof -
  have "unat (rx_buffer_count (info w)) = length (rx_buffer_list (info w))"
    using assms(1) by (simp add: rx_ring_def)
  then show ?thesis
    using free_rx_loop_eq [of "length (rx_buffer_list (info w))" "rx_buffer_list (info w)" s d] assms(2,3)
    by (simp add: r56_free_rx_frame_buffers_def ring_next_add)
qed

lemma count_rx_error_payload [simp]:
  "rx_payload (count_rx_error st w) s e = rx_payload w s e"
  "deliver_trace (info (count_rx_error st w)) = deliver_trace (info w)"
  by (simp_all add: rx_payload_def Let_def deliver_trace_def fun_eq_iff split: option.split)

lemma get_rx_frame_found:
  assumes ready: "rx_ready (info w)" and s: "s = unat (current_rx_buffer (info w))"
    and frame: "rx_next_frame (rx_buffer_list (info w)) s = Rx_frame j"
  shows "\<exists>d b w1 w'. j = (s + d) mod length (rx_buffer_list (info w)) \<and>
      d < length (rx_buffer_list (info w)) \<and> status (rx_buffer_list (info w) ! j) \<noteq> 0 \<and>
      length b = unat (max_frame_size (info w)) \<and>
      r56_get_rx_frame w = Some (True, w') \<and>
      info w1 = consumed s d b (frame_counters (info w) (rx_buffer_list (info w) ! j)) (info w) \<and>
      trace w1 = trace w @ deliver_trace (info w) (rx_payload w s (rx_buffer_list (info w) ! j)) \<and>
      mem w1 = mem w \<and> env w1 = env w \<and>
      (if rx_enabled (info w) \<and> rx_overflow (info w) then usc_start_receiver w1 = Some w' else w' = w1)"
proof -
  let ?es = "rx_buffer_list (info w)"
  define e where "e = ?es ! j"
  define wc where "wc = (if tst (status e) RXSTATUS_ERRORS then count_rx_error (status e) w else w)"
  from ready have ring: "rx_ring (info w)" by (rule rx_readyE)
  then have n: "unat (rx_buffer_count (info w)) = length ?es" and sl: "s < length ?es"
    by (simp_all add: rx_ring_def s)
  obtain d where d: "d < length ?es" "j = (s + d) mod length ?es" "status (?es ! j) \<noteq> 0"
    using rx_next_frame_index [OF sl] frame by auto
  have j: "j < length ?es" using d(2) sl by simp
  have find: "rx_find_end (length ?es) ?es s s = Some (Rx_frame j)"
    using rx_find_end_eq [OF sl] frame by simp
  have wc: "rx_ready (info wc)" "rx_ring (info wc)" "s < length (rx_buffer_list (info wc))"
    "rx_buffer_list (info wc) = ?es" "trace wc = trace w" "mem wc = mem w" "env wc = env w"
    "max_frame_size (info wc) = max_frame_size (info w)" "rx_payload wc s e = rx_payload w s e"
    "deliver_trace (info wc) = deliver_trace (info w)"
    "rx_enabled (info wc) = rx_enabled (info w)" "rx_overflow (info wc) = rx_overflow (info w)"
    using ready ring sl by (simp_all add: wc_def)
  obtain b w2 where w2: "rx_deliver s e wc = Some w2" "length b = unat (max_frame_size (info w))"
      "info w2 = (info wc)\<lparr> intermediate_rxbuffer := Some b,
                            icount := rx_counters (info wc) e (icount (info wc)) \<rparr>"
      "env w2 = env w" "mem w2 = mem w"
      "trace w2 = trace w @ deliver_trace (info w) (rx_payload w s e)"
    using rx_deliver_total [OF wc(1,3), of e] by (auto simp: wc)
  define w1 where "w1 = set_info (\<lambda>i. i\<lparr> rx_buffer_list := freed (span (length (rx_buffer_list i)) s d) (rx_buffer_list i),
        current_rx_buffer := of_nat ((s + Suc d) mod length (rx_buffer_list i)) \<rparr>) w2"
  have l2: "rx_buffer_list (info w2) = ?es" "rx_ring (info w2)"
    using w2(3) wc(2,4) by (simp_all add: rx_ring_def)
  have fr: "r56_free_rx_frame_buffers s j w2 = Some w1"
    using free_rx_frame_buffers_eq [OF l2(2), of s d] sl d by (simp add: w1_def l2(1))
  have ic: "info wc = (info w)\<lparr> icount := icount (info wc) \<rparr>"
    by (simp add: wc_def info_count_rx_error)
  have cc: "rx_counters (info wc) e (icount (info wc)) = frame_counters (info w) e"
    by (simp add: wc_def frame_counters_def info_count_rx_error)
  have "info w2 = (info w)\<lparr> intermediate_rxbuffer := Some b, icount := frame_counters (info w) e \<rparr>"
    using w2(3) unfolding cc by (subst (asm) ic) simp
  then have i1: "info w1 = consumed s d b (frame_counters (info w) e) (info w)"
    by (simp add: w1_def consumed_def)
  have free: "is_free (rx_buffer_list (info w1) ! j)"
    using j d by (auto simp: i1 consumed_def span_def)
  have jl: "j < length (rx_buffer_list (info w1))" using j by (simp add: i1 consumed_def)
  have cl: "rx_cleanup j w1 = (if rx_enabled (info w) \<and> rx_overflow (info w) then usc_start_receiver w1 else Some w1)"
    using rx_cleanup_eq [OF jl] free by (simp add: i1 consumed_def)
  have r1: "rx_ring (info w1)"
    using ring sl by (simp add: i1 rx_ring_consumed)
  obtain w' where w': "rx_cleanup j w1 = Some w'"
    using cl usc_start_receiver_total [OF r1] by (cases "rx_enabled (info w) \<and> rx_overflow (info w)") auto
  have "r56_get_rx_frame w = Some (True, w')"
    using j find n w2(1) fr w'
    by (cases "tst (status e) RXSTATUS_ERRORS")
      (simp_all add: r56_get_rx_frame_def s [symmetric] e_def [symmetric] wc_def)
  moreover have "if rx_enabled (info w) \<and> rx_overflow (info w) then usc_start_receiver w1 = Some w' else w' = w1"
    using cl w' by (auto split: if_splits)
  moreover have "trace w1 = trace w @ deliver_trace (info w) (rx_payload w s e)" "mem w1 = mem w" "env w1 = env w"
    using w2 by (simp_all add: w1_def)
  ultimately show ?thesis
    using d w2(2) i1 unfolding e_def [symmetric] by blast
qed


lemma get_rx_frame_not_found:
  assumes ready: "rx_ready (info w)" and s: "s = unat (current_rx_buffer (info w))"
    and none: "\<And>j. rx_next_frame (rx_buffer_list (info w)) s \<noteq> Rx_frame j"
  shows "\<exists>w'. r56_get_rx_frame w = Some (False, w') \<and> mem w' = mem w \<and> env w' = env w \<and>
      (w' = w \<or> usc_start_receiver w = Some w')"
proof -
  let ?es = "rx_buffer_list (info w)"
  from ready have ring: "rx_ring (info w)" by (rule rx_readyE)
  then have n: "unat (rx_buffer_count (info w)) = length ?es" and sl: "s < length ?es"
    by (simp_all add: rx_ring_def s)
  have find: "rx_find_end (length ?es) ?es s s = Some (rx_next_frame ?es s)"
    by (rule rx_find_end_eq [OF sl])
  obtain w1 where w1: "usc_start_receiver w = Some w1" "info w1 = started_info (info w)"
      "env w1 = env w" "mem w1 = mem w"
    using usc_start_receiver_total [OF ring] by blast
  show ?thesis
  proof (cases "rx_next_frame ?es s")
    case (Rx_frame j)
    then show ?thesis using none by blast
  next
    case (Rx_none j)
    then have "j < length ?es" using rx_next_frame_index [OF sl] sl by auto
    then show ?thesis
      using Rx_none find n w1
      by (simp add: r56_get_rx_frame_def s [symmetric] rx_cleanup_eq)
  next
    case (Rx_wrapped j)
    then have j: "j < length ?es" using rx_next_frame_index [OF sl] sl by auto
    have "rx_cleanup j w = Some w"
    proof -
      have "in_use (?es ! s)"
        using Rx_wrapped takeWhile_eq_all_conv [of in_use "rotate s ?es"] sl
        by (auto simp: rx_next_frame_def Let_def split: if_splits)
           (metis length_rotate length_takeWhile_le nth_mem set_rotate takeWhile_eq_all_conv
             takeWhile_eq_take take_all_iff)
      moreover have "j = s" using rx_next_frame_index [OF sl] Rx_wrapped by auto
      ultimately show ?thesis using j by (simp add: rx_cleanup_eq is_free_def in_use_def)
    qed
    moreover have "rx_cleanup j w1 = Some w1"
      using j w1(2) by (simp add: rx_cleanup_eq started_info_def)
    ultimately show ?thesis
      using Rx_wrapped find n w1 by (auto simp: r56_get_rx_frame_def s [symmetric])
  qed
qed


text \<open>Progress: the number of buffers that are not free.\<close>

definition busy :: "r56_struct \<Rightarrow> nat" where
  "busy i = length (filter (\<lambda>e. \<not> is_free e) (rx_buffer_list i))"

lemma busy_started [simp]: "busy (started_info i) = 0"
  by (simp add: busy_def started_info_def)

lemma busy_freed:
  assumes "k \<in> A" "k < length es" "\<not> is_free (es ! k)"
  shows "length (filter (\<lambda>e. \<not> is_free e) (freed A es)) < length (filter (\<lambda>e. \<not> is_free e) es)"
  unfolding length_filter_conv_card
proof (rule psubset_card_mono)
  show "{i. i < length (freed A es) \<and> \<not> is_free (freed A es ! i)} \<subset> {i. i < length es \<and> \<not> is_free (es ! i)}"
  proof (rule psubsetI)
    show "{i. i < length (freed A es) \<and> \<not> is_free (freed A es ! i)} \<subseteq> {i. i < length es \<and> \<not> is_free (es ! i)}"
      by (auto split: if_splits)
    have "k \<in> {i. i < length es \<and> \<not> is_free (es ! i)}" using assms by simp
    moreover have "k \<notin> {i. i < length (freed A es) \<and> \<not> is_free (freed A es ! i)}" using assms by simp
    ultimately show "{i. i < length (freed A es) \<and> \<not> is_free (freed A es ! i)} \<noteq>
        {i. i < length es \<and> \<not> is_free (es ! i)}" by blast
  qed
qed simp

lemma raw_framesize_le: "unat (raw_framesize e) \<le> 4096"
proof -
  have "unat (v mod 4096 :: u32) \<le> 4096" for v :: u32
    by (simp add: unat_mod less_imp_le)
  then show ?thesis
    by (auto simp: raw_framesize_def Let_def not_less word_le_nat_alt)
qed

text \<open>The instance after one raw buffer was returned, or the buffer is still in use.\<close>

lemma get_raw_rx_frame_total:
  assumes ready: "rx_ready (info w)"
  shows "\<exists>r w'. r56_get_raw_rx_frame w = Some (r, w') \<and> rx_ready (info w') \<and> mem w' = mem w \<and>
    env w' = env w \<and> (r \<longrightarrow> busy (info w') < busy (info w))"
proof -
  let ?es = "rx_buffer_list (info w)"
  define s where "s = unat (current_rx_buffer (info w))"
  from ready obtain b where ring: "rx_ring (info w)" and b: "intermediate_rxbuffer (info w) = Some b"
    and lb: "length b = unat (max_frame_size (info w))" and lim: "4096 \<le> max_frame_size (info w)"
    by (rule rx_readyE)
  have n: "unat (rx_buffer_count (info w)) = length ?es" and sl: "s < length ?es"
    using ring by (simp_all add: rx_ring_def s_def)
  define e f where "e = ?es ! s" and "f = ?es ! ring_next (length ?es) s"
  have clean: "\<exists>w'. rx_cleanup s v = Some w' \<and> rx_ready (info w') \<and> mem w' = mem v \<and> env w' = env v \<and>
      busy (info w') \<le> busy (info v)"
    if "rx_ready (info v)" "s < length (rx_buffer_list (info v))" for v
  proof -
    have "rx_ring (info v)" using that(1) by (rule rx_readyE)
    then show ?thesis
      using usc_start_receiver_total [of v] rx_cleanup_eq [OF that(2)] that(1) by auto
  qed
  define c where "c = (status e \<noteq> 0 \<or> count e = 0 \<and> count f = 0)"
  have idx: "aget ?es s = Some e" "aget ?es (ring_next (length ?es) s) = Some f"
    using sl by (simp_all add: e_def f_def)
  show ?thesis
  proof (cases c)
    case False
    then show ?thesis
      using clean [OF ready sl] idx n
      by (auto simp: r56_get_raw_rx_frame_def s_def [symmetric] c_def)
  next
    case True
    define wc where "wc = (if tst (status e) RXSTATUS_ERRORS then count_rx_error (status e) w else w)"
    define fs where "fs = raw_framesize e"
    have wc: "info wc = (info w)\<lparr> icount := icount (info wc) \<rparr>" "mem wc = mem w" "env wc = env w"
      "intermediate_rxbuffer (info wc) = Some b"
      by (simp_all add: wc_def info_count_rx_error b)
    have fb: "unat fs \<le> length b"
      using raw_framesize_le [of e] lim lb by (simp add: fs_def word_le_nat_alt)
    obtain b2 w2 c2 where w2: "raw_deliver e wc = Some w2" "mem w2 = mem w" "env w2 = env w" "length b2 = length b"
        "info w2 = (info w)\<lparr> icount := c2, intermediate_rxbuffer := Some b2 \<rparr>"
    proof (cases "fs = 0")
      case True
      have "info wc = (info w)\<lparr> icount := icount (info wc), intermediate_rxbuffer := Some b \<rparr>"
        using wc(4) by (simp add: wc_def info_count_rx_error)
      then show ?thesis using True that [of wc b "icount (info wc)"] wc by (simp add: raw_deliver_def fs_def [symmetric])
    next
      case False
      define b2 where "b2 = mem_read (virt_addr e) (unat fs) (mem wc) @ drop (unat fs) b"
      have "blit b 0 (mem_read (virt_addr e) (unat fs) (mem wc)) = Some b2"
        using fb by (simp add: blit_fits b2_def)
      then show ?thesis
        using False that [of _ b2 "icount (info (set_icount (ic_rxok_update (\<lambda>n. n + 1)) wc))"] wc fb
        by (simp add: raw_deliver_def fs_def [symmetric] b2_def ldisc_receive_buf_def Let_def) (simp add: wc_def info_count_rx_error)
    qed
    have i2: "rx_ring (info w2)" "rx_buffer_list (info w2) = ?es"
      using ring by (simp_all add: w2(5) rx_ring_def)
    define w3 where "w3 = set_info (\<lambda>i. i\<lparr> rx_buffer_list := freed (span (length (rx_buffer_list i)) s 0) (rx_buffer_list i),
        current_rx_buffer := of_nat ((s + Suc 0) mod length (rx_buffer_list i)) \<rparr>) w2"
    have fr: "r56_free_rx_frame_buffers s s w2 = Some w3"
      using free_rx_frame_buffers_eq [of w2 s 0] i2 sl length_pos_if_in_set [OF nth_mem [OF sl]]
      by (simp add: w3_def)
    have i3: "info w3 = consumed s 0 b2 c2 (info w)"
      by (simp add: w3_def consumed_def w2(5))
    have r3: "rx_ready (info w3)" "s < length (rx_buffer_list (info w3))"
      using ready sl w2(4) lb by (simp_all add: i3 rx_ready_consumed) (simp add: consumed_def)
    have "\<not> is_free e" using True by (auto simp: c_def is_free_def)
    then have "busy (info w3) < busy (info w)"
      using busy_freed [of s "{s}" ?es] sl by (simp add: busy_def i3 consumed_def e_def)
    moreover obtain w' where "rx_cleanup s w3 = Some w'" "rx_ready (info w')" "mem w' = mem w" "env w' = env w"
        "busy (info w') \<le> busy (info w3)"
      using clean [OF r3] w2 by (auto simp: w3_def)
    moreover from this have "r56_get_raw_rx_frame w = Some (True, w')"
      using idx n True w2(1) fr
      by (cases "tst (status e) RXSTATUS_ERRORS")
        (auto simp: r56_get_raw_rx_frame_def s_def [symmetric] c_def wc_def)
    ultimately show ?thesis by auto
  qed
qed


text \<open>What the overrun search has established when it looks at entry \<open>s + k\<close>.\<close>

definition overrun_inv :: "DMABUFFERENTRY list \<Rightarrow> nat \<Rightarrow> nat \<Rightarrow> nat \<Rightarrow> bool \<Rightarrow> bool \<Rightarrow> bool" where
  "overrun_inv es s k f sof eof \<longleftrightarrow>
     (\<forall>i<k. count (es ! ((s + i) mod length es)) = 0) \<and> (sof \<longrightarrow> \<not> eof) \<and>
     (sof \<longrightarrow> (\<exists>a<k. f = (s + a) mod length es \<and>
        (\<forall>i. a \<le> i \<and> i < k \<longrightarrow> status (es ! ((s + i) mod length es)) = 0)))"

lemma overrun_inv_step:
  assumes "overrun_inv es s k f sof eof" "count (es ! ((s + k) mod length es)) = 0"
  shows "overrun_inv es s (Suc k) (if sof then f else (s + k) mod length es)
    (status (es ! ((s + k) mod length es)) = 0)
    (if status (es ! ((s + k) mod length es)) = 0 then sof \<and> eof else True)"
  using assms unfolding overrun_inv_def by (auto simp: less_Suc_eq split: if_splits)

lemma overrun_scan_total:
  assumes s: "s < length es"
  shows "k < length es \<Longrightarrow> overrun_inv es s k f sof eof \<Longrightarrow>
    \<exists>r. overrun_scan (length es) es s f sof eof ((s + k) mod length es) = Some r \<and>
      (case r of Overrun_all \<Rightarrow> \<forall>e\<in>set es. count e = 0
       | Overrun_stop f' sof' eof' j \<Rightarrow>
           \<exists>b<length es. j = (s + b) mod length es \<and> overrun_inv es s b f' sof' eof')"
proof (induction "length es - k" arbitrary: k f sof eof)
  case 0
  then show ?case by simp
next
  case (Suc m)
  let ?j = "(s + k) mod length es"
  have j: "?j < length es" using s by simp
  show ?case
  proof (cases "count (es ! ?j) = 0")
    case False
    then show ?thesis using j Suc.prems by (subst overrun_scan.simps) auto
  next
    case True
    define f' where "f' = (if sof then f else ?j)"
    define sof' where "sof' = (status (es ! ?j) = 0)"
    define eof' where "eof' = (if status (es ! ?j) = 0 then sof \<and> eof else True)"
    have inv: "overrun_inv es s (Suc k) f' sof' eof'"
      unfolding f'_def sof'_def eof'_def by (rule overrun_inv_step) (use Suc.prems True in auto)
    have step: "overrun_scan (length es) es s f sof eof ?j =
        (if s = (s + Suc k) mod length es then Some Overrun_all
         else overrun_scan (length es) es s f' sof' eof' ((s + Suc k) mod length es))"
      using j s True
      by (subst overrun_scan.simps) (simp add: ring_next_add f'_def sof'_def eof'_def Let_def)
    show ?thesis
    proof (cases "Suc k < length es")
      case True
      have "s \<noteq> (s + Suc k) mod length es" using add_mod_eq_self [OF s True] by auto
      then show ?thesis using Suc.hyps(1) [of "Suc k" f' sof' eof'] Suc.hyps(2) inv True
        by (simp add: step)
    next
      case False
      then have k: "Suc k = length es" using Suc.prems by simp
      have "count e = 0" if mem: "e \<in> set es" for e
      proof -
        obtain i where i: "i < length es" "e = es ! i" using mem by (auto simp: in_set_conv_nth)
        have "(s + (i + length es - s) mod length es) mod length es = i"
        proof -
          have "(s + (i + length es - s) mod length es) mod length es = (s + (i + length es - s)) mod length es"
            by (rule mod_add_right_eq)
          also have "s + (i + length es - s) = i + length es" using s by simp
          finally show ?thesis using i by simp
        qed
        moreover have "(i + length es - s) mod length es < Suc k"
          unfolding k by (rule mod_less_divisor) (use s in linarith)
        ultimately show ?thesis using inv i by (metis overrun_inv_def)
      qed
      moreover have "s = (s + Suc k) mod length es" using k s by simp
      ultimately show ?thesis by (simp add: step)
    qed
  qed
qed

lemma overrun_reset_eq:
  assumes "n = length es" "s < n" "d < n" "e = (s + Suc d) mod n" "0 < d \<longrightarrow> Suc d < n"
  shows "overrun_reset n e s es = Some (freed (span n s d) es)"
  using assms
proof (induction d arbitrary: s es)
  case 0
  then show ?case
    using freed_update [of s es "{}"]
    by (subst overrun_reset.simps)
       (simp add: ring_next_mod, simp add: freed_def enumerate_eq_zip map_snd_zip_take comp_def case_prod_unfold)
next
  case (Suc d)
  have "(ring_next n s + Suc d) mod n = (Suc s + Suc d) mod n"
    using Suc.prems(2) by (simp only: ring_next_mod mod_add_left_eq)
  then have e: "e = (ring_next n s + Suc d) mod n" using Suc.prems by simp
  have ne: "ring_next n s \<noteq> e"
  proof
    assume "ring_next n s = e"
    then have "Suc d = 0" using e Suc.prems by (intro add_mod_eq_self [of "ring_next n s" n]) simp_all
    then show False by simp
  qed
  have "overrun_reset n e s es = overrun_reset n e (ring_next n s) (es[s := free_entry (es ! s)])"
    using Suc.prems ne by (subst overrun_reset.simps) simp
  also have "\<dots> = Some (freed (span n (ring_next n s) d) (es[s := free_entry (es ! s)]))"
    using Suc.prems e by (intro Suc.IH) simp_all
  finally show ?case
    using Suc.prems by (simp add: freed_update span_Suc)
qed


lemma reprogram_rx_dma_total:
  assumes "f < length (rx_buffer_list (info w))"
  shows "\<exists>w'. reprogram_rx_dma f w = Some w' \<and> info w' = info w \<and> env w' = env w \<and> mem w' = mem w"
  using assms by (simp add: reprogram_rx_dma_def Let_def)

lemma process_rxoverrun_cases:
  assumes ring: "rx_ring (info w)"
  shows "\<exists>w'. usc_process_rxoverrun_sync w = Some w' \<and> env w' = env w \<and> mem w' = mem w \<and>
    ((\<forall>e\<in>set (rx_buffer_list (info w)). count e = 0) \<and>
       info w' = (info w)\<lparr> rx_buffer_list := map free_entry (rx_buffer_list (info w)),
                           current_rx_buffer := 0 \<rparr> \<or>
     (\<exists>A. info w' = (info w)\<lparr> rx_buffer_list := freed A (rx_buffer_list (info w)) \<rparr> \<and>
          (\<forall>k\<in>A. in_use (rx_buffer_list (info w) ! k))))"
proof -
  let ?es = "rx_buffer_list (info w)"
  define s where "s = unat (current_rx_buffer (info w))"
  have n: "unat (rx_buffer_count (info w)) = length ?es" and s: "s < length ?es"
    using ring by (simp_all add: rx_ring_def s_def)
  define w0 where "w0 = usc_RTCmd (usc_RCmd (usc_DmaCmd w DmaCmd_PauseRxChannel) RCmd_EnterHuntmode) RTCmd_PurgeRxFifo"
  have w0: "info w0 = info w" "env w0 = env w" "mem w0 = mem w" by (simp_all add: w0_def)
  have "overrun_inv ?es s 0 s False False" by (simp add: overrun_inv_def)
  then obtain r where r: "overrun_scan (length ?es) ?es s s False False s = Some r"
    and rc: "case r of Overrun_all \<Rightarrow> \<forall>e\<in>set ?es. count e = 0
       | Overrun_stop f' sof' eof' j \<Rightarrow>
           \<exists>b<length ?es. j = (s + b) mod length ?es \<and> overrun_inv ?es s b f' sof' eof'"
    using overrun_scan_total [OF s, of 0 s False False] s by (cases ?es) auto
  have d: "usc_process_rxoverrun_sync w =
     (case r of
        Overrun_all \<Rightarrow> do { w \<leftarrow> r56_reset_rx_dma_buffers w0; reprogram_rx_dma 0 w }
      | Overrun_stop frame_start sof eof end_index \<Rightarrow>
          if sof \<and> \<not> eof
          then do { es \<leftarrow> overrun_reset (length ?es) end_index frame_start ?es;
                    reprogram_rx_dma frame_start (set_info (rx_buffer_list_update (\<lambda>_. es)) w0) }
          else Some (usc_RTCmd (usc_rmw w0 CCSR (\<lambda>v. v OR BIT13)) RTCmd_PurgeRxFifo))"
    using r n by (cases r) (simp_all add: usc_process_rxoverrun_sync_def Let_def w0_def s_def)
  show ?thesis
  proof (cases r)
    case Overrun_all
    have "r56_reset_rx_dma_buffers w0 =
       Some (set_info (\<lambda>i. i\<lparr> rx_buffer_list := map free_entry (rx_buffer_list i),
                            current_rx_buffer := 0 \<rparr>) w0)"
      by (rule reset_rx_dma_buffers_eq) (simp add: w0 n)
    moreover have "0 < length ?es" using s by linarith
    ultimately show ?thesis
      using Overrun_all rc reprogram_rx_dma_total [of 0 "set_info (\<lambda>i. i\<lparr> rx_buffer_list := map free_entry (rx_buffer_list i),
                            current_rx_buffer := 0 \<rparr>) w0"]
      by (auto simp: d w0)
  next
    case (Overrun_stop f sof eof j)
    then obtain b where b: "b < length ?es" "j = (s + b) mod length ?es" "overrun_inv ?es s b f sof eof"
      using rc by auto
    show ?thesis
    proof (cases sof)
      case True
      then obtain a where a: "a < b" "f = (s + a) mod length ?es"
          "\<And>i. a \<le> i \<Longrightarrow> i < b \<Longrightarrow> in_use (?es ! ((s + i) mod length ?es))" and eof: "\<not> eof"
        using b(3) by (auto simp: overrun_inv_def in_use_def)
      define c where "c = b - Suc a"
      have f: "f < length ?es" using a(2) s by simp
      have "(f + Suc c) mod length ?es = (s + a + Suc c) mod length ?es"
        by (simp only: a(2) mod_add_left_eq)
      also have "s + a + Suc c = s + b" using a(1) by (simp add: c_def)
      finally have j: "j = (f + Suc c) mod length ?es" using b(2) by simp
      have "overrun_reset (length ?es) j f ?es = Some (freed (span (length ?es) f c) ?es)"
        using b(1) a(1) f j by (intro overrun_reset_eq) (auto simp: c_def)
      moreover have "in_use (?es ! k)" if mem: "k \<in> span (length ?es) f c" for k
      proof -
        obtain i where i: "i \<le> c" "k = (f + i) mod length ?es" using mem by (auto simp: span_def)
        then have "k = (s + (a + i)) mod length ?es" by (simp add: a(2) mod_add_left_eq add.assoc)
        then show ?thesis using a(3) [of "a + i"] i a(1) by (simp add: c_def)
      qed
      ultimately show ?thesis
        using True eof Overrun_stop f
          reprogram_rx_dma_total [of f "set_info (rx_buffer_list_update (\<lambda>_. freed (span (length ?es) f c) ?es)) w0"]
        by (auto simp: d w0)
    next
      case False
      have "freed {} ?es = ?es" by (rule nth_equalityI) simp_all
      then show ?thesis
        using False Overrun_stop by (auto simp: d w0 intro!: exI [of _ "{}"])
    qed
  qed
qed


subsection \<open>Properties\<close>

text \<open>the search loop of \<open>r56_get_rx_frame\<close> always returns, and its answer is the one
  of the reference: look at the entries from the current one on, in ring order, skip those in
  use, and tell whether the first other entry ends a frame, is unused, or does not exist.\<close>

theorem rx_find_end_finds_first_frame:
  assumes "s < length es"
  shows "rx_find_end (length es) es s s = Some (rx_next_frame es s)"
  using assms by (rule rx_find_end_eq)

theorem rx_find_end_finds_first_frame_witness:
  "rx_find_end (length [zero_entry, zero_entry\<lparr>status := 0x10\<rparr>]) [zero_entry, zero_entry\<lparr>status := 0x10\<rparr>] 0 0 =
     Some (Rx_frame 1)"
  using rx_find_end_finds_first_frame [of 0 "[zero_entry, zero_entry\<lparr>status := 0x10\<rparr>]"]
  by (simp add: rx_next_frame_def zero_entry_def in_use_def)

text \<open>The call on every ring: found or not, with or without a restart of the receiver.\<close>

lemma get_rx_frame_total:
  assumes ready: "rx_ready (info w)"
  shows "\<exists>r w'. r56_get_rx_frame w = Some (r, w') \<and> rx_ready (info w') \<and> mem w' = mem w \<and>
    env w' = env w \<and> (r \<longrightarrow> busy (info w') < busy (info w))"
proof -
  let ?es = "rx_buffer_list (info w)"
  define s where "s = unat (current_rx_buffer (info w))"
  from ready have ring: "rx_ring (info w)" by (rule rx_readyE)
  then have sl: "s < length ?es" by (simp add: rx_ring_def s_def)
  show ?thesis
  proof (cases "\<exists>j. rx_next_frame ?es s = Rx_frame j")
    case True
    then obtain j where "rx_next_frame ?es s = Rx_frame j" by blast
    from get_rx_frame_found [OF ready s_def this] obtain d b w1 w' where
      j: "j = (s + d) mod length ?es" "status (?es ! j) \<noteq> 0" and b: "length b = unat (max_frame_size (info w))"
      and r: "r56_get_rx_frame w = Some (True, w')"
      and i1: "info w1 = consumed s d b (frame_counters (info w) (?es ! j)) (info w)"
      and m1: "mem w1 = mem w" "env w1 = env w"
      and w': "if rx_enabled (info w) \<and> rx_overflow (info w) then usc_start_receiver w1 = Some w' else w' = w1"
      by blast
    have jl: "j < length ?es" using j(1) sl by simp
    have r1: "rx_ready (info w1)" using ready sl b by (simp add: i1 rx_ready_consumed)
    have "rx_ring (info w1)" using r1 by (rule rx_readyE)
    then have st: "usc_start_receiver w1 = Some w' \<Longrightarrow> info w' = started_info (info w1) \<and> mem w' = mem w1 \<and> env w' = env w1"
      using usc_start_receiver_total [of w1] by auto
    have "j \<in> span (length ?es) s d" using j(1) by (auto simp: span_def)
    moreover have "\<not> is_free (?es ! j)" using j(2) by (simp add: is_free_def)
    ultimately have "busy (info w1) < busy (info w)"
      using busy_freed [of j _ ?es] jl by (simp add: busy_def i1 consumed_def)
    moreover from this have "0 < busy (info w)" by simp
    ultimately show ?thesis
      using w' st r r1 m1 by (auto split: if_splits)
  next
    case False
    then obtain w' where r: "r56_get_rx_frame w = Some (False, w')" "mem w' = mem w" "env w' = env w"
        and c: "w' = w \<or> usc_start_receiver w = Some w'"
      using get_rx_frame_not_found [OF ready s_def] by blast
    obtain w2 where "usc_start_receiver w = Some w2" "info w2 = started_info (info w)"
      using usc_start_receiver_total [OF ring] by blast
    then have "rx_ready (info w')" using c ready by auto
    then show ?thesis using r by blast
  qed
qed

text \<open>C11: for every content of the receive ring, \<open>r56_get_rx_frame\<close> returns (its loops
  end) without an access outside the ring or the intermediate buffer, keeps the receive state well
  formed and all data pages unchanged, and when it reports a frame the number of buffers that are
  not free has become smaller.\<close>

theorem get_rx_frame_safe:
  assumes "rx_ready (info w)"
  shows "\<exists>r w'. r56_get_rx_frame w = Some (r, w') \<and> rx_ready (info w') \<and> mem w' = mem w \<and>
    (r \<longrightarrow> busy (info w') < busy (info w))"
  using get_rx_frame_total [OF assms] by blast

text \<open>A concrete ready state: one receive buffer that holds a frame of five bytes and a CRC.\<close>

definition rx_example :: world where
  "rx_example = world0\<lparr> info := zero_info\<lparr>
     rx_buffer_count := 1, rx_buffer_list := [zero_entry\<lparr> status := 0x10, rcc := 0xfff8, virt_addr := 64 \<rparr>],
     params := default_params, max_frame_size := 4096,
     intermediate_rxbuffer := Some (replicate 4096 0),
     port_tty := Some \<lparr> stopped = False, hw_stopped = False, tty_flags = 0, c_cflag = 0, c_iflag = 0,
                        stop_char = 0, start_char = 0, baud_rate = 0 \<rparr> \<rparr> \<rparr>"

lemma rx_example_ready: "rx_ready (info rx_example)"
  by (simp add: rx_example_def rx_ready_def rx_ring_def zero_info_def)

theorem get_rx_frame_safe_witness:
  "\<exists>r w'. r56_get_rx_frame rx_example = Some (r, w') \<and> rx_ready (info w') \<and> mem w' = mem rx_example \<and>
     (r \<longrightarrow> busy (info w') < busy (info rx_example))"
  by (rule get_rx_frame_safe [OF rx_example_ready])

text \<open>C5: a frame whose last buffer carries no error bit, of a size between one byte and the
  maximal frame size, is handed to the line discipline as exactly the bytes the adapter stored in
  the ring, without the CRC, is counted once in \<open>rxok\<close>, and its buffers (and no others)
  become free.\<close>

theorem get_rx_frame_delivers:
  assumes ready: "rx_ready (info w)" and tty: "port_tty (info w) \<noteq> None"
    and s: "s = unat (current_rx_buffer (info w))"
    and frame: "rx_next_frame (rx_buffer_list (info w)) s = Rx_frame j"
    and ok: "\<not> tst (status (rx_buffer_list (info w) ! j)) RXSTATUS_ERRORS"
    and ex: "\<not> tst (crc_type (params (info w))) HDLC_CRC_RETURN_EX"
    and fs: "fs = 0xffff - ucast (rcc (rx_buffer_list (info w) ! j)) -
      (if crc_type (params (info w)) = HDLC_CRC_16_CCITT then 2
       else if crc_type (params (info w)) = HDLC_CRC_32_CCITT then 4 else 0)"
    and limit: "fs \<noteq> 0" "fs \<le> max_frame_size (info w)"
    and no_overflow: "\<not> rx_overflow (info w)"
  shows "\<exists>w' d. r56_get_rx_frame w = Some (True, w') \<and>
    j = (s + d) mod length (rx_buffer_list (info w)) \<and>
    trace w' = trace w @ [Call (Ldisc_receive_buf
                 (frame_bytes (mem w) (rx_buffer_list (info w)) s (unat fs)))] \<and>
    icount (info w') = (icount (info w))\<lparr> ic_rxok := ic_rxok (icount (info w)) + 1 \<rparr> \<and>
    rx_buffer_list (info w') =
      freed (span (length (rx_buffer_list (info w))) s d) (rx_buffer_list (info w)) \<and>
    current_rx_buffer (info w') = of_nat (ring_next (length (rx_buffer_list (info w))) j)"
proof -
  let ?e = "rx_buffer_list (info w) ! j"
  from ready have "rx_ring (info w)" by (rule rx_readyE)
  then have sl: "s < length (rx_buffer_list (info w))" by (simp add: rx_ring_def s)
  have crc: "\<not> tst (status ?e) RXSTATUS_CRC_ERROR"
    using ok tst_mono [of "status ?e" RXSTATUS_CRC_ERROR RXSTATUS_ERRORS] by auto
  have size: "fs = rx_framesize (params (info w)) ?e" "fs \<noteq> 0" "fs \<le> max_frame_size (info w)"
    using fs ok limit by (simp_all add: rx_framesize_def Let_def)
  have c: "frame_counters (info w) ?e = (icount (info w))\<lparr> ic_rxok := ic_rxok (icount (info w)) + 1 \<rparr>"
    using ok ex size crc
    by (simp add: frame_counters_def rx_counters_def Let_def not_less [symmetric])
  have p: "rx_payload w s ?e = Some (frame_bytes (mem w) (rx_buffer_list (info w)) s (unat fs))"
    using ex size by (simp add: rx_payload_def Let_def not_less [symmetric])
  from get_rx_frame_found [OF ready s frame] obtain d b w' where
    "j = (s + d) mod length (rx_buffer_list (info w))" "r56_get_rx_frame w = Some (True, w')"
    "info w' = consumed s d b (frame_counters (info w) ?e) (info w)"
    "trace w' = trace w @ deliver_trace (info w) (rx_payload w s ?e)"
    using no_overflow by auto
  then show ?thesis
    using tty sl unfolding c p
    by (intro exI [of _ w'] exI [of _ d]) (auto simp: deliver_trace_def consumed_def ring_next_add)
qed


theorem get_rx_frame_delivers_witness:
  "\<exists>w' d. r56_get_rx_frame rx_example = Some (True, w') \<and>
    0 = (0 + d) mod length (rx_buffer_list (info rx_example)) \<and>
    trace w' = trace rx_example @ [Call (Ldisc_receive_buf
                 (frame_bytes (mem rx_example) (rx_buffer_list (info rx_example)) 0 (unat (5 :: u32))))] \<and>
    icount (info w') = (icount (info rx_example))\<lparr> ic_rxok := ic_rxok (icount (info rx_example)) + 1 \<rparr> \<and>
    rx_buffer_list (info w') =
      freed (span (length (rx_buffer_list (info rx_example))) 0 d) (rx_buffer_list (info rx_example)) \<and>
    current_rx_buffer (info w') = of_nat (ring_next (length (rx_buffer_list (info rx_example))) 0)"
proof (rule get_rx_frame_delivers [OF rx_example_ready])
  show "5 = 0xffff - ucast (rcc (rx_buffer_list (info rx_example) ! 0)) -
      (if crc_type (params (info rx_example)) = HDLC_CRC_16_CCITT then 2
       else if crc_type (params (info rx_example)) = HDLC_CRC_32_CCITT then 4 else 0)"
    by (simp add: rx_example_def default_params_def zero_entry_def)
qed (simp_all add: rx_example_def zero_info_def default_params_def tst_def rx_next_frame_def
      in_use_def zero_entry_def)


definition rx_error_example :: world where
  "rx_error_example =
     set_info (rx_buffer_list_update (\<lambda>_. [zero_entry\<lparr> status := RXSTATUS_ABORT \<rparr>])) rx_example"


text \<open>when a frame is returned while an overflow is pending, the test at the label
  \<open>Cleanup\<close> reads the entry that was freed a moment before, so the receiver is always
  restarted and every other frame still in the ring is discarded.\<close>

theorem get_rx_frame_overflow_discards_all:
  assumes ready: "rx_ready (info w)" and s: "s = unat (current_rx_buffer (info w))"
    and frame: "rx_next_frame (rx_buffer_list (info w)) s = Rx_frame j"
    and overflow: "rx_enabled (info w)" "rx_overflow (info w)"
  shows "\<exists>w'. r56_get_rx_frame w = Some (True, w') \<and>
    (\<forall>e\<in>set (rx_buffer_list (info w')). is_free e) \<and> current_rx_buffer (info w') = 0"
proof -
  from get_rx_frame_found [OF ready s frame] obtain d b w1 w' where
    b: "length b = unat (max_frame_size (info w))" and r: "r56_get_rx_frame w = Some (True, w')"
    and i1: "info w1 = consumed s d b (frame_counters (info w) (rx_buffer_list (info w) ! j)) (info w)"
    and w': "usc_start_receiver w1 = Some w'"
    using overflow by auto
  from ready have "rx_ring (info w)" by (rule rx_readyE)
  moreover from this have "s < length (rx_buffer_list (info w))" by (simp add: rx_ring_def s)
  ultimately have "rx_ring (info w1)" unfolding i1 by (rule rx_ring_consumed)
  then have "info w' = started_info (info w1)" using usc_start_receiver_total w' by fastforce
  then show ?thesis using r by (auto simp: started_info_def)
qed

definition rx_overflow_example :: world where
  "rx_overflow_example =
     set_info (\<lambda>i. i\<lparr> rx_enabled := True, rx_overflow := True, rx_buffer_count := 2,
       rx_buffer_list := rx_buffer_list i @ rx_buffer_list i \<rparr>) rx_example"

theorem get_rx_frame_overflow_discards_all_witness:
  "\<exists>w'. r56_get_rx_frame rx_overflow_example = Some (True, w') \<and>
    (\<forall>e\<in>set (rx_buffer_list (info w')). is_free e) \<and> current_rx_buffer (info w') = 0"
  by (rule get_rx_frame_overflow_discards_all [where s = 0 and j = 0])
    (simp_all add: rx_overflow_example_def rx_example_def rx_ready_def rx_ring_def zero_info_def
      rx_next_frame_def in_use_def zero_entry_def)

text \<open>in raw mode, for every content of the receive ring, \<open>r56_get_raw_rx_frame\<close>
  returns without an access outside the ring or the intermediate buffer, keeps the receive state
  well formed, and each buffer it reports reduces the number of buffers that are not free.\<close>

theorem get_raw_rx_frame_safe:
  assumes "rx_ready (info w)"
  shows "\<exists>r w'. r56_get_raw_rx_frame w = Some (r, w') \<and> rx_ready (info w') \<and> mem w' = mem w \<and>
    (r \<longrightarrow> busy (info w') < busy (info w))"
  using get_raw_rx_frame_total [OF assms] by blast

theorem get_raw_rx_frame_safe_witness:
  "\<exists>r w'. r56_get_raw_rx_frame rx_example = Some (r, w') \<and> rx_ready (info w') \<and> mem w' = mem rx_example \<and>
    (r \<longrightarrow> busy (info w') < busy (info rx_example))"
  by (rule get_raw_rx_frame_safe [OF rx_example_ready])

text \<open>the last buffer of an error-free raw frame whose length is a multiple of the buffer
  size and more than one buffer is full, but its computed size is zero: its 4096 bytes are never
  delivered.\<close>

theorem raw_frame_full_last_buffer_lost:
  assumes "\<not> tst (status e) RXSTATUS_ERRORS" "status e \<noteq> 0" "rcc e \<noteq> 0"
    and "0xffff - unat (rcc e) = 4096 * k" "1 < k"
  shows "raw_deliver e w = Some w"
proof -
  have "unat (rcc e) < 65536" using unsigned_less [of "rcc e", where ?'a = nat] by simp
  moreover from this have c: "unat (ucast (rcc e) :: u32) = unat (rcc e)"
    by (simp add: unsigned_ucast_eq take_bit_nat_eq_self)
  ultimately have "unat (0xffff - ucast (rcc e) :: u32) = 0xffff - unat (rcc e)"
    by (simp add: unat_sub word_le_nat_alt)
  then have u: "unat (0xffff - ucast (rcc e) :: u32) = 4096 * k" using assms(4) by simp
  then have "(0xffff - ucast (rcc e) :: u32) mod 4096 = 0"
    by (simp add: unat_mod unat_eq_0 [symmetric])
  moreover have "(4096 :: u32) < 0xffff - ucast (rcc e)" using u assms(5) by (simp add: word_less_nat_alt)
  ultimately show ?thesis using assms(1-3) by (simp add: raw_deliver_def raw_framesize_def Let_def)
qed

theorem raw_frame_full_last_buffer_lost_witness:
  "raw_deliver (zero_entry\<lparr> status := 0x10, rcc := 0xdfff \<rparr>) rx_example = Some rx_example"
  by (rule raw_frame_full_last_buffer_lost [where k = 2]) (simp_all add: tst_def zero_entry_def)



end
