(* ===== verification/R56_Tx.thy ===== *)
theory R56_Tx
  imports R56_Rx
begin

text \<open>
  The transmit path of \<open>driver/route56.c\<close>: copying a frame into the ring of transmit DMA
  buffers, the queue of holding buffers in front of it, the circular character buffer of
  asynchronous mode and the loading of the transmit FIFO from it, starting the transmitter, and the
  tty operations that write data.

  The two queues share one interface, the locale \<open>bounded_queue\<close>: adding an item appends
  it, removing one takes the oldest. It is interpreted on the character buffer and on the holding
  buffers.
\<close>

subsection \<open>Loading the transmit DMA buffers\<close>

text \<open>The loop of \<open>r56_load_pci_memory\<close>: copies of 64 bytes with a read in between.\<close>

fun pci_intervals :: "nat \<Rightarrow> nat \<Rightarrow> u8 list \<Rightarrow> memory \<Rightarrow> nat \<times> u8 list \<times> memory" where
  "pci_intervals 0 target src m = (target, src, m)"
| "pci_intervals (Suc k) target src m =
     pci_intervals k (target + 64) (drop 64 src) (mem_write target (take 64 src) m)"

definition r56_load_pci_memory :: "nat \<Rightarrow> u8 list \<Rightarrow> nat \<Rightarrow> memory \<Rightarrow> memory" where
  "r56_load_pci_memory TargetPtr SourcePtr cnt m =
    (let (t, s, m) = pci_intervals (cnt div 64) TargetPtr SourcePtr m
     in mem_write t (take (cnt mod 64) s) m)"

text \<open>
  The copy loop of \<open>r56_load_tx_dma_buffer\<close>: next index, entries, memory and number of
  buffers used.
\<close>

function load_tx_loop ::
  "bool \<Rightarrow> nat \<Rightarrow> u8 list \<Rightarrow> nat \<Rightarrow> DMABUFFERENTRY list \<Rightarrow> memory \<Rightarrow> int
     \<Rightarrow> (nat \<times> DMABUFFERENTRY list \<times> memory \<times> int) option" where
  "load_tx_loop pci n buf i es m used =
    (if buf = [] then Some (i, es, m, used)
     else let Copycount = (if length buf > DMABUFFERSIZE then DMABUFFERSIZE else length buf)
          in do { e \<leftarrow> aget es i;
                  es \<leftarrow> aset es i (e\<lparr> count := of_nat Copycount \<rparr>);
                  load_tx_loop pci n (drop Copycount buf) (ring_next n i) es
                    (if pci then r56_load_pci_memory (virt_addr e) buf Copycount m
                     else mem_write (virt_addr e) (take Copycount buf) m)
                    (used + 1) })"
  by pat_completeness auto
termination load_tx_loop
  by (relation "measure (\<lambda>(pci, n, buf, i, es, m, used). length buf)") auto

declare load_tx_loop.simps [simp del]

definition r56_load_tx_dma_buffer :: "u8 list \<Rightarrow> u32 \<Rightarrow> world \<Rightarrow> world option" where
  "r56_load_tx_dma_buffer Buffer BufferSize w =
    (let w = (if tst (flags (params (info w))) HDLC_FLAG_HDLC_LOOPMODE
              then set_info (cmr_value_update (\<lambda>v. v OR BIT13)) w else w);
         i = nat (current_tx_buffer (info w));
         w = set_info (\<lambda>j. j\<lparr> start_tx_dma_buffer := int i \<rparr>) w
     in if unat BufferSize \<le> length Buffer
        then do {
          e \<leftarrow> aget (tx_buffer_list (info w)) i;
          es \<leftarrow> aset (tx_buffer_list (info w)) i
                 (e\<lparr> status := cmr_value (info w) AND 0xf000, rcc := ucast BufferSize,
                     count := ucast BufferSize \<rparr>);
          (i, es, m, used) \<leftarrow>
             load_tx_loop (bus_type (info w) = R56_BUS_TYPE_PCI) (unat (tx_buffer_count (info w)))
               (take (unat BufferSize) Buffer) i es (mem w) (tx_dma_buffers_used (info w));
          Some (set_info (\<lambda>j. j\<lparr> tx_buffer_list := es, tx_dma_buffers_used := used,
                                 current_tx_buffer := int i \<rparr>) (w\<lparr> mem := m \<rparr>)) }
        else None)"

subsection \<open>Holding buffers\<close>

text \<open>\<open>if (++index >= num) index = 0;\<close>\<close>

definition hold_next :: "int \<Rightarrow> int \<Rightarrow> int" where
  "hold_next num index = (if index + 1 \<ge> num then 0 else index + 1)"

text \<open>
  The queue step of \<open>save_tx_buffer_request\<close>, and the one of
  \<open>load_next_tx_holding_buffer\<close> that takes the oldest request.
\<close>

definition hold_put :: "u8 list \<Rightarrow> r56_struct \<Rightarrow> r56_struct option" where
  "hold_put Buffer i =
    do { h \<leftarrow> aget (tx_holding_buffers i) (nat (put_tx_holding_index i));
         b \<leftarrow> buffer h;
         b \<leftarrow> blit b 0 Buffer;
         hs \<leftarrow> aset (tx_holding_buffers i) (nat (put_tx_holding_index i))
                 (h\<lparr> buffer_size := int (length Buffer), buffer := Some b \<rparr>);
         Some (i\<lparr> tx_holding_buffers := hs, tx_holding_count := tx_holding_count i + 1,
                  put_tx_holding_index := hold_next (num_tx_holding_buffers i) (put_tx_holding_index i) \<rparr>) }"

definition hold_drop :: "r56_struct \<Rightarrow> r56_struct" where
  "hold_drop i =
     i\<lparr> tx_holding_count := tx_holding_count i - 1,
        get_tx_holding_index := hold_next (num_tx_holding_buffers i) (get_tx_holding_index i) \<rparr>"

definition load_next_tx_holding_buffer :: "world \<Rightarrow> (bool \<times> world) option" where
  "load_next_tx_holding_buffer w =
    (if tx_holding_count (info w) \<noteq> 0
     then do {
       ptx \<leftarrow> aget (tx_holding_buffers (info w)) (nat (get_tx_holding_index (info w)));
       let num_free = num_free_tx_dma_buffers (info w);
           num_needed = buffer_size ptx div int DMABUFFERSIZE;
           num_needed = (if buffer_size ptx mod int DMABUFFERSIZE \<noteq> 0 then num_needed + 1 else num_needed)
       in if num_needed \<le> num_free
          then do { b \<leftarrow> buffer ptx;
                    w \<leftarrow> r56_load_tx_dma_buffer b (of_int (buffer_size ptx))
                           (set_info (xmit_cnt_update (\<lambda>_. buffer_size ptx)) w);
                    Some (True, mod_timer (set_info hold_drop w)) }
          else Some (False, w) }
     else Some (False, w))"

definition save_tx_buffer_request :: "u8 list \<Rightarrow> world \<Rightarrow> (int \<times> world) option" where
  "save_tx_buffer_request Buffer w =
    (if tx_holding_count (info w) \<ge> num_tx_holding_buffers (info w) then Some (0, w)
     else do { i \<leftarrow> hold_put Buffer (info w); Some (1, set_info (\<lambda>_. i) w) })"

subsection \<open>The circular character buffer\<close>

definition xmit_put :: "u8 \<Rightarrow> r56_struct \<Rightarrow> r56_struct option" where
  "xmit_put ch i =
    do { b \<leftarrow> xmit_buf i;
         b \<leftarrow> aset b (nat (xmit_head i)) ch;
         Some (i\<lparr> xmit_buf := Some b, xmit_head := (xmit_head i + 1) AND (SERIAL_XMIT_SIZE - 1),
                  xmit_cnt := xmit_cnt i + 1 \<rparr>) }"

definition xmit_get :: "r56_struct \<Rightarrow> (u8 \<times> r56_struct) option" where
  "xmit_get i =
    do { b \<leftarrow> xmit_buf i;
         c \<leftarrow> aget b (nat (xmit_tail i));
         Some (c, i\<lparr> xmit_tail := (xmit_tail i + 1) AND (SERIAL_XMIT_SIZE - 1),
                     xmit_cnt := xmit_cnt i - 1 \<rparr>) }"

text \<open>
  The loop of \<open>usc_load_txfifo\<close>. The number of free FIFO slots is read from the adapter
  in each round; the two source bytes go to the FIFO as one little-endian word.
\<close>

partial_function (option) load_txfifo_loop :: "world \<Rightarrow> world option" where
  [code]: "load_txfifo_loop w =
    (let (v, w) = usc_InReg w TICR;
         Fifocount = drop_bit 8 v
     in if Fifocount \<noteq> 0 \<and> xmit_cnt (info w) \<noteq> 0
        then if xmit_cnt (info w) > 1 \<and> Fifocount > 1 \<and> x_char (info w) = 0
             then do { (b0, i) \<leftarrow> xmit_get (info w);
                       (b1, i) \<leftarrow> xmit_get i;
                       let (v, w) = usc_InReg w CCAR;
                           w = usc_OutReg w CCAR ((v AND 0x0780) OR TDR);
                           w = usc_OutReg w CCAR (ucast b0 OR push_bit 8 (ucast b1));
                           w = set_info (\<lambda>_. i) w
                       in load_txfifo_loop (set_icount (ic_tx_update (\<lambda>n. n + 2)) w) }
             else let (v, w) = usc_InReg w CCAR;
                      w = usc_OutReg w CCAR ((v AND 0x0780) OR (TDR + LSBONLY))
                  in if x_char (info w) \<noteq> 0
                     then let w = usc_OutReg w CCAR (of_int (x_char (info w)));
                              w = set_info (x_char_update (\<lambda>_. 0)) w
                          in load_txfifo_loop (set_icount (ic_tx_update (\<lambda>n. n + 1)) w)
                     else do { (b0, i) \<leftarrow> xmit_get (info w);
                               let w = usc_OutReg w CCAR (ucast b0);
                                   w = set_info (\<lambda>_. i) w
                               in load_txfifo_loop (set_icount (ic_tx_update (\<lambda>n. n + 1)) w) }
        else Some w)"

definition usc_load_txfifo :: "world \<Rightarrow> world option" where
  "usc_load_txfifo w =
    (if xmit_cnt (info w) = 0 \<and> x_char (info w) = 0 then Some w
     else load_txfifo_loop (usc_TCmd w TCmd_SelectTicrTxFifostatus))"

subsection \<open>Starting the transmitter\<close>

text \<open>Assert RTS for the time of the transmission when automatic RTS is selected.\<close>

definition tx_auto_rts :: "world \<Rightarrow> world" where
  "tx_auto_rts w =
    (let w = set_info (drop_rts_on_tx_done_update (\<lambda>_. False)) w
     in if tst (flags (params (info w))) HDLC_FLAG_AUTO_RTS
        then let w = usc_get_serial_signals w
             in if \<not> tst (serial_signals (info w)) SerialSignal_RTS
                then let w = set_info (serial_signals_update (\<lambda>s. s OR SerialSignal_RTS)) w;
                         w = usc_set_serial_signals w
                     in set_info (drop_rts_on_tx_done_update (\<lambda>_. True)) w
                else w
        else w)"

definition tx_stop_echo :: "world \<Rightarrow> world" where
  "tx_stop_echo w =
    (let w = set_info (enable_rx_on_tx_done_update (\<lambda>_. False)) w
     in if tst (interface (params (info w))) R56_INTERFACE_NE \<and> rx_enabled (info w)
        then set_info (enable_rx_on_tx_done_update (\<lambda>_. True)) (usc_stop_receiver w)
        else w)"

text \<open>Program the adapter to send the frame that is loaded in the DMA buffers.\<close>

definition start_tx_dma :: "world \<Rightarrow> world option" where
  "start_tx_dma w =
    (let w = usc_DmaCmd w DmaCmd_ResetTxChannel;
         k = nat (start_tx_dma_buffer (info w))
     in do { e \<leftarrow> aget (tx_buffer_list (info w)) k;
             es \<leftarrow> aset (tx_buffer_list (info w)) k
                    (if mode (params (info w)) = R56_MODE_RAW then e\<lparr> rcc := 0 \<rparr> else e);
             let w = set_info (tx_buffer_list_update (\<lambda>_. es)) w;
                 w = usc_OutReg w TCLR (rcc e);
                 w = usc_RTCmd w RTCmd_PurgeTxFifo;
                 w = usc_OutDmaReg w NTARL (ucast (phys_entry e));
                 w = usc_OutDmaReg w NTARU (ucast (drop_bit 16 (phys_entry e)));
                 w = usc_UnlatchTxstatusBits w TXSTATUS_ALL;
                 w = usc_ClearIrqPendingBits w TRANSMIT_STATUS;
                 w = usc_EnableInterrupts w TRANSMIT_STATUS;
                 w = (if mode (params (info w)) = R56_MODE_RAW \<and> num_tx_dma_buffers (info w) > 1
                      then let w = usc_OutDmaReg w TDIAR (BIT2 OR BIT3)
                           in usc_rmw w DICR (\<lambda>v. v OR BIT0)
                      else w);
                 w = usc_DmaCmd w DmaCmd_InitTxChannel;
                 w = usc_TCmd w TCmd_SendFrame
             in Some (mod_timer w) })"

definition usc_start_transmitter :: "world \<Rightarrow> world option" where
  "usc_start_transmitter w =
    do { w \<leftarrow> (if xmit_cnt (info w) \<noteq> 0
              then do {
                let w = tx_stop_echo (tx_auto_rts w)
                in do {
                  w \<leftarrow> (if mode (params (info w)) = R56_MODE_ASYNC
                        then if \<not> tx_active (info w)
                             then let w = usc_UnlatchTxstatusBits w TXSTATUS_ALL;
                                      w = usc_ClearIrqPendingBits w (TRANSMIT_STATUS + TRANSMIT_DATA);
                                      w = usc_EnableInterrupts w TRANSMIT_DATA
                                  in usc_load_txfifo w
                             else Some w
                        else start_tx_dma w);
                  Some (set_info (tx_active_update (\<lambda>_. True)) w) } }
              else Some w);
         Some (if \<not> tx_enabled (info w)
               then let w = set_info (tx_enabled_update (\<lambda>_. True)) w
                    in if tst (flags (params (info w))) HDLC_FLAG_AUTO_CTS
                       then usc_EnableTransmitter w ENABLE_AUTO_CTS
                       else usc_EnableTransmitter w ENABLE_UNCONDITIONAL
               else w) }"

subsection \<open>TTY write operations\<close>

abbreviation sync_mode :: "r56_struct \<Rightarrow> bool" where
  "sync_mode i \<equiv> mode (params i) = R56_MODE_HDLC \<or> mode (params i) = R56_MODE_RAW"

definition tty_running :: "tty_struct \<Rightarrow> bool" where
  "tty_running tty \<longleftrightarrow> \<not> stopped tty \<and> \<not> hw_stopped tty"

definition r56_put_char :: "u8 \<Rightarrow> world \<Rightarrow> (int \<times> world) option" where
  "r56_put_char ch w =
    (if xmit_buf (info w) = None then Some (0, w)
     else if (mode (params (info w)) = R56_MODE_ASYNC \<or> \<not> tx_active (info w)) \<and>
             xmit_cnt (info w) < SERIAL_XMIT_SIZE - 1
     then do { i \<leftarrow> xmit_put ch (info w); Some (1, set_info (\<lambda>_. i) w) }
     else Some (0, w))"

definition r56_flush_chars :: "tty_struct \<Rightarrow> world \<Rightarrow> world option" where
  "r56_flush_chars tty w =
    (case xmit_buf (info w) of
       None \<Rightarrow> Some w
     | Some b \<Rightarrow>
         if xmit_cnt (info w) \<le> 0 \<or> \<not> tty_running tty then Some w
         else if \<not> tx_active (info w)
         then do { w \<leftarrow> (if sync_mode (info w) \<and> xmit_cnt (info w) \<noteq> 0
                         then r56_load_tx_dma_buffer b (of_int (xmit_cnt (info w))) w
                         else Some w);
                   usc_start_transmitter w }
         else Some w)"

text \<open>
  The loop of the asynchronous branch of \<open>r56_write\<close>: \<open>buf\<close> is what remains to be
  written; the result is the number of bytes accepted.
\<close>

function write_async :: "u8 list \<Rightarrow> int \<Rightarrow> world \<Rightarrow> (int \<times> world) option" where
  "write_async buf ret w =
    (let c = min (int (length buf)) (min (SERIAL_XMIT_SIZE - xmit_cnt (info w) - 1)
                                         (SERIAL_XMIT_SIZE - xmit_head (info w)))
     in if c \<le> 0 then Some (ret, w)
        else do { b \<leftarrow> xmit_buf (info w);
                  b \<leftarrow> blit b (nat (xmit_head (info w))) (take (nat c) buf);
                  write_async (drop (nat c) buf) (ret + c)
                    (set_info (\<lambda>i. i\<lparr> xmit_buf := Some b,
                                      xmit_head := (xmit_head i + c) AND (SERIAL_XMIT_SIZE - 1),
                                      xmit_cnt := xmit_cnt i + c \<rparr>) w) })"
  by pat_completeness auto
termination write_async
  by (relation "measure (\<lambda>(buf, ret, w). length buf)") auto

declare write_async.simps [simp del]

text \<open>The frame oriented branch of \<open>r56_write\<close>: whether control goes on to the start of
  the transmitter, the number of bytes accepted, and the state.\<close>

definition write_sync :: "u8 list \<Rightarrow> world \<Rightarrow> (bool \<times> int \<times> world) option" where
  "write_sync buf w =
    (if tx_active (info w)
     then if mode (params (info w)) = R56_MODE_HDLC then Some (False, 0, w)
          else if tx_holding_count (info w) \<ge> num_tx_holding_buffers (info w) then Some (False, 0, w)
          else do { (r, w) \<leftarrow> save_tx_buffer_request buf w;
                    (r, w) \<leftarrow> load_next_tx_holding_buffer w;
                    Some (False, int (length buf), w) }
     else let (active, w) = (if tst (flags (params (info w))) HDLC_FLAG_HDLC_LOOPMODE
                             then usc_loopmode_active w else (True, w))
          in if \<not> active then Some (False, 0, w)
             else if xmit_cnt (info w) \<noteq> 0
             then do { b \<leftarrow> xmit_buf (info w);
                       w \<leftarrow> r56_load_tx_dma_buffer b (of_int (xmit_cnt (info w))) w;
                       Some (True, 0, w) }
             else do { w \<leftarrow> r56_load_tx_dma_buffer buf (of_nat (length buf))
                             (set_info (xmit_cnt_update (\<lambda>_. int (length buf))) w);
                       Some (True, int (length buf), w) })"

definition r56_write :: "tty_struct \<Rightarrow> u8 list \<Rightarrow> world \<Rightarrow> (int \<times> world) option" where
  "r56_write tty buf w =
    (if xmit_buf (info w) = None then Some (0, w)
     else do { (go, ret, w) \<leftarrow>
                 (if sync_mode (info w) then write_sync buf w
                  else do { (ret, w) \<leftarrow> write_async buf 0 w; Some (True, ret, w) });
               if \<not> go then Some (ret, w)
               else if xmit_cnt (info w) \<noteq> 0 \<and> tty_running tty \<and> \<not> tx_active (info w)
               then do { w \<leftarrow> usc_start_transmitter w; Some (ret, w) }
               else Some (ret, w) })"

definition r56_write_room :: "r56_struct \<Rightarrow> int" where
  "r56_write_room i =
    (let ret = SERIAL_XMIT_SIZE - xmit_cnt i - 1;
         ret = (if ret < 0 then 0 else ret)
     in if sync_mode i then if tx_active i then 0 else HDLC_MAX_FRAME_SIZE
        else ret)"

definition r56_chars_in_buffer :: "r56_struct \<Rightarrow> int" where
  "r56_chars_in_buffer i =
    (if sync_mode i then if tx_active i then sint (max_frame_size i) else 0 else xmit_cnt i)"

definition r56_flush_buffer :: "world \<Rightarrow> world" where
  "r56_flush_buffer w =
    (let w = set_info (\<lambda>i. i\<lparr> xmit_cnt := 0, xmit_head := 0, xmit_tail := 0 \<rparr>) w;
         w = del_timer w
     in kcall Tty_wakeup w)"

definition r56_send_xchar :: "int \<Rightarrow> world \<Rightarrow> world option" where
  "r56_send_xchar ch w =
    (let w = set_info (x_char_update (\<lambda>_. ch)) w
     in if ch \<noteq> 0 \<and> \<not> tx_enabled (info w) then usc_start_transmitter w else Some w)"

subsection \<open>Frames in the transmit ring\<close>

text \<open>The copy into shared memory in steps of 64 bytes is the copy.\<close>

lemma pci_intervals_eq:
  "64 * k \<le> length src \<Longrightarrow>
   pci_intervals k t src m = (t + 64 * k, drop (64 * k) src, mem_write t (take (64 * k) src) m)"
proof (induction k arbitrary: t src m)
  case (Suc k)
  have "mem_write t (take (64 * Suc k) src) m =
      mem_write (t + 64) (take (64 * k) (drop 64 src)) (mem_write t (take 64 src) m)"
    using Suc.prems mem_write_append [of t "take 64 src" "take (64 * k) (drop 64 src)" m]
      take_add [of 64 "64 * k" src] by simp
  then show ?case using Suc by (simp add: add.commute)
qed simp

lemma load_pci_memory_eq:
  assumes "n \<le> length src"
  shows "r56_load_pci_memory t src n m = mem_write t (take n src) m"
proof -
  have k: "64 * (n div 64) \<le> n" by simp
  have "take n src = take (64 * (n div 64)) src @ take (n mod 64) (drop (64 * (n div 64)) src)"
    using take_add [of "64 * (n div 64)" "n mod 64" src] by simp
  moreover have "length (take (64 * (n div 64)) src) = 64 * (n div 64)" using assms k by simp
  ultimately show ?thesis
    using assms k by (simp add: r56_load_pci_memory_def pci_intervals_eq mem_write_append)
qed

text \<open>
  The number of buffers a frame needs, the entries after it is loaded from buffer \<open>i\<close> on,
  and the memory.
\<close>

definition pages :: "nat \<Rightarrow> nat" where
  "pages n = (n + 4095) div 4096"

lemma pages_step: "0 < n \<Longrightarrow> pages n = Suc (pages (n - min 4096 n))"
  by (cases "n \<le> 4096") (simp_all add: pages_def min_def le_div_geq)

lemma pages_0 [simp]: "pages 0 = 0"
  by (simp add: pages_def)

text \<open>
  The copy loop depends on the addresses of the data pages only, which it does not change:
  \<open>vs\<close> lists them. Pages of different entries do not overlap.
\<close>

definition disjoint_pages :: "nat list \<Rightarrow> bool" where
  "disjoint_pages vs \<longleftrightarrow>
     (\<forall>a<length vs. \<forall>b<length vs. a \<noteq> b \<longrightarrow> vs ! a + 4096 \<le> vs ! b \<or> vs ! b + 4096 \<le> vs ! a)"

definition in_page :: "nat \<Rightarrow> nat \<Rightarrow> bool" where
  "in_page v a \<longleftrightarrow> v \<le> a \<and> a < v + 4096"

definition frame_at :: "memory \<Rightarrow> nat list \<Rightarrow> nat \<Rightarrow> nat \<Rightarrow> u8 list" where
  "frame_at m vs s n = map (\<lambda>k. m (vs ! ((s + k div 4096) mod length vs) + k mod 4096)) [0..<n]"

lemma frame_bytes_at: "es \<noteq> [] \<Longrightarrow> frame_bytes m es s n = frame_at m (map virt_addr es) s n"
  by (simp add: frame_bytes_def frame_at_def)

lemma frame_at_step:
  assumes "s < length vs"
  shows "frame_at m vs s n =
    mem_read (vs ! s) (min 4096 n) m @ frame_at m vs (ring_next (length vs) s) (n - min 4096 n)"
proof -
  define es where "es = map (\<lambda>v. zero_entry\<lparr> virt_addr := v \<rparr>) vs"
  have es: "map virt_addr es = vs" "length es = length vs" "es \<noteq> []" "virt_addr (es ! s) = vs ! s"
    using assms by (auto simp: es_def comp_def)
  show ?thesis
    using frame_bytes_step [of s es m n] assms es(2,4) unfolding frame_bytes_at [OF es(3)] es(1) by simp
qed

text \<open>The pages that a frame of \<open>p\<close> pages from buffer \<open>i\<close> on does not touch.\<close>

definition outside :: "nat list \<Rightarrow> nat \<Rightarrow> nat \<Rightarrow> nat \<Rightarrow> bool" where
  "outside vs i p a \<longleftrightarrow> (\<forall>d<p. \<not> in_page (vs ! ((i + d) mod length vs)) a)"

lemma ring_shift: "i < n \<Longrightarrow> (ring_next n i + d) mod n = (i + Suc d) mod n"
  by (simp only: ring_next_mod mod_add_left_eq) simp

lemma outside_Suc:
  "i < length vs \<Longrightarrow>
   outside vs i (Suc p) a \<longleftrightarrow> \<not> in_page (vs ! i) a \<and> outside vs (ring_next (length vs) i) p a"
  by (auto simp: outside_def ring_shift less_Suc_eq_0_disj)

lemma outside_first_page:
  assumes "disjoint_pages vs" "i < length vs" "Suc p \<le> length vs" "in_page (vs ! i) a"
  shows "outside vs (ring_next (length vs) i) p a"
  unfolding outside_def
proof (intro allI impI)
  fix d assume d: "d < p"
  have "(i + Suc d) mod length vs \<noteq> i"
    using add_mod_eq_self [OF assms(2), of "Suc d"] d assms(3) by auto
  moreover have "(i + Suc d) mod length vs < length vs" using assms(2) by (rule ring_index_less)
  ultimately have "vs ! i + 4096 \<le> vs ! ((i + Suc d) mod length vs) \<or>
      vs ! ((i + Suc d) mod length vs) + 4096 \<le> vs ! i"
    using assms(1,2) by (metis disjoint_pages_def)
  then show "\<not> in_page (vs ! ((ring_next (length vs) i + d) mod length vs)) a"
    using assms(2,4) by (auto simp: ring_shift in_page_def)
qed

definition same_entry :: "DMABUFFERENTRY \<Rightarrow> DMABUFFERENTRY \<Rightarrow> bool" where
  "same_entry e f \<longleftrightarrow> f = e\<lparr> count := count f \<rparr>"

text \<open>What the loop leaves: counts of the pages used, the other entries unchanged, the bytes of
  the frame in ring order, and no other byte of memory changed.\<close>

definition loaded :: "nat list \<Rightarrow> nat \<Rightarrow> u8 list \<Rightarrow> DMABUFFERENTRY list \<Rightarrow> memory \<Rightarrow>
    DMABUFFERENTRY list \<Rightarrow> memory \<Rightarrow> bool" where
  "loaded vs i buf es m es' m' \<longleftrightarrow>
     list_all2 same_entry es es' \<and>
     (\<forall>k<length vs. (\<forall>d<pages (length buf). k \<noteq> (i + d) mod length vs) \<longrightarrow> es' ! k = es ! k) \<and>
     (\<forall>d<pages (length buf). count (es' ! ((i + d) mod length vs)) = of_nat (min 4096 (length buf - 4096 * d))) \<and>
     (\<forall>a. outside vs i (pages (length buf)) a \<longrightarrow> m' a = m a) \<and>
     frame_at m' vs i (length buf) = buf"

lemma same_entry_trans: "same_entry e f \<Longrightarrow> same_entry f g \<Longrightarrow> same_entry e g"
  by (auto simp: same_entry_def) (metis DMABUFFERENTRY.surjective DMABUFFERENTRY.update_convs(2))

lemma loaded_step:
  assumes i: "i < length vs" and len: "length es = length vs" and dis: "disjoint_pages vs"
    and buf: "buf \<noteq> []" and p: "pages (length buf) \<le> length vs"
    and c: "c = min 4096 (length buf)"
    and m1: "m1 = mem_write (vs ! i) (take c buf) m"
    and es1: "es1 = es[i := (es ! i)\<lparr> count := of_nat c \<rparr>]"
    and rest: "loaded vs (ring_next (length vs) i) (drop c buf) es1 m1 es' m'"
  shows "loaded vs i buf es m es' m'"
proof -
  let ?q = "pages (length (drop c buf))"
  have P: "pages (length buf) = Suc ?q" using pages_step [of "length buf"] buf by (simp add: c)
  have c4: "c \<le> 4096" "c \<le> length buf" "0 < c" using buf by (auto simp: c)
  have s1: "list_all2 same_entry es es1"
    using i len by (auto simp: es1 list_all2_conv_all_nth nth_list_update same_entry_def)
  have "same_entry (es ! k) (es' ! k)" if "k < length vs" for k
    using s1 rest that len same_entry_trans by (auto simp: loaded_def list_all2_conv_all_nth es1)
  then have 1: "list_all2 same_entry es es'"
    using rest len by (simp add: loaded_def list_all2_conv_all_nth es1)
  have not_i: "i \<noteq> (i + Suc d) mod length vs" if "d < ?q" for d
    using add_mod_eq_self [OF i, of "Suc d"] that p P by auto
  have 2: "es' ! k = es ! k" if k: "k < length vs" "\<forall>d<pages (length buf). k \<noteq> (i + d) mod length vs" for k
  proof -
    have "k \<noteq> i" using k(2) [rule_format, of 0] i P by simp
    moreover have "\<forall>d<?q. k \<noteq> (ring_next (length vs) i + d) mod length vs"
      using k(2) P i by (auto simp: ring_shift)
    ultimately show ?thesis using rest k(1) by (simp add: loaded_def es1)
  qed
  have ci: "es' ! i = es1 ! i"
    using rest i not_i by (auto simp: loaded_def ring_shift)
  have 3: "count (es' ! ((i + d) mod length vs)) = of_nat (min 4096 (length buf - 4096 * d))"
    if d: "d < pages (length buf)" for d
  proof (cases d)
    case 0
    then show ?thesis using ci i len by (simp add: es1 c)
  next
    case (Suc e)
    then have e: "e < ?q" using d P by simp
    have "count (es' ! ((i + Suc e) mod length vs)) = of_nat (min 4096 (length (drop c buf) - 4096 * e))"
      using rest e i by (simp add: loaded_def ring_shift)
    moreover have "length (drop c buf) - 4096 * e = length buf - 4096 * d"
    proof -
      have "c = 4096" using e c4 by (cases "length buf \<le> 4096") (auto simp: c)
      then show ?thesis using Suc by simp
    qed
    ultimately show ?thesis using Suc by simp
  qed
  have 4: "m' a = m a" if "outside vs i (pages (length buf)) a" for a
  proof -
    have a: "\<not> in_page (vs ! i) a" "outside vs (ring_next (length vs) i) ?q a"
      using that i by (simp_all add: P outside_Suc)
    then have "m' a = m1 a" using rest by (simp add: loaded_def)
    then show ?thesis using a(1) c4 by (auto simp: m1 mem_write_def in_page_def)
  qed
  have "mem_read (vs ! i) c m' = mem_read (vs ! i) c m1"
  proof (rule nth_equalityI)
    fix k assume "k < length (mem_read (vs ! i) c m')"
    then have k: "k < c" by simp
    then have "in_page (vs ! i) (vs ! i + k)" using c4 by (simp add: in_page_def)
    then have "outside vs (ring_next (length vs) i) ?q (vs ! i + k)"
      using dis i p P by (intro outside_first_page) simp_all
    then show "mem_read (vs ! i) c m' ! k = mem_read (vs ! i) c m1 ! k"
      using rest k by (simp add: loaded_def)
  qed simp
  also have "\<dots> = take c buf"
    using mem_read_write_same [of "vs ! i" "take c buf" m] c4 by (simp add: m1)
  finally have 5: "frame_at m' vs i (length buf) = buf"
    using frame_at_step [OF i, of m' "length buf"] rest by (simp add: c [symmetric] loaded_def)
  show ?thesis using 1 2 3 4 5 by (simp add: loaded_def)
qed

lemma load_tx_loop_total:
  assumes "i < length vs" "map virt_addr es = vs" "pages (length buf) \<le> length vs" "disjoint_pages vs"
  shows "\<exists>es' m'. load_tx_loop pci (length vs) buf i es m used =
      Some ((i + pages (length buf)) mod length vs, es', m', used + int (pages (length buf))) \<and>
      loaded vs i buf es m es' m'"
  using assms
proof (induction "length buf" arbitrary: buf i es m used rule: less_induct)
  case less
  show ?case
  proof (cases "buf = []")
    case True
    then show ?thesis
      using less.prems
      by (subst load_tx_loop.simps)
         (auto simp: loaded_def same_entry_def list_all2_conv_all_nth frame_at_def)
  next
    case False
    define c where "c = min 4096 (length buf)"
    have cc: "(if length buf > 4096 then 4096 else length buf) = c" by (simp add: c_def)
    have cl: "c \<le> length buf" "0 < c" using False by (simp_all add: c_def)
    have len: "length es = length vs" using less.prems(2) by auto
    have v: "virt_addr (es ! i) = vs ! i"
      using nth_map [of i es virt_addr] less.prems(1) len unfolding less.prems(2) by simp
    define m1 where "m1 = mem_write (vs ! i) (take c buf) m"
    define es1 where "es1 = es[i := (es ! i)\<lparr> count := of_nat c \<rparr>]"
    have P: "pages (length buf) = Suc (pages (length (drop c buf)))"
      using pages_step [of "length buf"] False by (simp add: c_def)
    have vs1: "map virt_addr es1 = vs"
      using less.prems(1) by (simp add: es1_def map_update less.prems(2) v)
    have pl: "pages (length (drop c buf)) \<le> length vs" using less.prems(3) P by simp
    have lt: "length (drop c buf) < length buf" using cl by simp
    have step: "load_tx_loop pci (length vs) buf i es m used =
        load_tx_loop pci (length vs) (drop c buf) (ring_next (length vs) i) es1 m1 (used + 1)"
      using False less.prems(1) cl
      by (subst load_tx_loop.simps) (simp add: cc len load_pci_memory_eq v m1_def es1_def Let_def)
    obtain es' m' where r: "load_tx_loop pci (length vs) (drop c buf) (ring_next (length vs) i) es1 m1 (used + 1) =
        Some ((ring_next (length vs) i + pages (length (drop c buf))) mod length vs, es', m',
              used + 1 + int (pages (length (drop c buf))))"
      and l: "loaded vs (ring_next (length vs) i) (drop c buf) es1 m1 es' m'"
      using less.hyps [OF lt ring_next_less [OF less.prems(1)] vs1 pl less.prems(4)] by blast
    have "loaded vs i buf es m es' m'"
      by (rule loaded_step [OF less.prems(1) len less.prems(4) False less.prems(3) c_def m1_def es1_def l])
    then show ?thesis
      using step r less.prems(1) by (simp add: P ring_shift)
  qed
qed


text \<open>The state in which frames can be loaded.\<close>

definition tx_ready :: "r56_struct \<Rightarrow> bool" where
  "tx_ready i \<longleftrightarrow> tx_ring i \<and> disjoint_pages (map virt_addr (tx_buffer_list i))"

lemma list_all2_same_virt: "list_all2 same_entry es es' \<Longrightarrow> map virt_addr es' = map virt_addr es"
  by (rule nth_equalityI) (auto simp: list_all2_conv_all_nth same_entry_def, metis DMABUFFERENTRY.select_convs(7) DMABUFFERENTRY.surjective DMABUFFERENTRY.update_convs(2))

text \<open>The instance before the copy loop: status, size and count of the first entry are set.\<close>

definition first_entry :: "r56_struct \<Rightarrow> nat \<Rightarrow> DMABUFFERENTRY \<Rightarrow> DMABUFFERENTRY" where
  "first_entry i n e =
     e\<lparr> status := (if tst (flags (params i)) HDLC_FLAG_HDLC_LOOPMODE then cmr_value i OR BIT13
                   else cmr_value i) AND 0xf000,
        rcc := of_nat n, count := of_nat n \<rparr>"

lemma load_tx_dma_buffer_total:
  assumes ready: "tx_ready (info w)" and size: "length buf < 2 ^ 32"
    and fits: "pages (length buf) \<le> length (tx_buffer_list (info w))"
    and s: "s = nat (current_tx_buffer (info w))"
    and es0: "es0 = (tx_buffer_list (info w))[s := first_entry (info w) (length buf) (tx_buffer_list (info w) ! s)]"
  shows "\<exists>w' es'. r56_load_tx_dma_buffer buf (of_nat (length buf)) w = Some w' \<and>
    loaded (map virt_addr (tx_buffer_list (info w))) s buf es0 (mem w) es' (mem w') \<and>
    info w' = (info w)\<lparr> cmr_value := (if tst (flags (params (info w))) HDLC_FLAG_HDLC_LOOPMODE
                           then cmr_value (info w) OR BIT13 else cmr_value (info w)),
        tx_buffer_list := es', start_tx_dma_buffer := int s,
        tx_dma_buffers_used := tx_dma_buffers_used (info w) + int (pages (length buf)),
        current_tx_buffer := int ((s + pages (length buf)) mod length (tx_buffer_list (info w))) \<rparr> \<and>
    env w' = env w \<and> trace w' = trace w"
proof -
  let ?es = "tx_buffer_list (info w)"
  let ?vs = "map virt_addr ?es"
  have n: "unat (tx_buffer_count (info w)) = length ?es" and sl: "s < length ?es"
    using ready by (simp_all add: tx_ready_def tx_ring_def s)
  have cur: "current_tx_buffer (info w) = int s"
    using ready by (simp add: tx_ready_def tx_ring_def s)
  have u: "unat (of_nat (length buf) :: u32) = length buf" using size by (intro unat_of_nat_small) simp
  have uc: "(ucast (of_nat (length buf) :: u32) :: u16) = of_nat (length buf)"
    by (simp add: of_nat_eq_iff unsigned_of_nat word_unat_eq_iff take_bit_eq_mod unsigned_ucast_eq mod_mod_cancel)
  have v0: "map virt_addr es0 = ?vs"
    by (simp add: es0 map_update first_entry_def) (metis list_update_id map_update)
  have "s < length ?vs" using sl by simp
  from load_tx_loop_total [OF this v0 _ , of buf "bus_type (info w) = R56_BUS_TYPE_PCI" "mem w"
      "tx_dma_buffers_used (info w)"]
  obtain es' m' where r: "load_tx_loop (bus_type (info w) = R56_BUS_TYPE_PCI) (length ?es) buf s es0 (mem w)
      (tx_dma_buffers_used (info w)) =
      Some ((s + pages (length buf)) mod length ?es, es', m', tx_dma_buffers_used (info w) + int (pages (length buf)))"
    and l: "loaded ?vs s buf es0 (mem w) es' m'"
    using fits ready by (auto simp: tx_ready_def)
  define w' where "w' = w\<lparr> info := (info w)\<lparr> cmr_value := (if tst (flags (params (info w))) HDLC_FLAG_HDLC_LOOPMODE
                           then cmr_value (info w) OR BIT13 else cmr_value (info w)),
        tx_buffer_list := es', start_tx_dma_buffer := int s,
        tx_dma_buffers_used := tx_dma_buffers_used (info w) + int (pages (length buf)),
        current_tx_buffer := int ((s + pages (length buf)) mod length (tx_buffer_list (info w))) \<rparr>,
        mem := m' \<rparr>"
  have "r56_load_tx_dma_buffer buf (of_nat (length buf)) w = Some w'"
    using sl n r cur
    by (cases w; cases "tst (flags (params (info w))) HDLC_FLAG_HDLC_LOOPMODE")
      (simp_all add: r56_load_tx_dma_buffer_def u uc Let_def w'_def es0 first_entry_def)
  then show ?thesis using l by (intro exI [of _ w'] exI [of _ es']) (simp add: w'_def)
qed

subsection \<open>Bounded queues\<close>

text \<open>The items of a circular array, oldest first.\<close>

definition ring_items :: "'a list \<Rightarrow> nat \<Rightarrow> nat \<Rightarrow> 'a list" where
  "ring_items xs t c = map (\<lambda>k. xs ! ((t + k) mod length xs)) [0..<c]"

lemma length_ring_items [simp]: "length (ring_items xs t c) = c"
  by (simp add: ring_items_def)

lemma ring_items_put:
  assumes "t < length xs" "c < length xs"
  shows "ring_items (xs[(t + c) mod length xs := x]) t (Suc c) = ring_items xs t c @ [x]"
proof (rule nth_equalityI)
  fix k assume "k < length (ring_items (xs[(t + c) mod length xs := x]) t (Suc c))"
  then have k: "k < Suc c" by simp
  have r: "(t + j) mod length xs < length xs" for j using assms(1) by (rule ring_index_less)
  show "ring_items (xs[(t + c) mod length xs := x]) t (Suc c) ! k = (ring_items xs t c @ [x]) ! k"
  proof (cases "k = c")
    case True
    then show ?thesis using r by (simp add: ring_items_def nth_append del: upt_Suc)
  next
    case False
    define d where "d = c - k"
    have d: "0 < d" "c = k + d" "d < length xs" using False k assms by (auto simp: d_def)
    have "((t + k) mod length xs + d) mod length xs = (t + c) mod length xs"
      by (simp add: mod_add_left_eq d(2) add.assoc)
    then have "(t + c) mod length xs \<noteq> (t + k) mod length xs"
      using add_mod_eq_self [OF r [of k] d(3)] d(1) by auto
    then show ?thesis using k False by (simp add: ring_items_def nth_append del: upt_Suc)
  qed
qed simp

lemma ring_items_get:
  assumes "t < length xs" "0 < c"
  shows "ring_items xs t c = xs ! t # ring_items xs (Suc t mod length xs) (c - 1)"
proof (rule nth_equalityI)
  fix k assume "k < length (ring_items xs t c)"
  then show "ring_items xs t c ! k = (xs ! t # ring_items xs (Suc t mod length xs) (c - 1)) ! k"
    using assms by (cases k) (simp_all add: ring_items_def mod_add_left_eq)
qed (use assms in simp)

lemma int_and_4095: "(x :: int) AND 4095 = x mod 4096"
proof -
  have "(4095 :: int) = mask 12" by (simp add: mask_eq_exp_minus_1)
  then show ?thesis by (simp only: take_bit_eq_mask [symmetric]) (simp add: take_bit_eq_mod)
qed

fun put_all :: "('a \<Rightarrow> 'q \<Rightarrow> 'q option) \<Rightarrow> 'a list \<Rightarrow> 'q \<Rightarrow> 'q option" where
  "put_all put [] q = Some q"
| "put_all put (x # xs) q = do { q \<leftarrow> put x q; put_all put xs q }"

fun get_all :: "('q \<Rightarrow> ('a \<times> 'q) option) \<Rightarrow> nat \<Rightarrow> 'q \<Rightarrow> ('a list \<times> 'q) option" where
  "get_all get 0 q = Some ([], q)"
| "get_all get (Suc n) q = do { (x, q) \<leftarrow> get q; (xs, q) \<leftarrow> get_all get n q; Some (x # xs, q) }"

locale bounded_queue =
  fixes inv :: "'q \<Rightarrow> bool" and items :: "'q \<Rightarrow> 'a list" and cap :: "'q \<Rightarrow> nat"
    and fits :: "'q \<Rightarrow> 'a \<Rightarrow> bool"
    and put :: "'a \<Rightarrow> 'q \<Rightarrow> 'q option" and get :: "'q \<Rightarrow> ('a \<times> 'q) option"
  assumes put_law: "inv q \<Longrightarrow> length (items q) < cap q \<Longrightarrow> fits q x \<Longrightarrow>
      \<exists>q'. put x q = Some q' \<and> inv q' \<and> items q' = items q @ [x] \<and> cap q' = cap q \<and> fits q' = fits q"
    and get_law: "inv q \<Longrightarrow> items q \<noteq> [] \<Longrightarrow>
      \<exists>q'. get q = Some (hd (items q), q') \<and> inv q' \<and> items q' = tl (items q) \<and> cap q' = cap q \<and>
           fits q' = fits q"
begin

lemma put_all_law:
  "inv q \<Longrightarrow> length (items q) + length xs \<le> cap q \<Longrightarrow> \<forall>x\<in>set xs. fits q x \<Longrightarrow>
   \<exists>q'. put_all put xs q = Some q' \<and> inv q' \<and> items q' = items q @ xs \<and> cap q' = cap q \<and> fits q' = fits q"
proof (induction xs arbitrary: q)
  case (Cons x xs)
  then obtain q1 where q1: "put x q = Some q1" "inv q1" "items q1 = items q @ [x]" "cap q1 = cap q" "fits q1 = fits q"
    using put_law [of q x] by auto
  then obtain q2 where "put_all put xs q1 = Some q2" "inv q2" "items q2 = items q1 @ xs" "cap q2 = cap q1" "fits q2 = fits q1"
    using Cons.IH [of q1] Cons.prems by auto
  then show ?case using q1 by simp
qed simp

lemma get_all_law:
  "inv q \<Longrightarrow> n \<le> length (items q) \<Longrightarrow>
   \<exists>q'. get_all get n q = Some (take n (items q), q') \<and> inv q' \<and> items q' = drop n (items q)"
proof (induction n arbitrary: q)
  case (Suc n)
  then have ne: "items q \<noteq> []" by auto
  then obtain q1 where q1: "get q = Some (hd (items q), q1)" "inv q1" "items q1 = tl (items q)"
    using get_law [of q] Suc.prems by auto
  moreover from this have "n \<le> length (items q1)" using Suc.prems by simp
  ultimately obtain q2 where "get_all get n q1 = Some (take n (items q1), q2)" "inv q2" "items q2 = drop n (items q1)"
    using Suc.IH [of q1] by blast
  then show ?case using q1 ne by (cases "items q") auto
qed simp

text \<open>First in, first out: what is added to an empty queue comes out in the same order.\<close>

lemma fifo:
  assumes "inv q" "items q = []" "length xs \<le> cap q" "\<forall>x\<in>set xs. fits q x"
  shows "\<exists>q' q''. put_all put xs q = Some q' \<and> get_all get (length xs) q' = Some (xs, q'') \<and> items q'' = []"
proof -
  obtain q' where q': "put_all put xs q = Some q'" "inv q'" "items q' = xs"
    using put_all_law [of q xs] assms by auto
  then obtain q'' where "get_all get (length xs) q' = Some (xs, q'')" "items q'' = []"
    using get_all_law [of q' "length xs"] by auto
  then show ?thesis using q' by blast
qed

end

subsection \<open>The character buffer as a queue\<close>

definition xmit_inv :: "r56_struct \<Rightarrow> bool" where
  "xmit_inv i \<longleftrightarrow>
     buffer_of_size 4096 (xmit_buf i) \<and> 0 \<le> xmit_tail i \<and> xmit_tail i < 4096 \<and>
     0 \<le> xmit_cnt i \<and> xmit_cnt i < 4096 \<and> xmit_head i = (xmit_tail i + xmit_cnt i) mod 4096"

definition xmit_items :: "r56_struct \<Rightarrow> u8 list" where
  "xmit_items i = ring_items (the (xmit_buf i)) (nat (xmit_tail i)) (nat (xmit_cnt i))"

lemma xmit_invE:
  assumes "xmit_inv i"
  obtains b t c h where "xmit_buf i = Some b" "length b = 4096" "xmit_tail i = int t" "t < 4096"
    "xmit_cnt i = int c" "c < 4096" "xmit_head i = int h" "h = (t + c) mod 4096"
    "xmit_items i = ring_items b t c"
proof -
  obtain b where b: "xmit_buf i = Some b" "length b = 4096"
    using assms by (auto simp: xmit_inv_def buffer_of_size_def split: option.splits)
  obtain t where t: "xmit_tail i = int t"
    using assms nonneg_int_cases by (metis xmit_inv_def)
  obtain c where c: "xmit_cnt i = int c"
    using assms nonneg_int_cases by (metis xmit_inv_def)
  have "xmit_head i = int ((t + c) mod 4096)" "t < 4096" "c < 4096"
    using assms t c by (simp_all add: xmit_inv_def zmod_int)
  then show ?thesis using that [OF b t _ c] b t c by (simp add: xmit_items_def)
qed

lemma int_succ_mod: "(int h + 1) mod 4096 = int (Suc h mod 4096)"
  by (simp add: zmod_int add.commute)

lemma xmit_put_law:
  assumes "xmit_inv i" "length (xmit_items i) < 4095"
  shows "\<exists>i'. xmit_put x i = Some i' \<and> xmit_inv i' \<and> xmit_items i' = xmit_items i @ [x]"
proof -
  from assms(1) obtain b t c h where b: "xmit_buf i = Some b" "length b = 4096"
    and t: "xmit_tail i = int t" "t < 4096" and c: "xmit_cnt i = int c" "c < 4096"
    and h: "xmit_head i = int h" "h = (t + c) mod 4096" and it: "xmit_items i = ring_items b t c"
    by (rule xmit_invE)
  have c5: "c < 4095" using assms(2) it by simp
  have hl: "h < 4096" using h(2) by simp
  have r: "ring_items (b[h := x]) t (Suc c) = ring_items b t c @ [x]"
    using ring_items_put [of t b c x] b t c5 h(2) by simp
  define i' where "i' = i\<lparr> xmit_buf := Some (b[h := x]), xmit_head := int (Suc h mod 4096),
                           xmit_cnt := int (Suc c) \<rparr>"
  have "xmit_put x i = Some i'"
    using b hl c by (simp add: xmit_put_def int_and_4095 h(1) i'_def int_succ_mod)
  moreover have "int (Suc h mod 4096) = (int t + int (Suc c)) mod 4096"
    unfolding h(2) mod_Suc_eq by (simp add: zmod_int add.commute add.left_commute)
  then have "xmit_inv i'"
    using b t c5 by (simp add: xmit_inv_def i'_def)
  moreover have "xmit_items i' = xmit_items i @ [x]"
    using r it t by (simp add: xmit_items_def i'_def nat_add_distrib)
  ultimately show ?thesis by blast
qed

lemma xmit_get_law:
  assumes "xmit_inv i" "xmit_items i \<noteq> []"
  shows "\<exists>i'. xmit_get i = Some (hd (xmit_items i), i') \<and> xmit_inv i' \<and> xmit_items i' = tl (xmit_items i)"
proof -
  from assms(1) obtain b t c h where b: "xmit_buf i = Some b" "length b = 4096"
    and t: "xmit_tail i = int t" "t < 4096" and c: "xmit_cnt i = int c" "c < 4096"
    and h: "xmit_head i = int h" "h = (t + c) mod 4096" and it: "xmit_items i = ring_items b t c"
    by (rule xmit_invE)
  have c0: "0 < c" using assms(2) it by (cases c) (auto simp: ring_items_def)
  have r: "ring_items b t c = b ! t # ring_items b (Suc t mod 4096) (c - 1)"
    using ring_items_get [of t b c] b t c0 by simp
  define i' where "i' = i\<lparr> xmit_tail := int (Suc t mod 4096), xmit_cnt := int (c - 1) \<rparr>"
  have "xmit_get i = Some (hd (xmit_items i), i')"
    using b t c c0 it r by (simp add: xmit_get_def int_and_4095 i'_def int_succ_mod of_nat_diff)
  moreover have "(Suc t mod 4096 + (c - 1)) mod 4096 = h"
    using c0 unfolding h(2) mod_add_left_eq by simp
  then have "int h = (int (Suc t mod 4096) + int (c - 1)) mod 4096"
    by (metis of_nat_add of_nat_numeral zmod_int)
  then have "xmit_inv i'"
    using b t c c0 h(1) by (simp add: xmit_inv_def i'_def)
  moreover have "xmit_items i' = tl (xmit_items i)"
    using r it b by (simp add: xmit_items_def i'_def)
  ultimately show ?thesis by blast
qed

interpretation xq: bounded_queue xmit_inv xmit_items "\<lambda>_. 4095" "\<lambda>_ _. True" xmit_put xmit_get
  using xmit_put_law xmit_get_law by unfold_locales blast+


subsection \<open>The holding buffers as a queue\<close>

definition held_frame :: "tx_holding_buffer \<Rightarrow> u8 list" where
  "held_frame h = take (nat (buffer_size h)) (the (buffer h))"

definition hold_inv :: "r56_struct \<Rightarrow> bool" where
  "hold_inv i \<longleftrightarrow>
     0 < num_tx_holding_buffers i \<and>
     nat (num_tx_holding_buffers i) \<le> length (tx_holding_buffers i) \<and>
     0 \<le> get_tx_holding_index i \<and> get_tx_holding_index i < num_tx_holding_buffers i \<and>
     0 \<le> tx_holding_count i \<and> tx_holding_count i \<le> num_tx_holding_buffers i \<and>
     put_tx_holding_index i =
       (get_tx_holding_index i + tx_holding_count i) mod num_tx_holding_buffers i \<and>
     (\<forall>k<nat (num_tx_holding_buffers i).
        buffer_of_size (unat (max_frame_size i)) (buffer (tx_holding_buffers i ! k)) \<and>
        0 \<le> buffer_size (tx_holding_buffers i ! k) \<and>
        nat (buffer_size (tx_holding_buffers i ! k)) \<le> unat (max_frame_size i))"

definition hold_items :: "r56_struct \<Rightarrow> u8 list list" where
  "hold_items i =
     map held_frame (ring_items (take (nat (num_tx_holding_buffers i)) (tx_holding_buffers i))
       (nat (get_tx_holding_index i)) (nat (tx_holding_count i)))"

definition hold_get :: "r56_struct \<Rightarrow> (u8 list \<times> r56_struct) option" where
  "hold_get i =
    do { h \<leftarrow> aget (tx_holding_buffers i) (nat (get_tx_holding_index i));
         Some (held_frame h, hold_drop i) }"

lemma hold_invE:
  assumes "hold_inv i"
  obtains n g c p where "num_tx_holding_buffers i = int n" "0 < n" "n \<le> length (tx_holding_buffers i)"
    "get_tx_holding_index i = int g" "g < n" "tx_holding_count i = int c" "c \<le> n"
    "put_tx_holding_index i = int p" "p = (g + c) mod n"
    "hold_items i = map held_frame (ring_items (take n (tx_holding_buffers i)) g c)"
proof -
  obtain n where n: "num_tx_holding_buffers i = int n"
    using assms nonneg_int_cases by (metis hold_inv_def less_imp_le)
  obtain g where g: "get_tx_holding_index i = int g"
    using assms nonneg_int_cases by (metis hold_inv_def)
  obtain c where c: "tx_holding_count i = int c"
    using assms nonneg_int_cases by (metis hold_inv_def)
  have "put_tx_holding_index i = int ((g + c) mod n)"
    using assms n g c by (simp add: hold_inv_def zmod_int)
  moreover have "0 < n" "n \<le> length (tx_holding_buffers i)" "g < n" "c \<le> n"
    using assms n g c by (simp_all add: hold_inv_def)
  moreover have "hold_items i = map held_frame (ring_items (take n (tx_holding_buffers i)) g c)"
    by (simp add: hold_items_def n g c)
  ultimately show ?thesis using that n g c by blast
qed

lemma hold_next_int: "p < n \<Longrightarrow> hold_next (int n) (int p) = int (Suc p mod n)"
  by (cases "Suc p = n") (auto simp: hold_next_def)

lemma hold_put_law:
  assumes inv: "hold_inv i" and room: "length (hold_items i) < nat (num_tx_holding_buffers i)"
    and fits: "length x \<le> unat (max_frame_size i)"
  shows "\<exists>i'. hold_put x i = Some i' \<and> hold_inv i' \<and> hold_items i' = hold_items i @ [x] \<and>
    num_tx_holding_buffers i' = num_tx_holding_buffers i \<and> max_frame_size i' = max_frame_size i"
proof -
  from inv obtain n g c p where n: "num_tx_holding_buffers i = int n" "0 < n" "n \<le> length (tx_holding_buffers i)"
    and g: "get_tx_holding_index i = int g" "g < n" and c: "tx_holding_count i = int c" "c \<le> n"
    and p: "put_tx_holding_index i = int p" "p = (g + c) mod n"
    and it: "hold_items i = map held_frame (ring_items (take n (tx_holding_buffers i)) g c)"
    by (rule hold_invE)
  let ?bs = "tx_holding_buffers i"
  have cn: "c < n" using room it n by simp
  have pn: "p < n" using p n by simp
  then have pl: "p < length ?bs" using n by simp
  obtain b where b: "buffer (?bs ! p) = Some b" "length b = unat (max_frame_size i)"
    using inv pn n by (auto simp: hold_inv_def buffer_of_size_def split: option.splits)
  define h where "h = (?bs ! p)\<lparr> buffer_size := int (length x), buffer := Some (x @ drop (length x) b) \<rparr>"
  define i' where "i' = i\<lparr> tx_holding_buffers := ?bs[p := h], tx_holding_count := int (Suc c),
                           put_tx_holding_index := int (Suc p mod n) \<rparr>"
  have put: "hold_put x i = Some i'"
    using pl b fits n c pn
    by (simp add: hold_put_def p(1) blit_fits i'_def h_def hold_next_int)
  have "int (Suc p mod n) = (int g + int (Suc c)) mod int n"
    unfolding p(2) mod_Suc_eq by (simp add: zmod_int add.commute add.left_commute)
  then have inv': "hold_inv i'"
    using inv n g cn b fits pl
    by (auto simp: hold_inv_def i'_def nth_list_update h_def)
  have "ring_items (take n (?bs[p := h])) g (Suc c) = ring_items (take n ?bs) g c @ [h]"
    using ring_items_put [of g "take n ?bs" c h] g cn p(2)
    unfolding length_take min_absorb2 [OF n(3)] by (simp add: take_update_swap)
  moreover have "held_frame h = x" by (simp add: held_frame_def h_def)
  ultimately have "hold_items i' = hold_items i @ [x]"
    using it n g by (simp add: hold_items_def i'_def nat_add_distrib)
  then show ?thesis using put inv' by (simp add: i'_def)
qed

lemma hold_get_law:
  assumes inv: "hold_inv i" and ne: "hold_items i \<noteq> []"
  shows "\<exists>i'. hold_get i = Some (hd (hold_items i), i') \<and> hold_inv i' \<and> hold_items i' = tl (hold_items i) \<and>
    num_tx_holding_buffers i' = num_tx_holding_buffers i \<and> max_frame_size i' = max_frame_size i"
proof -
  from inv obtain n g c p where n: "num_tx_holding_buffers i = int n" "0 < n" "n \<le> length (tx_holding_buffers i)"
    and g: "get_tx_holding_index i = int g" "g < n" and c: "tx_holding_count i = int c" "c \<le> n"
    and p: "put_tx_holding_index i = int p" "p = (g + c) mod n"
    and it: "hold_items i = map held_frame (ring_items (take n (tx_holding_buffers i)) g c)"
    by (rule hold_invE)
  let ?bs = "tx_holding_buffers i"
  have c0: "0 < c" using ne it by (cases c) (auto simp: ring_items_def)
  define i' where "i' = i\<lparr> tx_holding_count := int (c - 1), get_tx_holding_index := int (Suc g mod n) \<rparr>"
  have r: "ring_items (take n ?bs) g c = ?bs ! g # ring_items (take n ?bs) (Suc g mod n) (c - 1)"
    using ring_items_get [of g "take n ?bs" c] g c0
    unfolding length_take min_absorb2 [OF n(3)] by simp
  have get: "hold_get i = Some (hd (hold_items i), i')"
    using n g c c0 it r
    by (simp add: hold_get_def hold_drop_def i'_def hold_next_int of_nat_diff)
  have "(Suc g mod n + (c - 1)) mod n = p"
    using c0 unfolding p(2) mod_add_left_eq by simp
  then have "int p = (int (Suc g mod n) + int (c - 1)) mod int n"
    by (metis of_nat_add zmod_int)
  then have "hold_inv i'"
    using inv n c c0 p(1) by (simp add: hold_inv_def i'_def)
  moreover have "hold_items i' = tl (hold_items i)"
    using r it n by (simp add: hold_items_def i'_def)
  ultimately show ?thesis using get by (simp add: i'_def)
qed

interpretation hq: bounded_queue hold_inv hold_items "\<lambda>i. nat (num_tx_holding_buffers i)"
    "\<lambda>i x. length x \<le> unat (max_frame_size i)" hold_put hold_get
proof unfold_locales
  fix i :: r56_struct and x :: "u8 list"
  assume "hold_inv i" "length (hold_items i) < nat (num_tx_holding_buffers i)" "length x \<le> unat (max_frame_size i)"
  from hold_put_law [OF this] show "\<exists>q'. hold_put x i = Some q' \<and> hold_inv q' \<and> hold_items q' = hold_items i @ [x] \<and>
      nat (num_tx_holding_buffers q') = nat (num_tx_holding_buffers i) \<and>
      (\<lambda>x::u8 list. length x \<le> unat (max_frame_size q')) = (\<lambda>x. length x \<le> unat (max_frame_size i))" by auto
next
  fix i :: r56_struct
  assume "hold_inv i" "hold_items i \<noteq> []"
  from hold_get_law [OF this] show "\<exists>q'. hold_get i = Some (hd (hold_items i), q') \<and> hold_inv q' \<and>
      hold_items q' = tl (hold_items i) \<and>
      nat (num_tx_holding_buffers q') = nat (num_tx_holding_buffers i) \<and>
      (\<lambda>x::u8 list. length x \<le> unat (max_frame_size q')) = (\<lambda>x. length x \<le> unat (max_frame_size i))" by auto
qed

subsection \<open>Loading the transmit FIFO\<close>

lemma writes_usc_OutReg [simp]: "writes (trace (usc_OutReg w r v)) = writes (trace w) @ [(r, v)]"
  by (simp add: usc_OutReg_def Let_def case_prod_unfold inb_def outb_def writew_def emit_def writes_def)

lemma writes_usc_InReg [simp]: "writes (trace (snd (usc_InReg w r))) = writes (trace w)"
  by (simp add: usc_InReg_def Let_def case_prod_unfold inb_def outb_def readw_def emit_def writes_def)

text \<open>
  The bytes that a sequence of writes puts into the transmit FIFO: a command that selects the
  transmit data register (one byte when \<open>LSBONLY\<close> is set, else two), then the data.
\<close>

fun fifo_bytes :: "(u16 \<times> u16) list \<Rightarrow> u8 list" where
  "fifo_bytes ((r, cmd) # (r', d) # ps) =
     (if r = CCAR \<and> r' = CCAR \<and> tst cmd 0x80
      then (if tst cmd LSBONLY then [ucast d] else [ucast d, ucast (drop_bit 8 d)]) @ fifo_bytes ps
      else fifo_bytes ((r', d) # ps))"
| "fifo_bytes _ = []"

lemma fifo_cmd:
  "tst ((v AND 0x0780) OR TDR :: u16) 0x80" "\<not> tst ((v AND 0x0780) OR TDR :: u16) LSBONLY"
  "tst ((v AND 0x0780) OR (TDR + LSBONLY) :: u16) 0x80"
  "tst ((v AND 0x0780) OR (TDR + LSBONLY) :: u16) LSBONLY"
  by (simp_all add: tst_def word_ao_dist word_bw_assocs or_eq_0_iff)

lemma two_bytes:
  "(ucast (ucast b0 OR push_bit 8 (ucast b1) :: u16) :: u8) = b0"
  "(ucast (drop_bit 8 (ucast b0 OR push_bit 8 (ucast b1) :: u16)) :: u8) = b1"
  by (rule bit_word_eqI; auto simp: bit_simps dest: bit_imp_le_length)+

text \<open>One round that sends a word, a pending control character, or a byte.\<close>

definition fifo_frame :: "r56_struct \<Rightarrow> r56_struct \<Rightarrow> bool" where
  "fifo_frame i i' \<longleftrightarrow>
     (\<exists>t c x n. i' = i\<lparr> xmit_tail := t, xmit_cnt := c, x_char := x, icount := (icount i)\<lparr> ic_tx := n \<rparr> \<rparr>)"

lemma fifo_frame_refl [simp]: "fifo_frame i i"
  unfolding fifo_frame_def
  by (rule exI [of _ "xmit_tail i"], rule exI [of _ "xmit_cnt i"], rule exI [of _ "x_char i"],
      rule exI [of _ "ic_tx (icount i)"]) simp

lemma fifo_frame_trans: "fifo_frame i j \<Longrightarrow> fifo_frame j k \<Longrightarrow> fifo_frame i k"
  by (auto simp: fifo_frame_def) (intro exI, rule refl)

lemma fifo_frame_queue: "fifo_frame i (i\<lparr> xmit_tail := t, xmit_cnt := c \<rparr>)"
  unfolding fifo_frame_def
  by (rule exI [of _ t], rule exI [of _ c], rule exI [of _ "x_char i"],
      rule exI [of _ "ic_tx (icount i)"]) simp

lemma xmit_get_fifo_frame: "xmit_get i = Some (b, i') \<Longrightarrow> fifo_frame i i'"
  using fifo_frame_queue by (auto simp: xmit_get_def split: Option.bind_splits)

lemma fifo_frame_tx: "fifo_frame i (icount_update (ic_tx_update f) i)"
  unfolding fifo_frame_def
  by (rule exI [of _ "xmit_tail i"], rule exI [of _ "xmit_cnt i"], rule exI [of _ "x_char i"],
      rule exI [of _ "f (ic_tx (icount i))"]) simp

lemma fifo_frame_xchar: "fifo_frame i (x_char_update f i)"
  unfolding fifo_frame_def
  by (rule exI [of _ "xmit_tail i"], rule exI [of _ "xmit_cnt i"], rule exI [of _ "f (x_char i)"],
      rule exI [of _ "ic_tx (icount i)"]) simp

lemma xmit_queue_cong:
  "xmit_buf i' = xmit_buf i \<Longrightarrow> xmit_head i' = xmit_head i \<Longrightarrow> xmit_tail i' = xmit_tail i \<Longrightarrow>
   xmit_cnt i' = xmit_cnt i \<Longrightarrow> xmit_inv i' = xmit_inv i \<and> xmit_items i' = xmit_items i"
  by (simp add: xmit_inv_def xmit_items_def)

lemma xmit_queue_other [simp]:
  "xmit_inv (icount_update f i) = xmit_inv i" "xmit_items (icount_update f i) = xmit_items i"
  "xmit_inv (x_char_update g i) = xmit_inv i" "xmit_items (x_char_update g i) = xmit_items i"
  using xmit_queue_cong [of "icount_update f i" i] xmit_queue_cong [of "x_char_update g i" i] by simp_all

lemma xmit_items_length: "xmit_inv i \<Longrightarrow> length (xmit_items i) = nat (xmit_cnt i)"
  by (simp add: xmit_items_def)

lemma xmit_get_cnt: "xmit_get i = Some (b, i') \<Longrightarrow> xmit_cnt i' = xmit_cnt i - 1 \<and> x_char i' = x_char i"
  by (auto simp: xmit_get_def split: Option.bind_splits)

text \<open>The result of the loop: the oldest characters went to the FIFO, in order, after a pending
  control character.\<close>

definition fifo_sent :: "world \<Rightarrow> world \<Rightarrow> bool" where
  "fifo_sent w w' \<longleftrightarrow>
     xmit_inv (info w') \<and> fifo_frame (info w) (info w') \<and> env w' = env w \<and> mem w' = mem w \<and>
     (x_char (info w') = x_char (info w) \<or> x_char (info w') = 0) \<and>
     (\<exists>ps k. writes (trace w') = writes (trace w) @ ps \<and> k \<le> length (xmit_items (info w)) \<and>
        xmit_items (info w') = drop k (xmit_items (info w)) \<and>
        fifo_bytes ps = (if x_char (info w) \<noteq> 0 \<and> x_char (info w') = 0 then [of_int (x_char (info w))] else []) @
                        take k (xmit_items (info w)))"

definition word_bytes :: "u16 \<Rightarrow> u16 \<Rightarrow> u8 list" where
  "word_bytes cmd d = (if tst cmd LSBONLY then [ucast d] else [ucast d, ucast (drop_bit 8 d)])"

lemma word_bytes_pair:
  "\<not> tst cmd LSBONLY \<Longrightarrow> word_bytes cmd (ucast b0 OR push_bit 8 (ucast b1)) = [b0, b1]"
  unfolding word_bytes_def two_bytes by simp

lemma word_bytes_single: "tst cmd LSBONLY \<Longrightarrow> word_bytes cmd (ucast b0) = [b0]"
  by (simp add: word_bytes_def) (rule bit_word_eqI, auto simp: bit_simps)

lemma fifo_pair:
  "tst cmd 0x80 \<Longrightarrow> fifo_bytes ((CCAR, cmd) # (CCAR, d) # ps) = word_bytes cmd d @ fifo_bytes ps"
  by (simp add: word_bytes_def)

lemma fifo_sent_step:
  assumes wr: "writes (trace w1) = writes (trace w) @ [(CCAR, cmd), (CCAR, d)]" "tst cmd 0x80"
    and j: "j \<le> length (xmit_items (info w))" "xmit_items (info w1) = drop j (xmit_items (info w))"
    and b: "word_bytes cmd d = (if x_char (info w) \<noteq> 0 then [of_int (x_char (info w))] else []) @
              take j (xmit_items (info w))"
    and fr: "fifo_frame (info w) (info w1)" "env w1 = env w" "mem w1 = mem w" "x_char (info w1) = 0"
    and rest: "fifo_sent w1 w'"
  shows "fifo_sent w w'"
proof -
  from rest fr(4) obtain ps k where ps: "writes (trace w') = writes (trace w1) @ ps"
      "k \<le> length (xmit_items (info w1))" "xmit_items (info w') = drop k (xmit_items (info w1))"
      "fifo_bytes ps = take k (xmit_items (info w1))" "x_char (info w') = 0"
    by (auto simp: fifo_sent_def)
  have sent: "fifo_bytes ([(CCAR, cmd), (CCAR, d)] @ ps) =
      (if x_char (info w) \<noteq> 0 then [of_int (x_char (info w))] else []) @ take (j + k) (xmit_items (info w))"
    using fifo_pair [OF wr(2), of d ps] ps(4) by (simp add: b j(2) take_add)
  have tr: "writes (trace w') = writes (trace w) @ ([(CCAR, cmd), (CCAR, d)] @ ps)"
    using ps(1) wr(1) by simp
  have le: "j + k \<le> length (xmit_items (info w))" using ps(2) j by simp
  have items: "xmit_items (info w') = drop (j + k) (xmit_items (info w))"
    using ps(3) j by (simp add: add.commute)
  have frame: "xmit_inv (info w')" "fifo_frame (info w) (info w')" "env w' = env w" "mem w' = mem w"
    using rest fr(1-3) fifo_frame_trans by (auto simp: fifo_sent_def)
  from sent have sent': "fifo_bytes ([(CCAR, cmd), (CCAR, d)] @ ps) =
      (if x_char (info w) \<noteq> 0 \<and> x_char (info w') = 0 then [of_int (x_char (info w))] else []) @
      take (j + k) (xmit_items (info w))"
    unfolding ps(5) by (simp only: simp_thms)
  show ?thesis
    unfolding fifo_sent_def using frame tr le items sent' ps(5) by blast
qed

lemma ucast_of_int_u8: "(ucast (of_int x :: u16) :: u8) = of_int x"
  by (rule bit_word_eqI) (simp add: bit_simps)

lemma take_one: "xs \<noteq> [] \<Longrightarrow> take 1 xs = [hd xs] \<and> drop 1 xs = tl xs"
  by (cases xs) simp_all

lemma load_txfifo_loop_sent:
  "xmit_inv (info w) \<Longrightarrow> \<exists>w'. load_txfifo_loop w = Some w' \<and> fifo_sent w w'"
proof (induction "nat (xmit_cnt (info w)) + (if x_char (info w) = 0 then 0 else 1)"
    arbitrary: w rule: less_induct)
  case less
  define w0 where "w0 = snd (usc_InReg w TICR)"
  define Fifocount where "Fifocount = drop_bit 8 (fst (usc_InReg w TICR))"
  have w0: "info w0 = info w" "env w0 = env w" "mem w0 = mem w" "writes (trace w0) = writes (trace w)"
    by (simp_all add: w0_def)
  let ?i = "info w"
  have len: "length (xmit_items ?i) = nat (xmit_cnt ?i)" by (rule xmit_items_length [OF less.prems])
  have cnt: "0 \<le> xmit_cnt ?i" using less.prems by (simp add: xmit_inv_def)
  have unf: "load_txfifo_loop w =
     (if Fifocount \<noteq> 0 \<and> xmit_cnt ?i \<noteq> 0
      then if xmit_cnt ?i > 1 \<and> Fifocount > 1 \<and> x_char ?i = 0
           then do { (b0, i) \<leftarrow> xmit_get ?i; (b1, i) \<leftarrow> xmit_get i;
                     let (v, w) = usc_InReg w0 CCAR;
                         w = usc_OutReg w CCAR ((v AND 0x0780) OR TDR);
                         w = usc_OutReg w CCAR (ucast b0 OR push_bit 8 (ucast b1));
                         w = set_info (\<lambda>_. i) w
                     in load_txfifo_loop (set_icount (ic_tx_update (\<lambda>n. n + 2)) w) }
           else let (v, w) = usc_InReg w0 CCAR;
                    w = usc_OutReg w CCAR ((v AND 0x0780) OR (TDR + LSBONLY))
                in if x_char ?i \<noteq> 0
                   then let w = usc_OutReg w CCAR (of_int (x_char ?i));
                            w = set_info (x_char_update (\<lambda>_. 0)) w
                        in load_txfifo_loop (set_icount (ic_tx_update (\<lambda>n. n + 1)) w)
                   else do { (b0, i) \<leftarrow> xmit_get ?i;
                             let w = usc_OutReg w CCAR (ucast b0);
                                 w = set_info (\<lambda>_. i) w
                             in load_txfifo_loop (set_icount (ic_tx_update (\<lambda>n. n + 1)) w) }
      else Some w0)"
    by (subst load_txfifo_loop.simps)
       (simp add: case_prod_unfold Let_def w0_def Fifocount_def)
  define cmd1 where "cmd1 = (fst (usc_InReg w0 CCAR) AND 0x0780) OR (TDR + LSBONLY)"
  define v1 where "v1 = usc_OutReg (snd (usc_InReg w0 CCAR)) CCAR cmd1"
  consider (stop) "\<not> (Fifocount \<noteq> 0 \<and> xmit_cnt ?i \<noteq> 0)"
    | (word) "Fifocount \<noteq> 0 \<and> xmit_cnt ?i \<noteq> 0" "xmit_cnt ?i > 1 \<and> Fifocount > 1 \<and> x_char ?i = 0"
    | (xchar) "Fifocount \<noteq> 0 \<and> xmit_cnt ?i \<noteq> 0" "\<not> (xmit_cnt ?i > 1 \<and> Fifocount > 1 \<and> x_char ?i = 0)" "x_char ?i \<noteq> 0"
    | (byte) "Fifocount \<noteq> 0 \<and> xmit_cnt ?i \<noteq> 0" "\<not> (xmit_cnt ?i > 1 \<and> Fifocount > 1 \<and> x_char ?i = 0)" "\<not> x_char ?i \<noteq> 0"
    by blast
  then show ?case
  proof cases
    case stop
    have "fifo_sent w w0"
      unfolding fifo_sent_def using less.prems w0
      by (intro conjI exI [of _ "[]"] exI [of _ 0]) simp_all
    then show ?thesis unfolding unf if_not_P [OF stop] by blast
  next
    case word
    have ne: "xmit_items ?i \<noteq> []" using len word(2) by auto
    from xmit_get_law [OF less.prems ne] obtain i1 where i1: "xmit_get ?i = Some (hd (xmit_items ?i), i1)"
      "xmit_inv i1" "xmit_items i1 = tl (xmit_items ?i)" by blast
    have "xmit_items i1 \<noteq> []" using i1(3) len word(2) by (cases "xmit_items ?i") auto
    from xmit_get_law [OF i1(2) this] obtain i2 where i2: "xmit_get i1 = Some (hd (xmit_items i1), i2)"
      "xmit_inv i2" "xmit_items i2 = tl (xmit_items i1)" by blast
    define cmd where "cmd = (fst (usc_InReg w0 CCAR) AND 0x0780) OR TDR"
    define d where "d = (ucast (hd (xmit_items ?i)) OR push_bit 8 (ucast (hd (xmit_items i1))) :: u16)"
    define w1 where "w1 = set_icount (ic_tx_update (\<lambda>n. n + 2)) (set_info (\<lambda>_. i2)
        (usc_OutReg (usc_OutReg (snd (usc_InReg w0 CCAR)) CCAR cmd) CCAR d))"
    have eq: "load_txfifo_loop w = load_txfifo_loop w1"
      unfolding unf if_P [OF word(1)] if_P [OF word(2)]
      by (simp add: i1(1) i2(1) w1_def cmd_def d_def case_prod_unfold Let_def)
    have x: "x_char (info w1) = 0" "xmit_cnt (info w1) = xmit_cnt ?i - 2"
      using xmit_get_cnt [OF i1(1)] xmit_get_cnt [OF i2(1)] word(2) by (simp_all add: w1_def)
    obtain w' where w': "load_txfifo_loop w1 = Some w'" "fifo_sent w1 w'"
      using less.hyps [of w1] i2(2) x word(2) by (auto simp: w1_def)
    have "fifo_frame ?i i2" using xmit_get_fifo_frame i1(1) i2(1) fifo_frame_trans by blast
    then have fr: "fifo_frame ?i (info w1)" using fifo_frame_tx fifo_frame_trans by (simp add: w1_def)
    have tk: "take 2 (xmit_items ?i) = [hd (xmit_items ?i), hd (xmit_items i1)]"
      using i1(3) \<open>xmit_items i1 \<noteq> []\<close> ne by (cases "xmit_items ?i"; cases "tl (xmit_items ?i)") auto
    have "fifo_sent w w'"
    proof (rule fifo_sent_step [where j = 2 and cmd = cmd and d = d, OF _ _ _ _ _ fr _ _ x(1) w'(2)])
      show "tst cmd 0x80" using fifo_cmd by (simp add: cmd_def)
      show "word_bytes cmd d = (if x_char ?i \<noteq> 0 then [of_int (x_char ?i)] else []) @ take 2 (xmit_items ?i)"
        unfolding tk d_def cmd_def word_bytes_pair [OF fifo_cmd(2)] using word(2) by simp
      show "xmit_items (info w1) = drop 2 (xmit_items ?i)"
        using i2(3) i1(3) by (simp add: w1_def drop_Suc numeral_2_eq_2)
      show "2 \<le> length (xmit_items ?i)" using len word(2) by linarith
    qed (simp_all add: w1_def w0)
    then show ?thesis using eq w' by simp
  next
    case xchar
    define w1 where "w1 = set_icount (ic_tx_update (\<lambda>n. n + 1)) (set_info (x_char_update (\<lambda>_. 0))
        (usc_OutReg v1 CCAR (of_int (x_char ?i))))"
    have eq: "load_txfifo_loop w = load_txfifo_loop w1"
      unfolding unf if_P [OF xchar(1)] if_not_P [OF xchar(2)] if_P [OF xchar(3)]
      by (simp add: w1_def v1_def cmd1_def case_prod_unfold Let_def)
    have i1: "info w1 = icount_update (ic_tx_update (\<lambda>n. n + 1)) (x_char_update (\<lambda>_. 0) ?i)"
      by (simp add: w1_def v1_def w0)
    obtain w' where w': "load_txfifo_loop w1 = Some w'" "fifo_sent w1 w'"
      using less.hyps [of w1] less.prems xchar(3) by (auto simp: i1)
    have fr: "fifo_frame ?i (info w1)"
      unfolding i1 using fifo_frame_tx fifo_frame_xchar fifo_frame_trans by blast
    have "fifo_sent w w'"
    proof (rule fifo_sent_step [where j = 0 and cmd = cmd1 and d = "of_int (x_char ?i)", OF _ _ _ _ _ fr _ _ _ w'(2)])
      show "tst cmd1 0x80" using fifo_cmd(3) by (simp add: cmd1_def)
      show "word_bytes cmd1 (of_int (x_char ?i)) =
          (if x_char ?i \<noteq> 0 then [of_int (x_char ?i)] else []) @ take 0 (xmit_items ?i)"
        using fifo_cmd(4) xchar(3) by (simp add: word_bytes_def cmd1_def ucast_of_int_u8)
    qed (simp_all add: i1, simp_all add: w1_def v1_def w0)
    then show ?thesis using eq w' by simp
  next
    case byte
    have ne: "xmit_items ?i \<noteq> []" using len byte(1) cnt by auto
    from xmit_get_law [OF less.prems ne] obtain i1 where i1: "xmit_get ?i = Some (hd (xmit_items ?i), i1)"
      "xmit_inv i1" "xmit_items i1 = tl (xmit_items ?i)" by blast
    define w1 where "w1 = set_icount (ic_tx_update (\<lambda>n. n + 1)) (set_info (\<lambda>_. i1)
        (usc_OutReg v1 CCAR (ucast (hd (xmit_items ?i)))))"
    have eq: "load_txfifo_loop w = load_txfifo_loop w1"
      unfolding unf if_P [OF byte(1)] if_not_P [OF byte(2)] if_not_P [OF byte(3)]
      by (simp add: i1(1) w1_def v1_def cmd1_def case_prod_unfold Let_def)
    have x: "x_char (info w1) = 0" "xmit_cnt (info w1) = xmit_cnt ?i - 1"
      using xmit_get_cnt [OF i1(1)] byte(3) by (simp_all add: w1_def)
    obtain w' where w': "load_txfifo_loop w1 = Some w'" "fifo_sent w1 w'"
      using less.hyps [of w1] i1(2) x byte cnt by (auto simp: w1_def)
    have fr: "fifo_frame ?i (info w1)"
      using xmit_get_fifo_frame [OF i1(1)] fifo_frame_tx fifo_frame_trans by (simp add: w1_def)
    have "fifo_sent w w'"
    proof (rule fifo_sent_step [where j = 1 and cmd = cmd1 and d = "ucast (hd (xmit_items ?i))", OF _ _ _ _ _ fr _ _ x(1) w'(2)])
      show "tst cmd1 0x80" using fifo_cmd(3) by (simp add: cmd1_def)
      show "word_bytes cmd1 (ucast (hd (xmit_items ?i))) =
          (if x_char ?i \<noteq> 0 then [of_int (x_char ?i)] else []) @ take 1 (xmit_items ?i)"
        unfolding cmd1_def word_bytes_single [OF fifo_cmd(4)] using byte(3) take_one [OF ne] by simp
      show "xmit_items (info w1) = drop 1 (xmit_items ?i)"
        using i1(3) take_one [OF ne] by (simp add: w1_def)
      show "1 \<le> length (xmit_items ?i)" using ne by (cases "xmit_items ?i") simp_all
    qed (simp_all add: w1_def v1_def w0)
    then show ?thesis using eq w' by simp
  qed
qed

end
