(* ===== verification/R56_Write.thy ===== *)
theory R56_Write
  imports R56_Tx
begin

text \<open>
  What the transmit path of \<open>R56_Tx\<close> guarantees: a frame is stored in the ring byte for byte,
  the queues keep their order, the transmitter is started on the frame that was loaded, and the write
  operations accept what they report. Three results show where the code lacks a size check.
\<close>

subsection \<open>Frames, queues and their limits\<close>

text \<open>Only the first \<open>BufferSize\<close> bytes of the source buffer matter.\<close>

lemma load_tx_dma_buffer_take:
  "unat n \<le> length b \<Longrightarrow> r56_load_tx_dma_buffer b n w = r56_load_tx_dma_buffer (take (unat n) b) n w"
  by (simp add: r56_load_tx_dma_buffer_def Let_def)

lemma same_entry_fields:
  "same_entry e f \<Longrightarrow> status f = status e \<and> rcc f = rcc e \<and> virt_addr f = virt_addr e \<and>
     phys_addr f = phys_addr e \<and> phys_entry f = phys_entry e \<and> link f = link e"
  by (auto simp: same_entry_def) (metis DMABUFFERENTRY.ext_inject DMABUFFERENTRY.surjective DMABUFFERENTRY.update_convs(2))+

text \<open>The state after a frame has been copied to the ring.\<close>

definition frame_loaded :: "u8 list \<Rightarrow> world \<Rightarrow> world \<Rightarrow> bool" where
  "frame_loaded buf w w' \<longleftrightarrow>
    (let s = nat (current_tx_buffer (info w)); es = tx_buffer_list (info w); es' = tx_buffer_list (info w')
     in start_tx_dma_buffer (info w') = int s \<and>
        tx_dma_buffers_used (info w') = tx_dma_buffers_used (info w) + int (pages (length buf)) \<and>
        current_tx_buffer (info w') = int ((s + pages (length buf)) mod length es) \<and>
        frame_bytes (mem w') es' s (length buf) = buf \<and>
        map virt_addr es' = map virt_addr es \<and> map phys_entry es' = map phys_entry es \<and>
        rcc (es' ! s) = of_nat (length buf) \<and>
        (\<forall>d<pages (length buf). count (es' ! ((s + d) mod length es)) = of_nat (min 4096 (length buf - 4096 * d))) \<and>
        (\<forall>a. outside (map virt_addr es) s (pages (length buf)) a \<longrightarrow> mem w' a = mem w a))"

lemma load_tx_frame_loaded:
  assumes ready: "tx_ready (info w)" and size: "length buf < 2 ^ 32"
    and fits: "pages (length buf) \<le> length (tx_buffer_list (info w))"
  shows "\<exists>w' es' c. r56_load_tx_dma_buffer buf (of_nat (length buf)) w = Some w' \<and>
    frame_loaded buf w w' \<and> tx_ready (info w') \<and> env w' = env w \<and> trace w' = trace w \<and>
    info w' = (info w)\<lparr> cmr_value := c, tx_buffer_list := es',
        start_tx_dma_buffer := current_tx_buffer (info w),
        tx_dma_buffers_used := tx_dma_buffers_used (info w) + int (pages (length buf)),
        current_tx_buffer := int ((nat (current_tx_buffer (info w)) + pages (length buf)) mod length (tx_buffer_list (info w))) \<rparr>"
proof -
  let ?es = "tx_buffer_list (info w)"
  define s where "s = nat (current_tx_buffer (info w))"
  define es0 where "es0 = ?es[s := first_entry (info w) (length buf) (?es ! s)]"
  have sl: "s < length ?es" and cur: "current_tx_buffer (info w) = int s"
    and cnt: "unat (tx_buffer_count (info w)) = length ?es"
    using ready by (simp_all add: tx_ready_def tx_ring_def s_def)
  from load_tx_dma_buffer_total [OF ready size fits s_def es0_def] obtain w' es' c where
    r: "r56_load_tx_dma_buffer buf (of_nat (length buf)) w = Some w'"
    and l: "loaded (map virt_addr ?es) s buf es0 (mem w) es' (mem w')"
    and i: "info w' = (info w)\<lparr> cmr_value := c, tx_buffer_list := es', start_tx_dma_buffer := int s,
        tx_dma_buffers_used := tx_dma_buffers_used (info w) + int (pages (length buf)),
        current_tx_buffer := int ((s + pages (length buf)) mod length ?es) \<rparr>"
    and e: "env w' = env w" "trace w' = trace w"
    by blast
  have sim: "list_all2 same_entry es0 es'" using l by (simp add: loaded_def)
  then have len: "length es' = length ?es" by (simp add: list_all2_conv_all_nth es0_def)
  have same: "same_entry (es0 ! k) (es' ! k)" if "k < length ?es" for k
    using sim that by (simp add: list_all2_conv_all_nth es0_def)
  have k0: "virt_addr (es0 ! k) = virt_addr (?es ! k) \<and> phys_entry (es0 ! k) = phys_entry (?es ! k)"
    if "k < length ?es" for k
    using that by (cases "k = s") (simp_all add: es0_def first_entry_def)
  have v: "map virt_addr es' = map virt_addr ?es" "map phys_entry es' = map phys_entry ?es"
    using same_entry_fields [OF same] k0 len by (simp_all add: list_eq_iff_nth_eq)
  have "rcc (es' ! s) = of_nat (length buf)"
    using same_entry_fields [OF same [OF sl]] sl by (simp add: es0_def first_entry_def)
  moreover have "es' \<noteq> []" using len sl by auto
  then have "frame_bytes (mem w') es' s (length buf) = buf"
    using l by (simp add: frame_bytes_at v loaded_def)
  ultimately have "frame_loaded buf w w'"
    using l v i by (simp add: frame_loaded_def Let_def s_def loaded_def)
  moreover have "tx_ready (info w')"
    using ready v(1) sl len cnt by (simp add: i tx_ready_def tx_ring_def)
  ultimately show ?thesis
    unfolding cur nat_int using r i e by blast
qed

text \<open>An instance with a ring of two transmit buffers, for the witnesses.\<close>

definition tx_example :: world where
  "tx_example = world0\<lparr> info := zero_info\<lparr>
     tx_buffer_count := 2,
     tx_buffer_list := [zero_entry\<lparr> virt_addr := 4096, phys_entry := 64 \<rparr>,
                        zero_entry\<lparr> virt_addr := 8192, phys_entry := 128 \<rparr>],
     params := default_params, max_frame_size := 4096, xmit_buf := Some (replicate 4096 0) \<rparr> \<rparr>"

lemma tx_example_ready: "tx_ready (info tx_example)"
  by (simp add: tx_example_def tx_ready_def tx_ring_def zero_info_def disjoint_pages_def zero_entry_def
      less_Suc_eq)

text \<open>\<open>r56_load_pci_memory\<close>, which copies in steps of 64 bytes with a read of the
  target in between, leaves exactly what one \<open>memcpy\<close> of the bytes leaves.\<close>

theorem load_pci_memory_is_memcpy:
  assumes "cnt \<le> length src"
  shows "r56_load_pci_memory target src cnt m = mem_write target (take cnt src) m"
  using assms by (rule load_pci_memory_eq)

theorem load_pci_memory_is_memcpy_witness:
  "r56_load_pci_memory 100 (replicate 70 7) 66 (\<lambda>_. 0) = mem_write 100 (take 66 (replicate 70 7)) (\<lambda>_. 0)"
  by (rule load_pci_memory_is_memcpy) simp

text \<open>C24: a frame that fits in the transmit ring is loaded without an access outside the ring:
  the pages from the current buffer on hold exactly its bytes, each used entry has the number of its
  bytes, the first entry has the frame size, no other byte of memory changes, and the ring stays
  well formed with the current buffer moved behind the frame.\<close>

theorem load_tx_dma_buffer_stores_frame:
  assumes "tx_ready (info w)" "length buf < 2 ^ 32"
    and "pages (length buf) \<le> length (tx_buffer_list (info w))"
  shows "\<exists>w'. r56_load_tx_dma_buffer buf (of_nat (length buf)) w = Some w' \<and>
    frame_loaded buf w w' \<and> tx_ready (info w') \<and> trace w' = trace w"
  using load_tx_frame_loaded [OF assms] by blast

theorem load_tx_dma_buffer_stores_frame_witness:
  "\<exists>w'. r56_load_tx_dma_buffer [1, 2, 3] (of_nat (length [1 :: u8, 2, 3])) tx_example = Some w' \<and>
    frame_loaded [1, 2, 3] tx_example w' \<and> tx_ready (info w') \<and> trace w' = trace tx_example"
  by (rule load_tx_dma_buffer_stores_frame [OF tx_example_ready])
    (simp_all add: tx_example_def pages_def zero_info_def)

text \<open>the copy loop does not compare the frame with the size of the ring: with a ring of one
  page, a frame of two pages wraps around, and the page ends up with the second half of the frame
  only, although \<open>r56_write_room\<close> offers 65535 bytes in this state.\<close>

theorem load_tx_dma_buffer_wraps_over_frame:
  assumes "tx_buffer_list (info w) = [e]" "tx_buffer_count (info w) = 1" "current_tx_buffer (info w) = 0"
    and "length buf = 8192" "mode (params (info w)) = R56_MODE_HDLC" "\<not> tx_active (info w)"
  shows "\<exists>w'. r56_load_tx_dma_buffer buf (of_nat (length buf)) w = Some w' \<and>
    mem_read (virt_addr e) 4096 (mem w') = drop 4096 buf \<and> r56_write_room (info w) = 65535"
proof -
  have ne: "buf \<noteq> []" "drop 4096 buf \<noteq> []" using assms(4) by auto
  let ?m = "mem_write (virt_addr e) (drop 4096 buf) (mem_write (virt_addr e) (take 4096 buf) (mem w))"
  have loop: "load_tx_loop pci (Suc 0) buf 0 [e0] (mem w) used = Some (0, [e0\<lparr> count := 4096 \<rparr>], ?m, used + 2)"
    if "virt_addr e0 = virt_addr e" for pci e0 used
    using that ne assms(4)
    by (simp add: load_tx_loop.simps [of _ _ buf] load_tx_loop.simps [of _ _ "drop 4096 buf"]
        load_tx_loop.simps [of _ _ "[]"] load_pci_memory_eq ring_next_def Let_def)
  have "mem_read (virt_addr e) 4096 ?m = drop 4096 buf"
    using mem_read_write_same [of "virt_addr e" "drop 4096 buf"] assms(4) by simp
  moreover have "\<exists>w'. r56_load_tx_dma_buffer buf 8192 w = Some w' \<and> mem w' = ?m"
    using assms by (simp add: r56_load_tx_dma_buffer_def Let_def loop)
  ultimately show ?thesis using assms by (auto simp: r56_write_room_def)
qed

definition one_page_example :: world where
  "one_page_example = world0\<lparr> info := zero_info\<lparr>
     tx_buffer_count := 1, tx_buffer_list := [zero_entry\<lparr> virt_addr := 4096 \<rparr>], params := default_params \<rparr> \<rparr>"

theorem load_tx_dma_buffer_wraps_over_frame_witness:
  "\<exists>w'. r56_load_tx_dma_buffer (replicate 4096 1 @ replicate 4096 2)
         (of_nat (length (replicate 4096 (1 :: u8) @ replicate 4096 2))) one_page_example = Some w' \<and>
    mem_read (virt_addr (zero_entry\<lparr> virt_addr := 4096 \<rparr>)) 4096 (mem w') =
      drop 4096 (replicate 4096 1 @ replicate 4096 2) \<and>
    r56_write_room (info one_page_example) = 65535"
  by (rule load_tx_dma_buffer_wraps_over_frame) (simp_all add: one_page_example_def zero_info_def default_params_def)

text \<open>C28: the circular transmit buffer is first in, first out: any sequence of up to 4095 characters
  put into an empty buffer comes out complete and in the same order, whatever the positions of head
  and tail.\<close>

theorem xmit_buffer_fifo:
  assumes "xmit_inv i" "xmit_items i = []" "length chars \<le> 4095"
  shows "\<exists>i' i''. put_all xmit_put chars i = Some i' \<and>
    get_all xmit_get (length chars) i' = Some (chars, i'') \<and> xmit_items i'' = []"
  using assms by (intro xq.fifo) simp_all

definition xmit_example :: r56_struct where
  "xmit_example = zero_info\<lparr> xmit_buf := Some (replicate 4096 0), xmit_head := 4095, xmit_tail := 4095 \<rparr>"

theorem xmit_buffer_fifo_witness:
  "\<exists>i' i''. put_all xmit_put [1, 2, 3] xmit_example = Some i' \<and>
    get_all xmit_get (length [1 :: u8, 2, 3]) i' = Some ([1, 2, 3], i'') \<and> xmit_items i'' = []"
  by (rule xmit_buffer_fifo)
    (simp_all add: xmit_example_def xmit_inv_def xmit_items_def buffer_of_size_def zero_info_def ring_items_def)


definition hold_example :: r56_struct where
  "hold_example = zero_info\<lparr> num_tx_holding_buffers := 1, max_frame_size := 8,
     tx_holding_buffers := [zero_holding_buffer\<lparr> buffer := Some (replicate 8 0) \<rparr>] \<rparr>"

lemma hold_example_inv: "hold_inv hold_example" "hold_items hold_example = []"
  by (simp_all add: hold_example_def hold_inv_def hold_items_def buffer_of_size_def zero_info_def
      zero_holding_buffer_def ring_items_def)


text \<open>with a free holding buffer, \<open>save_tx_buffer_request\<close> queues the frame behind the
  others when it is not longer than the maximal frame size; a longer frame is copied past the end
  of the holding buffer, since the size is not compared.\<close>

theorem save_tx_buffer_request_checks_no_size:
  assumes "hold_inv (info w)" "tx_holding_count (info w) < num_tx_holding_buffers (info w)"
  shows "if length f \<le> unat (max_frame_size (info w))
    then \<exists>w'. save_tx_buffer_request f w = Some (1, w') \<and> hold_inv (info w') \<and>
           hold_items (info w') = hold_items (info w) @ [f]
    else save_tx_buffer_request f w = None"
proof (cases "length f \<le> unat (max_frame_size (info w))")
  case True
  have "length (hold_items (info w)) < nat (num_tx_holding_buffers (info w))"
    using assms by (simp add: hold_items_def hold_inv_def)
  from hold_put_law [OF assms(1) this True] show ?thesis
    using assms(2) True by (auto simp: save_tx_buffer_request_def)
next
  case False
  from assms(1) obtain n p where p: "put_tx_holding_index (info w) = int p" "p < n"
    "n \<le> length (tx_holding_buffers (info w))" "num_tx_holding_buffers (info w) = int n"
    by (rule hold_invE) (metis mod_less_divisor)
  then obtain b where "buffer (tx_holding_buffers (info w) ! p) = Some b" "length b = unat (max_frame_size (info w))"
    using assms(1) by (auto simp: hold_inv_def buffer_of_size_def split: option.splits)
  then show ?thesis
    using False assms(2) p by (simp add: save_tx_buffer_request_def hold_put_def blit_def)
qed

theorem save_tx_buffer_request_checks_no_size_witness:
  "save_tx_buffer_request (replicate 9 0) (world0\<lparr> info := hold_example \<rparr>) = None"
  using save_tx_buffer_request_checks_no_size [of "world0\<lparr> info := hold_example \<rparr>" "replicate 9 0"] hold_example_inv
  by (simp add: hold_example_def zero_info_def)

subsection \<open>The loop of the asynchronous write\<close>

text \<open>Copying a block that does not wrap into the circular buffer.\<close>

lemma ring_items_block:
  assumes "t < length b" "h = (t + c) mod length b" "h + length xs \<le> length b" "c + length xs \<le> length b"
  shows "ring_items (take h b @ xs @ drop (h + length xs) b) t (c + length xs) = ring_items b t c @ xs"
proof (rule nth_equalityI)
  fix k assume "k < length (ring_items (take h b @ xs @ drop (h + length xs) b) t (c + length xs))"
  then have k: "k < c + length xs" by simp
  have h: "h = (if t + c < length b then t + c else t + c - length b)"
    using assms mod_if [of "t + c" "length b"] by (auto simp: mod_if)
  have m: "(t + k) mod length b = (if t + k < length b then t + k else t + k - length b)"
    using assms(1,4) k by (auto simp: mod_if)
  have n: "length (take h b @ xs @ drop (h + length xs) b) = length b" using assms(3) by simp
  show "ring_items (take h b @ xs @ drop (h + length xs) b) t (c + length xs) ! k = (ring_items b t c @ xs) ! k"
  proof (cases "k < c")
    case True
    then have "(t + k) mod length b < h \<or> h + length xs \<le> (t + k) mod length b \<and> (t + k) mod length b < length b"
      using h m assms k by (auto split: if_splits)
    moreover have "(t + k) mod length b < length b" using assms(1) by (intro mod_less_divisor) linarith
    ultimately show ?thesis
      using True k n by (auto simp: ring_items_def nth_append)
  next
    case False
    then have "(t + k) mod length b = h + (k - c)" "k - c < length xs" "h + (k - c) < length b"
      using h m assms k by (auto split: if_splits)
    then show ?thesis using False k n assms(3) by (auto simp: ring_items_def nth_append)
  qed
qed simp

lemma write_async_total:
  assumes "xmit_inv (info w)" "k = min (length buf) (4095 - length (xmit_items (info w)))"
  shows "\<exists>w' b h c. write_async buf ret w = Some (ret + int k, w') \<and> xmit_inv (info w') \<and>
    xmit_items (info w') = xmit_items (info w) @ take k buf \<and>
    info w' = (info w)\<lparr> xmit_buf := Some b, xmit_head := h, xmit_cnt := c \<rparr> \<and>
    env w' = env w \<and> mem w' = mem w \<and> trace w' = trace w"
  using assms
proof (induction "length buf" arbitrary: buf ret w k rule: less_induct)
  case less
  from less.prems(1) obtain b t c h where b: "xmit_buf (info w) = Some b" "length b = 4096"
    and t: "xmit_tail (info w) = int t" "t < 4096" and c: "xmit_cnt (info w) = int c" "c < 4096"
    and h: "xmit_head (info w) = int h" "h = (t + c) mod 4096" and it: "xmit_items (info w) = ring_items b t c"
    by (rule xmit_invE)
  have hl: "h < 4096" using h by simp
  define n where "n = min (length buf) (min (4095 - c) (4096 - h))"
  have n: "min (int (length buf)) (min (SERIAL_XMIT_SIZE - xmit_cnt (info w) - 1)
             (SERIAL_XMIT_SIZE - xmit_head (info w))) = int n"
    using c hl by (simp add: n_def h(1))
  have k: "k = min (length buf) (4095 - c)" using less.prems(2) it by simp
  show ?case
  proof (cases "n = 0")
    case True
    then have "k = 0" using k hl by (auto simp: n_def)
    moreover have "write_async buf ret w = Some (ret, w)"
      using n True by (subst write_async.simps) (simp add: Let_def)
    moreover have "info w = (info w)\<lparr> xmit_buf := Some b, xmit_head := xmit_head (info w), xmit_cnt := xmit_cnt (info w) \<rparr>"
      by (rule r56_struct.equality) (simp_all add: b)
    then have "\<exists>b h c. info w = (info w)\<lparr> xmit_buf := Some b, xmit_head := h, xmit_cnt := c \<rparr>" by blast
    ultimately show ?thesis
      using less.prems(1) by (intro exI [of _ w]) simp
  next
    case False
    define b' where "b' = take h b @ take n buf @ drop (h + n) b"
    define w1 where "w1 = set_info (\<lambda>i. i\<lparr> xmit_buf := Some b', xmit_head := (xmit_head i + int n) AND (SERIAL_XMIT_SIZE - 1),
                                      xmit_cnt := xmit_cnt i + int n \<rparr>) w"
    have nl: "n \<le> length buf" "n \<le> 4095 - c" "n \<le> 4096 - h" by (simp_all add: n_def)
    have bl: "blit b h (take n buf) = Some b'" using b hl nl by (simp add: blit_fits b'_def min_absorb2)
    have eq: "write_async buf ret w = write_async (drop n buf) (ret + int n) w1"
      using n False b h bl by (subst write_async.simps) (simp add: Let_def w1_def)
    have items: "ring_items b' t (c + n) = ring_items b t c @ take n buf"
      using ring_items_block [of t b h c "take n buf"] b t h hl nl c by (simp add: b'_def min_absorb2)
    have "int ((h + n) mod 4096) = (int t + (int c + int n)) mod 4096"
      unfolding h(2) by (simp add: zmod_int mod_simps add.assoc)
    then have inv1: "xmit_inv (info w1)"
      using b t c nl hl by (simp add: w1_def xmit_inv_def buffer_of_size_def int_and_4095 h(1) b'_def zmod_int)
    have it1: "xmit_items (info w1) = xmit_items (info w) @ take n buf"
      using items it t c by (simp add: w1_def xmit_items_def nat_add_distrib nat_int_add)
    have k1: "k - n = min (length (drop n buf)) (4095 - length (xmit_items (info w1)))"
      unfolding it1 it length_append length_ring_items length_drop length_take min_absorb2 [OF nl(1)] k
      by linarith
    have kn: "n \<le> k" using k nl by simp
    obtain w' b2 h2 c2 where w': "write_async (drop n buf) (ret + int n) w1 = Some (ret + int n + int (k - n), w')"
      "xmit_inv (info w')" "xmit_items (info w') = xmit_items (info w1) @ take (k - n) (drop n buf)"
      "info w' = (info w1)\<lparr> xmit_buf := Some b2, xmit_head := h2, xmit_cnt := c2 \<rparr>"
      "env w' = env w1" "mem w' = mem w1" "trace w' = trace w1"
      using less.hyps [OF _ inv1 k1] False nl by fastforce
    have "take n buf @ take (k - n) (drop n buf) = take k buf"
      using kn by (metis add_diff_inverse_nat not_le take_add)
    then show ?thesis
      using w' eq it1 kn by (intro exI [of _ w'] exI [of _ b2] exI [of _ h2] exI [of _ c2]) (simp add: w1_def)
  qed
qed

subsection \<open>Starting a transmission\<close>

lemma fifo_bytes_other: "r \<noteq> CCAR \<Longrightarrow> fifo_bytes ((r, v) # ps) = fifo_bytes ps"
  by (cases ps) auto

lemma load_txfifo_sent:
  assumes "xmit_inv (info w)"
  shows "\<exists>w'. usc_load_txfifo w = Some w' \<and> fifo_sent w w'"
proof (cases "xmit_cnt (info w) = 0 \<and> x_char (info w) = 0")
  case True
  have "fifo_sent w w"
    unfolding fifo_sent_def using assms by (intro conjI exI [of _ "[]"] exI [of _ 0]) simp_all
  then show ?thesis using True by (simp add: usc_load_txfifo_def)
next
  case False
  define w1 where "w1 = usc_TCmd w TCmd_SelectTicrTxFifostatus"
  have i1: "info w1 = info w" "env w1 = env w" "mem w1 = mem w" by (simp_all add: w1_def)
  have t1: "writes (trace w1) = writes (trace w) @ [(TCSR, tcsr_value (info w) + TCmd_SelectTicrTxFifostatus)]"
    by (simp add: w1_def usc_TCmd_def)
  from load_txfifo_loop_sent [of w1] assms i1 obtain w' where w': "load_txfifo_loop w1 = Some w'" "fifo_sent w1 w'"
    by auto
  then obtain ps k where ps: "writes (trace w') = writes (trace w1) @ ps" "k \<le> length (xmit_items (info w))"
      "xmit_items (info w') = drop k (xmit_items (info w))"
      "fifo_bytes ps = (if x_char (info w) \<noteq> 0 \<and> x_char (info w') = 0 then [of_int (x_char (info w))] else []) @
         take k (xmit_items (info w))"
    unfolding fifo_sent_def i1 by blast
  have "writes (trace w') = writes (trace w) @ ((TCSR, tcsr_value (info w) + TCmd_SelectTicrTxFifostatus) # ps)"
    using ps(1) t1 by simp
  moreover have "fifo_bytes ((TCSR, tcsr_value (info w) + TCmd_SelectTicrTxFifostatus) # ps) = fifo_bytes ps"
    by (rule fifo_bytes_other) simp
  ultimately have "fifo_sent w w'"
    using w'(2) ps(2-4) unfolding fifo_sent_def i1 by metis
  then show ?thesis using w'(1) False by (auto simp: usc_load_txfifo_def w1_def)
qed

lemma fifo_frame_fields:
  "fifo_frame i i' \<Longrightarrow> params i' = params i \<and> tx_active i' = tx_active i \<and> tx_enabled i' = tx_enabled i"
  by (auto simp: fifo_frame_def)

text \<open>What precedes the transmission changes signals and receiver flags only.\<close>

lemma info_tx_prefix:
  "\<exists>d s e r ov u. info (tx_stop_echo (tx_auto_rts w)) =
     (info w)\<lparr> drop_rts_on_tx_done := d, serial_signals := s, enable_rx_on_tx_done := e,
              rx_enabled := r, rx_overflow := ov, rx_rcc_underrun := u \<rparr>"
proof -
  have "\<exists>d s. info (tx_auto_rts w) = (info w)\<lparr> drop_rts_on_tx_done := d, serial_signals := s \<rparr>"
    by (auto simp: tx_auto_rts_def Let_def) 
       (rule exI, rule exI, rule r56_struct.equality; simp; fail)+
  then obtain d s where 1: "info (tx_auto_rts w) = (info w)\<lparr> drop_rts_on_tx_done := d, serial_signals := s \<rparr>" by blast
  have "\<exists>e r ov u. info (tx_stop_echo v) =
     (info v)\<lparr> enable_rx_on_tx_done := e, rx_enabled := r, rx_overflow := ov, rx_rcc_underrun := u \<rparr>" for v
  proof (cases "tst (interface (params (info v))) R56_INTERFACE_NE \<and> rx_enabled (info v)")
    case True
    then have "info (tx_stop_echo v) = (info v)\<lparr> enable_rx_on_tx_done := True, rx_enabled := False,
        rx_overflow := False, rx_rcc_underrun := False \<rparr>"
      by (simp add: tx_stop_echo_def Let_def)
    then show ?thesis by blast
  next
    case False
    then have "info (tx_stop_echo v) = (info v)\<lparr> enable_rx_on_tx_done := False \<rparr>"
      by (auto simp: tx_stop_echo_def Let_def)
    also have "\<dots> = (info v)\<lparr> enable_rx_on_tx_done := False, rx_enabled := rx_enabled (info v),
        rx_overflow := rx_overflow (info v), rx_rcc_underrun := rx_rcc_underrun (info v) \<rparr>"
      by (rule r56_struct.equality) simp_all
    finally show ?thesis by blast
  qed
  then show ?thesis using 1 by (metis (no_types))
qed

lemma env_mem_tx_prefix [simp]:
  "env (tx_stop_echo (tx_auto_rts w)) = env w" "mem (tx_stop_echo (tx_auto_rts w)) = mem w"
  by (simp_all add: tx_stop_echo_def tx_auto_rts_def Let_def)


text \<open>The device instance with the fields that starting a transmission changes blanked out.\<close>

definition but_start :: "r56_struct \<Rightarrow> r56_struct" where
  "but_start i =
     i\<lparr> drop_rts_on_tx_done := False, serial_signals := 0, enable_rx_on_tx_done := False,
        rx_enabled := False, rx_overflow := False, rx_rcc_underrun := False, xmit_tail := 0, xmit_cnt := 0,
        x_char := 0, icount := zero_icount, tx_buffer_list := [], tx_timer := False, tx_active := False,
        tx_enabled := False \<rparr>"

lemma fifo_frame_but_start: "fifo_frame i i' \<Longrightarrow> but_start i' = but_start i \<and> tx_buffer_list i' = tx_buffer_list i"
  by (auto simp: fifo_frame_def but_start_def)

text \<open>Asynchronous transmission: what is in the character buffer leaves it from the front.\<close>

lemma start_transmitter_async:
  assumes inv: "xmit_inv (info w)" and mode: "mode (params (info w)) = R56_MODE_ASYNC"
  shows "\<exists>w' n. usc_start_transmitter w = Some w' \<and> xmit_inv (info w') \<and>
    xmit_items (info w') = drop n (xmit_items (info w)) \<and> tx_enabled (info w') \<and>
    (xmit_cnt (info w) \<noteq> 0 \<longrightarrow> tx_active (info w')) \<and> but_start (info w') = but_start (info w) \<and>
    tx_buffer_list (info w') = tx_buffer_list (info w) \<and> env w' = env w \<and> mem w' = mem w"
proof -
  define fin where "fin w = (if \<not> tx_enabled (info w)
               then let w = set_info (tx_enabled_update (\<lambda>_. True)) w
                    in if tst (flags (params (info w))) HDLC_FLAG_AUTO_CTS
                       then usc_EnableTransmitter w ENABLE_AUTO_CTS
                       else usc_EnableTransmitter w ENABLE_UNCONDITIONAL
               else w)" for w
  have fin: "info (fin w) = (info w)\<lparr> tx_enabled := True \<rparr>" for w
    by (cases "tx_enabled (info w)") (simp_all add: fin_def Let_def)
  have fin': "env (fin w) = env w" "mem (fin w) = mem w" for w
    by (cases "tx_enabled (info w)"; simp add: fin_def Let_def)+
  have q: "xmit_inv (i\<lparr> tx_enabled := True \<rparr>) = xmit_inv i" "xmit_items (i\<lparr> tx_enabled := True \<rparr>) = xmit_items i"
    "xmit_inv (i\<lparr> tx_active := True \<rparr>) = xmit_inv i" "xmit_items (i\<lparr> tx_active := True \<rparr>) = xmit_items i" for i
    by (simp_all add: xmit_inv_def xmit_items_def)
  show ?thesis
  proof (cases "xmit_cnt (info w) = 0")
    case True
    then have "usc_start_transmitter w = Some (fin w)" by (simp add: usc_start_transmitter_def fin_def)
    then show ?thesis using inv True by (intro exI [of _ "fin w"] exI [of _ 0]) (simp add: fin fin' q but_start_def)
  next
    case False
    define w1 where "w1 = tx_stop_echo (tx_auto_rts w)"
    obtain d s e r ov u where i1: "info w1 = (info w)\<lparr> drop_rts_on_tx_done := d, serial_signals := s,
        enable_rx_on_tx_done := e, rx_enabled := r, rx_overflow := ov, rx_rcc_underrun := u \<rparr>"
      unfolding w1_def using info_tx_prefix by blast
    have inv1: "xmit_inv (info w1)" "xmit_items (info w1) = xmit_items (info w)"
      using inv by (simp_all add: i1 xmit_inv_def xmit_items_def)
    have f1: "but_start (info w1) = but_start (info w)" "tx_buffer_list (info w1) = tx_buffer_list (info w)"
      by (simp_all add: i1 but_start_def)
    have e1: "env w1 = env w" "mem w1 = mem w" by (simp_all add: w1_def)
    have "\<exists>w2 n. (if \<not> tx_active (info w1)
                 then let w = usc_UnlatchTxstatusBits w1 TXSTATUS_ALL;
                          w = usc_ClearIrqPendingBits w (TRANSMIT_STATUS + TRANSMIT_DATA);
                          w = usc_EnableInterrupts w TRANSMIT_DATA
                      in usc_load_txfifo w
                 else Some w1) = Some w2 \<and> xmit_inv (info w2) \<and>
             xmit_items (info w2) = drop n (xmit_items (info w)) \<and> but_start (info w2) = but_start (info w) \<and>
             tx_buffer_list (info w2) = tx_buffer_list (info w) \<and> env w2 = env w \<and> mem w2 = mem w"
    proof (cases "tx_active (info w1)")
      case True
      then show ?thesis using inv1 f1 e1 by (intro exI [of _ w1] exI [of _ 0]) simp
    next
      case False
      define w3 where "w3 = usc_EnableInterrupts (usc_ClearIrqPendingBits (usc_UnlatchTxstatusBits w1 TXSTATUS_ALL)
          (TRANSMIT_STATUS + TRANSMIT_DATA)) TRANSMIT_DATA"
      have i3: "info w3 = info w1" "env w3 = env w1" "mem w3 = mem w1" by (simp_all add: w3_def)
      from load_txfifo_sent [of w3] inv1 i3(1) obtain w' where
        w': "usc_load_txfifo w3 = Some w'" "fifo_sent w3 w'" by auto
      then obtain k where k: "xmit_items (info w') = drop k (xmit_items (info w))" "xmit_inv (info w')"
          "fifo_frame (info w1) (info w')" "env w' = env w1" "mem w' = mem w1"
        unfolding fifo_sent_def i3 inv1(2) by blast
      show ?thesis
        using w'(1) False k(1,2,4,5) fifo_frame_but_start [OF k(3)] f1 e1
        by (intro exI [of _ w'] exI [of _ k]) (simp add: w3_def Let_def)
    qed
    then obtain w2 n where w2: "(if \<not> tx_active (info w1)
                 then let w = usc_UnlatchTxstatusBits w1 TXSTATUS_ALL;
                          w = usc_ClearIrqPendingBits w (TRANSMIT_STATUS + TRANSMIT_DATA);
                          w = usc_EnableInterrupts w TRANSMIT_DATA
                      in usc_load_txfifo w
                 else Some w1) = Some w2" "xmit_inv (info w2)"
             "xmit_items (info w2) = drop n (xmit_items (info w))" "but_start (info w2) = but_start (info w)"
             "tx_buffer_list (info w2) = tx_buffer_list (info w)" "env w2 = env w" "mem w2 = mem w" by blast
    have m1: "mode (params (info w1)) = R56_MODE_ASYNC" using mode by (simp add: i1)
    have "usc_start_transmitter w = Some (fin (set_info (tx_active_update (\<lambda>_. True)) w2))"
      unfolding usc_start_transmitter_def w1_def [symmetric] fin_def [symmetric]
      using False m1 w2(1) by (cases "tx_active (info w1)") (simp_all add: Let_def)
    moreover have "but_start (i\<lparr> tx_active := True, tx_enabled := True \<rparr>) = but_start i" for i
      by (simp add: but_start_def)
    ultimately show ?thesis
      using w2 False by (intro exI [of _ "fin (set_info (tx_active_update (\<lambda>_. True)) w2)"] exI [of _ n])
        (simp add: fin fin' q)
  qed
qed


text \<open>Synchronous transmission: the frame that starts at \<open>start_tx_dma_buffer\<close> is sent by
  the transmit DMA channel.\<close>

definition dma_sending :: "world \<Rightarrow> DMABUFFERENTRY \<Rightarrow> bool" where
  "dma_sending w e \<longleftrightarrow>
     wrote w TCLR = Some (rcc e) \<and> wrote w NTARL = Some (ucast (phys_entry e)) \<and>
     wrote w NTARU = Some (ucast (drop_bit 16 (phys_entry e))) \<and>
     wrote w DCAR = Some (DmaCmd_InitTxChannel + mbre_bit (info w)) \<and>
     wrote w TCSR = Some (tcsr_value (info w) + TCmd_SendFrame) \<and>
     tx_active (info w) \<and> tx_enabled (info w) \<and> tx_timer (info w)"

lemma start_tx_dma_total:
  assumes "0 \<le> start_tx_dma_buffer (info w)" "nat (start_tx_dma_buffer (info w)) < length (tx_buffer_list (info w))"
    and e: "e = tx_buffer_list (info w) ! nat (start_tx_dma_buffer (info w))"
  shows "\<exists>w'. start_tx_dma w = Some w' \<and>
    info w' = (info w)\<lparr> tx_timer := True, tx_buffer_list := (tx_buffer_list (info w))[nat (start_tx_dma_buffer (info w)) :=
      if mode (params (info w)) = R56_MODE_RAW then e\<lparr> rcc := 0 \<rparr> else e] \<rparr> \<and>
    env w' = env w \<and> mem w' = mem w \<and>
    wrote w' TCLR = Some (rcc e) \<and> wrote w' NTARL = Some (ucast (phys_entry e)) \<and>
    wrote w' NTARU = Some (ucast (drop_bit 16 (phys_entry e))) \<and>
    wrote w' DCAR = Some (DmaCmd_InitTxChannel + mbre_bit (info w')) \<and>
    wrote w' TCSR = Some (tcsr_value (info w') + TCmd_SendFrame)"
  using assms(2) unfolding start_tx_dma_def
  by (cases "mode (params (info w)) = R56_MODE_RAW"; cases "num_tx_dma_buffers (info w) > 1")
     (simp_all add: Let_def mod_timer_def e [symmetric])

lemma start_transmitter_dma:
  assumes cnt: "xmit_cnt (info w) \<noteq> 0" and mode: "mode (params (info w)) \<noteq> R56_MODE_ASYNC"
    and ring: "0 \<le> start_tx_dma_buffer (info w)" "nat (start_tx_dma_buffer (info w)) < length (tx_buffer_list (info w))"
    and e: "e = tx_buffer_list (info w) ! nat (start_tx_dma_buffer (info w))"
  shows "\<exists>w'. usc_start_transmitter w = Some w' \<and> dma_sending w' e \<and> mem w' = mem w \<and> env w' = env w \<and>
    (\<exists>d s en r ov u. info w' = (info w)\<lparr> drop_rts_on_tx_done := d, serial_signals := s, enable_rx_on_tx_done := en,
              rx_enabled := r, rx_overflow := ov, rx_rcc_underrun := u, tx_timer := True,
              tx_buffer_list := (tx_buffer_list (info w))[nat (start_tx_dma_buffer (info w)) :=
                if mode (params (info w)) = R56_MODE_RAW then e\<lparr> rcc := 0 \<rparr> else e],
              tx_active := True, tx_enabled := True \<rparr>)"
proof -
  define w1 where "w1 = tx_stop_echo (tx_auto_rts w)"
  obtain d s en r ov u where i1: "info w1 = (info w)\<lparr> drop_rts_on_tx_done := d, serial_signals := s,
      enable_rx_on_tx_done := en, rx_enabled := r, rx_overflow := ov, rx_rcc_underrun := u \<rparr>"
    unfolding w1_def using info_tx_prefix by blast
  have f1: "env w1 = env w" "mem w1 = mem w" by (simp_all add: w1_def)
  from start_tx_dma_total [of w1 e] ring e obtain w2 where w2: "start_tx_dma w1 = Some w2"
    and i2: "info w2 = (info w1)\<lparr> tx_timer := True, tx_buffer_list := (tx_buffer_list (info w))[nat (start_tx_dma_buffer (info w)) :=
      if mode (params (info w)) = R56_MODE_RAW then e\<lparr> rcc := 0 \<rparr> else e] \<rparr>"
    and f2: "env w2 = env w1" "mem w2 = mem w1"
    and r2: "wrote w2 TCLR = Some (rcc e)" "wrote w2 NTARL = Some (ucast (phys_entry e))"
      "wrote w2 NTARU = Some (ucast (drop_bit 16 (phys_entry e)))"
      "wrote w2 DCAR = Some (DmaCmd_InitTxChannel + mbre_bit (info w2))"
      "wrote w2 TCSR = Some (tcsr_value (info w2) + TCmd_SendFrame)"
    by (auto simp: i1)
  have m1: "mode (params (info w1)) \<noteq> R56_MODE_ASYNC" using mode by (simp add: i1)
  define w3 where "w3 = set_info (tx_active_update (\<lambda>_. True)) w2"
  define w' where "w' = (if \<not> tx_enabled (info w3)
               then let w = set_info (tx_enabled_update (\<lambda>_. True)) w3
                    in if tst (flags (params (info w))) HDLC_FLAG_AUTO_CTS
                       then usc_EnableTransmitter w ENABLE_AUTO_CTS
                       else usc_EnableTransmitter w ENABLE_UNCONDITIONAL
               else w3)"
  have st: "usc_start_transmitter w = Some w'"
    unfolding usc_start_transmitter_def w1_def [symmetric] w'_def w3_def
    using cnt m1 w2 by (simp add: Let_def)
  have "info w' = (info w3)\<lparr> tx_enabled := True \<rparr>"
    by (cases "tx_enabled (info w3)") (simp_all add: w'_def Let_def)
  then have i': "info w' = (info w2)\<lparr> tx_active := True, tx_enabled := True \<rparr>" by (simp add: w3_def)
  have wr: "wrote w' x = wrote w2 x" if "x \<noteq> TMR" for x
    using that by (simp add: w'_def w3_def Let_def)
  have f': "env w' = env w2" "mem w' = mem w2" by (simp_all add: w'_def w3_def Let_def)
  have "dma_sending w' e"
    using r2 by (simp add: dma_sending_def wr i' i2)
  moreover have "info w' = (info w)\<lparr> drop_rts_on_tx_done := d, serial_signals := s, enable_rx_on_tx_done := en,
              rx_enabled := r, rx_overflow := ov, rx_rcc_underrun := u, tx_timer := True,
              tx_buffer_list := (tx_buffer_list (info w))[nat (start_tx_dma_buffer (info w)) :=
                if mode (params (info w)) = R56_MODE_RAW then e\<lparr> rcc := 0 \<rparr> else e],
              tx_active := True, tx_enabled := True \<rparr>"
    unfolding i' i2 i1 by simp
  moreover have "mem w' = mem w" "env w' = env w" using f' f2 f1 by simp_all
  ultimately show ?thesis using st by blast
qed

subsection \<open>Properties of the write path\<close>


definition async_example :: world where
  "async_example = world0\<lparr> info := xmit_example\<lparr> params := default_params\<lparr> mode := R56_MODE_ASYNC \<rparr> \<rparr> \<rparr>"

lemma async_example_inv: "xmit_inv (info async_example)" "xmit_items (info async_example) = []"
  by (simp_all add: async_example_def xmit_example_def xmit_inv_def xmit_items_def buffer_of_size_def zero_info_def
      ring_items_def)


text \<open>with an empty transmit buffer, a pending XON or XOFF character is not written to the FIFO
  and stays pending: the loop of \<open>usc_load_txfifo\<close> tests \<open>xmit_cnt\<close> only.\<close>

theorem load_txfifo_keeps_xchar_when_empty:
  assumes "xmit_cnt (info w) = 0" "x_char (info w) \<noteq> 0"
  shows "\<exists>w' ps. usc_load_txfifo w = Some w' \<and> x_char (info w') = x_char (info w) \<and>
    writes (trace w') = writes (trace w) @ ps \<and> fifo_bytes ps = []"
proof -
  define v where "v = usc_TCmd w TCmd_SelectTicrTxFifostatus"
  have "load_txfifo_loop v = Some (snd (usc_InReg v TICR))"
    using assms(1) by (subst load_txfifo_loop.simps) (simp add: case_prod_unfold Let_def v_def)
  then have "usc_load_txfifo w = Some (snd (usc_InReg v TICR))"
    using assms by (simp add: usc_load_txfifo_def v_def)
  moreover have "writes (trace (snd (usc_InReg v TICR))) =
      writes (trace w) @ [(TCSR, tcsr_value (info w) + TCmd_SelectTicrTxFifostatus)]"
    by (simp add: v_def usc_TCmd_def)
  ultimately show ?thesis
    by (intro exI [of _ "snd (usc_InReg v TICR)"] exI [of _ "[(TCSR, tcsr_value (info w) + TCmd_SelectTicrTxFifostatus)]"])
       (simp add: v_def)
qed

theorem load_txfifo_keeps_xchar_when_empty_witness:
  "\<exists>w' ps. usc_load_txfifo (set_info (x_char_update (\<lambda>_. 17)) async_example) = Some w' \<and>
    x_char (info w') = x_char (info (set_info (x_char_update (\<lambda>_. 17)) async_example)) \<and>
    writes (trace w') = writes (trace (set_info (x_char_update (\<lambda>_. 17)) async_example)) @ ps \<and> fifo_bytes ps = []"
  by (rule load_txfifo_keeps_xchar_when_empty)
    (simp_all add: async_example_def xmit_example_def zero_info_def)

text \<open>C27: in asynchronous mode \<open>r56_write\<close> accepts as many bytes as there is room for in the
  transmit buffer and appends exactly these in order; the buffer is only emptied from the front,
  and not at all when the terminal is stopped or the transmitter is already active.\<close>

theorem write_async_appends:
  assumes inv: "xmit_inv (info w)" and mode: "mode (params (info w)) = R56_MODE_ASYNC"
    and k: "k = min (length buf) (4095 - length (xmit_items (info w)))"
  shows "\<exists>w' n. r56_write tty buf w = Some (int k, w') \<and> xmit_inv (info w') \<and>
    xmit_items (info w') = drop n (xmit_items (info w) @ take k buf) \<and>
    (tx_active (info w) \<or> \<not> tty_running tty \<longrightarrow> n = 0)"
proof -
  from write_async_total [OF inv k, of 0] obtain w1 b h c where
    w1: "write_async buf 0 w = Some (int k, w1)" "xmit_inv (info w1)"
      "xmit_items (info w1) = xmit_items (info w) @ take k buf"
      "info w1 = (info w)\<lparr> xmit_buf := Some b, xmit_head := h, xmit_cnt := c \<rparr>" by auto
  have b: "xmit_buf (info w) \<noteq> None" using inv by (auto simp: xmit_inv_def buffer_of_size_def split: option.splits)
  have eq: "r56_write tty buf w =
      (if xmit_cnt (info w1) \<noteq> 0 \<and> tty_running tty \<and> \<not> tx_active (info w1)
       then do { w \<leftarrow> usc_start_transmitter w1; Some (int k, w) } else Some (int k, w1))"
    using b mode w1(1) by (auto simp: r56_write_def)
  have i1: "tx_active (info w1) = tx_active (info w)" "mode (params (info w1)) = R56_MODE_ASYNC"
    using mode by (simp_all add: w1(4))
  show ?thesis
  proof (cases "xmit_cnt (info w1) \<noteq> 0 \<and> tty_running tty \<and> \<not> tx_active (info w1)")
    case True
    from start_transmitter_async [OF w1(2) i1(2)] obtain w' n where
      "usc_start_transmitter w1 = Some w'" "xmit_inv (info w')" "xmit_items (info w') = drop n (xmit_items (info w1))"
      by blast
    then show ?thesis using True i1(1) eq w1(3) by (intro exI [of _ w'] exI [of _ n]) simp
  next
    case False
    then have "r56_write tty buf w = Some (int k, w1)" unfolding eq by (simp only: if_False)
    then show ?thesis using w1 by (intro exI [of _ w1] exI [of _ 0]) simp
  qed
qed

definition running_tty :: tty_struct where
  "running_tty = \<lparr> stopped = False, hw_stopped = False, tty_flags = 0, c_cflag = 0, c_iflag = 0,
                   stop_char = 0, start_char = 0, baud_rate = 0 \<rparr>"

theorem write_async_appends_witness:
  "\<exists>w' n. r56_write running_tty [1, 2, 3] async_example = Some (int 3, w') \<and> xmit_inv (info w') \<and>
    xmit_items (info w') = drop n (xmit_items (info async_example) @ take 3 [1, 2, 3]) \<and>
    (tx_active (info async_example) \<or> \<not> tty_running running_tty \<longrightarrow> n = 0)"
  by (rule write_async_appends [OF async_example_inv(1)])
    (simp_all add: async_example_inv, simp add: async_example_def)

text \<open>A frame loaded into the ring and the idle transmitter started, outside asynchronous and raw mode.\<close>

lemma load_and_start:
  assumes ready: "tx_ready (info w)" and mode: "mode (params (info w)) \<noteq> R56_MODE_ASYNC" "mode (params (info w)) \<noteq> R56_MODE_RAW"
    and idle: "\<not> tx_active (info w)"
    and buf: "buf \<noteq> []" "length buf < 2 ^ 32" "pages (length buf) \<le> length (tx_buffer_list (info w))"
  shows "\<exists>w1 w'. r56_load_tx_dma_buffer buf (of_nat (length buf)) (set_info (xmit_cnt_update (\<lambda>_. int (length buf))) w) = Some w1 \<and>
    xmit_cnt (info w1) \<noteq> 0 \<and> mode (params (info w1)) = mode (params (info w)) \<and> \<not> tx_active (info w1) \<and>
    usc_start_transmitter w1 = Some w' \<and> frame_loaded buf w w' \<and>
    dma_sending w' (tx_buffer_list (info w') ! nat (current_tx_buffer (info w)))"
proof -
  define w0 where "w0 = set_info (xmit_cnt_update (\<lambda>_. int (length buf))) w"
  have r0: "tx_ready (info w0)" "tx_buffer_list (info w0) = tx_buffer_list (info w)"
    using ready by (simp_all add: w0_def tx_ready_def tx_ring_def)
  from load_tx_frame_loaded [OF r0(1) buf(2)] buf(3) r0(2) obtain w1 es' c where
    l: "r56_load_tx_dma_buffer buf (of_nat (length buf)) w0 = Some w1" "frame_loaded buf w0 w1"
    and r1: "tx_ready (info w1)"
    and i1: "info w1 = (info w0)\<lparr> cmr_value := c, tx_buffer_list := es',
        start_tx_dma_buffer := current_tx_buffer (info w0),
        tx_dma_buffers_used := tx_dma_buffers_used (info w0) + int (pages (length buf)),
        current_tx_buffer := int ((nat (current_tx_buffer (info w0)) + pages (length buf)) mod length (tx_buffer_list (info w0))) \<rparr>"
    by auto
  define e where "e = es' ! nat (current_tx_buffer (info w))"
  have st: "start_tx_dma_buffer (info w1) = current_tx_buffer (info w)" "tx_buffer_list (info w1) = es'"
    "xmit_cnt (info w1) \<noteq> 0" "mode (params (info w1)) = mode (params (info w))" "\<not> tx_active (info w1)"
    using buf(1) idle by (simp_all add: i1 w0_def)
  have ring: "0 \<le> start_tx_dma_buffer (info w1)" "nat (start_tx_dma_buffer (info w1)) < length (tx_buffer_list (info w1))"
    using r1 by (simp_all add: tx_ready_def tx_ring_def)
  have "e = tx_buffer_list (info w1) ! nat (start_tx_dma_buffer (info w1))" by (simp add: e_def st)
  from start_transmitter_dma [OF st(3) _ ring this] st(4) mode obtain w' d s en r ov u where
    w': "usc_start_transmitter w1 = Some w'" "dma_sending w' e" "mem w' = mem w1"
    and i': "info w' = (info w1)\<lparr> drop_rts_on_tx_done := d, serial_signals := s, enable_rx_on_tx_done := en,
              rx_enabled := r, rx_overflow := ov, rx_rcc_underrun := u, tx_timer := True,
              tx_buffer_list := (tx_buffer_list (info w1))[nat (start_tx_dma_buffer (info w1)) := e],
              tx_active := True, tx_enabled := True \<rparr>"
    by auto
  have es: "tx_buffer_list (info w') = es'" by (simp add: i' st e_def)
  have "frame_loaded buf w w'"
    using l(2) by (simp add: frame_loaded_def Let_def i' st e_def w'(3) w0_def)
  then show ?thesis
    using l(1) st(3-5) w'(1,2) es unfolding w0_def [symmetric] by (auto simp: e_def)
qed

lemma write_hdlc_starts:
  assumes ready: "tx_ready (info w)" and mode: "mode (params (info w)) = R56_MODE_HDLC"
    and loop: "\<not> tst (flags (params (info w))) HDLC_FLAG_HDLC_LOOPMODE"
    and idle: "\<not> tx_active (info w)" "xmit_cnt (info w) = 0" "xmit_buf (info w) \<noteq> None"
    and run: "tty_running tty"
    and buf: "buf \<noteq> []" "length buf < 2 ^ 32" "pages (length buf) \<le> length (tx_buffer_list (info w))"
  shows "\<exists>w'. r56_write tty buf w = Some (int (length buf), w') \<and> frame_loaded buf w w' \<and>
    dma_sending w' (tx_buffer_list (info w') ! nat (current_tx_buffer (info w)))"
proof -
  define w0 where "w0 = set_info (xmit_cnt_update (\<lambda>_. int (length buf))) w"
  have "mode (params (info w)) \<noteq> R56_MODE_ASYNC" "mode (params (info w)) \<noteq> R56_MODE_RAW" using mode by simp_all
  from load_and_start [OF ready this idle(1) buf] obtain w1 w' where
    l: "r56_load_tx_dma_buffer buf (of_nat (length buf)) w0 = Some w1" and st: "xmit_cnt (info w1) \<noteq> 0"
      "mode (params (info w1)) = mode (params (info w))" "\<not> tx_active (info w1)"
    and w': "usc_start_transmitter w1 = Some w'" "frame_loaded buf w w'"
      "dma_sending w' (tx_buffer_list (info w') ! nat (current_tx_buffer (info w)))"
    unfolding w0_def by blast
  have "write_sync buf w = Some (True, int (length buf), w1)"
    using idle loop l by (simp add: write_sync_def w0_def)
  then have "r56_write tty buf w = Some (int (length buf), w')"
    using idle(3) mode st run w'(1) by (auto simp: r56_write_def)
  then show ?thesis using w'(2,3) by blast
qed

text \<open>C6: in HDLC mode an idle transmitter takes a frame that fits in the ring: \<open>r56_write\<close>
  returns its length, the ring holds exactly its bytes, the DMA channel is started at the entry of the
  frame with its length in the transmit count register, and the transmitter is active, enabled and
  guarded by the timer.\<close>

theorem write_hdlc_sends_frame:
  assumes ready: "tx_ready (info w)" and mode: "mode (params (info w)) = R56_MODE_HDLC"
    and loop: "\<not> tst (flags (params (info w))) HDLC_FLAG_HDLC_LOOPMODE"
    and idle: "\<not> tx_active (info w)" "xmit_cnt (info w) = 0" "xmit_buf (info w) \<noteq> None"
    and run: "tty_running tty"
    and buf: "buf \<noteq> []" "length buf < 2 ^ 32" "pages (length buf) \<le> length (tx_buffer_list (info w))"
  shows "\<exists>w'. r56_write tty buf w = Some (int (length buf), w') \<and> frame_loaded buf w w' \<and>
    dma_sending w' (tx_buffer_list (info w') ! nat (current_tx_buffer (info w)))"
  by (rule write_hdlc_starts [OF assms])

theorem write_hdlc_sends_frame_witness:
  "\<exists>w'. r56_write running_tty [1, 2, 3] tx_example = Some (int (length [1 :: u8, 2, 3]), w') \<and>
    frame_loaded [1, 2, 3] tx_example w' \<and>
    dma_sending w' (tx_buffer_list (info w') ! nat (current_tx_buffer (info tx_example)))"
  by (rule write_hdlc_sends_frame [OF tx_example_ready])
    (simp_all add: tx_example_def pages_def zero_info_def default_params_def tst_def tty_running_def running_tty_def)

text \<open>a frame of more than 4096 bytes written while the terminal is stopped is accepted and
  leaves its length in \<open>xmit_cnt\<close>; the next write takes \<open>xmit_cnt\<close> bytes from the
  character buffer of 4096 bytes, which reads past its end.\<close>

theorem write_while_stopped_overreads:
  assumes ready: "tx_ready (info w)" and mode: "mode (params (info w)) = R56_MODE_HDLC"
    and loop: "\<not> tst (flags (params (info w))) HDLC_FLAG_HDLC_LOOPMODE"
    and idle: "\<not> tx_active (info w)" "xmit_cnt (info w) = 0" "buffer_of_size 4096 (xmit_buf (info w))"
    and stop: "\<not> tty_running tty"
    and buf: "4096 < length buf" "length buf < 2 ^ 31" "pages (length buf) \<le> length (tx_buffer_list (info w))"
  shows "\<exists>w'. r56_write tty buf w = Some (int (length buf), w') \<and> r56_write tty buf' w' = None"
proof -
  define w0 where "w0 = set_info (xmit_cnt_update (\<lambda>_. int (length buf))) w"
  have r0: "tx_ready (info w0)" "tx_buffer_list (info w0) = tx_buffer_list (info w)"
    using ready by (simp_all add: w0_def tx_ready_def tx_ring_def)
  have size: "length buf < 2 ^ 32" using buf(2) by simp
  from load_tx_frame_loaded [OF r0(1) size] buf(3) r0(2) obtain w1 es' c where
    l: "r56_load_tx_dma_buffer buf (of_nat (length buf)) w0 = Some w1"
    and i1: "info w1 = (info w0)\<lparr> cmr_value := c, tx_buffer_list := es',
        start_tx_dma_buffer := current_tx_buffer (info w0),
        tx_dma_buffers_used := tx_dma_buffers_used (info w0) + int (pages (length buf)),
        current_tx_buffer := int ((nat (current_tx_buffer (info w0)) + pages (length buf)) mod length (tx_buffer_list (info w0))) \<rparr>"
    by auto
  obtain b where b: "xmit_buf (info w) = Some b" "length b = 4096"
    using idle(3) by (auto simp: buffer_of_size_def split: option.splits)
  have wr: "r56_write tty buf w = Some (int (length buf), w1)"
    using b mode stop idle loop l by (simp add: r56_write_def write_sync_def w0_def)
  have u: "unat (word_of_nat (length buf) :: u32) = length buf"
    using size by (intro unat_of_nat_small) simp
  then have "r56_load_tx_dma_buffer b (of_int (xmit_cnt (info w1))) w1 = None"
    using b buf(1) by (simp add: r56_load_tx_dma_buffer_def Let_def i1 w0_def)
  moreover have "buf \<noteq> []" using buf(1) by auto
  ultimately have "r56_write tty buf' w1 = None"
    using b mode idle loop by (simp add: r56_write_def write_sync_def i1 w0_def)
  then show ?thesis using wr by blast
qed

theorem write_while_stopped_overreads_witness:
  "\<exists>w'. r56_write (running_tty\<lparr> stopped := True \<rparr>) (replicate 5000 7) tx_example =
       Some (int (length (replicate 5000 (7 :: u8))), w') \<and>
     r56_write (running_tty\<lparr> stopped := True \<rparr>) [1] w' = None"
  by (rule write_while_stopped_overreads [OF tx_example_ready])
    (simp_all add: tx_example_def pages_def zero_info_def default_params_def tst_def tty_running_def running_tty_def
      buffer_of_size_def)

lemma pages_int: "int (pages n) = (if int n mod 4096 \<noteq> 0 then int n div 4096 + 1 else int n div 4096)"
proof -
  have "pages n = (if n mod 4096 = 0 then n div 4096 else n div 4096 + 1)"
    unfolding pages_def using ceiling_div [of 4096 n] by simp
  moreover have "int n mod 4096 = int (n mod 4096)" "int n div 4096 = int (n div 4096)"
    by (simp_all add: zdiv_int zmod_int)
  ultimately show ?thesis by simp
qed

text \<open>The oldest held frame: its slot, its buffer, and the queue without it.\<close>

lemma oldest_held:
  assumes hold: "hold_inv i" and items: "hold_items i = f # fs"
  obtains g h b where "tx_holding_count i \<noteq> 0" "get_tx_holding_index i = int g" "aget (tx_holding_buffers i) g = Some h"
    "buffer h = Some b" "buffer_size h = int (length f)" "take (length f) b = f" "length f \<le> length b"
    "length b = unat (max_frame_size i)" "hold_inv (hold_drop i)" "hold_items (hold_drop i) = fs"
proof -
  from hold obtain n g c where n: "num_tx_holding_buffers i = int n" "n \<le> length (tx_holding_buffers i)"
    and g: "get_tx_holding_index i = int g" "g < n" and c: "tx_holding_count i = int c"
    and it: "hold_items i = map held_frame (ring_items (take n (tx_holding_buffers i)) g c)"
    by (rule hold_invE)
  have c0: "tx_holding_count i \<noteq> 0" using items c it by (cases c) (auto simp: ring_items_def)
  from hold_get_law [OF hold] items obtain i' where get: "hold_get i = Some (f, i')" "hold_inv i'" "hold_items i' = fs" by auto
  define h where "h = tx_holding_buffers i ! g"
  have h: "aget (tx_holding_buffers i) g = Some h" using g n by (simp add: h_def)
  then have f: "f = held_frame h" and i': "i' = hold_drop i" using get(1) g by (simp_all add: hold_get_def)
  obtain b where b: "buffer h = Some b" "length b = unat (max_frame_size i)" "0 \<le> buffer_size h"
      "nat (buffer_size h) \<le> length b"
    using hold g n by (auto simp: hold_inv_def h_def buffer_of_size_def split: option.splits)
  then have "take (length f) b = f" "buffer_size h = int (length f)" "length f \<le> length b"
    by (simp_all add: f held_frame_def)
  then show ?thesis using that c0 g(1) h b(1,2) get(2,3) i' by blast
qed

lemma load_next_held:
  assumes "tx_holding_count (info w) \<noteq> 0" "get_tx_holding_index (info w) = int g"
    "aget (tx_holding_buffers (info w)) g = Some h" "buffer_size h = int n"
  shows "load_next_tx_holding_buffer w =
      (if int (pages n) \<le> num_free_tx_dma_buffers (info w)
       then do { b \<leftarrow> buffer h;
                 w \<leftarrow> r56_load_tx_dma_buffer b (of_int (buffer_size h))
                        (set_info (xmit_cnt_update (\<lambda>_. buffer_size h)) w);
                 Some (True, mod_timer (set_info hold_drop w)) }
       else Some (False, w))"
proof -
  have need: "(if buffer_size h mod int DMABUFFERSIZE \<noteq> 0 then buffer_size h div int DMABUFFERSIZE + 1
      else buffer_size h div int DMABUFFERSIZE) = int (pages n)"
    using pages_int [of n] by (simp add: assms(4))
  show ?thesis
    unfolding load_next_tx_holding_buffer_def if_P [OF assms(1)] assms(2,3) nat_int bind.bind_lunit Let_def need ..
qed

text \<open>The frame moves when there is room.\<close>

lemma load_next_moves:
  assumes hold: "hold_inv (info w)" and ready: "tx_ready (info w)" and items: "hold_items (info w) = f # fs"
    and room: "int (pages (length f)) \<le> num_free_tx_dma_buffers (info w)"
    and free: "num_free_tx_dma_buffers (info w) \<le> int (length (tx_buffer_list (info w)))"
  shows "\<exists>w'. load_next_tx_holding_buffer w = Some (True, w') \<and> frame_loaded f w w' \<and>
    hold_inv (info w') \<and> hold_items (info w') = fs \<and> xmit_cnt (info w') = int (length f)"
proof -
  from oldest_held [OF hold items] obtain g h b where held: "tx_holding_count (info w) \<noteq> 0"
    "get_tx_holding_index (info w) = int g" "aget (tx_holding_buffers (info w)) g = Some h" "buffer_size h = int (length f)"
    and b: "buffer h = Some b" "take (length f) b = f" "length f \<le> length b" "length b = unat (max_frame_size (info w))"
    and drop: "hold_inv (hold_drop (info w))" "hold_items (hold_drop (info w)) = fs" by metis
  have lf: "length f < 2 ^ 32" using b unsigned_less [where ?'a = nat, of "max_frame_size (info w)"] by simp
  define w0 where "w0 = set_info (xmit_cnt_update (\<lambda>_. buffer_size h)) w"
  have r0: "tx_ready (info w0)" "tx_buffer_list (info w0) = tx_buffer_list (info w)"
    using ready by (simp_all add: w0_def tx_ready_def tx_ring_def)
  have "pages (length f) \<le> length (tx_buffer_list (info w0))" using room free r0(2) by simp
  from load_tx_frame_loaded [OF r0(1) lf this] obtain w1 es' cm where
    l: "r56_load_tx_dma_buffer f (of_nat (length f)) w0 = Some w1" "frame_loaded f w0 w1"
    and i1: "info w1 = (info w0)\<lparr> cmr_value := cm, tx_buffer_list := es',
      start_tx_dma_buffer := current_tx_buffer (info w0),
      tx_dma_buffers_used := tx_dma_buffers_used (info w0) + int (pages (length f)),
      current_tx_buffer := int ((nat (current_tx_buffer (info w0)) + pages (length f)) mod length (tx_buffer_list (info w0))) \<rparr>"
    by blast
  have u: "unat (word_of_nat (length f) :: u32) = length f" using lf by (intro unat_of_nat_small) simp
  have "r56_load_tx_dma_buffer b (of_int (buffer_size h)) w0 = Some w1"
    using load_tx_dma_buffer_take [of "word_of_nat (length f)" b w0] l(1) by (simp add: b(2,3) held(4) u)
  then have eq: "load_next_tx_holding_buffer w = Some (True, mod_timer (set_info hold_drop w1))"
    using room b(1) by (simp add: load_next_held [OF held] w0_def)
  define w' where "w' = mod_timer (set_info hold_drop w1)"
  have "hold_inv (info w')" "hold_items (info w') = fs" "xmit_cnt (info w') = int (length f)"
    using drop held(4) by (simp_all add: w'_def mod_timer_def i1 w0_def hold_drop_def hold_inv_def hold_items_def)
  moreover have "frame_loaded f w w'"
    using l(2) by (simp add: frame_loaded_def Let_def w'_def mod_timer_def w0_def hold_drop_def)
  ultimately show ?thesis using eq by (simp add: w'_def)
qed

text \<open>\<open>load_next_tx_holding_buffer\<close> moves the oldest held frame into the transmit ring when
  enough transmit buffers are free, and changes nothing when they are not or when no frame is held.\<close>

theorem load_next_holding_moves_oldest:
  assumes hold: "hold_inv (info w)" and ready: "tx_ready (info w)"
    and free: "num_free_tx_dma_buffers (info w) \<le> int (length (tx_buffer_list (info w)))"
  shows "case hold_items (info w) of
      [] \<Rightarrow> load_next_tx_holding_buffer w = Some (False, w)
    | f # fs \<Rightarrow>
        if int (pages (length f)) \<le> num_free_tx_dma_buffers (info w)
        then \<exists>w'. load_next_tx_holding_buffer w = Some (True, w') \<and> frame_loaded f w w' \<and>
               hold_inv (info w') \<and> hold_items (info w') = fs \<and> xmit_cnt (info w') = int (length f)
        else load_next_tx_holding_buffer w = Some (False, w)"
proof (cases "hold_items (info w)")
  case Nil
  then have "length (hold_items (info w)) = 0" by simp
  then have "tx_holding_count (info w) = 0" using hold by (simp add: hold_items_def hold_inv_def)
  then show ?thesis using Nil by (simp add: load_next_tx_holding_buffer_def)
next
  case (Cons f fs)
  from oldest_held [OF hold Cons] obtain g h where "tx_holding_count (info w) \<noteq> 0"
    "get_tx_holding_index (info w) = int g" "aget (tx_holding_buffers (info w)) g = Some h" "buffer_size h = int (length f)"
    by metis
  from load_next_held [OF this] show ?thesis using load_next_moves [OF hold ready Cons _ free] Cons by simp
qed

definition held_example :: world where
  "held_example = set_info (\<lambda>i. i\<lparr> num_tx_holding_buffers := 1, max_frame_size := 8, tx_holding_count := 1,
     tx_holding_buffers := [zero_holding_buffer\<lparr> buffer := Some (replicate 8 9), buffer_size := 2 \<rparr>] \<rparr>) tx_example"

theorem load_next_holding_moves_oldest_witness:
  "\<exists>w'. load_next_tx_holding_buffer held_example = Some (True, w') \<and> frame_loaded [9, 9] held_example w' \<and>
     hold_items (info w') = []"
proof -
  have items: "hold_items (info held_example) = [[9, 9]]"
    by (simp add: held_example_def hold_items_def ring_items_def held_frame_def zero_holding_buffer_def
        tx_example_def zero_info_def numeral_2_eq_2)
  have inv: "hold_inv (info held_example)"
    by (simp add: held_example_def hold_inv_def buffer_of_size_def zero_holding_buffer_def tx_example_def zero_info_def)
  have ready: "tx_ready (info held_example)"
    using tx_example_ready by (simp add: held_example_def tx_ready_def tx_ring_def)
  have free: "num_free_tx_dma_buffers (info held_example) = 2" "length (tx_buffer_list (info held_example)) = 2"
    by (simp_all add: held_example_def num_free_tx_dma_buffers_def tx_example_def zero_info_def)
  show ?thesis
    using load_next_holding_moves_oldest [OF inv ready] by (auto simp: items free pages_def)
qed

end
