(* ===== verification/R56_Isr.thy ===== *)
theory R56_Isr
  imports R56_Write
begin

text \<open>
  Interrupt service and bottom half of \<open>driver/route56.c\<close>: the handlers of the seven
  interrupt vectors and of the two DMA channels, the dispatcher \<open>r56_interrupt\<close>, and the
  work items it leaves for \<open>r56_bh_handler\<close>.

  A pointer to the terminal that is followed without a test is an option that has to be Some; an
  index outside \<open>UscIsrTable\<close> and a loop that does not end are the value None.
\<close>

subsection \<open>Status interrupts\<close>

definition request_bh :: "u32 \<Rightarrow> world \<Rightarrow> world" where
  "request_bh b w = set_info (pending_bh_update (\<lambda>p. p OR b)) w"

definition r56_isr_receive_status :: "world \<Rightarrow> world option" where
  "r56_isr_receive_status w =
    (let (stat, w) = usc_InReg w RCSR;
         (inserted, w) = (if tst stat RXSTATUS_ABORT_RECEIVED \<and> loopmode_insert_requested (info w)
                          then usc_loopmode_active w else (False, w));
         w = (if inserted
              then let w = set_icount (ic_rxabort_update (\<lambda>n. n + 1)) w;
                       w = set_info (\<lambda>i. i\<lparr> loopmode_insert_requested := False,
                                            cmr_value := cmr_value i AND NOT BIT13 \<rparr>) w;
                       w = usc_OutReg w CMR (cmr_value (info w))
                   in usc_rmw w RICR (\<lambda>v. v AND NOT RXSTATUS_ABORT_RECEIVED)
              else w);
         w = (if tst stat (RXSTATUS_EXITED_HUNT + RXSTATUS_IDLE_RECEIVED)
              then let w = (if tst stat RXSTATUS_EXITED_HUNT
                            then set_icount (ic_exithunt_update (\<lambda>n. n + 1)) w else w);
                       w = (if tst stat RXSTATUS_IDLE_RECEIVED
                            then set_icount (ic_rxidle_update (\<lambda>n. n + 1)) w else w)
                   in kcall (Wake_up_interruptible Event_wait_q) w
              else w)
     in do { w \<leftarrow> (if tst stat RXSTATUS_OVERRUN
                   then usc_process_rxoverrun_sync (set_icount (ic_rxover_update (\<lambda>n. n + 1)) w)
                   else Some w);
             let w = usc_ClearIrqPendingBits w RECEIVE_STATUS
             in Some (usc_UnlatchRxstatusBits w stat) })"

text \<open>Negate RTS when it was asserted for this transmission.\<close>

definition tx_drop_rts :: "world \<Rightarrow> world" where
  "tx_drop_rts w =
    (if drop_rts_on_tx_done (info w)
     then let w = usc_get_serial_signals w;
              w = (if tst (serial_signals (info w)) SerialSignal_RTS
                   then usc_set_serial_signals
                          (set_info (serial_signals_update (\<lambda>s. s AND NOT SerialSignal_RTS)) w)
                   else w)
          in set_info (drop_rts_on_tx_done_update (\<lambda>_. False)) w
     else w)"

text \<open>The counter of the way a transmission ended.\<close>

definition count_tx_end :: "u16 \<Rightarrow> world \<Rightarrow> world" where
  "count_tx_end stat w =
    (if tst stat TXSTATUS_EOF_SENT then set_icount (ic_txok_update (\<lambda>n. n + 1)) w
     else if tst stat TXSTATUS_UNDERRUN then set_icount (ic_txunder_update (\<lambda>n. n + 1)) w
     else if tst stat TXSTATUS_ABORT_SENT then set_icount (ic_txabort_update (\<lambda>n. n + 1)) w
     else set_icount (ic_txunder_update (\<lambda>n. n + 1)) w)"

text \<open>The transmit status handler up to the end of the frame, and what follows.\<close>

definition tx_status_common :: "world \<Rightarrow> world" where
  "tx_status_common w =
    (let (stat, w) = usc_InReg w TCSR;
         w = usc_ClearIrqPendingBits w TRANSMIT_STATUS;
         w = usc_UnlatchTxstatusBits w stat;
         w = (if tst stat (TXSTATUS_UNDERRUN OR TXSTATUS_ABORT_SENT)
              then let w = usc_DmaCmd w DmaCmd_ResetTxChannel in usc_RTCmd w RTCmd_PurgeTxFifo
              else w);
         w = count_tx_end stat w;
         w = set_info (\<lambda>i. i\<lparr> tx_active := False, xmit_cnt := 0, xmit_head := 0, xmit_tail := 0 \<rparr>) w;
         w = del_timer w
     in tx_drop_rts w)"

definition r56_isr_transmit_status :: "world \<Rightarrow> world option" where
  "r56_isr_transmit_status w =
    (let w = tx_status_common w
     in do { tty \<leftarrow> port_tty (info w);
             if stopped tty \<or> hw_stopped tty then Some (usc_stop_transmitter w)
             else Some (request_bh BH_TRANSMIT w) })"

subsection \<open>Input pins\<close>

text \<open>
  One latched input line: after \<open>IO_PIN_SHUTDOWN_LIMIT\<close> changes without a bottom half in
  between its interrupt is switched off; \<open>bump\<close> increments the counters of the line.
\<close>

definition io_pin_edge :: "bool \<Rightarrow> u16 \<Rightarrow> (r56_struct \<Rightarrow> int) \<Rightarrow> (r56_struct \<Rightarrow> r56_struct) \<Rightarrow> world \<Rightarrow> world" where
  "io_pin_edge latched sicr chkcount bump w =
    (if latched
     then let over = (chkcount (info w) \<ge> IO_PIN_SHUTDOWN_LIMIT);
              w = (if over then usc_DisablestatusIrqs w sicr else w)
          in set_info bump w
     else w)"

definition bump_ri :: "u16 \<Rightarrow> r56_struct \<Rightarrow> r56_struct" where
  "bump_ri stat i =
     i\<lparr> ri_chkcount := ri_chkcount i + 1, icount := ic_rng_update (\<lambda>n. n + 1) (icount i),
        sig_events := (if tst stat MISCSTATUS_RI then ri_up_update (\<lambda>n. n + 1) (sig_events i)
                       else ri_down_update (\<lambda>n. n + 1) (sig_events i)) \<rparr>"

definition bump_dsr :: "u16 \<Rightarrow> r56_struct \<Rightarrow> r56_struct" where
  "bump_dsr stat i =
     i\<lparr> dsr_chkcount := dsr_chkcount i + 1, icount := ic_dsr_update (\<lambda>n. n + 1) (icount i),
        sig_events := (if tst stat MISCSTATUS_DSR then dsr_up_update (\<lambda>n. n + 1) (sig_events i)
                       else dsr_down_update (\<lambda>n. n + 1) (sig_events i)) \<rparr>"

definition bump_dcd :: "u16 \<Rightarrow> r56_struct \<Rightarrow> r56_struct" where
  "bump_dcd stat i =
     i\<lparr> dcd_chkcount := dcd_chkcount i + 1, icount := ic_dcd_update (\<lambda>n. n + 1) (icount i),
        sig_events := (if tst stat MISCSTATUS_DCD then dcd_up_update (\<lambda>n. n + 1) (sig_events i)
                       else dcd_down_update (\<lambda>n. n + 1) (sig_events i)) \<rparr>"

definition bump_cts :: "u16 \<Rightarrow> r56_struct \<Rightarrow> r56_struct" where
  "bump_cts stat i =
     i\<lparr> cts_chkcount := cts_chkcount i + 1, icount := ic_cts_update (\<lambda>n. n + 1) (icount i),
        sig_events := (if tst stat MISCSTATUS_CTS then cts_up_update (\<lambda>n. n + 1) (sig_events i)
                       else cts_down_update (\<lambda>n. n + 1) (sig_events i)) \<rparr>"

definition io_pin_counters :: "u16 \<Rightarrow> world \<Rightarrow> world" where
  "io_pin_counters stat w =
    (let w = io_pin_edge (tst stat MISCSTATUS_RI_LATCHED) SICR_RI ri_chkcount (bump_ri stat) w;
         w = io_pin_edge (tst stat MISCSTATUS_DSR_LATCHED) SICR_DSR dsr_chkcount (bump_dsr stat) w;
         w = io_pin_edge (tst stat MISCSTATUS_DCD_LATCHED) SICR_DCD dcd_chkcount (bump_dcd stat) w;
         w = io_pin_edge (tst stat MISCSTATUS_CTS_LATCHED) SICR_CTS cts_chkcount (bump_cts stat) w;
         w = kcall (Wake_up_interruptible Status_event_wait_q) w
     in kcall (Wake_up_interruptible Event_wait_q) w)"

text \<open>Carrier detect: wake up a waiting open, or hang up.\<close>

definition io_pin_carrier :: "u16 \<Rightarrow> world \<Rightarrow> world" where
  "io_pin_carrier stat w =
    (if tst (port_flags (info w)) ASYNC_CHECK_CD \<and> tst stat MISCSTATUS_DCD_LATCHED
     then if tst stat MISCSTATUS_DCD then kcall (Wake_up_interruptible Open_wait_q) w
          else if port_tty (info w) \<noteq> None then kcall Tty_hangup w else w
     else w)"

text \<open>
  CTS flow control, with \<open>tty_port_cts_enabled\<close> the test of \<open>ASYNC_CTS_FLOW\<close>. The
  result says whether the handler returns at once.
\<close>

definition io_pin_cts_flow :: "u16 \<Rightarrow> world \<Rightarrow> (bool \<times> world) option" where
  "io_pin_cts_flow stat w =
    (if tst (port_flags (info w)) ASYNC_CTS_FLOW \<and> tst stat MISCSTATUS_CTS_LATCHED
     then do { tty \<leftarrow> port_tty (info w);
               if hw_stopped tty
               then if tst stat MISCSTATUS_CTS
                    then do { w \<leftarrow> usc_start_transmitter
                                   (set_info (port_tty_update (\<lambda>_. Some (tty\<lparr> hw_stopped := False \<rparr>))) w);
                              Some (True, request_bh BH_TRANSMIT w) }
                    else Some (False, w)
               else if \<not> tst stat MISCSTATUS_CTS
                    then Some (False, usc_stop_transmitter
                           (set_info (port_tty_update (\<lambda>_. Some (tty\<lparr> hw_stopped := True \<rparr>))) w))
                    else Some (False, w) }
     else Some (False, w))"

text \<open>The end of the handler: status work, and the flag of the diagnostics.\<close>

definition io_pin_end :: "u16 \<Rightarrow> world \<Rightarrow> world" where
  "io_pin_end stat w =
    (let w = request_bh BH_STATUS w
     in if tst stat MISCSTATUS_TXC_LATCHED
        then let w = usc_rmw w SICR (\<lambda>v. v AND NOT (SICR_TXC_ACTIVE + SICR_TXC_INACTIVE));
                 w = usc_UnlatchIostatusBits w MISCSTATUS_TXC_LATCHED
             in set_info (irq_occurred_update (\<lambda>_. True)) w
        else w)"

definition r56_isr_io_pin :: "world \<Rightarrow> world option" where
  "r56_isr_io_pin w =
    (let (stat, w) = usc_InReg w MISR;
         w = usc_ClearIrqPendingBits w IO_PIN;
         w = usc_UnlatchIostatusBits w stat
     in do { (return, w) \<leftarrow>
               (if tst stat (MISCSTATUS_CTS_LATCHED OR MISCSTATUS_DCD_LATCHED OR
                               MISCSTATUS_DSR_LATCHED OR MISCSTATUS_RI_LATCHED)
                then io_pin_cts_flow stat (io_pin_carrier stat (io_pin_counters stat w))
                else Some (False, w));
             Some (if return then w else io_pin_end stat w) })"

subsection \<open>Data interrupts of asynchronous mode\<close>

definition r56_isr_transmit_data :: "world \<Rightarrow> world option" where
  "r56_isr_transmit_data w =
    (let w = usc_ClearIrqPendingBits w TRANSMIT_DATA
     in do { tty \<leftarrow> port_tty (info w);
             if stopped tty \<or> hw_stopped tty then Some (usc_stop_transmitter w)
             else do { w \<leftarrow> (if xmit_cnt (info w) \<noteq> 0 then usc_load_txfifo w
                             else Some (set_info (tx_active_update (\<lambda>_. False)) w));
                       Some (if xmit_cnt (info w) < WAKEUP_CHARS then request_bh BH_TRANSMIT w else w) } })"

abbreviation (input) RXSTATUS_CHAR_ERRORS :: u16 where
  "RXSTATUS_CHAR_ERRORS \<equiv>
     RXSTATUS_FRAMING_ERROR + RXSTATUS_PARITY_ERROR + RXSTATUS_OVERRUN + RXSTATUS_BREAK_RECEIVED"

text \<open>
  The error part of the receive loop: the status that is left, after the break status has hidden
  framing and parity errors, and the counters.
\<close>

definition rx_char_error :: "u16 \<Rightarrow> world \<Rightarrow> u16 \<times> world" where
  "rx_char_error stat w =
    (if tst stat RXSTATUS_BREAK_RECEIVED
     then (stat AND NOT (RXSTATUS_FRAMING_ERROR + RXSTATUS_PARITY_ERROR),
           set_icount (ic_brk_update (\<lambda>n. n + 1)) w)
     else if tst stat RXSTATUS_PARITY_ERROR then (stat, set_icount (ic_parity_update (\<lambda>n. n + 1)) w)
     else if tst stat RXSTATUS_FRAMING_ERROR then (stat, set_icount (ic_frame_update (\<lambda>n. n + 1)) w)
     else if tst stat RXSTATUS_OVERRUN
     then (stat, set_icount (ic_overrun_update (\<lambda>n. n + 1)) (usc_RTCmd w RTCmd_PurgeRxFifo))
     else (stat, w))"

definition rx_char_flag :: "u16 \<Rightarrow> world \<Rightarrow> u8 \<times> world" where
  "rx_char_flag stat w =
    (if tst stat RXSTATUS_BREAK_RECEIVED
     then (TTY_BREAK, if tst (port_flags (info w)) ASYNC_SAK then kcall Do_SAK w else w)
     else if tst stat RXSTATUS_PARITY_ERROR then (TTY_PARITY, w)
     else if tst stat RXSTATUS_FRAMING_ERROR then (TTY_FRAME, w)
     else (0, w))"

definition tty_insert_flip_char :: "u8 \<Rightarrow> u8 \<Rightarrow> world \<Rightarrow> int \<times> world" where
  "tty_insert_flip_char ch flag w =
    (let w = kcall (Tty_insert_flip_char ch flag) w in (os_ret (env w) (trace w), w))"

text \<open>
  What becomes of a character with the given status: whether it is discarded, its flag, and the
  status that is left; then its insertion. \<open>work\<close> is the local counter of the source.
\<close>

definition rx_char_check :: "u16 \<Rightarrow> world \<Rightarrow> bool \<times> u8 \<times> u16 \<times> world" where
  "rx_char_check stat w =
    (if tst stat RXSTATUS_CHAR_ERRORS
     then let (stat, w) = rx_char_error stat w
          in if tst stat (ignore_status_mask (info w)) then (True, 0, stat, w)
             else let stat = stat AND read_status_mask (info w);
                      (flag, w) = rx_char_flag stat w
                  in (False, flag, stat, w)
     else (False, 0, stat, w))"

definition rx_char_insert :: "int \<Rightarrow> u8 \<Rightarrow> u8 \<Rightarrow> u16 \<Rightarrow> world \<Rightarrow> int \<times> world" where
  "rx_char_insert work DataByte flag stat w =
    (let (r, w) = tty_insert_flip_char DataByte flag w
     in if tst stat RXSTATUS_OVERRUN
        then let (r, w) = tty_insert_flip_char 0 TTY_OVERRUN w in (work + r, w)
        else (work, w))"

definition rx_char :: "int \<Rightarrow> world \<Rightarrow> int \<times> world" where
  "rx_char work w =
    (let (v, w) = usc_InReg w CCAR;
         w = usc_OutReg w CCAR ((v AND 0x0780) OR (RDR + LSBONLY));
         (v, w) = usc_InReg w CCAR;
         DataByte = (ucast (v AND 0x00FF) :: u8);
         (stat, w) = usc_InReg w RCSR;
         w = (if tst stat RXSTATUS_CHAR_ERRORS then usc_UnlatchRxstatusBits w RXSTATUS_ALL else w);
         w = set_icount (ic_rx_update (\<lambda>n. n + 1)) w;
         (discard, flag, stat, w) = rx_char_check stat w
     in if discard then (work, w) else rx_char_insert work DataByte flag stat w)"

partial_function (option) receive_data_loop :: "int \<Rightarrow> world \<Rightarrow> (int \<times> world) option" where
  [code]: "receive_data_loop work w =
    (let (v, w) = usc_InReg w RICR
     in if drop_bit 8 v \<noteq> 0
        then let (work, w) = rx_char work w in receive_data_loop work w
        else Some (work, w))"

definition r56_isr_receive_data :: "world \<Rightarrow> world option" where
  "r56_isr_receive_data w =
    (let w = usc_ClearIrqPendingBits w RECEIVE_DATA;
         w = usc_RCmd w RCmd_SelectRicrRxFifostatus;
         w = usc_rmw w RICR (\<lambda>v. v AND NOT BIT3)
     in do { (work, w) \<leftarrow> receive_data_loop 0 w;
             Some (if work \<noteq> 0 then kcall Tty_flip_buffer_push w else w) })"

subsection \<open>Miscellaneous and DMA interrupts\<close>

definition r56_isr_misc :: "world \<Rightarrow> world option" where
  "r56_isr_misc w =
    (let (stat, w) = usc_InReg w MISR;
         w = (if tst stat MISCSTATUS_RCC_UNDERRUN \<and> mode (params (info w)) = R56_MODE_HDLC
              then let w = usc_EnableReceiver w DISABLE_UNCONDITIONAL;
                       w = usc_DmaCmd w DmaCmd_ResetRxChannel;
                       w = usc_UnlatchRxstatusBits w RXSTATUS_ALL;
                       w = usc_ClearIrqPendingBits w (RECEIVE_DATA + RECEIVE_STATUS);
                       w = usc_DisableInterrupts w (RECEIVE_DATA + RECEIVE_STATUS);
                       w = request_bh BH_RECEIVE w
                   in set_info (rx_rcc_underrun_update (\<lambda>_. True)) w
              else w);
         w = usc_ClearIrqPendingBits w MISC
     in Some (usc_UnlatchMiscstatusBits w stat))"

definition r56_isr_null :: "world \<Rightarrow> world option" where
  "r56_isr_null w = Some w"

definition r56_isr_receive_dma :: "world \<Rightarrow> world option" where
  "r56_isr_receive_dma w =
    (let w = usc_OutDmaReg w CDIR (BIT9 + BIT1);
         (stat, w) = usc_InDmaReg w RDMR;
         w = request_bh BH_RECEIVE w
     in Some (if tst stat BIT3
              then set_icount (ic_buf_overrun_update (\<lambda>n. n + 1))
                     (set_info (rx_overflow_update (\<lambda>_. True)) w)
              else w))"

definition r56_isr_transmit_dma :: "world \<Rightarrow> world option" where
  "r56_isr_transmit_dma w =
    (let w = usc_OutDmaReg w CDIR (BIT8 + BIT0);
         (stat, w) = usc_InDmaReg w TDMR
     in if tst stat BIT2
        then do { (loaded, w) \<leftarrow> load_next_tx_holding_buffer
                                   (set_info (tx_dma_buffers_used_update (\<lambda>n. n - 1)) w);
                  Some (if loaded then request_bh BH_TRANSMIT w else w) }
        else Some w)"

subsection \<open>Dispatch\<close>

definition UscIsrTable :: "(world \<Rightarrow> world option) list" where
  "UscIsrTable =
     [r56_isr_null, r56_isr_misc, r56_isr_io_pin, r56_isr_transmit_data, r56_isr_transmit_status,
      r56_isr_receive_data, r56_isr_receive_status]"

definition dispatch_vector :: "u16 \<Rightarrow> u16 \<Rightarrow> world \<Rightarrow> world option" where
  "dispatch_vector UscVector DmaVector w =
    (if UscVector \<noteq> 0 then do { isr \<leftarrow> aget UscIsrTable (unat UscVector); isr w }
     else if DmaVector AND (BIT10 OR BIT9) = BIT10 then r56_isr_transmit_dma w
     else r56_isr_receive_dma w)"

definition schedule_bh :: "world \<Rightarrow> world" where
  "schedule_bh w =
    (if pending_bh (info w) \<noteq> 0 \<and> \<not> bh_running (info w) \<and> \<not> bh_requested (info w)
     then set_info (bh_requested_update (\<lambda>_. True)) (kcall Schedule_work w)
     else w)"

definition r56_interrupt :: "world \<Rightarrow> world option" where
  "r56_interrupt w =
    (let (v, w) = usc_InReg w IVR;
         (DmaVector, w) = usc_InDmaReg w DIVR
     in do { w \<leftarrow> dispatch_vector (drop_bit 9 v) DmaVector w;
             let w = (if isr_overflow (info w) \<noteq> 0
                      then usc_DisableDmaInterrupts (usc_DisableMasterIrqBit w) DICR_MASTER else w)
             in Some (schedule_bh w) })"

subsection \<open>Bottom half\<close>

definition r56_bh_action :: "world \<Rightarrow> u32 \<times> world" where
  "r56_bh_action w =
    (let (rc, w) =
           (if tst (pending_bh (info w)) BH_RECEIVE
            then (BH_RECEIVE, set_info (pending_bh_update (\<lambda>p. p AND NOT BH_RECEIVE)) w)
            else if tst (pending_bh (info w)) BH_TRANSMIT
            then (BH_TRANSMIT, set_info (pending_bh_update (\<lambda>p. p AND NOT BH_TRANSMIT)) w)
            else if tst (pending_bh (info w)) BH_STATUS
            then (BH_STATUS, set_info (pending_bh_update (\<lambda>p. p AND NOT BH_STATUS)) w)
            else (0, w))
     in (rc, if rc = 0 then set_info (\<lambda>i. i\<lparr> bh_running := False, bh_requested := False \<rparr>) w else w))"

partial_function (option) bh_receive_loop :: "bool \<Rightarrow> world \<Rightarrow> world option" where
  [code]: "bh_receive_loop hdlc w =
    (if rx_rcc_underrun (info w) then usc_start_receiver w
     else do { (r, w) \<leftarrow> (if hdlc then r56_get_rx_frame w else r56_get_raw_rx_frame w);
               if r then bh_receive_loop hdlc w else Some w })"

definition r56_bh_receive :: "world \<Rightarrow> world option" where
  "r56_bh_receive w = bh_receive_loop (mode (params (info w)) = R56_MODE_HDLC) w"

definition r56_bh_transmit :: "world \<Rightarrow> world" where
  "r56_bh_transmit w =
    (let w = (if port_tty (info w) \<noteq> None then kcall Tty_wakeup w else w)
     in if \<not> tx_active (info w) \<and> loopmode_send_done_requested (info w)
        then usc_loopmode_send_done w else w)"

definition r56_bh_status :: "world \<Rightarrow> world" where
  "r56_bh_status w =
     set_info (\<lambda>i. i\<lparr> ri_chkcount := 0, dsr_chkcount := 0, dcd_chkcount := 0, cts_chkcount := 0 \<rparr>) w"

definition bh_work :: "u32 \<Rightarrow> world \<Rightarrow> world option" where
  "bh_work action w =
    (if action = BH_RECEIVE then r56_bh_receive w
     else if action = BH_TRANSMIT then Some (r56_bh_transmit w)
     else if action = BH_STATUS then Some (r56_bh_status w)
     else Some w)"

partial_function (option) bh_loop :: "world \<Rightarrow> world option" where
  [code]: "bh_loop w =
    (let (action, w) = r56_bh_action w
     in if action \<noteq> 0 then do { w \<leftarrow> bh_work action w; bh_loop w } else Some w)"

definition r56_bh_handler :: "world \<Rightarrow> world option" where
  "r56_bh_handler w = bh_loop (set_info (bh_running_update (\<lambda>_. True)) w)"

subsection \<open>Transmit time-out\<close>

definition r56_tx_timeout :: "world \<Rightarrow> world" where
  "r56_tx_timeout w =
    (let w = (if tx_active (info w) \<and> sync_mode (info w)
              then set_icount (ic_txtimeout_update (\<lambda>n. n + 1)) w else w);
         w = set_info (\<lambda>i. i\<lparr> tx_active := False, xmit_cnt := 0, xmit_head := 0, xmit_tail := 0 \<rparr>) w;
         w = (if tst (flags (params (info w))) HDLC_FLAG_HDLC_LOOPMODE
              then usc_loopmode_cancel_transmit w else w)
     in r56_bh_transmit w)"

subsection \<open>What the receive path leaves alone\<close>

text \<open>
  The device instance with the fields of the receive path blanked out: two instances with the same
  rest differ at most in these fields.
\<close>

definition but_rx :: "r56_struct \<Rightarrow> r56_struct" where
  "but_rx i =
     i\<lparr> rx_buffer_list := [], current_rx_buffer := 0, rx_enabled := False, rx_overflow := False,
        rx_rcc_underrun := False, icount := zero_icount, intermediate_rxbuffer := None \<rparr>"

lemma but_rx_update [simp]:
  "but_rx (rx_buffer_list_update f i) = but_rx i" "but_rx (current_rx_buffer_update g i) = but_rx i"
  "but_rx (rx_enabled_update h i) = but_rx i" "but_rx (rx_overflow_update h i) = but_rx i"
  "but_rx (rx_rcc_underrun_update h i) = but_rx i" "but_rx (icount_update k i) = but_rx i"
  "but_rx (intermediate_rxbuffer_update l i) = but_rx i"
  by (simp_all add: but_rx_def)

lemma start_receiver_but_rx: "usc_start_receiver w = Some w' \<Longrightarrow> but_rx (info w') = but_rx (info w)"
  by (auto simp: usc_start_receiver_def r56_reset_rx_dma_buffers_def Let_def
      split: Option.bind_splits if_splits)

lemma free_rx_frame_buffers_but_rx:
  "r56_free_rx_frame_buffers a b w = Some w' \<Longrightarrow> but_rx (info w') = but_rx (info w)"
  by (auto simp: r56_free_rx_frame_buffers_def split: Option.bind_splits)

lemma rx_cleanup_but_rx: "rx_cleanup j w = Some w' \<Longrightarrow> but_rx (info w') = but_rx (info w)"
  by (auto simp: rx_cleanup_def dest: start_receiver_but_rx split: Option.bind_splits if_splits)

lemma ldisc_receive_buf_info [simp]: "info (ldisc_receive_buf bs w) = info w"
  by (simp add: ldisc_receive_buf_def)

lemma rx_deliver_but_rx: "rx_deliver s e w = Some w' \<Longrightarrow> but_rx (info w') = but_rx (info w)"
  by (auto simp: rx_deliver_def rx_assemble_def Let_def split: Option.bind_splits if_splits)

lemma raw_deliver_but_rx: "raw_deliver e w = Some w' \<Longrightarrow> but_rx (info w') = but_rx (info w)"
  by (auto simp: raw_deliver_def Let_def split: Option.bind_splits if_splits)

lemma count_rx_error_but_rx [simp]: "but_rx (info (count_rx_error st w)) = but_rx (info w)"
  by (simp add: count_rx_error_def)

lemmas rx_path_but_rx =
  start_receiver_but_rx free_rx_frame_buffers_but_rx rx_cleanup_but_rx rx_deliver_but_rx raw_deliver_but_rx

lemma get_rx_frame_but_rx: "r56_get_rx_frame w = Some (r, w') \<Longrightarrow> but_rx (info w') = but_rx (info w)"
  by (auto simp: r56_get_rx_frame_def Let_def dest!: rx_path_but_rx
      split: Option.bind_splits rx_search.splits if_splits)

lemma get_raw_rx_frame_but_rx: "r56_get_raw_rx_frame w = Some (r, w') \<Longrightarrow> but_rx (info w') = but_rx (info w)"
  by (auto simp: r56_get_raw_rx_frame_def Let_def dest!: rx_path_but_rx
      split: Option.bind_splits if_splits)

lemma but_rx_fields:
  assumes "but_rx i = but_rx j"
  shows "params i = params j" "pending_bh i = pending_bh j" "bh_running i = bh_running j"
    "bh_requested i = bh_requested j" "max_frame_size i = max_frame_size j"
    "tx_buffer_list i = tx_buffer_list j" "tx_buffer_count i = tx_buffer_count j"
    "current_tx_buffer i = current_tx_buffer j" "start_tx_dma_buffer i = start_tx_dma_buffer j"
    "tx_active i = tx_active j" "xmit_buf i = xmit_buf j" "xmit_head i = xmit_head j" "xmit_tail i = xmit_tail j"
    "xmit_cnt i = xmit_cnt j" "port_tty i = port_tty j" "num_tx_holding_buffers i = num_tx_holding_buffers j"
    "tx_holding_buffers i = tx_holding_buffers j" "tx_holding_count i = tx_holding_count j"
    "get_tx_holding_index i = get_tx_holding_index j" "put_tx_holding_index i = put_tx_holding_index j"
    "loopmode_send_done_requested i = loopmode_send_done_requested j" "port_flags i = port_flags j"
    "tx_dma_buffers_used i = tx_dma_buffers_used j" "rx_buffer_count i = rx_buffer_count j"
    "x_char i = x_char j" "tx_enabled i = tx_enabled j"
  using arg_cong [OF assms, of params]
    arg_cong [OF assms, of pending_bh] arg_cong [OF assms, of bh_running]
    arg_cong [OF assms, of bh_requested] arg_cong [OF assms, of max_frame_size]
    arg_cong [OF assms, of tx_buffer_list] arg_cong [OF assms, of tx_buffer_count]
    arg_cong [OF assms, of current_tx_buffer] arg_cong [OF assms, of start_tx_dma_buffer]
    arg_cong [OF assms, of tx_active] arg_cong [OF assms, of xmit_buf]
    arg_cong [OF assms, of xmit_head] arg_cong [OF assms, of xmit_tail]
    arg_cong [OF assms, of xmit_cnt] arg_cong [OF assms, of port_tty]
    arg_cong [OF assms, of num_tx_holding_buffers] arg_cong [OF assms, of tx_holding_buffers]
    arg_cong [OF assms, of tx_holding_count] arg_cong [OF assms, of get_tx_holding_index]
    arg_cong [OF assms, of put_tx_holding_index]
    arg_cong [OF assms, of loopmode_send_done_requested] arg_cong [OF assms, of port_flags]
    arg_cong [OF assms, of tx_dma_buffers_used] arg_cong [OF assms, of rx_buffer_count]
    arg_cong [OF assms, of x_char] arg_cong [OF assms, of tx_enabled]
  by (simp_all add: but_rx_def)

subsection \<open>The bottom half ends\<close>

lemma bh_receive_loop_total:
  "rx_ready (info w) \<Longrightarrow>
   \<exists>w'. bh_receive_loop hdlc w = Some w' \<and> rx_ready (info w') \<and> but_rx (info w') = but_rx (info w) \<and>
        mem w' = mem w \<and> env w' = env w"
proof (induction "busy (info w)" arbitrary: w rule: less_induct)
  case less
  have ring: "rx_ring (info w)" using less.prems by (rule rx_readyE)
  show ?case
  proof (cases "rx_rcc_underrun (info w)")
    case True
    from usc_start_receiver_total [OF ring] obtain w' where
      "usc_start_receiver w = Some w'" "info w' = started_info (info w)" "env w' = env w" "mem w' = mem w" by blast
    moreover have "but_rx (started_info (info w)) = but_rx (info w)" by (simp add: started_info_def)
    ultimately show ?thesis
      using True less.prems by (subst bh_receive_loop.simps) simp
  next
    case False
    define get where "get = (if hdlc then r56_get_rx_frame w else r56_get_raw_rx_frame w)"
    obtain r w1 where g: "get = Some (r, w1)" "rx_ready (info w1)" "mem w1 = mem w" "env w1 = env w"
        "r \<Longrightarrow> busy (info w1) < busy (info w)"
      using get_rx_frame_total [OF less.prems] get_raw_rx_frame_total [OF less.prems]
      by (cases hdlc) (auto simp: get_def)
    have e: "but_rx (info w1) = but_rx (info w)"
      using g(1) get_rx_frame_but_rx get_raw_rx_frame_but_rx by (cases hdlc) (auto simp: get_def)
    have step: "bh_receive_loop hdlc w = (if r then bh_receive_loop hdlc w1 else Some w1)"
      using False g(1) unfolding get_def by (subst bh_receive_loop.simps) simp
    show ?thesis
    proof (cases r)
      case True
      then show ?thesis using less.hyps [OF g(5) g(2)] step g(3,4) e by auto
    next
      case False
      then show ?thesis using step g e by auto
    qed
  qed
qed

text \<open>
  The invariant of an open device: both rings, the queues and the intermediate buffer are well
  formed, and only known work items are pending; with the argument true also a terminal is attached, without which
  some handlers of asynchronous mode and flow control follow a null pointer.
\<close>

definition hold_ok :: "r56_struct \<Rightarrow> bool" where
  "hold_ok i \<longleftrightarrow>
     (hold_inv i \<or> num_tx_holding_buffers i \<le> 0 \<and> tx_holding_count i = 0) \<and>
     (mode (params i) = R56_MODE_ASYNC \<longrightarrow> tx_holding_count i = 0)"

definition xmit_ok :: "r56_struct \<Rightarrow> bool" where
  "xmit_ok i \<longleftrightarrow>
     buffer_of_size 4096 (xmit_buf i) \<and> 0 \<le> xmit_cnt i \<and> 0 \<le> xmit_tail i \<and> xmit_tail i < 4096 \<and>
     (mode (params i) = R56_MODE_ASYNC \<longrightarrow> xmit_inv i)"

definition pending_ok :: "r56_struct \<Rightarrow> bool" where
  "pending_ok i \<longleftrightarrow> pending_bh i AND NOT 7 = 0"

definition dev_inv :: "bool \<Rightarrow> r56_struct \<Rightarrow> bool" where
  "dev_inv tm i \<longleftrightarrow>
     rx_ready i \<and> tx_ready i \<and> hold_ok i \<and> xmit_ok i \<and> (tm \<longrightarrow> port_tty i \<noteq> None) \<and> pending_ok i"

abbreviation drv_inv :: "r56_struct \<Rightarrow> bool" where
  "drv_inv \<equiv> dev_inv True"

lemmas drv_inv_parts =
  dev_inv_def rx_ready_def rx_ring_def tx_ready_def tx_ring_def hold_ok_def hold_inv_def xmit_ok_def
  xmit_inv_def pending_ok_def

lemma drv_inv_update [simp]:
  "dev_inv tm (icount_update f1 i) = dev_inv tm i" "dev_inv tm (rx_enabled_update f2 i) = dev_inv tm i"
  "dev_inv tm (rx_overflow_update f2 i) = dev_inv tm i" "dev_inv tm (rx_rcc_underrun_update f2 i) = dev_inv tm i"
  "dev_inv tm (tx_active_update f2 i) = dev_inv tm i" "dev_inv tm (tx_enabled_update f2 i) = dev_inv tm i"
  "dev_inv tm (tx_timer_update f2 i) = dev_inv tm i" "dev_inv tm (serial_signals_update f3 i) = dev_inv tm i"
  "dev_inv tm (drop_rts_on_tx_done_update f2 i) = dev_inv tm i" "dev_inv tm (enable_rx_on_tx_done_update f2 i) = dev_inv tm i"
  "dev_inv tm (cmr_value_update f4 i) = dev_inv tm i" "dev_inv tm (loopmode_insert_requested_update f2 i) = dev_inv tm i"
  "dev_inv tm (loopmode_send_done_requested_update f2 i) = dev_inv tm i" "dev_inv tm (bh_running_update f2 i) = dev_inv tm i"
  "dev_inv tm (bh_requested_update f2 i) = dev_inv tm i" "dev_inv tm (irq_occurred_update f2 i) = dev_inv tm i"
  "dev_inv tm (ri_chkcount_update f5 i) = dev_inv tm i" "dev_inv tm (dsr_chkcount_update f5 i) = dev_inv tm i"
  "dev_inv tm (dcd_chkcount_update f5 i) = dev_inv tm i" "dev_inv tm (cts_chkcount_update f5 i) = dev_inv tm i"
  "dev_inv tm (sig_events_update f6 i) = dev_inv tm i" "dev_inv tm (x_char_update f5 i) = dev_inv tm i"
  "dev_inv tm (tx_dma_buffers_used_update f5 i) = dev_inv tm i"
  by (simp_all add: drv_inv_parts)

lemma drv_inv_request [simp]: "dev_inv tm (info w) \<Longrightarrow> b \<in> {1, 2, 4} \<Longrightarrow> dev_inv tm (info (request_bh b w))"
  by (auto simp: request_bh_def drv_inv_parts word_ao_dist)

lemma drv_inv_tty [simp]: "dev_inv tm i \<Longrightarrow> dev_inv tm (port_tty_update (\<lambda>_. Some t) i)"
  by (simp add: drv_inv_parts)

lemma drv_inv_rx:
  assumes "dev_inv tm i" "rx_ready i'" "but_rx i' = but_rx i"
  shows "dev_inv tm i'"
  using assms(1,2) but_rx_fields [OF assms(3)]
  by (simp add: dev_inv_def tx_ready_def tx_ring_def hold_ok_def hold_inv_def xmit_ok_def xmit_inv_def pending_ok_def)

lemma drv_invD:
  assumes "dev_inv tm i"
  shows "rx_ready i" "rx_ring i" "tx_ready i" "tx_ring i" "hold_ok i" "xmit_ok i" "pending_ok i" "tm \<longrightarrow> port_tty i \<noteq> None"
  using assms by (auto simp: dev_inv_def rx_ready_def tx_ready_def)

text \<open>The next work item.\<close>

lemma bh_action_cases:
  assumes "r56_bh_action w = (a, w')"
  shows "a = 0 \<and> \<not> tst (pending_bh (info w)) 1 \<and> \<not> tst (pending_bh (info w)) 2 \<and> \<not> tst (pending_bh (info w)) 4 \<and>
      info w' = (info w)\<lparr> bh_running := False, bh_requested := False \<rparr> \<or>
    a \<in> {1, 2, 4} \<and> tst (pending_bh (info w)) a \<and> info w' = (info w)\<lparr> pending_bh := pending_bh (info w) AND NOT a \<rparr>"
  and "env w' = env w" "mem w' = mem w" "trace w' = trace w"
  using assms by (auto simp: r56_bh_action_def Let_def split: if_splits)

lemma pending_ok_zero:
  assumes "pending_ok i" "\<not> tst (pending_bh i) 1" "\<not> tst (pending_bh i) 2" "\<not> tst (pending_bh i) 4"
  shows "pending_bh i = 0"
proof (rule bit_word_eqI)
  fix n assume n: "n < LENGTH(32)"
  have z: "\<not> bit (pending_bh i) 0" "\<not> bit (pending_bh i) 1" "\<not> bit (pending_bh i) 2"
  proof -
    have b: "bit (1 :: u32) 0" "bit (2 :: u32) 1" "bit (4 :: u32) 2" by simp_all
    show "\<not> bit (pending_bh i) 0" "\<not> bit (pending_bh i) 1" "\<not> bit (pending_bh i) 2"
      using assms(2-4) b unfolding tst_iff_bit by blast+
  qed
  have "\<not> bit (pending_bh i) n" if "3 \<le> n"
  proof
    assume "bit (pending_bh i) n"
    moreover have "(7 :: u32) = mask 3" by (simp add: mask_eq_exp_minus_1)
    then have "\<not> bit (7 :: u32) n" using that by (simp only: bit_mask_iff) simp
    ultimately have "bit (pending_bh i AND NOT 7) n" using n by (simp add: bit_simps)
    then show False using assms(1) by (simp add: pending_ok_def)
  qed
  then show "bit (pending_bh i) n = bit (0 :: u32) n"
    using z by (cases "3 \<le> n") (auto simp: not_le less_Suc_eq numeral_3_eq_3 numeral_2_eq_2)
qed

text \<open>Work items still to be done.\<close>

definition bh_todo :: "u32 \<Rightarrow> nat" where
  "bh_todo p = of_bool (tst p 1) + of_bool (tst p 2) + of_bool (tst p 4)"

lemma bh_todo_clear: "tst p a \<Longrightarrow> a \<in> {1, 2, 4} \<Longrightarrow> bh_todo (p AND NOT a) < bh_todo p"
  by (auto simp: bh_todo_def tst_def word_bw_assocs)

lemma drv_inv_pending [simp]: "dev_inv tm i \<Longrightarrow> dev_inv tm (pending_bh_update (\<lambda>_. pending_bh i AND NOT a) i)"
proof -
  have "(p AND NOT a) AND NOT 7 = (p AND NOT 7) AND NOT a" for p :: u32 by (rule bit_word_eqI) (auto simp: bit_simps)
  then show "dev_inv tm i \<Longrightarrow> ?thesis" by (simp add: drv_inv_parts)
qed

lemma bh_work_total:
  assumes "dev_inv tm (info w)"
  shows "\<exists>w'. bh_work a w = Some w' \<and> dev_inv tm (info w') \<and> env w' = env w \<and> mem w' = mem w \<and>
    pending_bh (info w') = pending_bh (info w) \<and> bh_running (info w') = bh_running (info w) \<and>
    bh_requested (info w') = bh_requested (info w) \<and> params (info w') = params (info w)"
proof -
  obtain w1 where w1: "r56_bh_receive w = Some w1" "rx_ready (info w1)" "but_rx (info w1) = but_rx (info w)"
      "env w1 = env w" "mem w1 = mem w"
    using bh_receive_loop_total [of w] drv_invD [OF assms] by (auto simp: r56_bh_receive_def)
  have "dev_inv tm (info w1)" using assms w1(2,3) by (rule drv_inv_rx)
  moreover have "dev_inv tm (info (r56_bh_transmit w)) \<and> dev_inv tm (info (r56_bh_status w))"
    using assms by (simp add: r56_bh_transmit_def r56_bh_status_def Let_def)
  ultimately show ?thesis
    using assms w1 but_rx_fields [OF w1(3)]
    by (auto simp: bh_work_def r56_bh_transmit_def r56_bh_status_def Let_def)
qed

lemma bh_loop_total:
  "dev_inv tm (info w) \<Longrightarrow>
   \<exists>w'. bh_loop w = Some w' \<and> dev_inv tm (info w') \<and> env w' = env w \<and> mem w' = mem w \<and>
     pending_bh (info w') = 0 \<and> \<not> bh_running (info w') \<and> \<not> bh_requested (info w')"
proof (induction "bh_todo (pending_bh (info w))" arbitrary: w rule: less_induct)
  case less
  obtain a w1 where a: "r56_bh_action w = (a, w1)" by (cases "r56_bh_action w")
  note c = bh_action_cases [OF a]
  have step: "bh_loop w = (if a \<noteq> 0 then do { w \<leftarrow> bh_work a w1; bh_loop w } else Some w1)"
    by (subst bh_loop.simps) (simp add: a)
  show ?case
  proof (cases "a = 0")
    case True
    then have z: "\<not> tst (pending_bh (info w)) 1" "\<not> tst (pending_bh (info w)) 2" "\<not> tst (pending_bh (info w)) 4"
      "info w1 = (info w)\<lparr> bh_running := False, bh_requested := False \<rparr>"
      using c(1) by auto
    have "pending_bh (info w) = 0"
      using pending_ok_zero [OF drv_invD(7) [OF less.prems] z(1-3)] .
    then show ?thesis using True step z(4) c(2,3) less.prems by simp
  next
    case False
    then have i1: "a \<in> {1, 2, 4}" "tst (pending_bh (info w)) a"
      "info w1 = (info w)\<lparr> pending_bh := pending_bh (info w) AND NOT a \<rparr>"
      using c(1) by auto
    have "dev_inv tm (info w1)" using less.prems by (simp add: i1(3))
    from bh_work_total [OF this, of a] obtain w2 where w2: "bh_work a w1 = Some w2" "dev_inv tm (info w2)"
      "env w2 = env w1" "mem w2 = mem w1" "pending_bh (info w2) = pending_bh (info w1)" by blast
    have "bh_todo (pending_bh (info w2)) < bh_todo (pending_bh (info w))"
      using bh_todo_clear [OF i1(2,1)] by (simp add: w2(5) i1(3))
    from less.hyps [OF this w2(2)] show ?thesis using False step w2(1,3,4) c(2,3) by auto
  qed
qed

end
