(* ===== verification/R56_Handlers.thy ===== *)
theory R56_Handlers
  imports R56_Isr
begin

text \<open>
  Every interrupt handler of \<open>R56_Isr\<close> returns from every well-formed state and leaves a
  well-formed state: no index outside a ring, a queue or a buffer, no null terminal, no endless loop.
  The contract is the predicate \<open>handled\<close>; there is one lemma per handler.
\<close>

subsection \<open>The handlers keep the invariant\<close>

text \<open>Loading never leaves the ring, whatever the size of the frame.\<close>

lemma load_tx_loop_safe:
  "i < length es \<Longrightarrow>
   \<exists>i' es' m' used'. load_tx_loop pci (length es) buf i es m used = Some (i', es', m', used') \<and>
     i' < length es' \<and> length es' = length es \<and> map virt_addr es' = map virt_addr es"
proof (induction "length buf" arbitrary: buf i es m used rule: less_induct)
  case less
  show ?case
  proof (cases "buf = []")
    case True
    then show ?thesis using less.prems by (subst load_tx_loop.simps) simp
  next
    case False
    define c where "c = (if length buf > DMABUFFERSIZE then DMABUFFERSIZE else length buf)"
    define es1 where "es1 = es[i := (es ! i)\<lparr> count := of_nat c \<rparr>]"
    define m1 where "m1 = (if pci then r56_load_pci_memory (virt_addr (es ! i)) buf c m
                           else mem_write (virt_addr (es ! i)) (take c buf) m)"
    have eq: "load_tx_loop pci (length es) buf i es m used =
        load_tx_loop pci (length es1) (drop c buf) (ring_next (length es1) i) es1 m1 (used + 1)"
      using False less.prems by (subst load_tx_loop.simps) (simp add: c_def [symmetric] es1_def m1_def Let_def)
    have l1: "length es1 = length es" "map virt_addr es1 = map virt_addr es"
      by (simp_all add: es1_def map_update) (metis list_update_id map_update)
    have "length (drop c buf) < length buf" using False by (simp add: c_def)
    moreover have "ring_next (length es1) i < length es1" using less.prems l1 by simp
    ultimately show ?thesis using less.hyps [of "drop c buf" "ring_next (length es1) i" es1 m1 "used + 1"] eq l1 by auto
  qed
qed

lemma load_tx_dma_buffer_safe:
  assumes ready: "tx_ready (info w)" and size: "unat n \<le> length b"
  shows "\<exists>w' c es s u i. r56_load_tx_dma_buffer b n w = Some w' \<and> tx_ready (info w') \<and> env w' = env w \<and> trace w' = trace w \<and>
    info w' = (info w)\<lparr> cmr_value := c, start_tx_dma_buffer := s, tx_buffer_list := es, tx_dma_buffers_used := u,
                        current_tx_buffer := i \<rparr>"
proof -
  let ?es = "tx_buffer_list (info w)"
  define s where "s = nat (current_tx_buffer (info w))"
  define c where "c = (if tst (flags (params (info w))) HDLC_FLAG_HDLC_LOOPMODE then cmr_value (info w) OR BIT13
                       else cmr_value (info w))"
  define es0 where "es0 = ?es[s := (?es ! s)\<lparr> status := c AND 0xf000, rcc := ucast n, count := ucast n \<rparr>]"
  have sl: "s < length ?es" "unat (tx_buffer_count (info w)) = length ?es" "current_tx_buffer (info w) = int s"
    using ready by (simp_all add: tx_ready_def tx_ring_def s_def)
  have l0: "length es0 = length ?es" "map virt_addr es0 = map virt_addr ?es"
    by (simp_all add: es0_def map_update) (metis list_update_id map_update)
  obtain i' es' m' u' where r: "load_tx_loop (bus_type (info w) = R56_BUS_TYPE_PCI) (length es0) (take (unat n) b) s es0
      (mem w) (tx_dma_buffers_used (info w)) = Some (i', es', m', u')"
    and k: "i' < length es'" "length es' = length es0" "map virt_addr es' = map virt_addr es0"
    using load_tx_loop_safe [of s es0 "bus_type (info w) = R56_BUS_TYPE_PCI" "take (unat n) b" "mem w"
        "tx_dma_buffers_used (info w)"] sl(1) l0(1) by auto
  define w' where "w' = w\<lparr> info := (info w)\<lparr> cmr_value := c, start_tx_dma_buffer := int s, tx_buffer_list := es',
      tx_dma_buffers_used := u', current_tx_buffer := int i' \<rparr>, mem := m' \<rparr>"
  have "r56_load_tx_dma_buffer b n w = Some w'"
    using sl r size l0
    by (cases w; cases "tst (flags (params (info w))) HDLC_FLAG_HDLC_LOOPMODE")
      (simp_all add: r56_load_tx_dma_buffer_def Let_def w'_def es0_def c_def)
  moreover have "tx_ready (info w')"
    using ready k l0 sl by (simp add: w'_def tx_ready_def tx_ring_def)
  moreover have "info w' = (info w)\<lparr> cmr_value := c, start_tx_dma_buffer := int s, tx_buffer_list := es',
      tx_dma_buffers_used := u', current_tx_buffer := int i' \<rparr>" "env w' = env w" "trace w' = trace w"
    by (simp_all add: w'_def)
  ultimately show ?thesis by blast
qed

lemma drv_inv_tx_load:
  assumes "dev_inv tm i" "tx_ready (i\<lparr> cmr_value := c, start_tx_dma_buffer := s, tx_buffer_list := es,
                              tx_dma_buffers_used := u, current_tx_buffer := k \<rparr>)"
  shows "dev_inv tm (i\<lparr> cmr_value := c, start_tx_dma_buffer := s, tx_buffer_list := es,
                     tx_dma_buffers_used := u, current_tx_buffer := k \<rparr>)"
  using assms by (simp add: dev_inv_def rx_ready_def rx_ring_def hold_ok_def hold_inv_def xmit_ok_def xmit_inv_def
      pending_ok_def)

text \<open>Who uses the device, and the fields that only the dispatcher and the bottom half work with.\<close>

definition owner :: "r56_struct \<Rightarrow> int \<times> u32 \<times> bool" where
  "owner i = (netcount i, port_flags i, port_tty i = None)"

definition ctl :: "r56_struct \<Rightarrow> R56_PARAMS \<times> u32 \<times> bool \<times> bool \<times> int \<times> u32 \<times> bool" where
  "ctl i = (params i, pending_bh i, bh_running i, bh_requested i, owner i)"

lemma load_next_tx_holding_buffer_inv:
  assumes inv: "dev_inv tm (info w)"
  shows "\<exists>r w'. load_next_tx_holding_buffer w = Some (r, w') \<and> dev_inv tm (info w') \<and> ctl (info w') = ctl (info w) \<and>
    env w' = env w"
proof (cases "tx_holding_count (info w) = 0")
  case True
  then show ?thesis using inv by (auto simp: load_next_tx_holding_buffer_def)
next
  case False
  have hold: "hold_inv (info w)" and sync: "mode (params (info w)) \<noteq> R56_MODE_ASYNC"
    using False drv_invD(5) [OF inv] by (auto simp: hold_ok_def)
  from hold obtain n g c where n: "num_tx_holding_buffers (info w) = int n" "n \<le> length (tx_holding_buffers (info w))"
    and g: "get_tx_holding_index (info w) = int g" "g < n" and c: "tx_holding_count (info w) = int c"
    and it: "hold_items (info w) = map held_frame (ring_items (take n (tx_holding_buffers (info w))) g c)"
    by (rule hold_invE)
  define h where "h = tx_holding_buffers (info w) ! g"
  have h: "aget (tx_holding_buffers (info w)) g = Some h" using g n by (simp add: h_def)
  obtain b where b: "buffer h = Some b" "0 \<le> buffer_size h" "nat (buffer_size h) \<le> length b"
    using hold g n by (auto simp: hold_inv_def h_def buffer_of_size_def split: option.splits)
  have ne: "hold_items (info w) \<noteq> []" using False c it by (cases c) (auto simp: ring_items_def)
  from hold_get_law [OF hold ne] have drop: "hold_inv (hold_drop (info w))" using h g by (auto simp: hold_get_def)
  define w0 where "w0 = set_info (xmit_cnt_update (\<lambda>_. buffer_size h)) w"
  have inv0: "dev_inv tm (info w0)"
    using inv sync b(2) by (simp add: w0_def dev_inv_def rx_ready_def rx_ring_def tx_ready_def tx_ring_def hold_ok_def
        hold_inv_def xmit_ok_def pending_ok_def)
  have u: "unat (of_int (buffer_size h) :: u32) \<le> length b"
  proof -
    have "unat (of_int (buffer_size h) :: u32) = nat (buffer_size h) mod 2 ^ 32"
      using b(2) by (simp add: unsigned_of_int take_bit_eq_mod nat_mod_distrib)
    then show ?thesis using b(3) by (metis le_trans mod_less_eq_dividend)
  qed
  obtain w1 cm es s us k where w1: "r56_load_tx_dma_buffer b (of_int (buffer_size h)) w0 = Some w1" "env w1 = env w0"
    "tx_ready (info w1)"
    "info w1 = (info w0)\<lparr> cmr_value := cm, start_tx_dma_buffer := s, tx_buffer_list := es, tx_dma_buffers_used := us,
                        current_tx_buffer := k \<rparr>"
    using load_tx_dma_buffer_safe [OF drv_invD(3) [OF inv0] u] by blast
  have inv1: "dev_inv tm (info w1)"
    using drv_inv_tx_load [OF inv0] w1(3) unfolding w1(4) by blast
  define w' where "w' = mod_timer (set_info hold_drop w1)"
  have "hold_inv (info w')"
    using drop by (simp add: w'_def w1(4) w0_def mod_timer_def hold_drop_def hold_inv_def)
  then have "dev_inv tm (info w')"
    using inv1 sync
    by (simp add: w'_def mod_timer_def hold_drop_def dev_inv_def rx_ready_def rx_ring_def tx_ready_def tx_ring_def
        hold_ok_def xmit_ok_def pending_ok_def w1(4) w0_def)
  moreover have "ctl (info w') = ctl (info w)" "env w' = env w"
    by (simp_all add: w'_def mod_timer_def hold_drop_def ctl_def owner_def w1 w0_def)
  moreover have "load_next_tx_holding_buffer w = Some (True, w') \<or> load_next_tx_holding_buffer w = Some (False, w)"
    using False h g b(1) w1(1) unfolding load_next_tx_holding_buffer_def w'_def w0_def
    by (auto simp: Let_def)
  ultimately show ?thesis using inv by auto
qed

lemma rx_ready_cong:
  "rx_buffer_list i' = rx_buffer_list i \<Longrightarrow> rx_buffer_count i' = rx_buffer_count i \<Longrightarrow>
   current_rx_buffer i' = current_rx_buffer i \<Longrightarrow> intermediate_rxbuffer i' = intermediate_rxbuffer i \<Longrightarrow>
   max_frame_size i' = max_frame_size i \<Longrightarrow> rx_ready i' = rx_ready i"
  by (simp only: rx_ready_def rx_ring_def)

lemma tx_ready_cong:
  "tx_buffer_list i' = tx_buffer_list i \<Longrightarrow> tx_buffer_count i' = tx_buffer_count i \<Longrightarrow>
   current_tx_buffer i' = current_tx_buffer i \<Longrightarrow> start_tx_dma_buffer i' = start_tx_dma_buffer i \<Longrightarrow>
   tx_ready i' = tx_ready i"
  by (simp only: tx_ready_def tx_ring_def)

lemma hold_ok_cong:
  "num_tx_holding_buffers i' = num_tx_holding_buffers i \<Longrightarrow> tx_holding_buffers i' = tx_holding_buffers i \<Longrightarrow>
   tx_holding_count i' = tx_holding_count i \<Longrightarrow> get_tx_holding_index i' = get_tx_holding_index i \<Longrightarrow>
   put_tx_holding_index i' = put_tx_holding_index i \<Longrightarrow> max_frame_size i' = max_frame_size i \<Longrightarrow>
   params i' = params i \<Longrightarrow> hold_ok i' = hold_ok i"
  by (simp only: hold_ok_def hold_inv_def)

lemma but_start_fields:
  assumes "but_start i = but_start j"
  shows "params i = params j" "pending_bh i = pending_bh j" "bh_running i = bh_running j"
    "bh_requested i = bh_requested j" "max_frame_size i = max_frame_size j"
    "tx_buffer_count i = tx_buffer_count j" "current_tx_buffer i = current_tx_buffer j"
    "start_tx_dma_buffer i = start_tx_dma_buffer j" "xmit_buf i = xmit_buf j" "xmit_head i = xmit_head j"
    "port_tty i = port_tty j" "num_tx_holding_buffers i = num_tx_holding_buffers j"
    "tx_holding_buffers i = tx_holding_buffers j" "tx_holding_count i = tx_holding_count j"
    "get_tx_holding_index i = get_tx_holding_index j" "put_tx_holding_index i = put_tx_holding_index j"
    "rx_buffer_count i = rx_buffer_count j" "rx_buffer_list i = rx_buffer_list j"
    "current_rx_buffer i = current_rx_buffer j" "intermediate_rxbuffer i = intermediate_rxbuffer j"
    "netcount i = netcount j" "port_flags i = port_flags j"
  using arg_cong [OF assms, of netcount] arg_cong [OF assms, of port_flags] arg_cong [OF assms, of params] arg_cong [OF assms, of pending_bh]
    arg_cong [OF assms, of bh_running] arg_cong [OF assms, of bh_requested]
    arg_cong [OF assms, of max_frame_size] arg_cong [OF assms, of tx_buffer_count]
    arg_cong [OF assms, of current_tx_buffer] arg_cong [OF assms, of start_tx_dma_buffer]
    arg_cong [OF assms, of xmit_buf] arg_cong [OF assms, of xmit_head] arg_cong [OF assms, of port_tty]
    arg_cong [OF assms, of num_tx_holding_buffers] arg_cong [OF assms, of tx_holding_buffers]
    arg_cong [OF assms, of tx_holding_count] arg_cong [OF assms, of get_tx_holding_index]
    arg_cong [OF assms, of put_tx_holding_index] arg_cong [OF assms, of rx_buffer_count]
    arg_cong [OF assms, of rx_buffer_list] arg_cong [OF assms, of current_rx_buffer]
    arg_cong [OF assms, of intermediate_rxbuffer]
  by (simp_all add: but_start_def)

lemma start_transmitter_inv:
  assumes inv: "dev_inv tm (info w)"
  shows "\<exists>w'. usc_start_transmitter w = Some w' \<and> dev_inv tm (info w') \<and> ctl (info w') = ctl (info w) \<and> env w' = env w"
proof (cases "mode (params (info w)) = R56_MODE_ASYNC")
  case True
  then have x: "xmit_inv (info w)" using drv_invD(6) [OF inv] by (simp add: xmit_ok_def)
  from start_transmitter_async [OF x True] obtain w' where w': "usc_start_transmitter w = Some w'" "xmit_inv (info w')"
    "but_start (info w') = but_start (info w)" "tx_buffer_list (info w') = tx_buffer_list (info w)" "env w' = env w" by blast
  note f = but_start_fields [OF w'(3)]
  have "rx_ready (info w')" "tx_ready (info w')" "hold_ok (info w')"
    using rx_ready_cong [of "info w'" "info w"] tx_ready_cong [of "info w'" "info w"] hold_ok_cong [of "info w'" "info w"]
      f w'(4) drv_invD [OF inv] by simp_all
  moreover have "xmit_ok (info w')"
    using w'(2) by (simp add: xmit_ok_def xmit_inv_def)
  moreover have "tm \<longrightarrow> port_tty (info w') \<noteq> None" "pending_ok (info w')"
    using drv_invD(7,8) [OF inv] f by (simp_all add: pending_ok_def)
  ultimately have "dev_inv tm (info w')" by (simp add: dev_inv_def)
  moreover have "ctl (info w') = ctl (info w)" using f by (simp add: ctl_def owner_def)
  ultimately show ?thesis using w' by blast
next
  case False
  show ?thesis
  proof (cases "xmit_cnt (info w) = 0")
    case True
    then have "usc_start_transmitter w = Some (if \<not> tx_enabled (info w)
               then let w = set_info (tx_enabled_update (\<lambda>_. True)) w
                    in if tst (flags (params (info w))) HDLC_FLAG_AUTO_CTS
                       then usc_EnableTransmitter w ENABLE_AUTO_CTS
                       else usc_EnableTransmitter w ENABLE_UNCONDITIONAL
               else w)" by (simp add: usc_start_transmitter_def)
    then show ?thesis using inv by (simp add: Let_def ctl_def owner_def)
  next
    case cnt: False
    have ring: "0 \<le> start_tx_dma_buffer (info w)" "nat (start_tx_dma_buffer (info w)) < length (tx_buffer_list (info w))"
      using drv_invD(4) [OF inv] by (simp_all add: tx_ring_def)
    from start_transmitter_dma [OF cnt False ring refl] obtain w' d s en r ov u where
      w': "usc_start_transmitter w = Some w'" "env w' = env w"
      and i: "info w' = (info w)\<lparr> drop_rts_on_tx_done := d, serial_signals := s, enable_rx_on_tx_done := en,
              rx_enabled := r, rx_overflow := ov, rx_rcc_underrun := u, tx_timer := True,
              tx_buffer_list := (tx_buffer_list (info w))[nat (start_tx_dma_buffer (info w)) :=
                if mode (params (info w)) = R56_MODE_RAW
                then (tx_buffer_list (info w) ! nat (start_tx_dma_buffer (info w)))\<lparr> rcc := 0 \<rparr>
                else tx_buffer_list (info w) ! nat (start_tx_dma_buffer (info w))],
              tx_active := True, tx_enabled := True \<rparr>" by blast
    have "map virt_addr (tx_buffer_list (info w')) = map virt_addr (tx_buffer_list (info w))"
      unfolding i by (simp add: map_update) (metis list_update_id map_update)
    moreover from this have "length (tx_buffer_list (info w')) = length (tx_buffer_list (info w))" by (rule map_eq_imp_length_eq)
    ultimately have "tx_ready (info w')"
      using drv_invD(3) [OF inv] by (simp add: tx_ready_def tx_ring_def i)
    moreover have "rx_ready (info w')" "hold_ok (info w')" "xmit_ok (info w')" "tm \<longrightarrow> port_tty (info w') \<noteq> None"
      "pending_ok (info w')" "ctl (info w') = ctl (info w)"
      using drv_invD [OF inv] unfolding i
      by (simp_all add: rx_ready_def rx_ring_def hold_ok_def hold_inv_def xmit_ok_def xmit_inv_def pending_ok_def ctl_def owner_def)
    ultimately show ?thesis using w' by (auto simp: dev_inv_def)
  qed
qed

text \<open>Loading the FIFO is safe in every mode: the tail stays in the buffer and the count goes down.\<close>

definition xmit_weak :: "r56_struct \<Rightarrow> bool" where
  "xmit_weak i \<longleftrightarrow> buffer_of_size 4096 (xmit_buf i) \<and> 0 \<le> xmit_cnt i \<and> 0 \<le> xmit_tail i \<and> xmit_tail i < 4096"

lemma xmit_get_weak:
  assumes "xmit_weak i" "0 < xmit_cnt i"
  shows "\<exists>b i'. xmit_get i = Some (b, i') \<and> xmit_weak i' \<and> xmit_cnt i' = xmit_cnt i - 1 \<and> x_char i' = x_char i"
proof -
  obtain b where b: "xmit_buf i = Some b" "length b = 4096"
    using assms(1) by (auto simp: xmit_weak_def buffer_of_size_def split: option.splits)
  then have "nat (xmit_tail i) < length b" using assms(1) by (simp add: xmit_weak_def nat_less_iff)
  then show ?thesis
    using assms b by (simp add: xmit_weak_def xmit_get_def buffer_of_size_def int_and_4095)
qed

lemma xmit_weak_other [simp]:
  "xmit_weak (icount_update f i) = xmit_weak i" "xmit_weak (x_char_update g i) = xmit_weak i"
  by (simp_all add: xmit_weak_def)

lemma load_txfifo_loop_safe:
  "xmit_weak (info w) \<Longrightarrow>
   \<exists>w'. load_txfifo_loop w = Some w' \<and> xmit_weak (info w') \<and> fifo_frame (info w) (info w') \<and> env w' = env w"
proof (induction "nat (xmit_cnt (info w)) + (if x_char (info w) = 0 then 0 else 1)"
    arbitrary: w rule: less_induct)
  case less
  define w0 where "w0 = snd (usc_InReg w TICR)"
  define Fifocount where "Fifocount = drop_bit 8 (fst (usc_InReg w TICR))"
  define wb where "wb = usc_OutReg (snd (usc_InReg w0 CCAR)) CCAR ((fst (usc_InReg w0 CCAR) AND 0x0780) OR (TDR + LSBONLY))"
  define ww where "ww = usc_OutReg (snd (usc_InReg w0 CCAR)) CCAR ((fst (usc_InReg w0 CCAR) AND 0x0780) OR TDR)"
  let ?i = "info w"
  have i: "info w0 = ?i" "env w0 = env w" "info wb = ?i" "env wb = env w" "info ww = ?i" "env ww = env w"
    by (simp_all add: w0_def wb_def ww_def)
  consider (stop) "\<not> (Fifocount \<noteq> 0 \<and> xmit_cnt ?i \<noteq> 0)"
    | (word) "Fifocount \<noteq> 0" "xmit_cnt ?i > 1" "Fifocount > 1" "x_char ?i = 0"
    | (xchar) "Fifocount \<noteq> 0" "xmit_cnt ?i \<noteq> 0" "x_char ?i \<noteq> 0"
    | (byte) "Fifocount \<noteq> 0" "xmit_cnt ?i \<noteq> 0" "\<not> (xmit_cnt ?i > 1 \<and> Fifocount > 1)" "x_char ?i = 0"
    using less.prems by (auto simp: xmit_weak_def)
  then show ?case
  proof cases
    case stop
    then have "load_txfifo_loop w = Some w0"
      by (subst load_txfifo_loop.simps) (auto simp: case_prod_unfold Let_def w0_def Fifocount_def)
    then show ?thesis using less.prems i by simp
  next
    case word
    then obtain b0 i1 where i1: "xmit_get ?i = Some (b0, i1)" "xmit_weak i1" "xmit_cnt i1 = xmit_cnt ?i - 1" "x_char i1 = 0"
      using xmit_get_weak [OF less.prems] by auto
    then obtain b1 i2 where i2: "xmit_get i1 = Some (b1, i2)" "xmit_weak i2" "xmit_cnt i2 = xmit_cnt ?i - 2" "x_char i2 = 0"
      using xmit_get_weak [OF i1(2)] word by auto
    define w1 where "w1 = set_icount (ic_tx_update (\<lambda>n. n + 2)) (set_info (\<lambda>_. i2)
        (usc_OutReg ww CCAR (ucast b0 OR push_bit 8 (ucast b1))))"
    have "load_txfifo_loop w = load_txfifo_loop w1"
      using word by (subst load_txfifo_loop.simps)
        (simp add: case_prod_unfold Let_def w0_def [symmetric] Fifocount_def [symmetric] i i1(1) i2(1) w1_def ww_def)
    moreover have "fifo_frame ?i (info w1)"
      using xmit_get_fifo_frame [OF i1(1)] xmit_get_fifo_frame [OF i2(1)] fifo_frame_tx fifo_frame_trans
      by (simp add: w1_def)
    moreover have "env w1 = env w" "xmit_weak (info w1)" using i i2 by (simp_all add: w1_def)
    moreover have "nat (xmit_cnt (info w1)) + (if x_char (info w1) = 0 then 0 else 1) <
        nat (xmit_cnt ?i) + (if x_char ?i = 0 then 0 else 1)" using i2 word by (simp add: w1_def)
    ultimately show ?thesis using less.hyps [of w1] fifo_frame_trans by metis
  next
    case xchar
    define w1 where "w1 = set_icount (ic_tx_update (\<lambda>n. n + 1)) (set_info (x_char_update (\<lambda>_. 0))
        (usc_OutReg wb CCAR (of_int (x_char ?i))))"
    have "load_txfifo_loop w = load_txfifo_loop w1"
      using xchar by (subst load_txfifo_loop.simps)
        (simp add: case_prod_unfold Let_def w0_def [symmetric] Fifocount_def [symmetric] i w1_def wb_def)
    moreover have i1: "info w1 = icount_update (ic_tx_update (\<lambda>n. n + 1)) (x_char_update (\<lambda>_. 0) ?i)"
      using i by (simp add: w1_def)
    then have "fifo_frame ?i (info w1)" using fifo_frame_tx fifo_frame_xchar fifo_frame_trans by metis
    moreover have "env w1 = env w" "xmit_weak (info w1)" using i i1 less.prems by (simp_all add: w1_def)
    moreover have "nat (xmit_cnt (info w1)) + (if x_char (info w1) = 0 then 0 else 1) <
        nat (xmit_cnt ?i) + (if x_char ?i = 0 then 0 else 1)" using xchar i1 by simp
    ultimately show ?thesis using less.hyps [of w1] fifo_frame_trans by metis
  next
    case byte
    have p: "0 < xmit_cnt ?i" using byte less.prems by (simp add: xmit_weak_def)
    then obtain b0 i1 where i1: "xmit_get ?i = Some (b0, i1)" "xmit_weak i1" "xmit_cnt i1 = xmit_cnt ?i - 1" "x_char i1 = 0"
      using xmit_get_weak [OF less.prems] byte by auto
    define w1 where "w1 = set_icount (ic_tx_update (\<lambda>n. n + 1)) (set_info (\<lambda>_. i1) (usc_OutReg wb CCAR (ucast b0)))"
    have "load_txfifo_loop w = load_txfifo_loop w1"
      using byte by (subst load_txfifo_loop.simps)
        (auto simp: case_prod_unfold Let_def w0_def [symmetric] Fifocount_def [symmetric] i i1(1) w1_def wb_def)
    moreover have "fifo_frame ?i (info w1)"
      using xmit_get_fifo_frame [OF i1(1)] fifo_frame_tx fifo_frame_trans by (simp add: w1_def)
    moreover have "env w1 = env w" "xmit_weak (info w1)" using i i1 by (simp_all add: w1_def)
    moreover have "nat (xmit_cnt (info w1)) + (if x_char (info w1) = 0 then 0 else 1) <
        nat (xmit_cnt ?i) + (if x_char ?i = 0 then 0 else 1)" using i1 p by (simp add: w1_def)
    ultimately show ?thesis using less.hyps [of w1] fifo_frame_trans by metis
  qed
qed

lemma load_txfifo_inv:
  assumes inv: "dev_inv tm (info w)"
  shows "\<exists>w'. usc_load_txfifo w = Some w' \<and> dev_inv tm (info w') \<and> ctl (info w') = ctl (info w) \<and> env w' = env w"
proof (cases "xmit_cnt (info w) = 0 \<and> x_char (info w) = 0")
  case True
  then show ?thesis using inv by (simp add: usc_load_txfifo_def)
next
  case False
  define w1 where "w1 = usc_TCmd w TCmd_SelectTicrTxFifostatus"
  have weak: "xmit_weak (info w1)" using drv_invD(6) [OF inv] by (simp add: w1_def xmit_weak_def xmit_ok_def)
  from load_txfifo_loop_safe [OF weak] obtain w' where w': "load_txfifo_loop w1 = Some w'" "xmit_weak (info w')"
    "fifo_frame (info w) (info w')" "env w' = env w" by (auto simp: w1_def)
  have eq: "usc_load_txfifo w = Some w'" using False w'(1) by (auto simp: usc_load_txfifo_def w1_def)
  have "mode (params (info w')) = R56_MODE_ASYNC \<longrightarrow> xmit_inv (info w')"
  proof
    assume "mode (params (info w')) = R56_MODE_ASYNC"
    then have "xmit_inv (info w)"
      using drv_invD(6) [OF inv] fifo_frame_fields [OF w'(3)] by (simp add: xmit_ok_def)
    from load_txfifo_sent [OF this] eq show "xmit_inv (info w')" by (auto simp: fifo_sent_def)
  qed
  then have "xmit_ok (info w')" using w'(2) by (simp add: xmit_ok_def xmit_weak_def)
  moreover obtain t c x n where i: "info w' = (info w)\<lparr> xmit_tail := t, xmit_cnt := c, x_char := x,
      icount := (icount (info w))\<lparr> ic_tx := n \<rparr> \<rparr>" using w'(3) unfolding fifo_frame_def by blast
  moreover have "rx_ready (info w')" "tx_ready (info w')" "hold_ok (info w')" "tm \<longrightarrow> port_tty (info w') \<noteq> None"
      "pending_ok (info w')" "ctl (info w') = ctl (info w)"
    using drv_invD [OF inv] rx_ready_cong [of "info w'" "info w"] tx_ready_cong [of "info w'" "info w"]
      hold_ok_cong [of "info w'" "info w"] by (simp_all add: i pending_ok_def ctl_def owner_def)
  ultimately show ?thesis using eq w'(4) by (auto simp: dev_inv_def)
qed

text \<open>The contract of a handler.\<close>

definition handled :: "bool \<Rightarrow> world \<Rightarrow> world option \<Rightarrow> bool" where
  "handled tm w r \<longleftrightarrow>
     (\<exists>w'. r = Some w' \<and> dev_inv tm (info w') \<and> params (info w') = params (info w) \<and>
           bh_running (info w') = bh_running (info w) \<and> bh_requested (info w') = bh_requested (info w) \<and>
           owner (info w') = owner (info w) \<and> env w' = env w)"

lemma handledI:
  "r = Some w' \<Longrightarrow> dev_inv tm (info w') \<Longrightarrow> ctl (info w') = ctl (info w) \<Longrightarrow> env w' = env w \<Longrightarrow> handled tm w r"
  by (simp add: handled_def ctl_def owner_def)

lemma request_bh_simps [simp]:
  "params (info (request_bh b w)) = params (info w)" "bh_running (info (request_bh b w)) = bh_running (info w)"
  "bh_requested (info (request_bh b w)) = bh_requested (info w)" "env (request_bh b w) = env w"
  "mem (request_bh b w) = mem w" "port_tty (info (request_bh b w)) = port_tty (info w)"
  "netcount (info (request_bh b w)) = netcount (info w)" "port_flags (info (request_bh b w)) = port_flags (info w)"
  "trace (request_bh b w) = trace w"
  by (simp_all add: request_bh_def)

lemma isr_misc_handled: "dev_inv tm (info w) \<Longrightarrow> handled tm w (r56_isr_misc w)"
  by (simp add: handled_def owner_def r56_isr_misc_def case_prod_unfold Let_def)

lemma isr_receive_dma_handled: "dev_inv tm (info w) \<Longrightarrow> handled tm w (r56_isr_receive_dma w)"
  by (simp add: handled_def owner_def r56_isr_receive_dma_def case_prod_unfold Let_def)

lemma isr_transmit_dma_handled:
  assumes "dev_inv tm (info w)"
  shows "handled tm w (r56_isr_transmit_dma w)"
proof -
  define w1 where "w1 = snd (usc_InDmaReg (usc_OutDmaReg w CDIR (BIT8 + BIT0)) TDMR)"
  define w2 where "w2 = set_info (tx_dma_buffers_used_update (\<lambda>n. n - 1)) w1"
  have "dev_inv tm (info w2)" using assms by (simp add: w2_def w1_def)
  from load_next_tx_holding_buffer_inv [OF this] obtain r w3 where
    "load_next_tx_holding_buffer w2 = Some (r, w3)" "dev_inv tm (info w3)" "ctl (info w3) = ctl (info w2)" "env w3 = env w2"
    by blast
  then show ?thesis
    using assms unfolding w2_def w1_def
    by (auto simp: handled_def owner_def r56_isr_transmit_dma_def case_prod_unfold Let_def ctl_def owner_def)
qed

lemma info_tx_drop_rts: "\<exists>d s. info (tx_drop_rts w) = (info w)\<lparr> drop_rts_on_tx_done := d, serial_signals := s \<rparr>"
proof (cases "drop_rts_on_tx_done (info w)")
  case True
  then have "info (tx_drop_rts w) =
      (info w)\<lparr> drop_rts_on_tx_done := False, serial_signals := serial_signals (info (tx_drop_rts w)) \<rparr>"
    by (simp add: tx_drop_rts_def Let_def)
  then show ?thesis by blast
next
  case False
  then have "info (tx_drop_rts w) =
      (info w)\<lparr> drop_rts_on_tx_done := drop_rts_on_tx_done (info w), serial_signals := serial_signals (info w) \<rparr>"
    by (simp add: tx_drop_rts_def)
  then show ?thesis by blast
qed

lemma env_mem_tx_drop_rts [simp]: "env (tx_drop_rts w) = env w" "mem (tx_drop_rts w) = mem w"
  by (simp_all add: tx_drop_rts_def Let_def)

lemma count_tx_end_simps [simp]:
  "env (count_tx_end st w) = env w" "mem (count_tx_end st w) = mem w"
  "dev_inv tm (info (count_tx_end st w)) = dev_inv tm (info w)" "ctl (info (count_tx_end st w)) = ctl (info w)"
  by (simp_all add: count_tx_end_def ctl_def owner_def)

lemma drv_inv_tx_done [simp]:
  "dev_inv tm i \<Longrightarrow> dev_inv tm (i\<lparr> tx_active := False, xmit_cnt := 0, xmit_head := 0, xmit_tail := 0 \<rparr>)"
  by (simp add: drv_inv_parts)

lemma stop_transmitter_inv [simp]:
  "dev_inv tm (info (usc_stop_transmitter w)) = dev_inv tm (info w)" "ctl (info (usc_stop_transmitter w)) = ctl (info w)"
  by (simp_all add: ctl_def owner_def)

lemma tx_status_common_inv:
  assumes "dev_inv tm (info w)"
  shows "dev_inv tm (info (tx_status_common w))" "ctl (info (tx_status_common w)) = ctl (info w)"
    "env (tx_status_common w) = env w" "\<not> tx_active (info (tx_status_common w))"
proof -
  define st where "st = fst (usc_InReg w TCSR)"
  define w1 where "w1 = usc_UnlatchTxstatusBits (usc_ClearIrqPendingBits (snd (usc_InReg w TCSR)) TRANSMIT_STATUS) st"
  define w2 where "w2 = (if tst st (TXSTATUS_UNDERRUN OR TXSTATUS_ABORT_SENT)
     then let w = usc_DmaCmd w1 DmaCmd_ResetTxChannel in usc_RTCmd w RTCmd_PurgeTxFifo else w1)"
  define w3 where "w3 = del_timer (set_info (\<lambda>i. i\<lparr> tx_active := False, xmit_cnt := 0, xmit_head := 0, xmit_tail := 0 \<rparr>)
      (count_tx_end st w2))"
  have w2: "info w2 = info w" "env w2 = env w" by (simp_all add: w2_def w1_def Let_def)
  have w3: "dev_inv tm (info w3)" "ctl (info w3) = ctl (info w)" "env w3 = env w" "\<not> tx_active (info w3)"
    using assms w2 by (simp_all add: w3_def del_timer_def) (simp_all add: ctl_def owner_def count_tx_end_def w2)
  obtain d s where i4: "info (tx_drop_rts w3) = (info w3)\<lparr> drop_rts_on_tx_done := d, serial_signals := s \<rparr>"
    using info_tx_drop_rts by blast
  have eq: "tx_status_common w = tx_drop_rts w3"
    unfolding tx_status_common_def w3_def w2_def w1_def st_def by (simp add: case_prod_unfold Let_def)
  show "dev_inv tm (info (tx_status_common w))" "ctl (info (tx_status_common w)) = ctl (info w)"
    "env (tx_status_common w) = env w" "\<not> tx_active (info (tx_status_common w))"
    using w3 by (simp_all add: eq i4 ctl_def owner_def)
qed

lemma isr_transmit_status_handled:
  assumes "drv_inv (info w)"
  shows "handled True w (r56_isr_transmit_status w)"
proof -
  note c = tx_status_common_inv [OF assms]
  obtain tty where "port_tty (info (tx_status_common w)) = Some tty" using drv_invD(8) [OF c(1)] by auto
  then have "r56_isr_transmit_status w = Some (if stopped tty \<or> hw_stopped tty then usc_stop_transmitter (tx_status_common w)
      else request_bh BH_TRANSMIT (tx_status_common w))"
    by (simp add: r56_isr_transmit_status_def Let_def)
  then show ?thesis using c by (simp add: handled_def ctl_def owner_def)
qed

lemma isr_transmit_data_handled:
  assumes "drv_inv (info w)"
  shows "handled True w (r56_isr_transmit_data w)"
proof -
  define w1 where "w1 = usc_ClearIrqPendingBits w TRANSMIT_DATA"
  have w1: "info w1 = info w" "env w1 = env w" by (simp_all add: w1_def)
  obtain tty where tty: "port_tty (info w) = Some tty" using drv_invD(8) [OF assms] by auto
  have "drv_inv (info w1)" using assms w1 by simp
  from load_txfifo_inv [OF this] obtain w2 where w2: "usc_load_txfifo w1 = Some w2" "drv_inv (info w2)"
    "ctl (info w2) = ctl (info w)" "env w2 = env w" using w1 by auto
  define w3 where "w3 = (if xmit_cnt (info w) \<noteq> 0 then w2 else set_info (tx_active_update (\<lambda>_. False)) w1)"
  have w3: "drv_inv (info w3)" "ctl (info w3) = ctl (info w)" "env w3 = env w"
    using w2 w1 assms by (simp_all add: w3_def ctl_def owner_def)
  have "r56_isr_transmit_data w = Some (if stopped tty \<or> hw_stopped tty then usc_stop_transmitter w1
      else if xmit_cnt (info w3) < WAKEUP_CHARS then request_bh BH_TRANSMIT w3 else w3)"
    using tty w2(1) unfolding r56_isr_transmit_data_def w1_def w3_def by (simp add: Let_def)
  then show ?thesis using w3 w1 assms by (simp add: handled_def ctl_def owner_def)
qed

text \<open>The bookkeeping of the input lines changes counters only.\<close>

lemma io_pin_edge_frame:
  "(\<And>i. P (bump i) = P i) \<Longrightarrow> P (info (io_pin_edge l s c bump w)) = P (info w)"
  "env (io_pin_edge l s c bump w) = env w"
  by (simp_all add: io_pin_edge_def Let_def)

lemma bump_frame:
  "dev_inv tm (bump_ri st i) = dev_inv tm i" "dev_inv tm (bump_dsr st i) = dev_inv tm i"
  "dev_inv tm (bump_dcd st i) = dev_inv tm i" "dev_inv tm (bump_cts st i) = dev_inv tm i"
  "ctl (bump_ri st i) = ctl i" "ctl (bump_dsr st i) = ctl i" "ctl (bump_dcd st i) = ctl i" "ctl (bump_cts st i) = ctl i"
  by (simp_all add: bump_ri_def bump_dsr_def bump_dcd_def bump_cts_def ctl_def owner_def)

lemma io_pin_counters_frame:
  "dev_inv tm (info (io_pin_counters st w)) = dev_inv tm (info w)" "ctl (info (io_pin_counters st w)) = ctl (info w)"
  "env (io_pin_counters st w) = env w"
  unfolding io_pin_counters_def Let_def kcall_simps
  by (simp_all only: io_pin_edge_frame(2) io_pin_edge_frame(1) [where P = "dev_inv tm"] io_pin_edge_frame(1) [where P = ctl] bump_frame)

lemma io_pin_carrier_frame [simp]: "info (io_pin_carrier st w) = info w" "env (io_pin_carrier st w) = env w"
  by (simp_all add: io_pin_carrier_def)

lemma io_pin_cts_flow_inv:
  assumes "drv_inv (info w)"
  shows "\<exists>r w'. io_pin_cts_flow st w = Some (r, w') \<and> handled True w (Some w')"
proof -
  obtain tty where tty: "port_tty (info w) = Some tty" using drv_invD(8) [OF assms] by auto
  define w1 where "w1 = set_info (port_tty_update (\<lambda>_. Some (tty\<lparr> hw_stopped := False \<rparr>))) w"
  have "drv_inv (info w1)" using assms by (simp add: w1_def)
  from start_transmitter_inv [OF this] tty obtain w2 where w2: "usc_start_transmitter w1 = Some w2" "drv_inv (info w2)"
    "ctl (info w2) = ctl (info w)" "env w2 = env w" by (auto simp: w1_def ctl_def owner_def)
  show ?thesis
    using assms tty w2 unfolding w1_def
    by (auto simp: io_pin_cts_flow_def handled_def ctl_def owner_def)
qed

lemma io_pin_end_frame:
  "dev_inv tm (info w) \<Longrightarrow> dev_inv tm (info (io_pin_end stat w))" "owner (info (io_pin_end stat w)) = owner (info w)"
  "params (info (io_pin_end stat w)) = params (info w)" "tx_active (info (io_pin_end stat w)) = tx_active (info w)"
  "bh_running (info (io_pin_end stat w)) = bh_running (info w)" "bh_requested (info (io_pin_end stat w)) = bh_requested (info w)"
  "env (io_pin_end stat w) = env w"
  by (simp_all add: io_pin_end_def Let_def owner_def) (simp_all add: request_bh_def)

lemma isr_io_pin_handled:
  assumes "drv_inv (info w)"
  shows "handled True w (r56_isr_io_pin w)"
proof -
  define st where "st = fst (usc_InReg w MISR)"
  define w1 where "w1 = usc_UnlatchIostatusBits (usc_ClearIrqPendingBits (snd (usc_InReg w MISR)) IO_PIN) st"
  have w1: "info w1 = info w" "env w1 = env w" by (simp_all add: w1_def)
  define w2 where "w2 = io_pin_carrier st (io_pin_counters st w1)"
  have w2: "drv_inv (info w2)" "ctl (info w2) = ctl (info w)" "env w2 = env w"
    using assms w1 by (simp_all add: w2_def io_pin_counters_frame)
  define flow where "flow = (if tst st (MISCSTATUS_CTS_LATCHED OR MISCSTATUS_DCD_LATCHED OR
                               MISCSTATUS_DSR_LATCHED OR MISCSTATUS_RI_LATCHED)
                then io_pin_cts_flow st w2 else Some (False, w1))"
  obtain r w3 where w3: "flow = Some (r, w3)" "handled True w (Some w3)"
  proof (cases "tst st (MISCSTATUS_CTS_LATCHED OR MISCSTATUS_DCD_LATCHED OR
                               MISCSTATUS_DSR_LATCHED OR MISCSTATUS_RI_LATCHED)")
    case True
    from io_pin_cts_flow_inv [OF w2(1), of st] obtain r w3 where "io_pin_cts_flow st w2 = Some (r, w3)" "handled True w2 (Some w3)"
      by blast
    then show ?thesis using that True w2(2,3) by (simp add: flow_def handled_def ctl_def owner_def)
  next
    case False
    then show ?thesis using that assms w1 by (simp add: flow_def handled_def owner_def)
  qed
  have "r56_isr_io_pin w = do { (return, w) \<leftarrow> flow; Some (if return then w else io_pin_end st w) }"
    unfolding r56_isr_io_pin_def flow_def w2_def w1_def st_def Let_def case_prod_unfold ..
  then show ?thesis using w3 by (simp add: handled_def io_pin_end_frame)
qed

lemma rx_list_updateE:
  assumes "j = i\<lparr> rx_buffer_list := map free_entry (rx_buffer_list i), current_rx_buffer := 0 \<rparr> \<or>
     (\<exists>A. j = i\<lparr> rx_buffer_list := freed A (rx_buffer_list i) \<rparr>)" "rx_ring i"
  obtains es s where "j = i\<lparr> rx_buffer_list := es, current_rx_buffer := s \<rparr>"
    "length es = length (rx_buffer_list i)" "unat s < length es"
  using assms(1)
proof
  assume j: "j = i\<lparr> rx_buffer_list := map free_entry (rx_buffer_list i), current_rx_buffer := 0 \<rparr>"
  have "0 < length (rx_buffer_list i)" using assms(2) by (auto simp: rx_ring_def)
  then show ?thesis using that [OF j] by simp
next
  assume "\<exists>A. j = i\<lparr> rx_buffer_list := freed A (rx_buffer_list i) \<rparr>"
  then obtain A where "j = i\<lparr> rx_buffer_list := freed A (rx_buffer_list i), current_rx_buffer := current_rx_buffer i \<rparr>"
    by (auto intro!: r56_struct.equality)
  from that [OF this] show ?thesis using assms(2) by (simp add: rx_ring_def)
qed

lemma rxoverrun_inv:
  assumes inv: "dev_inv tm (info w)"
  shows "\<exists>w'. usc_process_rxoverrun_sync w = Some w' \<and> dev_inv tm (info w') \<and> ctl (info w') = ctl (info w) \<and> env w' = env w"
proof -
  from process_rxoverrun_cases [OF drv_invD(2) [OF inv]] obtain w' where w': "usc_process_rxoverrun_sync w = Some w'"
    "env w' = env w" and c: "info w' = (info w)\<lparr> rx_buffer_list := map free_entry (rx_buffer_list (info w)), current_rx_buffer := 0 \<rparr> \<or>
     (\<exists>A. info w' = (info w)\<lparr> rx_buffer_list := freed A (rx_buffer_list (info w)) \<rparr>)" by blast
  from c obtain es s where i: "info w' = (info w)\<lparr> rx_buffer_list := es, current_rx_buffer := s \<rparr>"
    and es: "length es = length (rx_buffer_list (info w))" "unat s < length es"
    by (rule rx_list_updateE [OF _ drv_invD(2) [OF inv]])
  have b: "but_rx (info w') = but_rx (info w)" by (simp add: i)
  have r: "rx_ready (info w')"
    using drv_invD(1) [OF inv] es by (simp add: i rx_ready_def rx_ring_def)
  have "dev_inv tm (info w')" by (rule drv_inv_rx [OF inv r b])
  moreover have "ctl (info w') = ctl (info w)" by (simp add: i ctl_def owner_def)
  ultimately show ?thesis using w' by blast
qed

lemma isr_receive_status_handled:
  assumes "dev_inv tm (info w)"
  shows "handled tm w (r56_isr_receive_status w)"
proof -
  define st where "st = fst (usc_InReg w RCSR)"
  define w0 where "w0 = snd (usc_InReg w RCSR)"
  define la where "la = (if tst st RXSTATUS_ABORT_RECEIVED \<and> loopmode_insert_requested (info w0)
                          then usc_loopmode_active w0 else (False, w0))"
  define w1 where "w1 = (if fst la
              then let w = set_icount (ic_rxabort_update (\<lambda>n. n + 1)) (snd la);
                       w = set_info (\<lambda>i. i\<lparr> loopmode_insert_requested := False,
                                            cmr_value := cmr_value i AND NOT BIT13 \<rparr>) w;
                       w = usc_OutReg w CMR (cmr_value (info w))
                   in usc_rmw w RICR (\<lambda>v. v AND NOT RXSTATUS_ABORT_RECEIVED)
              else snd la)"
  define w2 where "w2 = (if tst st (RXSTATUS_EXITED_HUNT + RXSTATUS_IDLE_RECEIVED)
              then let w = (if tst st RXSTATUS_EXITED_HUNT
                            then set_icount (ic_exithunt_update (\<lambda>n. n + 1)) w1 else w1);
                       w = (if tst st RXSTATUS_IDLE_RECEIVED
                            then set_icount (ic_rxidle_update (\<lambda>n. n + 1)) w else w)
                   in kcall (Wake_up_interruptible Event_wait_q) w
              else w1)"
  have la: "info (snd la) = info w" "env (snd la) = env w" by (simp_all add: la_def w0_def)
  have w1: "dev_inv tm (info w1)" "ctl (info w1) = ctl (info w)" "env w1 = env w"
    using assms la by (simp_all add: w1_def Let_def ctl_def owner_def)
  have w2: "dev_inv tm (info w2)" "ctl (info w2) = ctl (info w)" "env w2 = env w"
    using w1 by (simp_all add: w2_def Let_def ctl_def owner_def)
  have "dev_inv tm (info (set_icount (ic_rxover_update (\<lambda>n. n + 1)) w2))" using w2 by simp
  from rxoverrun_inv [OF this] obtain w3 where w3: "usc_process_rxoverrun_sync (set_icount (ic_rxover_update (\<lambda>n. n + 1)) w2) = Some w3"
     "dev_inv tm (info w3)" "ctl (info w3) = ctl (info w)" "env w3 = env w" using w2 by (auto simp: ctl_def owner_def)
  have "r56_isr_receive_status w =
     do { w \<leftarrow> (if tst st RXSTATUS_OVERRUN then usc_process_rxoverrun_sync (set_icount (ic_rxover_update (\<lambda>n. n + 1)) w2)
                   else Some w2);
          let w = usc_ClearIrqPendingBits w RECEIVE_STATUS in Some (usc_UnlatchRxstatusBits w st) }"
    unfolding r56_isr_receive_status_def w2_def w1_def la_def w0_def st_def Let_def case_prod_unfold ..
  then show ?thesis using w2 w3 by (auto simp: handled_def ctl_def owner_def Let_def)
qed

end
