(* ===== verification/R56_Diag.thy ===== *)
theory R56_Diag
  imports R56_Handlers
begin

text \<open>
  The diagnostics of \<open>driver/route56.c\<close>: register, interrupt, DMA and shared memory tests and
  \<open>r56_adapter_test\<close>.

  Time is the kernel's: the test \<open>time_after(jiffies, EndTime)\<close> is a kernel call whose answer
  says whether the time is over, and what happens while the code sleeps (the interrupt handler above
  all) is the parameter \<open>sleep\<close>. What the DMA controller writes is the adapter's
  \<open>dev_dma\<close>, looked at whenever the code reads a receive entry in a polling loop.
\<close>

subsection \<open>Register test\<close>

definition register_patterns :: "u16 list" where
  "register_patterns = [0x0000, 0xffff, 0xaaaa, 0x5555, 0x1234, 0x6969, 0x9696, 0x0f0f]"

definition register_pattern :: "nat \<Rightarrow> u16" where
  "register_pattern i = register_patterns ! (i mod length register_patterns)"

text \<open>\<open>in(r) != v || ...\<close>: registers are read until one differs.\<close>

fun reg_differs :: "(u16 \<times> u16) list \<Rightarrow> world \<Rightarrow> bool \<times> world" where
  "reg_differs [] w = (False, w)"
| "reg_differs ((r, v) # rs) w =
     (let (x, w) = usc_InReg w r in if x \<noteq> v then (True, w) else reg_differs rs w)"

text \<open>The values of round \<open>i\<close>.\<close>

definition register_round :: "nat \<Rightarrow> (u16 \<times> u16) list" where
  "register_round i =
     [(TC0R, register_pattern i), (TC1R, register_pattern (i + 1)), (TCLR, register_pattern (i + 2)),
      (RCLR, register_pattern (i + 3)), (RSR, register_pattern (i + 4)), (TBCR, register_pattern (i + 5))]"

fun register_rounds :: "nat list \<Rightarrow> world \<Rightarrow> bool \<times> world" where
  "register_rounds [] w = (True, w)"
| "register_rounds (i # is) w =
     (let w = fold (\<lambda>(r, v) w. usc_OutReg w r v) (register_round i) w;
          (differs, w) = reg_differs (register_round i) w
      in if differs then (False, w) else register_rounds is w)"

definition r56_register_test :: "world \<Rightarrow> bool \<times> world" where
  "r56_register_test w =
    (let w = usc_reset w;
         (differs, w) = reg_differs [(SICR, 0), (IVR, 0), (DIVR, 0)] w;
         (rc, w) = (if \<not> differs then register_rounds [0..<length register_patterns] w else (False, w))
     in (rc, usc_reset w))"

subsection \<open>Interrupt test\<close>

text \<open>\<open>while (EndTime-- && !info->irq_occurred) msleep_interruptible(10);\<close>\<close>

fun irq_wait :: "(world \<Rightarrow> world) \<Rightarrow> nat \<Rightarrow> world \<Rightarrow> world" where
  "irq_wait sleep 0 w = w"
| "irq_wait sleep (Suc n) w =
     (if irq_occurred (info w) then w else irq_wait sleep n (sleep (kcall Msleep w)))"

definition r56_irq_test :: "(world \<Rightarrow> world) \<Rightarrow> world \<Rightarrow> bool \<times> world" where
  "r56_irq_test sleep w =
    (if hw_version (info w) = R565_DEVICE_ID then (True, w)
     else let w = usc_reset w;
              w = set_info (irq_occurred_update (\<lambda>_. False)) w;
              w = usc_EnableMasterIrqBit w;
              w = usc_EnableInterrupts w IO_PIN;
              w = usc_ClearIrqPendingBits w 0x2;
              w = usc_ClearIrqPendingBits w IO_PIN;
              w = usc_UnlatchIostatusBits w MISCSTATUS_TXC_LATCHED;
              w = usc_EnableStatusIrqs w (SICR_TXC_ACTIVE + SICR_TXC_INACTIVE);
              w = usc_OutReg w PCR 0x0001;
              w = usc_OutReg w CMCR 0x0020;
              w = usc_OutReg w IOCR 0x0008;
              w = usc_OutReg w HCR 0x0001;
              w = usc_OutReg w TC0R 0x0016;
              w = irq_wait sleep 100 w;
              w = usc_reset w
          in (irq_occurred (info w), w))"

subsection \<open>DMA test\<close>

abbreviation (input) TESTFRAMESIZE :: nat where "TESTFRAMESIZE \<equiv> 40"

definition time_after :: "world \<Rightarrow> bool \<times> world" where
  "time_after w = (let w = kcall Time_after w in (os_ret (env w) (trace w) \<noteq> 0, w))"

text \<open>What the DMA controller has written by now becomes visible.\<close>

definition adapter_dma :: "world \<Rightarrow> world" where
  "adapter_dma w =
    (let (es, m) = dev_dma (env w) (trace w) (rx_buffer_list (info w), mem w)
     in w\<lparr> info := (info w)\<lparr> rx_buffer_list := es \<rparr>, mem := m \<rparr>)"

text \<open>
  A store to entry \<open>k\<close> of the buffer list page, which holds the receive entries, then the
  transmit entries, then unused space.
\<close>

definition store_entry :: "nat \<Rightarrow> (DMABUFFERENTRY \<Rightarrow> DMABUFFERENTRY) \<Rightarrow> world \<Rightarrow> world option" where
  "store_entry k f w =
    (let rx = rx_buffer_list (info w); tx = tx_buffer_list (info w)
     in if k < length rx then Some (set_info (rx_buffer_list_update (\<lambda>_. rx[k := f (rx ! k)])) w)
        else if k - length rx < length tx
        then Some (set_info (tx_buffer_list_update
                     (\<lambda>_. tx[k - length rx := f (tx ! (k - length rx))])) w)
        else if (k + 1) * sizeof_DMABUFFERENTRY \<le> BUFFERLISTSIZE then Some w
        else None)"

text \<open>The buffers of the test: the frame in the first transmit buffer, a cleared first receive buffer.\<close>

definition dma_test_buffers :: "world \<Rightarrow> world option" where
  "dma_test_buffers w =
    (let nrx = length (rx_buffer_list (info w))
     in do { w \<leftarrow> store_entry nrx (\<lambda>e. e\<lparr> count := of_nat TESTFRAMESIZE, rcc := of_nat TESTFRAMESIZE,
                                         status := 0x4000 \<rparr>) w;
             tx \<leftarrow> aget (tx_buffer_list (info w)) 0;
             let w = w\<lparr> mem := mem_write (virt_addr tx) (map of_nat [0..<TESTFRAMESIZE]) (mem w) \<rparr>
             in do { w \<leftarrow> store_entry 0 (\<lambda>e. e\<lparr> status := 0, count := of_nat (TESTFRAMESIZE + 4) \<rparr>) w;
                     rx \<leftarrow> aget (rx_buffer_list (info w)) 0;
                     let w = w\<lparr> mem := mem_write (virt_addr rx) (replicate (TESTFRAMESIZE + 4) 0) (mem w) \<rparr>
                     in do { w \<leftarrow> store_entry (nrx + 1) (\<lambda>e. e\<lparr> count := 0 \<rparr>) w;
                             store_entry 1 (\<lambda>e. e\<lparr> count := 0 \<rparr>) w } } })"

definition dma_test_start_receiver :: "world \<Rightarrow> world option" where
  "dma_test_start_receiver w =
    (let w = usc_RTCmd w RTCmd_PurgeRxFifo
     in do { e \<leftarrow> aget (rx_buffer_list (info w)) 0;
             let w = usc_OutDmaReg w NRARL (ucast (phys_entry e));
                 w = usc_OutDmaReg w NRARU (ucast (drop_bit 16 (phys_entry e)));
                 (v, w) = usc_InDmaReg w RDMR;
                 w = usc_DmaCmd w DmaCmd_InitRxChannel
             in Some (usc_rmw w RMR (\<lambda>v. (v AND 0xfffc) OR 0x0002)) })"

definition dma_test_start_transmitter :: "world \<Rightarrow> world option" where
  "dma_test_start_transmitter w =
    do { e \<leftarrow> aget (tx_buffer_list (info w)) 0;
         let w = usc_OutReg w TCLR (count e);
             w = usc_RTCmd w RTCmd_PurgeTxFifo;
             w = usc_OutDmaReg w NTARL (ucast (phys_entry e));
             w = usc_OutDmaReg w NTARU (ucast (drop_bit 16 (phys_entry e)));
             w = usc_rmw w TCSR (\<lambda>v. (v AND 0x0f00) OR 0xfa);
             w = usc_DmaCmd w DmaCmd_InitTxChannel
         in Some (usc_TCmd w TCmd_SelectTicrTxFifostatus) }"

text \<open>
  The four polling loops. Each ends when its condition holds or when the time is over; the result
  says which.
\<close>

partial_function (option) dma_wait_entry_read :: "world \<Rightarrow> (bool \<times> world) option" where
  [code]: "dma_wait_entry_read w =
    (let (late, w) = time_after w
     in if late then Some (False, w)
        else let (stat, w) = usc_InDmaReg w RDMR
             in if \<not> tst stat BIT4 \<and> tst stat BIT5 then Some (True, w) else dma_wait_entry_read w)"

partial_function (option) dma_wait_txfifo :: "nat \<Rightarrow> world \<Rightarrow> (bool \<times> world) option" where
  [code]: "dma_wait_txfifo FrameSize w =
    (let (late, w) = time_after w
     in if late then Some (False, w)
        else let (v, w) = usc_InReg w TICR;
                 FifoLevel = drop_bit 8 v
             in if FifoLevel < 16 then Some (True, w)
                else if FrameSize < 32 \<and> unat FifoLevel \<le> 32 - FrameSize then Some (True, w)
                else dma_wait_txfifo FrameSize w)"

partial_function (option) dma_wait_sent :: "u16 \<Rightarrow> world \<Rightarrow> (bool \<times> u16 \<times> world) option" where
  [code]: "dma_wait_sent stat w =
    (if \<not> tst stat (BIT6 + BIT5 + BIT4 + BIT2 + BIT1)
     then let (late, w) = time_after w
          in if late then Some (False, stat, w)
             else let (stat, w) = usc_InReg w TCSR in dma_wait_sent stat w
     else Some (True, stat, w))"

partial_function (option) dma_wait_received :: "u16 \<Rightarrow> world \<Rightarrow> (bool \<times> world) option" where
  [code]: "dma_wait_received stat w =
    (if stat = 0
     then let (late, w) = time_after w
          in if late then Some (False, w)
             else let w = adapter_dma w
                  in do { e \<leftarrow> aget (rx_buffer_list (info w)) 0; dma_wait_received (status e) w }
     else Some (True, w))"

text \<open>From the enabled transmitter to the comparison of the two buffers.\<close>

definition dma_test_transfer :: "world \<Rightarrow> (bool \<times> world) option" where
  "dma_test_transfer w =
    (let w = usc_TCmd w TCmd_SendFrame;
         w = usc_rmw w TMR (\<lambda>v. (v AND 0xfffc) OR 0x0002);
         (stat, w) = usc_InReg w TCSR
     in do { (rc, stat, w) \<leftarrow> dma_wait_sent stat w;
             if \<not> rc \<or> tst stat (BIT5 + BIT1) then Some (False, w)
             else let w = adapter_dma w
                  in do { e \<leftarrow> aget (rx_buffer_list (info w)) 0;
                          (rc, w) \<leftarrow> dma_wait_received (status e) w;
                          if \<not> rc then Some (False, w)
                          else do {
                            e \<leftarrow> aget (rx_buffer_list (info w)) 0;
                            tx \<leftarrow> aget (tx_buffer_list (info w)) 0;
                            Some (\<not> tst (status e) (BIT8 + BIT3 + BIT1) \<and>
                                  mem_read (virt_addr tx) TESTFRAMESIZE (mem w) =
                                  mem_read (virt_addr e) TESTFRAMESIZE (mem w), w) } } })"

definition r56_dma_test :: "world \<Rightarrow> (bool \<times> world) option" where
  "r56_dma_test w =
    (let tmp_params = params (info w);
         w = set_params (\<lambda>_. default_params) w;
         w = usc_reset w;
         w = usc_set_sdlc_mode w;
         w = usc_enable_loopback w 1;
         w = usc_OutDmaReg w RDMR 0xe200
     in do { w \<leftarrow> dma_test_buffers w;
             w \<leftarrow> dma_test_start_receiver w;
             (rc1, w) \<leftarrow> dma_wait_entry_read w;
             w \<leftarrow> dma_test_start_transmitter w;
             (rc2, w) \<leftarrow> dma_wait_txfifo TESTFRAMESIZE w;
             (rc, w) \<leftarrow> (if rc1 \<and> rc2 then dma_test_transfer w else Some (False, w));
             Some (rc, set_params (\<lambda>_. tmp_params) (usc_reset w)) })"

definition r56_adapter_test :: "(world \<Rightarrow> world) \<Rightarrow> world \<Rightarrow> (int \<times> world) option" where
  "r56_adapter_test sleep w =
    (let (ok, w) = r56_register_test w
     in if \<not> ok then Some (- ENODEV, set_info (init_error_update (\<lambda>_. DiagStatus_AddressFailure)) w)
        else let (ok, w) = r56_irq_test sleep w
             in if \<not> ok then Some (- ENODEV, set_info (init_error_update (\<lambda>_. DiagStatus_IrqFailure)) w)
                else do { (ok, w) \<leftarrow> r56_dma_test w;
                          Some (if \<not> ok
                                then (- ENODEV, set_info (init_error_update (\<lambda>_. DiagStatus_DmaFailure)) w)
                                else (0, w)) })"

subsection \<open>Shared memory test\<close>

definition writel :: "u32 \<Rightarrow> nat \<Rightarrow> world \<Rightarrow> world" where
  "writel v a w =
     (emit (Writel a v) w)\<lparr> mem := mem_write a (map (\<lambda>k. ucast (drop_bit (8 * k) v)) [0..<4]) (mem w) \<rparr>"

definition readl :: "nat \<Rightarrow> world \<Rightarrow> u32 \<times> world" where
  "readl a w = (dev_readl (env w) (trace w) a, emit (Readl a) w)"

definition memory_patterns :: "u64 list" where
  "memory_patterns = [0x0, 0x55555555, 0xaaaaaaaa, 0x66666666, 0x99999999, 0xffffffff, 0x12345678]"

fun test_data_lines :: "u64 list \<Rightarrow> nat \<Rightarrow> world \<Rightarrow> bool \<times> world" where
  "test_data_lines [] a w = (True, w)"
| "test_data_lines (p # ps) a w =
     (let w = writel (ucast p) a w;
          (v, w) = readl a w
      in if ucast v \<noteq> p then (False, w) else test_data_lines ps a w)"

definition fill_words :: "nat \<Rightarrow> nat \<Rightarrow> world \<Rightarrow> world" where
  "fill_words n a w = fold (\<lambda>i w. writel (of_nat (i * 4)) (a + 4 * i) w) [0..<n] w"

fun check_words :: "nat list \<Rightarrow> nat \<Rightarrow> world \<Rightarrow> bool \<times> world" where
  "check_words [] a w = (True, w)"
| "check_words (i # is) a w =
     (let (v, w) = readl (a + 4 * i) w
      in if (ucast v :: u64) \<noteq> of_nat (i * 4) then (False, w) else check_words is a w)"

text \<open>\<open>SHARED_MEM_ADDRESS_SIZE/sizeof(unsigned long)\<close>\<close>

definition TestLimit :: nat where
  "TestLimit = SHARED_MEM_ADDRESS_SIZE div 8"

definition memory_test_bank :: "world \<Rightarrow> world" where
  "memory_test_bank w =
    (let w = outb 0xff (io_base (info w) + 2) w
     in if hw_version (info w) = R561_DEVICE_ID
        then let w = outb 0xff (io_base (info w) + 2) w;
                 (reg_value, w) = inb (io_base (info w)) w;
                 need = (\<not> tst reg_value 0x80 \<or> \<not> tst reg_value 0x40);
                 reg_value = (reg_value OR 0x80) OR 0x40
             in if need then outb reg_value (io_base (info w)) w else w
        else w)"

definition r56_memory_test :: "world \<Rightarrow> bool \<times> world" where
  "r56_memory_test w =
    (if bus_type (info w) \<noteq> R56_BUS_TYPE_PCI then (True, w)
     else let base = memory_base (info w);
              w = memory_test_bank w;
              (ok, w) = test_data_lines memory_patterns base w
          in if \<not> ok then (False, w)
             else let w = fill_words TestLimit base w;
                      (ok, w) = check_words [0..<TestLimit] base w
                  in if \<not> ok then (False, w)
                     else (True, w\<lparr> mem := mem_write base (replicate SHARED_MEM_ADDRESS_SIZE 0) (mem w) \<rparr>))"

end
