(* ===== verification/R56_Params.thy ===== *)
theory R56_Params
  imports R56_Handlers
begin

text \<open>
  Parameter changes of \<open>driver/route56.c\<close>: \<open>r56_program_hw\<close>, \<open>r56_change_params\<close>
  and the requests that read and set parameters, idle mode and the two directions.

  A copy between user and kernel memory either happens or fails: the data from the user is an option,
  and for data to the user a flag says whether the copy succeeds.
\<close>

subsection \<open>Programming the adapter\<close>

definition r56_program_hw :: "world \<Rightarrow> world option" where
  "r56_program_hw w =
    (let w = usc_stop_receiver w;
         w = usc_stop_transmitter w;
         w = set_info (\<lambda>i. i\<lparr> xmit_cnt := 0, xmit_head := 0, xmit_tail := 0 \<rparr>) w;
         w = (if sync_mode (info w) \<or> netcount (info w) \<noteq> 0 then usc_set_sync_mode w
              else usc_set_async_mode w);
         w = usc_set_serial_signals w;
         w = set_info (\<lambda>i. i\<lparr> dcd_chkcount := 0, cts_chkcount := 0, ri_chkcount := 0, dsr_chkcount := 0 \<rparr>) w;
         w = usc_EnableStatusIrqs w (SICR_CTS + SICR_DSR + SICR_DCD + SICR_RI);
         w = usc_EnableInterrupts w IO_PIN;
         w = usc_get_serial_signals w
     in if netcount (info w) \<noteq> 0 then usc_start_receiver w
        else do { tty \<leftarrow> port_tty (info w);
                  if tst (c_cflag tty) CREAD then usc_start_receiver w else Some w })"

definition termios_data_bits :: "u32 \<Rightarrow> u8" where
  "termios_data_bits cflag =
    (if cflag AND CSIZE = CS5 then 5
     else if cflag AND CSIZE = CS6 then 6
     else if cflag AND CSIZE = CS7 then 7
     else if cflag AND CSIZE = CS8 then 8
     else 7)"

definition termios_parity :: "u32 \<Rightarrow> u8" where
  "termios_parity cflag =
    (if tst cflag PARENB
     then if tst cflag CMSPAR then ASYNC_PARITY_SPACE
          else if tst cflag PARODD then ASYNC_PARITY_ODD else ASYNC_PARITY_EVEN
     else ASYNC_PARITY_NONE)"

text \<open>The parameters that the terminal settings determine.\<close>

definition termios_params :: "tty_struct \<Rightarrow> R56_PARAMS \<Rightarrow> R56_PARAMS" where
  "termios_params tty p =
     p\<lparr> data_bits := termios_data_bits (c_cflag tty),
        stop_bits := (if tst (c_cflag tty) CSTOPB then 2 else 1),
        parity := termios_parity (c_cflag tty),
        data_rate := (if data_rate p \<le> 460800 then baud_rate tty else data_rate p) \<rparr>"

text \<open>
  \<open>(32*HZ*bits_per_char) / data_rate\<close>: the division is one of \<open>unsigned long\<close>, the
  result is stored in an \<open>int\<close>.
\<close>

definition params_timeout :: "int \<Rightarrow> R56_PARAMS \<Rightarrow> int \<Rightarrow> int" where
  "params_timeout HZ p t =
    (let bits_per_char = uint (data_bits p) + uint (stop_bits p) + 1;
         t = (if data_rate p \<noteq> 0
              then sint (ucast ((of_int (32 * HZ * bits_per_char) :: u64) div data_rate p) :: u32) else t)
     in t + HZ div 50)"

definition termios_signals :: "R56_PARAMS \<Rightarrow> u32 \<Rightarrow> u8 \<Rightarrow> u8" where
  "termios_signals p cflag s =
    (if mode p = R56_MODE_ASYNC \<and> tst cflag CBAUD then s OR (SerialSignal_RTS + SerialSignal_DTR)
     else if mode p = R56_MODE_ASYNC then s AND NOT (SerialSignal_RTS + SerialSignal_DTR)
     else s)"

definition termios_port_flags :: "u32 \<Rightarrow> u32 \<Rightarrow> u32" where
  "termios_port_flags cflag f =
    (let f = (if tst cflag CRTSCTS then f OR ASYNC_CTS_FLOW else f AND NOT ASYNC_CTS_FLOW)
     in if tst cflag CLOCAL then f AND NOT ASYNC_CHECK_CD else f OR ASYNC_CHECK_CD)"

definition termios_read_mask :: "u32 \<Rightarrow> u16" where
  "termios_read_mask iflag =
    (let m = RXSTATUS_OVERRUN;
         m = (if tst iflag INPCK then m OR (RXSTATUS_PARITY_ERROR OR RXSTATUS_FRAMING_ERROR) else m)
     in if tst iflag BRKINT \<or> tst iflag PARMRK then m OR RXSTATUS_BREAK_RECEIVED else m)"

definition termios_ignore_mask :: "u32 \<Rightarrow> u16 \<Rightarrow> u16" where
  "termios_ignore_mask iflag m =
    (let m = (if tst iflag IGNPAR then m OR (RXSTATUS_PARITY_ERROR OR RXSTATUS_FRAMING_ERROR) else m)
     in if tst iflag IGNBRK
        then let m = m OR RXSTATUS_BREAK_RECEIVED
             in if tst iflag IGNPAR then m OR RXSTATUS_OVERRUN else m
        else m)"

definition r56_change_params :: "world \<Rightarrow> world option" where
  "r56_change_params w =
    (case port_tty (info w) of
       None \<Rightarrow> Some w
     | Some tty \<Rightarrow>
         let HZ = hz (env w)
         in r56_program_hw (set_info (\<lambda>i.
              i\<lparr> serial_signals := termios_signals (params i) (c_cflag tty) (serial_signals i),
                 params := termios_params tty (params i),
                 timeout := params_timeout HZ (termios_params tty (params i)) (timeout i),
                 port_flags := termios_port_flags (c_cflag tty) (port_flags i),
                 read_status_mask := termios_read_mask (c_iflag tty),
                 ignore_status_mask := termios_ignore_mask (c_iflag tty) (ignore_status_mask i) \<rparr>) w))"

subsection \<open>Requests\<close>

definition r56_get_stats :: "bool option \<Rightarrow> world \<Rightarrow> int \<times> r56_icount option \<times> world" where
  "r56_get_stats user_icount w =
    (case user_icount of
       None \<Rightarrow> (0, None, set_icount (\<lambda>_. zero_icount) w)
     | Some ok \<Rightarrow> if ok then (0, Some (icount (info w)), w) else (- EFAULT, None, w))"

definition r56_get_params :: "bool \<Rightarrow> world \<Rightarrow> int \<times> R56_PARAMS option" where
  "r56_get_params ok w = (if ok then (0, Some (params (info w))) else (- EFAULT, None))"

definition r56_set_params :: "R56_PARAMS option \<Rightarrow> world \<Rightarrow> (int \<times> world) option" where
  "r56_set_params new_params w =
    (case new_params of
       None \<Rightarrow> Some (- EFAULT, w)
     | Some tmp_params \<Rightarrow> do { w \<leftarrow> r56_change_params (set_params (\<lambda>_. tmp_params) w); Some (0, w) })"

definition r56_get_txidle :: "bool \<Rightarrow> world \<Rightarrow> int \<times> u32 option" where
  "r56_get_txidle ok w = (if ok then (0, Some (idle_mode (info w))) else (- EFAULT, None))"

definition r56_set_txidle :: "u32 \<Rightarrow> world \<Rightarrow> int \<times> world" where
  "r56_set_txidle new_idle_mode w =
    (let usc_idle = txidle_bits (idle_mode (info w));
         w = set_info (\<lambda>i. i\<lparr> usc_idle_mode := usc_idle,
                              tcsr_value := (tcsr_value i AND NOT IDLEMODE_MASK) + usc_idle \<rparr>) w;
         w = usc_OutReg w TCSR (tcsr_value (info w));
         w = set_info (idle_mode_update (\<lambda>_. new_idle_mode)) w
     in (0, usc_set_txidle w))"

definition r56_txenable :: "bool \<Rightarrow> world \<Rightarrow> (int \<times> world) option" where
  "r56_txenable enable w =
    (if enable
     then if \<not> tx_enabled (info w)
          then do { w \<leftarrow> usc_start_transmitter w;
                    Some (0, if tst (flags (params (info w))) HDLC_FLAG_HDLC_LOOPMODE
                             then usc_loopmode_insert_request w else w) }
          else Some (0, w)
     else if tx_enabled (info w) then Some (0, usc_stop_transmitter w) else Some (0, w))"

definition r56_txabort :: "world \<Rightarrow> int \<times> world" where
  "r56_txabort w =
    (0, if tx_active (info w) \<and> mode (params (info w)) = R56_MODE_HDLC
        then if tst (flags (params (info w))) HDLC_FLAG_HDLC_LOOPMODE then usc_loopmode_cancel_transmit w
             else usc_TCmd w TCmd_SendAbort
        else w)"

definition r56_rxenable :: "bool \<Rightarrow> world \<Rightarrow> (int \<times> world) option" where
  "r56_rxenable enable w =
    (if enable
     then if \<not> rx_enabled (info w) then do { w \<leftarrow> usc_start_receiver w; Some (0, w) } else Some (0, w)
     else if rx_enabled (info w) then Some (0, usc_stop_receiver w) else Some (0, w))"

definition r56_loopmode_send_done :: "world \<Rightarrow> int \<times> world" where
  "r56_loopmode_send_done w =
    (0, if tst (flags (params (info w))) HDLC_FLAG_HDLC_LOOPMODE
        then if tx_active (info w) then set_info (loopmode_send_done_requested_update (\<lambda>_. True)) w
             else usc_loopmode_send_done w
        else w)"

end
