(* ===== verification/R56_Init.thy ===== *)
theory R56_Init
  imports R56_Diag R56_Params
begin

text \<open>
  The life cycle of a device in \<open>driver/route56.c\<close>: claiming and releasing resources,
  \<open>startup\<close> and \<open>shutdown\<close>, and the list of device instances with the module parameters.
\<close>

subsection \<open>Resources\<close>

text \<open>A kernel call and its return value.\<close>

definition ask :: "kcall \<Rightarrow> world \<Rightarrow> int \<times> world" where
  "ask c w = (let w = kcall c w in (os_ret (env w) (trace w), w))"

definition r56_release_resources :: "world \<Rightarrow> world option" where
  "r56_release_resources w =
    (let w = (if irq_requested (info w)
              then set_info (irq_requested_update (\<lambda>_. False)) (kcall Free_irq w) else w);
         w = (if dma_requested (info w)
              then set_info (dma_requested_update (\<lambda>_. False)) (kcall Free_dma (kcall Disable_dma w)) else w)
     in do { w \<leftarrow> r56_free_dma_buffers w;
             w \<leftarrow> r56_free_intermediate_txbuffer_memory (r56_free_intermediate_rxbuffer_memory w);
             let w = (if io_addr_requested (info w)
                      then set_info (io_addr_requested_update (\<lambda>_. False)) (kcall Release_region w) else w);
                 w = (if memory_base (info w) \<noteq> 0
                      then set_info (memory_base_update (\<lambda>_. 0)) (kcall (Iounmap (memory_base (info w))) w)
                      else w);
                 w = (if lcr_base (info w) \<noteq> 0
                      then set_info (lcr_base_update (\<lambda>_. 0))
                             (kcall (Iounmap (lcr_base (info w) - unat (lcr_offset (info w)))) w)
                      else w)
             in Some w })"

text \<open>The label \<open>errout\<close>.\<close>

definition claim_errout :: "world \<Rightarrow> (int \<times> world) option" where
  "claim_errout w = do { w \<leftarrow> r56_release_resources w; Some (- ENODEV, w) }"

definition claim_buffers :: "world \<Rightarrow> (int \<times> world) option" where
  "claim_buffers w =
    do { (r, w) \<leftarrow> r56_allocate_dma_buffers w; if r < 0 then claim_errout w else Some (0, w) }"

definition claim_pci :: "world \<Rightarrow> (int \<times> world) option" where
  "claim_pci w =
    (let (a, w) = ask (Ioremap (phys_lcr_base (info w)) 256) w;
         w = set_info (lcr_base_update (\<lambda>_. nat a)) w
     in if nat a = 0 then claim_errout w
        else let w = set_info (lcr_mem_requested_update (\<lambda>_. True)) w;
                 (a, w) = ask (Ioremap (phys_memory_base (info w)) SHARED_MEM_ADDRESS_SIZE) w;
                 w = set_info (memory_base_update (\<lambda>_. nat a)) w
             in if nat a = 0 then claim_errout w
                else let (ok, w) = r56_memory_test w
                     in if \<not> ok then claim_errout w
                        else let (a, w) = ask (Ioremap (phys_lcr_base (info w)) 4096) w;
                                 w = set_info (lcr_base_update (\<lambda>_. nat a)) w
                             in if nat a = 0 then claim_errout w
                                else claim_buffers (set_info (\<lambda>i.
                                       i\<lparr> lcr_base := lcr_base i + unat (lcr_offset i) \<rparr>) w))"

definition claim_isa :: "world \<Rightarrow> (int \<times> world) option" where
  "claim_isa w =
    (let (r, w) = ask Request_dma w
     in if r < 0 then claim_errout w
        else claim_buffers (kcall Enable_dma (kcall Set_dma_mode
               (set_info (dma_requested_update (\<lambda>_. True)) w))))"

definition r56_claim_resources :: "world \<Rightarrow> (int \<times> world) option" where
  "r56_claim_resources w =
    (let (r, w) = ask Request_region w
     in if r = 0 then Some (- ENODEV, w)
        else let w = set_info (io_addr_requested_update (\<lambda>_. True)) w;
                 (r, w) = ask Request_irq w
             in if r < 0 then claim_errout w
                else let w = set_info (irq_requested_update (\<lambda>_. True)) w
                     in if bus_type (info w) = R56_BUS_TYPE_PCI then claim_pci w else claim_isa w)"

subsection \<open>Starting and stopping a device\<close>

definition set_tty_flag :: "(u32 \<Rightarrow> u32) \<Rightarrow> world \<Rightarrow> world" where
  "set_tty_flag f w = set_info (port_tty_update (map_option (tty_flags_update f))) w"

text \<open>The error branch of \<open>startup\<close>.\<close>

definition startup_failed :: "int \<Rightarrow> world \<Rightarrow> (int \<times> world) option" where
  "startup_failed retval w =
    (let (c, w) = ask Capable w;
         w = (if c \<noteq> 0 then set_tty_flag (\<lambda>f. f OR TTY_IO_ERROR_bit) w else w)
     in do { w \<leftarrow> r56_release_resources w; Some (retval, w) })"

definition startup :: "(world \<Rightarrow> world) \<Rightarrow> world \<Rightarrow> (int \<times> world) option" where
  "startup sleep w =
    (if tst (port_flags (info w)) ASYNC_INITIALIZED then Some (0, w)
     else let (page, w) = (if xmit_buf (info w) = None then ask Get_zeroed_page w else (1, w));
              w = (if xmit_buf (info w) = None \<and> page \<noteq> 0
                   then set_info (xmit_buf_update (\<lambda>_. Some (replicate 4096 0))) w else w)
          in if page = 0 then Some (- ENOMEM, w)
             else let w = set_info (\<lambda>i. i\<lparr> pending_bh := 0, icount := zero_icount \<rparr>) w
                  in do { (retval, w) \<leftarrow> r56_claim_resources w;
                          (retval, w) \<leftarrow> (if retval = 0 then r56_adapter_test sleep w else Some (retval, w));
                          if retval \<noteq> 0 then startup_failed retval w
                          else do { w \<leftarrow> r56_change_params w;
                                    let w = set_tty_flag (\<lambda>f. f AND NOT TTY_IO_ERROR_bit) w
                                    in Some (0, set_info (port_flags_update (\<lambda>f. f OR ASYNC_INITIALIZED)) w) } })"

definition shutdown :: "world \<Rightarrow> world option" where
  "shutdown w =
    (if \<not> tst (port_flags (info w)) ASYNC_INITIALIZED then Some w
     else let w = kcall (Wake_up_interruptible Status_event_wait_q) w;
              w = kcall (Wake_up_interruptible Event_wait_q) w;
              w = del_timer w;
              w = (if xmit_buf (info w) \<noteq> None
                   then set_info (xmit_buf_update (\<lambda>_. None)) (kcall Free_page w) else w);
              w = usc_DisableMasterIrqBit w;
              w = usc_stop_receiver w;
              w = usc_stop_transmitter w;
              w = usc_DisableInterrupts w (RECEIVE_DATA + RECEIVE_STATUS + TRANSMIT_DATA +
                                           TRANSMIT_STATUS + IO_PIN + MISC);
              w = usc_DisableDmaInterrupts w (DICR_MASTER + DICR_TRANSMIT + DICR_RECEIVE);
              w = usc_rmw w PCR (\<lambda>v. (v OR BIT15) OR BIT14);
              w = usc_rmw w PCR (\<lambda>v. (v OR BIT13) OR BIT12);
              drop = (case port_tty (info w) of None \<Rightarrow> True | Some tty \<Rightarrow> tst (c_cflag tty) HUPCL);
              w = (if drop
                   then usc_set_serial_signals (set_info (serial_signals_update
                          (\<lambda>s. s AND NOT (SerialSignal_DTR + SerialSignal_RTS))) w)
                   else w)
          in do { w \<leftarrow> r56_release_resources w;
                  let w = set_tty_flag (\<lambda>f. f OR TTY_IO_ERROR_bit) w
                  in Some (set_info (port_flags_update (\<lambda>f. f AND NOT ASYNC_INITIALIZED)) w) })"

subsection \<open>Device instances\<close>

definition r56_allocate_device :: "bool \<Rightarrow> r56_struct option" where
  "r56_allocate_device ok =
    (if \<not> ok then None
     else Some (zero_info\<lparr> max_frame_size := 4096, params := default_params, idle_mode := HDLC_TXIDLE_FLAGS,
                           num_tx_dma_buffers := 1, num_tx_holding_buffers := 0 \<rparr>))"

text \<open>The list of the instances, their number, and the module parameters.\<close>

record driver =
  r56_device_list :: "r56_struct list"
  r56_device_count :: int
  maxframe :: "int list"
  txdmabufs :: "int list"
  txholdbufs :: "int list"

abbreviation (input) MAX_TOTAL_DEVICES :: int where "MAX_TOTAL_DEVICES \<equiv> 20"

text \<open>The module parameters of the line, when it has some.\<close>

definition device_options :: "int \<Rightarrow> int \<Rightarrow> int \<Rightarrow> r56_struct \<Rightarrow> r56_struct" where
  "device_options mf td th i =
    (let i = (if mf \<noteq> 0 then i\<lparr> max_frame_size := of_int mf \<rparr> else i);
         i = (if td \<noteq> 0 then i\<lparr> num_tx_dma_buffers := (if td < 1 then 1 else td) \<rparr> else i)
     in if th \<noteq> 0
        then i\<lparr> num_tx_holding_buffers :=
                (if th < 1 then 1 else if th > MAX_TX_HOLDING_BUFFERS then MAX_TX_HOLDING_BUFFERS else th) \<rparr>
        else i)"

definition r56_add_device :: "r56_struct \<Rightarrow> driver \<Rightarrow> driver option" where
  "r56_add_device i d =
    (let i = i\<lparr> line := r56_device_count d \<rparr>
     in do { i \<leftarrow> (if line i < MAX_TOTAL_DEVICES
                   then do { mf \<leftarrow> aget (maxframe d) (nat (line i));
                             td \<leftarrow> aget (txdmabufs d) (nat (line i));
                             th \<leftarrow> aget (txholdbufs d) (nat (line i));
                             Some (device_options mf td th i) }
                   else Some i);
             let i = (if max_frame_size i < 4096 then i\<lparr> max_frame_size := 4096 \<rparr>
                      else if max_frame_size i > 65535 then i\<lparr> max_frame_size := 65535 \<rparr> else i)
             in Some (d\<lparr> r56_device_list := r56_device_list d @ [i],
                         r56_device_count := r56_device_count d + 1 \<rparr>) })"

text \<open>What the PCI subsystem reports of an adapter.\<close>

record pci_dev =
  pci_device :: u16
  pci_start2 :: u64
  pci_start3 :: u64
  pci_start4 :: u64
  pci_enable_fails :: bool

definition route56_init_one :: "pci_dev \<Rightarrow> bool \<Rightarrow> driver \<Rightarrow> (int \<times> driver) option" where
  "route56_init_one dev ok d =
    (if pci_enable_fails dev then Some (- EIO, d)
     else case r56_allocate_device ok of
            None \<Rightarrow> Some (- EIO, d)
          | Some i \<Rightarrow>
              let i = i\<lparr> hw_version := uint (pci_device dev), bus_type := R56_BUS_TYPE_PCI,
                         io_base := ucast (pci_start2 dev), phys_lcr_base := ucast (pci_start3 dev) \<rparr>;
                  i = (if hw_version i = R561_DEVICE_ID
                       then i\<lparr> phys_memory_base := ucast (pci_start3 dev) \<rparr>
                       else i\<lparr> phys_memory_base := ucast (pci_start4 dev) \<rparr>)
              in do { d \<leftarrow> r56_add_device i d; Some (0, d) })"

text \<open>
  The ISA adapters of the module parameters \<open>io\<close> and \<open>irq\<close>: the loop ends at the first
  that is not given.
\<close>

fun enum_isa :: "(int \<times> int) list \<Rightarrow> bool list \<Rightarrow> driver \<Rightarrow> driver option" where
  "enum_isa ((io, irq) # ps) (ok # oks) d =
    (if io \<noteq> 0 \<and> irq \<noteq> 0
     then case r56_allocate_device ok of
            None \<Rightarrow> enum_isa ps oks d
          | Some i \<Rightarrow> do { d \<leftarrow> r56_add_device (i\<lparr> io_base := of_int io, bus_type := R56_BUS_TYPE_ISA \<rparr>) d;
                           enum_isa ps oks d }
     else Some d)"
| "enum_isa _ _ d = Some d"

text \<open>\<open>inst\<close> is the result of the kernel's \<open>tty_port_install\<close>.\<close>

definition r56_install :: "int \<Rightarrow> int \<Rightarrow> driver \<Rightarrow> int \<times> r56_struct option" where
  "r56_install ln inst d =
    (if ln \<ge> r56_device_count d then (- ENODEV, None)
     else case find (\<lambda>i. line i = ln) (r56_device_list d) of
            None \<Rightarrow> (- ENODEV, None)
          | Some i \<Rightarrow> (inst, Some i))"

end
