(* ===== verification/R56_Claim.thy ===== *)
theory R56_Claim
  imports R56_Init
begin

text \<open>
  Claiming and releasing resources: \<open>r56_claim_resources\<close> either gets everything or gives
  everything back, and \<open>r56_release_resources\<close> leaves nothing claimed.
\<close>

subsection \<open>What claiming and releasing leave alone\<close>

definition but_res :: "r56_struct \<Rightarrow> r56_struct" where
  "but_res i =
     i\<lparr> buffer_list := 0, buffer_list_phys := 0, last_mem_alloc := 0, rx_buffer_count := 0, rx_buffer_list := [],
        current_rx_buffer := 0, tx_buffer_count := 0, tx_buffer_list := [], start_tx_dma_buffer := 0,
        current_tx_buffer := 0, tx_dma_buffers_used := 0, intermediate_rxbuffer := None,
        get_tx_holding_index := 0, put_tx_holding_index := 0, tx_holding_count := 0, tx_holding_buffers := [],
        irq_requested := False, dma_requested := False, io_addr_requested := False, memory_base := 0,
        lcr_base := 0, lcr_mem_requested := False \<rparr>"

lemma but_res_update [simp]:
  "but_res (buffer_list_update f1 i) = but_res i" "but_res (buffer_list_phys_update f2 i) = but_res i"
  "but_res (last_mem_alloc_update f2 i) = but_res i" "but_res (rx_buffer_count_update f2 i) = but_res i"
  "but_res (rx_buffer_list_update f3 i) = but_res i" "but_res (current_rx_buffer_update f2 i) = but_res i"
  "but_res (tx_buffer_count_update f2 i) = but_res i" "but_res (tx_buffer_list_update f3 i) = but_res i"
  "but_res (start_tx_dma_buffer_update f4 i) = but_res i" "but_res (current_tx_buffer_update f4 i) = but_res i"
  "but_res (tx_dma_buffers_used_update f4 i) = but_res i" "but_res (intermediate_rxbuffer_update f5 i) = but_res i"
  "but_res (get_tx_holding_index_update f4 i) = but_res i" "but_res (put_tx_holding_index_update f4 i) = but_res i"
  "but_res (tx_holding_count_update f4 i) = but_res i" "but_res (tx_holding_buffers_update f6 i) = but_res i"
  "but_res (irq_requested_update f7 i) = but_res i" "but_res (dma_requested_update f7 i) = but_res i"
  "but_res (io_addr_requested_update f7 i) = but_res i" "but_res (memory_base_update f1 i) = but_res i"
  "but_res (lcr_base_update f1 i) = but_res i" "but_res (lcr_mem_requested_update f7 i) = but_res i"
  by (simp_all add: but_res_def)

lemma but_res_fields:
  assumes "but_res i = but_res j"
  shows "params i = params j" "pending_bh i = pending_bh j" "bh_running i = bh_running j"
    "bh_requested i = bh_requested j" "max_frame_size i = max_frame_size j" "xmit_buf i = xmit_buf j"
    "xmit_head i = xmit_head j" "xmit_tail i = xmit_tail j" "xmit_cnt i = xmit_cnt j" "port_tty i = port_tty j"
    "num_tx_holding_buffers i = num_tx_holding_buffers j" "num_tx_dma_buffers i = num_tx_dma_buffers j"
    "port_flags i = port_flags j" "netcount i = netcount j" "bus_type i = bus_type j"
  using arg_cong [OF assms, of params] arg_cong [OF assms, of pending_bh]
    arg_cong [OF assms, of bh_running] arg_cong [OF assms, of bh_requested]
    arg_cong [OF assms, of max_frame_size] arg_cong [OF assms, of xmit_buf] arg_cong [OF assms, of xmit_head]
    arg_cong [OF assms, of xmit_tail] arg_cong [OF assms, of xmit_cnt] arg_cong [OF assms, of port_tty]
    arg_cong [OF assms, of num_tx_holding_buffers] arg_cong [OF assms, of num_tx_dma_buffers]
    arg_cong [OF assms, of port_flags] arg_cong [OF assms, of netcount] arg_cong [OF assms, of bus_type]
  by (simp_all add: but_res_def)

text \<open>The contract of every part: only resource fields change, and neither adapter nor kernel.\<close>

definition res_only :: "world \<Rightarrow> world \<Rightarrow> bool" where
  "res_only w w' \<longleftrightarrow> but_res (info w') = but_res (info w) \<and> env w' = env w"

lemma res_only_refl [simp]: "res_only w w"
  by (simp add: res_only_def)

lemma res_only_trans: "res_only u v \<Longrightarrow> res_only v w \<Longrightarrow> res_only u w"
  by (simp add: res_only_def)

lemma res_only_fields:
  assumes "res_only w w'"
  shows "max_frame_size (info w') = max_frame_size (info w)"
    "num_tx_holding_buffers (info w') = num_tx_holding_buffers (info w)"
    "bus_type (info w') = bus_type (info w)"
  using assms but_res_fields [of "info w'" "info w"] by (simp_all add: res_only_def)

lemma dma_alloc_coherent_frame:
  "dma_alloc_coherent n w = (va, da, w') \<Longrightarrow> info w' = info w \<and> env w' = env w"
  by (auto simp: dma_alloc_coherent_def Let_def)

lemma alloc_frames_res: "alloc_frames i n es w = Some (r, es', w') \<Longrightarrow> res_only w w'"
proof (induction "n - i" arbitrary: i es w)
  case 0
  then show ?case by (subst (asm) alloc_frames.simps) simp
next
  case (Suc m)
  then have i: "i < n" and m: "m = n - Suc i" by simp_all
  obtain e where e: "aget es i = Some e"
    using Suc.prems i by (cases "aget es i") (subst (asm) alloc_frames.simps, simp)+
  then have il: "i < length es" by simp
  obtain va da w1 where d: "dma_alloc_coherent DMABUFFERSIZE w = (va, da, w1)" by (metis prod_cases3)
  note w1 = dma_alloc_coherent_frame [OF d]
  show ?case
  proof (cases "bus_type (info w) = R56_BUS_TYPE_PCI")
    case True
    define w2 where "w2 = set_info (last_mem_alloc_update (\<lambda>a. a + of_nat DMABUFFERSIZE)) w"
    have "\<exists>es1. alloc_frames i n es w = alloc_frames (Suc i) n es1 w2"
      using i e il True by (subst alloc_frames.simps) (auto simp: w2_def)
    then have "res_only w2 w'" using Suc.hyps(1) [OF m] Suc.prems by metis
    then show ?thesis by (simp add: res_only_def w2_def)
  next
    case False
    have "(\<exists>es1. alloc_frames i n es w = Some (- ENOMEM, es1, w1)) \<or>
          (\<exists>es1. alloc_frames i n es w = alloc_frames (Suc i) n es1 w1)"
      using i e il False d by (subst alloc_frames.simps, subst (2) alloc_frames.simps) (auto simp: Let_def)
    then have "w' = w1 \<or> res_only w1 w'" using Suc.hyps(1) [OF m] Suc.prems by auto
    then show ?thesis using w1 by (auto simp: res_only_def)
  qed
qed

lemma holding_frame_res: "holding_frame w w' \<Longrightarrow> res_only w w'"
  by (auto simp: holding_frame_def res_only_def)

lemma dma_buffer_counts_res: "res_only w (dma_buffer_counts w)"
  by (simp add: dma_buffer_counts_def Let_def res_only_def)


lemma alloc_list_res: "r56_alloc_buffer_list_memory w = Some (r, w') \<Longrightarrow> res_only w w'"
  by (auto simp: r56_alloc_buffer_list_memory_def Let_def res_only_def dest: dma_alloc_coherent_frame
      split: if_splits prod.splits)

lemma alloc_rxbuffer_res: "r56_alloc_intermediate_rxbuffer_memory w = (r, w') \<Longrightarrow> res_only w w'"
  by (auto simp: r56_alloc_intermediate_rxbuffer_memory_def Let_def case_prod_unfold res_only_def)

lemma alloc_txbuffer_res:
  assumes "num_tx_holding_buffers (info w) \<le> 5" "r56_alloc_intermediate_txbuffer_memory w = Some (r, w')"
  shows "res_only w w'"
proof -
  define w1 where "w1 = set_info (tx_holding_buffers_update (\<lambda>_. replicate 5 zero_holding_buffer)) w"
  have eq: "alloc_holding 0 (nat (num_tx_holding_buffers (info w))) w1 = Some (r, w')"
    using assms(2) by (simp add: r56_alloc_intermediate_txbuffer_memory_def w1_def)
  have "nat (num_tx_holding_buffers (info w)) \<le> length (tx_holding_buffers (info w1))"
    using assms(1) by (simp add: w1_def)
  from alloc_holding_total [OF _ this, of 0] eq have "holding_frame w1 w'" by auto
  from holding_frame_res [OF this] show ?thesis by (simp add: res_only_def w1_def)
qed

lemma reset_lists_res:
  "r56_reset_rx_dma_buffers w = Some w' \<Longrightarrow> res_only w w'"
  "r56_reset_tx_dma_buffers w = Some w' \<Longrightarrow> res_only w w'"
  by (auto simp: r56_reset_rx_dma_buffers_def r56_reset_tx_dma_buffers_def res_only_def split: Option.bind_splits)

lemma res_only_list:
  "res_only w w' \<Longrightarrow> res_only w (set_info (rx_buffer_list_update f) w')"
  "res_only w w' \<Longrightarrow> res_only w (set_info (tx_buffer_list_update f) w')"
  by (simp_all add: res_only_def)

lemma allocate_tail_res:
  assumes hold: "num_tx_holding_buffers (info w) \<le> 5" and run: "allocate_tail w = Some (r, w')"
  shows "res_only w w'"
proof -
  obtain r1 w1 where 1: "r56_alloc_intermediate_rxbuffer_memory w = (r1, w1)" by fastforce
  have s1: "res_only w w1" by (rule alloc_rxbuffer_res [OF 1])
  have h1: "num_tx_holding_buffers (info w1) \<le> 5" using s1 hold by (simp add: res_only_fields [OF s1])
  show ?thesis
  proof (cases "r1 < 0")
    case True
    then show ?thesis using run 1 s1 by (simp add: allocate_tail_def)
  next
    case False
    then obtain r2 w2 where 2: "r56_alloc_intermediate_txbuffer_memory w1 = Some (r2, w2)"
      using run 1 by (auto simp: allocate_tail_def split: Option.bind_splits)
    have s2: "res_only w w2" using s1 alloc_txbuffer_res [OF h1 2] res_only_trans by blast
    show ?thesis
    proof (cases "r2 < 0")
      case True
      then show ?thesis using run 1 2 False s2 by (simp add: allocate_tail_def)
    next
      case f2: False
      then obtain w3 where 3: "r56_reset_rx_dma_buffers w2 = Some w3" "r56_reset_tx_dma_buffers w3 = Some w'"
        using run 1 2 False by (auto simp: allocate_tail_def split: Option.bind_splits)
      then show ?thesis using s2 reset_lists_res res_only_trans by blast
    qed
  qed
qed

lemma allocate_with_tail:
  "r56_allocate_dma_buffers w =
    do { (r, w) \<leftarrow> r56_alloc_buffer_list_memory (dma_buffer_counts w);
         if r < 0 then Some (- ENOMEM, w)
         else do {
           (r, es, w) \<leftarrow> r56_alloc_frame_memory (rx_buffer_list (info w)) (unat (rx_buffer_count (info w))) w;
           let w = set_info (rx_buffer_list_update (\<lambda>_. es)) w
           in if r < 0 then Some (- ENOMEM, w)
              else do {
                (r, es, w) \<leftarrow> r56_alloc_frame_memory (tx_buffer_list (info w)) (unat (tx_buffer_count (info w))) w;
                let w = set_info (tx_buffer_list_update (\<lambda>_. es)) w
                in if r < 0 then Some (- ENOMEM, w) else allocate_tail w } } }"
  by (simp only: r56_allocate_dma_buffers_def allocate_tail_def Let_def)

lemma allocate_res:
  assumes hold: "num_tx_holding_buffers (info w) \<le> 5" and run: "r56_allocate_dma_buffers w = Some (r, w')"
  shows "res_only w w'"
proof -
  obtain r1 w1 where 1: "r56_alloc_buffer_list_memory (dma_buffer_counts w) = Some (r1, w1)"
    using run by (auto simp: allocate_with_tail split: Option.bind_splits)
  have s1: "res_only w w1" using dma_buffer_counts_res alloc_list_res [OF 1] res_only_trans by blast
  show ?thesis
  proof (cases "r1 < 0")
    case True
    then show ?thesis using run 1 s1 by (simp add: allocate_with_tail)
  next
    case False
    obtain r2 e2 w2 where 2: "r56_alloc_frame_memory (rx_buffer_list (info w1)) (unat (rx_buffer_count (info w1))) w1 =
        Some (r2, e2, w2)"
      using run 1 False by (auto simp: allocate_with_tail split: Option.bind_splits)
    define w2' where "w2' = set_info (rx_buffer_list_update (\<lambda>_. e2)) w2"
    have s2: "res_only w w2'" unfolding w2'_def
      using 2 s1 alloc_frames_res res_only_trans by (auto simp: r56_alloc_frame_memory_def intro!: res_only_list)
    show ?thesis
    proof (cases "r2 < 0")
      case True
      then show ?thesis using run 1 2 False s2 by (simp add: allocate_with_tail w2'_def)
    next
      case f2: False
      obtain r3 e3 w3 where 3: "r56_alloc_frame_memory (tx_buffer_list (info w2')) (unat (tx_buffer_count (info w2'))) w2' =
          Some (r3, e3, w3)"
        using run 1 2 False f2 by (auto simp: allocate_with_tail w2'_def split: Option.bind_splits)
      define w3' where "w3' = set_info (tx_buffer_list_update (\<lambda>_. e3)) w3"
      have s3: "res_only w w3'" unfolding w3'_def
        using 3 s2 alloc_frames_res res_only_trans by (auto simp: r56_alloc_frame_memory_def intro!: res_only_list)
      have "(if r3 < 0 then Some (- ENOMEM, w3') else allocate_tail w3') = Some (r, w')"
        using run 1 2 3 False f2 unfolding allocate_with_tail w3'_def
        by (simp add: w2'_def Let_def split del: if_split)
      moreover have "num_tx_holding_buffers (info w3') \<le> 5" using hold by (simp add: res_only_fields [OF s3])
      ultimately show ?thesis using s3 allocate_tail_res [of w3' r w'] res_only_trans by (auto split: if_splits)
    qed
  qed
qed

subsection \<open>Release\<close>

text \<open>Nothing is claimed and no buffer is held.\<close>

definition released :: "r56_struct \<Rightarrow> bool" where
  "released i \<longleftrightarrow>
     \<not> irq_requested i \<and> \<not> dma_requested i \<and> \<not> io_addr_requested i \<and> memory_base i = 0 \<and> lcr_base i = 0 \<and>
     buffer_list i = 0 \<and> rx_buffer_list i = [] \<and> tx_buffer_list i = [] \<and> intermediate_rxbuffer i = None \<and>
     (\<forall>k<nat (num_tx_holding_buffers i). buffer (tx_holding_buffers i ! k) = None)"

text \<open>The entry lists are as long as their counts say, or not there at all.\<close>

definition releasable :: "r56_struct \<Rightarrow> bool" where
  "releasable i \<longleftrightarrow>
     (rx_buffer_list i = [] \<or> unat (rx_buffer_count i) \<le> length (rx_buffer_list i)) \<and>
     (tx_buffer_list i = [] \<or> unat (tx_buffer_count i) \<le> length (tx_buffer_list i)) \<and>
     nat (num_tx_holding_buffers i) \<le> length (tx_holding_buffers i)"

lemma free_frames_total:
  "n \<le> length es \<Longrightarrow>
   \<exists>es' w'. free_frames i n es w = Some (es', w') \<and> info w' = info w \<and> env w' = env w \<and> mem w' = mem w"
proof (induction "n - i" arbitrary: i es w)
  case 0
  then show ?case by (subst free_frames.simps) simp
next
  case (Suc m)
  then have i: "i < n" "i < length es" and m: "m = n - Suc i" by simp_all
  show ?case
  proof (cases "virt_addr (es ! i) = 0")
    case True
    then have "free_frames i n es w = free_frames (Suc i) n es w" using i by (subst free_frames.simps) simp
    then show ?thesis using Suc.hyps(1) [OF m Suc.prems] by simp
  next
    case False
    define w1 where "w1 = (if bus_type (info w) \<noteq> R56_BUS_TYPE_PCI then kcall (Dma_free_coherent (virt_addr (es ! i))) w else w)"
    define es1 where "es1 = es[i := (es ! i)\<lparr> virt_addr := 0 \<rparr>]"
    have "free_frames i n es w = free_frames (Suc i) n es1 w1"
      using i False by (subst free_frames.simps) (simp add: w1_def es1_def)
    moreover have "n \<le> length es1" using Suc.prems by (simp add: es1_def)
    ultimately show ?thesis using Suc.hyps(1) [OF m, of es1 w1] by (simp add: w1_def split: if_splits)
  qed
qed

lemma free_frame_memory_total:
  assumes "es = [] \<or> n \<le> length es"
  shows "\<exists>es' w'. r56_free_frame_memory es n w = Some (es', w') \<and> info w' = info w \<and> env w' = env w \<and> mem w' = mem w"
  using assms free_frames_total [of n es 0 w] by (auto simp: r56_free_frame_memory_def)

lemma free_dma_buffers_total:
  assumes "releasable (info w)"
  shows "\<exists>w'. r56_free_dma_buffers w = Some w' \<and> env w' = env w \<and> mem w' = mem w \<and>
    info w' = (info w)\<lparr> buffer_list := 0, rx_buffer_list := [], tx_buffer_list := [] \<rparr>"
proof -
  from assms free_frame_memory_total [of "rx_buffer_list (info w)" "unat (rx_buffer_count (info w))" w]
  obtain es1 w1 where 1: "r56_free_frame_memory (rx_buffer_list (info w)) (unat (rx_buffer_count (info w))) w = Some (es1, w1)"
    "info w1 = info w" "env w1 = env w" "mem w1 = mem w" by (auto simp: releasable_def)
  define w2 where "w2 = set_info (rx_buffer_list_update (\<lambda>_. es1)) w1"
  from assms free_frame_memory_total [of "tx_buffer_list (info w)" "unat (tx_buffer_count (info w))" w2]
  obtain es2 w3 where 2: "r56_free_frame_memory (tx_buffer_list (info w)) (unat (tx_buffer_count (info w))) w2 = Some (es2, w3)"
    "info w3 = info w2" "env w3 = env w" "mem w3 = mem w" using 1 by (auto simp: releasable_def w2_def)
  have "r56_free_dma_buffers w = Some (r56_free_buffer_list_memory (set_info (tx_buffer_list_update (\<lambda>_. es2)) w3))"
    using 1 2 by (simp add: r56_free_dma_buffers_def w2_def)
  then show ?thesis using 1 2 by (simp add: r56_free_buffer_list_memory_def Let_def w2_def)
qed

lemma free_holding_total:
  "n \<le> length (tx_holding_buffers (info w)) \<Longrightarrow> \<forall>k<i. buffer (tx_holding_buffers (info w) ! k) = None \<Longrightarrow> i \<le> n \<Longrightarrow>
   \<exists>w' hs. free_holding i n w = Some w' \<and> info w' = (info w)\<lparr> tx_holding_buffers := hs \<rparr> \<and> env w' = env w \<and> mem w' = mem w \<and>
     length hs = length (tx_holding_buffers (info w)) \<and> (\<forall>k<n. buffer (hs ! k) = None)"
proof (induction "n - i" arbitrary: i w)
  case 0
  then have "free_holding i n w = Some w" "\<forall>k<n. buffer (tx_holding_buffers (info w) ! k) = None"
    by (subst free_holding.simps, simp_all)
  moreover have "info w = (info w)\<lparr> tx_holding_buffers := tx_holding_buffers (info w) \<rparr>" by simp
  ultimately show ?case by blast
next
  case (Suc m)
  then have i: "i < n" and m: "m = n - Suc i" by simp_all
  define hs where "hs = (tx_holding_buffers (info w))[i := (tx_holding_buffers (info w) ! i)\<lparr> buffer := None \<rparr>]"
  define w1 where "w1 = set_info (tx_holding_buffers_update (\<lambda>_. hs)) (kcall Kfree w)"
  have eq: "free_holding i n w = free_holding (Suc i) n w1"
    using i Suc.prems(1) by (subst free_holding.simps) (simp add: w1_def hs_def)
  have n1: "n \<le> length (tx_holding_buffers (info w1))" using Suc.prems(1) by (simp add: w1_def hs_def)
  have none: "\<forall>k<Suc i. buffer (tx_holding_buffers (info w1) ! k) = None"
    using Suc.prems i by (auto simp: w1_def hs_def nth_list_update less_Suc_eq)
  from Suc.hyps(1) [OF m n1 none] i obtain w' hs' where
    "free_holding (Suc i) n w1 = Some w'" "info w' = (info w1)\<lparr> tx_holding_buffers := hs' \<rparr>" "env w' = env w1" "mem w' = mem w1"
    "length hs' = length (tx_holding_buffers (info w1))" "\<forall>k<n. buffer (hs' ! k) = None" by auto
  then show ?case unfolding eq by (intro exI [of _ w'] exI [of _ hs']) (simp add: w1_def hs_def)
qed

text \<open>The end of the release: the I/O region and the two mappings.\<close>

lemma unmap_frame:
  defines "u \<equiv> \<lambda>w. if io_addr_requested (info w)
      then set_info (io_addr_requested_update (\<lambda>_. False)) (kcall Release_region w) else w"
    and "v \<equiv> \<lambda>w. if memory_base (info w) \<noteq> 0
      then set_info (memory_base_update (\<lambda>_. 0)) (kcall (Iounmap (memory_base (info w))) w) else w"
    and "x \<equiv> \<lambda>w. if lcr_base (info w) \<noteq> 0 then set_info (lcr_base_update (\<lambda>_. 0))
      (kcall (Iounmap (lcr_base (info w) - unat (lcr_offset (info w)))) w) else w"
  shows "info (x (v (u w))) = (info w)\<lparr> io_addr_requested := False, memory_base := 0, lcr_base := 0 \<rparr>"
    "env (x (v (u w))) = env w" "mem (x (v (u w))) = mem w"
proof -
  have f: "env (u w) = env w" "mem (u w) = mem w" "env (v w) = env w" "mem (v w) = mem w" "env (x w) = env w" "mem (x w) = mem w"
    for w by (simp_all add: u_def v_def x_def)
  then show "env (x (v (u w))) = env w" "mem (x (v (u w))) = mem w" by simp_all
  have "info (u w) = (info w)\<lparr> io_addr_requested := False \<rparr>" "info (v w) = (info w)\<lparr> memory_base := 0 \<rparr>"
    "info (x w) = (info w)\<lparr> lcr_base := 0 \<rparr>" for w by (simp_all add: u_def v_def x_def)
  then show "info (x (v (u w))) = (info w)\<lparr> io_addr_requested := False, memory_base := 0, lcr_base := 0 \<rparr>" by simp
qed

lemma release_total:
  assumes "releasable (info w)"
  shows "\<exists>w'. r56_release_resources w = Some w' \<and> released (info w') \<and> res_only w w' \<and> mem w' = mem w \<and>
    length (tx_holding_buffers (info w')) = length (tx_holding_buffers (info w))"
proof -
  define w1 where "w1 = (if irq_requested (info w)
      then set_info (irq_requested_update (\<lambda>_. False)) (kcall Free_irq w) else w)"
  define w2 where "w2 = (if dma_requested (info w1)
      then set_info (dma_requested_update (\<lambda>_. False)) (kcall Free_dma (kcall Disable_dma w1)) else w1)"
  have i2: "info w2 = (info w)\<lparr> irq_requested := False, dma_requested := False \<rparr>" "env w2 = env w" "mem w2 = mem w"
    by (simp_all add: w2_def w1_def)
  have "releasable (info w2)" using assms by (simp add: i2 releasable_def)
  from free_dma_buffers_total [OF this] obtain w3 where w3: "r56_free_dma_buffers w2 = Some w3" "env w3 = env w" "mem w3 = mem w"
    "info w3 = (info w2)\<lparr> buffer_list := 0, rx_buffer_list := [], tx_buffer_list := [] \<rparr>" using i2 by auto
  define w4 where "w4 = r56_free_intermediate_rxbuffer_memory w3"
  have i4: "info w4 = (info w3)\<lparr> intermediate_rxbuffer := None \<rparr>" "env w4 = env w" "mem w4 = mem w"
    by (simp_all add: w4_def r56_free_intermediate_rxbuffer_memory_def w3)
  have "nat (num_tx_holding_buffers (info w4)) \<le> length (tx_holding_buffers (info w4))"
    using assms by (simp add: i4 w3 i2 releasable_def)
  from free_holding_total [OF this, of 0] obtain w5 hs where w5: "free_holding 0 (nat (num_tx_holding_buffers (info w4))) w4 = Some w5"
    "info w5 = (info w4)\<lparr> tx_holding_buffers := hs \<rparr>" "env w5 = env w4" "mem w5 = mem w4"
    "length hs = length (tx_holding_buffers (info w4))" "\<forall>k<nat (num_tx_holding_buffers (info w4)). buffer (hs ! k) = None" by auto
  define w6 where "w6 = set_info (\<lambda>i. i\<lparr> get_tx_holding_index := 0, put_tx_holding_index := 0, tx_holding_count := 0 \<rparr>) w5"
  define w7 where "w7 = (if io_addr_requested (info w6)
      then set_info (io_addr_requested_update (\<lambda>_. False)) (kcall Release_region w6) else w6)"
  define w8 where "w8 = (if memory_base (info w7) \<noteq> 0
      then set_info (memory_base_update (\<lambda>_. 0)) (kcall (Iounmap (memory_base (info w7))) w7) else w7)"
  define w9 where "w9 = (if lcr_base (info w8) \<noteq> 0 then set_info (lcr_base_update (\<lambda>_. 0))
      (kcall (Iounmap (lcr_base (info w8) - unat (lcr_offset (info w8)))) w8) else w8)"
  have run: "r56_release_resources w = Some w9"
    using w3(1) w5(1)
    unfolding r56_release_resources_def r56_free_intermediate_txbuffer_memory_def Let_def w1_def w2_def w4_def w6_def w7_def
      w8_def w9_def
    by (simp split del: if_split)
  have i9: "info w9 = (info w6)\<lparr> io_addr_requested := False, memory_base := 0, lcr_base := 0 \<rparr>" "env w9 = env w6" "mem w9 = mem w6"
    unfolding w9_def w8_def w7_def by (rule unmap_frame)+
  have e6: "env w6 = env w" "mem w6 = mem w" using w5 i4 by (simp_all add: w6_def)
  have "released (info w9)" using w5(6) by (simp add: i9 w6_def w5 i4 w3 i2 released_def)
  moreover have "res_only w w9" by (simp add: res_only_def i9 e6) (simp add: w6_def w5 i4 w3 i2)
  ultimately show ?thesis using run i9 e6 by (simp add: w6_def w5 i4 w3 i2)
qed

subsection \<open>Claim\<close>

text \<open>A closed device on a PCI adapter, configured within the limits.\<close>

definition configured :: "r56_struct \<Rightarrow> bool" where
  "configured i \<longleftrightarrow>
     bus_type i = R56_BUS_TYPE_PCI \<and> 4096 \<le> max_frame_size i \<and> max_frame_size i \<le> 65535 \<and>
     0 < num_tx_dma_buffers i \<and>
     nat (num_tx_dma_buffers i) * ((unat (max_frame_size i) + 4095) div 4096) \<le> 61 \<and>
     0 \<le> num_tx_holding_buffers i \<and> num_tx_holding_buffers i \<le> 5"

lemma configured_res: "but_res i' = but_res i \<Longrightarrow> configured i' = configured i"
  unfolding configured_def by (simp only: but_res_fields [of i' i])

lemma info_writel [simp]: "info (writel v a w) = info w" "env (writel v a w) = env w"
  by (simp_all add: writel_def)

lemma info_readl [simp]: "info (snd (readl a w)) = info w" "env (snd (readl a w)) = env w"
  by (simp_all add: readl_def)

lemma test_data_lines_frame [simp]:
  "info (snd (test_data_lines ps a w)) = info w" "env (snd (test_data_lines ps a w)) = env w"
  by (induction ps arbitrary: w) (simp_all add: case_prod_unfold Let_def)

lemma fill_words_frame [simp]: "info (fill_words n a w) = info w" "env (fill_words n a w) = env w"
  unfolding fill_words_def by (induction n) simp_all

lemma check_words_frame [simp]:
  "info (snd (check_words is a w)) = info w" "env (snd (check_words is a w)) = env w"
  by (induction "is" arbitrary: w) (simp_all add: case_prod_unfold Let_def)

lemma memory_test_bank_frame [simp]: "info (memory_test_bank w) = info w" "env (memory_test_bank w) = env w"
  unfolding memory_test_bank_def Let_def case_prod_unfold by simp_all

lemma memory_test_frame [simp]:
  "info (snd (r56_memory_test w)) = info w" "env (snd (r56_memory_test w)) = env w"
proof -
  define w1 where "w1 = memory_test_bank w"
  define ok w2 where "ok = fst (test_data_lines memory_patterns (memory_base (info w)) w1)"
    and "w2 = snd (test_data_lines memory_patterns (memory_base (info w)) w1)"
  define ok' w3 where "ok' = fst (check_words [0..<TestLimit] (memory_base (info w)) (fill_words TestLimit (memory_base (info w)) w2))"
    and "w3 = snd (check_words [0..<TestLimit] (memory_base (info w)) (fill_words TestLimit (memory_base (info w)) w2))"
  have frame: "info w2 = info w" "env w2 = env w" "info w3 = info w" "env w3 = env w"
    by (simp_all only: w1_def w2_def w3_def memory_test_bank_frame test_data_lines_frame check_words_frame fill_words_frame)
  have "snd (r56_memory_test w) = (if bus_type (info w) \<noteq> R56_BUS_TYPE_PCI then w else if \<not> ok then w2 else if \<not> ok' then w3
      else w3\<lparr> mem := mem_write (memory_base (info w)) (replicate SHARED_MEM_ADDRESS_SIZE 0) (mem w3) \<rparr>)"
    unfolding r56_memory_test_def w1_def w2_def w3_def ok_def ok'_def Let_def case_prod_unfold
    by (simp only: if_distrib [of snd] snd_conv)
  then show "info (snd (r56_memory_test w)) = info w" "env (snd (r56_memory_test w)) = env w"
    by (simp_all add: frame)
qed

lemma ask_frame [simp]: "info (snd (ask c w)) = info w" "env (snd (ask c w)) = env w" "mem (snd (ask c w)) = mem w"
  by (simp_all add: ask_def Let_def)

text \<open>The contract of the parts: everything, or nothing and \<open>-ENODEV\<close>.\<close>

definition claimed :: "world \<Rightarrow> (int \<times> world) option \<Rightarrow> bool" where
  "claimed w res \<longleftrightarrow>
     (\<exists>r w'. res = Some (r, w') \<and> res_only w w' \<and> length (tx_holding_buffers (info w')) = 5 \<and>
        (r = 0 \<and> allocated (info w) (info w') \<and> list_lengths (info w') \<or> r = - ENODEV \<and> released (info w')))"

lemma claimed_res: "claimed w' res \<Longrightarrow> res_only w w' \<Longrightarrow> claimed w res"
proof -
  assume c: "claimed w' res" and r: "res_only w w'"
  have "max_frame_size (info w') = max_frame_size (info w)" by (rule res_only_fields [OF r])
  then have "allocated (info w') i = allocated (info w) i" for i by (simp only: allocated_def)
  moreover from c obtain k v where "res = Some (k, v)" "res_only w' v" "length (tx_holding_buffers (info v)) = 5"
    "k = 0 \<and> allocated (info w') (info v) \<and> list_lengths (info v) \<or> k = - ENODEV \<and> released (info v)"
    unfolding claimed_def by blast
  ultimately show "claimed w res" using res_only_trans [OF r] unfolding claimed_def by blast
qed

lemma claim_errout_claimed:
  assumes "releasable (info w)" "length (tx_holding_buffers (info w)) = 5"
  shows "claimed w (claim_errout w)"
  using release_total [OF assms(1)] assms(2) by (auto simp: claim_errout_def claimed_def)

lemma claim_buffers_claimed:
  assumes conf: "configured (info w)" and len: "length (tx_holding_buffers (info w)) = 5"
  shows "claimed w (claim_buffers w)"
proof -
  have "unat (max_frame_size (info w)) \<le> 65535" "0 < max_frame_size (info w)"
    using conf by (auto simp: configured_def word_le_nat_alt word_less_nat_alt)
  from allocate_dma_buffers_total [OF _ this] conf obtain r w' where
    a: "r56_allocate_dma_buffers w = Some (r, w')" "r = 0 \<or> r = - ENOMEM" "r = 0 \<longrightarrow> allocated (info w) (info w')"
      "list_lengths (info w')" "length (tx_holding_buffers (info w')) = 5" using len by (auto simp: configured_def)
  have res: "res_only w w'" using allocate_res [OF _ a(1)] conf by (simp add: configured_def)
  then have "releasable (info w')"
    using conf a(4,5) by (auto simp: releasable_def list_lengths_def configured_def res_only_fields [OF res])
  from claimed_res [OF claim_errout_claimed [OF this a(5)] res] show ?thesis
    using a res by (auto simp: claim_buffers_def claimed_def)
qed

lemma claim_errout_res:
  assumes conf: "configured (info w)" and len: "length (tx_holding_buffers (info w)) = 5"
    and res: "res_only w v" and v: "tx_holding_buffers (info v) = tx_holding_buffers (info w)"
      "rx_buffer_list (info v) = []" "tx_buffer_list (info v) = []"
  shows "claimed w (claim_errout v)"
proof (rule claimed_res [OF claim_errout_claimed res])
  have "nat (num_tx_holding_buffers (info w)) \<le> 5" using conf by (simp add: configured_def nat_le_iff)
  then show "releasable (info v)" "length (tx_holding_buffers (info v)) = 5"
    using v len by (simp_all add: releasable_def res_only_fields [OF res])
qed

lemma claim_pci_claimed:
  assumes conf: "configured (info w)" and len: "length (tx_holding_buffers (info w)) = 5"
    and rel: "rx_buffer_list (info w) = []" "tx_buffer_list (info w) = []"
  shows "claimed w (claim_pci w)"
proof -
  note err = claim_errout_res [OF conf len]
  have bufs: "claimed w (claim_buffers v)" if "res_only w v" "tx_holding_buffers (info v) = tx_holding_buffers (info w)" for v
  proof (rule claimed_res [OF claim_buffers_claimed that(1)])
    show "configured (info v)" "length (tx_holding_buffers (info v)) = 5"
      using that conf len configured_res [of "info v" "info w"] by (simp_all add: res_only_def)
  qed
  show ?thesis
    unfolding claim_pci_def case_prod_unfold Let_def using rel
    by (auto intro!: err bufs simp: res_only_def)
qed

lemma claim_resources_claimed:
  assumes conf: "configured (info w)" and len: "length (tx_holding_buffers (info w)) = 5" and rel: "released (info w)"
  shows "claimed w (r56_claim_resources w)"
proof -
  define w1 where "w1 = set_info (io_addr_requested_update (\<lambda>_. True)) (snd (ask Request_region w))"
  define w2 where "w2 = snd (ask Request_irq w1)"
  define w3 where "w3 = set_info (irq_requested_update (\<lambda>_. True)) w2"
  have res: "res_only w w2" "res_only w w3" by (simp_all add: res_only_def w1_def w2_def w3_def)
  have e: "rx_buffer_list (info w) = []" "tx_buffer_list (info w) = []" using rel by (simp_all add: released_def)
  have err: "claimed w (claim_errout w2)"
    by (rule claim_errout_res [OF conf len res(1)]) (simp_all add: w2_def w1_def e)
  have pci: "claimed w (claim_pci w3)"
    using claimed_res [OF claim_pci_claimed res(2)] conf len e by (simp add: configured_def w3_def w2_def w1_def)
  have none: "claimed w (Some (- ENODEV, snd (ask Request_region w)))"
    using rel len by (simp add: claimed_def res_only_def)
  have "r56_claim_resources w = (if fst (ask Request_region w) = 0 then Some (- ENODEV, snd (ask Request_region w))
      else if fst (ask Request_irq w1) < 0 then claim_errout w2 else claim_pci w3)"
    using conf by (simp add: r56_claim_resources_def case_prod_unfold Let_def w1_def w2_def w3_def configured_def)
  then show ?thesis using err pci none by simp
qed

end
