(* ===== verification/R56_System.thy ===== *)
theory R56_System
  imports R56_Handlers
begin

text \<open>
  Interrupt handling as a whole: the dispatcher returns from every well-formed state, the bottom
  half works off everything the handlers left for it, and, as a step relation over interrupts,
  bottom half, transmit timer, DMA controller and user writes, no work item is ever left behind
  without a bottom half that is requested or running.
\<close>

subsection \<open>Emptying the receive FIFO\<close>

text \<open>The commands that read one character from the receive FIFO.\<close>

definition data_select :: "u16 \<Rightarrow> bool" where
  "data_select c \<longleftrightarrow> c AND NOT 0x0780 = (RDR + LSBONLY) AND NOT 0x0780"

definition data_reads :: "event list \<Rightarrow> nat" where
  "data_reads es = length (filter (\<lambda>(r, v). r = CCAR \<and> data_select v) (writes es))"

text \<open>
  An adapter whose FIFO holds at most \<open>n\<close> characters after the history \<open>h\<close> and that gives
  up one with every read: the fill level it reports.
\<close>

definition fifo_drains :: "environment \<Rightarrow> event list \<Rightarrow> nat \<Rightarrow> bool" where
  "fifo_drains e h n \<longleftrightarrow> (\<forall>es. unat (drop_bit 8 (dev_readw e (h @ es) RICR)) \<le> n - data_reads es)"

lemma data_reads_append [simp]: "data_reads (es @ fs) = data_reads es + data_reads fs"
  by (simp add: data_reads_def)

lemma usc_InReg_value:
  "\<exists>es. fst (usc_InReg w r) = dev_readw (env w) (trace w @ es) r \<and> writes es = []"
proof -
  define a where "a = io_base (info w)"
  define t where "t = dev_inb (env w) (trace w) a"
  define es where "es = (if hw_version (info w) = R561_DEVICE_ID
      then Inb a # (if \<not> tst t 0x80 \<or> tst t 0x40 then [Outb a ((t OR 0x80) AND NOT 0x40), Inb a] else []) else [])"
  have "fst (usc_InReg w r) = dev_readw (env w) (trace w @ es) r"
    by (simp add: usc_InReg_def Let_def case_prod_unfold inb_def outb_def readw_def emit_def es_def t_def a_def)
  moreover have "writes es = []"
    by (cases "hw_version (info w) = R561_DEVICE_ID"; cases "\<not> tst t 0x80 \<or> tst t 0x40") (simp_all add: es_def writes_def)
  ultimately show ?thesis by blast
qed

text \<open>The kernel calls of a history.\<close>

fun call_of :: "event \<Rightarrow> kcall list" where
  "call_of (Call c) = [c]"
| "call_of _ = []"

definition calls :: "event list \<Rightarrow> kcall list" where
  "calls es = concat (map call_of es)"

lemma calls_append [simp]: "calls (es @ fs) = calls es @ calls fs"
  by (simp add: calls_def)

lemma calls_single [simp]: "calls [e] = call_of e"
  by (simp add: calls_def)

lemma calls_Nil [simp]: "calls [] = []"
  by (simp add: calls_def)

lemma trace_usc_OutReg: "\<exists>es. trace (usc_OutReg w r v) = trace w @ es \<and> writes es = [(r, v)] \<and> calls es = []"
  by (simp add: usc_OutReg_def Let_def case_prod_unfold inb_def outb_def writew_def emit_def calls_def writes_def)

lemma trace_usc_InReg: "\<exists>es. trace (snd (usc_InReg w r)) = trace w @ es \<and> writes es = [] \<and> calls es = []"
  by (simp add: usc_InReg_def Let_def case_prod_unfold inb_def outb_def readw_def emit_def calls_def writes_def)

text \<open>What one round does: counters only, and no call that hands the characters on.\<close>

definition rx_step :: "world \<Rightarrow> world \<Rightarrow> bool" where
  "rx_step w w' \<longleftrightarrow>
     (\<exists>n. info w' = (info w)\<lparr> icount := n \<rparr>) \<and> env w' = env w \<and> mem w' = mem w \<and>
     (\<exists>es. trace w' = trace w @ es \<and> Tty_flip_buffer_push \<notin> set (calls es))"

lemma rx_stepI:
  assumes "info w' = (info w)\<lparr> icount := n \<rparr>" "env w' = env w" "mem w' = mem w" "trace w' = trace w @ es"
    "Tty_flip_buffer_push \<notin> set (calls es)"
  shows "rx_step w w'"
  using assms unfolding rx_step_def by blast

lemma rx_step_refl: "rx_step w w"
  by (rule rx_stepI [where n = "icount (info w)" and es = "[]"]) simp_all

lemma rx_step_trans: "rx_step u v \<Longrightarrow> rx_step v w \<Longrightarrow> rx_step u w"
  unfolding rx_step_def by (elim conjE exE) (auto; fail)

lemma rx_step_simple:
  "rx_step w (snd (usc_InReg w r))" "rx_step w (usc_OutReg w r v)" "rx_step w (set_icount f w)"
  "c \<noteq> Tty_flip_buffer_push \<Longrightarrow> rx_step w (kcall c w)"
proof -
  obtain es where "trace (snd (usc_InReg w r)) = trace w @ es" "calls es = []" using trace_usc_InReg by blast
  then show "rx_step w (snd (usc_InReg w r))"
    by (intro rx_stepI [where n = "icount (info w)" and es = es]) simp_all
  obtain es where "trace (usc_OutReg w r v) = trace w @ es" "calls es = []" using trace_usc_OutReg by blast
  then show "rx_step w (usc_OutReg w r v)"
    by (intro rx_stepI [where n = "icount (info w)" and es = es]) simp_all
  show "rx_step w (set_icount f w)"
    by (rule rx_stepI [where n = "f (icount (info w))" and es = "[]"]) simp_all
  show "rx_step w (kcall c w)" if "c \<noteq> Tty_flip_buffer_push"
    using that by (intro rx_stepI [where n = "icount (info w)" and es = "[Call c]"]) simp_all
qed

lemma rx_step_rmw: "rx_step w (usc_rmw w r f)"
  unfolding usc_rmw_def case_prod_unfold Let_def by (rule rx_step_trans [OF rx_step_simple(1,2)])

lemma rx_step_commands:
  "rx_step w (usc_UnlatchRxstatusBits w b)" "rx_step w (usc_RTCmd w b)" "rx_step w (usc_RCmd w b)"
  "rx_step w (usc_ClearIrqPendingBits w b)"
  unfolding usc_macro_defs using rx_step_rmw rx_step_simple(2) by blast+

lemma rx_char_error_step: "rx_step w (snd (rx_char_error st w))"
proof -
  have "rx_step w (set_icount f (usc_RTCmd w c))" for f c
    using rx_step_simple(3) rx_step_commands(2) rx_step_trans by blast
  then show ?thesis by (simp add: rx_char_error_def rx_step_simple(3) rx_step_refl)
qed

lemma rx_char_flag_step: "rx_step w (snd (rx_char_flag st w))"
  using rx_step_simple(4) [of Do_SAK w] rx_step_refl by (simp add: rx_char_flag_def)

lemma insert_flip_char_step: "rx_step w (snd (tty_insert_flip_char ch fl w))"
  using rx_step_simple(4) [of "Tty_insert_flip_char ch fl" w] by (simp add: tty_insert_flip_char_def Let_def)

lemma tst_and: "tst (a AND m) b \<Longrightarrow> tst a b"
  by (auto simp: tst_iff_bit bit_simps)

lemma rx_char_error_overrun:
  "tst (fst (rx_char_error st w)) RXSTATUS_OVERRUN \<Longrightarrow> tst st RXSTATUS_OVERRUN"
  by (auto simp: rx_char_error_def tst_iff_bit bit_simps split: if_splits)

lemma rx_char_check_step:
  assumes "rx_char_check st w = (d, fl, st', w')"
  shows "rx_step w w'" "tst st' RXSTATUS_OVERRUN \<Longrightarrow> tst st RXSTATUS_OVERRUN"
proof -
  obtain st1 w1 where e: "rx_char_error st w = (st1, w1)" by (cases "rx_char_error st w")
  obtain f w2 where f: "rx_char_flag (st1 AND read_status_mask (info w1)) w1 = (f, w2)"
    by (cases "rx_char_flag (st1 AND read_status_mask (info w1)) w1")
  have s1: "rx_step w w1" using rx_char_error_step [of w st] e by simp
  have "rx_step w1 w2" using rx_char_flag_step [of w1] f by (metis snd_conv)
  then show "rx_step w w'"
    using assms s1 rx_step_trans rx_step_refl by (auto simp: rx_char_check_def e f Let_def split: if_splits)
  have "tst st1 RXSTATUS_OVERRUN \<Longrightarrow> tst st RXSTATUS_OVERRUN"
    using rx_char_error_overrun [of st w] e by simp
  then show "tst st' RXSTATUS_OVERRUN \<Longrightarrow> tst st RXSTATUS_OVERRUN"
    using assms tst_and by (auto simp: rx_char_check_def e f Let_def split: if_splits)
qed

lemma rx_char_insert_step:
  "rx_step w (snd (rx_char_insert work b fl st w))"
  "\<not> tst st RXSTATUS_OVERRUN \<Longrightarrow> fst (rx_char_insert work b fl st w) = work"
proof -
  show "rx_step w (snd (rx_char_insert work b fl st w))"
    unfolding rx_char_insert_def case_prod_unfold Let_def
    using insert_flip_char_step rx_step_trans by (simp split: if_splits) blast
qed (simp add: rx_char_insert_def case_prod_unfold Let_def)

lemma data_select_command: "data_select ((v AND 0x0780) OR (RDR + LSBONLY))"
proof -
  have "((v AND 0x0780) OR x) AND NOT 0x0780 = x AND NOT 0x0780" for x :: u16
    by (rule bit_word_eqI) (auto simp: bit_simps)
  then show ?thesis by (simp only: data_select_def)
qed

lemma rx_char_step:
  "rx_step w (snd (rx_char work w)) \<and>
     (\<exists>es. trace (snd (rx_char work w)) = trace w @ es \<and> 1 \<le> data_reads es)"
  "\<forall>es. \<not> tst (dev_readw (env w) es RCSR) RXSTATUS_OVERRUN \<Longrightarrow> fst (rx_char work w) = work"
proof -
  define c where "c = (fst (usc_InReg w CCAR) AND 0x0780) OR (RDR + LSBONLY)"
  define w1 where "w1 = usc_OutReg (snd (usc_InReg w CCAR)) CCAR c"
  define b where "b = (ucast (fst (usc_InReg w1 CCAR) AND 0x00FF) :: u8)"
  define w2 where "w2 = snd (usc_InReg w1 CCAR)"
  define st where "st = fst (usc_InReg w2 RCSR)"
  define w3 where "w3 = snd (usc_InReg w2 RCSR)"
  define w4 where "w4 = set_icount (ic_rx_update (\<lambda>n. n + 1))
      (if tst st RXSTATUS_CHAR_ERRORS then usc_UnlatchRxstatusBits w3 RXSTATUS_ALL else w3)"
  obtain d fl st' w5 where ch: "rx_char_check st w4 = (d, fl, st', w5)" by (metis prod_cases4)
  have eq: "rx_char work w = (if d then (work, w5) else rx_char_insert work b fl st' w5)"
    unfolding rx_char_def Let_def case_prod_unfold c_def [symmetric] w1_def [symmetric] b_def [symmetric]
      w2_def [symmetric] st_def [symmetric] w3_def [symmetric] w4_def [symmetric] ch by simp
  have "rx_step w1 w3" using rx_step_simple(1) rx_step_trans unfolding w2_def w3_def by blast
  moreover have "rx_step w3 w4"
    unfolding w4_def using rx_step_simple(3) rx_step_commands(1) rx_step_trans by (simp split: if_splits) blast
  ultimately have s5: "rx_step w1 w5" using rx_char_check_step(1) [OF ch] rx_step_trans by blast
  then have step1: "rx_step w1 (snd (rx_char work w))"
    using rx_char_insert_step(1) rx_step_trans by (auto simp: eq)
  then obtain fs where fs: "trace (snd (rx_char work w)) = trace w1 @ fs" by (auto simp: rx_step_def)
  obtain es where es: "trace (snd (usc_InReg w CCAR)) = trace w @ es" using trace_usc_InReg by blast
  obtain ds where ds: "trace w1 = trace (snd (usc_InReg w CCAR)) @ ds" "writes ds = [(CCAR, c)]"
    using trace_usc_OutReg unfolding w1_def by blast
  have "data_reads ds = 1" using ds(2) data_select_command by (simp add: data_reads_def c_def)
  then have "1 \<le> data_reads (es @ ds @ fs)" by simp
  then have reads: "\<exists>es. trace (snd (rx_char work w)) = trace w @ es \<and> 1 \<le> data_reads es"
    using fs es ds(1) by (metis append.assoc)
  have "rx_step w w1" using rx_step_simple(1,2) rx_step_trans unfolding w1_def by blast
  with reads step1 show "rx_step w (snd (rx_char work w)) \<and>
     (\<exists>es. trace (snd (rx_char work w)) = trace w @ es \<and> 1 \<le> data_reads es)"
    using rx_step_trans by blast
  assume no: "\<forall>es. \<not> tst (dev_readw (env w) es RCSR) RXSTATUS_OVERRUN"
  have "env w2 = env w" by (simp add: w2_def w1_def)
  then have "\<not> tst st RXSTATUS_OVERRUN" using no usc_InReg_value [of w2 RCSR] by (auto simp: st_def)
  then have "\<not> tst st' RXSTATUS_OVERRUN" using rx_char_check_step(2) [OF ch] by blast
  then show "fst (rx_char work w) = work" by (simp add: eq rx_char_insert_step(2))
qed

lemma receive_data_loop_total:
  assumes "fifo_drains (env w) h n" "trace w = h @ es"
  shows "\<exists>work' w'. receive_data_loop work w = Some (work', w') \<and> rx_step w w' \<and>
    ((\<forall>es. \<not> tst (dev_readw (env w) es RCSR) RXSTATUS_OVERRUN) \<longrightarrow> work' = work)"
  using assms
proof (induction "n - data_reads es" arbitrary: work w es rule: less_induct)
  case less
  define w0 where "w0 = snd (usc_InReg w RICR)"
  have s0: "rx_step w w0" unfolding w0_def by (rule rx_step_simple)
  have e0: "env w0 = env w" by (simp add: w0_def)
  obtain t where t: "fst (usc_InReg w RICR) = dev_readw (env w) (trace w @ t) RICR" "writes t = []"
    using usc_InReg_value by blast
  have step: "receive_data_loop work w = (if drop_bit 8 (fst (usc_InReg w RICR)) \<noteq> 0
      then receive_data_loop (fst (rx_char work w0)) (snd (rx_char work w0)) else Some (work, w0))"
    by (subst receive_data_loop.simps) (simp add: case_prod_unfold Let_def w0_def)
  show ?case
  proof (cases "drop_bit 8 (fst (usc_InReg w RICR)) = 0")
    case True
    then show ?thesis using step s0 by simp
  next
    case False
    define w1 where "w1 = snd (rx_char work w0)"
    have "0 < unat (drop_bit 8 (fst (usc_InReg w RICR)))" using False by (simp add: unat_gt_0)
    also have "\<dots> \<le> n - data_reads (es @ t)"
      using less.prems(1) unfolding fifo_drains_def t(1) less.prems(2) append.assoc by blast
    finally have room: "data_reads es < n" using t(2) by (simp add: data_reads_def)
    obtain ds where ds: "trace w0 = trace w @ ds" using s0 by (auto simp: rx_step_def)
    obtain fs where fs: "trace w1 = trace w0 @ fs" "1 \<le> data_reads fs" and s1': "rx_step w0 w1"
      using rx_char_step(1) [of w0 work] by (auto simp: w1_def)
    have tr: "trace w1 = h @ (es @ ds @ fs)" using ds fs less.prems(2) by simp
    have less1: "n - data_reads (es @ ds @ fs) < n - data_reads es" using fs(2) room by simp
    have s1: "rx_step w w1" using s0 s1' rx_step_trans by blast
    then have e1: "env w1 = env w" by (simp add: rx_step_def)
    from less.hyps [OF less1 _ tr] less.prems(1) e1 obtain k w' where
      "receive_data_loop (fst (rx_char work w0)) w1 = Some (k, w')" "rx_step w1 w'"
      "(\<forall>es. \<not> tst (dev_readw (env w) es RCSR) RXSTATUS_OVERRUN) \<longrightarrow> k = fst (rx_char work w0)" by metis
    then show ?thesis
      using step False s1 rx_step_trans rx_char_step(2) [of w0 work] e0(1) by (auto simp: w1_def)
  qed
qed

lemma isr_receive_data_run:
  assumes "fifo_drains (env w) (trace w) n"
  shows "\<exists>w' (work :: int). r56_isr_receive_data w = Some (if work \<noteq> 0 then kcall Tty_flip_buffer_push w' else w') \<and> rx_step w w' \<and>
    ((\<forall>es. \<not> tst (dev_readw (env w) es RCSR) RXSTATUS_OVERRUN) \<longrightarrow> work = 0)"
proof -
  define w1 where "w1 = usc_rmw (usc_RCmd (usc_ClearIrqPendingBits w RECEIVE_DATA) RCmd_SelectRicrRxFifostatus) RICR
      (\<lambda>v. v AND NOT BIT3)"
  have s1: "rx_step w w1"
    unfolding w1_def by (rule rx_step_trans [OF rx_step_trans [OF rx_step_commands(4,3)] rx_step_rmw])
  then obtain es where es: "trace w1 = trace w @ es" by (auto simp: rx_step_def)
  have e1: "env w1 = env w" using s1 by (simp add: rx_step_def)
  obtain k w2 where w2: "receive_data_loop 0 w1 = Some (k, w2)" "rx_step w1 w2"
    "(\<forall>es. \<not> tst (dev_readw (env w) es RCSR) RXSTATUS_OVERRUN) \<longrightarrow> k = 0"
    using receive_data_loop_total [of w1 "trace w" n es 0] assms es e1 by auto
  have "r56_isr_receive_data w = Some (if k \<noteq> 0 then kcall Tty_flip_buffer_push w2 else w2)"
    using w2(1) unfolding w1_def by (simp add: r56_isr_receive_data_def Let_def)
  then show ?thesis using w2(2,3) s1 rx_step_trans by blast
qed

lemma isr_receive_data_handled:
  assumes "dev_inv tm (info w)" "fifo_drains (env w) (trace w) n"
  shows "handled tm w (r56_isr_receive_data w)"
proof -
  obtain w' and k :: int where w': "r56_isr_receive_data w = Some (if k \<noteq> 0 then kcall Tty_flip_buffer_push w' else w')" "rx_step w w'"
    using isr_receive_data_run [OF assms(2)] by blast
  then obtain c where "info w' = (info w)\<lparr> icount := c \<rparr>" "env w' = env w" by (auto simp: rx_step_def)
  then show ?thesis using w'(1) assms(1) by (simp add: handled_def owner_def)
qed


subsection \<open>The dispatcher\<close>

text \<open>
  What the dispatcher relies on: the adapter's vector register names one of the seven handlers, and
  its receive FIFO can be emptied.
\<close>

definition adapter_ok :: "environment \<Rightarrow> event list \<Rightarrow> bool" where
  "adapter_ok e h \<longleftrightarrow>
     (\<forall>es. drop_bit 9 (dev_readw e es IVR) < 7) \<and> (\<forall>es. \<exists>n. fifo_drains e (h @ es) n)"

lemma UscIsrTable_handled:
  assumes "drv_inv (info w)" "fifo_drains (env w) (trace w) n" "isr \<in> set UscIsrTable"
  shows "handled True w (isr w)"
proof -
  have "handled True w (r56_isr_null w)" using assms(1) by (simp add: handled_def owner_def r56_isr_null_def)
  then show ?thesis
    using assms(3) isr_misc_handled [OF assms(1)] isr_io_pin_handled [OF assms(1)]
      isr_transmit_data_handled [OF assms(1)] isr_transmit_status_handled [OF assms(1)]
      isr_receive_data_handled [OF assms(1,2)] isr_receive_status_handled [OF assms(1)]
    by (auto simp: UscIsrTable_def)
qed

lemma dispatch_vector_handled:
  assumes "drv_inv (info w)" "fifo_drains (env w) (trace w) n" "v < 7"
  shows "handled True w (dispatch_vector v d w)"
proof -
  have "unat v < length UscIsrTable" using assms(3) by (simp add: UscIsrTable_def word_less_nat_alt)
  then have "aget UscIsrTable (unat v) = Some (UscIsrTable ! unat v)" "UscIsrTable ! unat v \<in> set UscIsrTable"
    by simp_all
  then show ?thesis
    using UscIsrTable_handled [OF assms(1,2)] isr_transmit_dma_handled [OF assms(1)] isr_receive_dma_handled [OF assms(1)]
    by (simp add: dispatch_vector_def)
qed

lemma schedule_bh_info:
  "info (schedule_bh w) = (info w)\<lparr> bh_requested := (bh_requested (info w) \<or> pending_bh (info w) \<noteq> 0 \<and> \<not> bh_running (info w)) \<rparr>"
  "env (schedule_bh w) = env w"
  by (auto simp: schedule_bh_def)

lemma interrupt_handled:
  assumes inv: "drv_inv (info w)" and ok: "adapter_ok (env w) (trace w)"
  shows "\<exists>w'. r56_interrupt w = Some w' \<and> drv_inv (info w') \<and> env w' = env w \<and> params (info w') = params (info w) \<and>
    bh_running (info w') = bh_running (info w) \<and>
    bh_requested (info w') =
      (bh_requested (info w) \<or> pending_bh (info w') \<noteq> 0 \<and> \<not> bh_running (info w))"
proof -
  define v where "v = drop_bit 9 (fst (usc_InReg w IVR))"
  define w1 where "w1 = snd (usc_InReg w IVR)"
  define w2 where "w2 = snd (usc_InDmaReg w1 DIVR)"
  have i2: "info w2 = info w" "env w2 = env w" by (simp_all add: w2_def w1_def)
  obtain t where "fst (usc_InReg w IVR) = dev_readw (env w) t IVR" using usc_InReg_value by blast
  then have v: "v < 7" using ok by (simp add: v_def adapter_ok_def)
  obtain es where "trace w2 = trace w @ es"
    using trace_usc_InReg [of w IVR] trace_usc_InReg [of w1 DIVR] unfolding w2_def w1_def usc_InDmaReg_def by auto
  then obtain n where "fifo_drains (env w2) (trace w2) n" using ok i2 by (auto simp: adapter_ok_def)
  from dispatch_vector_handled [OF _ this v, of "fst (usc_InDmaReg w1 DIVR)"] inv i2
  have h: "handled True w2 (dispatch_vector v (fst (usc_InDmaReg w1 DIVR)) w2)" by simp
  then obtain w3 where w3: "dispatch_vector v (fst (usc_InDmaReg w1 DIVR)) w2 = Some w3" by (auto simp: handled_def owner_def)
  define w4 where "w4 = (if isr_overflow (info w3) \<noteq> 0
      then usc_DisableDmaInterrupts (usc_DisableMasterIrqBit w3) DICR_MASTER else w3)"
  have i4: "info w4 = info w3" "env w4 = env w3" by (simp_all add: w4_def)
  have "r56_interrupt w = Some (schedule_bh w4)"
    unfolding r56_interrupt_def w4_def case_prod_unfold Let_def
    by (simp add: v_def [symmetric] w1_def [symmetric] w2_def [symmetric] w3)
  then show ?thesis using h i2 i4 by (auto simp: w3 handled_def owner_def schedule_bh_info)
qed

subsection \<open>User writes\<close>

lemma load_tx_dma_buffer_inv:
  assumes "dev_inv tm (info w)" "r56_load_tx_dma_buffer b n w = Some w'"
  shows "dev_inv tm (info w') \<and> ctl (info w') = ctl (info w) \<and> env w' = env w"
proof -
  have "unat n \<le> length b" using assms(2) by (auto simp: r56_load_tx_dma_buffer_def Let_def split: if_splits)
  from load_tx_dma_buffer_safe [OF drv_invD(3) [OF assms(1)] this] assms(2) obtain c es s u i where
    e: "env w' = env w" "tx_ready (info w')" "info w' = (info w)\<lparr> cmr_value := c, start_tx_dma_buffer := s, tx_buffer_list := es,
      tx_dma_buffers_used := u, current_tx_buffer := i \<rparr>" by auto
  have "dev_inv tm (info w')" using drv_inv_tx_load [OF assms(1)] e(2) unfolding e(3) by blast
  then show ?thesis using e(1,3) by (simp add: ctl_def owner_def)
qed

lemma drv_inv_xmit_cnt:
  "dev_inv tm i \<Longrightarrow> sync_mode i \<Longrightarrow> 0 \<le> n \<Longrightarrow> dev_inv tm (i\<lparr> xmit_cnt := n \<rparr>)"
  by (auto simp: drv_inv_parts)

lemma save_tx_buffer_request_inv:
  assumes inv: "drv_inv (info w)" and sync: "sync_mode (info w)" and fits: "length buf \<le> unat (max_frame_size (info w))"
    and room: "tx_holding_count (info w) < num_tx_holding_buffers (info w)"
  shows "\<exists>w'. save_tx_buffer_request buf w = Some (1, w') \<and> drv_inv (info w') \<and> ctl (info w') = ctl (info w) \<and> env w' = env w"
proof -
  have hold: "hold_inv (info w)" using drv_invD(5) [OF inv] room by (auto simp: hold_ok_def)
  then have "length (hold_items (info w)) < nat (num_tx_holding_buffers (info w))"
    using room by (auto simp: hold_items_def hold_inv_def)
  from hold_put_law [OF hold this fits] obtain i where i: "hold_put buf (info w) = Some i" "hold_inv i" by blast
  then obtain hs c p where e: "i = (info w)\<lparr> tx_holding_buffers := hs, tx_holding_count := c, put_tx_holding_index := p \<rparr>"
    by (auto simp: hold_put_def split: Option.bind_splits)
  have "hold_ok i" using i(2) sync by (auto simp: hold_ok_def e)
  then have "drv_inv i"
    using inv by (simp add: e dev_inv_def rx_ready_def rx_ring_def tx_ready_def tx_ring_def xmit_ok_def xmit_inv_def pending_ok_def)
  moreover have "ctl i = ctl (info w)" by (simp add: e ctl_def owner_def)
  ultimately show ?thesis using i(1) room by (simp add: save_tx_buffer_request_def)
qed

lemma write_sync_inv:
  assumes inv: "drv_inv (info w)" and sync: "sync_mode (info w)" and fits: "length buf \<le> unat (max_frame_size (info w))"
    and run: "write_sync buf w = Some (go, r, w')"
  shows "drv_inv (info w') \<and> ctl (info w') = ctl (info w) \<and> env w' = env w"
proof (cases "tx_active (info w)")
  case True
  show ?thesis
  proof (cases "mode (params (info w)) = R56_MODE_HDLC \<or> tx_holding_count (info w) \<ge> num_tx_holding_buffers (info w)")
    case quiet: True
    then have "w' = w" using run True by (auto simp: write_sync_def split: if_splits)
    then show ?thesis using inv by simp
  next
    case False
    from False save_tx_buffer_request_inv [OF inv sync fits] obtain w1 where
      w1: "save_tx_buffer_request buf w = Some (1, w1)" "drv_inv (info w1)" "ctl (info w1) = ctl (info w)" "env w1 = env w"
      by (auto simp: not_le)
    from load_next_tx_holding_buffer_inv [OF w1(2)] show ?thesis
      using run True False w1 by (auto simp: write_sync_def)
  qed
next
  case False
  define la where "la = (if tst (flags (params (info w))) HDLC_FLAG_HDLC_LOOPMODE then usc_loopmode_active w else (True, w))"
  define w1 where "w1 = snd la"
  have w1: "info w1 = info w" "env w1 = env w" by (simp_all add: w1_def la_def)
  have eq: "write_sync buf w = (if \<not> fst la then Some (False, 0, w1)
             else if xmit_cnt (info w1) \<noteq> 0
             then do { b \<leftarrow> xmit_buf (info w1);
                       w \<leftarrow> r56_load_tx_dma_buffer b (of_int (xmit_cnt (info w1))) w1;
                       Some (True, 0, w) }
             else do { w \<leftarrow> r56_load_tx_dma_buffer buf (of_nat (length buf))
                             (set_info (xmit_cnt_update (\<lambda>_. int (length buf))) w1);
                       Some (True, int (length buf), w) })"
    using False unfolding write_sync_def w1_def la_def by (simp add: case_prod_unfold Let_def)
  have inv2: "drv_inv (info (set_info (xmit_cnt_update (\<lambda>_. int (length buf))) w1))"
    using drv_inv_xmit_cnt [OF inv sync] by (simp add: w1)
  have "drv_inv (info w1)" using inv w1 by simp
  then show ?thesis
    using run load_tx_dma_buffer_inv [of True w1] load_tx_dma_buffer_inv [OF inv2] w1 unfolding eq
    by (auto split: if_splits Option.bind_splits) (auto simp: ctl_def owner_def w1)
qed

lemma write_async_inv:
  assumes inv: "drv_inv (info w)" and async: "mode (params (info w)) = R56_MODE_ASYNC"
  shows "\<exists>r w'. write_async buf 0 w = Some (r, w') \<and> drv_inv (info w') \<and> ctl (info w') = ctl (info w) \<and> env w' = env w"
proof -
  have x: "xmit_inv (info w)" using drv_invD(6) [OF inv] async by (simp add: xmit_ok_def)
  from write_async_total [OF x refl] obtain r w' b h c where w': "write_async buf 0 w = Some (r, w')" "xmit_inv (info w')"
    "env w' = env w" and i: "info w' = (info w)\<lparr> xmit_buf := Some b, xmit_head := h, xmit_cnt := c \<rparr>" by blast
  have "xmit_ok (info w')" using w'(2) by (simp add: xmit_ok_def xmit_inv_def)
  moreover have "rx_ready (info w')" "tx_ready (info w')" "hold_ok (info w')" "pending_ok (info w')" "port_tty (info w') \<noteq> None"
    using drv_invD [OF inv] rx_ready_cong [of "info w'" "info w"] tx_ready_cong [of "info w'" "info w"]
      hold_ok_cong [of "info w'" "info w"] by (simp_all add: i pending_ok_def)
  ultimately have "drv_inv (info w')" by (simp add: dev_inv_def)
  moreover have "ctl (info w') = ctl (info w)" by (simp add: i ctl_def owner_def)
  ultimately show ?thesis using w' by blast
qed

lemma write_inv:
  assumes inv: "drv_inv (info w)" and "sync_mode (info w) \<or> mode (params (info w)) = R56_MODE_ASYNC"
    and fits: "length buf \<le> unat (max_frame_size (info w))"
    and run: "r56_write tty buf w = Some (r, w')"
  shows "drv_inv (info w') \<and> ctl (info w') = ctl (info w) \<and> env w' = env w"
proof -
  have buf: "xmit_buf (info w) \<noteq> None" using drv_invD(6) [OF inv] by (auto simp: xmit_ok_def buffer_of_size_def split: option.splits)
  define first where "first = (if sync_mode (info w) then write_sync buf w
                  else do { (ret, w) \<leftarrow> write_async buf 0 w; Some (True, ret, w) })"
  have eq: "r56_write tty buf w = do { (go, ret, w) \<leftarrow> first; if \<not> go then Some (ret, w)
               else if xmit_cnt (info w) \<noteq> 0 \<and> tty_running tty \<and> \<not> tx_active (info w)
               then do { w \<leftarrow> usc_start_transmitter w; Some (ret, w) }
               else Some (ret, w) }"
    unfolding r56_write_def first_def if_not_P [OF buf] ..
  from run obtain go ret w1 where f: "first = Some (go, ret, w1)"
    unfolding eq by (cases first) auto
  have w1: "drv_inv (info w1)" "ctl (info w1) = ctl (info w)" "env w1 = env w"
    using f assms(2) write_sync_inv [OF inv _ fits] write_async_inv [OF inv] unfolding first_def
    by (auto split: if_splits Option.bind_splits; metis option.inject prod.inject)+
  show ?thesis using run start_transmitter_inv [OF w1(1)] w1 unfolding eq f
    by (auto split: if_splits)
qed

subsection \<open>The system\<close>

text \<open>
  The bottom half runs concurrently with the interrupt handler, which holds the spin lock; so does
  \<open>r56_bh_action\<close>. Its position: not running, about to ask for the next work item, or about
  to do the one it was given.
\<close>

datatype bh_pc = BH_idle | BH_next | BH_doing u32

text \<open>
  One step of the bottom half: the kernel's worker thread starts the work item that was scheduled, and
  the two halves of a round of \<open>bh_loop\<close>.
\<close>

inductive bh_step :: "bh_pc \<times> world \<Rightarrow> bh_pc \<times> world \<Rightarrow> bool" where
  bh_start: "bh_requested (info w) \<Longrightarrow>
    bh_step (BH_idle, w) (BH_next, set_info (bh_running_update (\<lambda>_. True)) w)"
| bh_next: "r56_bh_action w = (a, w') \<Longrightarrow> bh_step (BH_next, w) (if a = 0 then BH_idle else BH_doing a, w')"
| bh_do: "bh_work a (w\<lparr> env := e \<rparr>) = Some w' \<Longrightarrow> bh_step (BH_doing a, w) (BH_next, w')"

text \<open>
  One step of the system: a step of the bottom half, an interrupt, the transmit timer, the DMA
  controller filling buffers, or a write by the user. Each step happens with an
  adapter and a kernel of its own.
\<close>

inductive sys_step :: "bh_pc \<times> world \<Rightarrow> bh_pc \<times> world \<Rightarrow> bool" where
  bottom_half: "bh_step s t \<Longrightarrow> sys_step s t"
| interrupt: "adapter_ok e (trace w) \<Longrightarrow> r56_interrupt (w\<lparr> env := e \<rparr>) = Some w' \<Longrightarrow> sys_step (pc, w) (pc, w')"
| timer: "tx_timer (info w) \<Longrightarrow> sys_step (pc, w) (pc, r56_tx_timeout (w\<lparr> env := e \<rparr>))"
| dma: "map virt_addr es = map virt_addr (rx_buffer_list (info w)) \<Longrightarrow>
    map virt_addr ts = map virt_addr (tx_buffer_list (info w)) \<Longrightarrow>
    sys_step (pc, w) (pc, w\<lparr> info := (info w)\<lparr> rx_buffer_list := es, tx_buffer_list := ts \<rparr>, mem := m \<rparr>)"
| write_call: "sync_mode (info w) \<or> mode (params (info w)) = R56_MODE_ASYNC \<Longrightarrow>
    length buf \<le> unat (max_frame_size (info w)) \<Longrightarrow>
    r56_write tty buf (w\<lparr> env := e \<rparr>) = Some (r, w') \<Longrightarrow> sys_step (pc, w) (pc, w')"


text \<open>The states an open device can get into, from one whose pending work is scheduled.\<close>

inductive sys_reachable :: "bh_pc \<times> world \<Rightarrow> bool" where
  start: "drv_inv (info w) \<Longrightarrow> \<not> bh_running (info w) \<Longrightarrow>
    pending_bh (info w) \<noteq> 0 \<longrightarrow> bh_requested (info w) \<Longrightarrow> sys_reachable (BH_idle, w)"
| step: "sys_reachable s \<Longrightarrow> sys_step s t \<Longrightarrow> sys_reachable t"

definition sys_inv :: "bh_pc \<times> world \<Rightarrow> bool" where
  "sys_inv s \<longleftrightarrow>
     (case s of (pc, w) \<Rightarrow>
        drv_inv (info w) \<and> (bh_running (info w) \<longleftrightarrow> pc \<noteq> BH_idle) \<and>
        (pending_bh (info w) \<noteq> 0 \<longrightarrow> bh_requested (info w) \<or> bh_running (info w)))"

lemma drv_inv_dma:
  assumes "dev_inv tm i" "map virt_addr es = map virt_addr (rx_buffer_list i)" "map virt_addr ts = map virt_addr (tx_buffer_list i)"
  shows "dev_inv tm (i\<lparr> rx_buffer_list := es, tx_buffer_list := ts \<rparr>)"
  using assms(1) assms(3) map_eq_imp_length_eq [OF assms(2)] map_eq_imp_length_eq [OF assms(3)]
  by (simp add: drv_inv_parts)

lemma tx_timeout_inv:
  assumes "dev_inv tm (info w)"
  shows "dev_inv tm (info (r56_tx_timeout w)) \<and> ctl (info (r56_tx_timeout w)) = ctl (info w) \<and> env (r56_tx_timeout w) = env w"
  using assms by (simp add: r56_tx_timeout_def r56_bh_transmit_def Let_def ctl_def owner_def)

text \<open>A step that leaves the bottom half's fields alone.\<close>

lemma sys_inv_ctl:
  assumes "sys_inv (pc, w)" "drv_inv (info w')" "ctl (info w') = ctl (info w)"
  shows "sys_inv (pc, w')"
  using assms by (auto simp: sys_inv_def ctl_def owner_def)

lemma bh_action_sys_inv:
  assumes "sys_inv (BH_next, w)" "r56_bh_action w = (a, w')"
  shows "sys_inv (if a = 0 then BH_idle else BH_doing a, w')"
proof -
  have inv: "drv_inv (info w)" "bh_running (info w)" using assms(1) by (simp_all add: sys_inv_def)
  from bh_action_cases(1) [OF assms(2)] show ?thesis
  proof (elim disjE conjE)
    assume z: "a = 0" "\<not> tst (pending_bh (info w)) 1" "\<not> tst (pending_bh (info w)) 2" "\<not> tst (pending_bh (info w)) 4"
      and i: "info w' = (info w)\<lparr> bh_running := False, bh_requested := False \<rparr>"
    have "pending_bh (info w) = 0" using pending_ok_zero [OF drv_invD(7) [OF inv(1)] z(2-4)] .
    then show ?thesis using inv z(1) by (simp add: i sys_inv_def)
  next
    assume "a \<in> {1, 2, 4}" and i: "info w' = (info w)\<lparr> pending_bh := pending_bh (info w) AND NOT a \<rparr>"
    then show ?thesis using inv by (auto simp: i sys_inv_def)
  qed
qed

lemma bh_step_inv: "bh_step s t \<Longrightarrow> sys_inv s \<Longrightarrow> sys_inv t"
proof (induction rule: bh_step.induct)
  case (bh_start w)
  then show ?case by (simp add: sys_inv_def)
next
  case (bh_next w a w')
  then show ?case using bh_action_sys_inv by blast
next
  case (bh_do a e w w')
  have "drv_inv (info (w\<lparr> env := e \<rparr>))" using bh_do.prems by (simp add: sys_inv_def)
  from bh_work_total [OF this, of a] bh_do show ?case by (auto simp: sys_inv_def)
qed

lemma sys_step_inv: "sys_step s t \<Longrightarrow> sys_inv s \<Longrightarrow> sys_inv t"
proof (induction rule: sys_step.induct)
  case (bottom_half s t)
  then show ?case using bh_step_inv by blast
next
  case (interrupt e w w' pc)
  then have "drv_inv (info (w\<lparr> env := e \<rparr>))" "adapter_ok (env (w\<lparr> env := e \<rparr>)) (trace (w\<lparr> env := e \<rparr>))"
    by (simp_all add: sys_inv_def)
  from interrupt_handled [OF this] interrupt show ?case by (auto simp: sys_inv_def)
next
  case (timer w pc e)
  have "drv_inv (info (w\<lparr> env := e \<rparr>))" using timer.prems by (simp add: sys_inv_def)
  from tx_timeout_inv [OF this] timer.prems show ?case using sys_inv_ctl by simp
next
  case (dma es w ts pc m)
  have "drv_inv (info w)" using dma.prems by (simp add: sys_inv_def)
  from drv_inv_dma [OF this dma.hyps] sys_inv_ctl [OF dma.prems] show ?case by (simp add: ctl_def owner_def)
next
  case (write_call w buf tty e r w' pc)
  have "drv_inv (info (w\<lparr> env := e \<rparr>))" using write_call.prems by (simp add: sys_inv_def)
  from write_inv [OF this _ _ write_call.hyps(3)] write_call show ?case using sys_inv_ctl by simp
qed

lemma sys_reachable_inv: "sys_reachable s \<Longrightarrow> sys_inv s"
  by (induction rule: sys_reachable.induct) (simp_all add: sys_inv_def [of "(BH_idle, _)"] sys_step_inv)


text \<open>The bottom half alone, from any position, works off everything and ends.\<close>

lemma bh_next_finishes:
  "drv_inv (info w) \<Longrightarrow> \<exists>w'. bh_step\<^sup>*\<^sup>* (BH_next, w) (BH_idle, w') \<and> pending_bh (info w') = 0"
proof (induction "bh_todo (pending_bh (info w))" arbitrary: w rule: less_induct)
  case less
  obtain a w1 where a: "r56_bh_action w = (a, w1)" by (cases "r56_bh_action w")
  note first = bh_next [OF a]
  show ?case
  proof (cases "a = 0")
    case True
    then have z: "\<not> tst (pending_bh (info w)) 1" "\<not> tst (pending_bh (info w)) 2" "\<not> tst (pending_bh (info w)) 4"
      "info w1 = (info w)\<lparr> bh_running := False, bh_requested := False \<rparr>"
      using bh_action_cases(1) [OF a] by auto
    have "pending_bh (info w1) = 0" using pending_ok_zero [OF drv_invD(7) [OF less.prems] z(1-3)] by (simp add: z(4))
    then show ?thesis using True first by auto
  next
    case False
    then have i1: "a \<in> {1, 2, 4}" "tst (pending_bh (info w)) a"
      "info w1 = (info w)\<lparr> pending_bh := pending_bh (info w) AND NOT a \<rparr>"
      using bh_action_cases(1) [OF a] by auto
    have "drv_inv (info w1)" using less.prems by (simp add: i1(3))
    from bh_work_total [OF this, of a] obtain w2 where w2: "bh_work a w1 = Some w2" "drv_inv (info w2)"
      "pending_bh (info w2) = pending_bh (info w1)" by blast
    have "bh_step (BH_doing a, w1) (BH_next, w2)" using w2(1) bh_do [of a "env w1" w1 w2] by simp
    then have two: "bh_step\<^sup>*\<^sup>* (BH_next, w) (BH_next, w2)" using first False by (simp add: converse_rtranclp_into_rtranclp)
    have "bh_todo (pending_bh (info w2)) < bh_todo (pending_bh (info w))"
      using bh_todo_clear [OF i1(2,1)] by (simp add: w2(3) i1(3))
    from less.hyps [OF this w2(2)] two show ?thesis by (meson rtranclp_trans)
  qed
qed

lemma pending_work_finishes:
  assumes "sys_inv (pc, w)" "pending_bh (info w) \<noteq> 0 \<or> pc \<noteq> BH_idle"
  shows "\<exists>w'. bh_step\<^sup>*\<^sup>* (pc, w) (BH_idle, w') \<and> pending_bh (info w') = 0"
proof (cases pc)
  case BH_idle
  then have "bh_requested (info w)" using assms by (auto simp: sys_inv_def)
  from bh_start [OF this] show ?thesis
    using bh_next_finishes [of "set_info (bh_running_update (\<lambda>_. True)) w"] assms(1)
    by (auto simp: BH_idle sys_inv_def intro: converse_rtranclp_into_rtranclp)
next
  case BH_next
  then show ?thesis using bh_next_finishes [of w] assms(1) by (simp add: sys_inv_def)
next
  case (BH_doing a)
  have "drv_inv (info w)" using assms(1) by (simp add: sys_inv_def)
  from bh_work_total [OF this, of a] obtain w1 where w1: "bh_work a w = Some w1" "drv_inv (info w1)" by blast
  then have "bh_step (BH_doing a, w) (BH_next, w1)" using bh_do [of a "env w" w] by simp
  then show ?thesis using bh_next_finishes [OF w1(2)] BH_doing by (auto intro: converse_rtranclp_into_rtranclp)
qed

lemma bh_steps_reachable: "bh_step\<^sup>*\<^sup>* s t \<Longrightarrow> sys_reachable s \<Longrightarrow> sys_reachable t"
  by (induction rule: rtranclp_induct) (auto intro: step bottom_half)

subsection \<open>Properties\<close>

text \<open>An open device in HDLC mode with two receive buffers and one transmit buffer, and a silent adapter.\<close>

definition quiet_env :: environment where
  "quiet_env = regfile_env\<lparr> dev_readw := (\<lambda>es r. 0) \<rparr>"

definition open_example :: world where
  "open_example = \<lparr> info = zero_info\<lparr>
     port_tty := Some running_tty, params := default_params, max_frame_size := 4096,
     intermediate_rxbuffer := Some (replicate 4096 0), xmit_buf := Some (replicate 4096 0),
     rx_buffer_count := 2, rx_buffer_list := [zero_entry\<lparr> virt_addr := 4096 \<rparr>, zero_entry\<lparr> virt_addr := 8192 \<rparr>],
     tx_buffer_count := 1, tx_buffer_list := [zero_entry\<lparr> virt_addr := 12288 \<rparr>] \<rparr>,
     env = quiet_env, trace = [], mem = (\<lambda>_. 0) \<rparr>"

lemma open_example_inv: "drv_inv (info open_example)"
  by (simp add: open_example_def drv_inv_parts zero_info_def zero_entry_def default_params_def buffer_of_size_def
      disjoint_pages_def)

lemma quiet_adapter: "adapter_ok quiet_env h"
  by (simp add: adapter_ok_def quiet_env_def fifo_drains_def)

lemma open_example_irq:
  obtains w' where "r56_interrupt open_example = Some w'" "pending_bh (info w') = BH_RECEIVE"
proof -
  have "\<exists>w'. r56_interrupt open_example = Some w' \<and> pending_bh (info w') = BH_RECEIVE"
    by (simp add: r56_interrupt_def case_prod_unfold Let_def dispatch_vector_def r56_isr_receive_dma_def request_bh_def
        schedule_bh_def usc_InReg_def usc_InDmaReg_def readw_def open_example_def quiet_env_def zero_info_def)
  then show ?thesis using that by blast
qed



text \<open>the vector read from the adapter indexes the table of seven handlers without a check: with
  a vector of 7 or more the handler calls through a pointer outside the table.\<close>

theorem interrupt_vector_unchecked:
  assumes "7 \<le> drop_bit 9 (fst (usc_InReg w IVR))"
  shows "r56_interrupt w = None"
proof -
  have "7 \<le> unat (drop_bit 9 (fst (usc_InReg w IVR)))" "drop_bit 9 (fst (usc_InReg w IVR)) \<noteq> 0"
    using assms by (auto simp: word_le_nat_alt)
  then show ?thesis
    by (simp add: r56_interrupt_def case_prod_unfold Let_def dispatch_vector_def UscIsrTable_def aget_def)
qed

theorem interrupt_vector_unchecked_witness:
  "r56_interrupt (open_example\<lparr> env := quiet_env\<lparr> dev_readw := (\<lambda>es r. 0xFFFF) \<rparr> \<rparr>) = None"
  by (rule interrupt_vector_unchecked)
    (simp add: usc_InReg_def readw_def Let_def open_example_def zero_info_def drop_bit_eq_div)

text \<open>the receive data handler empties the FIFO, but as long as no character has an overrun
  status it never calls \<open>tty_flip_buffer_push\<close>: \<open>work\<close> counts only the extra characters
  inserted for overruns, and the received characters stay in the flip buffer.\<close>

theorem receive_data_pushes_only_on_overrun:
  assumes "fifo_drains (env w) (trace w) n" "\<forall>es. \<not> tst (dev_readw (env w) es RCSR) RXSTATUS_OVERRUN"
  shows "\<exists>w' es. r56_isr_receive_data w = Some w' \<and> trace w' = trace w @ es \<and> Tty_flip_buffer_push \<notin> set (calls es)"
proof -
  obtain w' and k :: int where "r56_isr_receive_data w = Some (if k \<noteq> 0 then kcall Tty_flip_buffer_push w' else w')"
    "rx_step w w'" "k = 0" using isr_receive_data_run [OF assms(1)] assms(2) by blast
  then show ?thesis by (auto simp: rx_step_def)
qed

definition one_char_env :: environment where
  "one_char_env = regfile_env\<lparr> dev_readw :=
     (\<lambda>es r. if r = RICR then (if data_reads es = 0 then 0x0100 else 0) else if r = CCAR then 0x41 else 0) \<rparr>"

lemma one_char_calls:
  "map_option (\<lambda>w. calls (trace w)) (r56_isr_receive_data (world0\<lparr> env := one_char_env \<rparr>)) =
   Some [Tty_insert_flip_char 0x41 0]"
  by code_simp

theorem receive_data_pushes_only_on_overrun_witness:
  "\<exists>w' es. r56_isr_receive_data (world0\<lparr> env := one_char_env \<rparr>) = Some w' \<and>
     trace w' = trace (world0\<lparr> env := one_char_env \<rparr>) @ es \<and> Tty_flip_buffer_push \<notin> set (calls es)"
  by (rule receive_data_pushes_only_on_overrun [where n = 1])
    (simp_all add: one_char_env_def fifo_drains_def world0_def)

text \<open>C12: \<open>r56_bh_handler\<close>, run without interruption from a well-formed state, returns with all
  pending work done, its flags cleared and the state well formed, for every content of the receive
  ring and every answer of the adapter.\<close>

theorem bh_handler_finishes:
  assumes "drv_inv (info w)"
  shows "\<exists>w'. r56_bh_handler w = Some w' \<and> drv_inv (info w') \<and> pending_bh (info w') = 0 \<and>
    \<not> bh_running (info w') \<and> \<not> bh_requested (info w')"
  using bh_loop_total [of True "set_info (bh_running_update (\<lambda>_. True)) w"] assms by (auto simp: r56_bh_handler_def)

theorem bh_handler_finishes_witness:
  "\<exists>w'. r56_bh_handler (request_bh BH_RECEIVE open_example) = Some w' \<and> pending_bh (info w') = 0"
proof -
  have "drv_inv (info (request_bh BH_RECEIVE open_example))" using open_example_inv by (simp del: request_bh_simps)
  from bh_handler_finishes [OF this] show ?thesis by blast
qed


lemma open_example_reachable: "sys_reachable (BH_idle, open_example)"
  by (rule start [OF open_example_inv]) (simp_all add: open_example_def zero_info_def)

lemma after_irq_reachable:
  assumes "r56_interrupt open_example = Some w'"
  shows "sys_reachable (BH_idle, w')"
proof (rule step [OF open_example_reachable])
  have "open_example\<lparr> env := quiet_env \<rparr> = open_example" by (simp add: open_example_def)
  then show "sys_step (BH_idle, open_example) (BH_idle, w')"
    using interrupt [OF quiet_adapter [of "trace open_example"]] assms by simp
qed




end
