(* ===== verification/R56_Startup.thy ===== *)
theory R56_Startup
  imports R56_Claim R56_System
begin

text \<open>
  Starting a device: the diagnostics return and leave the rings as they were, reprogramming returns
  and keeps the state well formed, and \<open>startup\<close> turns a closed device into one that satisfies the
  invariant of the interrupt handlers.
\<close>

subsection \<open>Mode set-up and the invariant\<close>

lemma driver_core_fields:
  assumes "driver_core i = driver_core j"
  shows "mode (params i) = mode (params j)" "flags (params i) = flags (params j)"
    "pending_bh i = pending_bh j" "bh_running i = bh_running j"
    "bh_requested i = bh_requested j" "max_frame_size i = max_frame_size j"
    "tx_buffer_list i = tx_buffer_list j" "tx_buffer_count i = tx_buffer_count j"
    "current_tx_buffer i = current_tx_buffer j" "start_tx_dma_buffer i = start_tx_dma_buffer j"
    "xmit_buf i = xmit_buf j" "xmit_head i = xmit_head j" "xmit_tail i = xmit_tail j"
    "xmit_cnt i = xmit_cnt j" "port_tty i = port_tty j" "num_tx_holding_buffers i = num_tx_holding_buffers j"
    "tx_holding_buffers i = tx_holding_buffers j" "tx_holding_count i = tx_holding_count j"
    "get_tx_holding_index i = get_tx_holding_index j" "put_tx_holding_index i = put_tx_holding_index j"
    "rx_buffer_list i = rx_buffer_list j" "rx_buffer_count i = rx_buffer_count j"
    "current_rx_buffer i = current_rx_buffer j" "intermediate_rxbuffer i = intermediate_rxbuffer j"
    "netcount i = netcount j" "irq_occurred i = irq_occurred j" "port_flags i = port_flags j"
  using arg_cong [OF assms, of "\<lambda>i. mode (params i)"] arg_cong [OF assms, of "\<lambda>i. flags (params i)"]
    arg_cong [OF assms, of pending_bh] arg_cong [OF assms, of bh_running]
    arg_cong [OF assms, of bh_requested] arg_cong [OF assms, of max_frame_size]
    arg_cong [OF assms, of tx_buffer_list] arg_cong [OF assms, of tx_buffer_count]
    arg_cong [OF assms, of current_tx_buffer] arg_cong [OF assms, of start_tx_dma_buffer]
    arg_cong [OF assms, of xmit_buf] arg_cong [OF assms, of xmit_head] arg_cong [OF assms, of xmit_tail]
    arg_cong [OF assms, of xmit_cnt] arg_cong [OF assms, of port_tty]
    arg_cong [OF assms, of num_tx_holding_buffers] arg_cong [OF assms, of tx_holding_buffers]
    arg_cong [OF assms, of tx_holding_count] arg_cong [OF assms, of get_tx_holding_index]
    arg_cong [OF assms, of put_tx_holding_index] arg_cong [OF assms, of rx_buffer_list]
    arg_cong [OF assms, of rx_buffer_count] arg_cong [OF assms, of current_rx_buffer]
    arg_cong [OF assms, of intermediate_rxbuffer] arg_cong [OF assms, of netcount]
    arg_cong [OF assms, of irq_occurred] arg_cong [OF assms, of port_flags]
  by (simp_all add: driver_core_def)

text \<open>What the invariant looks at.\<close>

lemma drv_inv_core:
  assumes "driver_core i = driver_core j"
  shows "dev_inv tm i = dev_inv tm j"
  unfolding drv_inv_parts by (simp only: driver_core_fields [OF assms])

lemma driver_core_stop [simp]:
  "driver_core (info (usc_stop_receiver w)) = driver_core (info w)"
  "driver_core (info (usc_stop_transmitter w)) = driver_core (info w)"
  by (simp_all add: usc_stop_receiver_def usc_stop_transmitter_def del_timer_def Let_def driver_core_def)

lemma driver_core_set_sync_mode: "driver_core (info (usc_set_sync_mode w)) = driver_core (info w)"
proof -
  obtain pre pre' where "info (usc_set_sync_mode w) =
     (sdlc_info pre' (loopback_frame_info pre (info w)))\<lparr> loopback_bits :=
        if loopback (params (info w)) \<noteq> 0 then 0x300 else 0 \<rparr>" using info_usc_set_sync_mode by blast
  then have "driver_core (info (usc_set_sync_mode w)) = driver_core (sdlc_info pre' (loopback_frame_info pre (info w)))"
    by (simp add: driver_core_def)
  then show ?thesis by simp
qed

lemma driver_core_update:
  "driver_core (cmr_value_update f1 i) = driver_core i" "driver_core (usc_idle_mode_update f1 i) = driver_core i"
  "driver_core (tcsr_value_update f1 i) = driver_core i" "driver_core (mbre_bit_update f1 i) = driver_core i"
  "driver_core (loopback_bits_update f1 i) = driver_core i" "driver_core (tx_timer_update f2 i) = driver_core i"
  "driver_core (tx_enabled_update f2 i) = driver_core i" "driver_core (tx_active_update f2 i) = driver_core i"
  "driver_core (rx_enabled_update f2 i) = driver_core i" "driver_core (rx_overflow_update f2 i) = driver_core i"
  "driver_core (rx_rcc_underrun_update f2 i) = driver_core i"
  "driver_core (params_update (interface_update f3) i) = driver_core i"
  "driver_core (i\<lparr> params := (params i)\<lparr> interface := x \<rparr> \<rparr>) = driver_core i"
  by (simp_all add: driver_core_def)

lemma driver_core_loopback_frame: "driver_core (info (usc_loopback_frame w)) = driver_core (info w)"
  using info_usc_loopback_frame [of w] by auto

lemma driver_core_usc:
  "driver_core (info (usc_set_interface w)) = driver_core (info w)"
  "driver_core (info (usc_enable_loopback w n)) = driver_core (info w)"
  "driver_core (info (usc_set_txidle w)) = driver_core (info w)"
  by (simp_all add: usc_set_interface_def usc_enable_loopback_def usc_set_txidle_def Let_def driver_core_update)

lemma driver_core_set_async_mode: "driver_core (info (usc_set_async_mode w)) = driver_core (info w)"
  unfolding usc_set_async_mode_def
  by (intro let_inv [where P = "\<lambda>x. driver_core (info x) = driver_core (info w)"])
    (simp_all add: driver_core_usc driver_core_update driver_core_loopback_frame)

lemma driver_core_reset: "driver_core (info (usc_reset w)) = driver_core (info w)"
  by (simp add: driver_core_def)

subsection \<open>Reprogramming\<close>

text \<open>The transmit buffer emptied, as reprogramming does it.\<close>

definition xmit_cleared :: "r56_struct \<Rightarrow> r56_struct" where
  "xmit_cleared i = i\<lparr> xmit_cnt := 0, xmit_head := 0, xmit_tail := 0 \<rparr>"

lemma drv_inv_restart: "dev_inv tm i \<Longrightarrow> dev_inv tm (xmit_cleared i)"
  by (simp add: drv_inv_parts xmit_cleared_def)

lemma drv_inv_cleared_core: "driver_core i = driver_core j \<Longrightarrow> dev_inv tm (xmit_cleared i) = dev_inv tm (xmit_cleared j)"
  unfolding drv_inv_parts xmit_cleared_def by (simp add: driver_core_fields [of i j])

lemma start_receiver_inv:
  assumes "dev_inv tm (info w)"
  shows "\<exists>w'. usc_start_receiver w = Some w' \<and> dev_inv tm (info w') \<and> but_rx (info w') = but_rx (info w) \<and> env w' = env w"
proof -
  from usc_start_receiver_total [OF drv_invD(2) [OF assms]] obtain w' where
    w': "usc_start_receiver w = Some w'" "info w' = started_info (info w)" "env w' = env w" by blast
  have b: "but_rx (info w') = but_rx (info w)" by (simp add: w'(2) started_info_def)
  have "rx_ready (info w')" using drv_invD(1) [OF assms] by (simp add: w'(2))
  then show ?thesis using w' b drv_inv_rx [OF assms _ b] by blast
qed

text \<open>The fields that reprogramming leaves alone.\<close>

definition soft :: "r56_struct \<Rightarrow> u64 \<times> u32 \<times> bool \<times> bool \<times> u32 \<times> int \<times> tty_struct option" where
  "soft i = (mode (params i), pending_bh i, bh_running i, bh_requested i, port_flags i, netcount i, port_tty i)"

lemma soft_core: "driver_core i = driver_core j \<Longrightarrow> soft i = soft j"
  unfolding soft_def by (simp only: driver_core_fields [of i j])

lemma soft_rx: "but_rx i = but_rx j \<Longrightarrow> soft i = soft j"
proof -
  assume b: "but_rx i = but_rx j"
  have "netcount i = netcount j" using arg_cong [OF b, of netcount] by (simp add: but_rx_def)
  then show "soft i = soft j" using but_rx_fields [OF b] by (simp add: soft_def)
qed

lemma program_hw_inv:
  assumes inv: "dev_inv tm (xmit_cleared (info w))" and user: "tm \<or> netcount (info w) \<noteq> 0"
  shows "\<exists>w'. r56_program_hw w = Some w' \<and> dev_inv tm (info w') \<and> soft (info w') = soft (info w) \<and> env w' = env w"
proof -
  define w1 where "w1 = set_info (\<lambda>i. i\<lparr> xmit_cnt := 0, xmit_head := 0, xmit_tail := 0 \<rparr>)
      (usc_stop_transmitter (usc_stop_receiver w))"
  define w2 where "w2 = (if sync_mode (info w1) \<or> netcount (info w1) \<noteq> 0 then usc_set_sync_mode w1 else usc_set_async_mode w1)"
  define w3 where "w3 = set_info (\<lambda>i. i\<lparr> dcd_chkcount := 0, cts_chkcount := 0, ri_chkcount := 0, dsr_chkcount := 0 \<rparr>)
      (usc_set_serial_signals w2)"
  define w4 where "w4 = usc_get_serial_signals
      (usc_EnableInterrupts (usc_EnableStatusIrqs w3 (SICR_CTS + SICR_DSR + SICR_DCD + SICR_RI)) IO_PIN)"
  have c0: "driver_core (info (usc_stop_transmitter (usc_stop_receiver w))) = driver_core (info w)"
    by (simp only: driver_core_stop)
  have "dev_inv tm (xmit_cleared (info (usc_stop_transmitter (usc_stop_receiver w))))"
    using inv drv_inv_cleared_core [OF c0] by blast
  then have 1: "dev_inv tm (info w1)" "soft (info w1) = soft (info w)" "env w1 = env w"
    using soft_core [OF c0] by (simp_all add: w1_def xmit_cleared_def del: driver_core_stop) (simp add: soft_def)
  have c2: "driver_core (info w2) = driver_core (info w1)"
    by (simp add: w2_def driver_core_set_sync_mode driver_core_set_async_mode)
  have 2: "dev_inv tm (info w2)" "soft (info w2) = soft (info w)" "env w2 = env w"
    using 1 drv_inv_core [OF c2] soft_core [OF c2] by (simp_all add: w2_def)
  have 3: "dev_inv tm (info w3)" "soft (info w3) = soft (info w)" "env w3 = env w"
    using 2 by (simp_all add: w3_def soft_def)
  have 4: "dev_inv tm (info w4)" "soft (info w4) = soft (info w)" "env w4 = env w"
    using 3 by (simp_all add: w4_def soft_def)
  have "netcount (info w4) = netcount (info w)" using 4(2) by (simp add: soft_def)
  then have user4: "netcount (info w4) = 0 \<longrightarrow> port_tty (info w4) \<noteq> None" using user drv_invD(8) [OF 4(1)] by auto
  have eq: "r56_program_hw w = (if netcount (info w4) \<noteq> 0 then usc_start_receiver w4
      else do { tty \<leftarrow> port_tty (info w4); if tst (c_cflag tty) CREAD then usc_start_receiver w4 else Some w4 })"
    unfolding r56_program_hw_def w4_def w3_def w2_def w1_def Let_def ..
  from start_receiver_inv [OF 4(1)] obtain w5 where w5: "usc_start_receiver w4 = Some w5" "dev_inv tm (info w5)"
    "but_rx (info w5) = but_rx (info w4)" "env w5 = env w4" by blast
  have "r56_program_hw w = Some w5 \<or> r56_program_hw w = Some w4"
    using user4 w5(1) by (auto simp: eq)
  then show ?thesis using 4 w5(2-4) soft_rx [of "info w5" "info w4"] by auto
qed

lemma change_params_cleared:
  assumes inv: "drv_inv (xmit_cleared (info w))"
  shows "\<exists>w'. r56_change_params w = Some w' \<and> drv_inv (info w') \<and> env w' = env w \<and>
    mode (params (info w')) = mode (params (info w)) \<and> pending_bh (info w') = pending_bh (info w) \<and>
    bh_running (info w') = bh_running (info w) \<and> bh_requested (info w') = bh_requested (info w) \<and>
    port_tty (info w') = port_tty (info w)"
proof -
  obtain tty where tty: "port_tty (info w) = Some tty" using drv_invD(8) [OF inv] by (auto simp: xmit_cleared_def)
  define w1 where "w1 = set_info (\<lambda>i. i\<lparr> serial_signals := termios_signals (params i) (c_cflag tty) (serial_signals i),
                 params := termios_params tty (params i),
                 timeout := params_timeout (hz (env w)) (termios_params tty (params i)) (timeout i),
                 port_flags := termios_port_flags (c_cflag tty) (port_flags i),
                 read_status_mask := termios_read_mask (c_iflag tty),
                 ignore_status_mask := termios_ignore_mask (c_iflag tty) (ignore_status_mask i) \<rparr>) w"
  have "r56_change_params w = r56_program_hw w1" by (simp add: r56_change_params_def tty w1_def)
  moreover have "drv_inv (xmit_cleared (info w1))"
    using inv by (simp add: w1_def termios_params_def drv_inv_parts xmit_cleared_def)
  moreover have "mode (params (info w1)) = mode (params (info w))" "pending_bh (info w1) = pending_bh (info w)"
    "bh_running (info w1) = bh_running (info w)" "bh_requested (info w1) = bh_requested (info w)"
    "port_tty (info w1) = port_tty (info w)" "env w1 = env w"
    by (simp_all add: w1_def termios_params_def)
  ultimately show ?thesis using program_hw_inv [of True w1] by (auto simp: soft_def)
qed

lemmas change_params_inv = change_params_cleared [OF drv_inv_restart]

subsection \<open>Polling with a clock\<close>

text \<open>
  A clock that does not stand still: after every history there is a number of polls within which one
  is told that the time is over.
\<close>

definition all_early :: "environment \<Rightarrow> event list \<Rightarrow> event list \<Rightarrow> bool" where
  "all_early e h es \<longleftrightarrow> (\<forall>a b. es = a @ Call Time_after # b \<longrightarrow> os_ret e (h @ a @ [Call Time_after]) = 0)"

definition polls :: "event list \<Rightarrow> nat" where
  "polls es = length (filter (\<lambda>c. c = Time_after) (calls es))"

definition clock_ok :: "environment \<Rightarrow> bool" where
  "clock_ok e \<longleftrightarrow> (\<forall>h. \<exists>n. \<forall>es. all_early e h es \<longrightarrow> polls es < n)"

text \<open>One more round of a polling loop.\<close>

definition polled :: "world \<Rightarrow> world \<Rightarrow> bool" where
  "polled w w' \<longleftrightarrow> env w' = env w \<and> os_ret (env w) (trace w @ [Call Time_after]) = 0 \<and>
     (\<exists>fs. trace w' = trace w @ Call Time_after # fs \<and> calls fs = [])"

lemma calls_Call: "calls fs = [] \<Longrightarrow> Call c \<notin> set fs"
  by (auto simp: calls_def)

lemma all_early_poll:
  assumes "all_early e h es" "os_ret e (h @ es @ [Call Time_after]) = 0" "calls fs = []"
  shows "all_early e h (es @ Call Time_after # fs)"
  unfolding all_early_def
proof (intro allI impI)
  fix a b assume eq: "es @ Call Time_after # fs = a @ Call Time_after # b"
  then consider us where "es = a @ us" "us @ Call Time_after # fs = Call Time_after # b"
    | us where "a = es @ us" "Call Time_after # fs = us @ Call Time_after # b"
    by (auto simp: append_eq_append_conv2)
  then show "os_ret e (h @ a @ [Call Time_after]) = 0"
  proof cases
    case 1
    then show ?thesis using assms(1,2) by (cases us) (auto simp: all_early_def)
  next
    case 2
    then show ?thesis using assms(2) calls_Call [OF assms(3), of Time_after] by (cases us) auto
  qed
qed

lemma poll_induct [consumes 1, case_names poll]:
  assumes clock: "clock_ok (env w)" and step: "\<And>w. (\<And>w'. polled w w' \<Longrightarrow> P w') \<Longrightarrow> P w"
  shows "P w"
proof -
  define e h where "e = env w" and "h = trace w"
  obtain n where n: "\<And>es. all_early e h es \<Longrightarrow> polls es < n" using clock by (auto simp: clock_ok_def e_def)
  have "env v = e \<Longrightarrow> trace v = h @ es \<Longrightarrow> all_early e h es \<Longrightarrow> P v" for v es
  proof (induction "n - polls es" arbitrary: v es rule: less_induct)
    case less
    show ?case
    proof (rule step)
      fix v' assume "polled v v'"
      then obtain fs where fs: "env v' = e" "os_ret e (h @ es @ [Call Time_after]) = 0"
        "trace v' = h @ es @ Call Time_after # fs" "calls fs = []"
        using less.prems by (auto simp: polled_def)
      define es' where "es' = es @ Call Time_after # fs"
      have early: "all_early e h es'" unfolding es'_def by (rule all_early_poll [OF less.prems(3) fs(2,4)])
      have "polls es' = Suc (polls es)"
        using fs(4) by (simp add: polls_def es'_def calls_def)
      then have "n - polls es' < n - polls es" using n [OF less.prems(3)] by simp
      then show "P v'" using less.hyps fs(1,3) early by (simp add: es'_def)
    qed
  qed
  from this [of w "[]"] show "P w" by (simp add: e_def h_def all_early_def)
qed

subsection \<open>The DMA test\<close>

text \<open>The instance without what the tests change; the parameters are restored at the end.\<close>

definition test_core :: "r56_struct \<Rightarrow> r56_struct" where
  "test_core i = (driver_core i)\<lparr> rx_buffer_list := [], tx_buffer_list := [], params := zero_params \<rparr>"

definition test_frame :: "world \<Rightarrow> world \<Rightarrow> bool" where
  "test_frame w w' \<longleftrightarrow> env w' = env w \<and> test_core (info w') = test_core (info w) \<and>
     map virt_addr (rx_buffer_list (info w')) = map virt_addr (rx_buffer_list (info w)) \<and>
     map virt_addr (tx_buffer_list (info w')) = map virt_addr (tx_buffer_list (info w))"

lemma test_frame_refl [simp]: "test_frame w w"
  by (simp add: test_frame_def)

lemma test_frame_trans: "test_frame u v \<Longrightarrow> test_frame v w \<Longrightarrow> test_frame u w"
  by (simp add: test_frame_def)

lemma test_frame_core: "env w' = env w \<Longrightarrow> driver_core (info w') = driver_core (info w) \<Longrightarrow> test_frame w w'"
  by (simp add: test_frame_def test_core_def driver_core_fields [of "info w'" "info w"])

lemma test_frame_info: "env w' = env w \<Longrightarrow> info w' = info w \<Longrightarrow> test_frame w w'"
  by (simp add: test_frame_def)

lemma test_frame_lengths:
  assumes "test_frame w w'"
  shows "length (rx_buffer_list (info w')) = length (rx_buffer_list (info w))"
    "length (tx_buffer_list (info w')) = length (tx_buffer_list (info w))" "env w' = env w"
  using assms map_eq_imp_length_eq [of virt_addr] by (auto simp: test_frame_def)

text \<open>A DMA controller that writes status and counts of the receive entries and memory.\<close>

definition dma_ok :: "environment \<Rightarrow> bool" where
  "dma_ok e \<longleftrightarrow> (\<forall>es xs m. map virt_addr (fst (dev_dma e es (xs, m))) = map virt_addr xs)"

lemma adapter_dma_frame: "dma_ok (env w) \<Longrightarrow> test_frame w (adapter_dma w)"
  by (simp add: adapter_dma_def test_frame_def dma_ok_def case_prod_unfold test_core_def driver_core_def Let_def)

lemma adapter_dma_trace [simp]: "trace (adapter_dma w) = trace w"
  by (simp add: adapter_dma_def case_prod_unfold Let_def)

lemma store_entry_total:
  assumes "(k + 1) * 40 \<le> 4096" "\<And>x. virt_addr (f x) = virt_addr x"
  shows "\<exists>w'. store_entry k f w = Some w' \<and> test_frame w w'"
proof -
  have v: "map virt_addr (es[j := f (es ! j)]) = map virt_addr es" for j es
    by (simp add: map_update assms(2)) (metis list_update_id map_update)
  show ?thesis
    using assms(1) by (simp add: store_entry_def Let_def test_frame_def v test_core_def driver_core_def)
qed

lemma time_after_late: "time_after w = (os_ret (env w) (trace w @ [Call Time_after]) \<noteq> 0, kcall Time_after w)"
  by (simp add: time_after_def Let_def)

lemma polled_InReg:
  assumes "os_ret (env w) (trace w @ [Call Time_after]) = 0"
  shows "polled w (snd (usc_InReg (kcall Time_after w) r))"
  using assms trace_usc_InReg [of "kcall Time_after w" r] by (auto simp: polled_def)

text \<open>One round of a polling loop: too late, done, or again.\<close>

lemma poll_round:
  assumes eq: "f w = (if late then Some (False, k) else if c then Some (True, w1) else f w1)"
    and fr: "test_frame w k" "test_frame w w1"
    and again: "\<not> late \<Longrightarrow> \<exists>r w'. f w1 = Some (r, w') \<and> test_frame w1 w'"
  shows "\<exists>r w'. f w = Some (r, w') \<and> test_frame w w'"
proof (cases "late \<or> c")
  case True
  then show ?thesis unfolding eq using fr by (cases late) auto
next
  case False
  with again obtain r w' where "f w1 = Some (r, w')" "test_frame w1 w'" by blast
  moreover from this(2) have "test_frame w w'" by (rule test_frame_trans [OF fr(2)])
  ultimately show ?thesis unfolding eq using False by simp
qed

lemma wait_entry_read_total:
  assumes "clock_ok (env w)"
  shows "\<exists>r w'. dma_wait_entry_read w = Some (r, w') \<and> test_frame w w'"
  using assms
proof (induction rule: poll_induct)
  case (poll w)
  define w1 stat where "w1 = snd (usc_InReg (kcall Time_after w) RDMR)" and "stat = fst (usc_InReg (kcall Time_after w) RDMR)"
  have eq: "dma_wait_entry_read w = (if os_ret (env w) (trace w @ [Call Time_after]) \<noteq> 0 then Some (False, kcall Time_after w)
      else if \<not> tst stat BIT4 \<and> tst stat BIT5 then Some (True, w1) else dma_wait_entry_read w1)"
    by (subst dma_wait_entry_read.simps)
      (simp only: time_after_late case_prod_unfold Let_def usc_InDmaReg_def w1_def stat_def fst_conv snd_conv)
  show ?case
    by (rule poll_round [OF eq]) (use poll polled_InReg in \<open>auto simp: w1_def test_frame_info\<close>)
qed

lemma wait_txfifo_total:
  assumes "clock_ok (env w)"
  shows "\<exists>r w'. dma_wait_txfifo n w = Some (r, w') \<and> test_frame w w'"
  using assms
proof (induction rule: poll_induct)
  case (poll w)
  define w1 l where "w1 = snd (usc_InReg (kcall Time_after w) TICR)" and "l = drop_bit 8 (fst (usc_InReg (kcall Time_after w) TICR))"
  have eq: "dma_wait_txfifo n w = (if os_ret (env w) (trace w @ [Call Time_after]) \<noteq> 0 then Some (False, kcall Time_after w)
      else if l < 16 \<or> n < 32 \<and> unat l \<le> 32 - n then Some (True, w1) else dma_wait_txfifo n w1)"
    by (subst dma_wait_txfifo.simps)
      (simp only: time_after_late case_prod_unfold Let_def w1_def l_def fst_conv snd_conv if_bool_eq_disj simp_thms split: if_split, argo)
  show ?case
    by (rule poll_round [OF eq]) (use poll polled_InReg in \<open>auto simp: w1_def test_frame_info\<close>)
qed

lemma wait_sent_total:
  assumes "clock_ok (env w)"
  shows "\<exists>r st' w'. dma_wait_sent st w = Some (r, st', w') \<and> test_frame w w'"
  using assms
proof (induction arbitrary: st rule: poll_induct)
  case (poll w)
  define w1 where "w1 = snd (usc_InReg (kcall Time_after w) TCSR)"
  define st1 where "st1 = fst (usc_InReg (kcall Time_after w) TCSR)"
  have f1: "test_frame w w1" "test_frame w (kcall Time_after w)" by (simp_all add: w1_def test_frame_info)
  have eq: "dma_wait_sent st w = (if \<not> tst st (BIT6 + BIT5 + BIT4 + BIT2 + BIT1)
      then if os_ret (env w) (trace w @ [Call Time_after]) \<noteq> 0 then Some (False, st, kcall Time_after w)
           else dma_wait_sent st1 w1
      else Some (True, st, w))"
    by (subst dma_wait_sent.simps)
      (simp add: time_after_late case_prod_unfold Let_def w1_def st1_def)
  show ?case
  proof (cases "os_ret (env w) (trace w @ [Call Time_after]) = 0")
    case True
    from poll [OF polled_InReg [OF True], of st1 TCSR] obtain r st' w' where
      "dma_wait_sent st1 w1 = Some (r, st', w')" "test_frame w1 w'" unfolding w1_def by blast
    moreover from this(2) have "test_frame w w'" by (rule test_frame_trans [OF f1(1)])
    ultimately show ?thesis unfolding eq using True by (cases "tst st (BIT6 + BIT5 + BIT4 + BIT2 + BIT1)") auto
  next
    case False
    then show ?thesis unfolding eq using f1(2) by (cases "tst st (BIT6 + BIT5 + BIT4 + BIT2 + BIT1)") auto
  qed
qed

lemma wait_received_total:
  assumes "clock_ok (env w)" "dma_ok (env w)" "rx_buffer_list (info w) \<noteq> []"
  shows "\<exists>r w'. dma_wait_received st w = Some (r, w') \<and> test_frame w w'"
  using assms
proof (induction arbitrary: st rule: poll_induct)
  case (poll w)
  define w1 where "w1 = adapter_dma (kcall Time_after w)"
  have f0: "test_frame w (kcall Time_after w)" by (simp add: test_frame_info)
  have f1: "test_frame w w1"
    using f0 adapter_dma_frame [of "kcall Time_after w"] poll.prems(1) test_frame_trans unfolding w1_def by simp
  have ne: "rx_buffer_list (info w1) \<noteq> []" using test_frame_lengths(1) [OF f1] poll.prems(2) by force
  have eq: "dma_wait_received st w = (if st = 0
      then if os_ret (env w) (trace w @ [Call Time_after]) \<noteq> 0 then Some (False, kcall Time_after w)
           else dma_wait_received (status (rx_buffer_list (info w1) ! 0)) w1
      else Some (True, w))"
    using ne by (subst dma_wait_received.simps) (simp add: time_after_late Let_def w1_def aget_def)
  show ?case
  proof (cases "os_ret (env w) (trace w @ [Call Time_after]) = 0")
    case True
    have "polled w w1" using True by (simp add: polled_def w1_def test_frame_lengths(3) [OF f1, unfolded w1_def])
    from poll.IH [OF this, of "status (rx_buffer_list (info w1) ! 0)"] ne poll.prems test_frame_lengths(3) [OF f1]
    obtain r w' where "dma_wait_received (status (rx_buffer_list (info w1) ! 0)) w1 = Some (r, w')" "test_frame w1 w'" by auto
    moreover from this(2) have "test_frame w w'" by (rule test_frame_trans [OF f1])
    ultimately show ?thesis unfolding eq using True by (cases "st = 0") auto
  next
    case False
    then show ?thesis unfolding eq using f0 by (cases "st = 0") auto
  qed
qed


lemma dma_test_start_total:
  "rx_buffer_list (info w) \<noteq> [] \<Longrightarrow> \<exists>w'. dma_test_start_receiver w = Some w' \<and> test_frame w w'"
  "tx_buffer_list (info w) \<noteq> [] \<Longrightarrow> \<exists>w'. dma_test_start_transmitter w = Some w' \<and> test_frame w w'"
  by (simp_all add: dma_test_start_receiver_def dma_test_start_transmitter_def Let_def case_prod_unfold test_frame_info aget_def)

lemma test_frame_mem: "test_frame w v \<Longrightarrow> test_frame w (mem_update f v)"
  by (simp add: test_frame_def)

lemma dma_test_buffers_total:
  assumes "rx_buffer_list (info w) \<noteq> []" "tx_buffer_list (info w) \<noteq> []" "length (rx_buffer_list (info w)) \<le> 62"
  shows "\<exists>w'. dma_test_buffers w = Some w' \<and> test_frame w w'"
proof -
  define n where "n = length (rx_buffer_list (info w))"
  have bound: "k \<le> n + 1 \<Longrightarrow> (k + 1) * 40 \<le> 4096" for k using assms(3) by (simp add: n_def)
  obtain w1 where w1: "store_entry n (\<lambda>e. e\<lparr> count := of_nat TESTFRAMESIZE, rcc := of_nat TESTFRAMESIZE, status := 0x4000 \<rparr>) w
      = Some w1" "test_frame w w1"
    using store_entry_total [OF bound, of n "\<lambda>e. e\<lparr> count := of_nat TESTFRAMESIZE, rcc := of_nat TESTFRAMESIZE, status := 0x4000 \<rparr>" w]
    by auto
  have ne1: "tx_buffer_list (info w1) \<noteq> []" using test_frame_lengths [OF w1(2)] assms(2) by force
  define w2 where "w2 = w1\<lparr> mem := mem_write (virt_addr (tx_buffer_list (info w1) ! 0)) (map of_nat [0..<TESTFRAMESIZE]) (mem w1) \<rparr>"
  have f2: "test_frame w w2" unfolding w2_def by (rule test_frame_mem [OF w1(2)])
  obtain w3 where w3: "store_entry 0 (\<lambda>e. e\<lparr> status := 0, count := of_nat (TESTFRAMESIZE + 4) \<rparr>) w2 = Some w3" "test_frame w2 w3"
    using store_entry_total [OF bound, of 0 "\<lambda>e. e\<lparr> status := 0, count := of_nat (TESTFRAMESIZE + 4) \<rparr>" w2] by auto
  have f3: "test_frame w w3" by (rule test_frame_trans [OF f2 w3(2)])
  have ne3: "rx_buffer_list (info w3) \<noteq> []" using test_frame_lengths [OF f3] assms(1) by force
  define w4 where "w4 = w3\<lparr> mem := mem_write (virt_addr (rx_buffer_list (info w3) ! 0)) (replicate (TESTFRAMESIZE + 4) 0) (mem w3) \<rparr>"
  have f4: "test_frame w w4" unfolding w4_def by (rule test_frame_mem [OF f3])
  obtain w5 where w5: "store_entry (n + 1) (\<lambda>e. e\<lparr> count := 0 \<rparr>) w4 = Some w5" "test_frame w4 w5"
    using store_entry_total [OF bound, of "n + 1" "\<lambda>e. e\<lparr> count := 0 \<rparr>" w4] by auto
  have "1 \<le> n + 1" by simp
  obtain w6 where w6: "store_entry 1 (\<lambda>e. e\<lparr> count := 0 \<rparr>) w5 = Some w6" "test_frame w5 w6"
    using store_entry_total [OF bound [OF \<open>1 \<le> n + 1\<close>], of "\<lambda>e. e\<lparr> count := 0 \<rparr>" w5] by auto
  have "dma_test_buffers w = Some w6"
    using w1(1) w3(1) w5(1) w6(1) ne1 ne3 unfolding dma_test_buffers_def w2_def w4_def n_def by (simp add: Let_def aget_def)
  then show ?thesis using f4 w5(2) w6(2) test_frame_trans by blast
qed

lemma dma_test_transfer_total:
  assumes ok: "clock_ok (env w)" "dma_ok (env w)" and ne: "rx_buffer_list (info w) \<noteq> []" "tx_buffer_list (info w) \<noteq> []"
  shows "\<exists>r w'. dma_test_transfer w = Some (r, w') \<and> test_frame w w'"
proof -
  define w1 where "w1 = usc_rmw (usc_TCmd w TCmd_SendFrame) TMR (\<lambda>v. (v AND 0xfffc) OR 0x0002)"
  define st w2 where "st = fst (usc_InReg w1 TCSR)" and "w2 = snd (usc_InReg w1 TCSR)"
  have f2: "test_frame w w2" by (rule test_frame_info) (simp_all add: w2_def w1_def)
  have "clock_ok (env w2)" using ok test_frame_lengths(3) [OF f2] by simp
  from wait_sent_total [OF this] obtain r st' w3 where w3: "dma_wait_sent st w2 = Some (r, st', w3)" "test_frame w2 w3" by blast
  have f3: "test_frame w w3" by (rule test_frame_trans [OF f2 w3(2)])
  define w4 where "w4 = adapter_dma w3"
  have f4: "test_frame w w4"
    using test_frame_trans [OF f3] adapter_dma_frame [of w3] ok test_frame_lengths(3) [OF f3] by (simp add: w4_def)
  note l4 = test_frame_lengths [OF f4]
  have ne4: "rx_buffer_list (info w4) \<noteq> []" using l4 ne by force
  from wait_received_total [of w4 "status (rx_buffer_list (info w4) ! 0)"] ok l4 ne4 obtain r' w5 where
    w5: "dma_wait_received (status (rx_buffer_list (info w4) ! 0)) w4 = Some (r', w5)" "test_frame w4 w5" by auto
  have f5: "test_frame w w5" by (rule test_frame_trans [OF f4 w5(2)])
  have ne5: "rx_buffer_list (info w5) \<noteq> []" "tx_buffer_list (info w5) \<noteq> []" using test_frame_lengths [OF f5] ne by force+
  have "dma_test_transfer w = (if \<not> r \<or> tst st' (BIT5 + BIT1) then Some (False, w3)
      else if \<not> r' then Some (False, w5)
      else Some (\<not> tst (status (rx_buffer_list (info w5) ! 0)) (BIT8 + BIT3 + BIT1) \<and>
                 mem_read (virt_addr (tx_buffer_list (info w5) ! 0)) TESTFRAMESIZE (mem w5) =
                 mem_read (virt_addr (rx_buffer_list (info w5) ! 0)) TESTFRAMESIZE (mem w5), w5))"
    using w3(1) w5(1) ne4 ne5 unfolding dma_test_transfer_def w2_def w1_def st_def w4_def
    by (simp add: Let_def case_prod_unfold aget_def)
  then show ?thesis using f3 f5 by auto
qed

lemma testable_frame:
  assumes ok: "clock_ok (env w)" "dma_ok (env w)" and ne: "rx_buffer_list (info w) \<noteq> []" "tx_buffer_list (info w) \<noteq> []"
    and len: "length (rx_buffer_list (info w)) \<le> 62" and f: "test_frame w v"
  shows "rx_buffer_list (info v) \<noteq> []" "tx_buffer_list (info v) \<noteq> []" "length (rx_buffer_list (info v)) \<le> 62"
    "clock_ok (env v)" "dma_ok (env v)"
proof -
  note l = test_frame_lengths [OF f]
  show "length (rx_buffer_list (info v)) \<le> 62" "clock_ok (env v)" "dma_ok (env v)" using l ok len by simp_all
  show "rx_buffer_list (info v) \<noteq> []" "tx_buffer_list (info v) \<noteq> []" using l(1,2) ne by (metis length_0_conv)+
qed

lemma dma_test_total:
  assumes ok: "clock_ok (env w)" "dma_ok (env w)" and ne: "rx_buffer_list (info w) \<noteq> []" "tx_buffer_list (info w) \<noteq> []"
    and len: "length (rx_buffer_list (info w)) \<le> 62"
  shows "\<exists>r w'. r56_dma_test w = Some (r, w') \<and> test_frame w w' \<and> params (info w') = params (info w)"
proof -
  define w0 where "w0 = set_params (\<lambda>_. default_params) w"
  define w1 where "w1 = usc_OutDmaReg (usc_enable_loopback (usc_set_sdlc_mode (usc_reset w0)) 1) RDMR 0xe200"
  have f0: "test_frame w w0" by (simp add: test_frame_def w0_def test_core_def driver_core_def)
  have "driver_core (info (usc_enable_loopback (usc_set_sdlc_mode (usc_reset w0)) 1)) = driver_core (info w0)"
    by (simp only: driver_core_usc info_usc_set_sdlc_mode driver_core_sdlc_info driver_core_reset)
  then have f1: "test_frame w w1" by (intro test_frame_trans [OF f0 test_frame_core]) (simp_all add: w1_def del: info_usc_enable_loopback)
  note use = testable_frame [OF assms]
  from dma_test_buffers_total [OF use(1-3) [OF f1]] obtain w2 where w2: "dma_test_buffers w1 = Some w2" "test_frame w1 w2" by blast
  have f2: "test_frame w w2" by (rule test_frame_trans [OF f1 w2(2)])
  from dma_test_start_total(1) [OF use(1) [OF f2]] obtain w3 where w3: "dma_test_start_receiver w2 = Some w3" "test_frame w2 w3" by blast
  have f3: "test_frame w w3" by (rule test_frame_trans [OF f2 w3(2)])
  from wait_entry_read_total [OF use(4) [OF f3]] obtain r1 w4 where w4: "dma_wait_entry_read w3 = Some (r1, w4)" "test_frame w3 w4" by blast
  have f4: "test_frame w w4" by (rule test_frame_trans [OF f3 w4(2)])
  from dma_test_start_total(2) [OF use(2) [OF f4]] obtain w5 where w5: "dma_test_start_transmitter w4 = Some w5" "test_frame w4 w5" by blast
  have f5: "test_frame w w5" by (rule test_frame_trans [OF f4 w5(2)])
  from wait_txfifo_total [OF use(4) [OF f5]] obtain r2 w6 where w6: "dma_wait_txfifo TESTFRAMESIZE w5 = Some (r2, w6)" "test_frame w5 w6" by blast
  have f6: "test_frame w w6" by (rule test_frame_trans [OF f5 w6(2)])
  from dma_test_transfer_total [OF use(4,5,1,2) [OF f6]] obtain r3 w7 where w7: "dma_test_transfer w6 = Some (r3, w7)" "test_frame w6 w7" by blast
  have f7: "test_frame w w7" by (rule test_frame_trans [OF f6 w7(2)])
  define w8 where "w8 = (if r1 \<and> r2 then w7 else w6)"
  have f8: "test_frame w w8" using f6 f7 by (simp add: w8_def)
  have t: "(if r1 \<and> r2 then dma_test_transfer w6 else Some (False, w6)) = Some (r1 \<and> r2 \<and> r3, w8)"
    using w7(1) by (auto simp: w8_def)
  have "r56_dma_test w = do { w2 \<leftarrow> dma_test_buffers w1;
             w3 \<leftarrow> dma_test_start_receiver w2;
             (rc1, w4) \<leftarrow> dma_wait_entry_read w3;
             w5 \<leftarrow> dma_test_start_transmitter w4;
             (rc2, w6) \<leftarrow> dma_wait_txfifo TESTFRAMESIZE w5;
             (rc, w7) \<leftarrow> (if rc1 \<and> rc2 then dma_test_transfer w6 else Some (False, w6));
             Some (rc, set_params (\<lambda>_. params (info w)) (usc_reset w7)) }"
    unfolding r56_dma_test_def w1_def w0_def Let_def ..
  then have run: "r56_dma_test w = Some (r1 \<and> r2 \<and> r3, set_params (\<lambda>_. params (info w)) (usc_reset w8))"
    by (simp only: w2(1) w3(1) w4(1) w5(1) w6(1) t bind.bind_lunit prod.case)
  have "test_frame w (usc_reset w8)" by (rule test_frame_trans [OF f8 test_frame_core [OF _ driver_core_reset]]) simp
  then have "test_frame w (set_params (\<lambda>_. params (info w)) (usc_reset w8))" by (simp add: test_frame_def test_core_def driver_core_def)
  then show ?thesis using run by simp
qed

end
