(* ===== verification/R56_Open.thy ===== *)
theory R56_Open
  imports R56_Startup
begin

text \<open>
  Opening a device: \<open>startup\<close> from a closed device, through the claim of the resources,
  the adapter test, during which interrupts already arrive, and the programming of the adapter, to a
  state the handlers can run in; or to one where nothing is claimed.
\<close>

subsection \<open>Claimed devices are well formed\<close>

lemma pci_layout_disjoint:
  assumes "pci_layout i"
  shows "disjoint_pages (map virt_addr (tx_buffer_list i))"
proof -
  define n where "n = length (rx_buffer_list i)"
  have len: "n + length (tx_buffer_list i) = 62" using assms by (simp add: pci_layout_def n_def)
  have v: "virt_addr (tx_buffer_list i ! k) = memory_base i + 4096 * (n + k + 1)" if "k < length (tx_buffer_list i)" for k
  proof -
    have "n + k < 62" using len that by simp
    then have "virt_addr ((rx_buffer_list i @ tx_buffer_list i) ! (n + k)) = memory_base i + 4096 * (n + k + 1)"
      using assms unfolding pci_layout_def by blast
    then show ?thesis by (simp add: n_def nth_append)
  qed
  show ?thesis unfolding disjoint_pages_def
  proof (intro allI impI)
    fix a b assume "a < length (map virt_addr (tx_buffer_list i))" "b < length (map virt_addr (tx_buffer_list i))" "a \<noteq> b"
    then show "map virt_addr (tx_buffer_list i) ! a + 4096 \<le> map virt_addr (tx_buffer_list i) ! b \<or>
        map virt_addr (tx_buffer_list i) ! b + 4096 \<le> map virt_addr (tx_buffer_list i) ! a"
      by (cases "a < b") (simp_all add: v)
  qed
qed

text \<open>A closed device: nothing claimed, nothing to send, no bottom half.\<close>

definition closed :: "r56_struct \<Rightarrow> bool" where
  "closed i \<longleftrightarrow>
     configured i \<and> released i \<and> \<not> tst (port_flags i) ASYNC_INITIALIZED \<and> port_tty i \<noteq> None \<and>
     (xmit_buf i = None \<or> buffer_of_size 4096 (xmit_buf i)) \<and> xmit_cnt i = 0 \<and> xmit_head i = 0 \<and> xmit_tail i = 0 \<and>
     \<not> bh_running i \<and> length (tx_holding_buffers i) = 5"

lemma holding_inv:
  assumes "holding_ready i" "\<forall>h\<in>set (tx_holding_buffers i). buffer_size h = 0" "tx_holding_count i = 0"
    "get_tx_holding_index i = 0" "put_tx_holding_index i = 0" "0 < num_tx_holding_buffers i"
  shows "hold_inv i"
proof -
  have "buffer_size (tx_holding_buffers i ! k) = 0 \<and> held_size (unat (max_frame_size i)) (tx_holding_buffers i ! k)"
    if "k < nat (num_tx_holding_buffers i)" for k
    using that assms(1,2) by (auto simp: holding_ready_def)
  then show ?thesis using assms by (simp add: hold_inv_def holding_ready_def held_size_def buffer_of_size_def)
qed

lemma claimed_inv:
  assumes al: "allocated i0 i" and conf: "configured i" "max_frame_size i = max_frame_size i0"
    and tty: "tm \<longrightarrow> port_tty i \<noteq> None" and xmit: "buffer_of_size 4096 (xmit_buf i)" "xmit_cnt i = 0" "xmit_head i = 0" "xmit_tail i = 0"
    and pend: "pending_bh i = 0"
  shows "dev_inv tm i"
proof -
  note a = al [unfolded allocated_def] and c = conf(1) [unfolded configured_def]
  have lay: "pci_layout i" using a by blast
  then have ring: "rx_ring i" "tx_ring i" "holding_ready i" by (simp_all add: pci_layout_def)
  have "rx_ready i" using ring a c conf(2) by (auto simp: rx_ready_def)
  moreover have "tx_ready i" using ring pci_layout_disjoint [OF lay] by (simp add: tx_ready_def)
  moreover have "hold_ok i" using a c ring(3) holding_inv [of i] by (cases "0 < num_tx_holding_buffers i") (auto simp: hold_ok_def)
  moreover have "xmit_ok i" using xmit by (simp add: xmit_ok_def xmit_inv_def)
  ultimately show ?thesis using tty pend by (simp add: dev_inv_def pending_ok_def)
qed

lemma drv_inv_releasable: "dev_inv tm i \<Longrightarrow> releasable i"
  by (auto simp: dev_inv_def rx_ready_def rx_ring_def tx_ready_def tx_ring_def hold_ok_def hold_inv_def releasable_def)

subsection \<open>The diagnostics\<close>

lemma test_core_fields:
  assumes "test_core i = test_core j"
  shows
    "pending_bh i = pending_bh j" "bh_running i = bh_running j" "bh_requested i = bh_requested j"
    "max_frame_size i = max_frame_size j" "tx_buffer_count i = tx_buffer_count j"
    "current_tx_buffer i = current_tx_buffer j" "start_tx_dma_buffer i = start_tx_dma_buffer j"
    "xmit_buf i = xmit_buf j" "xmit_head i = xmit_head j" "xmit_tail i = xmit_tail j" "xmit_cnt i = xmit_cnt j"
    "port_tty i = port_tty j" "num_tx_holding_buffers i = num_tx_holding_buffers j"
    "tx_holding_buffers i = tx_holding_buffers j" "tx_holding_count i = tx_holding_count j"
    "get_tx_holding_index i = get_tx_holding_index j" "put_tx_holding_index i = put_tx_holding_index j"
    "rx_buffer_count i = rx_buffer_count j" "current_rx_buffer i = current_rx_buffer j"
    "intermediate_rxbuffer i = intermediate_rxbuffer j" "port_flags i = port_flags j"
  using
    arg_cong [OF assms, of pending_bh] arg_cong [OF assms, of bh_running] arg_cong [OF assms, of bh_requested]
    arg_cong [OF assms, of max_frame_size] arg_cong [OF assms, of tx_buffer_count]
    arg_cong [OF assms, of current_tx_buffer] arg_cong [OF assms, of start_tx_dma_buffer]
    arg_cong [OF assms, of xmit_buf] arg_cong [OF assms, of xmit_head] arg_cong [OF assms, of xmit_tail]
    arg_cong [OF assms, of xmit_cnt] arg_cong [OF assms, of port_tty]
    arg_cong [OF assms, of num_tx_holding_buffers] arg_cong [OF assms, of tx_holding_buffers]
    arg_cong [OF assms, of tx_holding_count] arg_cong [OF assms, of get_tx_holding_index]
    arg_cong [OF assms, of put_tx_holding_index] arg_cong [OF assms, of rx_buffer_count]
    arg_cong [OF assms, of current_rx_buffer] arg_cong [OF assms, of intermediate_rxbuffer]
    arg_cong [OF assms, of port_flags]
  by (simp_all add: test_core_def driver_core_def)

lemma drv_inv_test:
  assumes inv: "dev_inv tm (info w)" and f: "test_frame w w'" and p: "params (info w') = params (info w)"
  shows "dev_inv tm (info w')"
proof -
  have c: "test_core (info w') = test_core (info w)" and
    v: "map virt_addr (tx_buffer_list (info w')) = map virt_addr (tx_buffer_list (info w))"
    using f by (simp_all add: test_frame_def)
  have "dev_inv tm (info w') = dev_inv tm (info w)"
    unfolding drv_inv_parts by (simp only: test_core_fields [OF c] test_frame_lengths [OF f] v p)
  then show ?thesis using inv by simp
qed

lemma reg_differs_keeps: "info (snd (reg_differs rs w)) = info w \<and> env (snd (reg_differs rs w)) = env w"
proof (induction rs arbitrary: w)
  case (Cons a rs)
  then show ?case by (cases a) (simp add: case_prod_unfold Let_def)
qed simp

lemmas reg_differs_frame [simp] = reg_differs_keeps [THEN conjunct1] reg_differs_keeps [THEN conjunct2]

lemma register_rounds_keeps: "info (snd (register_rounds is w)) = info w \<and> env (snd (register_rounds is w)) = env w"
proof (induction "is" arbitrary: w)
  case (Cons i "is")
  have "info (fold (\<lambda>(r, v) w. usc_OutReg w r v) xs w) = info w \<and> env (fold (\<lambda>(r, v) w. usc_OutReg w r v) xs w) = env w"
    for xs w by (induction xs arbitrary: w) (simp_all add: case_prod_unfold)
  then show ?case using Cons by (simp add: case_prod_unfold Let_def)
qed simp

lemmas register_rounds_frame [simp] = register_rounds_keeps [THEN conjunct1] register_rounds_keeps [THEN conjunct2]

lemma register_test_frame:
  "driver_core (info (snd (r56_register_test w))) = driver_core (info w)" "env (snd (r56_register_test w)) = env w"
proof -
  define w1 where "w1 = usc_reset w"
  define d w2 where "d = fst (reg_differs [(SICR, 0), (IVR, 0), (DIVR, 0)] w1)"
    and "w2 = snd (reg_differs [(SICR, 0), (IVR, 0), (DIVR, 0)] w1)"
  define w3 where "w3 = (if \<not> d then snd (register_rounds [0..<length register_patterns] w2) else w2)"
  have "snd (r56_register_test w) = usc_reset w3"
    unfolding r56_register_test_def Let_def case_prod_unfold w3_def w2_def w1_def d_def by (simp only: if_distrib [of snd] snd_conv)
  moreover have "info w3 = info w1" "env w3 = env w1" unfolding w3_def w2_def by (simp_all del: reg_differs.simps)
  moreover have "driver_core (info w1) = driver_core (info w)" "env w1 = env w" unfolding w1_def by (rule driver_core_reset) simp
  ultimately show "driver_core (info (snd (r56_register_test w))) = driver_core (info w)"
    "env (snd (r56_register_test w)) = env w"
    by (simp_all only: driver_core_reset usc_reset_frame)
qed

text \<open>
  What the sleeping code relies on: meanwhile the system makes steps, and the clock, the adapter and the
  size of the receive ring stay what they are.
\<close>

definition sleep_ok :: "(world \<Rightarrow> world) \<Rightarrow> bool" where
  "sleep_ok sleep \<longleftrightarrow>
     (\<forall>w. sys_step\<^sup>*\<^sup>* (BH_idle, w) (BH_idle, sleep w) \<and> env (sleep w) = env w \<and>
          length (rx_buffer_list (info (sleep w))) = length (rx_buffer_list (info w)) \<and>
          port_flags (info (sleep w)) = port_flags (info w))"

text \<open>A well-formed device with the bottom half at rest.\<close>

definition at_rest :: "world \<Rightarrow> bool" where
  "at_rest w \<longleftrightarrow> sys_inv (BH_idle, w)"

lemma at_rest_iff:
  "at_rest w \<longleftrightarrow> drv_inv (info w) \<and> \<not> bh_running (info w) \<and> (pending_bh (info w) = 0 \<or> bh_requested (info w))"
  by (auto simp: at_rest_def sys_inv_def)

lemma at_restD: "at_rest w \<Longrightarrow> drv_inv (info w)"
  by (simp add: at_rest_def sys_inv_def)

lemma at_rest_reachable: "at_rest w \<Longrightarrow> sys_reachable (BH_idle, w)"
  by (rule sys_reachable.start) (auto simp: at_rest_iff)

definition rested :: "world \<Rightarrow> world \<Rightarrow> bool" where
  "rested w w' \<longleftrightarrow> at_rest w' \<and> env w' = env w \<and> length (rx_buffer_list (info w')) = length (rx_buffer_list (info w)) \<and>
     port_flags (info w') = port_flags (info w)"

lemma sys_steps_inv: "sys_step\<^sup>*\<^sup>* s t \<Longrightarrow> sys_inv s \<Longrightarrow> sys_inv t"
  by (induction rule: rtranclp_induct) (auto intro: sys_step_inv)

lemma sleep_rested: "sleep_ok sleep \<Longrightarrow> at_rest w \<Longrightarrow> rested w (sleep w)"
  unfolding sleep_ok_def rested_def at_rest_def using sys_steps_inv by blast

lemma rested_core:
  assumes "at_rest w" "driver_core (info w') = driver_core (info w)" "env w' = env w"
  shows "rested w w'"
  using assms drv_inv_core [OF assms(2)] driver_core_fields [OF assms(2)]
  by (simp add: rested_def at_rest_iff)

text \<open>
  What the diagnostics need of a kind of device at rest: a relation to the states at rest that follow, which the
  changes of the diagnostics and the handlers that run meanwhile stay within.
\<close>

locale diagnosed =
  fixes rest :: "world \<Rightarrow> bool" and leads :: "world \<Rightarrow> world \<Rightarrow> bool"
  assumes leads_rest: "leads u v \<Longrightarrow> rest v"
    and leads_env: "leads u v \<Longrightarrow> env v = env u \<and> length (rx_buffer_list (info v)) = length (rx_buffer_list (info u))"
    and leads_refl: "rest w \<Longrightarrow> leads w w"
    and leads_trans: "leads u v \<Longrightarrow> leads v w \<Longrightarrow> leads u w"
    and leads_core: "rest w \<Longrightarrow> driver_core (info w') = driver_core (info w) \<Longrightarrow> env w' = env w \<Longrightarrow> leads w w'"
    and leads_mark: "rest w \<Longrightarrow> leads w (set_info (irq_occurred_update f) w)"
      "rest w \<Longrightarrow> leads w (set_info (init_error_update g) w)"
    and leads_test: "rest w \<Longrightarrow> test_frame w w' \<Longrightarrow> params (info w') = params (info w) \<Longrightarrow> leads w w'"
    and rings: "rest w \<Longrightarrow> rx_buffer_list (info w) \<noteq> [] \<and> tx_buffer_list (info w) \<noteq> []"
begin

lemma leads_info: "leads u v \<Longrightarrow> info w = info v \<Longrightarrow> env w = env v \<Longrightarrow> leads u w"
  using leads_trans leads_rest leads_core by metis

lemma irq_wait_leads: "\<forall>w. rest w \<longrightarrow> leads w (sleep w) \<Longrightarrow> rest w \<Longrightarrow> leads w (irq_wait sleep n w)"
proof (induction n arbitrary: w)
  case 0
  then show ?case by (simp add: leads_refl)
next
  case (Suc n)
  have k: "leads w (kcall Msleep w)" using Suc.prems leads_core by simp
  then have s: "leads w (sleep (kcall Msleep w))" using Suc.prems(1) leads_trans leads_rest by blast
  then have "leads (sleep (kcall Msleep w)) (irq_wait sleep n (sleep (kcall Msleep w)))"
    using Suc leads_rest by blast
  then show ?case using leads_trans [OF s] Suc.prems by (simp add: leads_refl)
qed

lemma irq_test_leads:
  assumes ok: "\<forall>w. rest w \<longrightarrow> leads w (sleep w)" and rest: "rest w"
  shows "leads w (snd (r56_irq_test sleep w))"
proof (cases "hw_version (info w) = R565_DEVICE_ID")
  case True
  then show ?thesis using rest by (simp add: r56_irq_test_def leads_refl)
next
  case False
  define w1 where "w1 = set_info (irq_occurred_update (\<lambda>_. False)) (usc_reset w)"
  define w2 where "w2 = usc_OutReg (usc_OutReg (usc_OutReg (usc_OutReg (usc_OutReg
     (usc_EnableStatusIrqs (usc_UnlatchIostatusBits (usc_ClearIrqPendingBits (usc_ClearIrqPendingBits
       (usc_EnableInterrupts (usc_EnableMasterIrqBit w1) IO_PIN) 0x2) IO_PIN) MISCSTATUS_TXC_LATCHED)
       (SICR_TXC_ACTIVE + SICR_TXC_INACTIVE)) PCR 0x0001) CMCR 0x0020) IOCR 0x0008) HCR 0x0001) TC0R 0x0016"
  have "leads w (usc_reset w)" by (rule leads_core [OF rest driver_core_reset]) simp
  then have r1: "leads w w1" unfolding w1_def using leads_mark(1) leads_trans leads_rest by blast
  have "info w2 = info w1" "env w2 = env w1" by (simp_all add: w2_def)
  with r1 have r2: "leads w w2" by (rule leads_info)
  note r3 = leads_trans [OF r2 irq_wait_leads [OF ok leads_rest [OF r2]]]
  have "leads (irq_wait sleep 100 w2) (usc_reset (irq_wait sleep 100 w2))"
    using leads_core [OF leads_rest [OF r3] driver_core_reset] by simp
  from leads_trans [OF r3 this] show ?thesis
    using False unfolding r56_irq_test_def Let_def w2_def w1_def by (simp only: if_False snd_conv)
qed

lemma adapter_test_leads:
  assumes ok: "\<forall>w. rest w \<longrightarrow> leads w (sleep w)" "clock_ok (env w)" "dma_ok (env w)" and rest: "rest w"
    and len: "length (rx_buffer_list (info w)) \<le> 62"
  shows "\<exists>r w'. r56_adapter_test sleep w = Some (r, w') \<and> leads w w'"
proof -
  obtain b1 w1 where 1: "r56_register_test w = (b1, w1)" by fastforce
  have r1: "leads w w1" using leads_core [OF rest, of w1] register_test_frame [of w] 1 by simp
  obtain b2 w2 where 2: "r56_irq_test sleep w1 = (b2, w2)" by fastforce
  have r2: "leads w w2" using leads_trans [OF r1] irq_test_leads [OF ok(1) leads_rest [OF r1]] 2 by simp
  have fail: "leads w (set_info (init_error_update f) v)" if "leads w v" for f v
    using leads_trans [OF that] leads_mark(2) [OF leads_rest [OF that]] by blast
  have "clock_ok (env w2)" "dma_ok (env w2)" "rx_buffer_list (info w2) \<noteq> []" "tx_buffer_list (info w2) \<noteq> []"
    "length (rx_buffer_list (info w2)) \<le> 62"
    using rings [OF leads_rest [OF r2]] leads_env [OF r2] ok len by simp_all
  from dma_test_total [OF this] obtain b3 w3 where 3: "r56_dma_test w2 = Some (b3, w3)" "test_frame w2 w3"
      "params (info w3) = params (info w2)" by blast
  have r3: "leads w w3" using leads_trans [OF r2] leads_test [OF leads_rest [OF r2] 3(2,3)] by blast
  have "r56_adapter_test sleep w =
      (if \<not> b1 then Some (- ENODEV, set_info (init_error_update (\<lambda>_. DiagStatus_AddressFailure)) w1)
       else if \<not> b2 then Some (- ENODEV, set_info (init_error_update (\<lambda>_. DiagStatus_IrqFailure)) w2)
       else Some (if \<not> b3 then (- ENODEV, set_info (init_error_update (\<lambda>_. DiagStatus_DmaFailure)) w3) else (0, w3)))"
    using 1 2 3(1) by (simp add: r56_adapter_test_def)
  then show ?thesis using fail r1 r2 r3 by auto
qed

end

interpretation terminal: diagnosed at_rest rested
proof
  fix w w' assume w: "at_rest w" and f: "test_frame w w'" "params (info w') = params (info w)"
  have c: "test_core (info w') = test_core (info w)" using f(1) by (simp add: test_frame_def)
  have "drv_inv (info w')" by (rule drv_inv_test [OF at_restD [OF w] f])
  then show "rested w w'"
    using w test_core_fields [OF c] test_frame_lengths [OF f(1)] by (simp add: rested_def at_rest_iff)
next
  fix w assume "at_rest w"
  then show "rx_buffer_list (info w) \<noteq> [] \<and> tx_buffer_list (info w) \<noteq> []"
    by (auto simp: at_rest_iff drv_inv_parts)
next
  fix w f g assume "at_rest w"
  then show "rested w (set_info (irq_occurred_update f) w)" "rested w (set_info (init_error_update g) w)"
    by (simp_all add: rested_def at_rest_iff drv_inv_parts)
next
  fix w w' :: world assume "at_rest w" "driver_core (info w') = driver_core (info w)" "env w' = env w"
  then show "rested w w'" by (rule rested_core)
qed (simp_all add: rested_def)

lemma adapter_test_rested:
  assumes ok: "sleep_ok sleep" "clock_ok (env w)" "dma_ok (env w)" and rest: "at_rest w"
    and len: "length (rx_buffer_list (info w)) \<le> 62"
  shows "\<exists>r w'. r56_adapter_test sleep w = Some (r, w') \<and> rested w w'"
  using terminal.adapter_test_leads [OF _ ok(2,3) rest len] sleep_rested [OF ok(1)] by blast

subsection \<open>Startup\<close>

lemma set_tty_flag_frame [simp]: "env (set_tty_flag f w) = env w"
  by (simp add: set_tty_flag_def)

lemma startup_failed_total:
  assumes "releasable (info w)"
  shows "\<exists>w'. startup_failed r w = Some (r, w') \<and> released (info w') \<and> port_flags (info w') = port_flags (info w)"
proof -
  define w1 where "w1 = (if fst (ask Capable w) \<noteq> 0 then set_tty_flag (\<lambda>f. f OR TTY_IO_ERROR_bit) (snd (ask Capable w))
      else snd (ask Capable w))"
  have "releasable (info w1)" "port_flags (info w1) = port_flags (info w)"
    using assms by (simp_all add: w1_def set_tty_flag_def releasable_def)
  then obtain w2 where w2: "r56_release_resources w1 = Some w2" "released (info w2)" "res_only w1 w2"
    using release_total by blast
  have "port_flags (info w2) = port_flags (info w1)"
    using w2(3) but_res_fields(13) [of "info w2" "info w1"] by (simp add: res_only_def)
  moreover have "startup_failed r w = Some (r, w2)"
    using w2(1) unfolding startup_failed_def w1_def case_prod_unfold Let_def by simp
  ultimately show ?thesis using w2(2) \<open>port_flags (info w1) = port_flags (info w)\<close> by simp
qed

lemma released_releasable: "released i \<Longrightarrow> configured i \<Longrightarrow> length (tx_holding_buffers i) = 5 \<Longrightarrow> releasable i"
  by (auto simp: released_def releasable_def configured_def nat_le_iff)

text \<open>From the claimed resources on.\<close>

definition startup_claimed :: "(world \<Rightarrow> world) \<Rightarrow> int \<Rightarrow> world \<Rightarrow> (int \<times> world) option" where
  "startup_claimed sleep retval w =
    do { (retval, w) \<leftarrow> (if retval = 0 then r56_adapter_test sleep w else Some (retval, w));
         if retval \<noteq> 0 then startup_failed retval w
         else do { w \<leftarrow> r56_change_params w;
                   let w = set_tty_flag (\<lambda>f. f AND NOT TTY_IO_ERROR_bit) w
                   in Some (0, set_info (port_flags_update (\<lambda>f. f OR ASYNC_INITIALIZED)) w) } }"

text \<open>The result of \<open>startup\<close>: an open device whose handlers may run, or nothing claimed.\<close>

definition started :: "u32 \<Rightarrow> int \<times> world \<Rightarrow> bool" where
  "started f res \<longleftrightarrow>
     (case res of (r, w) \<Rightarrow>
        if r = 0 then sys_reachable (BH_idle, w) \<and> tst (port_flags (info w)) ASYNC_INITIALIZED
        else released (info w) \<and> port_flags (info w) = f)"

lemma started_failed:
  assumes "releasable (info w)" "port_flags (info w) = f" "r \<noteq> 0"
  shows "\<exists>w'. startup_failed r w = Some (r, w') \<and> started f (r, w')"
  using startup_failed_total [OF assms(1), of r] assms(2,3) by (auto simp: started_def)

lemma change_params_started:
  assumes "at_rest w"
  shows "\<exists>w1. r56_change_params w = Some w1 \<and>
    started f (0, set_info (port_flags_update (\<lambda>f. f OR ASYNC_INITIALIZED)) (set_tty_flag (\<lambda>f. f AND NOT TTY_IO_ERROR_bit) w1))"
proof -
  from change_params_inv [OF at_restD [OF assms]] obtain w1 where w1: "r56_change_params w = Some w1" "drv_inv (info w1)"
    "pending_bh (info w1) = pending_bh (info w)" "bh_running (info w1) = bh_running (info w)"
    "bh_requested (info w1) = bh_requested (info w)" by blast
  define w2 where "w2 = set_info (port_flags_update (\<lambda>f. f OR ASYNC_INITIALIZED)) (set_tty_flag (\<lambda>f. f AND NOT TTY_IO_ERROR_bit) w1)"
  have i2: "info w2 = port_flags_update (\<lambda>f. f OR ASYNC_INITIALIZED)
      (port_tty_update (map_option (tty_flags_update (\<lambda>f. f AND NOT TTY_IO_ERROR_bit))) (info w1))"
    by (simp add: w2_def set_tty_flag_def)
  have "drv_inv (info w2)" using w1(2) by (simp add: i2 drv_inv_parts)
  then have "at_rest w2" using w1(3-5) assms by (simp add: at_rest_iff i2)
  from at_rest_reachable [OF this] have "sys_reachable (BH_idle, w2)" .
  moreover have "tst (x OR ASYNC_INITIALIZED) ASYNC_INITIALIZED" for x :: u32
    by (simp add: tst_def word_ao_absorbs)
  ultimately have "started f (0, w2)" by (simp add: started_def i2)
  then show ?thesis using w1(1) unfolding w2_def by blast
qed

lemma startup_claimed_started:
  assumes ok: "sleep_ok sleep" "clock_ok (env w)" "dma_ok (env w)" and rest: "at_rest w"
    and len: "length (rx_buffer_list (info w)) \<le> 62"
  shows "\<exists>r w'. startup_claimed sleep 0 w = Some (r, w') \<and> started (port_flags (info w)) (r, w')"
proof -
  from adapter_test_rested [OF ok rest len] obtain r w1 where 1: "r56_adapter_test sleep w = Some (r, w1)" "rested w w1" by blast
  then have r1: "at_rest w1" "port_flags (info w1) = port_flags (info w)" by (simp_all add: rested_def)
  show ?thesis
  proof (cases "r = 0")
    case True
    from change_params_started [OF r1(1)] obtain w2 where "r56_change_params w1 = Some w2"
      "started (port_flags (info w)) (0, set_info (port_flags_update (\<lambda>f. f OR ASYNC_INITIALIZED))
          (set_tty_flag (\<lambda>f. f AND NOT TTY_IO_ERROR_bit) w2))" by blast
    then show ?thesis using 1(1) True by (simp add: startup_claimed_def)
  next
    case False
    from started_failed [OF drv_inv_releasable [OF at_restD [OF r1(1)]] r1(2) False] show ?thesis
      using 1(1) False by (auto simp: startup_claimed_def)
  qed
qed

lemma claimed_started:
  assumes ok: "sleep_ok sleep" "clock_ok (env w)" "dma_ok (env w)"
    and dev: "configured (info w)" "released (info w)" "port_tty (info w) \<noteq> None" "buffer_of_size 4096 (xmit_buf (info w))"
      "xmit_cnt (info w) = 0" "xmit_head (info w) = 0" "xmit_tail (info w) = 0" "\<not> bh_running (info w)"
      "length (tx_holding_buffers (info w)) = 5" "pending_bh (info w) = 0"
  shows "\<exists>r w'. do { (r, w) \<leftarrow> r56_claim_resources w; startup_claimed sleep r w } = Some (r, w') \<and>
    started (port_flags (info w)) (r, w')"
proof -
  from claim_resources_claimed [OF dev(1,9,2)] obtain r w1 where 1: "r56_claim_resources w = Some (r, w1)" "res_only w w1"
    "length (tx_holding_buffers (info w1)) = 5"
    "r = 0 \<and> allocated (info w) (info w1) \<and> list_lengths (info w1) \<or> r = - ENODEV \<and> released (info w1)"
    unfolding claimed_def by blast
  have b: "but_res (info w1) = but_res (info w)" and e: "env w1 = env w" using 1(2) by (simp_all add: res_only_def)
  note f = but_res_fields [OF b]
  have conf: "configured (info w1)" using configured_res [OF b] dev(1) by simp
  from 1(4) show ?thesis
  proof (elim disjE conjE)
    assume r: "r = 0" and al: "allocated (info w) (info w1)"
    have "drv_inv (info w1)"
      by (rule claimed_inv [OF al conf]) (simp_all only: f dev not_False_eq_True simp_thms)
    then have rest: "at_rest w1" using dev by (simp add: at_rest_iff f)
    have "length (rx_buffer_list (info w1)) \<le> 62" using al by (simp add: allocated_def pci_layout_def)
    from startup_claimed_started [OF ok(1) _ _ rest this] ok show ?thesis using 1(1) r by (simp add: e f)
  next
    assume r: "r = - ENODEV" and rel: "released (info w1)"
    from started_failed [OF released_releasable [OF rel conf 1(3)] f(13), of "- ENODEV"] obtain w2 where
      "startup_failed (- ENODEV) w1 = Some (- ENODEV, w2)" "started (port_flags (info w)) (- ENODEV, w2)" by auto
    then show ?thesis using 1(1) r by (simp add: startup_claimed_def)
  qed
qed


text \<open>\<open>startup\<close> of a device that is not initialised: without memory nothing happens; else the
  resources are claimed by a device with a character buffer.\<close>

lemma startup_claims:
  assumes "\<not> tst (port_flags (info w)) ASYNC_INITIALIZED"
    "xmit_buf (info w) = None \<or> buffer_of_size 4096 (xmit_buf (info w))"
  obtains v where "startup sleep w = Some (- ENOMEM, v)" "info v = info w" "env v = env w"
  | v b where "startup sleep w = do { (r, v) \<leftarrow> r56_claim_resources v; startup_claimed sleep r v }"
    "info v = (info w)\<lparr> xmit_buf := b, pending_bh := 0, icount := zero_icount \<rparr>" "env v = env w" "buffer_of_size 4096 b"
proof -
  have run: "startup sleep w = (let (page, v) = (if xmit_buf (info w) = None then ask Get_zeroed_page w else (1, w));
        v = (if xmit_buf (info v) = None \<and> page \<noteq> 0 then set_info (xmit_buf_update (\<lambda>_. Some (replicate 4096 0))) v else v)
      in if page = 0 then Some (- ENOMEM, v)
         else let v = set_info (\<lambda>i. i\<lparr> pending_bh := 0, icount := zero_icount \<rparr>) v
              in do { (r, v) \<leftarrow> r56_claim_resources v; startup_claimed sleep r v })"
    using assms(1) unfolding startup_def startup_claimed_def Let_def by (simp only: if_False)
  show thesis
  proof (cases "xmit_buf (info w) = None")
    case True
    define page v where "page = fst (ask Get_zeroed_page w)" and "v = snd (ask Get_zeroed_page w)"
    have v: "info v = info w" "env v = env w" by (simp_all add: v_def)
    define v1 where "v1 = set_info (\<lambda>i. i\<lparr> pending_bh := 0, icount := zero_icount \<rparr>)
        (set_info (xmit_buf_update (\<lambda>_. Some (replicate 4096 0))) v)"
    have eq: "startup sleep w = (if page = 0 then Some (- ENOMEM, v)
        else do { (r, v) \<leftarrow> r56_claim_resources v1; startup_claimed sleep r v })"
      using True unfolding run page_def v_def v1_def by (simp add: case_prod_unfold Let_def)
    have v1: "info v1 = (info w)\<lparr> xmit_buf := Some (replicate 4096 0), pending_bh := 0, icount := zero_icount \<rparr>" "env v1 = env w"
      by (simp_all add: v1_def v)
    show thesis
    proof (cases "page = 0")
      case True
      then have "startup sleep w = Some (- ENOMEM, v)" unfolding eq by (simp only: if_P)
      then show thesis using v by (rule that(1))
    next
      case False
      then have go: "startup sleep w = do { (r, v) \<leftarrow> r56_claim_resources v1; startup_claimed sleep r v }"
        unfolding eq by (simp only: if_False)
      have "buffer_of_size 4096 (Some (replicate 4096 0))" by (simp add: buffer_of_size_def)
      from go v1 this show thesis by (rule that(2))
    qed
  next
    case False
    define v1 where "v1 = set_info (\<lambda>i. i\<lparr> pending_bh := 0, icount := zero_icount \<rparr>) w"
    have eq: "startup sleep w = do { (r, v) \<leftarrow> r56_claim_resources v1; startup_claimed sleep r v }"
      unfolding run v1_def by (simp only: False if_False Let_def prod.case simp_thms one_neq_zero)
    have "info v1 = (info w)\<lparr> xmit_buf := xmit_buf (info w), pending_bh := 0, icount := zero_icount \<rparr>" "env v1 = env w"
      by (simp_all add: v1_def)
    then show thesis using that(2) [OF eq] assms(2) False by blast
  qed
qed

lemma startup_started:
  assumes closed: "closed (info w)" and ok: "sleep_ok sleep" "clock_ok (env w)" "dma_ok (env w)"
  shows "\<exists>r w'. startup sleep w = Some (r, w') \<and> started (port_flags (info w)) (r, w')"
proof -
  note c = closed [unfolded closed_def]
  show ?thesis
  proof (rule startup_claims [of w sleep])
    fix v assume v: "startup sleep w = Some (- ENOMEM, v)" "info v = info w"
    have "started (port_flags (info w)) (- ENOMEM, v)" using c by (simp add: started_def v(2))
    then show ?thesis using v(1) by blast
  next
    fix v b assume v: "startup sleep w = do { (r, v) \<leftarrow> r56_claim_resources v; startup_claimed sleep r v }"
      "info v = (info w)\<lparr> xmit_buf := b, pending_bh := 0, icount := zero_icount \<rparr>" "env v = env w" "buffer_of_size 4096 b"
    have "configured (info v)" "released (info v)" using c by (simp_all add: v(2) configured_def released_def)
    from claimed_started [OF ok(1) _ _ this] c ok v(4)
    have "\<exists>r w'. do { (r, v) \<leftarrow> r56_claim_resources v; startup_claimed sleep r v } = Some (r, w') \<and>
        started (port_flags (info w)) (r, w')" by (simp add: v(2,3))
    then show ?thesis unfolding v(1) .
  qed (use c in auto)
qed

text \<open>A closed device, a clock that is over at the first look, and a kernel that grants everything.\<close>

definition lab_env :: environment where
  "lab_env = quiet_env\<lparr> os_ret := (\<lambda>_. 1), dev_dma := (\<lambda>_ x. x) \<rparr>"

definition closed_example :: world where
  "closed_example = \<lparr> info = zero_info\<lparr>
     port_tty := Some running_tty, bus_type := R56_BUS_TYPE_PCI, params := default_params, max_frame_size := 4096,
     num_tx_dma_buffers := 1, num_tx_holding_buffers := 2, tx_holding_buffers := replicate 5 zero_holding_buffer \<rparr>,
     env = lab_env, trace = [], mem = (\<lambda>_. 0) \<rparr>"

lemma lab_clock: "clock_ok lab_env"
  unfolding clock_ok_def
proof (intro allI exI impI)
  fix h es assume early: "all_early lab_env h es"
  have "Call Time_after \<notin> set es"
  proof
    assume "Call Time_after \<in> set es"
    then obtain a b where "es = a @ Call Time_after # b" by (metis split_list)
    then have "os_ret lab_env (h @ a @ [Call Time_after]) = 0" using early unfolding all_early_def by blast
    then show False by (simp add: lab_env_def)
  qed
  moreover have "c \<in> set (call_of e) \<Longrightarrow> e = Call c" for c e by (cases e) auto
  ultimately have "Time_after \<notin> set (calls es)" by (auto simp: calls_def)
  then show "polls es < 1" by (simp add: polls_def filter_empty_conv) metis
qed

lemma closed_example_closed: "closed (info closed_example)"
  by (simp add: closed_example_def closed_def configured_def released_def zero_info_def nth_Cons' zero_holding_buffer_def)

lemma lab_conditions: "clock_ok (env closed_example)" "dma_ok (env closed_example)" "sleep_ok (\<lambda>w. w)"
  using lab_clock by (simp_all add: closed_example_def dma_ok_def sleep_ok_def) (simp add: lab_env_def)




subsection \<open>Shutdown and new parameters\<close>

lemma releasable_core: "driver_core i = driver_core j \<Longrightarrow> releasable i = releasable j"
  unfolding releasable_def by (simp only: driver_core_fields [of i j])

lemma shutdown_total:
  assumes rel: "releasable (info w)" and open_dev: "tst (port_flags (info w)) ASYNC_INITIALIZED"
  shows "\<exists>w'. shutdown w = Some w' \<and> released (info w') \<and> \<not> tst (port_flags (info w')) ASYNC_INITIALIZED \<and>
    xmit_buf (info w') = None"
proof -
  define w1 where "w1 = del_timer (kcall (Wake_up_interruptible Event_wait_q) (kcall (Wake_up_interruptible Status_event_wait_q) w))"
  define w2 where "w2 = (if xmit_buf (info w1) \<noteq> None
      then set_info (xmit_buf_update (\<lambda>_. None)) (kcall Free_page w1) else w1)"
  define w3 where "w3 = usc_stop_transmitter (usc_stop_receiver (usc_DisableMasterIrqBit w2))"
  define w4 where "w4 = usc_rmw (usc_rmw (usc_DisableDmaInterrupts (usc_DisableInterrupts w3 (RECEIVE_DATA + RECEIVE_STATUS +
      TRANSMIT_DATA + TRANSMIT_STATUS + IO_PIN + MISC)) (DICR_MASTER + DICR_TRANSMIT + DICR_RECEIVE))
      PCR (\<lambda>v. (v OR BIT15) OR BIT14)) PCR (\<lambda>v. (v OR BIT13) OR BIT12)"
  define w5 where "w5 = (if (case port_tty (info w4) of None \<Rightarrow> True | Some tty \<Rightarrow> tst (c_cflag tty) HUPCL)
      then usc_set_serial_signals (set_info (serial_signals_update
             (\<lambda>s. s AND NOT (SerialSignal_DTR + SerialSignal_RTS))) w4) else w4)"
  have 2: "releasable (info w2)" "xmit_buf (info w2) = None"
    using rel by (simp_all add: w2_def w1_def del_timer_def releasable_def)
  have c3: "driver_core (info w3) = driver_core (info w2)" by (simp only: w3_def driver_core_stop info_usc_macros)
  have 3: "releasable (info w3)" "xmit_buf (info w3) = None"
    using 2 by (simp_all only: releasable_core [OF c3] driver_core_fields(11) [OF c3])
  have i4: "info w4 = info w3" unfolding w4_def by (simp only: info_usc_macros usc_rmw_frame)
  have "releasable (info w5)" "xmit_buf (info w5) = None"
    using 3 unfolding w5_def by (simp_all add: releasable_def i4)
  from release_total [OF this(1)] this(2) obtain w6 where w6: "r56_release_resources w5 = Some w6" "released (info w6)"
    "res_only w5 w6" "xmit_buf (info w5) = None" by blast
  have "xmit_buf (info w6) = None" using w6(3,4) but_res_fields(6) [of "info w6" "info w5"] by (simp add: res_only_def)
  moreover have "shutdown w = Some (set_info (port_flags_update (\<lambda>f. f AND NOT ASYNC_INITIALIZED))
      (set_tty_flag (\<lambda>f. f OR TTY_IO_ERROR_bit) w6))"
    using open_dev w6(1) unfolding shutdown_def Let_def w5_def w4_def w3_def w2_def w1_def by simp
  moreover have "\<not> tst (x AND NOT ASYNC_INITIALIZED) ASYNC_INITIALIZED" for x :: u32
    by (simp add: tst_def and.assoc)
  ultimately show ?thesis using w6(2) by (simp add: set_tty_flag_def released_def)
qed

lemma set_params_total:
  assumes inv: "drv_inv (info w)" and hold: "mode p = R56_MODE_ASYNC \<longrightarrow> tx_holding_count (info w) = 0"
  shows "\<exists>w'. r56_set_params (Some p) w = Some (0, w') \<and> drv_inv (info w') \<and> mode (params (info w')) = mode p \<and>
    pending_bh (info w') = pending_bh (info w) \<and> bh_running (info w') = bh_running (info w) \<and>
    bh_requested (info w') = bh_requested (info w)"
proof -
  define w1 where "w1 = set_params (\<lambda>_. p) w"
  have "drv_inv (xmit_cleared (info w1))"
    using inv hold by (simp add: w1_def xmit_cleared_def drv_inv_parts)
  from change_params_cleared [OF this] show ?thesis by (auto simp: r56_set_params_def w1_def)
qed


definition initialised_example :: world where
  "initialised_example = set_info (port_flags_update (\<lambda>_. ASYNC_INITIALIZED)) open_example"

lemma initialised_example_ok:
  "drv_inv (info initialised_example)" "tst (port_flags (info initialised_example)) ASYNC_INITIALIZED"
  using open_example_inv by (simp_all add: initialised_example_def drv_inv_parts tst_def)




end
