(* ===== verification/R56_Tty.thy ===== *)
theory R56_Tty
  imports R56_Init
begin

text \<open>
  The terminal operations of \<open>driver/route56.c\<close>: start and stop, throttling, modem control,
  waiting for events, \<open>ioctl\<close>, \<open>set_termios\<close>, opening, closing and hanging up.

  The terminal an operation is called with is the one of the port, \<open>port_tty\<close>, unless the
  operation is the one that sets it. What happens while a task sleeps (interrupts, the bottom
  half) is the parameter \<open>sleep\<close>; the answers of \<open>signal_pending\<close>,
  \<open>tty_hung_up_p\<close> and the clock are the kernel's. A task that sleeps forever has no result.
\<close>

subsection \<open>Flow control\<close>

definition r56_stop :: "world \<Rightarrow> world" where
  "r56_stop w = (if tx_enabled (info w) then usc_stop_transmitter w else w)"

definition r56_start :: "world \<Rightarrow> world option" where
  "r56_start w = (if \<not> tx_enabled (info w) then usc_start_transmitter w else Some w)"

definition r56_throttle :: "tty_struct \<Rightarrow> world \<Rightarrow> world option" where
  "r56_throttle tty w =
    do { w \<leftarrow> (if tst (c_iflag tty) IXOFF then r56_send_xchar (stop_char tty) w else Some w);
         Some (if tst (c_cflag tty) CRTSCTS
               then usc_set_serial_signals
                      (set_info (serial_signals_update (\<lambda>s. s AND NOT SerialSignal_RTS)) w)
               else w) }"

definition r56_unthrottle :: "tty_struct \<Rightarrow> world \<Rightarrow> world option" where
  "r56_unthrottle tty w =
    do { w \<leftarrow> (if tst (c_iflag tty) IXOFF
               then if x_char (info w) \<noteq> 0 then Some (set_info (x_char_update (\<lambda>_. 0)) w)
                    else r56_send_xchar (start_char tty) w
               else Some w);
         Some (if tst (c_cflag tty) CRTSCTS
               then usc_set_serial_signals
                      (set_info (serial_signals_update (\<lambda>s. s OR SerialSignal_RTS)) w)
               else w) }"

subsection \<open>Modem lines\<close>

definition tiocmget :: "world \<Rightarrow> u32 \<times> world" where
  "tiocmget w =
    (let w = usc_get_serial_signals w;
         s = serial_signals (info w)
     in ((if tst s SerialSignal_RTS then TIOCM_RTS else 0) +
         (if tst s SerialSignal_DTR then TIOCM_DTR else 0) +
         (if tst s SerialSignal_DCD then TIOCM_CAR else 0) +
         (if tst s SerialSignal_RI then TIOCM_RNG else 0) +
         (if tst s SerialSignal_DSR then TIOCM_DSR else 0) +
         (if tst s SerialSignal_CTS then TIOCM_CTS else 0), w))"

definition tiocmset_signals :: "u32 \<Rightarrow> u32 \<Rightarrow> u8 \<Rightarrow> u8" where
  "tiocmset_signals setting clear s =
    (let s = (if tst setting TIOCM_RTS then s OR SerialSignal_RTS else s);
         s = (if tst setting TIOCM_DTR then s OR SerialSignal_DTR else s);
         s = (if tst clear TIOCM_RTS then s AND NOT SerialSignal_RTS else s)
     in if tst clear TIOCM_DTR then s AND NOT SerialSignal_DTR else s)"

definition tiocmset :: "u32 \<Rightarrow> u32 \<Rightarrow> world \<Rightarrow> int \<times> world" where
  "tiocmset setting clear w =
     (0, usc_set_serial_signals (set_info (serial_signals_update (tiocmset_signals setting clear)) w))"

definition r56_break :: "int \<Rightarrow> world \<Rightarrow> int \<times> world" where
  "r56_break break_state w =
     (0, if break_state = - 1 then usc_rmw w IOCR (\<lambda>v. v OR BIT7) else usc_rmw w IOCR (\<lambda>v. v AND NOT BIT7))"

definition carrier_raised :: "world \<Rightarrow> bool \<times> world" where
  "carrier_raised w =
    (let w = usc_get_serial_signals w in (tst (serial_signals (info w)) SerialSignal_DCD, w))"

definition dtr_rts :: "bool \<Rightarrow> world \<Rightarrow> world" where
  "dtr_rts on w =
     usc_set_serial_signals (set_info (serial_signals_update
       (\<lambda>s. if on then s OR (SerialSignal_RTS + SerialSignal_DTR)
            else s AND NOT (SerialSignal_RTS + SerialSignal_DTR))) w)"

text \<open>The counters copied to the kernel's \<open>serial_icounter_struct\<close>.\<close>

definition r56_get_icount :: "world \<Rightarrow> int \<times> (u32 list)" where
  "r56_get_icount w =
    (let cnow = icount (info w)
     in (0, [ic_cts cnow, ic_dsr cnow, ic_rng cnow, ic_dcd cnow, ic_rx cnow, ic_tx cnow, ic_frame cnow,
             ic_overrun cnow, ic_parity cnow, ic_brk cnow, ic_buf_overrun cnow]))"

subsection \<open>Waiting for events\<close>

definition signal_events :: "u8 \<Rightarrow> u32" where
  "signal_events s =
     (if tst s SerialSignal_DSR then Rt56Event_DsrActive else Rt56Event_DsrInactive) +
     (if tst s SerialSignal_DCD then Rt56Event_DcdActive else Rt56Event_DcdInactive) +
     (if tst s SerialSignal_CTS then Rt56Event_CtsActive else Rt56Event_CtsInactive) +
     (if tst s SerialSignal_RI then Rt56Event_RiActive else Rt56Event_RiInactive)"

definition no_change :: "r56_icount \<times> input_signal_events \<Rightarrow> r56_icount \<times> input_signal_events \<Rightarrow> bool" where
  "no_change prev now =
    (case (prev, now) of ((cprev, oldsigs), (cnow, newsigs)) \<Rightarrow>
       newsigs = oldsigs \<and> ic_exithunt cnow = ic_exithunt cprev \<and> ic_rxidle cnow = ic_rxidle cprev)"

definition changed_events :: "r56_icount \<times> input_signal_events \<Rightarrow> r56_icount \<times> input_signal_events \<Rightarrow> u32" where
  "changed_events prev now =
    (case (prev, now) of ((cprev, oldsigs), (cnow, newsigs)) \<Rightarrow>
       (if dsr_up newsigs \<noteq> dsr_up oldsigs then Rt56Event_DsrActive else 0) +
       (if dsr_down newsigs \<noteq> dsr_down oldsigs then Rt56Event_DsrInactive else 0) +
       (if dcd_up newsigs \<noteq> dcd_up oldsigs then Rt56Event_DcdActive else 0) +
       (if dcd_down newsigs \<noteq> dcd_down oldsigs then Rt56Event_DcdInactive else 0) +
       (if cts_up newsigs \<noteq> cts_up oldsigs then Rt56Event_CtsActive else 0) +
       (if cts_down newsigs \<noteq> cts_down oldsigs then Rt56Event_CtsInactive else 0) +
       (if ri_up newsigs \<noteq> ri_up oldsigs then Rt56Event_RiActive else 0) +
       (if ri_down newsigs \<noteq> ri_down oldsigs then Rt56Event_RiInactive else 0) +
       (if ic_exithunt cnow \<noteq> ic_exithunt cprev then Rt56Event_ExitHuntMode else 0) +
       (if ic_rxidle cnow \<noteq> ic_rxidle cprev then Rt56Event_IdleReceived else 0))"

partial_function (option) wait_event_loop ::
  "(world \<Rightarrow> world) \<Rightarrow> u32 \<Rightarrow> r56_icount \<times> input_signal_events \<Rightarrow> world \<Rightarrow> (int \<times> u32 \<times> world) option" where
  [code]: "wait_event_loop sleep m prev w =
    (let w = sleep (kcall Schedule w);
         (sig, w) = ask Signal_pending w
     in if sig \<noteq> 0 then Some (- ERESTARTSYS, 0, w)
        else let now = (icount (info w), sig_events (info w))
             in if no_change prev now then Some (- EIO, 0, w)
                else let events = m AND changed_events prev now
                     in if events \<noteq> 0 then Some (0, events, w) else wait_event_loop sleep m now w)"

abbreviation (input) Rt56Event_Hunt_Idle :: u32 where
  "Rt56Event_Hunt_Idle \<equiv> Rt56Event_ExitHuntMode + Rt56Event_IdleReceived"

text \<open>Enabling and disabling the interrupts of the hunt and idle events.\<close>

definition hunt_idle_irqs :: "u32 \<Rightarrow> world \<Rightarrow> world" where
  "hunt_idle_irqs m w =
    (if tst m Rt56Event_Hunt_Idle
     then let (oldreg, w) = usc_InReg w RICR;
              newreg = oldreg + (if tst m Rt56Event_ExitHuntMode then RXSTATUS_EXITED_HUNT else 0) +
                       (if tst m Rt56Event_IdleReceived then RXSTATUS_IDLE_RECEIVED else 0)
          in if oldreg \<noteq> newreg then usc_OutReg w RICR newreg else w
     else w)"

definition hunt_idle_off :: "u32 \<Rightarrow> world \<Rightarrow> world" where
  "hunt_idle_off m w =
    (if tst m Rt56Event_Hunt_Idle
     then let (active, w) = ask (Waitqueue_active Event_wait_q) w
          in if active = 0 then usc_rmw w RICR (\<lambda>v. v AND NOT (RXSTATUS_EXITED_HUNT + RXSTATUS_IDLE_RECEIVED))
             else w
     else w)"

text \<open>\<open>mask_ptr\<close> is what the user's mask reads as, \<open>put\<close> whether the result can be stored.\<close>

definition r56_wait_event ::
  "(world \<Rightarrow> world) \<Rightarrow> u32 option \<Rightarrow> bool \<Rightarrow> world \<Rightarrow> (int \<times> u32 option \<times> world) option" where
  "r56_wait_event sleep mask_ptr put w =
    (case mask_ptr of
       None \<Rightarrow> Some (- EFAULT, None, w)
     | Some m \<Rightarrow>
         let w = usc_get_serial_signals w;
             events = m AND signal_events (serial_signals (info w))
         in do { (rc, events, w) \<leftarrow>
                   (if events \<noteq> 0 then Some (0, events, w)
                    else let prev = (icount (info w), sig_events (info w));
                             w = hunt_idle_irqs m w;
                             w = kcall (Add_wait_queue Event_wait_q) w
                         in do { (rc, events, w) \<leftarrow> wait_event_loop sleep m prev w;
                                 let w = kcall (Remove_wait_queue Event_wait_q) w
                                 in Some (rc, events, hunt_idle_off m w) });
                 Some (if rc = 0 then if put then (0, Some events, w) else (- EFAULT, None, w)
                       else (rc, None, w)) })"

partial_function (option) modem_wait_loop :: "(world \<Rightarrow> world) \<Rightarrow> u32 \<Rightarrow> r56_icount \<Rightarrow> world \<Rightarrow> (int \<times> world) option" where
  [code]: "modem_wait_loop sleep arg cprev w =
    (let w = sleep (kcall Schedule w);
         (sig, w) = ask Signal_pending w
     in if sig \<noteq> 0 then Some (- ERESTARTSYS, w)
        else let cnow = icount (info w)
             in if ic_rng cnow = ic_rng cprev \<and> ic_dsr cnow = ic_dsr cprev \<and>
                   ic_dcd cnow = ic_dcd cprev \<and> ic_cts cnow = ic_cts cprev
                then Some (- EIO, w)
                else if tst arg TIOCM_RNG \<and> ic_rng cnow \<noteq> ic_rng cprev \<or>
                        tst arg TIOCM_DSR \<and> ic_dsr cnow \<noteq> ic_dsr cprev \<or>
                        tst arg TIOCM_CAR \<and> ic_dcd cnow \<noteq> ic_dcd cprev \<or>
                        tst arg TIOCM_CTS \<and> ic_cts cnow \<noteq> ic_cts cprev
                then Some (0, w)
                else modem_wait_loop sleep arg cnow w)"

definition modem_input_wait :: "(world \<Rightarrow> world) \<Rightarrow> u32 \<Rightarrow> world \<Rightarrow> (int \<times> world) option" where
  "modem_input_wait sleep arg w =
    do { (rc, w) \<leftarrow> modem_wait_loop sleep arg (icount (info w)) (kcall (Add_wait_queue Status_event_wait_q) w);
         Some (rc, kcall (Remove_wait_queue Status_event_wait_q) w) }"

subsection \<open>Requests\<close>

text \<open>The requests with what the user passes, and what is copied back.\<close>

datatype ioctl_request =
    R56_IOCGPARAMS bool | R56_IOCSPARAMS "R56_PARAMS option" | R56_IOCGTXIDLE bool | R56_IOCSTXIDLE u32
  | R56_IOCTXENABLE u32 | R56_IOCRXENABLE u32 | R56_IOCTXABORT | R56_IOCGSTATS "bool option"
  | R56_IOCWAITEVENT "u32 option" bool | R56_IOCLOOPTXDONE | TIOCMIWAIT u32 | TIOCGSERIAL | TIOCSSERIAL
  | Other_request

datatype ioctl_data = No_data | Params_data R56_PARAMS | Idle_data u32 | Stats_data r56_icount | Event_data u32

definition r56_ioctl_common ::
  "(world \<Rightarrow> world) \<Rightarrow> ioctl_request \<Rightarrow> world \<Rightarrow> (int \<times> ioctl_data \<times> world) option" where
  "r56_ioctl_common sleep cmd w =
    (case cmd of
       R56_IOCGPARAMS ok \<Rightarrow>
         let (rc, p) = r56_get_params ok w
         in Some (rc, case p of None \<Rightarrow> No_data | Some p \<Rightarrow> Params_data p, w)
     | R56_IOCSPARAMS p \<Rightarrow> do { (rc, w) \<leftarrow> r56_set_params p w; Some (rc, No_data, w) }
     | R56_IOCGTXIDLE ok \<Rightarrow>
         let (rc, m) = r56_get_txidle ok w
         in Some (rc, case m of None \<Rightarrow> No_data | Some m \<Rightarrow> Idle_data m, w)
     | R56_IOCSTXIDLE m \<Rightarrow> let (rc, w) = r56_set_txidle m w in Some (rc, No_data, w)
     | R56_IOCTXENABLE a \<Rightarrow> do { (rc, w) \<leftarrow> r56_txenable (a \<noteq> 0) w; Some (rc, No_data, w) }
     | R56_IOCRXENABLE a \<Rightarrow> do { (rc, w) \<leftarrow> r56_rxenable (a \<noteq> 0) w; Some (rc, No_data, w) }
     | R56_IOCTXABORT \<Rightarrow> let (rc, w) = r56_txabort w in Some (rc, No_data, w)
     | R56_IOCGSTATS ok \<Rightarrow>
         let (rc, c, w) = r56_get_stats ok w
         in Some (rc, case c of None \<Rightarrow> No_data | Some c \<Rightarrow> Stats_data c, w)
     | R56_IOCWAITEVENT m put \<Rightarrow>
         do { (rc, e, w) \<leftarrow> r56_wait_event sleep m put w;
              Some (rc, case e of None \<Rightarrow> No_data | Some e \<Rightarrow> Event_data e, w) }
     | R56_IOCLOOPTXDONE \<Rightarrow> let (rc, w) = r56_loopmode_send_done w in Some (rc, No_data, w)
     | TIOCMIWAIT a \<Rightarrow> do { (rc, w) \<leftarrow> modem_input_wait sleep a w; Some (rc, No_data, w) }
     | _ \<Rightarrow> Some (- ENOIOCTLCMD, No_data, w))"

definition r56_ioctl ::
  "(world \<Rightarrow> world) \<Rightarrow> tty_struct \<Rightarrow> ioctl_request \<Rightarrow> world \<Rightarrow> (int \<times> ioctl_data \<times> world) option" where
  "r56_ioctl sleep tty cmd w =
    (let exempt = (case cmd of TIOCGSERIAL \<Rightarrow> True | TIOCSSERIAL \<Rightarrow> True | TIOCMIWAIT _ \<Rightarrow> True | _ \<Rightarrow> False)
     in if \<not> exempt \<and> tst (tty_flags tty) TTY_IO_ERROR_bit then Some (- EIO, No_data, w)
        else r56_ioctl_common sleep cmd w)"

definition r56_set_termios :: "u32 \<Rightarrow> world \<Rightarrow> world option" where
  "r56_set_termios old_cflag w =
    do { w \<leftarrow> r56_change_params w;
         tty \<leftarrow> port_tty (info w);
         let w = (if tst old_cflag CBAUD \<and> \<not> tst (c_cflag tty) CBAUD
                  then usc_set_serial_signals (set_info (serial_signals_update
                         (\<lambda>s. s AND NOT (SerialSignal_RTS + SerialSignal_DTR))) w)
                  else w);
             w = (if \<not> tst old_cflag CBAUD \<and> tst (c_cflag tty) CBAUD
                  then let w = set_info (serial_signals_update (\<lambda>s. s OR SerialSignal_DTR)) w;
                           w = (if \<not> tst (c_cflag tty) CRTSCTS \<or> \<not> tst (tty_flags tty) TTY_THROTTLED_bit
                                then set_info (serial_signals_update (\<lambda>s. s OR SerialSignal_RTS)) w else w)
                       in usc_set_serial_signals w
                  else w)
         in if tst old_cflag CRTSCTS \<and> \<not> tst (c_cflag tty) CRTSCTS
            then r56_start (set_info (port_tty_update (\<lambda>_. Some (tty\<lparr> hw_stopped := False \<rparr>))) w)
            else Some w }"

subsection \<open>Opening and closing\<close>

text \<open>The condition of the polling loop of \<open>r56_wait_until_sent\<close>.\<close>

definition unsent :: "world \<Rightarrow> bool \<times> world" where
  "unsent w =
    (if sync_mode (info w) then (tx_active (info w), w)
     else let (v, w) = usc_InReg w TCSR in (\<not> tst v TXSTATUS_ALL_SENT \<and> tx_enabled (info w), w))"

partial_function (option) wait_sent_loop :: "(world \<Rightarrow> world) \<Rightarrow> int \<Rightarrow> world \<Rightarrow> world option" where
  [code]: "wait_sent_loop sleep tmo w =
    (let (c, w) = unsent w
     in if \<not> c then Some w
        else let w = sleep (kcall Msleep w);
                 (sig, w) = ask Signal_pending w
             in if sig \<noteq> 0 then Some w
                else if tmo \<noteq> 0
                     then let (late, w) = time_after w
                          in if late then Some w else wait_sent_loop sleep tmo w
                     else wait_sent_loop sleep tmo w)"

definition r56_wait_until_sent :: "(world \<Rightarrow> world) \<Rightarrow> int \<Rightarrow> world \<Rightarrow> world option" where
  "r56_wait_until_sent sleep tmo w =
    (if tst (port_flags (info w)) ASYNC_INITIALIZED then wait_sent_loop sleep tmo w else Some w)"

text \<open>
  \<open>close_start\<close> and \<open>close_end\<close> are the kernel's \<open>tty_port_close_start\<close> and
  \<open>tty_port_close_end\<close>.
\<close>

definition r56_close ::
  "(world \<Rightarrow> world) \<Rightarrow> (world \<Rightarrow> bool \<times> world) \<Rightarrow> (world \<Rightarrow> world) \<Rightarrow> world \<Rightarrow> world option" where
  "r56_close sleep close_start close_end w =
    (let (last, w) = close_start (kcall Tty_port_close_start w)
     in if \<not> last then Some w
        else do { w \<leftarrow> (if tst (port_flags (info w)) ASYNC_INITIALIZED
                        then r56_wait_until_sent sleep (timeout (info w)) w else Some w);
                  let w = r56_flush_buffer w;
                      w = kcall Tty_ldisc_flush w
                  in do { w \<leftarrow> shutdown w;
                          let w = close_end (kcall Tty_port_close_end w)
                          in Some (set_info (port_tty_update (\<lambda>_. None)) w) } })"

definition r56_hangup :: "world \<Rightarrow> world option" where
  "r56_hangup w =
    do { w \<leftarrow> shutdown (r56_flush_buffer w);
         let w = set_info (\<lambda>i. i\<lparr> port_count := 0, port_flags := port_flags i AND NOT ASYNC_NORMAL_ACTIVE,
                                  port_tty := None \<rparr>) w
         in Some (kcall (Wake_up_interruptible Open_wait_q) w) }"

text \<open>
  The terminal that an open in progress was called with: the one of the port, unless a hang-up has
  taken that away meanwhile.
\<close>

definition current_tty :: "tty_struct \<Rightarrow> world \<Rightarrow> tty_struct" where
  "current_tty tty w = (case port_tty (info w) of None \<Rightarrow> tty | Some t \<Rightarrow> t)"

text \<open>The loop that waits for the carrier; the result is the error code or 0.\<close>

partial_function (option) open_wait_loop ::
  "(world \<Rightarrow> world) \<Rightarrow> bool \<Rightarrow> tty_struct \<Rightarrow> world \<Rightarrow> (int \<times> world) option" where
  [code]: "open_wait_loop sleep do_clocal tty w =
    (let w = (if tst (c_cflag (current_tty tty w)) CBAUD then dtr_rts True w else w);
         (hup, w) = ask Tty_hung_up_p w
     in if hup \<noteq> 0 \<or> \<not> tst (port_flags (info w)) ASYNC_INITIALIZED
        then Some (if tst (port_flags (info w)) ASYNC_HUP_NOTIFY then - EAGAIN else - ERESTARTSYS, w)
        else let (dcd, w) = carrier_raised w
             in if \<not> tst (port_flags (info w)) ASYNC_CLOSING \<and> (do_clocal \<or> dcd) then Some (0, w)
                else let (sig, w) = ask Signal_pending w
                     in if sig \<noteq> 0 then Some (- ERESTARTSYS, w)
                        else open_wait_loop sleep do_clocal tty (sleep (kcall Schedule w)))"

definition block_til_ready :: "(world \<Rightarrow> world) \<Rightarrow> bool \<Rightarrow> tty_struct \<Rightarrow> world \<Rightarrow> (int \<times> world) option" where
  "block_til_ready sleep nonblock tty w =
    (if nonblock \<or> tst (tty_flags tty) TTY_IO_ERROR_bit
     then Some (0, set_info (port_flags_update (\<lambda>f. f OR ASYNC_NORMAL_ACTIVE)) w)
     else let w = kcall (Add_wait_queue Open_wait_q) w;
              (hup, w) = ask Tty_hung_up_p w;
              extra_count = (hup = 0);
              w = (if extra_count then set_info (port_count_update (\<lambda>n. n - 1)) w else w);
              w = set_info (port_blocked_open_update (\<lambda>n. n + 1)) w
          in do { (retval, w) \<leftarrow> open_wait_loop sleep (tst (c_cflag tty) CLOCAL) tty w;
                  let w = kcall (Remove_wait_queue Open_wait_q) w;
                      w = (if extra_count then set_info (port_count_update (\<lambda>n. n + 1)) w else w);
                      w = set_info (port_blocked_open_update (\<lambda>n. n - 1)) w
                  in Some (retval, if retval = 0
                                   then set_info (port_flags_update (\<lambda>f. f OR ASYNC_NORMAL_ACTIVE)) w
                                   else w) })"

text \<open>The label \<open>cleanup\<close>.\<close>

definition open_cleanup :: "int \<Rightarrow> int \<Rightarrow> world \<Rightarrow> int \<times> world" where
  "open_cleanup tty_count retval w =
    (retval,
     if retval \<noteq> 0
     then let w = (if tty_count = 1 then set_info (port_tty_update (\<lambda>_. None)) w else w)
          in if port_count (info w) \<noteq> 0 then set_info (port_count_update (\<lambda>n. n - 1)) w else w
     else w)"

text \<open>\<open>tty_count\<close> is the count of the terminal structure.\<close>

definition r56_open ::
  "(world \<Rightarrow> world) \<Rightarrow> bool \<Rightarrow> int \<Rightarrow> tty_struct \<Rightarrow> world \<Rightarrow> (int \<times> world) option" where
  "r56_open sleep nonblock tty_count tty w =
    (let w = set_info (port_tty_update (\<lambda>_. Some tty)) w;
         (hup, w) = ask Tty_hung_up_p w
     in if hup \<noteq> 0 \<or> tst (port_flags (info w)) ASYNC_CLOSING
        then let w = (if tst (port_flags (info w)) ASYNC_CLOSING
                      then sleep (kcall Interruptible_sleep_on w) else w)
             in Some (open_cleanup tty_count
                        (if tst (port_flags (info w)) ASYNC_HUP_NOTIFY then - EAGAIN else - ERESTARTSYS) w)
        else if netcount (info w) \<noteq> 0 then Some (open_cleanup tty_count (- EBUSY) w)
        else let w = set_info (port_count_update (\<lambda>n. n + 1)) w
             in do { (retval, w) \<leftarrow> (if port_count (info w) = 1 then startup sleep w else Some (0, w));
                     if retval < 0 then Some (open_cleanup tty_count retval w)
                     else do { (retval, w) \<leftarrow> block_til_ready sleep nonblock (current_tty tty w) w;
                               Some (open_cleanup tty_count retval w) } })"

end
