(* ===== verification/R56_Net.thy ===== *)
theory R56_Net
  imports R56_Open R56_Tty
begin

text \<open>
  The network interface of the driver (\<open>hdlcdev_\<close> routines), compiled with \<open>R56_GENERIC_HDLC\<close>: an adapter can be
  used as a network device below the kernel's generic HDLC layer instead of as a terminal.

  The routines are modelled over a device instance together with its \<open>net_device\<close>. The calls into the
  network and HDLC layers are recorded in order and answered by a function of the calls made before. None stands, as
  before, for following a null pointer.
\<close>

subsection \<open>State\<close>

text \<open>The kernel's counters for a network device, as far as the driver changes them.\<close>

record net_stats =
  ns_tx_packets :: u64
  ns_tx_bytes :: u64
  ns_tx_errors :: u64
  ns_tx_aborted_errors :: u64
  ns_rx_packets :: u64
  ns_rx_bytes :: u64
  ns_rx_errors :: u64
  ns_rx_frame_errors :: u64
  ns_rx_dropped :: u64

record net_device =
  dev_stats :: net_stats
  queue_stopped :: bool
  dev_carrier :: bool

datatype ncall =
    Hdlc_open | Hdlc_close | Hdlc_ioctl
  | Netif_start_queue | Netif_stop_queue | Netif_wake_queue | Netif_carrier_on | Netif_carrier_off
  | Dev_alloc_skb int | Netif_rx "u8 list" | Dev_kfree_skb
  | Alloc_hdlcdev | Register_hdlc_device | Unregister_hdlc_device | Free_netdev

text \<open>The instance in its world, and \<open>info->netdev\<close>.\<close>

record net =
  nworld :: world
  netdev :: "net_device option"
  ncalls :: "ncall list"
  nret :: "ncall list \<Rightarrow> int"

definition zero_stats :: net_stats where
  "zero_stats =
     \<lparr> ns_tx_packets = 0, ns_tx_bytes = 0, ns_tx_errors = 0, ns_tx_aborted_errors = 0, ns_rx_packets = 0, ns_rx_bytes = 0,
       ns_rx_errors = 0, ns_rx_frame_errors = 0, ns_rx_dropped = 0 \<rparr>"

definition ncall :: "ncall \<Rightarrow> net \<Rightarrow> int \<times> net" where
  "ncall c n = (let cs = ncalls n @ [c] in (nret n cs, n\<lparr> ncalls := cs \<rparr>))"

definition ncall_only :: "ncall \<Rightarrow> net \<Rightarrow> net" where
  "ncall_only c n = snd (ncall c n)"

definition ninfo :: "net \<Rightarrow> r56_struct" where
  "ninfo n = info (nworld n)"

definition set_ninfo :: "(r56_struct \<Rightarrow> r56_struct) \<Rightarrow> net \<Rightarrow> net" where
  "set_ninfo f n = n\<lparr> nworld := set_info f (nworld n) \<rparr>"

text \<open>A change of the device that the kernel calls the driver for, or of \<open>info->netdev\<close>.\<close>

definition set_dev :: "(net_device \<Rightarrow> net_device) \<Rightarrow> net \<Rightarrow> net" where
  "set_dev f n = n\<lparr> netdev := map_option f (netdev n) \<rparr>"

definition netif_start_queue :: "net \<Rightarrow> net" where
  "netif_start_queue n = set_dev (queue_stopped_update (\<lambda>_. False)) (ncall_only Netif_start_queue n)"

definition netif_stop_queue :: "net \<Rightarrow> net" where
  "netif_stop_queue n = set_dev (queue_stopped_update (\<lambda>_. True)) (ncall_only Netif_stop_queue n)"

definition netif_wake_queue :: "net \<Rightarrow> net" where
  "netif_wake_queue n = set_dev (queue_stopped_update (\<lambda>_. False)) (ncall_only Netif_wake_queue n)"

definition netif_carrier :: "bool \<Rightarrow> net \<Rightarrow> net" where
  "netif_carrier on n =
     set_dev (dev_carrier_update (\<lambda>_. on)) (ncall_only (if on then Netif_carrier_on else Netif_carrier_off) n)"

text \<open>A routine of the driver on the instance.\<close>

definition on_world :: "(world \<Rightarrow> world option) \<Rightarrow> net \<Rightarrow> net option" where
  "on_world f n = do { w \<leftarrow> f (nworld n); Some (n\<lparr> nworld := w \<rparr>) }"

subsection \<open>Line settings\<close>

datatype line_encoding =
  ENCODING_NRZ | ENCODING_NRZI | ENCODING_FM_MARK | ENCODING_FM_SPACE | ENCODING_MANCHESTER | ENCODING_other

datatype line_parity = PARITY_NONE | PARITY_CRC16_PR1_CCITT | PARITY_CRC32_PR1_CCITT | PARITY_other

definition new_encoding :: "line_encoding \<Rightarrow> u8 option" where
  "new_encoding e =
    (case e of
       ENCODING_NRZ \<Rightarrow> Some HDLC_ENCODING_NRZ
     | ENCODING_NRZI \<Rightarrow> Some HDLC_ENCODING_NRZI_SPACE
     | ENCODING_FM_MARK \<Rightarrow> Some HDLC_ENCODING_BIPHASE_MARK
     | ENCODING_FM_SPACE \<Rightarrow> Some HDLC_ENCODING_BIPHASE_SPACE
     | ENCODING_MANCHESTER \<Rightarrow> Some HDLC_ENCODING_BIPHASE_LEVEL
     | ENCODING_other \<Rightarrow> None)"

definition new_crctype :: "line_parity \<Rightarrow> u16 option" where
  "new_crctype p =
    (case p of
       PARITY_NONE \<Rightarrow> Some HDLC_CRC_NONE
     | PARITY_CRC16_PR1_CCITT \<Rightarrow> Some HDLC_CRC_16_CCITT
     | PARITY_CRC32_PR1_CCITT \<Rightarrow> Some HDLC_CRC_32_CCITT
     | PARITY_other \<Rightarrow> None)"

text \<open>\<open>if (info->netcount) r56_program_hw(info)\<close>\<close>

definition reprogram_if_up :: "net \<Rightarrow> net option" where
  "reprogram_if_up n = (if netcount (ninfo n) \<noteq> 0 then on_world r56_program_hw n else Some n)"

definition hdlcdev_attach :: "line_encoding \<Rightarrow> line_parity \<Rightarrow> net \<Rightarrow> (int \<times> net) option" where
  "hdlcdev_attach enc par n =
    (if port_count (ninfo n) \<noteq> 0 then Some (- EBUSY, n)
     else case new_encoding enc of
            None \<Rightarrow> Some (- EINVAL, n)
          | Some e \<Rightarrow>
              (case new_crctype par of
                 None \<Rightarrow> Some (- EINVAL, n)
               | Some c \<Rightarrow>
                   do { n \<leftarrow> reprogram_if_up (set_ninfo (params_update (\<lambda>p. p\<lparr> encoding := e, crc_type := c \<rparr>)) n);
                        Some (0, n) }))"

record sync_serial_settings =
  clock_rate :: u32
  clock_type :: u32
  line_loopback :: u16

abbreviation (input) CLOCK_DEFAULT :: u32 where "CLOCK_DEFAULT \<equiv> 0"
abbreviation (input) CLOCK_EXT :: u32 where "CLOCK_EXT \<equiv> 1"
abbreviation (input) CLOCK_INT :: u32 where "CLOCK_INT \<equiv> 2"
abbreviation (input) CLOCK_TXINT :: u32 where "CLOCK_TXINT \<equiv> 3"
abbreviation (input) CLOCK_TXFROMRX :: u32 where "CLOCK_TXFROMRX \<equiv> 4"
abbreviation (input) SYNC_SETTINGS_SIZE :: u32 where "SYNC_SETTINGS_SIZE \<equiv> 12"
abbreviation (input) ENOBUFS :: int where "ENOBUFS \<equiv> 105"
abbreviation (input) EPERM :: int where "EPERM \<equiv> 1"

text \<open>All flags that choose a clock.\<close>

definition clock_mask :: u16 where
  "clock_mask =
     HDLC_FLAG_RXC_RXCPIN OR HDLC_FLAG_RXC_DPLL OR HDLC_FLAG_RXC_BRG OR HDLC_FLAG_RXC_TXCPIN OR
     HDLC_FLAG_TXC_TXCPIN OR HDLC_FLAG_TXC_DPLL OR HDLC_FLAG_TXC_BRG OR HDLC_FLAG_TXC_RXCPIN"

definition clock_type_of :: "u16 \<Rightarrow> u32" where
  "clock_type_of f =
    (let c = f AND clock_mask
     in if c = HDLC_FLAG_RXC_RXCPIN OR HDLC_FLAG_TXC_TXCPIN then CLOCK_EXT
        else if c = HDLC_FLAG_RXC_BRG OR HDLC_FLAG_TXC_BRG then CLOCK_INT
        else if c = HDLC_FLAG_RXC_RXCPIN OR HDLC_FLAG_TXC_BRG then CLOCK_TXINT
        else if c = HDLC_FLAG_RXC_RXCPIN OR HDLC_FLAG_TXC_RXCPIN then CLOCK_TXFROMRX
        else CLOCK_DEFAULT)"

definition clock_flags :: "u32 \<Rightarrow> u16 \<Rightarrow> u16 option" where
  "clock_flags t f =
    (if t = CLOCK_EXT then Some (HDLC_FLAG_RXC_RXCPIN OR HDLC_FLAG_TXC_TXCPIN)
     else if t = CLOCK_TXFROMRX then Some (HDLC_FLAG_RXC_RXCPIN OR HDLC_FLAG_TXC_RXCPIN)
     else if t = CLOCK_INT then Some (HDLC_FLAG_RXC_BRG OR HDLC_FLAG_TXC_BRG)
     else if t = CLOCK_TXINT then Some (HDLC_FLAG_RXC_RXCPIN OR HDLC_FLAG_TXC_BRG)
     else if t = CLOCK_DEFAULT then Some (f AND clock_mask)
     else None)"

text \<open>
  The requests: reading the settings into a buffer of the given size (with a flag that says whether the copy succeeds),
  setting them (with the caller's right, and the data unless the copy fails), and those for the HDLC layer.
\<close>

datatype wan_request =
    IF_GET_IFACE u32 bool
  | IF_IFACE_SYNC_SERIAL bool "sync_serial_settings option"
  | IF_other
  | Not_SIOCWANDEV

definition get_settings :: "R56_PARAMS \<Rightarrow> sync_serial_settings" where
  "get_settings p =
     \<lparr> clock_rate = ucast (clock_speed p), clock_type = clock_type_of (flags p),
       line_loopback = (if loopback p \<noteq> 0 then 1 else 0) \<rparr>"

definition set_settings :: "sync_serial_settings \<Rightarrow> u16 \<Rightarrow> R56_PARAMS \<Rightarrow> R56_PARAMS" where
  "set_settings new_line fl p =
     p\<lparr> flags := (flags p AND NOT clock_mask) OR fl, loopback := ucast (line_loopback new_line),
        clock_speed := (if tst fl (HDLC_FLAG_RXC_BRG OR HDLC_FLAG_TXC_BRG) then ucast (clock_rate new_line) else 0) \<rparr>"

text \<open>The result, the size and settings that the user finds, and the state after the request.\<close>

definition hdlcdev_ioctl ::
  "wan_request \<Rightarrow> net \<Rightarrow> (int \<times> u32 option \<times> sync_serial_settings option \<times> net) option" where
  "hdlcdev_ioctl req n =
    (if port_count (ninfo n) \<noteq> 0 then Some (- EBUSY, None, None, n)
     else case req of
            Not_SIOCWANDEV \<Rightarrow> (let (rc, n) = ncall Hdlc_ioctl n in Some (rc, None, None, n))
          | IF_other \<Rightarrow> (let (rc, n) = ncall Hdlc_ioctl n in Some (rc, None, None, n))
          | IF_GET_IFACE sz ok \<Rightarrow>
              if sz < SYNC_SETTINGS_SIZE then Some (- ENOBUFS, Some SYNC_SETTINGS_SIZE, None, n)
              else if \<not> ok then Some (- EFAULT, Some sz, None, n)
              else Some (0, Some sz, Some (get_settings (params (ninfo n))), n)
          | IF_IFACE_SYNC_SERIAL admin data \<Rightarrow>
              if \<not> admin then Some (- EPERM, None, None, n)
              else (case data of
                      None \<Rightarrow> Some (- EFAULT, None, None, n)
                    | Some new_line \<Rightarrow>
                        (case clock_flags (clock_type new_line) (flags (params (ninfo n))) of
                           None \<Rightarrow> Some (- EINVAL, None, None, n)
                         | Some fl \<Rightarrow>
                             if line_loopback new_line \<noteq> 0 \<and> line_loopback new_line \<noteq> 1
                             then Some (- EINVAL, None, None, n)
                             else do { n \<leftarrow> reprogram_if_up (set_ninfo (params_update (set_settings new_line fl)) n);
                                       Some (0, None, None, n) })))"

subsection \<open>Up and down\<close>

text \<open>The part of \<open>hdlcdev_open\<close> after \<open>startup\<close>.\<close>

definition net_up :: "net \<Rightarrow> (int \<times> net) option" where
  "net_up n =
    do { n \<leftarrow> on_world r56_program_hw
                (set_ninfo (serial_signals_update (\<lambda>s. s OR (SerialSignal_RTS + SerialSignal_DTR))) n);
         n \<leftarrow> on_world (\<lambda>w. Some (usc_get_serial_signals w)) (netif_start_queue n);
         Some (0, netif_carrier (tst (serial_signals (ninfo n)) SerialSignal_DCD) n) }"

definition hdlcdev_open :: "(world \<Rightarrow> world) \<Rightarrow> net \<Rightarrow> (int \<times> net) option" where
  "hdlcdev_open sleep n =
    (let (rc, n) = ncall Hdlc_open n
     in if rc \<noteq> 0 then Some (rc, n)
        else if port_count (ninfo n) \<noteq> 0 \<or> netcount (ninfo n) \<noteq> 0 then Some (- EBUSY, n)
        else let n = set_ninfo (netcount_update (\<lambda>_. 1)) n
             in do { (rc, w) \<leftarrow> startup sleep (nworld n);
                     let n = n\<lparr> nworld := w \<rparr>
                     in if rc \<noteq> 0 then Some (rc, set_ninfo (netcount_update (\<lambda>_. 0)) n)
                        else net_up n })"

definition hdlcdev_close :: "net \<Rightarrow> (int \<times> net) option" where
  "hdlcdev_close n =
    do { n \<leftarrow> on_world shutdown (netif_stop_queue n);
         Some (0, set_ninfo (netcount_update (\<lambda>_. 0)) (ncall_only Hdlc_close n)) }"

subsection \<open>Frames\<close>

definition count_tx :: "nat \<Rightarrow> net_device \<Rightarrow> net_device" where
  "count_tx len = dev_stats_update (\<lambda>s. s\<lparr> ns_tx_packets := ns_tx_packets s + 1, ns_tx_bytes := ns_tx_bytes s + of_nat len \<rparr>)"

definition hdlcdev_xmit :: "u8 list \<Rightarrow> net \<Rightarrow> net option" where
  "hdlcdev_xmit skb n =
    (let n = netif_stop_queue n;
         n = set_ninfo (xmit_cnt_update (\<lambda>_. int (length skb))) n
     in do { n \<leftarrow> on_world (r56_load_tx_dma_buffer skb (of_nat (length skb))) n;
             let n = ncall_only Dev_kfree_skb (set_dev (count_tx (length skb)) n)
             in if \<not> tx_active (ninfo n) then on_world usc_start_transmitter n else Some n })"

definition hdlcdev_tx_timeout :: "net \<Rightarrow> net" where
  "hdlcdev_tx_timeout n =
    (let n = set_dev (dev_stats_update (\<lambda>s. s\<lparr> ns_tx_errors := ns_tx_errors s + 1,
                                              ns_tx_aborted_errors := ns_tx_aborted_errors s + 1 \<rparr>)) n;
         n = n\<lparr> nworld := usc_stop_transmitter (nworld n) \<rparr>
     in netif_wake_queue n)"

definition hdlcdev_tx_done :: "net \<Rightarrow> net option" where
  "hdlcdev_tx_done n = do { d \<leftarrow> netdev n; Some (if queue_stopped d then netif_wake_queue n else n) }"

text \<open>The first \<open>framesize\<close> bytes of the buffer go to the network layer, if there is memory for them.\<close>

definition hdlcdev_rx :: "u8 list \<Rightarrow> int \<Rightarrow> net \<Rightarrow> net option" where
  "hdlcdev_rx buf framesize n =
    (let (skb, n) = ncall (Dev_alloc_skb framesize) n
     in do { _ \<leftarrow> netdev n;
             if skb = 0 then Some (set_dev (dev_stats_update (\<lambda>s. s\<lparr> ns_rx_dropped := ns_rx_dropped s + 1 \<rparr>)) n)
             else if int (length buf) < framesize then None
             else let n = set_dev (dev_stats_update (\<lambda>s. s\<lparr> ns_rx_packets := ns_rx_packets s + 1,
                                                       ns_rx_bytes := ns_rx_bytes s + of_int framesize \<rparr>)) n
                  in Some (ncall_only (Netif_rx (take (nat framesize) buf)) n) })"

text \<open>What the handlers of the driver do besides when the interface is compiled in: a receive error, and a change of the
  carrier, whose pin is the bit of \<open>stat\<close>.\<close>

definition net_rx_error :: "net \<Rightarrow> net option" where
  "net_rx_error n =
    do { _ \<leftarrow> netdev n;
         Some (set_dev (dev_stats_update (\<lambda>s. s\<lparr> ns_rx_errors := ns_rx_errors s + 1,
                                                 ns_rx_frame_errors := ns_rx_frame_errors s + 1 \<rparr>)) n) }"

definition net_dcd_changed :: "u16 \<Rightarrow> net \<Rightarrow> net option" where
  "net_dcd_changed stat n =
    (if netcount (ninfo n) \<noteq> 0
     then do { _ \<leftarrow> netdev n; Some (netif_carrier (tst stat MISCSTATUS_DCD) n) }
     else Some n)"

subsection \<open>Adding and removing the device\<close>

definition hdlcdev_init :: "net \<Rightarrow> int \<times> net" where
  "hdlcdev_init n =
    (let (dev, n) = ncall Alloc_hdlcdev n
     in if dev = 0 then (- ENOMEM, n)
        else let (rc, n) = ncall Register_hdlc_device n
             in if rc \<noteq> 0 then (rc, ncall_only Free_netdev n)
                else (0, n\<lparr> netdev := Some \<lparr> dev_stats = zero_stats, queue_stopped = False, dev_carrier = True \<rparr> \<rparr>))"

definition hdlcdev_exit :: "net \<Rightarrow> net option" where
  "hdlcdev_exit n =
    do { _ \<leftarrow> netdev n;
         Some ((ncall_only Free_netdev (ncall_only Unregister_hdlc_device n))\<lparr> netdev := None \<rparr>) }"

subsection \<open>Frames of the steps\<close>

lemma set_dev_frame [simp]:
  "nworld (set_dev f n) = nworld n" "ncalls (set_dev f n) = ncalls n" "netdev (set_dev f n) = map_option f (netdev n)"
  by (simp_all add: set_dev_def)

lemma ncall_frame [simp]:
  "nworld (snd (ncall c n)) = nworld n" "netdev (snd (ncall c n)) = netdev n" "ncalls (snd (ncall c n)) = ncalls n @ [c]"
  "nworld (ncall_only c n) = nworld n" "netdev (ncall_only c n) = netdev n" "ncalls (ncall_only c n) = ncalls n @ [c]"
  by (simp_all add: ncall_only_def ncall_def Let_def)

lemma set_ninfo_frame [simp]:
  "ninfo (set_ninfo f n) = f (ninfo n)" "nworld (set_ninfo f n) = set_info f (nworld n)" "netdev (set_ninfo f n) = netdev n"
  "ncalls (set_ninfo f n) = ncalls n" "nret (set_ninfo f n) = nret n"
  by (simp_all add: set_ninfo_def ninfo_def)

lemma netif_frame [simp]:
  "nworld (netif_start_queue n) = nworld n" "ncalls (netif_start_queue n) = ncalls n @ [Netif_start_queue]"
  "nworld (netif_stop_queue n) = nworld n" "ncalls (netif_stop_queue n) = ncalls n @ [Netif_stop_queue]"
  "nworld (netif_wake_queue n) = nworld n" "ncalls (netif_wake_queue n) = ncalls n @ [Netif_wake_queue]"
  "nworld (netif_carrier on n) = nworld n"
  "ncalls (netif_carrier on n) = ncalls n @ [if on then Netif_carrier_on else Netif_carrier_off]"
  by (simp_all add: netif_start_queue_def netif_stop_queue_def netif_wake_queue_def netif_carrier_def set_dev_def ncall_only_def
      ncall_def Let_def)

lemma netif_dev [simp]:
  "netdev (netif_start_queue n) = map_option (queue_stopped_update (\<lambda>_. False)) (netdev n)"
  "netdev (netif_stop_queue n) = map_option (queue_stopped_update (\<lambda>_. True)) (netdev n)"
  "netdev (netif_wake_queue n) = map_option (queue_stopped_update (\<lambda>_. False)) (netdev n)"
  "netdev (netif_carrier on n) = map_option (dev_carrier_update (\<lambda>_. on)) (netdev n)"
  by (simp_all add: netif_start_queue_def netif_stop_queue_def netif_wake_queue_def netif_carrier_def set_dev_def ncall_only_def
      ncall_def Let_def)

lemma InReg_reads: "\<exists>tr. fst (usc_InReg w r) = dev_readw (env w) tr r"
  by (auto simp: usc_InReg_def readw_def inb_def outb_def emit_def Let_def case_prod_unfold)

subsection \<open>Settings come back\<close>

lemma clock_flags_mask:
  assumes "clock_flags t f = Some fl" "t \<noteq> CLOCK_DEFAULT"
  shows "clock_type_of ((f AND NOT clock_mask) OR fl) = t"
    "tst fl (HDLC_FLAG_RXC_BRG OR HDLC_FLAG_TXC_BRG) \<longleftrightarrow> t = CLOCK_INT \<or> t = CLOCK_TXINT"
    "((f AND NOT clock_mask) OR fl) AND NOT clock_mask = f AND NOT clock_mask"
proof -
  have sub: "fl AND clock_mask = fl" and out: "fl AND NOT clock_mask = 0"
    using assms by (auto simp: clock_flags_def clock_mask_def split: if_splits)
  have "((f AND NOT clock_mask) OR fl) AND clock_mask = fl"
    by (simp add: bit.conj_disj_distrib2 and.assoc sub)
  then show "clock_type_of ((f AND NOT clock_mask) OR fl) = t"
    using assms by (auto simp: clock_type_of_def clock_flags_def Let_def split: if_splits)
  show "tst fl (HDLC_FLAG_RXC_BRG OR HDLC_FLAG_TXC_BRG) \<longleftrightarrow> t = CLOCK_INT \<or> t = CLOCK_TXINT"
    using assms by (auto simp: clock_flags_def tst_def split: if_splits)
  show "((f AND NOT clock_mask) OR fl) AND NOT clock_mask = f AND NOT clock_mask"
    by (simp add: bit.conj_disj_distrib2 and.assoc out)
qed

text \<open>What reprogramming leaves alone, of the fields the settings are about.\<close>

definition settings_part :: "r56_struct \<Rightarrow> u16 \<times> u8 \<times> u64 \<times> int \<times> int \<times> tty_struct option" where
  "settings_part i =
     (flags (params i), loopback (params i), clock_speed (params i), port_count i, netcount i, port_tty i)"

lemma settings_part_core: "driver_core i = driver_core j \<Longrightarrow> settings_part i = settings_part j"
proof -
  assume c: "driver_core i = driver_core j"
  show ?thesis
    using arg_cong [OF c, of "\<lambda>i. loopback (params i)"] arg_cong [OF c, of "\<lambda>i. clock_speed (params i)"]
      arg_cong [OF c, of port_count]
    by (simp add: settings_part_def driver_core_fields [OF c]) (simp add: driver_core_def)
qed

lemma settings_part_rx: "but_rx i = but_rx j \<Longrightarrow> settings_part i = settings_part j"
proof -
  assume b: "but_rx i = but_rx j"
  show ?thesis
    using arg_cong [OF b, of params] arg_cong [OF b, of port_count] arg_cong [OF b, of netcount] arg_cong [OF b, of port_tty]
    by (simp add: settings_part_def but_rx_def)
qed

text \<open>The invariant of an open device of which a terminal is no part.\<close>

abbreviation net_inv :: "r56_struct \<Rightarrow> bool" where
  "net_inv \<equiv> dev_inv False"

lemma net_inv_update:
  "net_inv (serial_signals_update f i) = net_inv i"
  "net_inv i \<Longrightarrow> net_inv (i\<lparr> xmit_cnt := 0, xmit_head := 0, xmit_tail := 0 \<rparr>)"
  "net_inv (i\<lparr> dcd_chkcount := d1, cts_chkcount := d2, ri_chkcount := d3, dsr_chkcount := d4 \<rparr>) = net_inv i"
  by (simp_all add: drv_inv_parts)

text \<open>Reprogramming with the interface up needs no terminal and keeps the state well formed.\<close>

definition hw_part :: "r56_struct \<Rightarrow> (u16 \<times> u8 \<times> u64 \<times> int \<times> int \<times> tty_struct option) \<times> u32 \<times> bool \<times> u32 \<times> bool" where
  "hw_part i = (settings_part i, port_flags i, bh_running i, pending_bh i, bh_requested i)"

lemma hw_part_core: "driver_core i = driver_core j \<Longrightarrow> hw_part i = hw_part j"
  using settings_part_core [of i j] driver_core_fields [of i j] by (simp add: hw_part_def)

lemma hw_part_rx: "but_rx i = but_rx j \<Longrightarrow> hw_part i = hw_part j"
  using settings_part_rx [of i j] but_rx_fields [of i j] by (simp add: hw_part_def)

lemma hw_part_update:
  "hw_part (serial_signals_update f i) = hw_part i"
  "hw_part (i\<lparr> xmit_cnt := a, xmit_head := b, xmit_tail := c \<rparr>) = hw_part i"
  "hw_part (i\<lparr> dcd_chkcount := d1, cts_chkcount := d2, ri_chkcount := d3, dsr_chkcount := d4 \<rparr>) = hw_part i"
  by (simp_all add: hw_part_def settings_part_def)

lemma rx_ring_core: "driver_core i = driver_core j \<Longrightarrow> rx_ring i = rx_ring j"
  unfolding rx_ring_def by (simp only: driver_core_fields [of i j])

lemma rx_ring_update:
  "rx_ring (serial_signals_update f i) = rx_ring i"
  "rx_ring (i\<lparr> xmit_cnt := a, xmit_head := b, xmit_tail := c \<rparr>) = rx_ring i"
  "rx_ring (i\<lparr> dcd_chkcount := d1, cts_chkcount := d2, ri_chkcount := d3, dsr_chkcount := d4 \<rparr>) = rx_ring i"
  by (simp_all add: rx_ring_def)

lemma program_hw_steps:
  obtains v where "hw_part (info v) = hw_part (info w)" "rx_ring (info v) = rx_ring (info w)"
    "net_inv (info w) \<longrightarrow> net_inv (info v)" "env v = env w"
    "r56_program_hw w = (if netcount (info v) \<noteq> 0 then usc_start_receiver v
      else do { tty \<leftarrow> port_tty (info v); if tst (c_cflag tty) CREAD then usc_start_receiver v else Some v })"
proof -
  define w0 where "w0 = usc_stop_transmitter (usc_stop_receiver w)"
  define w1 where "w1 = set_info (\<lambda>i. i\<lparr> xmit_cnt := 0, xmit_head := 0, xmit_tail := 0 \<rparr>) w0"
  define w2 where "w2 = (if sync_mode (info w1) \<or> netcount (info w1) \<noteq> 0 then usc_set_sync_mode w1 else usc_set_async_mode w1)"
  define w3 where "w3 = set_info (\<lambda>i. i\<lparr> dcd_chkcount := 0, cts_chkcount := 0, ri_chkcount := 0, dsr_chkcount := 0 \<rparr>)
      (usc_set_serial_signals w2)"
  define w4 where "w4 = usc_get_serial_signals
      (usc_EnableInterrupts (usc_EnableStatusIrqs w3 (SICR_CTS + SICR_DSR + SICR_DCD + SICR_RI)) IO_PIN)"
  have c0: "driver_core (info w0) = driver_core (info w)" and e0: "env w0 = env w"
    unfolding w0_def by (simp_all only: driver_core_stop) simp
  have 1: "hw_part (info w1) = hw_part (info w)" "rx_ring (info w1) = rx_ring (info w)"
    "net_inv (info w) \<Longrightarrow> net_inv (info w1)" "env w1 = env w"
    using hw_part_core [OF c0] rx_ring_core [OF c0] drv_inv_core [OF c0] e0
    by (simp_all add: w1_def hw_part_update rx_ring_update net_inv_update)
  have c2: "driver_core (info w2) = driver_core (info w1)" and e2: "env w2 = env w1"
    by (simp_all add: w2_def driver_core_set_sync_mode driver_core_set_async_mode)
  have 4: "hw_part (info w4) = hw_part (info w)" "rx_ring (info w4) = rx_ring (info w)"
    "net_inv (info w) \<longrightarrow> net_inv (info w4)" "env w4 = env w"
    using 1 hw_part_core [OF c2] rx_ring_core [OF c2] drv_inv_core [OF c2] e2
    by (simp_all add: w4_def w3_def hw_part_update rx_ring_update net_inv_update)
  have "r56_program_hw w = (if netcount (info w4) \<noteq> 0 then usc_start_receiver w4
      else do { tty \<leftarrow> port_tty (info w4); if tst (c_cflag tty) CREAD then usc_start_receiver w4 else Some w4 })"
    unfolding r56_program_hw_def w4_def w3_def w2_def w1_def w0_def Let_def ..
  with 4 show thesis by (rule that)
qed

lemma program_hw_net:
  shows "r56_program_hw w = Some w' \<Longrightarrow> hw_part (info w') = hw_part (info w)"
    and "netcount (info w) \<noteq> 0 \<Longrightarrow> rx_ring (info w) \<Longrightarrow> \<exists>w'. r56_program_hw w = Some w' \<and> env w' = env w"
    and "net_inv (info w) \<Longrightarrow> r56_program_hw w = Some w' \<Longrightarrow> net_inv (info w')"
proof -
  obtain v where v: "hw_part (info v) = hw_part (info w)" "rx_ring (info v) = rx_ring (info w)"
    "net_inv (info w) \<longrightarrow> net_inv (info v)" "env v = env w"
    "r56_program_hw w = (if netcount (info v) \<noteq> 0 then usc_start_receiver v
      else do { tty \<leftarrow> port_tty (info v); if tst (c_cflag tty) CREAD then usc_start_receiver v else Some v })"
    using program_hw_steps [of w] by blast
  have run: "w' = v \<or> usc_start_receiver v = Some w'" if "r56_program_hw w = Some w'"
    using that unfolding v(5) by (auto simp: bind_eq_Some_conv split: if_splits)
  show "hw_part (info w') = hw_part (info w)" if "r56_program_hw w = Some w'"
    using run [OF that] v(1) hw_part_rx [of "info w'" "info v"] rx_path_but_rx(1) [of v w'] by auto
  show "net_inv (info w')" if inv: "net_inv (info w)" and prog: "r56_program_hw w = Some w'"
  proof -
    have iv: "net_inv (info v)" using v(3) inv by blast
    have ready: "rx_ready (info v)" "rx_ring (info v)" using iv by (simp_all add: dev_inv_def rx_ready_def)
    show ?thesis
    proof (cases "w' = v")
      case False
      then have start: "usc_start_receiver v = Some w'" using run [OF prog] by blast
      then have "info w' = started_info (info v)" using usc_start_receiver_total [OF ready(2)] by auto
      then have "rx_ready (info w')" using ready(1) by simp
      then show ?thesis by (rule drv_inv_rx [OF iv _ rx_path_but_rx(1) [OF start]])
    qed (use iv in simp)
  qed
  show "\<exists>w'. r56_program_hw w = Some w' \<and> env w' = env w" if "netcount (info w) \<noteq> 0" "rx_ring (info w)"
  proof -
    have "netcount (info v) \<noteq> 0" using that(1) v(1) by (simp add: hw_part_def settings_part_def)
    then show ?thesis using usc_start_receiver_total [of v] that(2) v(2,4,5) by auto
  qed
qed

lemma reprogram_if_up_total:
  assumes "netcount (ninfo n) = 0 \<or> rx_ring (ninfo n)"
  shows "\<exists>n'. reprogram_if_up n = Some n' \<and> settings_part (ninfo n') = settings_part (ninfo n) \<and> netdev n' = netdev n \<and>
    ncalls n' = ncalls n"
proof (cases "netcount (ninfo n) = 0")
  case True
  then show ?thesis by (simp add: reprogram_if_up_def)
next
  case False
  with program_hw_net(2) [of "nworld n"] assms obtain w' where "r56_program_hw (nworld n) = Some w'" by (auto simp: ninfo_def)
  then show ?thesis using False program_hw_net(1) [of "nworld n" w'] by (simp add: reprogram_if_up_def on_world_def ninfo_def hw_part_def)
qed


text \<open>A device that is down.\<close>

definition net_down_example :: net where
  "net_down_example =
     \<lparr> nworld = closed_example\<lparr> info := (info closed_example)\<lparr> port_tty := None \<rparr> \<rparr>,
       netdev = Some \<lparr> dev_stats = zero_stats, queue_stopped = False, dev_carrier = True \<rparr>, ncalls = [], nret = (\<lambda>_. 0) \<rparr>"


end
