(* ===== verification/R56_Netup.thy ===== *)
theory R56_Netup
  imports R56_Net
begin

text \<open>
  Bringing the network interface up and down: \<open>hdlcdev_open\<close> takes a closed device without a terminal to a
  well-formed one whose queue runs, or releases everything again; \<open>hdlcdev_close\<close> leaves nothing claimed.
\<close>

subsection \<open>Devices at rest without a terminal\<close>

definition net_rest :: "world \<Rightarrow> bool" where
  "net_rest w \<longleftrightarrow> net_inv (info w) \<and> port_tty (info w) = None \<and> \<not> bh_running (info w) \<and>
     (pending_bh (info w) = 0 \<or> bh_requested (info w))"

definition net_leads :: "world \<Rightarrow> world \<Rightarrow> bool" where
  "net_leads w w' \<longleftrightarrow> net_rest w' \<and> env w' = env w \<and> length (rx_buffer_list (info w')) = length (rx_buffer_list (info w)) \<and>
     port_flags (info w') = port_flags (info w) \<and> netcount (info w') = netcount (info w)"

text \<open>
  What the sleeping code relies on: the handlers that run meanwhile keep the state of a device without a terminal well
  formed; the clock, the adapter, the size of the receive ring, the port flags and the owner stay what they are.
\<close>

definition net_sleep_ok :: "(world \<Rightarrow> world) \<Rightarrow> bool" where
  "net_sleep_ok sleep \<longleftrightarrow> (\<forall>w. net_rest w \<longrightarrow> net_leads w (sleep w))"

lemma test_core_netcount:
  assumes "test_core i = test_core j"
  shows "netcount i = netcount j"
  using arg_cong [OF assms, of netcount] by (simp add: test_core_def driver_core_def)

interpretation network: diagnosed net_rest net_leads
proof
  fix w w' assume w: "net_rest w" and f: "test_frame w w'" "params (info w') = params (info w)"
  have c: "test_core (info w') = test_core (info w)" using f(1) by (simp add: test_frame_def)
  have "net_inv (info w')" using w by (intro drv_inv_test [OF _ f]) (simp add: net_rest_def)
  then show "net_leads w w'"
    using w test_core_fields [OF c] test_core_netcount [OF c] test_frame_lengths [OF f(1)]
    by (simp add: net_leads_def net_rest_def)
next
  fix w assume "net_rest w"
  then show "rx_buffer_list (info w) \<noteq> [] \<and> tx_buffer_list (info w) \<noteq> []"
    by (auto simp: net_rest_def drv_inv_parts)
next
  fix w f g assume "net_rest w"
  then show "net_leads w (set_info (irq_occurred_update f) w)" "net_leads w (set_info (init_error_update g) w)"
    by (simp_all add: net_leads_def net_rest_def drv_inv_parts)
next
  fix w w' :: world assume w: "net_rest w" and c: "driver_core (info w') = driver_core (info w)" and e: "env w' = env w"
  then show "net_leads w w'"
    using drv_inv_core [OF c] driver_core_fields [OF c] by (simp add: net_leads_def net_rest_def)
qed (simp_all add: net_leads_def)

subsection \<open>Startup without a terminal\<close>

text \<open>A closed device that no terminal uses.\<close>

definition net_closed :: "r56_struct \<Rightarrow> bool" where
  "net_closed i \<longleftrightarrow> port_tty i = None \<and> closed (i\<lparr> port_tty := Some running_tty \<rparr>)"

text \<open>The result of \<open>startup\<close> in the hands of \<open>hdlcdev_open\<close>.\<close>

definition net_started :: "r56_struct \<Rightarrow> int \<times> world \<Rightarrow> bool" where
  "net_started i res \<longleftrightarrow>
     (case res of (r, w) \<Rightarrow>
        if r = 0 then net_rest w \<and> port_flags (info w) = port_flags i OR ASYNC_INITIALIZED \<and> netcount (info w) = netcount i
        else released (info w) \<and> port_flags (info w) = port_flags i)"

lemma net_startup_claimed:
  assumes ok: "net_sleep_ok sleep" "clock_ok (env w)" "dma_ok (env w)" and rest: "net_rest w"
    and len: "length (rx_buffer_list (info w)) \<le> 62"
  shows "\<exists>r w'. startup_claimed sleep 0 w = Some (r, w') \<and> net_started (info w) (r, w')"
proof -
  from network.adapter_test_leads [OF _ ok(2,3) rest len] ok(1) obtain r w1 where
    1: "r56_adapter_test sleep w = Some (r, w1)" "net_leads w w1" unfolding net_sleep_ok_def by blast
  note l = 1(2) [unfolded net_leads_def] and rest1 = network.leads_rest [OF 1(2), unfolded net_rest_def]
  show ?thesis
  proof (cases "r = 0")
    case True
    define w2 where "w2 = set_info (port_flags_update (\<lambda>f. f OR ASYNC_INITIALIZED)) (set_tty_flag (\<lambda>f. f AND NOT TTY_IO_ERROR_bit) w1)"
    have i2: "info w2 = (info w1)\<lparr> port_flags := port_flags (info w1) OR ASYNC_INITIALIZED, port_tty := None \<rparr>"
      using rest1 by (simp add: w2_def set_tty_flag_def)
    have "r56_change_params w1 = Some w1" using rest1 by (simp add: r56_change_params_def)
    then have "startup_claimed sleep 0 w = Some (0, w2)" using 1(1) True by (simp add: startup_claimed_def w2_def)
    moreover have "net_rest w2" using rest1 by (simp add: net_rest_def drv_inv_parts i2)
    moreover have "port_flags (info w2) = port_flags (info w) OR ASYNC_INITIALIZED" "netcount (info w2) = netcount (info w)"
      using l by (simp_all add: i2)
    ultimately show ?thesis by (simp add: net_started_def)
  next
    case False
    have "releasable (info w1)"
      using rest1 drv_inv_releasable by blast
    from started_failed [OF this _ False, of "port_flags (info w)"] l obtain w2 where
      "startup_failed r w1 = Some (r, w2)" "started (port_flags (info w)) (r, w2)" by blast
    then show ?thesis using 1(1) False by (simp add: startup_claimed_def started_def net_started_def)
  qed
qed

lemma net_claimed_started:
  assumes ok: "net_sleep_ok sleep" "clock_ok (env w)" "dma_ok (env w)"
    and dev: "configured (info w)" "released (info w)" "port_tty (info w) = None" "buffer_of_size 4096 (xmit_buf (info w))"
      "xmit_cnt (info w) = 0" "xmit_head (info w) = 0" "xmit_tail (info w) = 0" "\<not> bh_running (info w)"
      "length (tx_holding_buffers (info w)) = 5" "pending_bh (info w) = 0"
  shows "\<exists>r w'. do { (r, w) \<leftarrow> r56_claim_resources w; startup_claimed sleep r w } = Some (r, w') \<and> net_started (info w) (r, w')"
proof -
  from claim_resources_claimed [OF dev(1,9,2)] obtain r w1 where 1: "r56_claim_resources w = Some (r, w1)" "res_only w w1"
    "length (tx_holding_buffers (info w1)) = 5"
    "r = 0 \<and> allocated (info w) (info w1) \<and> list_lengths (info w1) \<or> r = - ENODEV \<and> released (info w1)"
    unfolding claimed_def by blast
  have b: "but_res (info w1) = but_res (info w)" and e: "env w1 = env w" using 1(2) by (simp_all add: res_only_def)
  note f = but_res_fields [OF b]
  have conf: "configured (info w1)" using configured_res [OF b] dev(1) by simp
  from 1(4) show ?thesis
  proof (elim disjE conjE)
    assume r: "r = 0" and al: "allocated (info w) (info w1)"
    have "net_inv (info w1)"
      by (rule claimed_inv [OF al conf]) (simp_all add: f dev)
    then have rest: "net_rest w1" using dev by (simp add: net_rest_def f)
    have "length (rx_buffer_list (info w1)) \<le> 62" using al by (simp add: allocated_def pci_layout_def)
    from net_startup_claimed [OF ok(1) _ _ rest this] ok obtain r' w2 where
      "startup_claimed sleep 0 w1 = Some (r', w2)" "net_started (info w1) (r', w2)" by (auto simp: e)
    then show ?thesis using 1(1) r by (simp add: net_started_def f)
  next
    assume r: "r = - ENODEV" and rel: "released (info w1)"
    from started_failed [OF released_releasable [OF rel conf 1(3)] f(13), of "- ENODEV"] obtain w2 where
      "startup_failed (- ENODEV) w1 = Some (- ENODEV, w2)" "started (port_flags (info w)) (- ENODEV, w2)" by auto
    then show ?thesis using 1(1) r by (simp add: startup_claimed_def started_def net_started_def)
  qed
qed

lemma net_startup_started:
  assumes closed: "net_closed (info w)" and ok: "net_sleep_ok sleep" "clock_ok (env w)" "dma_ok (env w)"
  shows "\<exists>r w'. startup sleep w = Some (r, w') \<and> net_started (info w) (r, w')"
proof -
  note c = closed [unfolded net_closed_def closed_def]
  show ?thesis
  proof (rule startup_claims [of w sleep])
    fix v assume v: "startup sleep w = Some (- ENOMEM, v)" "info v = info w"
    have "net_started (info w) (- ENOMEM, v)" using c by (simp add: net_started_def v(2) released_def)
    then show ?thesis using v(1) by blast
  next
    fix v b assume v: "startup sleep w = do { (r, v) \<leftarrow> r56_claim_resources v; startup_claimed sleep r v }"
      "info v = (info w)\<lparr> xmit_buf := b, pending_bh := 0, icount := zero_icount \<rparr>" "env v = env w" "buffer_of_size 4096 b"
    have "configured (info v)" "released (info v)" using c by (simp_all add: v(2) configured_def released_def)
    from net_claimed_started [OF ok(1) _ _ this] c ok v(4)
    obtain r w' where "do { (r, v) \<leftarrow> r56_claim_resources v; startup_claimed sleep r v } = Some (r, w')" "net_started (info v) (r, w')"
      by (auto simp: v(2,3))
    then show ?thesis unfolding v(1) by (simp add: net_started_def v(2))
  qed (use c in auto)
qed

subsection \<open>Up and down\<close>

text \<open>The device is up: programmed and well formed, its queue runs, and the network knows its carrier.\<close>

definition net_running :: "net \<Rightarrow> bool" where
  "net_running n \<longleftrightarrow> net_rest (nworld n) \<and> tst (port_flags (ninfo n)) ASYNC_INITIALIZED \<and> netcount (ninfo n) = 1 \<and>
     (case netdev n of None \<Rightarrow> True
      | Some d \<Rightarrow> \<not> queue_stopped d \<and> dev_carrier d = tst (serial_signals (ninfo n)) SerialSignal_DCD)"

definition carrier_call :: "net \<Rightarrow> ncall" where
  "carrier_call n = (if tst (serial_signals (ninfo n)) SerialSignal_DCD then Netif_carrier_on else Netif_carrier_off)"

lemma net_up_running:
  assumes rest: "net_rest (nworld n)" and up: "tst (port_flags (ninfo n)) ASYNC_INITIALIZED" "netcount (ninfo n) = 1"
  shows "\<exists>n'. net_up n = Some (0, n') \<and> net_running n' \<and> port_flags (ninfo n') = port_flags (ninfo n) \<and>
    ncalls n' = ncalls n @ [Netif_start_queue, carrier_call n']"
proof -
  define w where "w = set_info (serial_signals_update (\<lambda>s. s OR (SerialSignal_RTS + SerialSignal_DTR))) (nworld n)"
  have w: "net_inv (info w)" "netcount (info w) \<noteq> 0" "rx_ring (info w)"
    using rest up by (simp_all add: w_def net_rest_def net_inv_update ninfo_def)
      (simp add: dev_inv_def rx_ready_def rx_ring_update)
  from program_hw_net(2) [OF w(2,3)] obtain w1 where w1: "r56_program_hw w = Some w1" by blast
  have p: "hw_part (info w1) = hw_part (info w)" "net_inv (info w1)"
    using program_hw_net(1) [OF w1] program_hw_net(3) [OF w(1) w1] by simp_all
  define w2 where "w2 = usc_get_serial_signals w1"
  have 2: "net_inv (info w2)" "hw_part (info w2) = hw_part (info w)"
    using p by (simp_all add: w2_def net_inv_update hw_part_update)
  have h: "hw_part (info w) = hw_part (ninfo n)" by (simp add: w_def hw_part_update ninfo_def)
  have rest2: "net_rest w2"
    using 2 h rest by (simp add: net_rest_def hw_part_def settings_part_def ninfo_def)
  define n2 where "n2 = (netif_start_queue (n\<lparr> nworld := w1 \<rparr>))\<lparr> nworld := w2 \<rparr>"
  define n' where "n' = netif_carrier (tst (serial_signals (ninfo n2)) SerialSignal_DCD) n2"
  have "net_up n = Some (0, n')"
    using w1 by (simp add: net_up_def on_world_def w_def n'_def n2_def w2_def set_ninfo_def)
  moreover have n': "nworld n' = w2" "netdev n' = map_option (dev_carrier_update (\<lambda>_. tst (serial_signals (info w2)) SerialSignal_DCD))
      (map_option (queue_stopped_update (\<lambda>_. False)) (netdev n))"
    by (simp_all add: n'_def n2_def ninfo_def)
  moreover have "ncalls n' = ncalls n @ [Netif_start_queue, carrier_call n']"
    by (simp add: carrier_call_def ninfo_def n'(1)) (simp add: n'_def n2_def ninfo_def)
  moreover have "port_flags (ninfo n') = port_flags (ninfo n)" "netcount (ninfo n') = 1"
    using 2(2) h up by (simp_all add: n'(1) ninfo_def hw_part_def settings_part_def)
  ultimately show ?thesis
    using rest2 up by (simp add: net_running_def ninfo_def option.case_eq_if option.map_sel)
qed

lemma net_open_cases:
  assumes dev: "net_closed (ninfo n)" "port_count (ninfo n) = 0" "netcount (ninfo n) = 0"
    and ok: "net_sleep_ok sleep" "clock_ok (env (nworld n))" "dma_ok (env (nworld n))"
    and hdlc: "nret n (ncalls n @ [Hdlc_open]) = 0"
  shows "\<exists>r n'. hdlcdev_open sleep n = Some (r, n') \<and>
    (r = 0 \<longrightarrow> net_running n' \<and> port_flags (ninfo n') = port_flags (ninfo n) OR ASYNC_INITIALIZED \<and>
       ncalls n' = ncalls n @ [Hdlc_open, Netif_start_queue, carrier_call n']) \<and>
    (r \<noteq> 0 \<longrightarrow> released (ninfo n') \<and> netcount (ninfo n') = 0 \<and> port_flags (ninfo n') = port_flags (ninfo n) \<and>
       ncalls n' = ncalls n @ [Hdlc_open])"
proof -
  define n1 where "n1 = set_ninfo (netcount_update (\<lambda>_. 1)) (snd (ncall Hdlc_open n))"
  have n1: "ninfo n1 = netcount_update (\<lambda>_. 1) (ninfo n)" "ncalls n1 = ncalls n @ [Hdlc_open]" "env (nworld n1) = env (nworld n)"
    by (simp_all add: n1_def ninfo_def)
  have "net_closed (info (nworld n1))"
    using dev(1) n1(1) by (simp add: ninfo_def net_closed_def closed_def configured_def released_def)
  from net_startup_started [OF this ok(1)] ok obtain r w where
    start: "startup sleep (nworld n1) = Some (r, w)" "net_started (info (nworld n1)) (r, w)" by (auto simp: n1(3))
  have run: "hdlcdev_open sleep n = (if r \<noteq> 0 then Some (r, set_ninfo (netcount_update (\<lambda>_. 0)) (n1\<lparr> nworld := w \<rparr>))
      else net_up (n1\<lparr> nworld := w \<rparr>))"
    using hdlc dev(2,3) start(1)
    by (simp add: hdlcdev_open_def case_prod_unfold Let_def n1_def) (simp add: ncall_def ninfo_def Let_def)
  show ?thesis
  proof (cases "r = 0")
    case True
    then have "net_rest w" "port_flags (info w) = port_flags (ninfo n) OR ASYNC_INITIALIZED" "netcount (info w) = 1"
      using start(2) n1(1) by (simp_all add: net_started_def ninfo_def)
    moreover have "tst (x OR ASYNC_INITIALIZED) ASYNC_INITIALIZED" for x :: u32
      by (simp add: tst_def word_ao_absorbs)
    ultimately show ?thesis
      using net_up_running [of "n1\<lparr> nworld := w \<rparr>"] run True n1(2) by (auto simp: ninfo_def)
  next
    case False
    then show ?thesis using start(2) n1 run by (simp add: net_started_def ninfo_def released_def)
  qed
qed

lemma net_close_releases:
  assumes "net_running n"
  shows "\<exists>n'. hdlcdev_close n = Some (0, n') \<and> released (ninfo n') \<and> netcount (ninfo n') = 0 \<and>
    \<not> tst (port_flags (ninfo n')) ASYNC_INITIALIZED \<and> ncalls n' = ncalls n @ [Netif_stop_queue, Hdlc_close]"
proof -
  have "releasable (info (nworld n))" "tst (port_flags (info (nworld n))) ASYNC_INITIALIZED"
    using assms drv_inv_releasable [of False] by (simp_all add: net_running_def net_rest_def ninfo_def)
  from shutdown_total [OF this] obtain w where w: "shutdown (nworld n) = Some w" "released (info w)"
    "\<not> tst (port_flags (info w)) ASYNC_INITIALIZED" by blast
  then show ?thesis
    by (simp add: hdlcdev_close_def on_world_def) (simp add: ninfo_def released_def)
qed


lemma net_down_example_ok:
  "net_closed (ninfo net_down_example)" "port_count (ninfo net_down_example) = 0" "netcount (ninfo net_down_example) = 0"
  "net_sleep_ok (\<lambda>w. w)" "clock_ok (env (nworld net_down_example))" "dma_ok (env (nworld net_down_example))"
  "nret net_down_example (ncalls net_down_example @ [Hdlc_open]) = 0"
proof -
  show "net_closed (ninfo net_down_example)"
    using closed_example_closed
    by (simp add: net_down_example_def ninfo_def net_closed_def closed_def configured_def released_def)
  show "net_sleep_ok (\<lambda>w. w)" by (simp add: net_sleep_ok_def network.leads_refl)
  show "clock_ok (env (nworld net_down_example))" "dma_ok (env (nworld net_down_example))"
    using lab_conditions by (simp_all add: net_down_example_def)
qed (simp_all add: net_down_example_def ninfo_def closed_example_def zero_info_def)


subsection \<open>Sending\<close>

text \<open>C10: Sending through the network: on a device in HDLC mode that is not transmitting, a frame that fits into the
  transmit ring is sent: the queue is stopped until it is done, the ring holds exactly its bytes, the DMA channel is
  started at its entry with its length, the transmitter is active and guarded by the timer, the buffer is freed, and
  one packet with its bytes is counted.\<close>

theorem hdlcdev_xmit_sends:
  assumes "tx_ready (ninfo n)" "mode (params (ninfo n)) = R56_MODE_HDLC" "\<not> tx_active (ninfo n)" "netdev n = Some d"
    and buf: "skb \<noteq> []" "length skb < 2 ^ 32" "pages (length skb) \<le> length (tx_buffer_list (ninfo n))"
  shows "\<exists>n'. hdlcdev_xmit skb n = Some n' \<and> frame_loaded skb (nworld n) (nworld n') \<and>
    dma_sending (nworld n') (tx_buffer_list (ninfo n') ! nat (current_tx_buffer (ninfo n))) \<and>
    netdev n' = Some (count_tx (length skb) (d\<lparr> queue_stopped := True \<rparr>)) \<and>
    ncalls n' = ncalls n @ [Netif_stop_queue, Dev_kfree_skb]"
proof -
  have m: "mode (params (info (nworld n))) \<noteq> R56_MODE_ASYNC" "mode (params (info (nworld n))) \<noteq> R56_MODE_RAW"
    using assms(2) by (simp_all add: ninfo_def)
  from load_and_start [OF assms(1) [unfolded ninfo_def] m assms(3) [unfolded ninfo_def] buf(1,2) buf(3) [unfolded ninfo_def]]
  obtain w1 w' where w1: "r56_load_tx_dma_buffer skb (of_nat (length skb))
      (set_info (xmit_cnt_update (\<lambda>_. int (length skb))) (nworld n)) = Some w1" "\<not> tx_active (info w1)"
    and w': "usc_start_transmitter w1 = Some w'" "frame_loaded skb (nworld n) w'"
      "dma_sending w' (tx_buffer_list (info w') ! nat (current_tx_buffer (info (nworld n))))" by blast
  define n1 where "n1 = set_ninfo (xmit_cnt_update (\<lambda>_. int (length skb))) (netif_stop_queue n)"
  define n2 where "n2 = ncall_only Dev_kfree_skb (set_dev (count_tx (length skb)) (n1\<lparr> nworld := w1 \<rparr>))"
  have "nworld n1 = set_info (xmit_cnt_update (\<lambda>_. int (length skb))) (nworld n)" by (simp add: n1_def)
  then have "on_world (r56_load_tx_dma_buffer skb (of_nat (length skb))) n1 = Some (n1\<lparr> nworld := w1 \<rparr>)"
    using w1(1) by (simp add: on_world_def)
  moreover have "nworld n2 = w1" by (simp add: n2_def)
  ultimately have "hdlcdev_xmit skb n = Some (n2\<lparr> nworld := w' \<rparr>)"
    using w1(2) w'(1) unfolding hdlcdev_xmit_def n1_def [symmetric] Let_def
    by (simp add: n2_def [symmetric] on_world_def ninfo_def)
  moreover have "netdev n2 = Some (count_tx (length skb) (d\<lparr> queue_stopped := True \<rparr>))"
    "ncalls n2 = ncalls n @ [Netif_stop_queue, Dev_kfree_skb]"
    using assms(4) by (simp_all add: n2_def n1_def)
  ultimately show ?thesis using w'(2,3) by (simp add: ninfo_def)
qed

definition net_tx_example :: net where
  "net_tx_example =
     \<lparr> nworld = tx_example, netdev = Some \<lparr> dev_stats = zero_stats, queue_stopped = False, dev_carrier = True \<rparr>,
       ncalls = [], nret = (\<lambda>_. 0) \<rparr>"

theorem hdlcdev_xmit_sends_witness:
  "\<exists>n'. hdlcdev_xmit [1, 2, 3] net_tx_example = Some n' \<and> frame_loaded [1, 2, 3] tx_example (nworld n') \<and>
    dma_sending (nworld n') (tx_buffer_list (ninfo n') ! nat (current_tx_buffer (info tx_example))) \<and>
    ncalls n' = [Netif_stop_queue, Dev_kfree_skb]"
proof -
  have "tx_ready (ninfo net_tx_example)" using tx_example_ready by (simp add: net_tx_example_def ninfo_def)
  moreover have "mode (params (ninfo net_tx_example)) = R56_MODE_HDLC" "\<not> tx_active (ninfo net_tx_example)"
    "pages (length [1 :: u8, 2, 3]) \<le> length (tx_buffer_list (ninfo net_tx_example))"
    by (simp_all add: net_tx_example_def ninfo_def tx_example_def zero_info_def default_params_def pages_def)
  moreover have "netdev net_tx_example = Some \<lparr> dev_stats = zero_stats, queue_stopped = False, dev_carrier = True \<rparr>"
    "ncalls net_tx_example = []" "nworld net_tx_example = tx_example" "ninfo net_tx_example = info tx_example"
    by (simp_all add: net_tx_example_def ninfo_def)
  ultimately show ?thesis using hdlcdev_xmit_sends [of net_tx_example _ "[1, 2, 3]"] by auto
qed

subsection \<open>The terminal and the network\<close>

lemma carrier_raised_frame:
  "hw_part (info (snd (carrier_raised w))) = hw_part (info w)" "rx_ring (info (snd (carrier_raised w))) = rx_ring (info w)"
  "env (snd (carrier_raised w)) = env w"
  by (simp_all add: carrier_raised_def Let_def hw_part_update rx_ring_update)

lemma dtr_rts_frame:
  "hw_part (info (dtr_rts on w)) = hw_part (info w)" "rx_ring (info (dtr_rts on w)) = rx_ring (info w)" "env (dtr_rts on w) = env w"
  by (simp_all add: dtr_rts_def hw_part_update rx_ring_update)

lemma read_signals_dcd: "tst (read_signals s st) SerialSignal_DCD = tst st MISCSTATUS_DCD"
  by (auto simp: read_signals_def tst_def bit.conj_disj_distrib2 and.assoc)

lemma raised_carrier:
  assumes "\<forall>tr. tst (dev_readw (env w) tr MISR) MISCSTATUS_DCD = on"
  shows "fst (carrier_raised w) = on"
  using assms InReg_reads [of w MISR] by (auto simp: carrier_raised_def Let_def read_signals_dcd)

text \<open>An initialised device with no terminal counted is taken over by the network at once.\<close>

lemma net_admitted:
  assumes "tst (port_flags (ninfo n)) ASYNC_INITIALIZED" "port_count (ninfo n) = 0" "netcount (ninfo n) = 0"
    "rx_ring (ninfo n)" "nret n (ncalls n @ [Hdlc_open]) = 0"
  shows "\<exists>n'. hdlcdev_open sleep n = Some (0, n') \<and> hw_part (ninfo n') = hw_part (netcount_update (\<lambda>_. 1) (ninfo n))"
proof -
  define n1 where "n1 = set_ninfo (netcount_update (\<lambda>_. 1)) (snd (ncall Hdlc_open n))"
  define w where "w = set_info (serial_signals_update (\<lambda>s. s OR (SerialSignal_RTS + SerialSignal_DTR))) (nworld n1)"
  have i: "info w = serial_signals_update (\<lambda>s. s OR (SerialSignal_RTS + SerialSignal_DTR)) (netcount_update (\<lambda>_. 1) (ninfo n))"
    by (simp add: w_def n1_def ninfo_def)
  have "netcount (info w) \<noteq> 0" "rx_ring (info w)" using assms(4) by (simp_all add: i rx_ring_def)
  from program_hw_net(2) [OF this] obtain w1 where w1: "r56_program_hw w = Some w1" by blast
  have p: "hw_part (info w1) = hw_part (netcount_update (\<lambda>_. 1) (ninfo n))"
    using program_hw_net(1) [OF w1] by (simp add: i hw_part_update)
  have start: "startup sleep (nworld n1) = Some (0, nworld n1)"
    using assms(1) by (simp add: startup_def n1_def ninfo_def)
  have run: "hdlcdev_open sleep n = net_up n1"
    using assms(2,3,5) start
    by (simp add: hdlcdev_open_def case_prod_unfold Let_def n1_def) (simp add: ncall_def ninfo_def Let_def set_ninfo_def)
  obtain n' where "net_up n1 = Some (0, n')" "nworld n' = usc_get_serial_signals w1"
    using w1 by (simp add: net_up_def on_world_def w_def)
  then show ?thesis using run p by (simp add: ninfo_def hw_part_update)
qed

text \<open>While an open waits, another task brings the interface up; then \<open>later\<close> is how the adapter answers.\<close>

definition up_meanwhile :: "(world \<Rightarrow> world) \<Rightarrow> environment \<Rightarrow> world \<Rightarrow> world" where
  "up_meanwhile sleep later w =
    (case hdlcdev_open sleep \<lparr> nworld = w, netdev = None, ncalls = [], nret = (\<lambda>_. 0) \<rparr> of
       None \<Rightarrow> w
     | Some (r, n) \<Rightarrow> (nworld n)\<lparr> env := later \<rparr>)"

lemma wait_round:
  assumes "\<forall>tr. os_ret (env w) tr = 0" "tst (port_flags (info w)) ASYNC_INITIALIZED" "\<not> tst (port_flags (info w)) ASYNC_CLOSING"
  shows "\<exists>v. hw_part (info v) = hw_part (info w) \<and> rx_ring (info v) = rx_ring (info w) \<and> env v = env w \<and>
    (fst (carrier_raised v) \<longrightarrow> open_wait_loop sleep False tty w = Some (0, snd (carrier_raised v))) \<and>
    (\<not> fst (carrier_raised v) \<longrightarrow> open_wait_loop sleep False tty w =
       open_wait_loop sleep False tty (sleep (kcall Schedule (snd (ask Signal_pending (snd (carrier_raised v)))))))"
proof -
  define u where "u = (if tst (c_cflag (current_tty tty w)) CBAUD then dtr_rts True w else w)"
  define v where "v = snd (ask Tty_hung_up_p u)"
  have u: "hw_part (info u) = hw_part (info w)" "rx_ring (info u) = rx_ring (info w)" "env u = env w"
    by (simp_all add: u_def dtr_rts_frame)
  have v: "info v = info u" "env v = env u" by (simp_all add: v_def)
  have h: "fst (ask Tty_hung_up_p u) = 0" "fst (ask Signal_pending x) = 0" if "env x = env w" for x
    using assms(1) u(3) that by (simp_all add: ask_def Let_def)
  have pf: "port_flags (info v) = port_flags (info w)" "port_flags (info u) = port_flags (info w)"
    using u(1) v(1) by (simp_all add: hw_part_def)
  define c where "c = snd (carrier_raised v)"
  have c: "port_flags (info c) = port_flags (info w)" "env c = env w"
    using carrier_raised_frame [of v] pf u(3) v(2) by (simp_all add: c_def hw_part_def)
  have "open_wait_loop sleep False tty w = (if fst (carrier_raised v) then Some (0, c)
      else open_wait_loop sleep False tty (sleep (kcall Schedule (snd (ask Signal_pending c)))))"
    using assms(2,3) pf h [OF refl] h(2) [OF c(2)] c(1)
    by (subst open_wait_loop.simps) (simp add: Let_def case_prod_unfold u_def [symmetric] v_def [symmetric] c_def [symmetric])
  then show ?thesis using u v by (intro exI [of _ v]) (simp add: c_def)
qed

text \<open>C36: A terminal and the network can own one device: an open that waits for the carrier takes its count back while
  it waits, so that \<open>hdlcdev_open\<close> of another task is admitted (it finds the device initialised, claims
  nothing and reprograms it); when the carrier comes the open returns success, and both counts are 1.\<close>

theorem waiting_open_admits_network:
  assumes dev: "port_count (info w) = 1" "netcount (info w) = 0" "tst (port_flags (info w)) ASYNC_INITIALIZED"
      "\<not> tst (port_flags (info w)) ASYNC_CLOSING" "rx_ring (info w)"
    and tty: "\<not> tst (tty_flags tty) TTY_IO_ERROR_bit" "\<not> tst (c_cflag tty) CLOCAL"
    and now: "\<forall>tr. os_ret (env w) tr = 0" "\<forall>tr. \<not> tst (dev_readw (env w) tr MISR) MISCSTATUS_DCD"
    and later: "\<forall>tr. os_ret later tr = 0" "\<forall>tr. tst (dev_readw later tr MISR) MISCSTATUS_DCD"
  shows "\<exists>w'. block_til_ready (up_meanwhile sleep later) False tty w = Some (0, w') \<and>
    port_count (info w') = 1 \<and> netcount (info w') = 1"
proof -
  define w1 where "w1 = set_info (port_blocked_open_update (\<lambda>n. n + 1)) (set_info (port_count_update (\<lambda>n. n - 1))
      (snd (ask Tty_hung_up_p (kcall (Add_wait_queue Open_wait_q) w))))"
  have hup: "fst (ask Tty_hung_up_p (kcall (Add_wait_queue Open_wait_q) w)) = 0"
    using now(1) by (simp add: ask_def Let_def)
  have 1: "env w1 = env w" "port_count (info w1) = 0" "netcount (info w1) = 0" "port_flags (info w1) = port_flags (info w)"
    "rx_ring (info w1)" using dev by (simp_all add: w1_def rx_ring_def)
  from wait_round [of w1 "up_meanwhile sleep later" tty] 1 now(1) dev(3,4) obtain v where
    v: "hw_part (info v) = hw_part (info w1)" "rx_ring (info v)" "env v = env w"
      "\<not> fst (carrier_raised v) \<longrightarrow> open_wait_loop (up_meanwhile sleep later) False tty w1 =
         open_wait_loop (up_meanwhile sleep later) False tty
           (up_meanwhile sleep later (kcall Schedule (snd (ask Signal_pending (snd (carrier_raised v))))))" by auto
  have no: "\<not> fst (carrier_raised v)" using raised_carrier [of v False] now(2) v(3) by simp
  define x where "x = kcall Schedule (snd (ask Signal_pending (snd (carrier_raised v))))"
  have x: "hw_part (info x) = hw_part (info w1)" "rx_ring (info x)"
    using carrier_raised_frame [of v] v(1,2) by (simp_all add: x_def)
  define m where "m = \<lparr> nworld = x, netdev = None, ncalls = [], nret = (\<lambda>_. 0) \<rparr>"
  have "tst (port_flags (ninfo m)) ASYNC_INITIALIZED" "port_count (ninfo m) = 0" "netcount (ninfo m) = 0" "rx_ring (ninfo m)"
    "nret m (ncalls m @ [Hdlc_open]) = 0"
    using x 1 dev(3) by (simp_all add: m_def ninfo_def hw_part_def settings_part_def)
  from net_admitted [OF this] obtain m' where m': "hdlcdev_open sleep m = Some (0, m')"
    "hw_part (ninfo m') = hw_part (netcount_update (\<lambda>_. 1) (info x))" by (auto simp: m_def ninfo_def)
  define y where "y = up_meanwhile sleep later x"
  have y: "env y = later" "hw_part (info y) = hw_part (netcount_update (\<lambda>_. 1) (info x))"
    using m' by (simp_all add: y_def up_meanwhile_def m_def [symmetric] ninfo_def)
  have yc: "port_count (info y) = 0" "netcount (info y) = 1" "port_flags (info y) = port_flags (info w)"
    using y(2) x(1) 1 by (simp_all add: hw_part_def settings_part_def)
  from wait_round [of y "up_meanwhile sleep later" tty] y(1) yc(3) later(1) dev(3,4) obtain z where
    z: "hw_part (info z) = hw_part (info y)" "env z = later"
      "fst (carrier_raised z) \<longrightarrow> open_wait_loop (up_meanwhile sleep later) False tty y = Some (0, snd (carrier_raised z))" by auto
  have "fst (carrier_raised z)" using raised_carrier [of z True] later(2) z(2) by simp
  then have loop: "open_wait_loop (up_meanwhile sleep later) False tty w1 = Some (0, snd (carrier_raised z))"
    using v(4) no z(3) by (simp add: x_def [symmetric] y_def [symmetric])
  have c: "port_count (info (snd (carrier_raised z))) = 0" "netcount (info (snd (carrier_raised z))) = 1"
    using carrier_raised_frame(1) [of z] z(1) yc by (simp_all add: hw_part_def settings_part_def)
  have cl: "tst (c_cflag tty) CLOCAL = False" using tty(2) by simp
  show ?thesis
    using tty(1) c hup loop
    unfolding block_til_ready_def Let_def case_prod_unfold cl w1_def [symmetric]
    by (simp add: w1_def)
qed

text \<open>An open device whose carrier is down at first.\<close>

definition dark_env :: environment where
  "dark_env = lab_env\<lparr> os_ret := (\<lambda>_. 0), dev_readw := (\<lambda>_ _. 0) \<rparr>"

definition waiting_example :: world where
  "waiting_example = initialised_example\<lparr> info := (info initialised_example)\<lparr> port_count := 1 \<rparr>, env := dark_env \<rparr>"

theorem waiting_open_admits_network_witness:
  "\<exists>w'. block_til_ready (up_meanwhile (\<lambda>w. w) (dark_env\<lparr> dev_readw := (\<lambda>_ _. MISCSTATUS_DCD) \<rparr>)) False running_tty waiting_example =
      Some (0, w') \<and> port_count (info w') = 1 \<and> netcount (info w') = 1"
proof (rule waiting_open_admits_network)
  have "rx_ring (info initialised_example)" using initialised_example_ok(1) by (simp add: dev_inv_def rx_ready_def)
  then show "rx_ring (info waiting_example)" by (simp add: waiting_example_def rx_ring_def)
qed (simp_all add: waiting_example_def initialised_example_def open_example_def zero_info_def dark_env_def tst_def running_tty_def)

end
