(* ===== verification/R56_Netisr.thy ===== *)
theory R56_Netisr
  imports R56_Net
begin

text \<open>
  The handlers of a driver that has the network interface compiled in (\<open>R56_GENERIC_HDLC\<close>): the
  receive path, the transmit status and pin interrupts and the transmit time-out, which serve the network device while
  it is up, and the dispatch and the bottom half over them. The other handlers are those of the driver without it.

  The lemmas show that the interface is transparent while it is down, and what reaches the network while it is up.
\<close>

subsection \<open>Receive\<close>

text \<open>The frame goes to the network device while it is up, else to the line discipline.\<close>

definition net_deliver :: "u8 list option \<Rightarrow> net \<Rightarrow> net option" where
  "net_deliver frame n =
    (case frame of
       None \<Rightarrow> Some n
     | Some bs \<Rightarrow>
         if netcount (ninfo n) \<noteq> 0 then hdlcdev_rx bs (int (length bs)) n
         else Some (n\<lparr> nworld := ldisc_receive_buf bs (nworld n) \<rparr>))"

definition net_get_rx_frame :: "net \<Rightarrow> (bool \<times> net) option" where
  "net_get_rx_frame n =
    (let StartIndex = unat (current_rx_buffer (ninfo n))
     in do { r \<leftarrow> rx_find_end (unat (rx_buffer_count (ninfo n))) (rx_buffer_list (ninfo n)) StartIndex StartIndex;
             case r of
               Rx_none EndIndex \<Rightarrow> do { n \<leftarrow> on_world (rx_cleanup EndIndex) n; Some (False, n) }
             | Rx_wrapped EndIndex \<Rightarrow>
                 do { n \<leftarrow> (if rx_enabled (ninfo n) then on_world usc_start_receiver n else Some n);
                      n \<leftarrow> on_world (rx_cleanup EndIndex) n;
                      Some (False, n) }
             | Rx_frame EndIndex \<Rightarrow>
                 do { e \<leftarrow> aget (rx_buffer_list (ninfo n)) EndIndex;
                      n \<leftarrow> (if tst (status e) RXSTATUS_ERRORS
                            then net_rx_error (n\<lparr> nworld := count_rx_error (status e) (nworld n) \<rparr>) else Some n);
                      (frame, w) \<leftarrow> rx_assemble StartIndex e (nworld n);
                      n \<leftarrow> net_deliver frame (n\<lparr> nworld := w \<rparr>);
                      n \<leftarrow> on_world (r56_free_rx_frame_buffers StartIndex EndIndex) n;
                      n \<leftarrow> on_world (rx_cleanup EndIndex) n;
                      Some (True, n) } })"

text \<open>Raw frames go to the line discipline in any case.\<close>

definition net_get_raw_rx_frame :: "net \<Rightarrow> (bool \<times> net) option" where
  "net_get_raw_rx_frame n =
    do { (r, w) \<leftarrow> r56_get_raw_rx_frame (nworld n); Some (r, n\<lparr> nworld := w \<rparr>) }"

partial_function (option) net_bh_receive_loop :: "bool \<Rightarrow> net \<Rightarrow> net option" where
  [code]: "net_bh_receive_loop hdlc n =
    (if rx_rcc_underrun (ninfo n) then on_world usc_start_receiver n
     else do { (r, n) \<leftarrow> (if hdlc then net_get_rx_frame n else net_get_raw_rx_frame n);
               if r then net_bh_receive_loop hdlc n else Some n })"

definition net_bh_receive :: "net \<Rightarrow> net option" where
  "net_bh_receive n = net_bh_receive_loop (mode (params (ninfo n)) = R56_MODE_HDLC) n"

definition net_bh_work :: "u32 \<Rightarrow> net \<Rightarrow> net option" where
  "net_bh_work action n = (if action = BH_RECEIVE then net_bh_receive n else on_world (bh_work action) n)"

partial_function (option) net_bh_loop :: "net \<Rightarrow> net option" where
  [code]: "net_bh_loop n =
    (let (action, w) = r56_bh_action (nworld n);
         n = n\<lparr> nworld := w \<rparr>
     in if action \<noteq> 0 then do { n \<leftarrow> net_bh_work action n; net_bh_loop n } else Some n)"

definition net_bh_handler :: "net \<Rightarrow> net option" where
  "net_bh_handler n = net_bh_loop (set_ninfo (bh_running_update (\<lambda>_. True)) n)"

subsection \<open>Transmit\<close>

definition net_isr_transmit_status :: "net \<Rightarrow> net option" where
  "net_isr_transmit_status n =
    (let n = n\<lparr> nworld := tx_status_common (nworld n) \<rparr>
     in if netcount (ninfo n) \<noteq> 0 then hdlcdev_tx_done n
        else do { tty \<leftarrow> port_tty (ninfo n);
                  on_world (\<lambda>w. Some (if stopped tty \<or> hw_stopped tty then usc_stop_transmitter w
                                      else request_bh BH_TRANSMIT w)) n })"

definition net_tx_timeout :: "net \<Rightarrow> net option" where
  "net_tx_timeout n =
    (let w = nworld n;
         w = (if tx_active (info w) \<and> sync_mode (info w)
              then set_icount (ic_txtimeout_update (\<lambda>n. n + 1)) w else w);
         w = set_info (\<lambda>i. i\<lparr> tx_active := False, xmit_cnt := 0, xmit_head := 0, xmit_tail := 0 \<rparr>) w;
         w = (if tst (flags (params (info w))) HDLC_FLAG_HDLC_LOOPMODE
              then usc_loopmode_cancel_transmit w else w);
         n = n\<lparr> nworld := w \<rparr>
     in if netcount (ninfo n) \<noteq> 0 then hdlcdev_tx_done n else on_world (\<lambda>w. Some (r56_bh_transmit w)) n)"

subsection \<open>Pins\<close>

definition net_io_pin_counters :: "u16 \<Rightarrow> net \<Rightarrow> net option" where
  "net_io_pin_counters stat n =
    (let w = nworld n;
         w = io_pin_edge (tst stat MISCSTATUS_RI_LATCHED) SICR_RI ri_chkcount (bump_ri stat) w;
         w = io_pin_edge (tst stat MISCSTATUS_DSR_LATCHED) SICR_DSR dsr_chkcount (bump_dsr stat) w;
         w = io_pin_edge (tst stat MISCSTATUS_DCD_LATCHED) SICR_DCD dcd_chkcount (bump_dcd stat) w;
         n = n\<lparr> nworld := w \<rparr>
     in do { n \<leftarrow> (if tst stat MISCSTATUS_DCD_LATCHED then net_dcd_changed stat n else Some n);
             on_world (\<lambda>w. Some (kcall (Wake_up_interruptible Event_wait_q)
                 (kcall (Wake_up_interruptible Status_event_wait_q)
                    (io_pin_edge (tst stat MISCSTATUS_CTS_LATCHED) SICR_CTS cts_chkcount (bump_cts stat) w)))) n })"

definition net_isr_io_pin :: "net \<Rightarrow> net option" where
  "net_isr_io_pin n =
    (let (stat, w) = usc_InReg (nworld n) MISR;
         w = usc_ClearIrqPendingBits w IO_PIN;
         w = usc_UnlatchIostatusBits w stat;
         n = n\<lparr> nworld := w \<rparr>
     in if tst stat (MISCSTATUS_CTS_LATCHED OR MISCSTATUS_DCD_LATCHED OR MISCSTATUS_DSR_LATCHED OR MISCSTATUS_RI_LATCHED)
        then do { n \<leftarrow> net_io_pin_counters stat n;
                  (return, w) \<leftarrow> io_pin_cts_flow stat (io_pin_carrier stat (nworld n));
                  Some (n\<lparr> nworld := if return then w else io_pin_end stat w \<rparr>) }
        else Some (n\<lparr> nworld := io_pin_end stat w \<rparr>))"

subsection \<open>Dispatch\<close>

definition net_UscIsrTable :: "(net \<Rightarrow> net option) list" where
  "net_UscIsrTable =
     [on_world r56_isr_null, on_world r56_isr_misc, net_isr_io_pin, on_world r56_isr_transmit_data,
      net_isr_transmit_status, on_world r56_isr_receive_data, on_world r56_isr_receive_status]"

definition net_dispatch_vector :: "u16 \<Rightarrow> u16 \<Rightarrow> net \<Rightarrow> net option" where
  "net_dispatch_vector UscVector DmaVector n =
    (if UscVector \<noteq> 0 then do { isr \<leftarrow> aget net_UscIsrTable (unat UscVector); isr n }
     else if DmaVector AND (BIT10 OR BIT9) = BIT10 then on_world r56_isr_transmit_dma n
     else on_world r56_isr_receive_dma n)"

definition net_interrupt :: "net \<Rightarrow> net option" where
  "net_interrupt n =
    (let (v, w) = usc_InReg (nworld n) IVR;
         (DmaVector, w) = usc_InDmaReg w DIVR
     in do { n \<leftarrow> net_dispatch_vector (drop_bit 9 v) DmaVector (n\<lparr> nworld := w \<rparr>);
             on_world (\<lambda>w. Some (schedule_bh
               (if isr_overflow (info w) \<noteq> 0
                then usc_DisableDmaInterrupts (usc_DisableMasterIrqBit w) DICR_MASTER else w))) n })"

subsection \<open>Transparent while it is down\<close>

lemma nworld_twice: "n\<lparr> nworld := v, nworld := w \<rparr> = n\<lparr> nworld := w \<rparr>"
  by simp

lemma on_world_nworld: "on_world f (n\<lparr> nworld := w \<rparr>) = do { w \<leftarrow> f w; Some (n\<lparr> nworld := w \<rparr>) }"
  by (simp add: on_world_def)

lemma netcount_tx_status [simp]: "netcount (info (tx_status_common w)) = netcount (info w)"
  by (simp add: tx_status_common_def Let_def case_prod_unfold count_tx_end_def del_timer_def tx_drop_rts_def)

lemma isr_transmit_status_down:
  "netcount (ninfo n) = 0 \<Longrightarrow> net_isr_transmit_status n = on_world r56_isr_transmit_status n"
  unfolding net_isr_transmit_status_def r56_isr_transmit_status_def on_world_def ninfo_def Let_def
  by (cases "port_tty (info (tx_status_common (nworld n)))") simp_all

lemma netcount_io_pin_edge:
  "netcount (info (io_pin_edge l s c b w)) = netcount (info w)" if "\<And>i. netcount (b i) = netcount i"
  using that by (simp add: io_pin_edge_def Let_def)

lemma netcount_bump [simp]:
  "netcount (bump_ri s i) = netcount i" "netcount (bump_dsr s i) = netcount i" "netcount (bump_dcd s i) = netcount i"
  "netcount (bump_cts s i) = netcount i"
  by (simp_all add: bump_ri_def bump_dsr_def bump_dcd_def bump_cts_def)

lemma io_pin_counters_down:
  "netcount (ninfo n) = 0 \<Longrightarrow> net_io_pin_counters stat n = on_world (\<lambda>w. Some (io_pin_counters stat w)) n"
  unfolding net_io_pin_counters_def io_pin_counters_def on_world_def ninfo_def net_dcd_changed_def Let_def
  by (simp add: netcount_io_pin_edge ninfo_def)

lemma isr_io_pin_down: "netcount (ninfo n) = 0 \<Longrightarrow> net_isr_io_pin n = on_world r56_isr_io_pin n"
proof -
  assume z: "netcount (ninfo n) = 0"
  define stat where "stat = fst (usc_InReg (nworld n) MISR)"
  define w where "w = usc_UnlatchIostatusBits (usc_ClearIrqPendingBits (snd (usc_InReg (nworld n) MISR)) IO_PIN) stat"
  have "netcount (ninfo (n\<lparr> nworld := w \<rparr>)) = 0" using z by (simp add: ninfo_def w_def)
  note down = io_pin_counters_down [OF this]
  have net: "net_isr_io_pin n =
    (if tst stat (MISCSTATUS_CTS_LATCHED OR MISCSTATUS_DCD_LATCHED OR MISCSTATUS_DSR_LATCHED OR MISCSTATUS_RI_LATCHED)
     then do { n \<leftarrow> net_io_pin_counters stat (n\<lparr> nworld := w \<rparr>);
               (return, w) \<leftarrow> io_pin_cts_flow stat (io_pin_carrier stat (nworld n));
               Some (n\<lparr> nworld := if return then w else io_pin_end stat w \<rparr>) }
     else Some (n\<lparr> nworld := io_pin_end stat w \<rparr>))"
    unfolding net_isr_io_pin_def case_prod_unfold Let_def w_def stat_def by (simp only: nworld_twice)
  have isr: "r56_isr_io_pin (nworld n) =
    do { (return, w) \<leftarrow>
           (if tst stat (MISCSTATUS_CTS_LATCHED OR MISCSTATUS_DCD_LATCHED OR MISCSTATUS_DSR_LATCHED OR MISCSTATUS_RI_LATCHED)
            then io_pin_cts_flow stat (io_pin_carrier stat (io_pin_counters stat w))
            else Some (False, w));
         Some (if return then w else io_pin_end stat w) }"
    unfolding r56_isr_io_pin_def case_prod_unfold Let_def w_def stat_def ..
  show ?thesis
  proof (cases "tst stat (MISCSTATUS_CTS_LATCHED OR MISCSTATUS_DCD_LATCHED OR MISCSTATUS_DSR_LATCHED OR MISCSTATUS_RI_LATCHED)")
    case True
    show ?thesis
      unfolding on_world_def [of r56_isr_io_pin] isr net down
      by (simp only: True if_True on_world_nworld)
        (cases "io_pin_cts_flow stat (io_pin_carrier stat (io_pin_counters stat w))", simp_all add: case_prod_unfold)
  next
    case False
    show ?thesis unfolding on_world_def [of r56_isr_io_pin] isr net by (simp only: False if_False) simp
  qed
qed

lemma netcount_loopmode_cancel [simp]: "netcount (info (usc_loopmode_cancel_transmit w)) = netcount (info w)"
  by (simp add: usc_loopmode_cancel_transmit_def usc_loopmode_send_done_def Let_def)

lemma tx_timeout_down:
  "netcount (ninfo n) = 0 \<Longrightarrow> net_tx_timeout n = on_world (\<lambda>w. Some (r56_tx_timeout w)) n"
  unfolding net_tx_timeout_def r56_tx_timeout_def on_world_def ninfo_def Let_def by (simp add: ninfo_def)

lemma dispatch_down:
  assumes "netcount (ninfo n) = 0"
  shows "net_dispatch_vector u d n = on_world (dispatch_vector u d) n"
proof (cases "u = 0")
  case True
  then show ?thesis by (simp add: net_dispatch_vector_def dispatch_vector_def on_world_def)
next
  case False
  define k where "k = unat u"
  have "do { isr \<leftarrow> aget net_UscIsrTable k; isr n } = on_world (\<lambda>w. do { isr \<leftarrow> aget UscIsrTable k; isr w }) n"
  proof (cases "k < 7")
    case True
    then have "k \<in> {0, 1, 2, 3, 4, 5, 6}" by auto
    then show ?thesis
      using isr_io_pin_down [OF assms] isr_transmit_status_down [OF assms]
      by (auto simp: aget_def net_UscIsrTable_def UscIsrTable_def on_world_def)
  next
    case False
    then show ?thesis by (simp add: aget_def net_UscIsrTable_def UscIsrTable_def on_world_def)
  qed
  then show ?thesis using False by (simp add: net_dispatch_vector_def dispatch_vector_def k_def on_world_def)
qed

lemma interrupt_down:
  assumes "netcount (ninfo n) = 0"
  shows "net_interrupt n = on_world r56_interrupt n"
proof -
  define v w d w2 where "v = fst (usc_InReg (nworld n) IVR)" and "w = snd (usc_InReg (nworld n) IVR)"
    and "d = fst (usc_InDmaReg w DIVR)" and "w2 = snd (usc_InDmaReg w DIVR)"
  have "netcount (ninfo (n\<lparr> nworld := w2 \<rparr>)) = 0"
    using assms by (simp add: ninfo_def w2_def w_def usc_InDmaReg_def)
  note down = dispatch_down [OF this]
  show ?thesis
    unfolding net_interrupt_def r56_interrupt_def case_prod_unfold Let_def on_world_def [of _ n]
      v_def [symmetric] w_def [symmetric] d_def [symmetric] w2_def [symmetric] down
    by (cases "dispatch_vector (drop_bit 9 v) d w2") (simp_all add: on_world_def)
qed

subsection \<open>The receive path\<close>

text \<open>A frame handed to the network: what is counted and called.\<close>

lemma hdlcdev_rx_world:
  assumes "netdev n \<noteq> None"
  shows "\<exists>n'. hdlcdev_rx bs (int (length bs)) n = Some n' \<and> nworld n' = nworld n \<and> netdev n' \<noteq> None"
  using assms by (auto simp: hdlcdev_rx_def Let_def case_prod_unfold)

lemma net_deliver_world:
  assumes "netdev n \<noteq> None" "netcount (ninfo n) = 0 \<or> port_tty (ninfo n) = None"
  shows "\<exists>n'. net_deliver frame n = Some n' \<and> netdev n' \<noteq> None \<and>
    nworld n' = (case frame of None \<Rightarrow> nworld n | Some bs \<Rightarrow> ldisc_receive_buf bs (nworld n))"
proof (cases frame)
  case (Some bs)
  then show ?thesis
    using assms hdlcdev_rx_world [OF assms(1), of bs] by (auto simp: net_deliver_def ldisc_receive_buf_def ninfo_def)
next
  case None
  then show ?thesis using assms(1) by (simp add: net_deliver_def)
qed

text \<open>The conditions under which the driver's own state evolves as without the interface.\<close>

definition net_ok :: "net \<Rightarrow> bool" where
  "net_ok n \<longleftrightarrow> netdev n \<noteq> None \<and> (netcount (ninfo n) = 0 \<or> port_tty (ninfo n) = None)"

text \<open>A step of the driver with the interface that is one without it on the instance.\<close>

definition same_step :: "net \<Rightarrow> ('a \<times> net) option \<Rightarrow> ('a \<times> world) option \<Rightarrow> bool" where
  "same_step n s t \<longleftrightarrow>
     (case t of None \<Rightarrow> s = None
      | Some (r, w') \<Rightarrow> \<exists>n'. s = Some (r, n') \<and> nworld n' = w' \<and> netdev n' \<noteq> None)"

lemma count_rx_error_netcount [simp]:
  "netcount (info (count_rx_error st w)) = netcount (info w)"
  by (simp add: count_rx_error_def)

lemma rx_assemble_frame:
  assumes "rx_assemble s e w = Some (frame, w')"
  shows "netcount (info w') = netcount (info w)" "port_tty (info w') = port_tty (info w)"
  using assms by (auto simp: rx_assemble_def Let_def split: if_splits Option.bind_splits)

text \<open>From the assembled frame on.\<close>

lemma same_tail:
  assumes dev: "netdev n1 \<noteq> None" and w1: "netcount (info w1) = 0 \<or> port_tty (info w1) = None"
  shows "same_step n
    (do { (frame, w) \<leftarrow> rx_assemble s e w1;
          n \<leftarrow> net_deliver frame (n1\<lparr> nworld := w \<rparr>);
          n \<leftarrow> on_world (r56_free_rx_frame_buffers s j) n;
          n \<leftarrow> on_world (rx_cleanup j) n;
          Some (True, n) })
    (do { w \<leftarrow> rx_deliver s e w1;
          w \<leftarrow> r56_free_rx_frame_buffers s j w;
          w \<leftarrow> rx_cleanup j w;
          Some (True, w) })"
proof (cases "rx_assemble s e w1")
  case None
  then show ?thesis by (simp add: rx_deliver_def same_step_def)
next
  case (Some p)
  obtain frame w2 where p: "p = (frame, w2)" by fastforce
  have "netdev (n1\<lparr> nworld := w2 \<rparr>) \<noteq> None"
    "netcount (ninfo (n1\<lparr> nworld := w2 \<rparr>)) = 0 \<or> port_tty (ninfo (n1\<lparr> nworld := w2 \<rparr>)) = None"
    using dev w1 rx_assemble_frame [of s e w1 frame w2] Some p by (simp_all add: ninfo_def)
  from net_deliver_world [OF this, of frame] obtain n3 where
    n3: "net_deliver frame (n1\<lparr> nworld := w2 \<rparr>) = Some n3" "netdev n3 \<noteq> None"
    "nworld n3 = (case frame of None \<Rightarrow> w2 | Some bs \<Rightarrow> ldisc_receive_buf bs w2)" by (auto cong: option.case_cong)
  have d: "rx_deliver s e w1 = Some (nworld n3)" by (simp add: rx_deliver_def Some p n3(3))
  show ?thesis
  proof (cases "r56_free_rx_frame_buffers s j (nworld n3)")
    case None
    then show ?thesis by (simp add: d same_step_def Some p n3(1) on_world_def)
  next
    case freed: (Some w4)
    then show ?thesis
      using n3(2) by (cases "rx_cleanup j w4") (simp_all add: d same_step_def Some p n3(1) on_world_def)
  qed
qed

lemma get_rx_frame_same:
  assumes ok: "net_ok n"
  shows "same_step n (net_get_rx_frame n) (r56_get_rx_frame (nworld n))"
proof (cases "rx_find_end (unat (rx_buffer_count (ninfo n))) (rx_buffer_list (ninfo n)) (unat (current_rx_buffer (ninfo n)))
    (unat (current_rx_buffer (ninfo n)))")
  case None
  then show ?thesis by (simp add: net_get_rx_frame_def r56_get_rx_frame_def ninfo_def same_step_def)
next
  case (Some r)
  note found = Some [unfolded ninfo_def]
  show ?thesis
  proof (cases r)
    case (Rx_none j)
    then show ?thesis using found ok
      by (cases "rx_cleanup j (nworld n)")
        (simp_all add: net_get_rx_frame_def r56_get_rx_frame_def ninfo_def same_step_def on_world_def net_ok_def)
  next
    case (Rx_wrapped j)
    define v where "v = (if rx_enabled (info (nworld n)) then usc_start_receiver (nworld n) else Some (nworld n))"
    have net: "(if rx_enabled (info (nworld n)) then on_world usc_start_receiver n else Some n) =
        map_option (\<lambda>w. n\<lparr> nworld := w \<rparr>) v"
      by (cases "usc_start_receiver (nworld n)") (simp_all add: v_def on_world_def)
    show ?thesis
    proof (cases v)
      case None
      then show ?thesis using found Rx_wrapped
        by (simp add: net_get_rx_frame_def r56_get_rx_frame_def ninfo_def same_step_def net v_def [symmetric])
    next
      case (Some w1)
      then show ?thesis using found Rx_wrapped ok
        by (cases "rx_cleanup j w1")
          (simp_all add: net_get_rx_frame_def r56_get_rx_frame_def ninfo_def same_step_def net v_def [symmetric] on_world_def net_ok_def)
    qed
  next
    case (Rx_frame j)
    show ?thesis
    proof (cases "aget (rx_buffer_list (info (nworld n))) j")
      case None
      then show ?thesis using found Rx_frame
        by (simp add: net_get_rx_frame_def r56_get_rx_frame_def ninfo_def same_step_def)
    next
      case (Some e)
      define s where "s = unat (current_rx_buffer (info (nworld n)))"
      define w1 where "w1 = (if tst (status e) RXSTATUS_ERRORS then count_rx_error (status e) (nworld n) else nworld n)"
      have "\<exists>n1. (if tst (status e) RXSTATUS_ERRORS
          then net_rx_error (n\<lparr> nworld := count_rx_error (status e) (nworld n) \<rparr>) else Some n) = Some n1 \<and>
        nworld n1 = w1 \<and> netdev n1 \<noteq> None"
        using ok by (cases "tst (status e) RXSTATUS_ERRORS") (auto simp: net_rx_error_def w1_def net_ok_def)
      then obtain n1 where n1: "(if tst (status e) RXSTATUS_ERRORS
          then net_rx_error (n\<lparr> nworld := count_rx_error (status e) (nworld n) \<rparr>) else Some n) = Some n1"
        "nworld n1 = w1" "netdev n1 \<noteq> None" by blast
      have w1: "netcount (info w1) = 0 \<or> port_tty (info w1) = None"
        using ok by (auto simp: w1_def net_ok_def ninfo_def)
      have eq: "net_get_rx_frame n =
        do { (frame, w) \<leftarrow> rx_assemble s e w1;
             n \<leftarrow> net_deliver frame (n1\<lparr> nworld := w \<rparr>);
             n \<leftarrow> on_world (r56_free_rx_frame_buffers s j) n;
             n \<leftarrow> on_world (rx_cleanup j) n;
             Some (True, n) }"
        unfolding net_get_rx_frame_def Let_def ninfo_def s_def [symmetric] 
        by (simp only: found [folded s_def] Rx_frame rx_search.case bind.bind_lunit Some n1(1,2))
      have eq': "r56_get_rx_frame (nworld n) =
        do { w \<leftarrow> rx_deliver s e w1;
             w \<leftarrow> r56_free_rx_frame_buffers s j w;
             w \<leftarrow> rx_cleanup j w;
             Some (True, w) }"
        unfolding r56_get_rx_frame_def Let_def s_def [symmetric]
        by (simp only: found [folded s_def] Rx_frame rx_search.case bind.bind_lunit Some w1_def)
      from same_tail [OF n1(3) w1] show ?thesis unfolding eq eq' .
    qed
  qed
qed

lemma get_raw_same:
  "net_ok n \<Longrightarrow> same_step n (net_get_raw_rx_frame n) (r56_get_raw_rx_frame (nworld n))"
  by (auto simp: same_step_def net_get_raw_rx_frame_def net_ok_def split: option.split)

lemma net_ok_but_rx:
  assumes "net_ok n" "but_rx (info w') = but_rx (ninfo n)" "nworld n' = w'" "netdev n' \<noteq> None"
  shows "net_ok n'"
proof -
  have "netcount (info w') = netcount (ninfo n)" using arg_cong [OF assms(2), of netcount] by (simp add: but_rx_def)
  moreover have "port_tty (info w') = port_tty (ninfo n)" using arg_cong [OF assms(2), of port_tty] by (simp add: but_rx_def)
  ultimately show ?thesis using assms(1,3,4) by (simp add: net_ok_def ninfo_def)
qed

text \<open>A step of a loop, and a loop that runs in the instance alone as long as it does with the interface.\<close>

definition runs_as :: "net option \<Rightarrow> world option \<Rightarrow> bool" where
  "runs_as s t \<longleftrightarrow> (case t of None \<Rightarrow> s = None | Some w' \<Rightarrow> \<exists>n'. s = Some n' \<and> nworld n' = w' \<and> netdev n' \<noteq> None)"

lemma runs_as_on_world: "netdev n \<noteq> None \<Longrightarrow> runs_as (on_world f n) (f (nworld n))"
  by (auto simp: runs_as_def on_world_def split: option.split)

lemma get_step:
  assumes "net_ok n" and t: "(if hdlc then r56_get_rx_frame (nworld n) else r56_get_raw_rx_frame (nworld n)) = Some (r, w')"
  shows "\<exists>n'. (if hdlc then net_get_rx_frame n else net_get_raw_rx_frame n) = Some (r, n') \<and> nworld n' = w' \<and> net_ok n'"
proof -
  have "same_step n (if hdlc then net_get_rx_frame n else net_get_raw_rx_frame n)
      (if hdlc then r56_get_rx_frame (nworld n) else r56_get_raw_rx_frame (nworld n))"
    using get_rx_frame_same [OF assms(1)] get_raw_same [OF assms(1)] by simp
  then obtain n' where n': "(if hdlc then net_get_rx_frame n else net_get_raw_rx_frame n) = Some (r, n')" "nworld n' = w'"
    "netdev n' \<noteq> None" unfolding t by (auto simp: same_step_def)
  have "but_rx (info w') = but_rx (ninfo n)"
    using t by (cases hdlc) (auto simp: ninfo_def dest: get_rx_frame_but_rx get_raw_rx_frame_but_rx)
  from net_ok_but_rx [OF assms(1) this n'(2,3)] n' show ?thesis by blast
qed

lemma get_step_back:
  assumes "net_ok n" and s: "(if hdlc then net_get_rx_frame n else net_get_raw_rx_frame n) = Some (r, n')"
  shows "(if hdlc then r56_get_rx_frame (nworld n) else r56_get_raw_rx_frame (nworld n)) = Some (r, nworld n') \<and> net_ok n'"
proof (cases "if hdlc then r56_get_rx_frame (nworld n) else r56_get_raw_rx_frame (nworld n)")
  case None
  have "same_step n (if hdlc then net_get_rx_frame n else net_get_raw_rx_frame n)
      (if hdlc then r56_get_rx_frame (nworld n) else r56_get_raw_rx_frame (nworld n))"
    using get_rx_frame_same [OF assms(1)] get_raw_same [OF assms(1)] by simp
  then show ?thesis unfolding s None by (simp add: same_step_def)
next
  case (Some p)
  then show ?thesis using get_step [OF assms(1), of hdlc "fst p" "snd p"] s by auto
qed

lemma start_receiver_ok:
  assumes "net_ok n"
  shows "map_option nworld (on_world usc_start_receiver n) = usc_start_receiver (nworld n)"
    "on_world usc_start_receiver n = Some n' \<Longrightarrow> net_ok n'"
proof -
  show "map_option nworld (on_world usc_start_receiver n) = usc_start_receiver (nworld n)"
    by (simp add: on_world_def map_conv_bind_option)
  assume "on_world usc_start_receiver n = Some n'"
  then obtain w where w: "usc_start_receiver (nworld n) = Some w" "n' = n\<lparr> nworld := w \<rparr>"
    by (auto simp: on_world_def bind_eq_Some_conv)
  have "but_rx (info w) = but_rx (ninfo n)" using rx_path_but_rx(1) [OF w(1)] by (simp add: ninfo_def)
  from net_ok_but_rx [OF assms this] show "net_ok n'" using w(2) assms by (simp add: net_ok_def)
qed

lemma net_receive_loop_forth:
  "bh_receive_loop hdlc w = Some w' \<Longrightarrow>
   \<forall>n. nworld n = w \<longrightarrow> net_ok n \<longrightarrow> (\<exists>n'. net_bh_receive_loop hdlc n = Some n' \<and> nworld n' = w' \<and> net_ok n')"
proof (rule bh_receive_loop.raw_induct [where P = "\<lambda>hdlc w w'. \<forall>n. nworld n = w \<longrightarrow> net_ok n \<longrightarrow>
    (\<exists>n'. net_bh_receive_loop hdlc n = Some n' \<and> nworld n' = w' \<and> net_ok n')"], intro allI impI)
  fix loop hdlc w w' n
  assume IH: "\<And>hdlc w w'. loop hdlc w = Some w' \<Longrightarrow>
      \<forall>n. nworld n = w \<longrightarrow> net_ok n \<longrightarrow> (\<exists>n'. net_bh_receive_loop hdlc n = Some n' \<and> nworld n' = w' \<and> net_ok n')"
    and body: "(if rx_rcc_underrun (info w) then usc_start_receiver w
       else (if hdlc then r56_get_rx_frame w else r56_get_raw_rx_frame w) \<bind>
            (\<lambda>(r, w). if r then loop hdlc w else Some w)) = Some w'"
    and n: "nworld n = w" and ok: "net_ok n"
  show "\<exists>n'. net_bh_receive_loop hdlc n = Some n' \<and> nworld n' = w' \<and> net_ok n'"
  proof (cases "rx_rcc_underrun (info w)")
    case True
    then show ?thesis using body start_receiver_ok [OF ok] n
      by (subst net_bh_receive_loop.simps) (auto simp: ninfo_def)
  next
    case False
    then obtain r w1 where t: "(if hdlc then r56_get_rx_frame w else r56_get_raw_rx_frame w) = Some (r, w1)"
      "(if r then loop hdlc w1 else Some w1) = Some w'"
      using body by (auto simp: bind_eq_Some_conv)
    from get_step [OF ok t(1) [folded n]] obtain n1 where
      n1: "(if hdlc then net_get_rx_frame n else net_get_raw_rx_frame n) = Some (r, n1)" "nworld n1 = w1" "net_ok n1" by blast
    have "net_bh_receive_loop hdlc n = (if r then net_bh_receive_loop hdlc n1 else Some n1)"
      using False n n1(1) by (subst net_bh_receive_loop.simps) (simp add: ninfo_def)
    then show ?thesis using IH [of hdlc w1 w'] t(2) n1(2,3) by (cases r) auto
  qed
qed

lemma net_receive_loop_back:
  "net_bh_receive_loop hdlc n = Some n' \<Longrightarrow> net_ok n \<longrightarrow> bh_receive_loop hdlc (nworld n) = Some (nworld n')"
proof (rule net_bh_receive_loop.raw_induct [where P = "\<lambda>hdlc n n'. net_ok n \<longrightarrow>
    bh_receive_loop hdlc (nworld n) = Some (nworld n')"], intro impI)
  fix loop hdlc n n'
  assume IH: "\<And>hdlc n n'. loop hdlc n = Some n' \<Longrightarrow> net_ok n \<longrightarrow> bh_receive_loop hdlc (nworld n) = Some (nworld n')"
    and body: "(if rx_rcc_underrun (ninfo n) then on_world usc_start_receiver n
       else (if hdlc then net_get_rx_frame n else net_get_raw_rx_frame n) \<bind>
            (\<lambda>(r, n). if r then loop hdlc n else Some n)) = Some n'"
    and ok: "net_ok n"
  show "bh_receive_loop hdlc (nworld n) = Some (nworld n')"
  proof (cases "rx_rcc_underrun (ninfo n)")
    case True
    then show ?thesis using body start_receiver_ok(1) [OF ok]
      by (subst bh_receive_loop.simps) (simp add: ninfo_def)
  next
    case False
    then obtain r n1 where t: "(if hdlc then net_get_rx_frame n else net_get_raw_rx_frame n) = Some (r, n1)"
      "(if r then loop hdlc n1 else Some n1) = Some n'"
      using body by (auto simp: bind_eq_Some_conv)
    note b = get_step_back [OF ok t(1)]
    have "bh_receive_loop hdlc (nworld n) = (if r then bh_receive_loop hdlc (nworld n1) else Some (nworld n1))"
      using False b by (subst bh_receive_loop.simps) (simp add: ninfo_def)
    then show ?thesis using IH [of hdlc n1 n'] t(2) b by (cases r) auto
  qed
qed

subsection \<open>The bottom half\<close>

lemma net_okI:
  "net_ok n \<Longrightarrow> netcount (info w) = netcount (ninfo n) \<Longrightarrow> port_tty (info w) = port_tty (ninfo n) \<Longrightarrow> net_ok (n\<lparr> nworld := w \<rparr>)"
  by (simp add: net_ok_def ninfo_def)

lemma bh_work_other:
  assumes "a \<noteq> BH_RECEIVE" "bh_work a w = Some w'"
  shows "netcount (info w') = netcount (info w)" "port_tty (info w') = port_tty (info w)"
  using assms by (auto simp: bh_work_def r56_bh_transmit_def r56_bh_status_def usc_loopmode_send_done_def Let_def split: if_splits)

lemma bh_work_forth:
  assumes t: "bh_work a (nworld n) = Some w'" and ok: "net_ok n"
  shows "\<exists>n'. net_bh_work a n = Some n' \<and> nworld n' = w' \<and> net_ok n'"
proof (cases "a = BH_RECEIVE")
  case True
  then show ?thesis
    using t ok net_receive_loop_forth [of "mode (params (info (nworld n))) = R56_MODE_HDLC" "nworld n" w']
    by (simp add: net_bh_work_def bh_work_def net_bh_receive_def r56_bh_receive_def ninfo_def)
next
  case False
  from net_okI [OF ok, of w'] bh_work_other [OF False t] have "net_ok (n\<lparr> nworld := w' \<rparr>)" by (simp add: ninfo_def)
  then show ?thesis using False t by (simp add: net_bh_work_def on_world_def)
qed

lemma bh_work_back:
  assumes s: "net_bh_work a n = Some n'" and ok: "net_ok n"
  shows "bh_work a (nworld n) = Some (nworld n') \<and> net_ok n'"
proof (cases "bh_work a (nworld n)")
  case None
  have "a = BH_RECEIVE"
  proof (rule ccontr)
    assume "a \<noteq> BH_RECEIVE"
    then show False using s None by (simp add: net_bh_work_def on_world_def)
  qed
  then show ?thesis
    using s ok None net_receive_loop_back [of "mode (params (info (nworld n))) = R56_MODE_HDLC" n n']
    by (simp add: net_bh_work_def bh_work_def net_bh_receive_def r56_bh_receive_def ninfo_def)
next
  case (Some w')
  then show ?thesis using bh_work_forth [OF Some ok] s by auto
qed

lemma bh_action_ok:
  assumes "net_ok n"
  shows "net_ok (n\<lparr> nworld := snd (r56_bh_action (nworld n)) \<rparr>)"
  by (rule net_okI [OF assms]) (simp_all add: r56_bh_action_def Let_def case_prod_unfold ninfo_def)

lemma net_bh_loop_forth:
  "bh_loop w = Some w' \<Longrightarrow>
   \<forall>n. nworld n = w \<longrightarrow> net_ok n \<longrightarrow> (\<exists>n'. net_bh_loop n = Some n' \<and> nworld n' = w' \<and> net_ok n')"
proof (rule bh_loop.raw_induct [where P = "\<lambda>w w'. \<forall>n. nworld n = w \<longrightarrow> net_ok n \<longrightarrow>
    (\<exists>n'. net_bh_loop n = Some n' \<and> nworld n' = w' \<and> net_ok n')"], intro allI impI)
  fix loop w w' n
  assume IH: "\<And>w w'. loop w = Some w' \<Longrightarrow>
      \<forall>n. nworld n = w \<longrightarrow> net_ok n \<longrightarrow> (\<exists>n'. net_bh_loop n = Some n' \<and> nworld n' = w' \<and> net_ok n')"
    and body: "(let (action, w) = r56_bh_action w
       in if action \<noteq> 0 then bh_work action w \<bind> loop else Some w) = Some w'"
    and n: "nworld n = w" and ok: "net_ok n"
  define a w1 where "a = fst (r56_bh_action w)" and "w1 = snd (r56_bh_action w)"
  have ok1: "net_ok (n\<lparr> nworld := w1 \<rparr>)" using bh_action_ok [OF ok] n by (simp add: w1_def)
  have step: "net_bh_loop n = (if a \<noteq> 0 then net_bh_work a (n\<lparr> nworld := w1 \<rparr>) \<bind> net_bh_loop else Some (n\<lparr> nworld := w1 \<rparr>))"
    by (subst net_bh_loop.simps) (simp add: n case_prod_unfold Let_def a_def w1_def)
  show "\<exists>n'. net_bh_loop n = Some n' \<and> nworld n' = w' \<and> net_ok n'"
  proof (cases "a = 0")
    case True
    then show ?thesis using step ok1 body by (simp add: a_def w1_def case_prod_unfold Let_def)
  next
    case False
    then obtain w2 where w2: "bh_work a w1 = Some w2" "loop w2 = Some w'"
      using body by (auto simp: case_prod_unfold Let_def bind_eq_Some_conv a_def w1_def)
    from bh_work_forth [OF _ ok1, of a w2] w2(1) obtain n2 where
      "net_bh_work a (n\<lparr> nworld := w1 \<rparr>) = Some n2" "nworld n2 = w2" "net_ok n2" by auto
    then show ?thesis using IH [OF w2(2)] False step by auto
  qed
qed

lemma net_bh_loop_back:
  "net_bh_loop n = Some n' \<Longrightarrow> net_ok n \<longrightarrow> bh_loop (nworld n) = Some (nworld n')"
proof (rule net_bh_loop.raw_induct [where P = "\<lambda>n n'. net_ok n \<longrightarrow> bh_loop (nworld n) = Some (nworld n')"], intro impI)
  fix loop n n'
  assume IH: "\<And>n n'. loop n = Some n' \<Longrightarrow> net_ok n \<longrightarrow> bh_loop (nworld n) = Some (nworld n')"
    and body: "(let (action, w) = r56_bh_action (nworld n); n = n\<lparr> nworld := w \<rparr>
       in if action \<noteq> 0 then net_bh_work action n \<bind> loop else Some n) = Some n'"
    and ok: "net_ok n"
  define a w1 where "a = fst (r56_bh_action (nworld n))" and "w1 = snd (r56_bh_action (nworld n))"
  have ok1: "net_ok (n\<lparr> nworld := w1 \<rparr>)" using bh_action_ok [OF ok] by (simp add: w1_def)
  have step: "bh_loop (nworld n) = (if a \<noteq> 0 then bh_work a w1 \<bind> bh_loop else Some w1)"
    by (subst bh_loop.simps) (simp add: case_prod_unfold Let_def a_def w1_def)
  show "bh_loop (nworld n) = Some (nworld n')"
  proof (cases "a = 0")
    case True
    then show ?thesis using step body by (auto simp: a_def w1_def case_prod_unfold Let_def)
  next
    case False
    then obtain n2 where n2: "net_bh_work a (n\<lparr> nworld := w1 \<rparr>) = Some n2" "loop n2 = Some n'"
      using body by (auto simp: case_prod_unfold Let_def bind_eq_Some_conv a_def w1_def)
    from bh_work_back [OF n2(1) ok1] IH [OF n2(2)] show ?thesis using False step by simp
  qed
qed

lemma net_bh_handler_same:
  assumes ok: "net_ok n"
  shows "map_option nworld (net_bh_handler n) = r56_bh_handler (nworld n)"
proof -
  define m where "m = set_ninfo (bh_running_update (\<lambda>_. True)) n"
  have m: "net_ok m" "nworld m = set_info (bh_running_update (\<lambda>_. True)) (nworld n)"
    using ok by (simp_all add: m_def set_ninfo_def net_ok_def ninfo_def)
  have "map_option nworld (net_bh_loop m) = bh_loop (nworld m)"
  proof (cases "net_bh_loop m")
    case None
    then show ?thesis using net_bh_loop_forth [of "nworld m"] m(1) by (cases "bh_loop (nworld m)") auto
  next
    case (Some m')
    then show ?thesis using net_bh_loop_back [OF Some] m(1) by simp
  qed
  then show ?thesis by (simp add: net_bh_handler_def r56_bh_handler_def m_def [symmetric] m(2) [symmetric])
qed

subsection \<open>What reaches the network\<close>

text \<open>The calls and the counters of one received frame, with the bytes that are handed on, if any.\<close>

definition net_rx_calls :: "net \<Rightarrow> u8 list option \<Rightarrow> ncall list" where
  "net_rx_calls n frame =
    (case frame of
       None \<Rightarrow> []
     | Some bs \<Rightarrow> let alloc = Dev_alloc_skb (int (length bs))
                  in if nret n (ncalls n @ [alloc]) = 0 then [alloc] else [alloc, Netif_rx bs])"

definition net_rx_stats :: "net \<Rightarrow> u16 \<Rightarrow> u8 list option \<Rightarrow> net_stats \<Rightarrow> net_stats" where
  "net_rx_stats n st frame s =
    (let s = (if tst st RXSTATUS_ERRORS
              then s\<lparr> ns_rx_errors := ns_rx_errors s + 1, ns_rx_frame_errors := ns_rx_frame_errors s + 1 \<rparr> else s)
     in case frame of
          None \<Rightarrow> s
        | Some bs \<Rightarrow>
            if nret n (ncalls n @ [Dev_alloc_skb (int (length bs))]) = 0 then s\<lparr> ns_rx_dropped := ns_rx_dropped s + 1 \<rparr>
            else s\<lparr> ns_rx_packets := ns_rx_packets s + 1, ns_rx_bytes := ns_rx_bytes s + of_nat (length bs) \<rparr>)"

lemma net_deliver_up:
  assumes "netdev n = Some d" "netcount (ninfo n) \<noteq> 0"
  shows "\<exists>n' d'. net_deliver frame n = Some n' \<and> nworld n' = nworld n \<and> netdev n' = Some d' \<and>
    ncalls n' = ncalls n @ net_rx_calls n frame \<and> dev_stats d' = net_rx_stats n 0 frame (dev_stats d)"
proof (cases frame)
  case None
  then show ?thesis using assms by (simp add: net_deliver_def net_rx_calls_def net_rx_stats_def tst_def)
next
  case (Some bs)
  define alloc where "alloc = Dev_alloc_skb (int (length bs))"
  have skb: "fst (ncall alloc n) = nret n (ncalls n @ [alloc])" by (simp add: ncall_def Let_def)
  show ?thesis
    using assms Some
    by (cases "nret n (ncalls n @ [alloc]) = 0")
      (simp_all add: net_deliver_def hdlcdev_rx_def net_rx_calls_def net_rx_stats_def tst_def Let_def case_prod_unfold
        alloc_def [symmetric] skb)
qed

text \<open>The search for the next frame finds a complete one.\<close>

lemma find_frame:
  assumes "rx_ready i" "s = unat (current_rx_buffer i)" "rx_next_frame (rx_buffer_list i) s = Rx_frame j"
  shows "rx_find_end (unat (rx_buffer_count i)) (rx_buffer_list i) s s = Some (Rx_frame j)"
    "aget (rx_buffer_list i) j = Some (rx_buffer_list i ! j)" "s < length (rx_buffer_list i)"
proof -
  have "rx_ring i" using assms(1) by (rule rx_readyE)
  then have sl: "s < length (rx_buffer_list i)" and len: "unat (rx_buffer_count i) = length (rx_buffer_list i)"
    by (simp_all add: rx_ring_def assms(2))
  show "rx_find_end (unat (rx_buffer_count i)) (rx_buffer_list i) s s = Some (Rx_frame j)"
    using rx_find_end_eq [OF sl] assms(3) len by simp
  show "aget (rx_buffer_list i) j = Some (rx_buffer_list i ! j)"
    using rx_next_frame_index [OF sl] assms(3) sl by (auto simp: aget_def)
  show "s < length (rx_buffer_list i)" by (rule sl)
qed

text \<open>The frame is assembled and handed on, with its status \<open>st\<close> counted before.\<close>

lemma net_frame_delivered:
  assumes ready: "rx_ready (ninfo n)" and sl: "s < length (rx_buffer_list (ninfo n))"
    and up: "netcount (ninfo n) \<noteq> 0" "netdev n = Some d"
  shows "\<exists>n1 w2 n3 d3.
    (if tst (status e) RXSTATUS_ERRORS then net_rx_error (n\<lparr> nworld := count_rx_error (status e) (nworld n) \<rparr>)
     else Some n) = Some n1 \<and>
    rx_assemble s e (nworld n1) = Some (rx_payload (nworld n) s e, w2) \<and>
    net_deliver (rx_payload (nworld n) s e) (n1\<lparr> nworld := w2 \<rparr>) = Some n3 \<and> netdev n3 = Some d3 \<and>
    ncalls n3 = ncalls n @ net_rx_calls n (rx_payload (nworld n) s e) \<and>
    dev_stats d3 = net_rx_stats n (status e) (rx_payload (nworld n) s e) (dev_stats d)"
proof -
  define w where "w = nworld n"
  have i: "ninfo n = info w" by (simp add: ninfo_def w_def)
  define w1 where "w1 = (if tst (status e) RXSTATUS_ERRORS then count_rx_error (status e) w else w)"
  define d1 where "d1 = d\<lparr> dev_stats := net_rx_stats n (status e) None (dev_stats d) \<rparr>"
  define n1 where "n1 = n\<lparr> nworld := w1, netdev := Some d1 \<rparr>"
  have err: "(if tst (status e) RXSTATUS_ERRORS then net_rx_error (n\<lparr> nworld := count_rx_error (status e) (nworld n) \<rparr>)
      else Some n) = Some n1"
    using up by (simp add: net_rx_error_def n1_def w1_def d1_def net_rx_stats_def set_dev_def w_def)
  have w1: "rx_ready (info w1)" "s < length (rx_buffer_list (info w1))" "rx_payload w1 s e = rx_payload w s e"
    "netcount (info w1) = netcount (info w)"
    using ready sl by (simp_all add: w1_def i)
  from rx_assemble_total [OF w1(1,2), of e] obtain b w2 where w2: "rx_assemble s e w1 = Some (rx_payload w s e, w2)"
    "info w2 = (info w1)\<lparr> intermediate_rxbuffer := Some b, icount := rx_counters (info w1) e (icount (info w1)) \<rparr>"
    using w1(3) by auto
  have "netdev (n1\<lparr> nworld := w2 \<rparr>) = Some d1" "netcount (ninfo (n1\<lparr> nworld := w2 \<rparr>)) \<noteq> 0"
    using up w1(4) by (simp_all add: n1_def w2(2) i) (simp add: ninfo_def w2(2))
  from net_deliver_up [OF this, of "rx_payload w s e"] obtain n3 d3 where
    n3: "net_deliver (rx_payload w s e) (n1\<lparr> nworld := w2 \<rparr>) = Some n3" "netdev n3 = Some d3"
      "ncalls n3 = ncalls n @ net_rx_calls n (rx_payload w s e)"
      "dev_stats d3 = net_rx_stats n 0 (rx_payload w s e) (dev_stats d1)"
    by (auto simp: n1_def net_rx_calls_def net_rx_stats_def cong: option.case_cong)
  have "dev_stats d3 = net_rx_stats n (status e) (rx_payload w s e) (dev_stats d)"
    by (simp add: n3(4) d1_def net_rx_stats_def tst_def Let_def split: option.split)
  moreover have "nworld n1 = w1" by (simp add: n1_def)
  ultimately show ?thesis using err w2(1) n3(1-3) unfolding w_def by blast
qed

text \<open>C9: The network side of the receive path: for every well-formed ring whose next frame is complete, a driver
  whose network interface is up does to the instance and its memory exactly what the driver without the interface
  does, returns the same result, and hands the bytes of the frame (those the line discipline would get) to the
  network once, or counts a dropped frame when there is no buffer; errors are counted and nothing else is
  called.\<close>

theorem net_frame_reaches_network:
  assumes ready: "rx_ready (ninfo n)" and s: "s = unat (current_rx_buffer (ninfo n))"
    and frame: "rx_next_frame (rx_buffer_list (ninfo n)) s = Rx_frame j"
    and up: "netcount (ninfo n) \<noteq> 0" "port_tty (ninfo n) = None" "netdev n = Some d"
  shows "\<exists>n' d'. net_get_rx_frame n = Some (True, n') \<and> r56_get_rx_frame (nworld n) = Some (True, nworld n') \<and>
    netdev n' = Some d' \<and>
    ncalls n' = ncalls n @ net_rx_calls n (rx_payload (nworld n) s (rx_buffer_list (ninfo n) ! j)) \<and>
    dev_stats d' = net_rx_stats n (status (rx_buffer_list (ninfo n) ! j))
      (rx_payload (nworld n) s (rx_buffer_list (ninfo n) ! j)) (dev_stats d)"
proof -
  define e where "e = rx_buffer_list (ninfo n) ! j"
  note found = find_frame [OF ready s frame]
  obtain w' where w': "r56_get_rx_frame (nworld n) = Some (True, w')"
    using get_rx_frame_found [OF ready [unfolded ninfo_def] s [unfolded ninfo_def] frame [unfolded ninfo_def]] by blast
  have "net_ok n" using up by (simp add: net_ok_def)
  from get_rx_frame_same [OF this] obtain n' where n': "net_get_rx_frame n = Some (True, n')" "nworld n' = w'"
    by (auto simp: same_step_def w')
  from net_frame_delivered [OF ready found(3) up(1,3), of e] obtain n1 w2 n3 d3 where
    n1: "(if tst (status e) RXSTATUS_ERRORS then net_rx_error (n\<lparr> nworld := count_rx_error (status e) (nworld n) \<rparr>)
      else Some n) = Some n1" "rx_assemble s e (nworld n1) = Some (rx_payload (nworld n) s e, w2)" and
    n3: "net_deliver (rx_payload (nworld n) s e) (n1\<lparr> nworld := w2 \<rparr>) = Some n3" "netdev n3 = Some d3"
      "ncalls n3 = ncalls n @ net_rx_calls n (rx_payload (nworld n) s e)"
      "dev_stats d3 = net_rx_stats n (status e) (rx_payload (nworld n) s e) (dev_stats d)" by blast
  have "net_get_rx_frame n =
    do { n \<leftarrow> on_world (r56_free_rx_frame_buffers s j) n3; n \<leftarrow> on_world (rx_cleanup j) n; Some (True, n) }"
    unfolding net_get_rx_frame_def Let_def s [symmetric]
    by (simp only: found(1,2) e_def [symmetric] rx_search.case bind.bind_lunit n1 prod.case n3(1))
  then have "do { n \<leftarrow> on_world (r56_free_rx_frame_buffers s j) n3; n \<leftarrow> on_world (rx_cleanup j) n; Some (True, n) } =
      Some (True, n')" using n'(1) by simp
  then have "netdev n' = netdev n3 \<and> ncalls n' = ncalls n3" by (auto simp: on_world_def bind_eq_Some_conv)
  then show ?thesis using n' w' n3(2-4) unfolding e_def by auto
qed

text \<open>A frame of five bytes in the ring of a device that is up.\<close>

definition net_rx_example :: net where
  "net_rx_example =
     \<lparr> nworld = set_info (\<lambda>i. i\<lparr> netcount := 1, port_tty := None \<rparr>) rx_example,
       netdev = Some \<lparr> dev_stats = zero_stats, queue_stopped = False, dev_carrier = True \<rparr>, ncalls = [], nret = (\<lambda>_. 1) \<rparr>"

theorem net_frame_reaches_network_witness:
  "\<exists>n' d'. net_get_rx_frame net_rx_example = Some (True, n') \<and>
    r56_get_rx_frame (nworld net_rx_example) = Some (True, nworld n') \<and> netdev n' = Some d' \<and>
    ncalls n' = ncalls net_rx_example @ net_rx_calls net_rx_example
      (rx_payload (nworld net_rx_example) 0 (rx_buffer_list (ninfo net_rx_example) ! 0)) \<and>
    dev_stats d' = net_rx_stats net_rx_example (status (rx_buffer_list (ninfo net_rx_example) ! 0))
      (rx_payload (nworld net_rx_example) 0 (rx_buffer_list (ninfo net_rx_example) ! 0)) zero_stats"
proof -
  define d where "d = \<lparr> dev_stats = zero_stats, queue_stopped = False, dev_carrier = True \<rparr>"
  have "rx_ready (ninfo net_rx_example)"
    using rx_example_ready by (simp add: net_rx_example_def ninfo_def rx_ready_def rx_ring_def)
  moreover have "0 = unat (current_rx_buffer (ninfo net_rx_example))"
    "rx_next_frame (rx_buffer_list (ninfo net_rx_example)) 0 = Rx_frame 0"
    "netcount (ninfo net_rx_example) \<noteq> 0" "port_tty (ninfo net_rx_example) = None" "netdev net_rx_example = Some d"
    by (simp_all add: net_rx_example_def ninfo_def rx_example_def zero_info_def rx_next_frame_def in_use_def zero_entry_def d_def)
  ultimately show ?thesis using net_frame_reaches_network [of net_rx_example 0 0 d] by (simp add: d_def)
qed

text \<open>C21: The interface is transparent while it is down: the interrupt routine of a driver that has it compiled in
  does to the instance exactly what the driver without it does, makes no call into the network layers and changes
  nothing of the network device.\<close>

theorem net_interrupt_transparent:
  assumes "netcount (ninfo n) = 0"
  shows "net_interrupt n = do { w \<leftarrow> r56_interrupt (nworld n); Some (n\<lparr> nworld := w \<rparr>) }"
  using interrupt_down [OF assms] by (simp add: on_world_def)

theorem net_interrupt_transparent_witness:
  "netcount (ninfo (net_rx_example\<lparr> nworld := rx_example \<rparr>)) = 0 \<and>
   net_interrupt (net_rx_example\<lparr> nworld := rx_example \<rparr>) =
     do { w \<leftarrow> r56_interrupt rx_example; Some (net_rx_example\<lparr> nworld := w \<rparr>) }"
  using net_interrupt_transparent [of "net_rx_example\<lparr> nworld := rx_example \<rparr>"]
  by (simp add: ninfo_def rx_example_def zero_info_def)

text \<open>C13: The bottom half of a driver with the interface refines that of the driver without it, whether the interface
  is down or up (and no terminal attached): it ends for the same states, and leaves the instance, its memory and the
  adapter in the same state; all that the interface does besides is in the network device and the calls.\<close>

theorem net_bottom_half_refines:
  assumes "net_ok n"
  shows "map_option nworld (net_bh_handler n) = r56_bh_handler (nworld n)"
  by (rule net_bh_handler_same [OF assms])

theorem net_bottom_half_refines_witness:
  "net_ok net_rx_example \<and> map_option nworld (net_bh_handler net_rx_example) = r56_bh_handler (nworld net_rx_example)"
proof -
  have "net_ok net_rx_example" by (simp add: net_ok_def net_rx_example_def ninfo_def)
  then show ?thesis using net_bottom_half_refines by blast
qed

subsection \<open>Null pointers\<close>

lemma net_io_pin_counters_info:
  assumes "net_io_pin_counters stat n = Some n'"
  shows "port_tty (ninfo n') = port_tty (ninfo n) \<and> port_flags (ninfo n') = port_flags (ninfo n)"
proof -
  have edge: "port_tty (info (io_pin_edge l s c b w)) = port_tty (info w) \<and> port_flags (info (io_pin_edge l s c b w)) = port_flags (info w)"
    if "\<And>i. port_tty (b i) = port_tty i \<and> port_flags (b i) = port_flags i" for l s c b w
    using that by (simp add: io_pin_edge_def Let_def)
  have bump: "port_tty (bump_ri s i) = port_tty i \<and> port_flags (bump_ri s i) = port_flags i"
    "port_tty (bump_dsr s i) = port_tty i \<and> port_flags (bump_dsr s i) = port_flags i"
    "port_tty (bump_dcd s i) = port_tty i \<and> port_flags (bump_dcd s i) = port_flags i"
    "port_tty (bump_cts s i) = port_tty i \<and> port_flags (bump_cts s i) = port_flags i" for s i
    by (simp_all add: bump_ri_def bump_dsr_def bump_dcd_def bump_cts_def)
  have dcd: "nworld m' = nworld m" if "net_dcd_changed stat m = Some m'" for m m'
    using that by (auto simp: net_dcd_changed_def bind_eq_Some_conv split: if_splits)
  show ?thesis
    using assms edge bump
    by (auto simp: net_io_pin_counters_def Let_def on_world_def bind_eq_Some_conv ninfo_def dest!: dcd split: if_splits)
qed

text \<open>The clear-to-send pin after a terminal: the flow control flag of the port is set by a terminal with
  \<open>CRTSCTS\<close> and neither closing it nor opening the network interface clears it; a change of the pin while no
  terminal is there then follows the null pointer \<open>port.tty\<close> in the interrupt handler.\<close>

theorem net_cts_change_without_terminal:
  assumes "tst (port_flags (ninfo n)) ASYNC_CTS_FLOW" "port_tty (ninfo n) = None"
    "tst (fst (usc_InReg (nworld n) MISR)) MISCSTATUS_CTS_LATCHED"
  shows "net_isr_io_pin n = None"
proof -
  define stat where "stat = fst (usc_InReg (nworld n) MISR)"
  define w where "w = usc_UnlatchIostatusBits (usc_ClearIrqPendingBits (snd (usc_InReg (nworld n) MISR)) IO_PIN) stat"
  have w: "port_flags (info w) = port_flags (ninfo n)" "port_tty (info w) = None"
    using assms(2) by (simp_all add: w_def ninfo_def)
  have any: "tst stat (MISCSTATUS_CTS_LATCHED OR MISCSTATUS_DCD_LATCHED OR MISCSTATUS_DSR_LATCHED OR MISCSTATUS_RI_LATCHED)"
    using assms(3) tst_mono [of stat MISCSTATUS_CTS_LATCHED
        "MISCSTATUS_CTS_LATCHED OR MISCSTATUS_DCD_LATCHED OR MISCSTATUS_DSR_LATCHED OR MISCSTATUS_RI_LATCHED"]
    by (simp add: stat_def)
  have run: "net_isr_io_pin n = do { n \<leftarrow> net_io_pin_counters stat (n\<lparr> nworld := w \<rparr>);
               (return, w) \<leftarrow> io_pin_cts_flow stat (io_pin_carrier stat (nworld n));
               Some (n\<lparr> nworld := if return then w else io_pin_end stat w \<rparr>) }"
    using any unfolding net_isr_io_pin_def case_prod_unfold Let_def w_def stat_def by (simp only: if_True)
  show ?thesis
  proof (cases "net_io_pin_counters stat (n\<lparr> nworld := w \<rparr>)")
    case None
    then show ?thesis by (simp add: run)
  next
    case (Some n')
    then have "port_tty (info (nworld n')) = None" "port_flags (info (nworld n')) = port_flags (ninfo n)"
      using net_io_pin_counters_info [OF Some] w by (simp_all add: ninfo_def)
    then have "io_pin_cts_flow stat (io_pin_carrier stat (nworld n')) = None"
      using assms(1,3) by (simp add: io_pin_cts_flow_def stat_def)
    then show ?thesis by (simp add: run Some)
  qed
qed

definition net_cts_example :: net where
  "net_cts_example = net_rx_example\<lparr> nworld := world0\<lparr>
     info := zero_info\<lparr> port_flags := ASYNC_CTS_FLOW, netcount := 1 \<rparr>,
     env := (env world0)\<lparr> dev_readw := (\<lambda>_ _. MISCSTATUS_CTS_LATCHED) \<rparr> \<rparr> \<rparr>"

theorem net_cts_change_without_terminal_witness: "net_isr_io_pin net_cts_example = None"
proof (rule net_cts_change_without_terminal)
  obtain tr where "fst (usc_InReg (nworld net_cts_example) MISR) = dev_readw (env (nworld net_cts_example)) tr MISR"
    using InReg_reads by blast
  then show "tst (fst (usc_InReg (nworld net_cts_example) MISR)) MISCSTATUS_CTS_LATCHED"
    by (simp add: net_cts_example_def tst_def)
qed (simp_all add: net_cts_example_def ninfo_def zero_info_def tst_def)

lemma net_error_without_device:
  assumes m: "netdev m = None" and frame: "rx_ready (info w)" "s = unat (current_rx_buffer (info w))"
    "rx_next_frame (rx_buffer_list (info w)) s = Rx_frame j"
    and err: "tst (status (rx_buffer_list (info w) ! j)) RXSTATUS_ERRORS"
  shows "net_get_rx_frame (m\<lparr> nworld := w \<rparr>) = None"
proof -
  have "net_rx_error (m\<lparr> nworld := count_rx_error st w \<rparr>) = None" for st using m by (simp add: net_rx_error_def)
  then show ?thesis
    using find_frame(1,2) [OF frame] err by (simp add: net_get_rx_frame_def ninfo_def frame(2) [symmetric])
qed

text \<open>C37: Adding and removing the network device: when it can be registered, \<open>hdlcdev_exit\<close> undoes what
  \<open>hdlcdev_init\<close> did; when it cannot, nothing of it is left, but the result is ignored where the instance is
  added: removing the driver then follows the null pointer \<open>netdev\<close>, and so does the first frame that is
  received with an error, whether a terminal or the network uses the device.\<close>

theorem net_device_registration:
  assumes "netdev n = None"
  shows "case hdlcdev_init n of (rc, n') \<Rightarrow>
    (rc = 0 \<longrightarrow> ncalls n' = ncalls n @ [Alloc_hdlcdev, Register_hdlc_device] \<and>
       (\<exists>n''. hdlcdev_exit n' = Some n'' \<and> netdev n'' = None \<and> nworld n'' = nworld n \<and>
          ncalls n'' = ncalls n' @ [Unregister_hdlc_device, Free_netdev])) \<and>
    (rc \<noteq> 0 \<longrightarrow> (ncalls n' = ncalls n @ [Alloc_hdlcdev] \<or>
         ncalls n' = ncalls n @ [Alloc_hdlcdev, Register_hdlc_device, Free_netdev]) \<and>
       hdlcdev_exit n' = None \<and>
       (\<forall>w s j. rx_ready (info w) \<longrightarrow> s = unat (current_rx_buffer (info w)) \<longrightarrow>
          rx_next_frame (rx_buffer_list (info w)) s = Rx_frame j \<longrightarrow>
          tst (status (rx_buffer_list (info w) ! j)) RXSTATUS_ERRORS \<longrightarrow> net_get_rx_frame (n'\<lparr> nworld := w \<rparr>) = None))"
proof -
  note crash = net_error_without_device
  show ?thesis
  proof (cases "nret n (ncalls n @ [Alloc_hdlcdev]) = 0")
    case True
    then have "hdlcdev_init n = (- ENOMEM, n\<lparr> ncalls := ncalls n @ [Alloc_hdlcdev] \<rparr>)"
      by (simp add: hdlcdev_init_def ncall_def Let_def)
    then show ?thesis using assms crash by (simp add: hdlcdev_exit_def)
  next
    case alloc: False
    define m where "m = n\<lparr> ncalls := ncalls n @ [Alloc_hdlcdev, Register_hdlc_device] \<rparr>"
    define rc where "rc = nret n (ncalls n @ [Alloc_hdlcdev, Register_hdlc_device])"
    have init: "hdlcdev_init n = (if rc \<noteq> 0 then (rc, ncall_only Free_netdev m)
        else (0, m\<lparr> netdev := Some \<lparr> dev_stats = zero_stats, queue_stopped = False, dev_carrier = True \<rparr> \<rparr>))"
      using alloc by (simp add: hdlcdev_init_def ncall_def Let_def m_def rc_def)
    show ?thesis
      using assms crash by (cases "rc = 0") (simp_all add: init hdlcdev_exit_def m_def)
  qed
qed

theorem net_device_registration_witness:
  "netdev (net_rx_example\<lparr> netdev := None \<rparr>) = None \<and>
   hdlcdev_exit (snd (hdlcdev_init (net_rx_example\<lparr> netdev := None, nret := (\<lambda>_. 0) \<rparr>))) = None"
  using net_device_registration [of "net_rx_example\<lparr> netdev := None, nret := (\<lambda>_. 0) \<rparr>"]
  by (simp add: hdlcdev_init_def ncall_def Let_def net_rx_example_def)

end
