(* ===== verification/R56_Netsys.thy ===== *)
theory R56_Netsys
  imports R56_Netup R56_Netisr
begin

text \<open>
  The network interface while it is up: interrupts, the bottom half, the timers, the DMA controller, frames to send
  and new line settings in any order. The state stays well formed without a terminal, no handler follows a null
  pointer, no work is lost, and the network's queue runs only while the transmitter is idle.
\<close>

subsection \<open>The state while the interface is up\<close>

text \<open>
  The device belongs to the network, has no terminal, flow control by the clear-to-send pin is off, and the mode is
  synchronous.
\<close>

definition net_owned :: "net \<Rightarrow> bool" where
  "net_owned n \<longleftrightarrow> net_inv (ninfo n) \<and> netdev n \<noteq> None \<and> netcount (ninfo n) \<noteq> 0 \<and> port_tty (ninfo n) = None \<and>
     \<not> tst (port_flags (ninfo n)) ASYNC_CTS_FLOW \<and> sync_mode (ninfo n)"

text \<open>The network hands over a frame only while its queue runs; then none may be on its way.\<close>

definition queue_safe :: "net \<Rightarrow> bool" where
  "queue_safe n \<longleftrightarrow> (\<forall>d. netdev n = Some d \<longrightarrow> \<not> queue_stopped d \<longrightarrow> \<not> tx_active (ninfo n))"

definition net_good :: "net \<Rightarrow> bool" where
  "net_good n \<longleftrightarrow> net_owned n \<and> queue_safe n"

text \<open>A handler that did its work: the state is as before, and so are the flags of the bottom half.\<close>

definition net_handled :: "net \<Rightarrow> net option \<Rightarrow> bool" where
  "net_handled n r \<longleftrightarrow>
     (\<exists>n'. r = Some n' \<and> net_good n' \<and> bh_running (ninfo n') = bh_running (ninfo n) \<and>
        bh_requested (ninfo n') = bh_requested (ninfo n))"

text \<open>A step that gives the bottom half nothing to do.\<close>

definition same_work :: "net \<Rightarrow> net \<Rightarrow> bool" where
  "same_work n n' \<longleftrightarrow> bh_running (ninfo n') = bh_running (ninfo n) \<and> bh_requested (ninfo n') = bh_requested (ninfo n) \<and>
     pending_bh (ninfo n') = pending_bh (ninfo n)"

definition net_kept :: "net \<Rightarrow> net option \<Rightarrow> bool" where
  "net_kept n r \<longleftrightarrow> (\<exists>n'. r = Some n' \<and> net_good n' \<and> same_work n n')"

lemma net_kept_handled: "net_kept n r \<Longrightarrow> net_handled n r"
  by (auto simp: net_kept_def net_handled_def same_work_def)

text \<open>A routine that does not start the transmitter.\<close>

definition starts_nothing :: "world \<Rightarrow> world option \<Rightarrow> bool" where
  "starts_nothing w r \<longleftrightarrow> (\<forall>w'. r = Some w' \<longrightarrow> tx_active (info w') \<longrightarrow> tx_active (info w))"

lemma net_ownedI:
  assumes "net_owned n" "net_inv (ninfo n')" "owner (ninfo n') = owner (ninfo n)"
    "mode (params (ninfo n')) = mode (params (ninfo n))" "netdev n' \<noteq> None"
  shows "net_owned n'"
  using assms by (simp add: net_owned_def owner_def)

lemma net_goodI:
  assumes "net_good n" "net_inv (ninfo n')" "owner (ninfo n') = owner (ninfo n)"
    "mode (params (ninfo n')) = mode (params (ninfo n))" "netdev n' \<noteq> None"
    "\<And>d. netdev n' = Some d \<Longrightarrow> \<not> queue_stopped d \<Longrightarrow> \<not> tx_active (ninfo n')"
  shows "net_good n'"
  using net_ownedI [OF _ assms(2-5)] assms(1,6) by (simp add: net_good_def queue_safe_def)

lemma net_handled_world:
  assumes good: "net_good n" and h: "handled False (nworld n) (f (nworld n))" and q: "starts_nothing (nworld n) (f (nworld n))"
  shows "net_handled n (on_world f n)"
proof -
  obtain w' where w': "f (nworld n) = Some w'" "net_inv (info w')" "params (info w') = params (ninfo n)"
    "bh_running (info w') = bh_running (ninfo n)" "bh_requested (info w') = bh_requested (ninfo n)"
    "owner (info w') = owner (ninfo n)" "env w' = env (nworld n)" using h by (auto simp: handled_def ninfo_def)
  have tx: "tx_active (info w') \<Longrightarrow> tx_active (ninfo n)" using q w'(1) by (simp add: starts_nothing_def ninfo_def)
  have "net_good (n\<lparr> nworld := w' \<rparr>)"
    by (rule net_goodI [OF good]) (use w' tx good in \<open>auto simp: ninfo_def net_good_def net_owned_def queue_safe_def\<close>)
  then show ?thesis using w' by (simp add: net_handled_def on_world_def ninfo_def)
qed

subsection \<open>Handlers that the interface leaves as they are\<close>

lemma quiet_misc: "starts_nothing w (r56_isr_misc w)" "starts_nothing w (r56_isr_null w)" "starts_nothing w (r56_isr_receive_dma w)"
  by (simp_all add: starts_nothing_def r56_isr_misc_def r56_isr_null_def r56_isr_receive_dma_def case_prod_unfold Let_def request_bh_def)

lemma quiet_load_tx:
  assumes "r56_load_tx_dma_buffer b n w = Some w'"
  shows "tx_active (info w') = tx_active (info w)"
  using assms by (auto simp: r56_load_tx_dma_buffer_def Let_def bind_eq_Some_conv split: if_splits)

lemma quiet_transmit_dma: "starts_nothing w (r56_isr_transmit_dma w)"
proof -
  have "tx_active (info v') = tx_active (info v)" if "load_next_tx_holding_buffer v = Some (r, v')" for v v' r
    using that by (auto simp: load_next_tx_holding_buffer_def Let_def bind_eq_Some_conv mod_timer_def hold_drop_def
        split: if_splits dest!: quiet_load_tx)
  then show ?thesis
    by (auto simp: starts_nothing_def r56_isr_transmit_dma_def case_prod_unfold Let_def bind_eq_Some_conv request_bh_def
        split: if_splits)
qed

lemma quiet_receive_data:
  assumes "fifo_drains (env w) (trace w) n"
  shows "starts_nothing w (r56_isr_receive_data w)"
proof -
  obtain w' and k :: int where w': "r56_isr_receive_data w = Some (if k \<noteq> 0 then kcall Tty_flip_buffer_push w' else w')" "rx_step w w'"
    using isr_receive_data_run [OF assms] by blast
  then obtain c where "info w' = (info w)\<lparr> icount := c \<rparr>" by (auto simp: rx_step_def)
  then show ?thesis using w'(1) by (simp add: starts_nothing_def)
qed

lemma quiet_rxoverrun:
  assumes "rx_ring (info w)" "usc_process_rxoverrun_sync w = Some w'"
  shows "tx_active (info w') = tx_active (info w)"
  using process_rxoverrun_cases [OF assms(1)] assms(2) by auto

lemma quiet_receive_status:
  assumes "dev_inv tm (info w)"
  shows "starts_nothing w (r56_isr_receive_status w)"
proof -
  have ring: "rx_ring (info w)" using drv_invD(2) [OF assms] .
  have same: "rx_ring (icount_update f i) = rx_ring i" "rx_ring (loopmode_insert_requested_update g i) = rx_ring i"
    "rx_ring (cmr_value_update h i) = rx_ring i" for i f g h
    by (simp_all add: rx_ring_def)
  show ?thesis
    using ring
    by (auto simp: starts_nothing_def r56_isr_receive_status_def case_prod_unfold Let_def bind_eq_Some_conv same usc_loopmode_active_def
        split: if_splits dest!: quiet_rxoverrun [rotated])
qed

subsection \<open>Transmit status and pins\<close>

text \<open>Telling the network that the transmitter is idle.\<close>

lemma tx_done_idle:
  assumes own: "net_owned n" and i: "net_inv (info w)" "owner (info w) = owner (ninfo n)"
    "mode (params (info w)) = mode (params (ninfo n))" "bh_running (info w) = bh_running (ninfo n)"
    "bh_requested (info w) = bh_requested (ninfo n)" "pending_bh (info w) = pending_bh (ninfo n)"
    and idle: "\<not> tx_active (info w)"
  shows "net_kept n (if netcount (ninfo (n\<lparr> nworld := w \<rparr>)) \<noteq> 0 then hdlcdev_tx_done (n\<lparr> nworld := w \<rparr>) else r)"
proof -
  obtain d where d: "netdev n = Some d" using own by (auto simp: net_owned_def)
  have "netcount (info w) \<noteq> 0" using own i(2) by (simp add: net_owned_def owner_def)
  moreover define n' where "n' = (if queue_stopped d then netif_wake_queue (n\<lparr> nworld := w \<rparr>) else n\<lparr> nworld := w \<rparr>)"
  ultimately have run: "(if netcount (ninfo (n\<lparr> nworld := w \<rparr>)) \<noteq> 0 then hdlcdev_tx_done (n\<lparr> nworld := w \<rparr>) else r) = Some n'"
    using d by (simp add: ninfo_def hdlcdev_tx_done_def)
  have n': "nworld n' = w" "netdev n' \<noteq> None" using d by (simp_all add: n'_def)
  have "net_owned n'" by (rule net_ownedI [OF own]) (use i n' in \<open>simp_all add: ninfo_def\<close>)
  moreover have "queue_safe n'" using idle n'(1) by (simp add: queue_safe_def ninfo_def)
  ultimately show ?thesis using i(4-6) n'(1) unfolding run by (simp add: net_kept_def same_work_def net_good_def ninfo_def)
qed

lemma net_transmit_status_handled:
  assumes "net_good n"
  shows "net_handled n (net_isr_transmit_status n)"
proof -
  have own: "net_owned n" and inv: "net_inv (info (nworld n))" using assms by (simp_all add: net_good_def net_owned_def ninfo_def)
  note c = tx_status_common_inv [OF inv]
  show ?thesis
    unfolding net_isr_transmit_status_def Let_def
    by (rule net_kept_handled [OF tx_done_idle [OF own]]) (use c in \<open>simp_all add: ninfo_def ctl_def\<close>)
qed

lemma net_tx_timeout_kept:
  assumes "net_good n"
  shows "net_kept n (net_tx_timeout n)"
proof -
  have own: "net_owned n" and inv: "net_inv (info (nworld n))" using assms by (simp_all add: net_good_def net_owned_def ninfo_def)
  define w where "w = (let w = nworld n;
         w = (if tx_active (info w) \<and> sync_mode (info w)
              then set_icount (ic_txtimeout_update (\<lambda>n. n + 1)) w else w);
         w = set_info (\<lambda>i. i\<lparr> tx_active := False, xmit_cnt := 0, xmit_head := 0, xmit_tail := 0 \<rparr>) w
     in if tst (flags (params (info w))) HDLC_FLAG_HDLC_LOOPMODE then usc_loopmode_cancel_transmit w else w)"
  have "net_inv (info w)" "ctl (info w) = ctl (ninfo n)" "env w = env (nworld n)" "\<not> tx_active (info w)"
    using inv
    by (simp_all add: w_def Let_def ctl_def owner_def ninfo_def usc_loopmode_cancel_transmit_def usc_loopmode_send_done_def)
  then show ?thesis
    unfolding net_tx_timeout_def Let_def
    by (intro tx_done_idle [OF own, of w, unfolded w_def Let_def]) (simp_all add: ctl_def w_def Let_def)
qed

text \<open>A step that leaves the queue as it is and starts nothing.\<close>

lemma net_good_step:
  assumes good: "net_good n" and i: "net_inv (ninfo n')" "ctl (ninfo n') = ctl (ninfo n)"
    and q: "map_option queue_stopped (netdev n') = map_option queue_stopped (netdev n)"
    and tx: "tx_active (ninfo n') \<Longrightarrow> tx_active (ninfo n)"
  shows "net_good n'"
proof (rule net_goodI [OF good i(1)])
  show "owner (ninfo n') = owner (ninfo n)" "mode (params (ninfo n')) = mode (params (ninfo n))"
    using i(2) by (simp_all add: ctl_def)
  show "netdev n' \<noteq> None" using good q by (cases "netdev n'") (auto simp: net_good_def net_owned_def)
  fix d assume "netdev n' = Some d" "\<not> queue_stopped d"
  then show "\<not> tx_active (ninfo n')"
    using good q tx by (cases "netdev n") (auto simp: net_good_def queue_safe_def)
qed

lemma bump_tx:
  "tx_active (bump_ri st i) = tx_active i" "tx_active (bump_dsr st i) = tx_active i"
  "tx_active (bump_dcd st i) = tx_active i" "tx_active (bump_cts st i) = tx_active i"
  by (simp_all add: bump_ri_def bump_dsr_def bump_dcd_def bump_cts_def)

lemmas edge_frames =
  io_pin_edge_frame(1) [where P = "dev_inv False"] io_pin_edge_frame(1) [where P = ctl] io_pin_edge_frame(1) [where P = tx_active]
  io_pin_edge_frame(2) bump_frame bump_tx

lemma net_io_pin_counters_good:
  assumes good: "net_good n"
  shows "\<exists>n'. net_io_pin_counters stat n = Some n' \<and> net_good n' \<and> ctl (ninfo n') = ctl (ninfo n) \<and>
    env (nworld n') = env (nworld n)"
proof -
  define w1 where "w1 = io_pin_edge (tst stat MISCSTATUS_DCD_LATCHED) SICR_DCD dcd_chkcount (bump_dcd stat)
    (io_pin_edge (tst stat MISCSTATUS_DSR_LATCHED) SICR_DSR dsr_chkcount (bump_dsr stat)
      (io_pin_edge (tst stat MISCSTATUS_RI_LATCHED) SICR_RI ri_chkcount (bump_ri stat) (nworld n)))"
  have w1: "dev_inv False (info w1) = dev_inv False (ninfo n)" "ctl (info w1) = ctl (ninfo n)"
    "tx_active (info w1) = tx_active (ninfo n)" "env w1 = env (nworld n)"
    unfolding w1_def ninfo_def by (simp_all only: edge_frames)
  define n1 where "n1 = n\<lparr> nworld := w1 \<rparr>"
  obtain d where d: "netdev n = Some d" using good by (auto simp: net_good_def net_owned_def)
  have "netcount (ninfo n1) \<noteq> 0"
    using good w1(2) by (simp add: n1_def ninfo_def net_good_def net_owned_def ctl_def owner_def)
  then have dcd: "(if tst stat MISCSTATUS_DCD_LATCHED then net_dcd_changed stat n1 else Some n1) =
      Some (if tst stat MISCSTATUS_DCD_LATCHED then netif_carrier (tst stat MISCSTATUS_DCD) n1 else n1)"
    using d by (simp add: net_dcd_changed_def n1_def)
  define n2 where "n2 = (if tst stat MISCSTATUS_DCD_LATCHED then netif_carrier (tst stat MISCSTATUS_DCD) n1 else n1)"
  define w2 where "w2 = kcall (Wake_up_interruptible Event_wait_q) (kcall (Wake_up_interruptible Status_event_wait_q)
    (io_pin_edge (tst stat MISCSTATUS_CTS_LATCHED) SICR_CTS cts_chkcount (bump_cts stat) w1))"
  have w2: "dev_inv False (info w2) = dev_inv False (ninfo n)" "ctl (info w2) = ctl (ninfo n)"
    "tx_active (info w2) = tx_active (ninfo n)" "env w2 = env (nworld n)"
    unfolding w2_def kcall_simps by (simp_all only: edge_frames w1)
  have "nworld n2 = w1" by (simp add: n2_def n1_def)
  then have run: "net_io_pin_counters stat n = Some (n2\<lparr> nworld := w2 \<rparr>)"
    unfolding net_io_pin_counters_def Let_def w1_def [symmetric] n1_def [symmetric] dcd n2_def [symmetric]
    by (simp add: on_world_def w2_def)
  have "map_option queue_stopped (netdev n2) = map_option queue_stopped (netdev n)"
    using d by (simp add: n2_def n1_def)
  then have "net_good (n2\<lparr> nworld := w2 \<rparr>)"
    using w2 good by (intro net_good_step [OF good]) (simp_all add: ninfo_def net_good_def net_owned_def)
  then show ?thesis using run w2 by (simp add: ninfo_def)
qed

lemma net_good_world:
  assumes good: "net_good n" and i: "net_inv (info w)" "owner (info w) = owner (ninfo n)"
    "params (info w) = params (ninfo n)" "tx_active (info w) \<Longrightarrow> tx_active (ninfo n)"
  shows "net_good (n\<lparr> nworld := w \<rparr>)"
  by (rule net_goodI [OF good]) (use good i in \<open>auto simp: ninfo_def net_good_def net_owned_def queue_safe_def\<close>)

lemma net_io_pin_end_handled:
  assumes "net_good n"
  shows "net_handled n (Some (n\<lparr> nworld := io_pin_end stat (nworld n) \<rparr>))"
proof -
  have "net_good (n\<lparr> nworld := io_pin_end stat (nworld n) \<rparr>)"
    using assms by (intro net_good_world) (auto simp: io_pin_end_frame ninfo_def net_good_def net_owned_def)
  then show ?thesis by (simp add: net_handled_def ninfo_def io_pin_end_frame)
qed

lemma net_handled_trans:
  "net_handled m r \<Longrightarrow> bh_running (ninfo m) = bh_running (ninfo n) \<Longrightarrow> bh_requested (ninfo m) = bh_requested (ninfo n) \<Longrightarrow>
   net_handled n r"
  by (simp add: net_handled_def)

lemma net_io_pin_handled:
  assumes good: "net_good n"
  shows "net_handled n (net_isr_io_pin n)"
proof -
  define st where "st = fst (usc_InReg (nworld n) MISR)"
  define w1 where "w1 = usc_UnlatchIostatusBits (usc_ClearIrqPendingBits (snd (usc_InReg (nworld n) MISR)) IO_PIN) st"
  have w1: "info w1 = info (nworld n)" "env w1 = env (nworld n)" by (simp_all add: w1_def)
  define n1 where "n1 = n\<lparr> nworld := w1 \<rparr>"
  have good1: "net_good n1"
    unfolding n1_def using good w1 by (intro net_good_world) (auto simp: ninfo_def net_good_def net_owned_def)
  have eq1: "ninfo n1 = ninfo n" "env (nworld n1) = env (nworld n)" using w1 by (simp_all add: n1_def ninfo_def)
  from net_io_pin_counters_good [OF good1, of st] obtain n2 where n2: "net_io_pin_counters st n1 = Some n2" "net_good n2"
    "ctl (ninfo n2) = ctl (ninfo n)" "env (nworld n2) = env (nworld n)" using eq1 by auto
  define n3 where "n3 = n2\<lparr> nworld := io_pin_carrier st (nworld n2) \<rparr>"
  have good3: "net_good n3"
    unfolding n3_def using n2(2) by (intro net_good_world) (auto simp: ninfo_def net_good_def net_owned_def)
  have eq3: "ninfo n3 = ninfo n2" "env (nworld n3) = env (nworld n2)" by (simp_all add: n3_def ninfo_def)
  have "\<not> tst (port_flags (info (nworld n3))) ASYNC_CTS_FLOW" using good3 by (simp add: net_good_def net_owned_def ninfo_def)
  then have flow: "io_pin_cts_flow st (io_pin_carrier st (nworld n2)) = Some (False, nworld n3)"
    by (simp add: io_pin_cts_flow_def n3_def)
  have run: "net_isr_io_pin n =
    (if tst st (MISCSTATUS_CTS_LATCHED OR MISCSTATUS_DCD_LATCHED OR MISCSTATUS_DSR_LATCHED OR MISCSTATUS_RI_LATCHED)
     then Some (n2\<lparr> nworld := io_pin_end st (nworld n3) \<rparr>) else Some (n1\<lparr> nworld := io_pin_end st w1 \<rparr>))"
    unfolding net_isr_io_pin_def case_prod_unfold Let_def st_def [symmetric] w1_def [symmetric] n1_def [symmetric]
    by (simp add: n2(1) flow)
  have "n2\<lparr> nworld := io_pin_end st (nworld n3) \<rparr> = n3\<lparr> nworld := io_pin_end st (nworld n3) \<rparr>"
    "n1\<lparr> nworld := io_pin_end st w1 \<rparr> = n1\<lparr> nworld := io_pin_end st (nworld n1) \<rparr>"
    by (simp_all add: n3_def n1_def)
  moreover have "net_handled n (Some (n3\<lparr> nworld := io_pin_end st (nworld n3) \<rparr>))"
    by (rule net_handled_trans [OF net_io_pin_end_handled [OF good3]]) (use eq3 n2(3) in \<open>simp_all add: ctl_def\<close>)
  moreover have "net_handled n (Some (n1\<lparr> nworld := io_pin_end st (nworld n1) \<rparr>))"
    by (rule net_handled_trans [OF net_io_pin_end_handled [OF good1]]) (use eq1 in simp_all)
  ultimately show ?thesis unfolding run by (simp split: if_split)
qed

subsection \<open>The dispatcher\<close>

text \<open>
  What the dispatcher relies on: as for a terminal, and that the adapter raises no transmit data interrupt, which is
  enabled in asynchronous mode only.
\<close>

definition net_adapter_ok :: "environment \<Rightarrow> event list \<Rightarrow> bool" where
  "net_adapter_ok e h \<longleftrightarrow> adapter_ok e h \<and> (\<forall>es. drop_bit 9 (dev_readw e es IVR) \<noteq> 3)"

lemma net_dispatch_handled:
  assumes good: "net_good n" and drains: "fifo_drains (env (nworld n)) (trace (nworld n)) k" and v: "v < 7" "v \<noteq> 3"
  shows "net_handled n (net_dispatch_vector v d n)"
proof -
  let ?w = "nworld n"
  have inv: "dev_inv False (info ?w)" using good by (simp add: net_good_def net_owned_def ninfo_def)
  have null: "handled False ?w (r56_isr_null ?w)" using inv by (simp add: handled_def owner_def r56_isr_null_def)
  note hs = net_handled_world [where f = r56_isr_null, OF good null quiet_misc(2)]
    net_handled_world [where f = r56_isr_misc, OF good isr_misc_handled [OF inv] quiet_misc(1)]
    net_handled_world [where f = r56_isr_receive_dma, OF good isr_receive_dma_handled [OF inv] quiet_misc(3)]
    net_handled_world [where f = r56_isr_transmit_dma, OF good isr_transmit_dma_handled [OF inv] quiet_transmit_dma]
    net_handled_world [where f = r56_isr_receive_data, OF good isr_receive_data_handled [OF inv drains] quiet_receive_data [OF drains]]
    net_handled_world [where f = r56_isr_receive_status, OF good isr_receive_status_handled [OF inv] quiet_receive_status [OF inv]]
    net_io_pin_handled [OF good] net_transmit_status_handled [OF good]
  have "unat v < 7" "unat v \<noteq> 3"
    using v by (simp_all add: word_less_nat_alt word_unat_eq_iff)
  then have "unat v \<in> {0, 1, 2, 4, 5, 6}" by auto
  then show ?thesis
    using hs by (auto simp: net_dispatch_vector_def net_UscIsrTable_def aget_def)
qed

lemma net_interrupt_handled:
  assumes good: "net_good n" and ok: "net_adapter_ok (env (nworld n)) (trace (nworld n))"
  shows "\<exists>n'. net_interrupt n = Some n' \<and> net_good n' \<and> bh_running (ninfo n') = bh_running (ninfo n) \<and>
    (bh_requested (ninfo n') \<longleftrightarrow> bh_requested (ninfo n) \<or> pending_bh (ninfo n') \<noteq> 0 \<and> \<not> bh_running (ninfo n))"
proof -
  define v where "v = drop_bit 9 (fst (usc_InReg (nworld n) IVR))"
  define w1 where "w1 = snd (usc_InReg (nworld n) IVR)"
  define d where "d = fst (usc_InDmaReg w1 DIVR)"
  define w2 where "w2 = snd (usc_InDmaReg w1 DIVR)"
  have i2: "info w2 = info (nworld n)" "env w2 = env (nworld n)" by (simp_all add: w2_def w1_def)
  obtain t where "fst (usc_InReg (nworld n) IVR) = dev_readw (env (nworld n)) t IVR" using usc_InReg_value by blast
  then have v: "v < 7" "v \<noteq> 3" using ok by (simp_all add: v_def net_adapter_ok_def adapter_ok_def)
  obtain es where "trace w2 = trace (nworld n) @ es"
    using trace_usc_InReg [of "nworld n" IVR] trace_usc_InReg [of w1 DIVR] unfolding w2_def w1_def usc_InDmaReg_def by auto
  then have "\<exists>k. fifo_drains (env w2) (trace w2) k" using ok i2 by (simp add: net_adapter_ok_def adapter_ok_def)
  then obtain k where k: "fifo_drains (env w2) (trace w2) k" by blast
  define n2 where "n2 = n\<lparr> nworld := w2 \<rparr>"
  have good2: "net_good n2"
    unfolding n2_def using good i2 by (intro net_good_world) (auto simp: ninfo_def net_good_def net_owned_def)
  have "net_handled n2 (net_dispatch_vector v d n2)"
    by (rule net_dispatch_handled [OF good2 _ v]) (use k in \<open>simp add: n2_def\<close>)
  then obtain n3 where n3: "net_dispatch_vector v d n2 = Some n3" "net_good n3" "bh_running (ninfo n3) = bh_running (ninfo n)"
    "bh_requested (ninfo n3) = bh_requested (ninfo n)" using i2 by (auto simp: net_handled_def n2_def ninfo_def)
  define w4 where "w4 = (if isr_overflow (ninfo n3) \<noteq> 0
      then usc_DisableDmaInterrupts (usc_DisableMasterIrqBit (nworld n3)) DICR_MASTER else nworld n3)"
  have i4: "info w4 = ninfo n3" by (simp add: w4_def ninfo_def)
  have run: "net_interrupt n = Some (n3\<lparr> nworld := schedule_bh w4 \<rparr>)"
    unfolding net_interrupt_def w4_def case_prod_unfold Let_def on_world_def
    by (simp add: v_def [symmetric] w1_def [symmetric] d_def [symmetric] w2_def [symmetric] n2_def [symmetric] n3(1) ninfo_def)
  have "net_good (n3\<lparr> nworld := schedule_bh w4 \<rparr>)"
    using n3(2) i4
    by (intro net_good_world) (auto simp: ninfo_def net_good_def net_owned_def schedule_bh_info owner_def)
  then show ?thesis using run n3 i4 by (auto simp: ninfo_def schedule_bh_info)
qed

subsection \<open>The bottom half\<close>

text \<open>What the receive path does to the network device leaves its queue alone.\<close>

definition queue_of :: "net \<Rightarrow> bool option" where
  "queue_of n = map_option queue_stopped (netdev n)"

lemma queue_of_frame:
  "queue_of (n\<lparr> nworld := w \<rparr>) = queue_of n" "on_world f n = Some n' \<Longrightarrow> queue_of n' = queue_of n"
  by (auto simp: queue_of_def on_world_def bind_eq_Some_conv)

lemma queue_of_rx:
  "net_rx_error n = Some n' \<Longrightarrow> queue_of n' = queue_of n" "hdlcdev_rx bs k n = Some n' \<Longrightarrow> queue_of n' = queue_of n"
  by (auto simp: queue_of_def net_rx_error_def hdlcdev_rx_def bind_eq_Some_conv Let_def case_prod_unfold option.map_comp comp_def
      split: if_splits)

lemma queue_of_deliver: "net_deliver frame n = Some n' \<Longrightarrow> queue_of n' = queue_of n"
  by (auto simp: net_deliver_def queue_of_frame dest: queue_of_rx split: option.splits if_splits)

lemma queue_of_get:
  "net_get_rx_frame n = Some (r, n') \<Longrightarrow> queue_of n' = queue_of n"
  "net_get_raw_rx_frame n = Some (r, n') \<Longrightarrow> queue_of n' = queue_of n"
proof -
  show "queue_of n' = queue_of n" if run: "net_get_rx_frame n = Some (r, n')"
  proof -
    define i where "i = unat (current_rx_buffer (ninfo n))"
    obtain f where f: "rx_find_end (unat (rx_buffer_count (ninfo n))) (rx_buffer_list (ninfo n)) i i = Some f"
      using run by (auto simp: net_get_rx_frame_def Let_def i_def bind_eq_Some_conv)
    note eq = run [unfolded net_get_rx_frame_def Let_def i_def [symmetric] f bind.bind_lunit]
    show ?thesis
    proof (cases f)
      case (Rx_none j)
      then show ?thesis using eq queue_of_frame(2) by (auto simp: bind_eq_Some_conv)
    next
      case (Rx_wrapped j)
      then show ?thesis
        using eq queue_of_frame(2) by (cases "rx_enabled (ninfo n)") (fastforce simp: bind_eq_Some_conv)+
    next
      case (Rx_frame j)
      then obtain e n1 fr w n2 n3 where
        "aget (rx_buffer_list (ninfo n)) j = Some e" and
        n1: "(if tst (status e) RXSTATUS_ERRORS
              then net_rx_error (n\<lparr> nworld := count_rx_error (status e) (nworld n) \<rparr>) else Some n) = Some n1" and
        n2: "net_deliver fr (n1\<lparr> nworld := w \<rparr>) = Some n2" and n3: "on_world (r56_free_rx_frame_buffers i j) n2 = Some n3"
          "on_world (rx_cleanup j) n3 = Some n'"
        using eq unfolding Rx_frame rx_search.case bind_eq_Some_conv case_prod_unfold option.inject prod.inject by blast
      have "queue_of n1 = queue_of n"
        using n1 queue_of_rx(1) queue_of_frame(1) by (cases "tst (status e) RXSTATUS_ERRORS") auto
      then show ?thesis
        using queue_of_deliver [OF n2] n3 [THEN queue_of_frame(2)] queue_of_frame(1) by simp
    qed
  qed
  show "net_get_raw_rx_frame n = Some (r, n') \<Longrightarrow> queue_of n' = queue_of n"
    by (auto simp: net_get_raw_rx_frame_def bind_eq_Some_conv queue_of_frame)
qed

lemma queue_of_receive_loop: "net_bh_receive_loop hdlc n = Some n' \<Longrightarrow> queue_of n' = queue_of n"
proof (rule net_bh_receive_loop.raw_induct [where P = "\<lambda>hdlc n n'. queue_of n' = queue_of n"])
  fix loop hdlc n n'
  assume IH: "\<And>hdlc n n'. loop hdlc n = Some n' \<Longrightarrow> queue_of n' = queue_of n"
    and body: "(if rx_rcc_underrun (ninfo n) then on_world usc_start_receiver n
       else (if hdlc then net_get_rx_frame n else net_get_raw_rx_frame n) \<bind>
            (\<lambda>(r, n). if r then loop hdlc n else Some n)) = Some n'"
  show "queue_of n' = queue_of n"
  proof (cases "rx_rcc_underrun (ninfo n)")
    case True
    then show ?thesis using body queue_of_frame(2) by auto
  next
    case False
    then obtain r n1 where "(if hdlc then net_get_rx_frame n else net_get_raw_rx_frame n) = Some (r, n1)"
      and r: "(if r then loop hdlc n1 else Some n1) = Some n'"
      using body by (auto simp: bind_eq_Some_conv)
    then have "queue_of n1 = queue_of n" using queue_of_get by (cases hdlc) auto
    then show ?thesis using r IH by (auto split: if_splits)
  qed
qed

lemma bh_work_frame:
  assumes inv: "dev_inv tm (info w)" and run: "bh_work a w = Some w'"
  shows "owner (info w') = owner (info w)" "tx_active (info w') = tx_active (info w)"
proof -
  obtain w1 where w1: "r56_bh_receive w = Some w1" "but_rx (info w1) = but_rx (info w)"
    using bh_receive_loop_total [of w] drv_invD [OF inv] by (auto simp: r56_bh_receive_def)
  have "netcount (info w1) = netcount (info w)" using arg_cong [OF w1(2), of netcount] by (simp add: but_rx_def)
  then have "owner (info w1) = owner (info w) \<and> tx_active (info w1) = tx_active (info w)"
    using but_rx_fields(10,15,22) [OF w1(2)] by (simp add: owner_def)
  moreover have "owner (info (r56_bh_transmit w)) = owner (info w) \<and> tx_active (info (r56_bh_transmit w)) = tx_active (info w)"
    "owner (info (r56_bh_status w)) = owner (info w) \<and> tx_active (info (r56_bh_status w)) = tx_active (info w)"
    by (simp_all add: r56_bh_transmit_def r56_bh_status_def usc_loopmode_send_done_def Let_def owner_def)
  ultimately have "owner (info w') = owner (info w) \<and> tx_active (info w') = tx_active (info w)"
    using run w1(1) by (simp add: bh_work_def split: if_splits)
  then show "owner (info w') = owner (info w)" "tx_active (info w') = tx_active (info w)" by blast+
qed

lemma net_bh_work_handled:
  assumes good: "net_good n"
  shows "\<exists>n'. net_bh_work a n = Some n' \<and> net_good n' \<and> bh_running (ninfo n') = bh_running (ninfo n) \<and>
    bh_requested (ninfo n') = bh_requested (ninfo n) \<and> pending_bh (ninfo n') = pending_bh (ninfo n)"
proof -
  have inv: "dev_inv False (info (nworld n))" and ok: "net_ok n"
    using good by (simp_all add: net_good_def net_owned_def net_ok_def ninfo_def)
  from bh_work_total [OF inv, of a] obtain w' where w': "bh_work a (nworld n) = Some w'" "net_inv (info w')"
    "pending_bh (info w') = pending_bh (ninfo n)" "bh_running (info w') = bh_running (ninfo n)"
    "bh_requested (info w') = bh_requested (ninfo n)" "params (info w') = params (ninfo n)" by (auto simp: ninfo_def)
  from bh_work_forth [OF w'(1) ok] obtain n' where n': "net_bh_work a n = Some n'" "nworld n' = w'" "net_ok n'" by blast
  have "queue_of n' = queue_of n"
    using n'(1) queue_of_receive_loop queue_of_frame(2) by (auto simp: net_bh_work_def net_bh_receive_def split: if_splits)
  then have q: "map_option queue_stopped (netdev n') = map_option queue_stopped (netdev n)" by (simp add: queue_of_def)
  note f = bh_work_frame [OF inv w'(1)]
  have "ctl (ninfo n') = ctl (ninfo n)" using w' f(1) n'(2) by (simp add: ctl_def ninfo_def)
  then have "net_good n'"
    using w'(2) n'(2) f(2) by (intro net_good_step [OF good _ _ q]) (simp_all add: ninfo_def)
  then show ?thesis using n' w' by (simp add: ninfo_def)
qed

subsection \<open>Frames and settings\<close>

lemma net_xmit_kept:
  assumes good: "net_good n"
  shows "net_kept n (hdlcdev_xmit skb n)"
proof -
  define n1 where "n1 = set_ninfo (xmit_cnt_update (\<lambda>_. int (length skb))) (netif_stop_queue n)"
  obtain d where d: "netdev n = Some d" using good by (auto simp: net_good_def net_owned_def)
  have own: "net_owned n" and inv: "net_inv (info (nworld n))" "sync_mode (info (nworld n))"
    using good by (simp_all add: net_good_def net_owned_def ninfo_def)
  have 1: "net_inv (info (nworld n1))" "ctl (info (nworld n1)) = ctl (ninfo n)" "env (nworld n1) = env (nworld n)"
    using drv_inv_xmit_cnt [OF inv, of "int (length skb)"] by (simp_all add: n1_def ctl_def owner_def ninfo_def)
  have fit: "unat (of_nat (length skb) :: u32) \<le> length skb" by (simp add: unat_of_nat)
  from load_tx_dma_buffer_safe [OF drv_invD(3) [OF 1(1)] fit] obtain w2 where
    w2: "r56_load_tx_dma_buffer skb (of_nat (length skb)) (nworld n1) = Some w2" by blast
  note 2 = load_tx_dma_buffer_inv [OF 1(1) w2]
  define n2 where "n2 = ncall_only Dev_kfree_skb (set_dev (count_tx (length skb)) (n1\<lparr> nworld := w2 \<rparr>))"
  have n2: "nworld n2 = w2" by (simp add: n2_def)
  have q2: "netdev n2 = Some (count_tx (length skb) (d\<lparr> queue_stopped := True \<rparr>))" using d by (simp add: n2_def n1_def)
  from start_transmitter_inv [of False w2] 2 obtain w3 where w3: "usc_start_transmitter w2 = Some w3" "net_inv (info w3)"
    "ctl (info w3) = ctl (info w2)" "env w3 = env w2" by blast
  define w' where "w' = (if \<not> tx_active (info w2) then w3 else w2)"
  have run: "hdlcdev_xmit skb n = Some (n2\<lparr> nworld := w' \<rparr>)"
  proof -
    have "on_world (r56_load_tx_dma_buffer skb (of_nat (length skb))) n1 = Some (n1\<lparr> nworld := w2 \<rparr>)"
      by (simp add: on_world_def w2)
    moreover have "n2\<lparr> nworld := w2 \<rparr> = n2" using n2 by (cases n2) simp
    then have "(if \<not> tx_active (ninfo n2) then on_world usc_start_transmitter n2 else Some n2) = Some (n2\<lparr> nworld := w' \<rparr>)"
      by (simp add: on_world_def ninfo_def n2 w3(1) w'_def)
    ultimately show ?thesis
      unfolding hdlcdev_xmit_def n1_def [symmetric] Let_def by (simp only: bind.bind_lunit n2_def [symmetric])
  qed
  have w': "net_inv (info w')" "ctl (info w') = ctl (ninfo n)" "env w' = env (nworld n)"
    using 1 2 w3 by (simp_all add: w'_def)
  have "net_owned (n2\<lparr> nworld := w' \<rparr>)"
    by (rule net_ownedI [OF own]) (use w' q2 in \<open>simp_all add: ninfo_def ctl_def\<close>)
  moreover have "queue_safe (n2\<lparr> nworld := w' \<rparr>)" using q2 by (simp add: queue_safe_def count_tx_def)
  ultimately show ?thesis using w' unfolding run by (simp add: net_kept_def same_work_def net_good_def ninfo_def ctl_def)
qed

lemma net_watchdog_kept:
  assumes good: "net_good n"
  shows "net_kept n (Some (hdlcdev_tx_timeout n))"
proof -
  have own: "net_owned n" and inv: "net_inv (info (nworld n))" using good by (simp_all add: net_good_def net_owned_def ninfo_def)
  define n' where "n' = hdlcdev_tx_timeout n"
  have w: "nworld n' = usc_stop_transmitter (nworld n)" "netdev n' \<noteq> None"
    using own by (simp_all add: n'_def hdlcdev_tx_timeout_def Let_def net_owned_def)
  have i: "net_inv (ninfo n')" "ctl (ninfo n') = ctl (ninfo n)" "\<not> tx_active (ninfo n')"
    using inv by (simp_all add: ninfo_def w(1) del: info_usc_stop_transmitter) (simp add: ctl_def)?
  have "net_owned n'" by (rule net_ownedI [OF own]) (use i w in \<open>simp_all add: ctl_def\<close>)
  moreover have "queue_safe n'" using i(3) by (simp add: queue_safe_def)
  ultimately show ?thesis using i w by (simp add: net_kept_def same_work_def net_good_def ctl_def n'_def [symmetric])
qed

text \<open>New settings: reprogramming stops the transmitter.\<close>

lemma sync_mode_idle: "\<not> tx_active (info (usc_set_sync_mode w))"
proof -
  obtain pre pre' where "info (usc_set_sync_mode w) = (sdlc_info pre' (loopback_frame_info pre (info w)))\<lparr> loopback_bits :=
      if loopback (params (info w)) \<noteq> 0 then 0x300 else 0 \<rparr>"
    using info_usc_set_sync_mode by blast
  then show ?thesis by simp
qed

lemma program_hw_idle:
  assumes "netcount (info w) \<noteq> 0" "r56_program_hw w = Some w'"
  shows "\<not> tx_active (info w')"
proof -
  define w0 where "w0 = usc_stop_transmitter (usc_stop_receiver w)"
  define w1 where "w1 = set_info (\<lambda>i. i\<lparr> xmit_cnt := 0, xmit_head := 0, xmit_tail := 0 \<rparr>) w0"
  define w2 where "w2 = usc_set_sync_mode w1"
  define w3 where "w3 = usc_get_serial_signals
      (usc_EnableInterrupts (usc_EnableStatusIrqs (set_info (\<lambda>i. i\<lparr> dcd_chkcount := 0, cts_chkcount := 0, ri_chkcount := 0, dsr_chkcount := 0 \<rparr>)
        (usc_set_serial_signals w2)) (SICR_CTS + SICR_DSR + SICR_DCD + SICR_RI)) IO_PIN)"
  have "driver_core (info w0) = driver_core (info w)" unfolding w0_def by (simp only: driver_core_stop)
  then have n1: "netcount (info w1) \<noteq> 0" using assms(1) driver_core_fields(25) [of "info w0" "info w"] by (simp add: w1_def)
  have n3: "netcount (info w3) = netcount (info w2)" "tx_active (info w3) = tx_active (info w2)" by (simp_all add: w3_def)
  have "netcount (info w2) = netcount (info w1)"
    unfolding w2_def using driver_core_fields(25) [OF driver_core_set_sync_mode] .
  then have n: "netcount (info w3) \<noteq> 0" using n1 n3(1) by simp
  have "usc_start_receiver w3 = Some w'"
    using assms(2) n n1 unfolding r56_program_hw_def w3_def w2_def w1_def w0_def Let_def by simp
  from rx_path_but_rx(1) [OF this] have "tx_active (info w') = tx_active (info w3)" by (rule but_rx_fields(10))
  then show ?thesis using n3(2) sync_mode_idle by (simp add: w2_def)
qed

lemma net_inv_params:
  "net_inv i \<Longrightarrow> mode (f (params i)) = mode (params i) \<Longrightarrow> net_inv (params_update f i)"
  by (simp add: drv_inv_parts)

lemma net_reprogram_handled:
  assumes good: "net_good n" and mode: "\<And>p. mode (f p) = mode p"
  shows "\<exists>n'. reprogram_if_up (set_ninfo (params_update f) n) = Some n' \<and> net_good n' \<and>
    bh_running (ninfo n') = bh_running (ninfo n) \<and> bh_requested (ninfo n') = bh_requested (ninfo n) \<and>
    pending_bh (ninfo n') = pending_bh (ninfo n)"
proof -
  have own: "net_owned n" and inv: "net_inv (ninfo n)" and up: "netcount (ninfo n) \<noteq> 0"
    using good by (simp_all add: net_good_def net_owned_def)
  define w where "w = set_info (params_update f) (nworld n)"
  have "net_inv (info w)" using net_inv_params [OF inv, of f] mode by (simp add: w_def ninfo_def)
  then have c: "dev_inv False (xmit_cleared (info w))" by (rule drv_inv_restart)
  have u: "False \<or> netcount (info w) \<noteq> 0" using up by (simp add: w_def ninfo_def)
  from program_hw_inv [OF c u] obtain w' where w': "r56_program_hw w = Some w'" "net_inv (info w')"
    "soft (info w') = soft (info w)" by blast
  have idle: "\<not> tx_active (info w')" using program_hw_idle [OF _ w'(1)] u by simp
  define n' where "n' = n\<lparr> nworld := w' \<rparr>"
  have run: "reprogram_if_up (set_ninfo (params_update f) n) = Some n'"
    using up w'(1) by (simp add: reprogram_if_up_def on_world_def n'_def w_def set_ninfo_def ninfo_def)
  have s: "mode (params (info w')) = mode (params (ninfo n))" "owner (info w') = owner (ninfo n)"
    "bh_running (info w') = bh_running (ninfo n)" "bh_requested (info w') = bh_requested (ninfo n)"
    "pending_bh (info w') = pending_bh (ninfo n)"
    using w'(3) mode by (simp_all add: soft_def owner_def w_def ninfo_def)
  have "net_owned n'"
    by (rule net_ownedI [OF own]) (use w' s own in \<open>simp_all add: n'_def ninfo_def net_owned_def\<close>)
  then have "net_good n'" using idle by (simp add: net_good_def queue_safe_def n'_def ninfo_def)
  then show ?thesis using run s by (simp add: n'_def ninfo_def)
qed

text \<open>A request of the network layer, whatever its result.\<close>

lemma net_good_ncall:
  "net_good n \<Longrightarrow> net_good (snd (ncall c n))" "same_work n (snd (ncall c n))"
  by (simp_all add: net_good_def net_owned_def queue_safe_def ninfo_def same_work_def)

lemma net_ioctl_handled:
  assumes good: "net_good n"
  shows "\<exists>rc a b n'. hdlcdev_ioctl req n = Some (rc, a, b, n') \<and> net_good n' \<and> same_work n n'"
proof (cases "port_count (ninfo n) \<noteq> 0")
  case True
  then show ?thesis using good by (simp add: hdlcdev_ioctl_def same_work_def)
next
  case port: False
  have same: "same_work n n" by (simp add: same_work_def)
  show ?thesis
  proof (cases req)
    case (IF_IFACE_SYNC_SERIAL admin data)
    have m: "\<And>p. mode (set_settings l fl p) = mode p" for l fl by (simp add: set_settings_def)
    have re: "\<exists>n'. reprogram_if_up (set_ninfo (params_update (set_settings l fl)) n) = Some n' \<and> net_good n' \<and> same_work n n'" for l fl
      using net_reprogram_handled [OF good, of "set_settings l fl"] m by (simp add: same_work_def)
    show ?thesis
    proof (cases data)
      case None
      then show ?thesis using port good same by (simp add: hdlcdev_ioctl_def IF_IFACE_SYNC_SERIAL)
    next
      case (Some l)
      show ?thesis
      proof (cases "clock_flags (clock_type l) (flags (params (ninfo n)))")
        case None
        then show ?thesis using port good same Some by (simp add: hdlcdev_ioctl_def IF_IFACE_SYNC_SERIAL)
      next
        case fl: (Some fl)
        from re [of l fl] obtain n' where "reprogram_if_up (set_ninfo (params_update (set_settings l fl)) n) = Some n'"
          "net_good n'" "same_work n n'" by blast
        then show ?thesis using port good same Some fl by (simp add: hdlcdev_ioctl_def IF_IFACE_SYNC_SERIAL)
      qed
    qed
  qed (use port good same net_good_ncall in \<open>auto simp: hdlcdev_ioctl_def case_prod_unfold Let_def\<close>)
qed

lemma net_attach_handled:
  assumes good: "net_good n"
  shows "\<exists>rc n'. hdlcdev_attach enc par n = Some (rc, n') \<and> net_good n' \<and> same_work n n'"
proof -
  have same: "same_work n n" by (simp add: same_work_def)
  have "\<exists>n'. reprogram_if_up (set_ninfo (params_update (\<lambda>p. p\<lparr> encoding := e, crc_type := c \<rparr>)) n) = Some n' \<and>
      net_good n' \<and> same_work n n'" for e c
    using net_reprogram_handled [OF good, of "\<lambda>p. p\<lparr> encoding := e, crc_type := c \<rparr>"] by (simp add: same_work_def)
  note re = this
  show ?thesis
  proof (cases "port_count (ninfo n) \<noteq> 0 \<or> new_encoding enc = None \<or> new_crctype par = None")
    case True
    then show ?thesis using good same by (auto simp: hdlcdev_attach_def split: option.split)
  next
    case False
    then obtain e c where ec: "new_encoding enc = Some e" "new_crctype par = Some c" by auto
    from re [where e = e and c = c] obtain n' where
      "reprogram_if_up (set_ninfo (params_update (\<lambda>p. p\<lparr> encoding := e, crc_type := c \<rparr>)) n) = Some n'"
      "net_good n'" "same_work n n'" by blast
    then show ?thesis using False ec by (simp add: hdlcdev_attach_def)
  qed
qed

subsection \<open>The system\<close>

text \<open>
  One step while the interface is up: the two halves of a round of the bottom half, an interrupt, the transmit timer,
  the DMA controller, a frame that the network hands over while its queue runs, the network's own time-out, its
  requests, and the adapter and the layers changing how they will answer.
\<close>

inductive net_step :: "bh_pc \<times> net \<Rightarrow> bh_pc \<times> net \<Rightarrow> bool" where
  net_bh_start: "bh_requested (ninfo n) \<Longrightarrow>
    net_step (BH_idle, n) (BH_next, set_ninfo (bh_running_update (\<lambda>_. True)) n)"
| net_bh_next: "r56_bh_action (nworld n) = (a, w') \<Longrightarrow>
    net_step (BH_next, n) (if a = 0 then BH_idle else BH_doing a, n\<lparr> nworld := w' \<rparr>)"
| net_bh_do: "net_bh_work a n = Some n' \<Longrightarrow> net_step (BH_doing a, n) (BH_next, n')"
| net_irq: "net_adapter_ok (env (nworld n)) (trace (nworld n)) \<Longrightarrow> net_interrupt n = Some n' \<Longrightarrow> net_step (pc, n) (pc, n')"
| net_timer: "tx_timer (ninfo n) \<Longrightarrow> net_tx_timeout n = Some n' \<Longrightarrow> net_step (pc, n) (pc, n')"
| net_dma: "map virt_addr es = map virt_addr (rx_buffer_list (ninfo n)) \<Longrightarrow>
    map virt_addr ts = map virt_addr (tx_buffer_list (ninfo n)) \<Longrightarrow>
    net_step (pc, n) (pc, n\<lparr> nworld := (nworld n)\<lparr>
      info := (ninfo n)\<lparr> rx_buffer_list := es, tx_buffer_list := ts \<rparr>, mem := m \<rparr> \<rparr>)"
| net_xmit: "netdev n = Some d \<Longrightarrow> \<not> queue_stopped d \<Longrightarrow> hdlcdev_xmit skb n = Some n' \<Longrightarrow> net_step (pc, n) (pc, n')"
| net_watchdog: "net_step (pc, n) (pc, hdlcdev_tx_timeout n)"
| net_ioctl: "hdlcdev_ioctl req n = Some (rc, a, b, n') \<Longrightarrow> net_step (pc, n) (pc, n')"
| net_attach: "hdlcdev_attach enc par n = Some (rc, n') \<Longrightarrow> net_step (pc, n) (pc, n')"
| net_answers: "net_step (pc, n) (pc, n\<lparr> nworld := (nworld n)\<lparr> env := e \<rparr>, nret := r \<rparr>)"

inductive net_reachable :: "bh_pc \<times> net \<Rightarrow> bool" where
  net_start: "net_good n \<Longrightarrow> \<not> bh_running (ninfo n) \<Longrightarrow>
    pending_bh (ninfo n) \<noteq> 0 \<longrightarrow> bh_requested (ninfo n) \<Longrightarrow> net_reachable (BH_idle, n)"
| net_next: "net_reachable s \<Longrightarrow> net_step s t \<Longrightarrow> net_reachable t"

definition net_sys_inv :: "bh_pc \<times> net \<Rightarrow> bool" where
  "net_sys_inv s \<longleftrightarrow>
     (case s of (pc, n) \<Rightarrow>
        net_good n \<and> (bh_running (ninfo n) \<longleftrightarrow> pc \<noteq> BH_idle) \<and>
        (pending_bh (ninfo n) \<noteq> 0 \<longrightarrow> bh_requested (ninfo n) \<or> bh_running (ninfo n)))"

lemma net_sys_good: "net_sys_inv (pc, n) \<Longrightarrow> net_good n"
  by (simp add: net_sys_inv_def)

lemma net_sys_work:
  "net_sys_inv (pc, n) \<Longrightarrow> pending_bh (ninfo n) \<noteq> 0 \<longrightarrow> bh_requested (ninfo n) \<or> bh_running (ninfo n)"
  by (simp add: net_sys_inv_def; blast)

lemma net_sys_inv_same:
  "net_sys_inv (pc, n) \<Longrightarrow> net_good n' \<Longrightarrow> same_work n n' \<Longrightarrow> net_sys_inv (pc, n')"
  by (auto simp: net_sys_inv_def same_work_def)

lemma net_sys_inv_kept:
  "net_sys_inv (pc, n) \<Longrightarrow> net_kept n (Some n') \<Longrightarrow> net_sys_inv (pc, n')"
  using net_sys_inv_same by (auto simp: net_kept_def)

lemma net_bh_next_inv:
  assumes "net_sys_inv (BH_next, n)" "r56_bh_action (nworld n) = (a, w')"
  shows "net_sys_inv (if a = 0 then BH_idle else BH_doing a, n\<lparr> nworld := w' \<rparr>)"
proof -
  have good: "net_good n" and run: "bh_running (ninfo n)" using assms(1) by (simp_all add: net_sys_inv_def)
  have inv: "net_inv (ninfo n)" using good by (simp add: net_good_def net_owned_def)
  from bh_action_cases(1) [OF assms(2)] show ?thesis
  proof (elim disjE conjE)
    assume z: "a = 0" "\<not> tst (pending_bh (info (nworld n))) 1" "\<not> tst (pending_bh (info (nworld n))) 2"
        "\<not> tst (pending_bh (info (nworld n))) 4"
      and i: "info w' = (info (nworld n))\<lparr> bh_running := False, bh_requested := False \<rparr>"
    have "pending_bh (info (nworld n)) = 0"
      using pending_ok_zero [OF drv_invD(7) [OF inv, unfolded ninfo_def] z(2-4)] .
    moreover have "net_good (n\<lparr> nworld := w' \<rparr>)"
      using inv good by (intro net_good_world [OF good]) (simp_all add: i owner_def ninfo_def)
    ultimately show ?thesis using z(1) by (simp add: i net_sys_inv_def ninfo_def)
  next
    assume "a \<in> {1, 2, 4}" and i: "info w' = (info (nworld n))\<lparr> pending_bh := pending_bh (info (nworld n)) AND NOT a \<rparr>"
    moreover have "net_good (n\<lparr> nworld := w' \<rparr>)"
      using inv good by (intro net_good_world [OF good]) (simp_all add: i owner_def ninfo_def)
    ultimately show ?thesis using run by (auto simp: i net_sys_inv_def ninfo_def)
  qed
qed

lemma net_dma_good:
  assumes good: "net_good n" and l: "map virt_addr es = map virt_addr (rx_buffer_list (ninfo n))"
    "map virt_addr ts = map virt_addr (tx_buffer_list (ninfo n))"
  shows "net_good (n\<lparr> nworld := (nworld n)\<lparr> info := (ninfo n)\<lparr> rx_buffer_list := es, tx_buffer_list := ts \<rparr>, mem := m \<rparr> \<rparr>)"
proof -
  have "net_inv (ninfo n)" using good by (simp add: net_good_def net_owned_def)
  from drv_inv_dma [OF this l] show ?thesis by (intro net_good_world [OF good]) (simp_all add: owner_def)
qed

lemma net_step_inv: "net_step s t \<Longrightarrow> net_sys_inv s \<Longrightarrow> net_sys_inv t"
proof (induction rule: net_step.induct)
  case (net_bh_start n)
  then have "net_good (set_ninfo (bh_running_update (\<lambda>_. True)) n)"
    by (simp add: net_sys_inv_def net_good_def net_owned_def queue_safe_def)
  then show ?case by (simp add: net_sys_inv_def)
next
  case (net_bh_next n a w')
  then show ?case using net_bh_next_inv by blast
next
  case (net_bh_do a n n')
  then show ?case using net_bh_work_handled [of n a] by (auto simp: net_sys_inv_def)
next
  case (net_irq n n' pc)
  then show ?case using net_interrupt_handled [of n] by (auto simp: net_sys_inv_def)
next
  case (net_timer n n' pc)
  then show ?case using net_tx_timeout_kept [OF net_sys_good] net_sys_inv_kept by metis
next
  case (net_dma es n ts pc m)
  from net_dma_good [OF net_sys_good [OF net_dma.prems] net_dma.hyps] show ?case
    by (rule net_sys_inv_same [OF net_dma.prems]) (simp add: same_work_def ninfo_def)
next
  case (net_xmit n d skb n' pc)
  then show ?case using net_xmit_kept [OF net_sys_good] net_sys_inv_kept by metis
next
  case (net_watchdog pc n)
  then show ?case using net_watchdog_kept [OF net_sys_good] net_sys_inv_kept by metis
next
  case (net_ioctl req n rc a b n' pc)
  obtain rc' a' b' m where m: "hdlcdev_ioctl req n = Some (rc', a', b', m)" "net_good m" "same_work n m"
    using net_ioctl_handled [OF net_sys_good [OF net_ioctl.prems]] by blast
  then show ?case using net_ioctl net_sys_inv_same by simp
next
  case (net_attach enc par n rc n' pc)
  obtain rc' m where "hdlcdev_attach enc par n = Some (rc', m)" "net_good m" "same_work n m"
    using net_attach_handled [OF net_sys_good [OF net_attach.prems]] by blast
  then show ?case using net_attach net_sys_inv_same by simp
next
  case (net_answers pc n r e)
  have "net_good n" using net_sys_good [OF net_answers] .
  then have "net_good (n\<lparr> nworld := (nworld n)\<lparr> env := e \<rparr>, nret := r \<rparr>)"
    by (simp add: net_good_def net_owned_def queue_safe_def ninfo_def)
  then show ?case by (rule net_sys_inv_same [OF net_answers]) (simp add: same_work_def ninfo_def)
qed

lemma net_running_reachable:
  assumes "net_running n" "netdev n \<noteq> None" "\<not> tst (port_flags (ninfo n)) ASYNC_CTS_FLOW" "sync_mode (ninfo n)"
    "\<not> tx_active (ninfo n)"
  shows "net_reachable (BH_idle, n)"
  using assms
  by (intro net_start) (auto simp: net_running_def net_rest_def net_good_def net_owned_def queue_safe_def ninfo_def)

lemma net_reachable_inv: "net_reachable s \<Longrightarrow> net_sys_inv s"
  by (induction rule: net_reachable.induct) (simp_all add: net_sys_inv_def [of "(BH_idle, _)"] net_step_inv)

subsection \<open>Properties\<close>


text \<open>A device that is up, and the state after a frame was handed over.\<close>

definition net_up_example :: net where
  "net_up_example =
     \<lparr> nworld = set_info (\<lambda>i. i\<lparr> port_tty := None, netcount := 1 \<rparr>) open_example,
       netdev = Some \<lparr> dev_stats = zero_stats, queue_stopped = False, dev_carrier = True \<rparr>, ncalls = [], nret = (\<lambda>_. 0) \<rparr>"

lemma net_up_example_good: "net_good net_up_example"
proof -
  have "dev_inv False (i\<lparr> port_tty := None, netcount := 1 \<rparr>)" if "dev_inv True i" for i
    using that by (simp add: drv_inv_parts)
  then show ?thesis
    using open_example_inv
    by (simp add: net_good_def net_owned_def queue_safe_def net_up_example_def ninfo_def)
      (simp add: open_example_def zero_info_def default_params_def tst_def)
qed


end
