(* ===== verification/R56_Line.thy ===== *)
theory R56_Line
  imports R56_Write
begin

text \<open>
  Two adapters on one line: what a program writes on one terminal is what the line discipline gets on the other. The DMA
  controllers and the line between them are a hypothesis, stated over the rings: the sender's controller fetches
  the frame that it was pointed at, and the receiver's has stored the same bytes without an error.
\<close>

text \<open>
  The bytes the transmit DMA channel fetches: it starts at the entry of the frame and follows the ring for as many
  bytes as the transmit count register was loaded with from that entry.
\<close>

definition fetched :: "world \<Rightarrow> u8 list" where
  "fetched w =
    (let es = tx_buffer_list (info w); s = nat (start_tx_dma_buffer (info w))
     in frame_bytes (mem w) es s (unat (rcc (es ! s))))"

definition crc_size :: "R56_PARAMS \<Rightarrow> nat" where
  "crc_size p =
    (if crc_type p = HDLC_CRC_16_CCITT then 2 else if crc_type p = HDLC_CRC_32_CCITT then 4 else 0)"

text \<open>
  A frame has arrived: the receive DMA channel has stored its bytes from the current buffer on, marked the last buffer
  with a status without errors, and left the residual count, which began at \<open>0xffff\<close> and went down by one for
  each byte of the frame and its CRC.
\<close>

definition arrived :: "u8 list \<Rightarrow> world \<Rightarrow> bool" where
  "arrived bs w \<longleftrightarrow>
    (let es = rx_buffer_list (info w); s = unat (current_rx_buffer (info w)); n = length bs + crc_size (params (info w))
     in n \<le> 0xffff \<and> frame_bytes (mem w) es s (length bs) = bs \<and>
        (case rx_next_frame es s of
           Rx_frame j \<Rightarrow> \<not> tst (status (es ! j)) RXSTATUS_ERRORS \<and> rcc (es ! j) = 0xffff - of_nat n
         | _ \<Rightarrow> False))"

lemma arrived_size:
  fixes r :: u16
  assumes "n + k \<le> 0xffff" "r = 0xffff - of_nat (n + k)"
  shows "(0xffff :: u32) - ucast r - of_nat k = of_nat n"
proof -
  have "unat r = 0xffff - (n + k)"
  proof -
    have "unat (of_nat (n + k) :: u16) = n + k" using assms(1) by (intro unat_of_nat_small) simp
    moreover have "unat ((0xffff :: u16) - x) = 0xffff - unat x" for x :: u16
    proof -
      have "unat x < 2 ^ LENGTH(16)" by (rule unsigned_less)
      then have "x \<le> 0xffff" by (simp add: word_le_nat_alt)
      then show ?thesis by (simp add: unat_sub)
    qed
    ultimately show ?thesis by (simp add: assms(2))
  qed
  moreover have "(ucast r :: u32) = of_nat (unat r)" by simp
  ultimately have "(ucast r :: u32) = of_nat (0xffff - (n + k))" by (simp only:)
  then show ?thesis using assms(1) by (simp add: of_nat_diff)
qed

lemma arrived_delivered:
  assumes ready: "rx_ready (info w)" and tty: "port_tty (info w) \<noteq> None" and arr: "arrived bs w"
    and ex: "\<not> tst (crc_type (params (info w))) HDLC_CRC_RETURN_EX" and no_overflow: "\<not> rx_overflow (info w)"
    and size: "bs \<noteq> []" "length bs \<le> unat (max_frame_size (info w))"
  shows "\<exists>w'. r56_get_rx_frame w = Some (True, w') \<and> trace w' = trace w @ [Call (Ldisc_receive_buf bs)] \<and>
    icount (info w') = ic_rxok_update (\<lambda>n. n + 1) (icount (info w))"
proof -
  define es where "es = rx_buffer_list (info w)"
  define s where "s = unat (current_rx_buffer (info w))"
  define k where "k = crc_size (params (info w))"
  obtain j where j: "rx_next_frame es s = Rx_frame j" "\<not> tst (status (es ! j)) RXSTATUS_ERRORS"
    "rcc (es ! j) = 0xffff - of_nat (length bs + k)" and n: "length bs + k \<le> 0xffff" and b: "frame_bytes (mem w) es s (length bs) = bs"
    using arr by (auto simp: arrived_def Let_def es_def s_def k_def split: rx_search.splits)
  have u: "unat (of_nat (length bs) :: u32) = length bs" using n by (intro unat_of_nat_small) simp
  have "rx_framesize (params (info w)) (es ! j) = 0xffff - ucast (rcc (es ! j)) - of_nat k"
    using j(2) by (simp add: rx_framesize_def k_def crc_size_def Let_def)
  then have fs: "rx_framesize (params (info w)) (es ! j) = of_nat (length bs)"
    using arrived_size [OF n j(3)] by simp
  have limit: "of_nat (length bs) \<noteq> (0 :: u32)" "\<not> of_nat (length bs) > max_frame_size (info w)"
    using size u by (auto simp: word_less_nat_alt)
  have crc: "\<not> tst (status (es ! j)) RXSTATUS_CRC_ERROR"
    using j(2) tst_mono [of "status (es ! j)" RXSTATUS_CRC_ERROR RXSTATUS_ERRORS] by auto
  have p: "rx_payload w s (es ! j) = Some bs"
    using ex limit by (simp add: rx_payload_def Let_def fs u es_def [symmetric] b)
  have c: "frame_counters (info w) (es ! j) = ic_rxok_update (\<lambda>n. n + 1) (icount (info w))"
    using j(2) ex limit crc by (simp add: frame_counters_def rx_counters_def Let_def fs)
  from get_rx_frame_found [OF ready s_def j(1) [unfolded es_def]] show ?thesis
    using no_overflow tty unfolding es_def [symmetric] p c by (auto simp: deliver_trace_def consumed_def)
qed

text \<open>C7: A frame crosses the line: what a program writes in HDLC mode on a terminal with an idle transmitter, when it
  fits into the transmit ring and, with its CRC, into the counters of the controller, is accepted whole, and the DMA channel is started at its first buffer with its length; and
  on every
  other adapter, with any ring, CRC setting that the driver strips and state of its buffers, on which the bytes that the
  sender's DMA channel fetches have arrived without an error, the line discipline gets exactly this frame, once, and one
  good frame is counted.\<close>

theorem frame_crosses_line:
  assumes "tx_ready (info a)" "mode (params (info a)) = R56_MODE_HDLC"
    "\<not> tst (flags (params (info a))) HDLC_FLAG_HDLC_LOOPMODE" "\<not> tx_active (info a)" "xmit_cnt (info a) = 0"
    "xmit_buf (info a) \<noteq> None" "tty_running tty"
    and buf: "buf \<noteq> []" "length buf \<le> 0xffff" "pages (length buf) \<le> length (tx_buffer_list (info a))"
  shows "\<exists>a'. r56_write tty buf a = Some (int (length buf), a') \<and>
    dma_sending a' (tx_buffer_list (info a') ! nat (start_tx_dma_buffer (info a'))) \<and> fetched a' = buf \<and>
    (\<forall>b. rx_ready (info b) \<longrightarrow> port_tty (info b) \<noteq> None \<longrightarrow> \<not> tst (crc_type (params (info b))) HDLC_CRC_RETURN_EX \<longrightarrow>
      \<not> rx_overflow (info b) \<longrightarrow> length buf \<le> unat (max_frame_size (info b)) \<longrightarrow> arrived (fetched a') b \<longrightarrow>
      (\<exists>b'. r56_get_rx_frame b = Some (True, b') \<and> trace b' = trace b @ [Call (Ldisc_receive_buf buf)] \<and>
         icount (info b') = ic_rxok_update (\<lambda>n. n + 1) (icount (info b))))"
proof -
  have len: "length buf < 2 ^ 32" using buf(2) by simp
  from write_hdlc_starts [OF assms(1-7) buf(1) len buf(3)] obtain a' where
    a': "r56_write tty buf a = Some (int (length buf), a')" "frame_loaded buf a a'"
      "dma_sending a' (tx_buffer_list (info a') ! nat (current_tx_buffer (info a)))" by blast
  have "unat (of_nat (length buf) :: u16) = length buf" using buf(2) by (intro unat_of_nat_small) simp
  moreover have "0 \<le> current_tx_buffer (info a)" using assms(1) by (simp add: tx_ready_def tx_ring_def)
  ultimately have "fetched a' = buf" using a'(2) by (simp add: fetched_def frame_loaded_def Let_def)
  moreover have "nat (start_tx_dma_buffer (info a')) = nat (current_tx_buffer (info a))"
    using a'(2) by (simp add: frame_loaded_def Let_def)
  ultimately show ?thesis using a'(1,3) arrived_delivered buf(1) by auto
qed

text \<open>A receiver in whose ring the three bytes have arrived, with a CRC of two bytes.\<close>

definition line_example :: world where
  "line_example = rx_example\<lparr> info := (info rx_example)\<lparr>
     rx_buffer_list := [zero_entry\<lparr> status := 0x10, rcc := 0xfffa, virt_addr := 64 \<rparr>] \<rparr>,
     mem := mem_write 64 [1, 2, 3] (\<lambda>_. 0) \<rparr>"

lemma line_example_arrived: "arrived [1, 2, 3] line_example"
  by (simp add: arrived_def Let_def line_example_def rx_example_def zero_info_def zero_entry_def default_params_def
      rx_next_frame_def in_use_def crc_size_def frame_bytes_def mem_write_def tst_def upt_rec)

theorem frame_crosses_line_witness:
  "\<exists>a' b'. r56_write running_tty [1, 2, 3] tx_example = Some (3, a') \<and> arrived (fetched a') line_example \<and>
     r56_get_rx_frame line_example = Some (True, b') \<and>
     trace b' = trace line_example @ [Call (Ldisc_receive_buf [1, 2, 3])]"
proof -
  have "\<exists>a'. r56_write running_tty [1, 2, 3] tx_example = Some (int (length [1 :: u8, 2, 3]), a') \<and>
    dma_sending a' (tx_buffer_list (info a') ! nat (start_tx_dma_buffer (info a'))) \<and> fetched a' = [1, 2, 3] \<and>
    (\<forall>b. rx_ready (info b) \<longrightarrow> port_tty (info b) \<noteq> None \<longrightarrow> \<not> tst (crc_type (params (info b))) HDLC_CRC_RETURN_EX \<longrightarrow>
      \<not> rx_overflow (info b) \<longrightarrow> length [1 :: u8, 2, 3] \<le> unat (max_frame_size (info b)) \<longrightarrow> arrived (fetched a') b \<longrightarrow>
      (\<exists>b'. r56_get_rx_frame b = Some (True, b') \<and> trace b' = trace b @ [Call (Ldisc_receive_buf [1, 2, 3])] \<and>
         icount (info b') = ic_rxok_update (\<lambda>n. n + 1) (icount (info b))))"
    by (rule frame_crosses_line [OF tx_example_ready])
      (simp_all add: tx_example_def pages_def zero_info_def default_params_def tst_def tty_running_def running_tty_def)
  then obtain a' where a': "r56_write running_tty [1, 2, 3] tx_example = Some (3, a')" "fetched a' = [1, 2, 3]"
    and b: "\<forall>b. rx_ready (info b) \<longrightarrow> port_tty (info b) \<noteq> None \<longrightarrow> \<not> tst (crc_type (params (info b))) HDLC_CRC_RETURN_EX \<longrightarrow>
      \<not> rx_overflow (info b) \<longrightarrow> length [1 :: u8, 2, 3] \<le> unat (max_frame_size (info b)) \<longrightarrow> arrived (fetched a') b \<longrightarrow>
      (\<exists>b'. r56_get_rx_frame b = Some (True, b') \<and> trace b' = trace b @ [Call (Ldisc_receive_buf [1, 2, 3])] \<and>
         icount (info b') = ic_rxok_update (\<lambda>n. n + 1) (icount (info b)))" by auto
  have ready: "rx_ready (info line_example)"
    by (simp add: line_example_def rx_example_def rx_ready_def rx_ring_def zero_info_def)
  have c: "port_tty (info line_example) \<noteq> None" "\<not> tst (crc_type (params (info line_example))) HDLC_CRC_RETURN_EX"
    "\<not> rx_overflow (info line_example)" "length [1 :: u8, 2, 3] \<le> unat (max_frame_size (info line_example))"
    by (simp_all add: line_example_def rx_example_def zero_info_def default_params_def tst_def)
  have arr: "arrived (fetched a') line_example" using line_example_arrived a'(2) by simp
  then show ?thesis using b [rule_format, OF ready c arr] a'(1) by blast
qed

end
