(* ===== verification/R56_Scan.thy ===== *)
theory R56_Scan
  imports R56_Consts "HOL-Library.Char_ord"
begin

text \<open>
  The parts of the C library that \<open>utilities/r56util.c\<close> uses on text: the number
  conversions of \<open>printf\<close> (\<open>%d\<close>, \<open>%ld\<close>, \<open>%02X\<close>) and
  of \<open>sscanf\<close> (\<open>%d\<close>, \<open>%i\<close>, \<open>%hx\<close>), and that
  scanning a printed number gives it back.
\<close>

subsection \<open>Printing numbers\<close>

definition digit_char :: "nat \<Rightarrow> char" where
  "digit_char d = char_of (if d < 10 then 48 + d else 55 + d)"

fun show_nat :: "nat \<Rightarrow> nat \<Rightarrow> string" where
  "show_nat b n = (if n < b \<or> b < 2 then [digit_char n] else show_nat b (n div b) @ [digit_char (n mod b)])"

declare show_nat.simps [simp del]

definition show_int :: "int \<Rightarrow> string" where
  "show_int i = (if i < 0 then ''-'' @ show_nat 10 (nat (- i)) else show_nat 10 (nat i))"

text \<open>\<open>%02X\<close> of an unsigned character.\<close>

definition show_hex2 :: "u8 \<Rightarrow> string" where
  "show_hex2 v = [digit_char (unat v div 16), digit_char (unat v mod 16)]"

subsection \<open>Scanning numbers\<close>

definition isspace :: "char \<Rightarrow> bool" where
  "isspace c \<longleftrightarrow> of_char c = (32 :: nat) \<or> 9 \<le> (of_char c :: nat) \<and> of_char c \<le> (13 :: nat)"

definition digit_val :: "char \<Rightarrow> nat option" where
  "digit_val c =
    (let n = of_char c
     in if 48 \<le> n \<and> n \<le> 57 then Some (n - 48)
        else if 65 \<le> n \<and> n \<le> 70 then Some (n - 55)
        else if 97 \<le> n \<and> n \<le> 102 then Some (n - 87)
        else None)"

definition is_digit :: "nat \<Rightarrow> char \<Rightarrow> bool" where
  "is_digit b c \<longleftrightarrow> (case digit_val c of None \<Rightarrow> False | Some d \<Rightarrow> d < b)"

definition digits_value :: "nat \<Rightarrow> string \<Rightarrow> nat" where
  "digits_value b s = foldl (\<lambda>v c. v * b + the (digit_val c)) 0 s"

text \<open>What a conversion finds: the end of the input, no number, or a number and the rest.\<close>

datatype scanned = Scan_eof | Scan_fail | Scan_val int string

definition scan_sign :: "string \<Rightarrow> bool \<times> string" where
  "scan_sign s = (case s of [] \<Rightarrow> (False, s) | c # cs \<Rightarrow>
     if c = CHR ''-'' then (True, cs) else if c = CHR ''+'' then (False, cs) else (False, s))"

definition scan_number :: "(string \<Rightarrow> nat \<times> string) \<Rightarrow> string \<Rightarrow> scanned" where
  "scan_number base_of s =
    (let s = dropWhile isspace s
     in if s = [] then Scan_eof
        else let (neg, s) = scan_sign s;
                 (b, s) = base_of s;
                 ds = takeWhile (is_digit b) s;
                 v = int (digits_value b ds)
             in if ds = [] then Scan_fail
                else Scan_val (if neg then - v else v) (dropWhile (is_digit b) s))"

definition hex_prefix :: "string \<Rightarrow> bool" where
  "hex_prefix s \<longleftrightarrow> take 2 s = ''0x'' \<or> take 2 s = ''0X''"

definition base_d :: "string \<Rightarrow> nat \<times> string" where
  "base_d s = (10, s)"

definition base_i :: "string \<Rightarrow> nat \<times> string" where
  "base_i s = (if hex_prefix s then (16, drop 2 s) else if take 1 s = ''0'' then (8, s) else (10, s))"

definition base_x :: "string \<Rightarrow> nat \<times> string" where
  "base_x s = (16, if hex_prefix s then drop 2 s else s)"

text \<open>
  The conversion to the type of the variable: \<open>strtol\<close> and \<open>strtoul\<close> limit the
  value to \<open>long\<close> and \<open>unsigned long\<close>, the store truncates it.
\<close>

definition to_int :: "int \<Rightarrow> int" where
  "to_int v = signed_take_bit 31 (max (- (2 ^ 63)) (min (2 ^ 63 - 1) v))"

definition to_ushort :: "int \<Rightarrow> u16" where
  "to_ushort v = (if \<bar>v\<bar> < 2 ^ 64 then of_int v else 0xffff)"

subsection \<open>Scanning what was printed\<close>

lemma digit_val_digit_char: "d < 16 \<Longrightarrow> digit_val (digit_char d) = Some d"
  by (simp add: digit_val_def digit_char_def Let_def of_char_of)

lemma is_digit_digit_char: "b \<le> 16 \<Longrightarrow> d < b \<Longrightarrow> is_digit b (digit_char d)"
  by (simp add: is_digit_def digit_val_digit_char)

lemma show_nat_digits: "2 \<le> b \<Longrightarrow> b \<le> 16 \<Longrightarrow> list_all (is_digit b) (show_nat b n)"
proof (induction b n rule: show_nat.induct)
  case (1 b n)
  then show ?case by (subst show_nat.simps) (simp add: is_digit_digit_char)
qed

lemma show_nat_value: "2 \<le> b \<Longrightarrow> b \<le> 16 \<Longrightarrow> digits_value b (show_nat b n) = n"
proof (induction b n rule: show_nat.induct)
  case (1 b n)
  then show ?case
    by (subst show_nat.simps) (auto simp: digits_value_def digit_val_digit_char [OF less_le_trans [OF _ 1(3)]])
qed

lemma show_nat_not_Nil [simp]: "show_nat b n \<noteq> []"
  by (subst show_nat.simps) simp

lemma hd_show_nat: "2 \<le> b \<Longrightarrow> 0 < n \<Longrightarrow> \<exists>d. 0 < d \<and> d < b \<and> hd (show_nat b n) = digit_char d"
proof (induction b n rule: show_nat.induct)
  case (1 b n)
  show ?case
  proof (cases "n < b")
    case True
    then show ?thesis using 1 by (subst show_nat.simps) auto
  next
    case False
    then have "0 < n div b" using 1 by (simp add: div_greater_zero_iff)
    then have "\<exists>d. 0 < d \<and> d < b \<and> hd (show_nat b (n div b)) = digit_char d" using 1 False by auto
    moreover have "hd (show_nat b n) = hd (show_nat b (n div b))" using 1 False by (subst show_nat.simps) simp
    ultimately show ?thesis by simp
  qed
qed

lemma digit_not_space: "is_digit b c \<Longrightarrow> \<not> isspace c"
  by (auto simp: is_digit_def digit_val_def isspace_def Let_def split: if_splits)

lemma digit_not_sign: "is_digit b c \<Longrightarrow> c \<noteq> CHR ''-'' \<and> c \<noteq> CHR ''+''"
  by (auto simp: is_digit_def digit_val_def Let_def split: if_splits)

text \<open>A string of digits is scanned as its value.\<close>

lemma scan_digits:
  assumes ds: "list_all (is_digit b) ds" "ds \<noteq> []" and base: "base_of ds = (b, ds)"
  shows "scan_number base_of ds = Scan_val (int (digits_value b ds)) []"
proof -
  obtain c cs where c: "ds = c # cs" using ds(2) by (cases ds) auto
  then have "is_digit b c" using ds(1) by simp
  then have "dropWhile isspace ds = ds" "scan_sign ds = (False, ds)"
    using digit_not_space [of b c] digit_not_sign [of b c] by (simp_all add: c scan_sign_def)
  moreover have "takeWhile (is_digit b) ds = ds" "dropWhile (is_digit b) ds = []"
    using ds(1) by (auto simp: list_all_iff)
  ultimately show ?thesis using ds(2) base by (simp add: scan_number_def Let_def takeWhile_eq_all_conv [THEN iffD2])
qed

lemma scan_show_decimal: "scan_number base_i (show_nat 10 n) = Scan_val (int n) []"
proof (cases "n = 0")
  case True
  then have "show_nat 10 n = ''0''" by (subst show_nat.simps) (simp, code_simp)
  then show ?thesis by (simp only: \<open>n = 0\<close>) code_simp
next
  case False
  obtain d where d: "0 < d" "d < 10" "hd (show_nat 10 n) = digit_char d" using hd_show_nat [of 10 n] False by auto
  obtain c cs where c: "show_nat 10 n = c # cs" by (cases "show_nat 10 n") auto
  have "c \<noteq> CHR ''0''" using d c digit_val_digit_char [of d] by (auto simp: digit_val_def)
  then have "base_i (show_nat 10 n) = (10, show_nat 10 n)" by (simp add: base_i_def hex_prefix_def c)
  from scan_digits [where base_of = base_i, OF show_nat_digits [of 10 n] show_nat_not_Nil this] show ?thesis by (simp add: show_nat_value)
qed

lemma scan_show_hex:
  assumes "n < 256"
  shows "scan_number base_x (show_nat 16 n) = Scan_val (int n) []"
proof -
  have x: "CHR ''x'' \<notin> set (show_nat 16 n)" "CHR ''X'' \<notin> set (show_nat 16 n)"
    using show_nat_digits [of 16 n] by (auto simp: list_all_iff is_digit_def digit_val_def dest!: bspec)
  have "\<not> hex_prefix (show_nat 16 n)"
  proof
    assume "hex_prefix (show_nat 16 n)"
    then have "CHR ''x'' \<in> set (take 2 (show_nat 16 n)) \<or> CHR ''X'' \<in> set (take 2 (show_nat 16 n))"
      by (auto simp: hex_prefix_def)
    then show False using x by (auto dest: in_set_takeD)
  qed
  then have "base_x (show_nat 16 n) = (16, show_nat 16 n)" by (simp add: base_x_def)
  from scan_digits [where base_of = base_x, OF show_nat_digits [of 16 n] show_nat_not_Nil this] show ?thesis by (simp add: show_nat_value)
qed

end
