(* ===== verification/R56_Options.thy ===== *)
theory R56_Options
  imports R56_Scan R56_State
begin

text \<open>
  The settings that \<open>utilities/r56util.c\<close> edits and its handlers for the options
  of mode, interface, flags and clock sources. A handler gets the remaining command line, the option
  itself first, and returns how many words it has used, or a negative error code. None stands for a
  use of an uninitialised variable.

  What the program calls but does not contain is recorded in the log of its system calls and output;
  the answers are functions of the log.
\<close>

subsection \<open>Interface types\<close>

abbreviation (input) RS485_TERM_NE :: u8 where "RS485_TERM_NE \<equiv> 0x84"
abbreviation (input) RS485_NOTERM_NE :: u8 where "RS485_NOTERM_NE \<equiv> 0x85"
abbreviation (input) LOOP_STD :: u8 where "LOOP_STD \<equiv> 0xa"
abbreviation (input) LOOP_DIFF :: u8 where "LOOP_DIFF \<equiv> 0xb"
abbreviation (input) V35 :: u8 where "V35 \<equiv> 0xe"
abbreviation (input) RS530A :: u8 where "RS530A \<equiv> 0xf"
abbreviation (input) R56_INTERFACE_DISABLE :: u8 where "R56_INTERFACE_DISABLE \<equiv> 0"
abbreviation (input) R56_INTERFACE_RS422 :: u8 where "R56_INTERFACE_RS422 \<equiv> 3"

subsection \<open>State\<close>

text \<open>\<open>Report\<close> is a message about a failed call with the number and text of its error.\<close>

datatype syscall =
    Open string bool | Close | Socket
  | Ioctl_IOCGPARAMS | Ioctl_IOCGTXIDLE | Ioctl_IOCSPARAMS R56_PARAMS | Ioctl_IOCSTXIDLE u32
  | Ioctl_IOCSIF u8 | Ioctl_IOCGSTATS | Ioctl_IOCCLRMODCOUNT
  | Ioctl_SPPPIOCCISCO string | Ioctl_SPPPIOCPPP string | Ioctl_SPPPIOCGFLAGS string
  | Ioctl_SPPPIOCSFLAGS string u32
  | Puts string | Report string

record answers =
  sys_ret :: "syscall list \<Rightarrow> int"
  sys_params :: "syscall list \<Rightarrow> R56_PARAMS"
  sys_txidle :: "syscall list \<Rightarrow> u32"
  sys_icount :: "syscall list \<Rightarrow> r56_icount"
  sys_flags :: "syscall list \<Rightarrow> u32"

text \<open>The parameter block and idle mode being edited, and the global variables.\<close>

record settings =
  s_params :: R56_PARAMS
  idlemode :: u32
  quiet :: bool
  cisco :: bool
  keepalive :: bool
  syncppp_options_set :: bool
  devname :: string
  kernel :: answers
  syslog :: "syscall list"

definition set_param :: "(R56_PARAMS \<Rightarrow> R56_PARAMS) \<Rightarrow> settings \<Rightarrow> settings" where
  "set_param f s = s_params_update f s"

definition puts :: "string \<Rightarrow> settings \<Rightarrow> settings" where
  "puts t s = s\<lparr> syslog := syslog s @ [Puts t] \<rparr>"

text \<open>A system call and its return value.\<close>

definition sys :: "syscall \<Rightarrow> settings \<Rightarrow> int \<times> settings" where
  "sys c s = (sys_ret (kernel s) (syslog s @ [c]), s\<lparr> syslog := syslog s @ [c] \<rparr>)"

definition report :: "string \<Rightarrow> settings \<Rightarrow> settings" where
  "report t s = s\<lparr> syslog := syslog s @ [Report t] \<rparr>"

type_synonym CMD_SET_FUNC = "string list \<Rightarrow> settings \<Rightarrow> (int \<times> settings) option"

subsection \<open>Mode, interface, flags and clock sources\<close>

definition set_async :: CMD_SET_FUNC where
  "set_async argv s = Some (1, set_param (mode_update (\<lambda>_. R56_MODE_ASYNC)) s)"

definition set_hdlc :: CMD_SET_FUNC where
  "set_hdlc argv s = Some (1, set_param (mode_update (\<lambda>_. R56_MODE_HDLC)) s)"

definition set_raw :: CMD_SET_FUNC where
  "set_raw argv s = Some (1, set_param (mode_update (\<lambda>_. R56_MODE_RAW)) s)"

definition set_loopback :: CMD_SET_FUNC where
  "set_loopback argv s = Some (1, set_param (loopback_update (\<lambda>_. 1)) s)"

definition set_noloopback :: CMD_SET_FUNC where
  "set_noloopback argv s = Some (1, set_param (loopback_update (\<lambda>_. 0)) s)"

definition set_rs485t :: CMD_SET_FUNC where
  "set_rs485t argv s = Some (1, set_param (interface_update (\<lambda>_. RS485_TERM)) s)"

definition set_rs485t_ne :: CMD_SET_FUNC where
  "set_rs485t_ne argv s = Some (1, set_param (interface_update (\<lambda>_. RS485_TERM_NE)) s)"

definition set_rs485u :: CMD_SET_FUNC where
  "set_rs485u argv s = Some (1, set_param (interface_update (\<lambda>_. RS485_NOTERM)) s)"

definition set_rs485u_ne :: CMD_SET_FUNC where
  "set_rs485u_ne argv s = Some (1, set_param (interface_update (\<lambda>_. RS485_NOTERM_NE)) s)"

definition set_rs530 :: CMD_SET_FUNC where
  "set_rs530 argv s = Some (1, set_param (interface_update (\<lambda>_. RS530)) s)"

definition set_rs530a :: CMD_SET_FUNC where
  "set_rs530a argv s = Some (1, set_param (interface_update (\<lambda>_. RS530A)) s)"

definition set_v35 :: CMD_SET_FUNC where
  "set_v35 argv s = Some (1, set_param (interface_update (\<lambda>_. V35)) s)"

definition set_seloop :: CMD_SET_FUNC where
  "set_seloop argv s = Some (1, set_param (interface_update (\<lambda>_. LOOP_STD)) s)"

definition set_difloop :: CMD_SET_FUNC where
  "set_difloop argv s = Some (1, set_param (interface_update (\<lambda>_. LOOP_DIFF)) s)"

definition set_ua7 :: CMD_SET_FUNC where
  "set_ua7 argv s =
    Some (1, set_param (flags_update (\<lambda>v. v AND
               NOT (HDLC_FLAG_UNDERRUN_ABORT15 + HDLC_FLAG_UNDERRUN_FLAG + HDLC_FLAG_UNDERRUN_CRC))) s)"

definition set_ua15 :: CMD_SET_FUNC where
  "set_ua15 argv s =
    Some (1, set_param (flags_update (\<lambda>v. v OR HDLC_FLAG_UNDERRUN_ABORT15))
             (set_param (flags_update (\<lambda>v. v AND
               NOT (HDLC_FLAG_UNDERRUN_ABORT15 + HDLC_FLAG_UNDERRUN_FLAG + HDLC_FLAG_UNDERRUN_CRC))) s))"

definition set_uflag :: CMD_SET_FUNC where
  "set_uflag argv s =
    Some (1, set_param (flags_update (\<lambda>v. v OR HDLC_FLAG_UNDERRUN_FLAG))
             (set_param (flags_update (\<lambda>v. v AND
               NOT (HDLC_FLAG_UNDERRUN_ABORT15 + HDLC_FLAG_UNDERRUN_FLAG + HDLC_FLAG_UNDERRUN_CRC))) s))"

definition set_ucrc :: CMD_SET_FUNC where
  "set_ucrc argv s =
    Some (1, set_param (flags_update (\<lambda>v. v OR HDLC_FLAG_UNDERRUN_CRC))
             (set_param (flags_update (\<lambda>v. v AND
               NOT (HDLC_FLAG_UNDERRUN_ABORT15 + HDLC_FLAG_UNDERRUN_FLAG + HDLC_FLAG_UNDERRUN_CRC))) s))"

definition set_sharezero :: CMD_SET_FUNC where
  "set_sharezero argv s = Some (1, set_param (flags_update (\<lambda>v. v OR HDLC_FLAG_SHARE_ZERO)) s)"

definition set_nosharezero :: CMD_SET_FUNC where
  "set_nosharezero argv s = Some (1, set_param (flags_update (\<lambda>v. v AND NOT HDLC_FLAG_SHARE_ZERO)) s)"

definition set_autocts :: CMD_SET_FUNC where
  "set_autocts argv s = Some (1, set_param (flags_update (\<lambda>v. v + HDLC_FLAG_AUTO_CTS)) s)"

definition set_noautocts :: CMD_SET_FUNC where
  "set_noautocts argv s = Some (1, set_param (flags_update (\<lambda>v. v AND NOT HDLC_FLAG_AUTO_CTS)) s)"

definition set_autodcd :: CMD_SET_FUNC where
  "set_autodcd argv s = Some (1, set_param (flags_update (\<lambda>v. v + HDLC_FLAG_AUTO_DCD)) s)"

definition set_noautodcd :: CMD_SET_FUNC where
  "set_noautodcd argv s = Some (1, set_param (flags_update (\<lambda>v. v AND NOT HDLC_FLAG_AUTO_DCD)) s)"

definition set_autorts :: CMD_SET_FUNC where
  "set_autorts argv s = Some (1, set_param (flags_update (\<lambda>v. v + HDLC_FLAG_AUTO_RTS)) s)"

definition set_noautorts :: CMD_SET_FUNC where
  "set_noautorts argv s = Some (1, set_param (flags_update (\<lambda>v. v AND NOT HDLC_FLAG_AUTO_RTS)) s)"

definition set_rxc :: CMD_SET_FUNC where
  "set_rxc argv s =
    Some (1, set_param (flags_update (\<lambda>v. v AND
               NOT (HDLC_FLAG_RXC_DPLL + HDLC_FLAG_RXC_BRG + HDLC_FLAG_RXC_TXCPIN))) s)"

definition set_rxdpll :: CMD_SET_FUNC where
  "set_rxdpll argv s =
    Some (1, set_param (flags_update (\<lambda>v. v OR HDLC_FLAG_RXC_DPLL))
             (set_param (flags_update (\<lambda>v. v AND
               NOT (HDLC_FLAG_RXC_DPLL + HDLC_FLAG_RXC_BRG + HDLC_FLAG_RXC_TXCPIN))) s))"

definition set_rxbrg :: CMD_SET_FUNC where
  "set_rxbrg argv s =
    Some (1, set_param (flags_update (\<lambda>v. v OR HDLC_FLAG_RXC_BRG))
             (set_param (flags_update (\<lambda>v. v AND
               NOT (HDLC_FLAG_RXC_DPLL + HDLC_FLAG_RXC_BRG + HDLC_FLAG_RXC_TXCPIN))) s))"

definition set_rxtxc :: CMD_SET_FUNC where
  "set_rxtxc argv s =
    Some (1, set_param (flags_update (\<lambda>v. v OR HDLC_FLAG_RXC_TXCPIN))
             (set_param (flags_update (\<lambda>v. v AND
               NOT (HDLC_FLAG_RXC_DPLL + HDLC_FLAG_RXC_BRG + HDLC_FLAG_RXC_TXCPIN))) s))"

definition set_txc :: CMD_SET_FUNC where
  "set_txc argv s =
    Some (1, set_param (flags_update (\<lambda>v. v AND
               NOT (HDLC_FLAG_TXC_DPLL + HDLC_FLAG_TXC_BRG + HDLC_FLAG_TXC_RXCPIN))) s)"

definition set_txdpll :: CMD_SET_FUNC where
  "set_txdpll argv s =
    Some (1, set_param (flags_update (\<lambda>v. v OR HDLC_FLAG_TXC_DPLL))
             (set_param (flags_update (\<lambda>v. v AND
               NOT (HDLC_FLAG_TXC_DPLL + HDLC_FLAG_TXC_BRG + HDLC_FLAG_TXC_RXCPIN))) s))"

definition set_txbrg :: CMD_SET_FUNC where
  "set_txbrg argv s =
    Some (1, set_param (flags_update (\<lambda>v. v OR HDLC_FLAG_TXC_BRG))
             (set_param (flags_update (\<lambda>v. v AND
               NOT (HDLC_FLAG_TXC_DPLL + HDLC_FLAG_TXC_BRG + HDLC_FLAG_TXC_RXCPIN))) s))"

definition set_txrxc :: CMD_SET_FUNC where
  "set_txrxc argv s =
    Some (1, set_param (flags_update (\<lambda>v. v OR HDLC_FLAG_TXC_RXCPIN))
             (set_param (flags_update (\<lambda>v. v AND
               NOT (HDLC_FLAG_TXC_DPLL + HDLC_FLAG_TXC_BRG + HDLC_FLAG_TXC_RXCPIN))) s))"

definition set_dplldiv8 :: CMD_SET_FUNC where
  "set_dplldiv8 argv s =
    Some (1, set_param (flags_update (\<lambda>v. v OR HDLC_FLAG_DPLL_DIV8))
             (set_param (flags_update (\<lambda>v. v AND NOT (HDLC_FLAG_DPLL_DIV8 + HDLC_FLAG_DPLL_DIV16))) s))"

definition set_dplldiv16 :: CMD_SET_FUNC where
  "set_dplldiv16 argv s =
    Some (1, set_param (flags_update (\<lambda>v. v OR HDLC_FLAG_DPLL_DIV16))
             (set_param (flags_update (\<lambda>v. v AND NOT (HDLC_FLAG_DPLL_DIV8 + HDLC_FLAG_DPLL_DIV16))) s))"

definition set_dplldiv32 :: CMD_SET_FUNC where
  "set_dplldiv32 argv s =
    Some (1, set_param (flags_update (\<lambda>v. v AND NOT (HDLC_FLAG_DPLL_DIV8 + HDLC_FLAG_DPLL_DIV16))) s)"

definition set_hdlcloop :: CMD_SET_FUNC where
  "set_hdlcloop argv s = Some (1, set_param (flags_update (\<lambda>v. v + HDLC_FLAG_HDLC_LOOPMODE)) s)"

definition set_nohdlcloop :: CMD_SET_FUNC where
  "set_nohdlcloop argv s = Some (1, set_param (flags_update (\<lambda>v. v AND NOT HDLC_FLAG_HDLC_LOOPMODE)) s)"

definition set_ifdisable :: CMD_SET_FUNC where
  "set_ifdisable argv s = Some (1, set_param (interface_update (\<lambda>_. R56_INTERFACE_DISABLE)) s)"

definition set_rs232 :: CMD_SET_FUNC where
  "set_rs232 argv s = Some (1, set_param (interface_update (\<lambda>_. RS232)) s)"

end
