(* ===== verification/R56_Cmdline.thy ===== *)
theory R56_Cmdline
  imports R56_Options
begin

text \<open>
  The remaining option handlers of \<open>utilities/r56util.c\<close>, the table of the options
  and the loop over the command line.
\<close>

subsection \<open>Encoding, CRC, preamble, format, idle mode and program options\<close>

definition set_nrz :: CMD_SET_FUNC where
  "set_nrz argv s = Some (1, set_param (encoding_update (\<lambda>_. HDLC_ENCODING_NRZ)) s)"

definition set_nrzi :: CMD_SET_FUNC where
  "set_nrzi argv s = Some (1, set_param (encoding_update (\<lambda>_. HDLC_ENCODING_NRZI_SPACE)) s)"

definition set_nrzb :: CMD_SET_FUNC where
  "set_nrzb argv s = Some (1, set_param (encoding_update (\<lambda>_. HDLC_ENCODING_NRZB)) s)"

definition set_nrzimark :: CMD_SET_FUNC where
  "set_nrzimark argv s = Some (1, set_param (encoding_update (\<lambda>_. HDLC_ENCODING_NRZI_MARK)) s)"

definition set_bimark :: CMD_SET_FUNC where
  "set_bimark argv s = Some (1, set_param (encoding_update (\<lambda>_. HDLC_ENCODING_BIPHASE_MARK)) s)"

definition set_bispace :: CMD_SET_FUNC where
  "set_bispace argv s = Some (1, set_param (encoding_update (\<lambda>_. HDLC_ENCODING_BIPHASE_SPACE)) s)"

definition set_bilevel :: CMD_SET_FUNC where
  "set_bilevel argv s = Some (1, set_param (encoding_update (\<lambda>_. HDLC_ENCODING_BIPHASE_LEVEL)) s)"

definition set_bidiff :: CMD_SET_FUNC where
  "set_bidiff argv s = Some (1, set_param (encoding_update (\<lambda>_. HDLC_ENCODING_DIFF_BIPHASE_LEVEL)) s)"

definition set_crcnone :: CMD_SET_FUNC where
  "set_crcnone argv s = Some (1, set_param (crc_type_update (\<lambda>_. HDLC_CRC_NONE)) s)"

definition set_crc16 :: CMD_SET_FUNC where
  "set_crc16 argv s = Some (1, set_param (crc_type_update (\<lambda>_. HDLC_CRC_16_CCITT)) s)"

definition set_crc16ex :: CMD_SET_FUNC where
  "set_crc16ex argv s = Some (1, set_param (crc_type_update (\<lambda>_. HDLC_CRC_16_CCITT OR HDLC_CRC_RETURN_EX)) s)"

definition set_crc32 :: CMD_SET_FUNC where
  "set_crc32 argv s = Some (1, set_param (crc_type_update (\<lambda>_. HDLC_CRC_32_CCITT)) s)"

definition set_crc32ex :: CMD_SET_FUNC where
  "set_crc32ex argv s = Some (1, set_param (crc_type_update (\<lambda>_. HDLC_CRC_32_CCITT OR HDLC_CRC_RETURN_EX)) s)"

definition set_prenone :: CMD_SET_FUNC where
  "set_prenone argv s = Some (1, set_param (preamble_update (\<lambda>_. HDLC_PREAMBLE_PATTERN_NONE)) s)"

definition set_preone :: CMD_SET_FUNC where
  "set_preone argv s = Some (1, set_param (preamble_update (\<lambda>_. HDLC_PREAMBLE_PATTERN_ONES)) s)"

definition set_prezero :: CMD_SET_FUNC where
  "set_prezero argv s = Some (1, set_param (preamble_update (\<lambda>_. HDLC_PREAMBLE_PATTERN_ZEROS)) s)"

definition set_pre10 :: CMD_SET_FUNC where
  "set_pre10 argv s = Some (1, set_param (preamble_update (\<lambda>_. HDLC_PREAMBLE_PATTERN_10)) s)"

definition set_pre01 :: CMD_SET_FUNC where
  "set_pre01 argv s = Some (1, set_param (preamble_update (\<lambda>_. HDLC_PREAMBLE_PATTERN_01)) s)"

definition set_preflag :: CMD_SET_FUNC where
  "set_preflag argv s = Some (1, set_param (preamble_update (\<lambda>_. HDLC_PREAMBLE_PATTERN_FLAGS)) s)"

definition set_pre8 :: CMD_SET_FUNC where
  "set_pre8 argv s = Some (1, set_param (preamble_length_update (\<lambda>_. HDLC_PREAMBLE_LENGTH_8BITS)) s)"

definition set_pre16 :: CMD_SET_FUNC where
  "set_pre16 argv s = Some (1, set_param (preamble_length_update (\<lambda>_. HDLC_PREAMBLE_LENGTH_16BITS)) s)"

definition set_pre32 :: CMD_SET_FUNC where
  "set_pre32 argv s = Some (1, set_param (preamble_length_update (\<lambda>_. HDLC_PREAMBLE_LENGTH_32BITS)) s)"

definition set_pre64 :: CMD_SET_FUNC where
  "set_pre64 argv s = Some (1, set_param (preamble_length_update (\<lambda>_. HDLC_PREAMBLE_LENGTH_64BITS)) s)"

definition set_paritynone :: CMD_SET_FUNC where
  "set_paritynone argv s = Some (1, set_param (parity_update (\<lambda>_. ASYNC_PARITY_NONE)) s)"

definition set_parityodd :: CMD_SET_FUNC where
  "set_parityodd argv s = Some (1, set_param (parity_update (\<lambda>_. ASYNC_PARITY_ODD)) s)"

definition set_parityeven :: CMD_SET_FUNC where
  "set_parityeven argv s = Some (1, set_param (parity_update (\<lambda>_. ASYNC_PARITY_EVEN)) s)"

definition set_idle0 :: CMD_SET_FUNC where
  "set_idle0 argv s = Some (1, idlemode_update (\<lambda>_. HDLC_TXIDLE_ZEROS) s)"

definition set_idle1 :: CMD_SET_FUNC where
  "set_idle1 argv s = Some (1, idlemode_update (\<lambda>_. HDLC_TXIDLE_ONES) s)"

definition set_idle01 :: CMD_SET_FUNC where
  "set_idle01 argv s = Some (1, idlemode_update (\<lambda>_. HDLC_TXIDLE_ALT_ZEROS_ONES) s)"

definition set_idleflag :: CMD_SET_FUNC where
  "set_idleflag argv s = Some (1, idlemode_update (\<lambda>_. HDLC_TXIDLE_FLAGS) s)"

definition set_idlemark :: CMD_SET_FUNC where
  "set_idlemark argv s = Some (1, idlemode_update (\<lambda>_. HDLC_TXIDLE_MARK) s)"

definition set_idlespace :: CMD_SET_FUNC where
  "set_idlespace argv s = Some (1, idlemode_update (\<lambda>_. HDLC_TXIDLE_SPACE) s)"

definition set_idlemarkspace :: CMD_SET_FUNC where
  "set_idlemarkspace argv s = Some (1, idlemode_update (\<lambda>_. HDLC_TXIDLE_ALT_MARK_SPACE) s)"

definition set_quiet :: CMD_SET_FUNC where
  "set_quiet argv s = Some (1, quiet_update (\<lambda>_. True) s)"

definition set_cisco :: CMD_SET_FUNC where
  "set_cisco argv s = Some (1, syncppp_options_set_update (\<lambda>_. True) (cisco_update (\<lambda>_. True) s))"

definition clear_cisco :: CMD_SET_FUNC where
  "clear_cisco argv s = Some (1, syncppp_options_set_update (\<lambda>_. True) (cisco_update (\<lambda>_. False) s))"

definition set_keepalive :: CMD_SET_FUNC where
  "set_keepalive argv s =
    Some (1, syncppp_options_set_update (\<lambda>_. True) (keepalive_update (\<lambda>_. True) s))"

definition clear_keepalive :: CMD_SET_FUNC where
  "clear_keepalive argv s =
    Some (1, syncppp_options_set_update (\<lambda>_. True) (keepalive_update (\<lambda>_. False) s))"

subsection \<open>Options with a number\<close>

text \<open>\<open>argc<2 || !sscanf(argv[1],"%i",&v)\<close>; at the end of the input the variable keeps no value.\<close>

definition int_option :: "string \<Rightarrow> (int \<Rightarrow> bool) \<Rightarrow> (int \<Rightarrow> settings \<Rightarrow> settings) \<Rightarrow> CMD_SET_FUNC" where
  "int_option msg ok f argv s =
    (if length argv < 2 then Some (- EINVAL, puts msg s)
     else case scan_number base_i (argv ! 1) of
            Scan_eof \<Rightarrow> None
          | Scan_fail \<Rightarrow> Some (- EINVAL, puts msg s)
          | Scan_val v _ \<Rightarrow> if ok (to_int v) then Some (2, f (to_int v) s) else Some (- EINVAL, puts msg s))"

definition set_clock :: CMD_SET_FUNC where
  "set_clock = int_option ''clock option requires decimal bit rate'' (\<lambda>_. True)
    (\<lambda>v. set_param (clock_speed_update (\<lambda>_. of_int v)))"

definition set_rate :: CMD_SET_FUNC where
  "set_rate = int_option ''rate option requires decimal bit rate'' (\<lambda>_. True)
    (\<lambda>v. set_param (data_rate_update (\<lambda>_. of_int v)))"

definition set_databits :: CMD_SET_FUNC where
  "set_databits = int_option ''databits option requires argument (5-8)'' (\<lambda>v. \<not> (v < 5 \<or> v > 8))
    (\<lambda>v. set_param (data_bits_update (\<lambda>_. of_int v)))"

definition set_stopbits :: CMD_SET_FUNC where
  "set_stopbits = int_option ''stopbits option requires argument (0-1)'' (\<lambda>v. \<not> (v < 1 \<or> v > 2))
    (\<lambda>v. set_param (stop_bits_update (\<lambda>_. of_int v)))"

definition set_addr :: CMD_SET_FUNC where
  "set_addr argv s =
    (let msg = ''addr option requires 8-bit hex address''
     in if length argv < 2 then Some (- EINVAL, puts msg s)
        else case scan_number base_x (argv ! 1) of
               Scan_eof \<Rightarrow> None
             | Scan_fail \<Rightarrow> Some (- EINVAL, puts msg s)
             | Scan_val v _ \<Rightarrow> Some (2, set_param (addr_filter_update (\<lambda>_. ucast (to_ushort v))) s))"

subsection \<open>Requests to the driver\<close>

text \<open>The statistics as they are printed; the counters are unsigned, \<open>%d\<close> shows them signed.\<close>

definition show_count :: "u32 \<Rightarrow> string" where
  "show_count c = show_int (sint c)"

definition show_stats :: "string \<Rightarrow> r56_icount \<Rightarrow> string" where
  "show_stats name c =
    concat
     [''*** '', name, '' Statistics ***'', [CHR 0x0A],
      ''irqs: DSR:'', show_count (ic_dsr c), '' CTS:'', show_count (ic_cts c), '' DCD:'', show_count (ic_dcd c),
      '' RI:'', show_count (ic_rng c), '' TX:'', show_count (ic_tx c), '' RX:'', show_count (ic_rx c), [CHR 0x0A],
      ''async stats:'', [CHR 0x0A],
      ''    framing='', show_count (ic_frame c), '' parity='', show_count (ic_parity c),
      '' overrun='', show_count (ic_overrun c), '' breaks='', show_count (ic_brk c),
      '' bufoverrun='', show_count (ic_buf_overrun c), [CHR 0x0A],
      ''hdlc/raw frame stats:'', [CHR 0x0A],
      ''    txok='', show_count (ic_txok c), '' txunder='', show_count (ic_txunder c),
      '' txabort='', show_count (ic_txabort c), '' txtimeout='', show_count (ic_txtimeout c), [CHR 0x0A],
      ''    rxok='', show_count (ic_rxok c), '' rxshort='', show_count (ic_rxshort c),
      '' rxlong='', show_count (ic_rxlong c), '' rxabort='', show_count (ic_rxabort c),
      '' rxoverrun='', show_count (ic_rxover c), '' rxcrc='', show_count (ic_rxcrc c), [CHR 0x0A], [CHR 0x0A]]"

definition display_stats :: CMD_SET_FUNC where
  "display_stats argv s =
    (let (fd, s) = sys (Open (devname s) False) s
     in if fd < 0 then Some (1, report ''display_stats() open'' s)
        else let (rc, s) = sys Ioctl_IOCGSTATS s;
                 icount = sys_icount (kernel s) (syslog s)
             in if rc < 0 then Some (1, report ''display_stats() ioctl(R56_IOCGSTATS)'' s)
                else let (rc, s) = sys Close s in Some (1, puts ([CHR 0x0A] @ show_stats (devname s) icount) s))"

definition clearmodcount :: CMD_SET_FUNC where
  "clearmodcount argv s =
    (let (fd, s) = sys (Open (devname s) True) s
     in if fd < 0 then Some (1, report ''clearmodcount() open'' s)
        else let (rc, s) = sys Ioctl_IOCCLRMODCOUNT s
             in if rc < 0 then Some (1, report ''clearmodcount() ioctl(R56_IOCCLRMODCOUNT)'' s)
                else let (rc, s) = sys Close s in Some (1, s))"

subsection \<open>The table and the command line\<close>

definition cmd_table :: "(string \<times> CMD_SET_FUNC) list" where
  "cmd_table =
    [(''async'', set_async), (''hdlc'', set_hdlc), (''raw'', set_raw), (''loopback'', set_loopback),
     (''+loopback'', set_loopback), (''-loopback'', set_noloopback), (''ifdisable'', set_ifdisable),
     (''rs232'', set_rs232), (''rs485t'', set_rs485t), (''rs485t_ne'', set_rs485t_ne), (''rs485u'', set_rs485u),
     (''rs485u_ne'', set_rs485u_ne), (''rs530'', set_rs530), (''rs530a'', set_rs530a), (''seloop'', set_seloop),
     (''difloop'', set_difloop), (''v35'', set_v35), (''ua7'', set_ua7), (''ua15'', set_ua15),
     (''uflag'', set_uflag), (''ucrc'', set_ucrc), (''sharezero'', set_sharezero),
     (''+sharezero'', set_sharezero), (''-sharezero'', set_nosharezero), (''autocts'', set_autocts),
     (''+autocts'', set_autocts), (''-autocts'', set_noautocts), (''autodcd'', set_autodcd),
     (''+autodcd'', set_autodcd), (''-autodcd'', set_noautodcd), (''autorts'', set_autorts),
     (''+autorts'', set_autorts), (''-autorts'', set_noautorts), (''hdlcloop'', set_hdlcloop),
     (''+hdlcloop'', set_hdlcloop), (''-hdlcloop'', set_nohdlcloop), (''rxc'', set_rxc),
     (''rxdpll'', set_rxdpll), (''rxbrg'', set_rxbrg), (''rxtxc'', set_rxtxc), (''txc'', set_txc),
     (''txdpll'', set_txdpll), (''txbrg'', set_txbrg), (''txrxc'', set_txrxc), (''dplldiv8'', set_dplldiv8),
     (''dplldiv16'', set_dplldiv16), (''dplldiv32'', set_dplldiv32), (''nrz'', set_nrz), (''nrzi'', set_nrzi),
     (''nrzb'', set_nrzb), (''nrzimark'', set_nrzimark), (''bimark'', set_bimark), (''bispace'', set_bispace),
     (''bilevel'', set_bilevel), (''bidiff'', set_bidiff), (''clock'', set_clock), (''addr'', set_addr),
     (''crcnone'', set_crcnone), (''crc16'', set_crc16), (''crc32'', set_crc32), (''prenone'', set_prenone),
     (''prezero'', set_prezero), (''preone'', set_preone), (''pre10'', set_pre10), (''pre01'', set_pre01),
     (''preflag'', set_preflag), (''pre8'', set_pre8), (''pre16'', set_pre16), (''pre32'', set_pre32),
     (''pre64'', set_pre64), (''rate'', set_rate), (''paritynone'', set_paritynone),
     (''parityodd'', set_parityodd), (''parityeven'', set_parityeven), (''databits'', set_databits),
     (''stopbits'', set_stopbits), (''stats'', display_stats), (''idle0'', set_idle0), (''idle1'', set_idle1),
     (''idleflag'', set_idleflag), (''idle01'', set_idle01), (''idlemark'', set_idlemark),
     (''idlespace'', set_idlespace), (''idlemarkspace'', set_idlemarkspace), (''clrmodcount'', clearmodcount),
     (''quiet'', set_quiet), (''cisco'', set_cisco), (''+cisco'', set_cisco), (''-cisco'', clear_cisco),
     (''keepalive'', set_keepalive), (''+keepalive'', set_keepalive), (''-keepalive'', clear_keepalive),
     (''crc16ex'', set_crc16ex), (''crc32ex'', set_crc32ex)]"

text \<open>The program ends in the loop, or the loop returns a code.\<close>

datatype outcome = Exit int settings | Return int settings

partial_function (option) parse_cmdline :: "string list \<Rightarrow> settings \<Rightarrow> outcome option" where
  [code]: "parse_cmdline argv s =
    (case argv of
       [] \<Rightarrow> Some (Return 0 s)
     | option # _ \<Rightarrow>
         (case map_of cmd_table option of
            None \<Rightarrow> Some (Exit (- EINVAL) (puts (''Invalid option '' @ option) s))
          | Some func \<Rightarrow>
              do { (rc, s) \<leftarrow> func argv s;
                   if rc < 0 then Some (Return rc s) else parse_cmdline (drop (nat rc) argv) s }))"

end
