(* ===== verification/R56_Util.thy ===== *)
theory R56_Util
  imports R56_Cmdline
begin

text \<open>
  The configuration utility \<open>utilities/r56util.c\<close>: showing the settings, reading them
  from and writing them to the device, and the main program.
\<close>

subsection \<open>Showing the settings\<close>

abbreviation (input) newline :: string where "newline \<equiv> [CHR 0x0A]"

text \<open>A \<open>switch\<close> that selects a string; the default is \<open>unknown\<close>.\<close>

definition name_of :: "('a \<times> string) list \<Rightarrow> 'a \<Rightarrow> string" where
  "name_of names v = (case map_of names v of None \<Rightarrow> ''unknown'' | Some t \<Rightarrow> t)"

definition interface_name :: "u8 \<Rightarrow> string" where
  "interface_name = name_of
     [(R56_INTERFACE_DISABLE, ''Disabled''), (RS232, ''RS-232 ''), (V35, ''V.35''), (R56_INTERFACE_RS422, ''RS-422''),
      (RS485_TERM, ''RS-485(terminated)'' @ newline), (RS485_TERM_NE, ''RS-485(+term -echo)'' @ newline),
      (RS485_NOTERM, ''RS-485(unterminated)'' @ newline), (RS485_NOTERM_NE, ''RS-485(-term -echo)'' @ newline),
      (RS530, ''RS-530'' @ newline), (RS530A, ''RS-530a'' @ newline),
      (LOOP_STD, ''Single-ended loopback'' @ newline), (LOOP_DIFF, ''Differential loopback'' @ newline)]"

definition mode_name :: "u64 \<Rightarrow> string" where
  "mode_name = name_of [(R56_MODE_ASYNC, ''Async''), (R56_MODE_HDLC, ''HDLC ''), (R56_MODE_RAW, ''Raw  '')]"

definition flag_names :: "u16 \<Rightarrow> string" where
  "flag_names f =
    (if tst f HDLC_FLAG_UNDERRUN_ABORT15 then ''UNDERRUN_ABORT15 ''
     else if tst f HDLC_FLAG_UNDERRUN_FLAG then ''UNDERRUN_FLAG ''
     else if tst f HDLC_FLAG_UNDERRUN_CRC then ''UNDERRUN_CRC ''
     else ''UNDERRUN_ABORT7 '') @
    (if tst f HDLC_FLAG_SHARE_ZERO then ''SHARE_ZERO '' else []) @
    (if tst f HDLC_FLAG_AUTO_CTS then ''AUTO_CTS '' else []) @
    (if tst f HDLC_FLAG_AUTO_DCD then ''AUTO_DCD '' else []) @
    (if tst f HDLC_FLAG_AUTO_RTS then ''AUTO_RTS '' else []) @
    (if tst f HDLC_FLAG_RXC_DPLL then ''RXC_DPLL ''
     else if tst f HDLC_FLAG_RXC_BRG then ''RXC_BRG ''
     else if tst f HDLC_FLAG_RXC_TXCPIN then ''RXC_TXCPIN ''
     else ''RXC_RXCPIN '') @
    (if tst f HDLC_FLAG_TXC_DPLL then ''TXC_DPLL ''
     else if tst f HDLC_FLAG_TXC_BRG then ''TXC_BRG ''
     else if tst f HDLC_FLAG_TXC_RXCPIN then ''TXC_RXCPIN ''
     else ''TXC_TXCPIN '') @
    (if tst f HDLC_FLAG_DPLL_DIV8 then ''DPLL_DIV8 '' else []) @
    (if tst f HDLC_FLAG_DPLL_DIV16 then ''DPLL_DIV16 '' else [])"

definition encoding_name :: "u8 \<Rightarrow> string" where
  "encoding_name = name_of
     [(HDLC_ENCODING_NRZ, ''NRZ''), (HDLC_ENCODING_NRZB, ''NRZB''), (HDLC_ENCODING_NRZI_MARK, ''NRZI MARK''),
      (HDLC_ENCODING_NRZI_SPACE, ''NRZI SPACE''), (HDLC_ENCODING_BIPHASE_MARK, ''BIPHASE MARK''),
      (HDLC_ENCODING_BIPHASE_SPACE, ''BIPHASE SPACE''), (HDLC_ENCODING_BIPHASE_LEVEL, ''BIPHASE LEVEL''),
      (HDLC_ENCODING_DIFF_BIPHASE_LEVEL, ''BIPHASE LEVEL'')]"

definition crc_name :: "u16 \<Rightarrow> string" where
  "crc_name c =
    name_of [(HDLC_CRC_NONE, ''none''), (HDLC_CRC_16_CCITT, ''CRC-16 CCITT''), (HDLC_CRC_32_CCITT, ''CRC-32 CCITT'')]
      (c AND HDLC_CRC_MASK) @
    (if tst c HDLC_CRC_RETURN_EX then '' (extended)'' else [])"

definition preamble_name :: "u8 \<Rightarrow> u8 \<Rightarrow> string" where
  "preamble_name p len =
    (if p = HDLC_PREAMBLE_PATTERN_NONE then ''disabled''
     else name_of
            [(HDLC_PREAMBLE_PATTERN_ZEROS, ''all zeros''), (HDLC_PREAMBLE_PATTERN_FLAGS, ''all flags''),
             (HDLC_PREAMBLE_PATTERN_10, ''alternating 10''), (HDLC_PREAMBLE_PATTERN_01, ''alternating 01''),
             (HDLC_PREAMBLE_PATTERN_ONES, ''all ones'')] p @ '', '' @
          name_of
            [(HDLC_PREAMBLE_LENGTH_8BITS, ''8 bits''), (HDLC_PREAMBLE_LENGTH_16BITS, ''16 bits''),
             (HDLC_PREAMBLE_LENGTH_32BITS, ''32 bits''), (HDLC_PREAMBLE_LENGTH_64BITS, ''64 bits'')] len)"

definition txidle_name :: "u32 \<Rightarrow> string" where
  "txidle_name = name_of
     [(HDLC_TXIDLE_FLAGS, ''continuous flags''), (HDLC_TXIDLE_ONES, ''continuous ones''),
      (HDLC_TXIDLE_ZEROS, ''continuous zeros''), (HDLC_TXIDLE_MARK, ''continuous mark''),
      (HDLC_TXIDLE_SPACE, ''continuous space''), (HDLC_TXIDLE_ALT_ZEROS_ONES, ''alternating 0/1''),
      (HDLC_TXIDLE_ALT_MARK_SPACE, ''alternating mark/space'')]"

definition parity_name :: "u8 \<Rightarrow> string" where
  "parity_name = name_of
     [(ASYNC_PARITY_NONE, ''N''), (ASYNC_PARITY_EVEN, ''E''), (ASYNC_PARITY_ODD, ''O''), (ASYNC_PARITY_SPACE, ''S'')]"

text \<open>\<open>programmable_if\<close> is a constant 1; \<open>%ld\<close> shows the unsigned rates signed.\<close>

definition display_params :: "string \<Rightarrow> R56_PARAMS \<Rightarrow> u32 \<Rightarrow> string" where
  "display_params name p idle =
    concat
     [''*** '', name, '' Settings ***'', newline,
      ''serial interface='', interface_name (interface p), newline,
      ''mode='', mode_name (mode p), newline,
      ''loopback='', (if loopback p \<noteq> 0 then ''enabled'' else ''disabled''), newline,
      ''flags='', flag_names (flags p), newline,
      ''encoding='', encoding_name (encoding p), newline,
      ''aux clock output='', (if clock_speed p = 0 then ''disabled'' else show_int (sint (clock_speed p))), newline,
      ''addr filter='', show_hex2 (addr_filter p), newline,
      ''crc_type='', crc_name (crc_type p), newline,
      ''preamble='', preamble_name (preamble p) (preamble_length p), newline,
      ''transmit idle mode='', txidle_name idle, newline,
      ''async speed='', show_int (sint (data_rate p)), '' format='', parity_name (parity p), ''-'',
      show_int (uint (data_bits p)), ''-'', show_int (uint (stop_bits p)), newline, newline]"

subsection \<open>The device\<close>

text \<open>The settings as the device has them, or a negative error code.\<close>

definition get_params :: "settings \<Rightarrow> int \<times> settings" where
  "get_params s =
    (let (fd, s) = sys (Open (devname s) True) s
     in if fd < 0 then (fd, report ''get_params() open'' s)
        else let (rc, s) = sys Ioctl_IOCGPARAMS s
             in if rc < 0 then (rc, report ''get_params() ioctl(R56_IOCGPARAMS)'' s)
                else let s = s\<lparr> s_params := sys_params (kernel s) (syslog s) \<rparr>;
                         (rc, s) = sys Ioctl_IOCGTXIDLE s
                     in if rc < 0 then (rc, report ''get_params() ioctl(R56_IOCGPARAMS)'' s)
                        else let s = s\<lparr> idlemode := sys_txidle (kernel s) (syslog s) \<rparr>;
                                 (rc, s) = sys Close s
                             in (0, s))"

text \<open>\<open>sscanf(devname, prefix "%d", &devnum)\<close>.\<close>

definition scan_after :: "string \<Rightarrow> string \<Rightarrow> (int \<times> string) option" where
  "scan_after prefix name =
    (if take (length prefix) name = prefix
     then (case scan_number base_d (drop (length prefix) name) of
             Scan_val v rest \<Rightarrow> Some (to_int v, rest)
           | _ \<Rightarrow> None)
     else None)"

text \<open>The name of the network device that belongs to a terminal device.\<close>

definition ifr_name :: "string \<Rightarrow> string option" where
  "ifr_name name =
    (case do { (devnum, rest) \<leftarrow> scan_after ''/dev/ttySLM'' name;
               (portnum, rest) \<leftarrow> scan_after ''p'' rest;
               Some (''r56m'' @ show_int devnum @ ''p'' @ show_int portnum) } of
       Some n \<Rightarrow> Some n
     | None \<Rightarrow>
    (case scan_after ''/dev/ttySL'' name of Some (devnum, _) \<Rightarrow> Some (''r56'' @ show_int devnum)
     | None \<Rightarrow>
    (case scan_after ''/dev/ttySLS'' name of Some (devnum, _) \<Rightarrow> Some (''r56s'' @ show_int devnum)
     | None \<Rightarrow>
    (case scan_after ''/dev/ttySLP'' name of Some (devnum, _) \<Rightarrow> Some (''r56p'' @ show_int devnum)
     | None \<Rightarrow> None))))"

definition PP_KEEPALIVE :: u32 where "PP_KEEPALIVE = 0x01"
definition PP_CISCO :: u32 where "PP_CISCO = 0x02"

definition syncppp_flags :: "settings \<Rightarrow> u32 \<Rightarrow> u32" where
  "syncppp_flags s f =
    (let f = (if cisco s then f OR PP_CISCO else f AND NOT PP_CISCO)
     in if keepalive s then f OR PP_KEEPALIVE else f AND NOT PP_KEEPALIVE)"

text \<open>Messages are printed unless \<open>quiet\<close> is set.\<close>

definition say :: "string \<Rightarrow> settings \<Rightarrow> settings" where
  "say t s = (if quiet s then s else puts t s)"

definition configure_network :: "string \<Rightarrow> settings \<Rightarrow> settings" where
  "configure_network ifr s =
    (let s = say (''Configuring network device '' @ ifr) s;
         (rc, s) = sys (if cisco s then Ioctl_SPPPIOCCISCO ifr else Ioctl_SPPPIOCPPP ifr) s
     in if rc \<noteq> 0 then if syncppp_options_set s then say ''SYNCPPP support is not present.'' s else s
        else let s = say (''SYNCPPP Mode      '' @ (if cisco s then ''Cisco HDLC'' else ''PPP'')) s;
                 (rc, s) = sys (Ioctl_SPPPIOCGFLAGS ifr) s
             in if rc = 0
                then let (rc, s) = sys (Ioctl_SPPPIOCSFLAGS ifr (syncppp_flags s (sys_flags (kernel s) (syslog s)))) s
                     in if rc = 0
                        then say (''SYNCPPP keepalive '' @ (if keepalive s then ''enabled'' else ''disabled'')) s
                        else s
                else if syncppp_options_set s then say ''SYNCPPP set/get flags IOCTL call not supported.'' s else s)"

definition apply_params :: "settings \<Rightarrow> int \<times> settings" where
  "apply_params s =
    (let (fd, s) = sys (Open (devname s) True) s
     in if fd < 0 then (fd, report ''apply_params() open'' s)
        else let (rc, s) = sys (Ioctl_IOCSPARAMS (s_params s)) s
             in if rc < 0 then (rc, report ''apply_params() ioctl(R56_IOCSPARAMS)'' s)
                else let (rc, s) = sys (Ioctl_IOCSTXIDLE (idlemode s)) s
                     in if rc < 0 then (rc, report ''apply_params() ioctl(R56_IOCSTXIDLE)'' s)
                        else let (_, s) = sys (Ioctl_IOCSIF (interface (s_params s))) s;
                                 (_, s) = sys Close s;
                                 (sock, s) = sys Socket s
                             in if sock < 0 then (0, report ''Cant open socket'' s)
                                else (case ifr_name (devname s) of
                                        None \<Rightarrow> (0, report ''Cant parse device number'' s)
                                      | Some ifr \<Rightarrow> (0, configure_network ifr s)))"

subsection \<open>Main program\<close>

text \<open>
  \<open>sprintf(devname, argv[1])\<close>: the word is used as a format; \<open>%%\<close> gives one
  percent sign, any other conversion has no argument, and the buffer has 100 bytes.
\<close>

fun format_plain :: "string \<Rightarrow> string option" where
  "format_plain [] = Some []"
| "format_plain (c # cs) =
     (if c = CHR ''%''
      then (case cs of d # ds \<Rightarrow> if d = CHR ''%'' then map_option ((#) c) (format_plain ds) else None
            | [] \<Rightarrow> None)
      else map_option ((#) c) (format_plain cs))"

definition init_settings :: "answers \<Rightarrow> string \<Rightarrow> settings" where
  "init_settings k name =
     \<lparr> s_params = zero_params, idlemode = 0, quiet = False, cisco = True, keepalive = False,
       syncppp_options_set = False, devname = name, kernel = k, syslog = [] \<rparr>"

text \<open>The exit code and the final state; without a word, or with \<open>--help\<close>, only the usage is shown.\<close>

definition main_program :: "answers \<Rightarrow> string list \<Rightarrow> (int \<times> settings) option" where
  "main_program k argv =
    (if argv = [] \<or> hd argv = ''--help'' then Some (0, puts ''usage'' (init_settings k []))
     else do {
       name \<leftarrow> format_plain (hd argv);
       if 100 \<le> length name then None
       else let (rc, s) = get_params (init_settings k name)
            in if rc < 0 then Some (rc, s)
               else do {
                 out \<leftarrow> parse_cmdline (tl argv) s;
                 case out of
                   Exit rc s \<Rightarrow> Some (rc, s)
                 | Return rc s \<Rightarrow>
                     let s = say (newline @ ''r56util $Revision: 1.2 $'' @ newline) s;
                         s = say (display_params (devname s) (s_params s) (idlemode s)) s
                     in if rc = 0 \<and> tl argv \<noteq> [] then Some (apply_params s) else Some (rc, s) } })"

end
