(* ===== verification/R56_Roundtrip.thy ===== *)
theory R56_Roundtrip
  imports R56_Util
begin

text \<open>
  What the command line of the configuration utility can express: every setting that has options is
  reached from every other one by the options written out for it, and the loop over the command line
  always ends.
\<close>

subsection \<open>The table\<close>

definition cmd_names :: "string list" where
  "cmd_names = map fst cmd_table"

lemma distinct_cmd_names: "distinct cmd_names"
  by code_simp

lemma length_cmd_table: "length cmd_table = 94"
  by (simp add: cmd_table_def)

lemma cmd_entry: "cmd_table ! i = (k, f) \<Longrightarrow> i < 94 \<Longrightarrow> map_of cmd_table k = Some f"
  using distinct_cmd_names nth_mem [of i cmd_table] by (simp add: cmd_names_def length_cmd_table map_of_eq_Some_iff)

lemma cmd_entries:
  "cmd_table ! 0 = (''async'', set_async)"
  "cmd_table ! 1 = (''hdlc'', set_hdlc)"
  "cmd_table ! 2 = (''raw'', set_raw)"
  "cmd_table ! 3 = (''loopback'', set_loopback)"
  "cmd_table ! 4 = (''+loopback'', set_loopback)"
  "cmd_table ! 5 = (''-loopback'', set_noloopback)"
  "cmd_table ! 6 = (''ifdisable'', set_ifdisable)"
  "cmd_table ! 7 = (''rs232'', set_rs232)"
  "cmd_table ! 8 = (''rs485t'', set_rs485t)"
  "cmd_table ! 9 = (''rs485t_ne'', set_rs485t_ne)"
  "cmd_table ! 10 = (''rs485u'', set_rs485u)"
  "cmd_table ! 11 = (''rs485u_ne'', set_rs485u_ne)"
  "cmd_table ! 12 = (''rs530'', set_rs530)"
  "cmd_table ! 13 = (''rs530a'', set_rs530a)"
  "cmd_table ! 14 = (''seloop'', set_seloop)"
  "cmd_table ! 15 = (''difloop'', set_difloop)"
  "cmd_table ! 16 = (''v35'', set_v35)"
  "cmd_table ! 17 = (''ua7'', set_ua7)"
  "cmd_table ! 18 = (''ua15'', set_ua15)"
  "cmd_table ! 19 = (''uflag'', set_uflag)"
  "cmd_table ! 20 = (''ucrc'', set_ucrc)"
  "cmd_table ! 21 = (''sharezero'', set_sharezero)"
  "cmd_table ! 22 = (''+sharezero'', set_sharezero)"
  "cmd_table ! 23 = (''-sharezero'', set_nosharezero)"
  "cmd_table ! 24 = (''autocts'', set_autocts)"
  "cmd_table ! 25 = (''+autocts'', set_autocts)"
  "cmd_table ! 26 = (''-autocts'', set_noautocts)"
  "cmd_table ! 27 = (''autodcd'', set_autodcd)"
  "cmd_table ! 28 = (''+autodcd'', set_autodcd)"
  "cmd_table ! 29 = (''-autodcd'', set_noautodcd)"
  "cmd_table ! 30 = (''autorts'', set_autorts)"
  "cmd_table ! 31 = (''+autorts'', set_autorts)"
  "cmd_table ! 32 = (''-autorts'', set_noautorts)"
  "cmd_table ! 33 = (''hdlcloop'', set_hdlcloop)"
  "cmd_table ! 34 = (''+hdlcloop'', set_hdlcloop)"
  "cmd_table ! 35 = (''-hdlcloop'', set_nohdlcloop)"
  "cmd_table ! 36 = (''rxc'', set_rxc)"
  "cmd_table ! 37 = (''rxdpll'', set_rxdpll)"
  "cmd_table ! 38 = (''rxbrg'', set_rxbrg)"
  "cmd_table ! 39 = (''rxtxc'', set_rxtxc)"
  "cmd_table ! 40 = (''txc'', set_txc)"
  "cmd_table ! 41 = (''txdpll'', set_txdpll)"
  "cmd_table ! 42 = (''txbrg'', set_txbrg)"
  "cmd_table ! 43 = (''txrxc'', set_txrxc)"
  "cmd_table ! 44 = (''dplldiv8'', set_dplldiv8)"
  "cmd_table ! 45 = (''dplldiv16'', set_dplldiv16)"
  "cmd_table ! 46 = (''dplldiv32'', set_dplldiv32)"
  "cmd_table ! 47 = (''nrz'', set_nrz)"
  "cmd_table ! 48 = (''nrzi'', set_nrzi)"
  "cmd_table ! 49 = (''nrzb'', set_nrzb)"
  "cmd_table ! 50 = (''nrzimark'', set_nrzimark)"
  "cmd_table ! 51 = (''bimark'', set_bimark)"
  "cmd_table ! 52 = (''bispace'', set_bispace)"
  "cmd_table ! 53 = (''bilevel'', set_bilevel)"
  "cmd_table ! 54 = (''bidiff'', set_bidiff)"
  "cmd_table ! 55 = (''clock'', set_clock)"
  "cmd_table ! 56 = (''addr'', set_addr)"
  "cmd_table ! 57 = (''crcnone'', set_crcnone)"
  "cmd_table ! 58 = (''crc16'', set_crc16)"
  "cmd_table ! 59 = (''crc32'', set_crc32)"
  "cmd_table ! 60 = (''prenone'', set_prenone)"
  "cmd_table ! 61 = (''prezero'', set_prezero)"
  "cmd_table ! 62 = (''preone'', set_preone)"
  "cmd_table ! 63 = (''pre10'', set_pre10)"
  "cmd_table ! 64 = (''pre01'', set_pre01)"
  "cmd_table ! 65 = (''preflag'', set_preflag)"
  "cmd_table ! 66 = (''pre8'', set_pre8)"
  "cmd_table ! 67 = (''pre16'', set_pre16)"
  "cmd_table ! 68 = (''pre32'', set_pre32)"
  "cmd_table ! 69 = (''pre64'', set_pre64)"
  "cmd_table ! 70 = (''rate'', set_rate)"
  "cmd_table ! 71 = (''paritynone'', set_paritynone)"
  "cmd_table ! 72 = (''parityodd'', set_parityodd)"
  "cmd_table ! 73 = (''parityeven'', set_parityeven)"
  "cmd_table ! 74 = (''databits'', set_databits)"
  "cmd_table ! 75 = (''stopbits'', set_stopbits)"
  "cmd_table ! 76 = (''stats'', display_stats)"
  "cmd_table ! 77 = (''idle0'', set_idle0)"
  "cmd_table ! 78 = (''idle1'', set_idle1)"
  "cmd_table ! 79 = (''idleflag'', set_idleflag)"
  "cmd_table ! 80 = (''idle01'', set_idle01)"
  "cmd_table ! 81 = (''idlemark'', set_idlemark)"
  "cmd_table ! 82 = (''idlespace'', set_idlespace)"
  "cmd_table ! 83 = (''idlemarkspace'', set_idlemarkspace)"
  "cmd_table ! 84 = (''clrmodcount'', clearmodcount)"
  "cmd_table ! 85 = (''quiet'', set_quiet)"
  "cmd_table ! 86 = (''cisco'', set_cisco)"
  "cmd_table ! 87 = (''+cisco'', set_cisco)"
  "cmd_table ! 88 = (''-cisco'', clear_cisco)"
  "cmd_table ! 89 = (''keepalive'', set_keepalive)"
  "cmd_table ! 90 = (''+keepalive'', set_keepalive)"
  "cmd_table ! 91 = (''-keepalive'', clear_keepalive)"
  "cmd_table ! 92 = (''crc16ex'', set_crc16ex)"
  "cmd_table ! 93 = (''crc32ex'', set_crc32ex)"
  by (simp_all add: cmd_table_def)

lemmas cmd_lookup = cmd_entries [THEN cmd_entry, simplified]

lemmas one_word_defs =
  clear_cisco_def clear_keepalive_def set_async_def set_autocts_def set_autodcd_def set_autorts_def
  set_bidiff_def set_bilevel_def set_bimark_def set_bispace_def set_cisco_def set_crc16_def set_crc16ex_def
  set_crc32_def set_crc32ex_def set_crcnone_def set_difloop_def set_dplldiv16_def set_dplldiv32_def
  set_dplldiv8_def set_hdlc_def set_hdlcloop_def set_idle0_def set_idle01_def set_idle1_def set_idleflag_def
  set_idlemark_def set_idlemarkspace_def set_idlespace_def set_ifdisable_def set_keepalive_def set_loopback_def
  set_noautocts_def set_noautodcd_def set_noautorts_def set_nohdlcloop_def set_noloopback_def
  set_nosharezero_def set_nrz_def set_nrzb_def set_nrzi_def set_nrzimark_def set_parityeven_def
  set_paritynone_def set_parityodd_def set_pre01_def set_pre10_def set_pre16_def set_pre32_def set_pre64_def
  set_pre8_def set_preflag_def set_prenone_def set_preone_def set_prezero_def set_quiet_def set_raw_def
  set_rs232_def set_rs485t_def set_rs485t_ne_def set_rs485u_def set_rs485u_ne_def set_rs530_def set_rs530a_def
  set_rxbrg_def set_rxc_def set_rxdpll_def set_rxtxc_def set_seloop_def set_sharezero_def set_txbrg_def
  set_txc_def set_txdpll_def set_txrxc_def set_ua15_def set_ua7_def set_ucrc_def set_uflag_def set_v35_def

subsection \<open>The loop ends\<close>

text \<open>A word that is not blank: \<open>sscanf\<close> does not come to the end of the input.\<close>

definition not_blank :: "string \<Rightarrow> bool" where
  "not_blank t \<longleftrightarrow> dropWhile isspace t \<noteq> []"

definition advances :: "CMD_SET_FUNC \<Rightarrow> bool" where
  "advances f \<longleftrightarrow>
     (\<forall>argv s. list_all not_blank argv \<longrightarrow> (\<exists>rc s'. f argv s = Some (rc, s') \<and> (rc < 0 \<or> 1 \<le> rc)))"

lemma scan_not_blank: "not_blank t \<Longrightarrow> scan_number b t \<noteq> Scan_eof"
  by (auto simp: scan_number_def not_blank_def Let_def split: prod.split)

lemma advances_int_option: "advances (int_option msg ok f)"
  unfolding advances_def
proof (intro allI impI)
  fix argv :: "string list" and s assume nb: "list_all not_blank argv"
  then have "\<not> length argv < 2 \<Longrightarrow> scan_number base_i (argv ! 1) \<noteq> Scan_eof"
    by (intro scan_not_blank) (simp add: list_all_length)
  then show "\<exists>rc s'. int_option msg ok f argv s = Some (rc, s') \<and> (rc < 0 \<or> 1 \<le> rc)"
    by (cases "length argv < 2"; cases "scan_number base_i (argv ! 1)") (auto simp: int_option_def)
qed

lemma advances_set_addr: "advances set_addr"
  unfolding advances_def
proof (intro allI impI)
  fix argv :: "string list" and s assume nb: "list_all not_blank argv"
  then have "\<not> length argv < 2 \<Longrightarrow> scan_number base_x (argv ! 1) \<noteq> Scan_eof"
    by (intro scan_not_blank) (simp add: list_all_length)
  then show "\<exists>rc s'. set_addr argv s = Some (rc, s') \<and> (rc < 0 \<or> 1 \<le> rc)"
    by (cases "length argv < 2"; cases "scan_number base_x (argv ! 1)") (auto simp: set_addr_def Let_def)
qed

lemma advances_requests: "advances display_stats" "advances clearmodcount"
  by (simp_all add: advances_def display_stats_def clearmodcount_def case_prod_unfold Let_def)

lemma advances_numbers: "advances set_clock" "advances set_rate" "advances set_databits" "advances set_stopbits"
  by (simp_all only: set_clock_def set_rate_def set_databits_def set_stopbits_def advances_int_option)

lemma advances_one_word: "(\<And>argv s. f argv s = Some (1, g s)) \<Longrightarrow> advances f"
  by (simp add: advances_def)

lemma advances_cmd_table: "list_all (\<lambda>(_, f). advances f) cmd_table"
  unfolding cmd_table_def list.pred_inject prod.case simp_thms
  by (intro conjI; (rule advances_requests advances_set_addr advances_numbers | rule advances_one_word, rule one_word_defs | simp))

lemma parse_cmdline_returns:
  "list_all not_blank argv \<Longrightarrow> \<exists>out. parse_cmdline argv s = Some out"
proof (induction "length argv" arbitrary: argv s rule: less_induct)
  case less
  show ?case
  proof (cases argv)
    case Nil
    then show ?thesis by (subst parse_cmdline.simps) simp
  next
    case (Cons option ws)
    show ?thesis
    proof (cases "map_of cmd_table option")
      case None
      then show ?thesis by (subst parse_cmdline.simps) (simp add: Cons)
    next
      case (Some f)
      then have "advances f" using advances_cmd_table by (auto simp: list_all_iff dest: map_of_SomeD)
      then obtain rc s' where f: "f argv s = Some (rc, s')" "rc < 0 \<or> 1 \<le> rc"
        using less.prems unfolding advances_def by blast
      have eq: "parse_cmdline argv s = (if rc < 0 then Some (Return rc s') else parse_cmdline (drop (nat rc) argv) s')"
        using Some f(1) by (subst parse_cmdline.simps) (simp add: Cons)
      show ?thesis
      proof (cases "rc < 0")
        case True
        then show ?thesis by (simp add: eq)
      next
        case False
        then have "length (drop (nat rc) argv) < length argv" using f(2) by (simp add: Cons)
        moreover have "list_all not_blank (drop (nat rc) argv)"
          using less.prems by (auto simp: list_all_iff dest: in_set_dropD)
        ultimately show ?thesis using less.hyps False by (simp add: eq)
      qed
    qed
  qed
qed

subsection \<open>What options do\<close>

text \<open>Words that the loop uses up with the effect of a function.\<close>

definition sets :: "string list \<Rightarrow> (settings \<Rightarrow> settings) \<Rightarrow> bool" where
  "sets ws g \<longleftrightarrow> (\<forall>rest s. parse_cmdline (ws @ rest) s = parse_cmdline rest (g s))"

lemma sets_Nil: "sets [] (\<lambda>s. s)"
  by (simp add: sets_def)

lemma sets_append: "sets us f \<Longrightarrow> sets vs g \<Longrightarrow> sets (us @ vs) (\<lambda>s. g (f s))"
  by (simp add: sets_def)

lemma sets_cong: "sets ws f \<Longrightarrow> f = g \<Longrightarrow> sets ws g"
  by simp

lemma sets_word:
  assumes "map_of cmd_table w = Some f" "\<And>argv s. f argv s = Some (1, g s)"
  shows "sets [w] g"
  unfolding sets_def
proof (intro allI)
  fix rest s
  show "parse_cmdline ([w] @ rest) s = parse_cmdline rest (g s)"
    using assms by (subst parse_cmdline.simps) simp
qed

lemma sets_number:
  assumes "map_of cmd_table w = Some (int_option msg ok f)" "scan_number base_i n = Scan_val v []" "ok (to_int v)"
  shows "sets [w, n] (f (to_int v))"
  unfolding sets_def
proof (intro allI)
  fix rest s
  show "parse_cmdline ([w, n] @ rest) s = parse_cmdline rest (f (to_int v) s)"
    using assms by (subst parse_cmdline.simps) (simp add: int_option_def numeral_2_eq_2)
qed

lemma set_param_eq: "set_param = s_params_update"
  by (simp add: fun_eq_iff set_param_def)

text \<open>The bits of a mask, from one word into another.\<close>

definition put_field :: "u16 \<Rightarrow> u16 \<Rightarrow> u16 \<Rightarrow> u16" where
  "put_field m f v = (v AND NOT m) OR (f AND m)"

lemma put_field_twice: "put_field m f (put_field k f v) = put_field (m OR k) f v"
  unfolding put_field_def by (rule bit_word_eqI) (auto simp: bit_simps)

lemma put_field_all: "put_field 0xffff f v = f"
proof -
  have "(0xffff :: u16) = - 1" by simp
  then show ?thesis unfolding put_field_def by (simp only:) simp
qed

lemma add_flag: "(v AND NOT m) + m = (v AND NOT m) OR m" for v :: u16
proof -
  have "(v AND NOT m) AND m = 0" by (rule bit_word_eqI) (auto simp: bit_simps)
  then show ?thesis using word_plus_and_or [of "v AND NOT m" m] by simp
qed

subsection \<open>The options of a setting\<close>

definition pick :: "('a \<times> string) list \<Rightarrow> 'a \<Rightarrow> string list" where
  "pick names v = [the (map_of names v)]"

definition mode_options :: "(u64 \<times> string) list" where
  "mode_options = [(R56_MODE_ASYNC, ''async''), (R56_MODE_HDLC, ''hdlc''), (R56_MODE_RAW, ''raw'')]"

definition interface_options :: "(u8 \<times> string) list" where
  "interface_options =
     [(R56_INTERFACE_DISABLE, ''ifdisable''), (RS232, ''rs232''), (RS485_TERM, ''rs485t''), (RS485_TERM_NE, ''rs485t_ne''),
      (RS485_NOTERM, ''rs485u''), (RS485_NOTERM_NE, ''rs485u_ne''), (RS530, ''rs530''), (RS530A, ''rs530a''),
      (LOOP_STD, ''seloop''), (LOOP_DIFF, ''difloop''), (V35, ''v35'')]"

definition underrun_options :: "(u16 \<times> string) list" where
  "underrun_options = [(0, ''ua7''), (HDLC_FLAG_UNDERRUN_ABORT15, ''ua15''), (HDLC_FLAG_UNDERRUN_FLAG, ''uflag''),
     (HDLC_FLAG_UNDERRUN_CRC, ''ucrc'')]"

definition rx_clock_options :: "(u16 \<times> string) list" where
  "rx_clock_options = [(0, ''rxc''), (HDLC_FLAG_RXC_DPLL, ''rxdpll''), (HDLC_FLAG_RXC_BRG, ''rxbrg''),
     (HDLC_FLAG_RXC_TXCPIN, ''rxtxc'')]"

definition tx_clock_options :: "(u16 \<times> string) list" where
  "tx_clock_options = [(0, ''txc''), (HDLC_FLAG_TXC_DPLL, ''txdpll''), (HDLC_FLAG_TXC_BRG, ''txbrg''),
     (HDLC_FLAG_TXC_RXCPIN, ''txrxc'')]"

definition dpll_options :: "(u16 \<times> string) list" where
  "dpll_options = [(0, ''dplldiv32''), (HDLC_FLAG_DPLL_DIV8, ''dplldiv8''), (HDLC_FLAG_DPLL_DIV16, ''dplldiv16'')]"

definition encoding_options :: "(u8 \<times> string) list" where
  "encoding_options =
     [(HDLC_ENCODING_NRZ, ''nrz''), (HDLC_ENCODING_NRZB, ''nrzb''), (HDLC_ENCODING_NRZI_MARK, ''nrzimark''),
      (HDLC_ENCODING_NRZI_SPACE, ''nrzi''), (HDLC_ENCODING_BIPHASE_MARK, ''bimark''),
      (HDLC_ENCODING_BIPHASE_SPACE, ''bispace''), (HDLC_ENCODING_BIPHASE_LEVEL, ''bilevel''),
      (HDLC_ENCODING_DIFF_BIPHASE_LEVEL, ''bidiff'')]"

definition crc_options :: "(u16 \<times> string) list" where
  "crc_options =
     [(HDLC_CRC_NONE, ''crcnone''), (HDLC_CRC_16_CCITT, ''crc16''), (HDLC_CRC_32_CCITT, ''crc32''),
      (HDLC_CRC_16_CCITT OR HDLC_CRC_RETURN_EX, ''crc16ex''), (HDLC_CRC_32_CCITT OR HDLC_CRC_RETURN_EX, ''crc32ex'')]"

definition preamble_options :: "(u8 \<times> string) list" where
  "preamble_options =
     [(HDLC_PREAMBLE_PATTERN_NONE, ''prenone''), (HDLC_PREAMBLE_PATTERN_ZEROS, ''prezero''),
      (HDLC_PREAMBLE_PATTERN_FLAGS, ''preflag''), (HDLC_PREAMBLE_PATTERN_10, ''pre10''),
      (HDLC_PREAMBLE_PATTERN_01, ''pre01''), (HDLC_PREAMBLE_PATTERN_ONES, ''preone'')]"

definition preamble_length_options :: "(u8 \<times> string) list" where
  "preamble_length_options =
     [(HDLC_PREAMBLE_LENGTH_8BITS, ''pre8''), (HDLC_PREAMBLE_LENGTH_16BITS, ''pre16''),
      (HDLC_PREAMBLE_LENGTH_32BITS, ''pre32''), (HDLC_PREAMBLE_LENGTH_64BITS, ''pre64'')]"

definition parity_options :: "(u8 \<times> string) list" where
  "parity_options = [(ASYNC_PARITY_NONE, ''paritynone''), (ASYNC_PARITY_EVEN, ''parityeven''), (ASYNC_PARITY_ODD, ''parityodd'')]"

definition txidle_options :: "(u32 \<times> string) list" where
  "txidle_options =
     [(HDLC_TXIDLE_FLAGS, ''idleflag''), (HDLC_TXIDLE_ALT_ZEROS_ONES, ''idle01''), (HDLC_TXIDLE_ZEROS, ''idle0''),
      (HDLC_TXIDLE_ONES, ''idle1''), (HDLC_TXIDLE_ALT_MARK_SPACE, ''idlemarkspace''), (HDLC_TXIDLE_SPACE, ''idlespace''),
      (HDLC_TXIDLE_MARK, ''idlemark'')]"

text \<open>A flag that is to be set is first cleared, because the handlers add it.\<close>

definition flag_option :: "string \<Rightarrow> u16 \<Rightarrow> u16 \<Rightarrow> string list" where
  "flag_option w m f = (CHR ''-'' # w) # (if tst f m then [w] else [])"

definition flags_options :: "u16 \<Rightarrow> string list" where
  "flags_options f =
     pick underrun_options (f AND 7) @ flag_option ''sharezero'' HDLC_FLAG_SHARE_ZERO f @
     flag_option ''autocts'' HDLC_FLAG_AUTO_CTS f @ flag_option ''autodcd'' HDLC_FLAG_AUTO_DCD f @
     flag_option ''autorts'' HDLC_FLAG_AUTO_RTS f @ flag_option ''hdlcloop'' HDLC_FLAG_HDLC_LOOPMODE f @
     pick rx_clock_options (f AND 0x8300) @ pick tx_clock_options (f AND 0x0c08) @
     pick dpll_options (f AND 0x3000)"

definition options_of :: "R56_PARAMS \<Rightarrow> u32 \<Rightarrow> string list" where
  "options_of p idle =
     pick mode_options (mode p) @
     [if loopback p = 0 then ''-loopback'' else ''loopback''] @
     pick interface_options (interface p) @ flags_options (flags p) @
     pick encoding_options (encoding p) @ [''clock'', show_nat 10 (unat (clock_speed p))] @
     [''addr'', show_nat 16 (unat (addr_filter p))] @ pick crc_options (crc_type p) @
     pick preamble_options (preamble p) @ pick preamble_length_options (preamble_length p) @
     [''rate'', show_nat 10 (unat (data_rate p))] @ [''databits'', show_nat 10 (unat (data_bits p))] @
     [''stopbits'', show_nat 10 (unat (stop_bits p))] @ pick parity_options (parity p) @
     pick txidle_options idle"

text \<open>The settings that have options.\<close>

definition expressible_flags :: "u16 \<Rightarrow> bool" where
  "expressible_flags f \<longleftrightarrow>
     f AND 7 \<in> fst ` set underrun_options \<and> f AND 0x8300 \<in> fst ` set rx_clock_options \<and>
     f AND 0x0c08 \<in> fst ` set tx_clock_options \<and> f AND 0x3000 \<in> fst ` set dpll_options"

definition expressible :: "R56_PARAMS \<Rightarrow> u32 \<Rightarrow> bool" where
  "expressible p idle \<longleftrightarrow>
     mode p \<in> fst ` set mode_options \<and> loopback p \<in> {0, 1} \<and> interface p \<in> fst ` set interface_options \<and>
     expressible_flags (flags p) \<and> encoding p \<in> fst ` set encoding_options \<and> unat (clock_speed p) < 2 ^ 31 \<and>
     crc_type p \<in> fst ` set crc_options \<and> preamble p \<in> fst ` set preamble_options \<and>
     preamble_length p \<in> fst ` set preamble_length_options \<and> unat (data_rate p) < 2 ^ 31 \<and>
     data_bits p \<in> {5, 6, 7, 8} \<and> stop_bits p \<in> {1, 2} \<and> parity p \<in> fst ` set parity_options \<and>
     idle \<in> fst ` set txidle_options"


subsection \<open>The options do what they are written for\<close>

lemma sets_pick:
  assumes "v \<in> fst ` set names" "list_all (\<lambda>(k, w). sets [w] (g k)) names"
  shows "sets (pick names v) (g v)"
proof -
  obtain w where w: "map_of names v = Some w" using assms(1) by (metis map_of_eq_None_iff not_None_eq)
  then show ?thesis using assms(2) map_of_SomeD [OF w] by (auto simp: pick_def list_all_iff)
qed

lemmas option_list_simps = list.pred_inject prod.case simp_thms

lemmas option_tables =
  mode_options_def interface_options_def encoding_options_def crc_options_def preamble_options_def
  preamble_length_options_def parity_options_def txidle_options_def underrun_options_def rx_clock_options_def
  tx_clock_options_def dpll_options_def

lemma sets_lists:
  "list_all (\<lambda>(k, w). sets [w] (set_param (mode_update (\<lambda>_. k)))) mode_options"
  "list_all (\<lambda>(k, w). sets [w] (set_param (interface_update (\<lambda>_. k)))) interface_options"
  "list_all (\<lambda>(k, w). sets [w] (set_param (encoding_update (\<lambda>_. k)))) encoding_options"
  "list_all (\<lambda>(k, w). sets [w] (set_param (crc_type_update (\<lambda>_. k)))) crc_options"
  "list_all (\<lambda>(k, w). sets [w] (set_param (preamble_update (\<lambda>_. k)))) preamble_options"
  "list_all (\<lambda>(k, w). sets [w] (set_param (preamble_length_update (\<lambda>_. k)))) preamble_length_options"
  "list_all (\<lambda>(k, w). sets [w] (set_param (parity_update (\<lambda>_. k)))) parity_options"
  "list_all (\<lambda>(k, w). sets [w] (idlemode_update (\<lambda>_. k))) txidle_options"
  unfolding mode_options_def interface_options_def encoding_options_def crc_options_def preamble_options_def
    preamble_length_options_def parity_options_def txidle_options_def option_list_simps
  by (intro conjI; (rule sets_word, rule cmd_lookup, rule one_word_defs | simp))+

lemma sets_flag_lists:
  "list_all (\<lambda>(k, w). sets [w] (set_param (flags_update (\<lambda>v. (v AND NOT 7) OR k)))) underrun_options"
  "list_all (\<lambda>(k, w). sets [w] (set_param (flags_update (\<lambda>v. (v AND NOT 0x8300) OR k)))) rx_clock_options"
  "list_all (\<lambda>(k, w). sets [w] (set_param (flags_update (\<lambda>v. (v AND NOT 0x0c08) OR k)))) tx_clock_options"
  "list_all (\<lambda>(k, w). sets [w] (set_param (flags_update (\<lambda>v. (v AND NOT 0x3000) OR k)))) dpll_options"
  unfolding underrun_options_def rx_clock_options_def tx_clock_options_def dpll_options_def option_list_simps
  by (intro conjI; (rule sets_word, rule cmd_lookup, simp add: one_word_defs set_param_def | simp))+

lemma sets_flag_option:
  assumes off: "sets [CHR ''-'' # w] (set_param (flags_update (\<lambda>v. v AND NOT m)))"
    and on: "sets [w] (set_param (flags_update (\<lambda>v. v + m))) \<or> sets [w] (set_param (flags_update (\<lambda>v. v OR m)))"
    and m: "tst f m \<longleftrightarrow> f AND m = m"
  shows "sets (flag_option w m f) (set_param (flags_update (put_field m f)))"
proof (cases "tst f m")
  case True
  have "sets ([CHR ''-'' # w] @ [w]) (set_param (flags_update (put_field m f)))"
  proof (rule disjE [OF on])
    assume "sets [w] (set_param (flags_update (\<lambda>v. v + m)))"
    from sets_append [OF off this] show ?thesis
      using True m by (simp add: set_param_eq put_field_def [abs_def] add_flag comp_def)
  next
    assume "sets [w] (set_param (flags_update (\<lambda>v. v OR m)))"
    from sets_append [OF off this] show ?thesis
      using True m by (simp add: set_param_eq put_field_def [abs_def] comp_def)
  qed
  then show ?thesis using True by (simp add: flag_option_def)
next
  case False
  then have "put_field m f = (\<lambda>v. v AND NOT m)" by (simp add: put_field_def [abs_def] tst_def)
  then show ?thesis using off False by (simp add: flag_option_def)
qed


lemma flag_mask: "m \<in> {0x10, 0x20, 0x40, 0x80, 0x4000} \<Longrightarrow> tst f m \<longleftrightarrow> f AND m = (m :: u16)"
proof -
  have "tst f (2 ^ k) \<longleftrightarrow> f AND 2 ^ k = 2 ^ k" if "k < 16" for k
  proof -
    have b: "bit (2 ^ k :: u16) n \<longleftrightarrow> n = k" for n using that by (auto simp: bit_simps)
    have "f AND 2 ^ k = (if bit f k then 2 ^ k else 0)" by (rule bit_word_eqI) (auto simp: bit_and_iff b)
    moreover have "tst f (2 ^ k) \<longleftrightarrow> bit f k" by (auto simp: tst_iff_bit b)
    moreover have "(2 ^ k :: u16) \<noteq> 0" using b [of k] that by auto
    ultimately show ?thesis by auto
  qed
  from this [of 4] this [of 5] this [of 6] this [of 7] this [of 14]
  show "m \<in> {0x10, 0x20, 0x40, 0x80, 0x4000} \<Longrightarrow> ?thesis" by auto
qed

lemma sets_flag_options:
  "sets (flag_option ''sharezero'' HDLC_FLAG_SHARE_ZERO f) (set_param (flags_update (put_field HDLC_FLAG_SHARE_ZERO f)))"
  "sets (flag_option ''autocts'' HDLC_FLAG_AUTO_CTS f) (set_param (flags_update (put_field HDLC_FLAG_AUTO_CTS f)))"
  "sets (flag_option ''autodcd'' HDLC_FLAG_AUTO_DCD f) (set_param (flags_update (put_field HDLC_FLAG_AUTO_DCD f)))"
  "sets (flag_option ''autorts'' HDLC_FLAG_AUTO_RTS f) (set_param (flags_update (put_field HDLC_FLAG_AUTO_RTS f)))"
  "sets (flag_option ''hdlcloop'' HDLC_FLAG_HDLC_LOOPMODE f) (set_param (flags_update (put_field HDLC_FLAG_HDLC_LOOPMODE f)))"
proof -
  show "sets (flag_option ''sharezero'' HDLC_FLAG_SHARE_ZERO f) (set_param (flags_update (put_field HDLC_FLAG_SHARE_ZERO f)))"
    by (rule sets_flag_option, rule sets_word, rule cmd_lookup, rule one_word_defs, rule disjI2, rule sets_word, rule cmd_lookup, rule one_word_defs, rule flag_mask) simp
  show "sets (flag_option ''autocts'' HDLC_FLAG_AUTO_CTS f) (set_param (flags_update (put_field HDLC_FLAG_AUTO_CTS f)))"
    by (rule sets_flag_option, rule sets_word, rule cmd_lookup, rule one_word_defs, rule disjI1, rule sets_word, rule cmd_lookup, rule one_word_defs, rule flag_mask) simp
  show "sets (flag_option ''autodcd'' HDLC_FLAG_AUTO_DCD f) (set_param (flags_update (put_field HDLC_FLAG_AUTO_DCD f)))"
    by (rule sets_flag_option, rule sets_word, rule cmd_lookup, rule one_word_defs, rule disjI1, rule sets_word, rule cmd_lookup, rule one_word_defs, rule flag_mask) simp
  show "sets (flag_option ''autorts'' HDLC_FLAG_AUTO_RTS f) (set_param (flags_update (put_field HDLC_FLAG_AUTO_RTS f)))"
    by (rule sets_flag_option, rule sets_word, rule cmd_lookup, rule one_word_defs, rule disjI1, rule sets_word, rule cmd_lookup, rule one_word_defs, rule flag_mask) simp
  show "sets (flag_option ''hdlcloop'' HDLC_FLAG_HDLC_LOOPMODE f) (set_param (flags_update (put_field HDLC_FLAG_HDLC_LOOPMODE f)))"
    by (rule sets_flag_option, rule sets_word, rule cmd_lookup, rule one_word_defs, rule disjI1, rule sets_word, rule cmd_lookup, rule one_word_defs, rule flag_mask) simp
qed

lemma put_field_alt: "(\<lambda>v. (v AND NOT m) OR (f AND m)) = put_field m f"
  by (simp add: put_field_def [abs_def])

text \<open>All flags: the masks cover the whole word.\<close>

lemma sets_flags:
  assumes "expressible_flags f"
  shows "sets (flags_options f) (set_param (flags_update (\<lambda>_. f)))"
proof -
  note l = assms [unfolded expressible_flags_def]
  note u = sets_pick [OF l [THEN conjunct1] sets_flag_lists(1), unfolded put_field_alt]
  note r = sets_pick [OF l [THEN conjunct2, THEN conjunct1] sets_flag_lists(2), unfolded put_field_alt]
  note t = sets_pick [OF l [THEN conjunct2, THEN conjunct2, THEN conjunct1] sets_flag_lists(3), unfolded put_field_alt]
  note d = sets_pick [OF l [THEN conjunct2, THEN conjunct2, THEN conjunct2] sets_flag_lists(4), unfolded put_field_alt]
  note o = sets_flag_options [of f]
  define all where "all = (\<lambda>v. put_field 0x3000 f (put_field 0x0c08 f (put_field 0x8300 f (put_field 0x4000 f
      (put_field 0x80 f (put_field 0x40 f (put_field 0x20 f (put_field 0x10 f (put_field 7 f v)))))))))"
  have "sets (flags_options f) (set_param (flags_update all))"
    using sets_append [OF u sets_append [OF o(1) sets_append [OF o(2) sets_append [OF o(3) sets_append [OF o(4)
      sets_append [OF o(5) sets_append [OF r sets_append [OF t d]]]]]]]]
    by (simp add: flags_options_def set_param_eq all_def comp_def)
  moreover have "all = (\<lambda>_. f)"
    by (simp add: all_def put_field_twice put_field_all)
  ultimately show ?thesis by simp
qed

lemma to_int_small: "n < 2 ^ 31 \<Longrightarrow> to_int (int n) = int n"
  by (simp add: to_int_def min_def max_def signed_take_bit_int_eq_self)

lemma sets_rates:
  fixes c :: u64
  assumes "unat c < 2 ^ 31"
  shows "sets [''clock'', show_nat 10 (unat c)] (set_param (clock_speed_update (\<lambda>_. c)))"
    "sets [''rate'', show_nat 10 (unat c)] (set_param (data_rate_update (\<lambda>_. c)))"
proof -
  have v: "of_int (to_int (int (unat c))) = c" using to_int_small [OF assms] by simp
  show "sets [''clock'', show_nat 10 (unat c)] (set_param (clock_speed_update (\<lambda>_. c)))"
    by (rule sets_number [OF cmd_lookup(56) [unfolded set_clock_def] scan_show_decimal TrueI, of "unat c", unfolded v])
  show "sets [''rate'', show_nat 10 (unat c)] (set_param (data_rate_update (\<lambda>_. c)))"
    by (rule sets_number [OF cmd_lookup(71) [unfolded set_rate_def] scan_show_decimal TrueI, of "unat c", unfolded v])
qed


lemma sets_format:
  fixes c :: u8
  shows "c \<in> {5, 6, 7, 8} \<Longrightarrow> sets [''databits'', show_nat 10 (unat c)] (set_param (data_bits_update (\<lambda>_. c)))"
    "c \<in> {1, 2} \<Longrightarrow> sets [''stopbits'', show_nat 10 (unat c)] (set_param (stop_bits_update (\<lambda>_. c)))"
proof -
  have "unat c < 2 ^ LENGTH(8)" by (rule unsigned_less)
  then have "unat c < 2 ^ 31" by simp
  then have v: "to_int (int (unat c)) = int (unat c)" by (rule to_int_small)
  have w: "of_int (int (unat c)) = c" by simp
  show "sets [''databits'', show_nat 10 (unat c)] (set_param (data_bits_update (\<lambda>_. c)))" if "c \<in> {5, 6, 7, 8}"
    by (rule sets_number [OF cmd_lookup(75) [unfolded set_databits_def] scan_show_decimal, of "unat c", unfolded v w])
      (use that in auto)
  show "sets [''stopbits'', show_nat 10 (unat c)] (set_param (stop_bits_update (\<lambda>_. c)))" if "c \<in> {1, 2}"
    by (rule sets_number [OF cmd_lookup(76) [unfolded set_stopbits_def] scan_show_decimal, of "unat c", unfolded v w])
      (use that in auto)
qed

lemma sets_addr: "sets [''addr'', show_nat 16 (unat c)] (set_param (addr_filter_update (\<lambda>_. c)))"
  unfolding sets_def
proof (intro allI)
  fix rest s
  have "unat c < 2 ^ LENGTH(8)" by (rule unsigned_less)
  then have "unat c < 256" by simp
  have "uint c < 2 ^ LENGTH(8)" by (rule unsigned_less)
  moreover have "ucast (ucast c :: u16) = c" by (rule bit_word_eqI) (simp add: bit_simps)
  ultimately have uc: "ucast (to_ushort (int (unat c))) = c" by (simp add: to_ushort_def)
  from scan_show_hex [OF \<open>unat c < 256\<close>] have "set_addr ([''addr'', show_nat 16 (unat c)] @ rest) s =
      Some (2, set_param (addr_filter_update (\<lambda>_. c)) s)"
    using uc by (simp add: set_addr_def del: of_int_uint)
  then show "parse_cmdline ([''addr'', show_nat 16 (unat c)] @ rest) s =
      parse_cmdline rest (set_param (addr_filter_update (\<lambda>_. c)) s)"
    by (subst parse_cmdline.simps) (simp add: cmd_lookup(57) numeral_2_eq_2)
qed

lemma sets_loopback:
  "l \<in> {0, 1} \<Longrightarrow> sets [if l = 0 then ''-loopback'' else ''loopback''] (set_param (loopback_update (\<lambda>_. l)))"
  by (cases "l = 0") (simp_all, (rule sets_word, rule cmd_lookup, rule one_word_defs)+)

lemma sets_options_of:
  assumes "expressible p idle"
  shows "sets (options_of p idle) (\<lambda>s. s\<lparr> s_params := p, idlemode := idle \<rparr>)"
proof -
  have e: "mode p \<in> fst ` set mode_options" "loopback p \<in> {0, 1}" "interface p \<in> fst ` set interface_options"
    "expressible_flags (flags p)" "encoding p \<in> fst ` set encoding_options" "unat (clock_speed p) < 2 ^ 31"
    "crc_type p \<in> fst ` set crc_options" "preamble p \<in> fst ` set preamble_options"
    "preamble_length p \<in> fst ` set preamble_length_options" "unat (data_rate p) < 2 ^ 31"
    "data_bits p \<in> {5, 6, 7, 8}" "stop_bits p \<in> {1, 2}" "parity p \<in> fst ` set parity_options"
    "idle \<in> fst ` set txidle_options"
    using assms unfolding expressible_def by blast+
  note format = sets_append [OF sets_rates(2) [OF e(10)] sets_append [OF sets_format(1) [OF e(11)]
    sets_append [OF sets_format(2) [OF e(12)] sets_append [OF sets_pick [OF e(13) sets_lists(7)]
    sets_pick [OF e(14) sets_lists(8)]]]]]
  note line = sets_append [OF sets_pick [OF e(5) sets_lists(3)] sets_append [OF sets_rates(1) [OF e(6)]
    sets_append [OF sets_addr [of "addr_filter p"] sets_append [OF sets_pick [OF e(7) sets_lists(4)]
    sets_append [OF sets_pick [OF e(8) sets_lists(5)] sets_append [OF sets_pick [OF e(9) sets_lists(6)] format]]]]]]
  note all = sets_append [OF sets_pick [OF e(1) sets_lists(1)] sets_append [OF sets_loopback [OF e(2)]
    sets_append [OF sets_pick [OF e(3) sets_lists(2)] sets_append [OF sets_flags [OF e(4)] line]]]]
  show ?thesis unfolding options_of_def by (rule sets_cong [OF all]) (rule ext, simp add: set_param_eq)
qed


subsection \<open>Properties\<close>

text \<open>An answer of the system for the witnesses.\<close>

definition idle_answers :: answers where
  "idle_answers =
     \<lparr> sys_ret = (\<lambda>_. 0), sys_params = (\<lambda>_. default_params), sys_txidle = (\<lambda>_. HDLC_TXIDLE_FLAGS),
       sys_icount = (\<lambda>_. zero_icount), sys_flags = (\<lambda>_. 0) \<rparr>"

definition raw_params :: R56_PARAMS where
  "raw_params = default_params\<lparr> mode := R56_MODE_RAW, flags := HDLC_FLAG_AUTO_RTS OR HDLC_FLAG_RXC_DPLL OR HDLC_FLAG_TXC_BRG,
     clock_speed := 64000, crc_type := HDLC_CRC_32_CCITT OR HDLC_CRC_RETURN_EX \<rparr>"

text \<open>C39: Every setting that has options can be reached from every other one: the command line that writes the
  setting out, numbers included, is accepted, uses up every word, and leaves exactly this setting, whatever the
  settings were before, with the other variables unchanged.\<close>

theorem parse_cmdline_reaches_every_setting:
  assumes "expressible p idle"
  shows "parse_cmdline (options_of p idle) s = Some (Return 0 (s\<lparr> s_params := p, idlemode := idle \<rparr>))"
proof -
  have "parse_cmdline (options_of p idle @ []) s = parse_cmdline [] (s\<lparr> s_params := p, idlemode := idle \<rparr>)"
    using sets_options_of [OF assms] unfolding sets_def by blast
  also have "\<dots> = Some (Return 0 (s\<lparr> s_params := p, idlemode := idle \<rparr>))"
    by (subst parse_cmdline.simps) simp
  finally show ?thesis by simp
qed

theorem parse_cmdline_reaches_every_setting_witness:
  "expressible raw_params HDLC_TXIDLE_ONES \<and>
   parse_cmdline (options_of raw_params HDLC_TXIDLE_ONES) (init_settings idle_answers ''/dev/ttySL0'') =
     Some (Return 0 ((init_settings idle_answers ''/dev/ttySL0'')\<lparr> s_params := raw_params, idlemode := HDLC_TXIDLE_ONES \<rparr>))"
proof -
  have "expressible raw_params HDLC_TXIDLE_ONES"
    by (simp add: expressible_def expressible_flags_def raw_params_def default_params_def option_tables)
  then show ?thesis using parse_cmdline_reaches_every_setting by blast
qed



text \<open>Adding a bit that is set carries into the next one.\<close>

lemma add_flag_carry:
  assumes "tst f (2 ^ k)" "k < 15"
  shows "\<not> tst (f + 2 ^ k) (2 ^ k :: u16)" "tst (f + 2 ^ k) (2 ^ Suc k) \<longleftrightarrow> \<not> tst f (2 ^ Suc k)"
proof -
  define u where "u = unat f"
  have b: "tst v (2 ^ j) \<longleftrightarrow> odd (unat v div 2 ^ j)" if "j < 16" for v :: u16 and j
  proof -
    have "tst v (2 ^ j) \<longleftrightarrow> bit (unat v) j" using that by (auto simp: tst_iff_bit bit_simps)
    then show ?thesis by (simp add: bit_iff_odd)
  qed
  have "unat (2 ^ k :: u16) = 2 ^ k" by (rule bit_eqI) (use assms(2) in \<open>auto simp: bit_simps\<close>)
  then have sum: "unat (f + 2 ^ k) = take_bit 16 (u + 2 ^ k)" by (simp add: unat_word_ariths u_def take_bit_eq_mod)
  have s: "tst (f + 2 ^ k) (2 ^ j) \<longleftrightarrow> odd ((u + 2 ^ k) div 2 ^ j)" if "j < 16" for j
    using b [OF that, of "f + 2 ^ k"] that by (simp add: sum flip: bit_iff_odd) (simp add: bit_take_bit_iff)
  have q: "(u + 2 ^ k) div 2 ^ k = Suc (u div 2 ^ k)" using div_add_self2 [of "2 ^ k" u] by (simp del: div_add_self2)
  have o: "odd (u div 2 ^ k)" using assms b [of k f] by (simp add: u_def)
  have d: "x div 2 ^ Suc k = x div 2 ^ k div 2" for x :: nat by (metis div_mult2_eq power_Suc2)
  have "(u + 2 ^ k) div 2 ^ Suc k = Suc (u div 2 ^ Suc k)" unfolding d q using o by (auto elim!: oddE)
  then show "\<not> tst (f + 2 ^ k) (2 ^ k :: u16)" "tst (f + 2 ^ k) (2 ^ Suc k) \<longleftrightarrow> \<not> tst f (2 ^ Suc k)"
    using s [of k] s [of "Suc k"] b [of "Suc k" f] o q assms(2) by (simp_all add: u_def)
qed

text \<open>The handlers of \<open>autocts\<close>, \<open>autodcd\<close>, \<open>autorts\<close> and
  \<open>hdlcloop\<close> add their flag: when it is already set, because the option is repeated or the device
  had it, the flag is cleared and the next one inverted. For \<open>autorts\<close> this is the receive clock
  from the DPLL.\<close>

theorem set_autorts_again_clears_it:
  assumes "tst (flags (s_params s)) HDLC_FLAG_AUTO_RTS"
  shows "\<exists>s'. set_autorts argv s = Some (1, s') \<and> \<not> tst (flags (s_params s')) HDLC_FLAG_AUTO_RTS \<and>
    (tst (flags (s_params s')) HDLC_FLAG_RXC_DPLL \<longleftrightarrow> \<not> tst (flags (s_params s)) HDLC_FLAG_RXC_DPLL)"
  using add_flag_carry [of "flags (s_params s)" 7] assms by (simp add: set_autorts_def set_param_def)

theorem set_autorts_again_clears_it_witness:
  "\<exists>s'. set_autorts [''autorts''] ((init_settings idle_answers [])\<lparr> s_params := raw_params \<rparr>) = Some (1, s') \<and>
     \<not> tst (flags (s_params s')) HDLC_FLAG_AUTO_RTS \<and>
     (tst (flags (s_params s')) HDLC_FLAG_RXC_DPLL \<longleftrightarrow>
       \<not> tst (flags (s_params ((init_settings idle_answers [])\<lparr> s_params := raw_params \<rparr>))) HDLC_FLAG_RXC_DPLL)"
  by (rule set_autorts_again_clears_it) code_simp

end
