(* ===== verification/R56_Module.thy ===== *)
theory R56_Module
  imports R56_Open R56_Scan
begin

text \<open>
  Loading and unloading the module (\<open>route56_init\<close>, \<open>route56_cleanup\<close>,
  \<open>r56_init_tty\<close>) and the text that the driver shows under \<open>/proc\<close>
  (\<open>line_info\<close>).
\<close>

subsection \<open>The module\<close>

text \<open>
  The instances share the ports, the kernel and memory: the instance whose routine runs is put into the
  world for that time. \<open>mret\<close> is the kernel's answer to the last of the calls made.
\<close>

datatype mcall =
    Alloc_tty_driver int | Tty_register_driver | Tty_unregister_driver | Put_tty_driver
  | Pci_register_driver | Pci_unregister_driver | Tty_port_destroy int | Kfree_device int

record module =
  drv :: driver
  serial_driver :: "int option"
  pci_registered :: bool
  machine :: world
  mcalls :: "mcall list"
  mret :: "mcall list \<Rightarrow> int"

definition mcall :: "mcall \<Rightarrow> module \<Rightarrow> int \<times> module" where
  "mcall c m = (let cs = mcalls m @ [c] in (mret m cs, m\<lparr> mcalls := cs \<rparr>))"

text \<open>\<open>serial_driver\<close> is the number of lines it was allocated for.\<close>

definition r56_init_tty :: "module \<Rightarrow> int \<times> module" where
  "r56_init_tty m =
    (let lines = r56_device_count (drv m);
         (p, m) = mcall (Alloc_tty_driver lines) m
     in if p = 0 then (- ENOMEM, m\<lparr> serial_driver := None \<rparr>)
        else let m = m\<lparr> serial_driver := Some lines \<rparr>;
                 (rc, m) = mcall Tty_register_driver m
             in if rc < 0 then let (_, m) = mcall Put_tty_driver m in (rc, m\<lparr> serial_driver := None \<rparr>)
                else (0, m))"

text \<open>The loop over the instances: resources, port and memory of each.\<close>

fun cleanup_devices :: "r56_struct list \<Rightarrow> module \<Rightarrow> module option" where
  "cleanup_devices [] m = Some m"
| "cleanup_devices (i # is) m =
     do { w \<leftarrow> r56_release_resources ((machine m)\<lparr> info := i \<rparr>);
          let (_, m) = mcall (Tty_port_destroy (line i)) (m\<lparr> machine := w \<rparr>);
              (_, m) = mcall (Kfree_device (line i)) m
          in cleanup_devices is m }"

definition route56_cleanup :: "module \<Rightarrow> module option" where
  "route56_cleanup m =
    (let m = (if serial_driver m \<noteq> None then snd (mcall Put_tty_driver (snd (mcall Tty_unregister_driver m))) else m)
     in do { m \<leftarrow> cleanup_devices (r56_device_list (drv m)) m;
             Some (if pci_registered m then snd (mcall Pci_unregister_driver m) else m) })"

text \<open>The adapters that the kernel finds while the PCI driver registers, with the outcome of the allocations.\<close>

fun probe_all :: "(pci_dev \<times> bool) list \<Rightarrow> driver \<Rightarrow> driver option" where
  "probe_all [] d = Some d"
| "probe_all ((p, ok) # ps) d = do { (_, d) \<leftarrow> route56_init_one p ok d; probe_all ps d }"

definition route56_init :: "(int \<times> int) list \<Rightarrow> bool list \<Rightarrow> (pci_dev \<times> bool) list \<Rightarrow> module \<Rightarrow> (int \<times> module) option" where
  "route56_init isa oks found m =
    do { d \<leftarrow> enum_isa isa oks (drv m);
         let (rc, m) = mcall Pci_register_driver (m\<lparr> drv := d \<rparr>)
         in do { d \<leftarrow> (if rc < 0 then Some d else probe_all found d);
                 let (rc, m) = r56_init_tty (m\<lparr> drv := d, pci_registered := (rc \<ge> 0 \<or> pci_registered m) \<rparr>)
                 in if rc < 0 then do { m \<leftarrow> route56_cleanup m; Some (rc, m) } else Some (0, m) } }"

subsection \<open>Unloading gives everything back\<close>

text \<open>Instances as they are in the list before any of them is opened.\<close>

definition fresh_list :: "driver \<Rightarrow> bool" where
  "fresh_list d \<longleftrightarrow>
     length (maxframe d) = 20 \<and> length (txdmabufs d) = 20 \<and> length (txholdbufs d) = 20 \<and>
     r56_device_count d = int (length (r56_device_list d)) \<and>
     map line (r56_device_list d) = map int [0..<length (r56_device_list d)] \<and>
     (\<forall>i\<in>set (r56_device_list d). releasable i)"

lemma allocated_device: "r56_allocate_device ok = Some i \<Longrightarrow> rx_buffer_list i = [] \<and> tx_buffer_list i = [] \<and>
    length (tx_holding_buffers i) = 5 \<and> num_tx_holding_buffers i = 0"
  by (auto simp: r56_allocate_device_def zero_info_def split: if_splits)

lemma device_options_buffers:
  assumes "rx_buffer_list i = []" "tx_buffer_list i = []" "length (tx_holding_buffers i) = 5" "num_tx_holding_buffers i = 0"
  shows "releasable (device_options mf td th i) \<and> line (device_options mf td th i) = line i"
  using assms by (auto simp: device_options_def releasable_def Let_def)

lemma releasable_max_frame_size [simp]: "releasable (i\<lparr> max_frame_size := n \<rparr>) = releasable i"
  by (simp add: releasable_def)

lemma fresh_list_add:
  assumes d: "fresh_list d"
    and i: "rx_buffer_list i = []" "tx_buffer_list i = []" "length (tx_holding_buffers i) = 5" "num_tx_holding_buffers i = 0"
  shows "\<exists>d'. r56_add_device i d = Some d' \<and> fresh_list d'"
proof -
  note f = d [unfolded fresh_list_def]
  define j where "j = i\<lparr> line := r56_device_count d \<rparr>"
  have "\<exists>k. (if line j < MAX_TOTAL_DEVICES
        then do { mf \<leftarrow> aget (maxframe d) (nat (line j)); td \<leftarrow> aget (txdmabufs d) (nat (line j));
                  th \<leftarrow> aget (txholdbufs d) (nat (line j)); Some (device_options mf td th j) }
        else Some j) = Some k \<and> releasable k \<and> line k = r56_device_count d"
  proof (cases "line j < MAX_TOTAL_DEVICES")
    case True
    then have "nat (line j) < 20" using f by (simp add: j_def)
    then show ?thesis using True f device_options_buffers [of j] i by (simp add: aget_def j_def)
  next
    case False
    then show ?thesis using i by (simp add: j_def releasable_def)
  qed
  then obtain k where k: "(if line j < MAX_TOTAL_DEVICES
        then do { mf \<leftarrow> aget (maxframe d) (nat (line j)); td \<leftarrow> aget (txdmabufs d) (nat (line j));
                  th \<leftarrow> aget (txholdbufs d) (nat (line j)); Some (device_options mf td th j) }
        else Some j) = Some k" "releasable k" "line k = r56_device_count d" by blast
  define l where "l = (if max_frame_size k < 4096 then k\<lparr> max_frame_size := 4096 \<rparr>
      else if max_frame_size k > 65535 then k\<lparr> max_frame_size := 65535 \<rparr> else k)"
  have "releasable l" "line l = r56_device_count d" using k by (simp_all add: l_def)
  moreover have "r56_add_device i d = Some (d\<lparr> r56_device_list := r56_device_list d @ [l], r56_device_count := r56_device_count d + 1 \<rparr>)"
    unfolding r56_add_device_def Let_def j_def [symmetric] k(1) by (simp add: l_def)
  ultimately show ?thesis using f by (auto simp: fresh_list_def)
qed

lemma enum_isa_total: "fresh_list d \<Longrightarrow> \<exists>d'. enum_isa isa oks d = Some d' \<and> fresh_list d'"
proof (induction isa oks d rule: enum_isa.induct)
  case (1 io irq ps ok oks d)
  show ?case
  proof (cases "io \<noteq> 0 \<and> irq \<noteq> 0")
    case True
    show ?thesis
    proof (cases "r56_allocate_device ok")
      case None
      then show ?thesis using 1 True by simp
    next
      case (Some i)
      obtain e where "r56_add_device (i\<lparr> io_base := of_int io, bus_type := R56_BUS_TYPE_ISA \<rparr>) d = Some e" "fresh_list e"
        using fresh_list_add [OF 1(3), of "i\<lparr> io_base := of_int io, bus_type := R56_BUS_TYPE_ISA \<rparr>"] allocated_device [OF Some] by auto
      then show ?thesis using 1(2) True Some by simp
    qed
  qed (use 1 in auto)
qed auto

lemma probe_total:
  assumes d: "fresh_list d"
  shows "\<exists>r d'. route56_init_one p ok d = Some (r, d') \<and> fresh_list d'"
proof (cases "pci_enable_fails p \<or> r56_allocate_device ok = None")
  case True
  then show ?thesis using d by (auto simp: route56_init_one_def)
next
  case False
  then obtain i where i: "r56_allocate_device ok = Some i" by auto
  define j where "j = i\<lparr> hw_version := uint (pci_device p), bus_type := R56_BUS_TYPE_PCI,
      io_base := ucast (pci_start2 p), phys_lcr_base := ucast (pci_start3 p) \<rparr>"
  define k where "k = (if hw_version j = R561_DEVICE_ID then j\<lparr> phys_memory_base := ucast (pci_start3 p) \<rparr>
      else j\<lparr> phys_memory_base := ucast (pci_start4 p) \<rparr>)"
  have "rx_buffer_list k = [] \<and> tx_buffer_list k = [] \<and> length (tx_holding_buffers k) = 5 \<and> num_tx_holding_buffers k = 0"
    using allocated_device [OF i] by (simp add: k_def j_def)
  then obtain e where "r56_add_device k d = Some e" "fresh_list e" using fresh_list_add [OF d, of k] by blast
  moreover have "route56_init_one p ok d = do { d \<leftarrow> r56_add_device k d; Some (0, d) }"
    using False unfolding route56_init_one_def i j_def k_def Let_def by simp
  ultimately show ?thesis by simp
qed

lemma probe_all_total: "fresh_list d \<Longrightarrow> \<exists>d'. probe_all found d = Some d' \<and> fresh_list d'"
proof (induction found arbitrary: d)
  case (Cons x found)
  obtain p ok where x: "x = (p, ok)" by (cases x)
  from probe_total [OF Cons(2), of p ok] Cons(1) show ?case by (auto simp: x)
qed simp

text \<open>The calls that unloading makes.\<close>

definition unload_calls :: "int option \<Rightarrow> r56_struct list \<Rightarrow> bool \<Rightarrow> mcall list" where
  "unload_calls serial is pci =
     (if serial \<noteq> None then [Tty_unregister_driver, Put_tty_driver] else []) @
     concat (map (\<lambda>i. [Tty_port_destroy (line i), Kfree_device (line i)]) is) @
     (if pci then [Pci_unregister_driver] else [])"

definition same_module :: "module \<Rightarrow> module \<Rightarrow> bool" where
  "same_module m m' \<longleftrightarrow> drv m' = drv m \<and> serial_driver m' = serial_driver m \<and> pci_registered m' = pci_registered m"

lemma mcall_fields [simp]:
  "mcalls (snd (mcall c m)) = mcalls m @ [c]" "same_module m (snd (mcall c m))" "drv (snd (mcall c m)) = drv m"
  "serial_driver (snd (mcall c m)) = serial_driver m" "pci_registered (snd (mcall c m)) = pci_registered m"
  "fst (mcall c m) = mret m (mcalls m @ [c])" "mret (snd (mcall c m)) = mret m"
  by (simp_all add: mcall_def same_module_def Let_def)

lemma cleanup_devices_total:
  assumes "\<forall>i\<in>set is. releasable i"
  shows "\<exists>m'. cleanup_devices is m = Some m' \<and> same_module m m' \<and>
    mcalls m' = mcalls m @ concat (map (\<lambda>i. [Tty_port_destroy (line i), Kfree_device (line i)]) is)"
  using assms
proof (induction "is" arbitrary: m)
  case (Cons i "is")
  have "releasable (info ((machine m)\<lparr> info := i \<rparr>))" using Cons(2) by simp
  from release_total [OF this] obtain w where w: "r56_release_resources ((machine m)\<lparr> info := i \<rparr>) = Some w" by blast
  define n where "n = snd (mcall (Kfree_device (line i)) (snd (mcall (Tty_port_destroy (line i)) (m\<lparr> machine := w \<rparr>))))"
  obtain m' where m': "cleanup_devices is n = Some m'" "same_module n m'"
    "mcalls m' = mcalls n @ concat (map (\<lambda>i. [Tty_port_destroy (line i), Kfree_device (line i)]) is)"
    using Cons(1) [of n] Cons(2) by auto
  have "same_module m n" "mcalls n = mcalls m @ [Tty_port_destroy (line i), Kfree_device (line i)]"
    by (simp_all add: n_def same_module_def)
  then show ?case using m' by (simp add: w case_prod_unfold Let_def n_def [symmetric] same_module_def)
qed (simp add: same_module_def)

lemma cleanup_total:
  assumes "\<forall>i\<in>set (r56_device_list (drv m)). releasable i"
  shows "\<exists>m'. route56_cleanup m = Some m' \<and> drv m' = drv m \<and> serial_driver m' = serial_driver m \<and>
    pci_registered m' = pci_registered m \<and>
    mcalls m' = mcalls m @ unload_calls (serial_driver m) (r56_device_list (drv m)) (pci_registered m)"
proof -
  define n where "n = (if serial_driver m \<noteq> None then snd (mcall Put_tty_driver (snd (mcall Tty_unregister_driver m))) else m)"
  have n: "same_module m n" "mcalls n = mcalls m @ (if serial_driver m \<noteq> None then [Tty_unregister_driver, Put_tty_driver] else [])"
    by (simp_all add: n_def same_module_def)
  from cleanup_devices_total [of "r56_device_list (drv m)" n] assms obtain v where
    v: "cleanup_devices (r56_device_list (drv m)) n = Some v" "same_module n v"
    "mcalls v = mcalls n @ concat (map (\<lambda>i. [Tty_port_destroy (line i), Kfree_device (line i)]) (r56_device_list (drv m)))" by auto
  then show ?thesis using n unfolding route56_cleanup_def n_def [symmetric] Let_def
    by (simp add: unload_calls_def same_module_def)
qed


text \<open>The calls of loading, up to the point where it succeeds or fails.\<close>

definition load_calls :: "module \<Rightarrow> int \<Rightarrow> mcall list" where
  "load_calls m n =
     [Pci_register_driver, Alloc_tty_driver n] @
     (if mret m (mcalls m @ [Pci_register_driver, Alloc_tty_driver n]) = 0 then []
      else [Tty_register_driver] @
        (if mret m (mcalls m @ [Pci_register_driver, Alloc_tty_driver n, Tty_register_driver]) < 0 then [Put_tty_driver] else []))"

definition load_fails :: "module \<Rightarrow> int \<Rightarrow> bool" where
  "load_fails m n \<longleftrightarrow>
     mret m (mcalls m @ [Pci_register_driver, Alloc_tty_driver n]) = 0 \<or>
     mret m (mcalls m @ [Pci_register_driver, Alloc_tty_driver n, Tty_register_driver]) < 0"

lemma init_tty_calls:
  assumes "mcalls m = mcalls m0 @ [Pci_register_driver]" "mret m = mret m0"
  shows "\<exists>rc m'. r56_init_tty m = (rc, m') \<and> (rc < 0 \<longleftrightarrow> load_fails m0 (r56_device_count (drv m))) \<and>
    mcalls m' = mcalls m0 @ load_calls m0 (r56_device_count (drv m)) \<and> drv m' = drv m \<and>
    pci_registered m' = pci_registered m \<and>
    serial_driver m' = (if rc < 0 then None else Some (r56_device_count (drv m)))"
  using assms by (simp add: r56_init_tty_def load_calls_def load_fails_def case_prod_unfold Let_def)

lemma init_calls:
  assumes d: "fresh_list (drv m)"
  shows "\<exists>rc m'. route56_init isa oks found m = Some (rc, m') \<and> fresh_list (drv m') \<and>
    (let n = r56_device_count (drv m'); fails = load_fails m n; ds = r56_device_list (drv m')
     in rc \<le> 0 \<and> (rc < 0 \<longleftrightarrow> fails) \<and> serial_driver m' = (if fails then None else Some n) \<and>
        pci_registered m' = (mret m (mcalls m @ [Pci_register_driver]) \<ge> 0 \<or> pci_registered m) \<and>
        mcalls m' = mcalls m @ load_calls m n @ (if fails then unload_calls None ds (pci_registered m') else []))"
proof -
  obtain d1 where d1: "enum_isa isa oks (drv m) = Some d1" "fresh_list d1" using enum_isa_total [OF d] by blast
  define r where "r = mret m (mcalls m @ [Pci_register_driver])"
  define m1 where "m1 = snd (mcall Pci_register_driver (m\<lparr> drv := d1 \<rparr>))"
  obtain d2 where d2: "(if r < 0 then Some d1 else probe_all found d1) = Some d2" "fresh_list d2"
    using d1(2) probe_all_total [OF d1(2), of found] by (cases "r < 0") auto
  define m2 where "m2 = m1\<lparr> drv := d2, pci_registered := (r \<ge> 0 \<or> pci_registered m1) \<rparr>"
  have m2: "mcalls m2 = mcalls m @ [Pci_register_driver]" "mret m2 = mret m" "drv m2 = d2"
    "pci_registered m2 = (r \<ge> 0 \<or> pci_registered m)"
    by (simp_all add: m2_def m1_def)
  obtain rc v where v: "r56_init_tty m2 = (rc, v)" "rc < 0 \<longleftrightarrow> load_fails m (r56_device_count d2)"
    "mcalls v = mcalls m @ load_calls m (r56_device_count d2)" "drv v = d2" "pci_registered v = pci_registered m2"
    "serial_driver v = (if rc < 0 then None else Some (r56_device_count d2))"
    using init_tty_calls [OF m2(1,2)] m2 by auto
  have run: "route56_init isa oks found m =
      (if rc < 0 then do { m \<leftarrow> route56_cleanup v; Some (rc, m) } else Some (0, v))"
    using d1 d2 v(1) unfolding route56_init_def m2_def m1_def r_def by (simp add: mcall_def Let_def)
  obtain u where u: "route56_cleanup v = Some u" "drv u = drv v" "serial_driver u = serial_driver v"
    "mcalls u = mcalls v @ unload_calls (serial_driver v) (r56_device_list (drv v)) (pci_registered v)" "pci_registered u = pci_registered v"
    using cleanup_total [of v] d2(2) v(4) by (auto simp: fresh_list_def)
  show ?thesis
  proof (cases "rc < 0")
    case True
    then show ?thesis using run u v d2 m2 by (simp add: Let_def r_def)
  next
    case False
    then show ?thesis using run v d2 m2 by (simp add: Let_def r_def)
  qed
qed


text \<open>C19: Loading the module is undone by unloading it: for every list of adapters and every answer of the kernel
  \<open>route56_init\<close> returns; when it fails it has made all calls of unloading itself, giving back the tty
  driver, the PCI driver and every instance exactly once; when it succeeds \<open>route56_cleanup\<close> returns and
  makes them.\<close>

theorem unload_undoes_load:
  assumes "fresh_list (drv m)"
  shows "\<exists>rc m'. route56_init isa oks found m = Some (rc, m') \<and>
    (let n = r56_device_count (drv m'); ds = r56_device_list (drv m')
     in n = int (length ds) \<and> map line ds = map int [0..<length ds] \<and>
        pci_registered m' = (mret m (mcalls m @ [Pci_register_driver]) \<ge> 0 \<or> pci_registered m) \<and>
        (rc < 0 \<longrightarrow> load_fails m n \<and> serial_driver m' = None \<and>
           mcalls m' = mcalls m @ load_calls m n @ unload_calls None ds (pci_registered m')) \<and>
        (rc \<ge> 0 \<longrightarrow> rc = 0 \<and> \<not> load_fails m n \<and> serial_driver m' = Some n \<and>
           (\<exists>m''. route56_cleanup m' = Some m'' \<and>
              mcalls m'' = mcalls m @ load_calls m n @ unload_calls (Some n) ds (pci_registered m'))))"
proof -
  from init_calls [OF assms, of isa oks found] obtain rc m' where
    v: "route56_init isa oks found m = Some (rc, m')" "fresh_list (drv m')" "rc \<le> 0"
      "pci_registered m' = (mret m (mcalls m @ [Pci_register_driver]) \<ge> 0 \<or> pci_registered m)"
      "rc < 0 \<longleftrightarrow> load_fails m (r56_device_count (drv m'))"
      "serial_driver m' = (if rc < 0 then None else Some (r56_device_count (drv m')))"
      "mcalls m' = mcalls m @ load_calls m (r56_device_count (drv m')) @
        (if rc < 0 then unload_calls None (r56_device_list (drv m')) (pci_registered m') else [])"
    by (auto simp: Let_def)
  have "\<forall>i\<in>set (r56_device_list (drv m')). releasable i" using v(2) by (simp add: fresh_list_def)
  from cleanup_total [OF this] v show ?thesis by (auto simp: Let_def fresh_list_def)
qed

text \<open>A kernel that cannot register the tty driver, with one ISA and one PCI adapter.\<close>

definition module_example :: module where
  "module_example =
     \<lparr> drv = \<lparr> r56_device_list = [], r56_device_count = 0, maxframe = replicate 20 0, txdmabufs = replicate 20 0,
                txholdbufs = replicate 20 0 \<rparr>,
       serial_driver = None, pci_registered = False, machine = closed_example, mcalls = [],
       mret = (\<lambda>cs. if last cs = Tty_register_driver then - 16 else if last cs = Pci_register_driver then 0 else 1) \<rparr>"

theorem unload_undoes_load_witness:
  "\<exists>rc m'. route56_init [(0x280, 10), (0, 0)] [True, True]
       [(\<lparr> pci_device = 0x5102, pci_start2 = 0xe000, pci_start3 = 0xf0000000, pci_start4 = 0xf1000000,
           pci_enable_fails = False \<rparr>, True)] module_example = Some (rc, m') \<and>
     rc < 0 \<and> serial_driver m' = None \<and> last (mcalls m') = Pci_unregister_driver"
proof -
  have fails: "load_fails module_example n" for n by (simp add: load_fails_def module_example_def)
  have last: "last (xs @ ys @ unload_calls None ds True) = Pci_unregister_driver" for xs ys ds
    by (simp add: unload_calls_def)
  have pci: "mret module_example (mcalls module_example @ [Pci_register_driver]) \<ge> 0" by (simp add: module_example_def)
  have "fresh_list (drv module_example)" by (simp add: module_example_def fresh_list_def)
  from unload_undoes_load [OF this, of "[(0x280, 10), (0, 0)]" "[True, True]"
      "[(\<lparr> pci_device = 0x5102, pci_start2 = 0xe000, pci_start3 = 0xf0000000, pci_start4 = 0xf1000000, pci_enable_fails = False \<rparr>, True)]"]
  show ?thesis using fails pci last by (auto simp: Let_def not_le)
qed

subsection \<open>The text under /proc\<close>

definition pad_left :: "nat \<Rightarrow> string \<Rightarrow> string" where
  "pad_left n t = replicate (n - length t) CHR ''0'' @ t"

text \<open>\<open>%04X\<close>, \<open>%08X\<close>, \<open>%d\<close> of an unsigned counter, \<open>%x\<close>.\<close>

definition hex :: "nat \<Rightarrow> 'a::len word \<Rightarrow> string" where
  "hex n v = pad_left n (show_nat 16 (unat v))"

definition dec :: "u32 \<Rightarrow> string" where
  "dec c = show_int (sint c)"

definition lower :: "char \<Rightarrow> char" where
  "lower c = (if is_digit 16 c \<and> 65 \<le> (of_char c :: nat) \<and> (of_char c :: nat) \<le> 70 then char_of ((of_char c :: nat) + 32) else c)"

definition stat_buf :: "u8 \<Rightarrow> string" where
  "stat_buf s =
    (if tst s SerialSignal_RTS then ''|RTS'' else []) @ (if tst s SerialSignal_CTS then ''|CTS'' else []) @
    (if tst s SerialSignal_DTR then ''|DTR'' else []) @ (if tst s SerialSignal_DSR then ''|DSR'' else []) @
    (if tst s SerialSignal_DCD then ''|CD'' else []) @ (if tst s SerialSignal_RI then ''|RI'' else [])"

text \<open>The text with its terminator fits into the 30 bytes.\<close>

lemma stat_buf_fits: "length (stat_buf s) + 1 \<le> 30"
  by (simp add: stat_buf_def)

definition counted :: "string \<Rightarrow> u32 \<Rightarrow> string" where
  "counted name c = (if c \<noteq> 0 then '' '' @ name @ '':'' @ dec c else [])"

definition icount_text :: "r56_struct \<Rightarrow> string" where
  "icount_text i =
    (let c = icount i
     in if mode (params i) = R56_MODE_HDLC \<or> mode (params i) = R56_MODE_RAW
        then '' HDLC txok:'' @ dec (ic_txok c) @ '' rxok:'' @ dec (ic_rxok c) @
             counted ''txunder'' (ic_txunder c) @ counted ''txabort'' (ic_txabort c) @
             counted ''rxshort'' (ic_rxshort c) @ counted ''rxlong'' (ic_rxlong c) @
             counted ''rxover'' (ic_rxover c) @ counted ''rxcrc'' (ic_rxcrc c)
        else '' ASYNC tx:'' @ dec (ic_tx c) @ '' rx:'' @ dec (ic_rx c) @
             counted ''fe'' (ic_frame c) @ counted ''pe'' (ic_parity c) @ counted ''brk'' (ic_brk c) @
             counted ''oe'' (ic_overrun c))"

text \<open>The registers in the order they are read, serial ones (True) and DMA ones.\<close>

definition proc_registers :: "(bool \<times> u16) list" where
  "proc_registers =
     [(True, TCSR), (False, TDMR), (True, TICR), (True, RCSR), (False, RDMR), (True, RICR), (True, ICR),
      (True, DCCR), (True, TMR), (True, TCCR), (True, CCAR)]"

fun read_registers :: "(bool \<times> u16) list \<Rightarrow> world \<Rightarrow> u16 list \<times> world" where
  "read_registers [] w = ([], w)"
| "read_registers ((serial, r) # rs) w =
     (let (v, w) = (if serial then usc_InReg w r else usc_InDmaReg w r);
          (vs, w) = read_registers rs w
      in (v # vs, w))"

definition register_names :: "string list" where
  "register_names =
     [''tcsr='', '' tdmr='', '' ticr='', '' rcsr='', '' rdmr='', [CHR 0x0A] @ ''ricr='', '' icr ='', '' dccr='', '' tmr='',
      '' tccr='', '' ccar='']"

text \<open>The name, the I/O address and the resource numbers of the instance are not part of the model: the
  first line is given by \<open>place\<close>.\<close>

definition line_info :: "string \<Rightarrow> world \<Rightarrow> string \<times> world" where
  "line_info place w =
    (let w = usc_get_serial_signals w;
         i = info w;
         t = place @ icount_text i @ '' '' @ drop 1 (stat_buf (serial_signals i)) @ [CHR 0x0A] @
             ''txactive='' @ show_nat 10 (of_bool (tx_active i)) @ '' bh_req='' @ show_nat 10 (of_bool (bh_requested i)) @
             '' bh_run='' @ show_nat 10 (of_bool (bh_running i)) @ '' pending_bh='' @
             map lower (show_nat 16 (unat (pending_bh i))) @ [CHR 0x0A];
         (vs, w) = read_registers proc_registers w
     in (t @ concat (map2 (\<lambda>n v. n @ hex 4 v) register_names vs) @ [CHR 0x0A], w))"

fun proc_lines :: "(string \<times> r56_struct) list \<Rightarrow> world \<Rightarrow> string \<times> r56_struct list \<times> world" where
  "proc_lines [] w = ([], [], w)"
| "proc_lines ((place, i) # is) w =
     (let (t, w) = line_info place (w\<lparr> info := i \<rparr>);
          (ts, js, v) = proc_lines is w
      in (t @ ts, info w # js, v))"

end
