(* ===== verification/R56_Sample.thy ===== *)
theory R56_Sample
  imports R56_Scan R56_State "HOL-Library.Signed_Division"
begin

text \<open>
  The two stations of \<open>examples/sample-loopmode\<close>: their common state
  (\<open>common.h\<close>) and the access to the port (\<open>common.c\<close>).

  The host answers a call as a function of the calls made before. A signal is delivered at the end of a
  call, to the handler that is installed. Text for the console and the log file is left out. None stands for
  an access outside allocated memory.
\<close>

subsection \<open>Time\<close>

record timeval =
  tv_sec :: u64
  tv_usec :: u64

definition zero_time :: timeval where
  "zero_time = \<lparr> tv_sec = 0, tv_usec = 0 \<rparr>"

text \<open>The macros \<open>timersub\<close> and \<open>timercmp\<close>.\<close>

definition timersub :: "timeval \<Rightarrow> timeval \<Rightarrow> timeval" where
  "timersub a b =
    (let s = tv_sec a - tv_sec b; u = tv_usec a - tv_usec b
     in if sint u < 0 then \<lparr> tv_sec = s - 1, tv_usec = u + 1000000 \<rparr> else \<lparr> tv_sec = s, tv_usec = u \<rparr>)"

definition timer_greater :: "timeval \<Rightarrow> timeval \<Rightarrow> bool" where
  "timer_greater a b \<longleftrightarrow>
     (if tv_sec a = tv_sec b then sint (tv_usec a) > sint (tv_usec b) else sint (tv_sec a) > sint (tv_sec b))"

definition timer_ge :: "timeval \<Rightarrow> timeval \<Rightarrow> bool" where
  "timer_ge a b \<longleftrightarrow>
     (if tv_sec a = tv_sec b then sint (tv_usec a) \<ge> sint (tv_usec b) else sint (tv_sec a) \<ge> sint (tv_sec b))"

text \<open>A time in milliseconds, and back.\<close>

definition of_ms :: "int \<Rightarrow> timeval" where
  "of_ms t = \<lparr> tv_sec = of_int (t sdiv 1000), tv_usec = of_int ((t smod 1000) * 1000) \<rparr>"

definition to_ms :: "timeval \<Rightarrow> int" where
  "to_ms t = signed_take_bit 31 (sint (tv_sec t) * 1000 + sint (tv_usec t) sdiv 1000)"

subsection \<open>Transactions and clients\<close>

record APP_TRANSACTION =
  Addr :: u8
  Request :: u8
  TransactionNumber :: u32
  CreationTimeStamp :: timeval
  PrimaryReceiptTimeStamp :: timeval
  PrimaryTimeStamp :: timeval
  CompletionTimeStamp :: timeval

record CLIENT =
  client_Addr :: u8
  client_Nr :: u8
  client_Ns :: u8

text \<open>
  The structure as the bytes that \<open>memcpy\<close> moves, 80 of them: two bytes of padding before the
  number, eight for \<open>pNext\<close> at the end.
\<close>

definition bytes4 :: "u32 \<Rightarrow> u8 list" where
  "bytes4 v = map (\<lambda>k. ucast (drop_bit (8 * k) v)) [0..<4]"

definition bytes8 :: "u64 \<Rightarrow> u8 list" where
  "bytes8 v = map (\<lambda>k. ucast (drop_bit (8 * k) v)) [0..<8]"

definition word4 :: "u8 list \<Rightarrow> u32" where
  "word4 bs = foldr (\<lambda>b v. ucast b OR push_bit 8 v) (take 4 bs) 0"

definition word8 :: "u8 list \<Rightarrow> u64" where
  "word8 bs = foldr (\<lambda>b v. ucast b OR push_bit 8 v) (take 8 bs) 0"

definition time_bytes :: "timeval \<Rightarrow> u8 list" where
  "time_bytes t = bytes8 (tv_sec t) @ bytes8 (tv_usec t)"

definition time_at :: "nat \<Rightarrow> u8 list \<Rightarrow> timeval" where
  "time_at k bs = \<lparr> tv_sec = word8 (drop k bs), tv_usec = word8 (drop (k + 8) bs) \<rparr>"

abbreviation (input) TRANSACTION_SIZE :: nat where "TRANSACTION_SIZE \<equiv> 80"

definition transaction_bytes :: "APP_TRANSACTION \<Rightarrow> nat \<Rightarrow> u8 list" where
  "transaction_bytes t p =
     [Addr t, Request t, 0, 0] @ bytes4 (TransactionNumber t) @ time_bytes (CreationTimeStamp t) @
     time_bytes (PrimaryReceiptTimeStamp t) @ time_bytes (PrimaryTimeStamp t) @ time_bytes (CompletionTimeStamp t) @
     bytes8 (of_nat p)"

definition transaction_at :: "u8 list \<Rightarrow> APP_TRANSACTION" where
  "transaction_at bs =
     \<lparr> Addr = bs ! 0, Request = bs ! 1, TransactionNumber = word4 (drop 4 bs), CreationTimeStamp = time_at 8 bs,
       PrimaryReceiptTimeStamp = time_at 24 bs, PrimaryTimeStamp = time_at 40 bs, CompletionTimeStamp = time_at 56 bs \<rparr>"

subsection \<open>Calls of the host\<close>

datatype signal = SIGALRM | SIGINT

record termios =
  t_iflag :: u32
  t_oflag :: u32
  t_cflag :: u32
  t_lflag :: u32
  t_vmin :: u8
  t_vtime :: u8

datatype hostcall =
    Open_port string | Close_port int | Tiocgetd | Tiocsetd int | Tcgetattr | Tcsetattr termios | Set_blocking
  | Sigaction signal | Setitimer
  | Sparams R56_PARAMS | Stxidle u32 | Txenable bool | Rxenable bool | Looptxdone | Gstats
  | Select_read timeval | Select_write timeval | Select_sleep | Read_port nat | Write_port "u8 list"
  | Tcdrain | Gettimeofday | Malloc | Free nat

record host =
  ret :: "hostcall list \<Rightarrow> int"
  errno :: "hostcall list \<Rightarrow> int"
  time_of_day :: "hostcall list \<Rightarrow> timeval"
  time_left :: "hostcall list \<Rightarrow> timeval"
  received :: "hostcall list \<Rightarrow> u8 list"
  port_disc :: "hostcall list \<Rightarrow> int"
  port_termios :: "hostcall list \<Rightarrow> termios"
  port_stats :: "hostcall list \<Rightarrow> r56_icount"
  signals :: "hostcall list \<Rightarrow> signal list"

abbreviation (input) EINTR_errno :: int where "EINTR_errno \<equiv> 4"

subsection \<open>The state of a station\<close>

text \<open>The handler that \<open>sigaction\<close> has installed: the one of \<open>primary.c\<close> or of \<open>secondary.c\<close>.\<close>

datatype handler = No_handler | Primary_handler | Secondary_handler

text \<open>
  The blocks that \<open>malloc\<close> gives for the transaction lists: contents and \<open>pNext\<close>, by address; 0 is NULL.
  Addresses are used once.
\<close>

type_synonym 'a store = "nat \<Rightarrow> ('a \<times> nat) option"

record 'a APP_DATA =
  PortName :: string
  hDevice :: int
  bExitApplication :: int
  RxTimeout :: u32
  TxTimeout :: u32
  PollInterval :: u32
  NewTransactionInterval :: u32
  bPrimary :: int
  TxIdle :: u32
  Rt56Params :: R56_PARAMS
  pTxBuffer :: "u8 list option"
  TxBufferSize :: nat
  pRxBuffer :: "u8 list option"
  Timers :: "u32 list"
  ElapsedMS :: u32
  ReceiveCount :: u8
  SendCount :: u8
  bInitialized :: bool
  NumTransactions :: u32
  ShowedLimitHitMessage :: bool
  LastTransactionNumber :: u32
  NumQueuedTransactions :: int
  pQueuedTransactionList :: nat
  pLastQueuedTransactionList :: nat
  NumPendingTransactions :: int
  pPendingTransactionList :: nat
  pLastPendingTransactionList :: nat
  pClientList :: "CLIENT list"
  last_stats :: r56_icount
  app_stats :: r56_icount
  store :: "'a store"
  next_free :: nat
  old_disc :: int
  oldterm :: termios
  installed :: handler
  host :: host
  hostlog :: "hostcall list"

definition zero_termios :: termios where
  "zero_termios = \<lparr> t_iflag = 0, t_oflag = 0, t_cflag = 0, t_lflag = 0, t_vmin = 0, t_vtime = 0 \<rparr>"

text \<open>\<open>memset(pAppData, 0, ...)\<close> at the start of the program.\<close>

definition zero_app :: "host \<Rightarrow> 'a APP_DATA" where
  "zero_app h =
     \<lparr> PortName = [], hDevice = 0, bExitApplication = 0, RxTimeout = 0, TxTimeout = 0, PollInterval = 0,
       NewTransactionInterval = 0, bPrimary = 0, TxIdle = 0, Rt56Params = zero_params, pTxBuffer = None, TxBufferSize = 0,
       pRxBuffer = None, Timers = replicate 5 0, ElapsedMS = 0, ReceiveCount = 0, SendCount = 0, bInitialized = False,
       NumTransactions = 0, ShowedLimitHitMessage = False, LastTransactionNumber = 0, NumQueuedTransactions = 0,
       pQueuedTransactionList = 0, pLastQueuedTransactionList = 0, NumPendingTransactions = 0,
       pPendingTransactionList = 0, pLastPendingTransactionList = 0, pClientList = [], last_stats = zero_icount,
       app_stats = zero_icount, store = Map.empty, next_free = 1, old_disc = 0, oldterm = zero_termios,
       installed = No_handler, host = h, hostlog = [] \<rparr>"

subsection \<open>Signals\<close>

definition log_call :: "hostcall \<Rightarrow> 'a APP_DATA \<Rightarrow> 'a APP_DATA" where
  "log_call c a = a\<lparr> hostlog := hostlog a @ [c] \<rparr>"

text \<open>The timers count down once a second.\<close>

definition tick :: "'a APP_DATA \<Rightarrow> 'a APP_DATA" where
  "tick a =
    (let a = a\<lparr> ElapsedMS := ElapsedMS a + 100 \<rparr>
     in if ElapsedMS a mod 1000 = 0 then a\<lparr> Timers := map (\<lambda>t. if t \<noteq> 0 then t - 1 else t) (Timers a) \<rparr> else a)"

text \<open>The counters that the primary station shows when they change; their last values.\<close>

definition note_stats :: "r56_icount \<Rightarrow> r56_icount \<Rightarrow> r56_icount" where
  "note_stats new old =
     old\<lparr> ic_txunder := ic_txunder new, ic_txabort := ic_txabort new, ic_txtimeout := ic_txtimeout new,
          ic_rxshort := ic_rxshort new, ic_rxlong := ic_rxlong new, ic_rxabort := ic_rxabort new,
          ic_rxover := ic_rxover new, ic_rxcrc := ic_rxcrc new, ic_rxidle := ic_rxidle new \<rparr>"

definition get_stats :: "'a APP_DATA \<Rightarrow> int \<times> 'a APP_DATA" where
  "get_stats a =
    (let a = log_call Gstats a; rc = ret (host a) (hostlog a)
     in (rc, if rc < 0 then a else a\<lparr> app_stats := port_stats (host a) (hostlog a) \<rparr>))"

definition primary_signal_handler :: "signal \<Rightarrow> 'a APP_DATA \<Rightarrow> 'a APP_DATA" where
  "primary_signal_handler s a =
    (case s of
       SIGALRM \<Rightarrow>
         (let (rc, a) = get_stats (tick a)
          in if rc = 0 then a\<lparr> last_stats := note_stats (app_stats a) (last_stats a) \<rparr> else a)
     | SIGINT \<Rightarrow> a\<lparr> bExitApplication := bExitApplication a + 1 \<rparr>)"

definition secondary_signal_handler :: "signal \<Rightarrow> 'a APP_DATA \<Rightarrow> 'a APP_DATA" where
  "secondary_signal_handler s a =
    (case s of SIGALRM \<Rightarrow> tick a | SIGINT \<Rightarrow> a\<lparr> bExitApplication := bExitApplication a + 1 \<rparr>)"

definition deliver :: "signal list \<Rightarrow> 'a APP_DATA \<Rightarrow> 'a APP_DATA" where
  "deliver ss a =
    (case installed a of
       No_handler \<Rightarrow> a
     | Primary_handler \<Rightarrow> fold primary_signal_handler ss a
     | Secondary_handler \<Rightarrow> fold secondary_signal_handler ss a)"

text \<open>A call: its return value, its error number, and the state after it.\<close>

definition call :: "hostcall \<Rightarrow> 'a APP_DATA \<Rightarrow> int \<times> int \<times> 'a APP_DATA" where
  "call c a =
    (let a = log_call c a
     in (ret (host a) (hostlog a), errno (host a) (hostlog a), deliver (signals (host a) (hostlog a)) a))"

definition call_only :: "hostcall \<Rightarrow> 'a APP_DATA \<Rightarrow> 'a APP_DATA" where
  "call_only c a = (let (_, _, a) = call c a in a)"

definition gettimeofday :: "'a APP_DATA \<Rightarrow> timeval \<times> 'a APP_DATA" where
  "gettimeofday a = (time_of_day (host a) (hostlog a @ [Gettimeofday]), call_only Gettimeofday a)"

definition Rt56GetStats :: "'a APP_DATA \<Rightarrow> int \<times> 'a APP_DATA" where
  "Rt56GetStats a =
    (let (rc, _, b) = call Gstats a
     in (rc, if rc < 0 then b else b\<lparr> app_stats := port_stats (host a) (hostlog a @ [Gstats]) \<rparr>))"

subsection \<open>Resources\<close>

abbreviation (input) MAX_IFRAME_SIZE :: nat where "MAX_IFRAME_SIZE \<equiv> 4096"

text \<open>A buffer of the frame size; its first contents are \<open>fill\<close>.\<close>

definition AllocateResources :: "u8 \<Rightarrow> 'a APP_DATA \<Rightarrow> bool \<times> 'a APP_DATA" where
  "AllocateResources fill a =
    (let (t, _, a) = call Malloc a;
         a = a\<lparr> pTxBuffer := (if t = 0 then None else Some (replicate MAX_IFRAME_SIZE fill)) \<rparr>;
         (r, _, a) = call Malloc a;
         a = a\<lparr> pRxBuffer := (if r = 0 then None else Some (replicate MAX_IFRAME_SIZE fill)) \<rparr>
     in (pTxBuffer a \<noteq> None \<and> pRxBuffer a \<noteq> None, a))"

definition DeallocateResources :: "'a APP_DATA \<Rightarrow> bool \<times> 'a APP_DATA" where
  "DeallocateResources a =
    (let a = (if pTxBuffer a \<noteq> None then (call_only (Free 0) a)\<lparr> pTxBuffer := None \<rparr> else a);
         a = (if pRxBuffer a \<noteq> None then (call_only (Free 0) a)\<lparr> pRxBuffer := None \<rparr> else a)
     in (True, a))"

definition SetParams :: "'a APP_DATA \<Rightarrow> bool \<times> 'a APP_DATA" where
  "SetParams a = (let (rc, _, a) = call (Sparams (Rt56Params a)) a in (rc = 0, a))"

text \<open>The terminal settings: raw input and output, 9600 bits per second, no automatic modem control.\<close>

abbreviation (input) N_HDLC :: int where "N_HDLC \<equiv> 13"
abbreviation (input) lflag_off :: u32 where "lflag_off \<equiv> 0x82cb"
abbreviation (input) oflag_off :: u32 where "oflag_off \<equiv> 0x3f"
abbreviation (input) iflag_off :: u32 where "iflag_off \<equiv> 0x17b0"
abbreviation (input) HUPCL_CRTSCTS :: u32 where "HUPCL_CRTSCTS \<equiv> 0x80000400"
abbreviation (input) CLOCAL_CREAD :: u32 where "CLOCAL_CREAD \<equiv> 0x880"
abbreviation (input) B9600 :: u32 where "B9600 \<equiv> 0xd"

definition raw_termios :: "termios \<Rightarrow> termios" where
  "raw_termios t =
     t\<lparr> t_lflag := t_lflag t AND NOT lflag_off, t_oflag := t_oflag t AND NOT oflag_off,
        t_iflag := t_iflag t AND NOT iflag_off,
        t_cflag := ((t_cflag t AND NOT CBAUD) OR B9600) AND NOT HUPCL_CRTSCTS OR CLOCAL_CREAD,
        t_vmin := 1, t_vtime := 0 \<rparr>"

definition same_flags :: "termios \<Rightarrow> termios \<Rightarrow> bool" where
  "same_flags s t \<longleftrightarrow> t_iflag s = t_iflag t \<and> t_oflag s = t_oflag t \<and> t_lflag s = t_lflag t \<and> t_cflag s = t_cflag t"

text \<open>The label \<open>Rt56OpenError\<close>.\<close>

definition open_error :: "'a APP_DATA \<Rightarrow> int \<times> 'a APP_DATA" where
  "open_error a = (0, call_only (Close_port (hDevice a)) a)"

definition tcgetattr :: "'a APP_DATA \<Rightarrow> termios \<times> 'a APP_DATA" where
  "tcgetattr a = (port_termios (host a) (hostlog a @ [Tcgetattr]), call_only Tcgetattr a)"

text \<open>The result is an integer: TRUE, FALSE, or the error number of \<open>open\<close>.\<close>

definition AllocatePort :: "'a APP_DATA \<Rightarrow> int \<times> 'a APP_DATA" where
  "AllocatePort a =
    (let (fd, e, a) = call (Open_port (PortName a)) a;
         a = a\<lparr> hDevice := fd \<rparr>
     in if fd < 0 then (e, a)
        else let disc = port_disc (host a) (hostlog a @ [Tiocgetd]);
                 (rc, _, a) = call Tiocgetd a
             in if rc < 0 then open_error a
                else let a = a\<lparr> old_disc := disc \<rparr>;
                         (rc, _, a) = call (Tiocsetd N_HDLC) a
                     in if rc < 0 then open_error a
                        else let (t, a) = tcgetattr a;
                                 a = a\<lparr> oldterm := t \<rparr>;
                                 a = call_only (Tcsetattr (raw_termios t)) a;
                                 (test, a) = tcgetattr a
                             in if \<not> same_flags test (raw_termios t) then open_error a
                                else let (ok, a) = SetParams (call_only Set_blocking a)
                                     in if \<not> ok then open_error a else (1, a))"

definition DeallocatePort :: "'a APP_DATA \<Rightarrow> bool \<times> 'a APP_DATA" where
  "DeallocatePort a =
    (if hDevice a \<noteq> - 1
     then let a = call_only (Tcsetattr (oldterm a)) a;
              (rc, _, a) = call (Tiocsetd (old_disc a)) a
          in (rc = 0, (call_only (Close_port (hDevice a)) a)\<lparr> hDevice := - 1 \<rparr>)
     else (True, a))"

definition EnableTransmitter :: "bool \<Rightarrow> 'a APP_DATA \<Rightarrow> bool \<times> 'a APP_DATA" where
  "EnableTransmitter on a = (let (rc, _, a) = call (Txenable on) a in (rc = 0, a))"

definition EnableReceiver :: "bool \<Rightarrow> 'a APP_DATA \<Rightarrow> bool \<times> 'a APP_DATA" where
  "EnableReceiver on a = (let (rc, _, a) = call (Rxenable on) a in (\<not> rc < 0, a))"

definition SetIdle :: "u32 \<Rightarrow> 'a APP_DATA \<Rightarrow> bool \<times> 'a APP_DATA" where
  "SetIdle m a = (let (rc, _, a) = call (Stxidle m) a in (rc = 0, a))"

definition CheckUserExitRequest :: "'a APP_DATA \<Rightarrow> bool" where
  "CheckUserExitRequest a \<longleftrightarrow> bExitApplication a \<noteq> 0"

definition ResetUserExitRequest :: "'a APP_DATA \<Rightarrow> 'a APP_DATA" where
  "ResetUserExitRequest a = a\<lparr> bExitApplication := 0 \<rparr>"

subsection \<open>Reading and writing with a time limit\<close>

text \<open>
  An interrupted wait: the time that has passed since \<open>tvstart\<close>; when the limit is reached, or the user wants to
  leave, the wait is over, otherwise it goes on for the rest of the time.
\<close>

definition after_interrupt :: "timeval \<Rightarrow> timeval \<Rightarrow> 'a APP_DATA \<Rightarrow> bool \<times> timeval \<times> 'a APP_DATA" where
  "after_interrupt tvorig tvstart a =
    (let (tvcur, a) = gettimeofday a;
         tv = timersub tvcur tvstart
     in if timer_ge tv tvorig \<or> bExitApplication a \<noteq> 0 then (True, tv, a) else (False, timersub tvorig tv, a))"

text \<open>The loop around \<open>select\<close> in \<open>write_timed\<close>: it looks at the time after every failure.\<close>

partial_function (option) select_write ::
  "timeval \<Rightarrow> timeval \<Rightarrow> timeval \<Rightarrow> 'a APP_DATA \<Rightarrow> (int \<times> timeval \<times> 'a APP_DATA) option" where
  [code]: "select_write tvorig tvstart tv a =
    (let left = time_left (host a) (hostlog a @ [Select_write tv]);
         (rc, e, a) = call (Select_write tv) a
     in if rc < 0
        then let (over, tv, a) = after_interrupt tvorig tvstart a
             in if over then Some (0, tv, a)
                else if e = EINTR_errno then select_write tvorig tvstart tv a
                else Some (rc, tv, a)
        else Some (rc, left, a))"

text \<open>The label \<open>doagain\<close>.\<close>

partial_function (option) write_again ::
  "timeval \<Rightarrow> timeval \<Rightarrow> u8 list \<Rightarrow> timeval \<Rightarrow> 'a APP_DATA \<Rightarrow> (int \<times> 'a APP_DATA) option" where
  [code]: "write_again tvorig tvstart buf tv a =
    do { (rc, tv, a) \<leftarrow> select_write tvorig tvstart tv a;
         if rc > 0
         then let (rc, _, a) = call (Write_port buf) a
              in if rc = 0 then write_again tvorig tvstart buf tv a else Some (rc, a)
         else Some (rc, a) }"

definition write_timed :: "u8 list \<Rightarrow> int \<Rightarrow> 'a APP_DATA \<Rightarrow> (int \<times> 'a APP_DATA) option" where
  "write_timed buf t a =
    (let tvorig = of_ms t; (tvstart, a) = gettimeofday a in write_again tvorig tvstart buf tvorig a)"

text \<open>The loop in \<open>read_timed\<close> looks at the time only after an interruption.\<close>

partial_function (option) select_read ::
  "timeval \<Rightarrow> timeval \<Rightarrow> timeval \<Rightarrow> 'a APP_DATA \<Rightarrow> (int \<times> 'a APP_DATA) option" where
  [code]: "select_read tvorig tvstart tv a =
    (let (rc, e, a) = call (Select_read tv) a
     in if rc < 0 \<and> e = EINTR_errno
        then let (over, tv, a) = after_interrupt tvorig tvstart a
             in if over then Some (0, a) else select_read tvorig tvstart tv a
        else Some (rc, a))"

text \<open>\<open>read\<close> puts its bytes at the start of the receive buffer.\<close>

definition read_port :: "'a APP_DATA \<Rightarrow> (int \<times> 'a APP_DATA) option" where
  "read_port a =
    (let bs = take MAX_IFRAME_SIZE (received (host a) (hostlog a @ [Read_port MAX_IFRAME_SIZE]));
         (rc, _, a) = call (Read_port MAX_IFRAME_SIZE) a
     in if rc > 0
        then do { buf \<leftarrow> pRxBuffer a;
                  Some (rc, a\<lparr> pRxBuffer := Some (take (nat rc) bs @ drop (length (take (nat rc) bs)) buf) \<rparr>) }
        else Some (rc, a))"

definition read_timed :: "int \<Rightarrow> 'a APP_DATA \<Rightarrow> (int \<times> 'a APP_DATA) option" where
  "read_timed t a =
    (let tvorig = of_ms t; (tvstart, a) = gettimeofday a
     in do { (rc, a) \<leftarrow> select_read tvorig tvstart tvorig a;
             if rc > 0 then read_port a else Some (rc, a) })"

text \<open>The loop around \<open>tcdrain\<close>.\<close>

partial_function (option) drain_loop :: "timeval \<Rightarrow> timeval \<Rightarrow> 'a APP_DATA \<Rightarrow> (int \<times> 'a APP_DATA) option" where
  [code]: "drain_loop tvorig tvstart a =
    (let (rc, e, a) = call Tcdrain a
     in if rc < 0 \<and> e = EINTR_errno
        then let (over, tv, a) = after_interrupt tvorig tvstart a
             in if over then Some (EINTR_errno, a) else drain_loop tvorig tvstart a
        else Some (rc, a))"

definition wait_all_sent :: "int \<Rightarrow> 'a APP_DATA \<Rightarrow> (int \<times> 'a APP_DATA) option" where
  "wait_all_sent t a = (let tvorig = of_ms t; (tvstart, a) = gettimeofday a in drain_loop tvorig tvstart a)"

subsection \<open>Frames\<close>

text \<open>The frame in the transmit buffer, and \<open>pTxBuffer[TxBufferSize++] = b\<close>.\<close>

definition tx_frame :: "'a APP_DATA \<Rightarrow> u8 list" where
  "tx_frame a = (case pTxBuffer a of None \<Rightarrow> [] | Some buf \<Rightarrow> take (TxBufferSize a) buf)"

definition start_frame :: "'a APP_DATA \<Rightarrow> 'a APP_DATA" where
  "start_frame a = a\<lparr> TxBufferSize := 0 \<rparr>"

definition put_bytes :: "u8 list \<Rightarrow> 'a APP_DATA \<Rightarrow> 'a APP_DATA option" where
  "put_bytes bs a =
    do { buf \<leftarrow> pTxBuffer a;
         if TxBufferSize a + length bs \<le> length buf
         then Some (a\<lparr> pTxBuffer := Some (take (TxBufferSize a) buf @ bs @ drop (TxBufferSize a + length bs) buf),
                       TxBufferSize := TxBufferSize a + length bs \<rparr>)
         else None }"

definition SendFrame :: "'a APP_DATA \<Rightarrow> (bool \<times> 'a APP_DATA) option" where
  "SendFrame a = do { (rc, a) \<leftarrow> write_timed (tx_frame a) (sint (TxTimeout a)) a; Some (rc > 0, a) }"

definition LoopModeSendLastFrame :: "'a APP_DATA \<Rightarrow> (bool \<times> 'a APP_DATA) option" where
  "LoopModeSendLastFrame a = do { (sent, a) \<leftarrow> SendFrame a; Some (sent, call_only Looptxdone a) }"

text \<open>
  \<open>CheckReceive\<close>: frames are handed to the callback, which says whether to go on, until the time is over.
  The primary station leaves out the broadcast frames that come back to it.
\<close>

abbreviation (input) BROADCAST_ADDR :: u8 where "BROADCAST_ADDR \<equiv> 0xff"

type_synonym 'a callback = "nat \<Rightarrow> 'a APP_DATA \<Rightarrow> (bool \<times> 'a APP_DATA) option"

partial_function (option) receive_loop ::
  "'a callback \<Rightarrow> timeval \<Rightarrow> timeval \<Rightarrow> timeval \<Rightarrow> 'a APP_DATA \<Rightarrow> (bool \<times> 'a APP_DATA) option" where
  [code]: "receive_loop RxCallback tvorig tvstart tv a =
    do { (rc, a) \<leftarrow> read_timed (to_ms tv) a;
         if rc < 0 then Some (False, a)
         else if rc = 0 then Some (True, a)
         else do { buf \<leftarrow> pRxBuffer a;
                   addr \<leftarrow> aget buf 0;
                   (go, a) \<leftarrow> (if bPrimary a = 0 \<or> addr \<noteq> BROADCAST_ADDR then RxCallback (nat rc) a else Some (True, a));
                   if \<not> go then Some (False, a)
                   else let (tvcur, a) = gettimeofday a;
                            tv = timersub tvcur tvstart
                        in if timer_greater tv tvorig then Some (True, a)
                           else receive_loop RxCallback tvorig tvstart (timersub tvorig tv) a } }"

definition CheckReceive :: "u32 \<Rightarrow> 'a callback \<Rightarrow> 'a APP_DATA \<Rightarrow> (bool \<times> 'a APP_DATA) option" where
  "CheckReceive t RxCallback a =
    (let tvorig = \<lparr> tv_sec = ucast (t div 1000), tv_usec = ucast ((t mod 1000) * 1000) \<rparr>;
         (tvstart, a) = gettimeofday a
     in receive_loop RxCallback tvorig tvstart tvorig a)"

end
