(* ===== verification/R56_Profile.thy ===== *)
theory R56_Profile
  imports R56_Sample
begin

text \<open>
  The reader of the configuration profile, \<open>examples/sample-loopmode/profile.c\<close>: lines
  \<open>key = value\<close>, kept in memory and searched for each setting.

  A run can leave the C language, by an access outside a buffer or by freeing what \<open>malloc\<close> has not given
  (\<open>Undefined\<close>), or stop at an assertion (\<open>Aborted\<close>).
\<close>

datatype stop = Undefined | Aborted

subsection \<open>Tables\<close>

definition ProfileModes :: "(string \<times> u32) list" where
  "ProfileModes = [(''R56_MODE_HDLC'', ucast R56_MODE_HDLC), (''R56_MODE_ASYNC'', ucast R56_MODE_ASYNC)]"

definition ProfileEncoding :: "(string \<times> u32) list" where
  "ProfileEncoding =
    [(''HDLC_ENCODING_NRZ'', ucast HDLC_ENCODING_NRZ), (''HDLC_ENCODING_NRZB'', ucast HDLC_ENCODING_NRZB),
     (''HDLC_ENCODING_NRZI'', ucast HDLC_ENCODING_NRZI_SPACE),
     (''HDLC_ENCODING_NRZI_MARK'', ucast HDLC_ENCODING_NRZI_MARK),
     (''HDLC_ENCODING_NRZI_SPACE'', ucast HDLC_ENCODING_NRZI_SPACE),
     (''HDLC_ENCODING_BIPHASE_MARK'', ucast HDLC_ENCODING_BIPHASE_MARK),
     (''HDLC_ENCODING_BIPHASE_SPACE'', ucast HDLC_ENCODING_BIPHASE_SPACE),
     (''HDLC_ENCODING_BIPHASE_LEVEL'', ucast HDLC_ENCODING_BIPHASE_LEVEL),
     (''HDLC_ENCODING_DIFF_BIPHASE_LEVEL'', ucast HDLC_ENCODING_DIFF_BIPHASE_LEVEL)]"

definition ProfileCrcTypes :: "(string \<times> u32) list" where
  "ProfileCrcTypes = [(''HDLC_CRC_NONE'', ucast HDLC_CRC_NONE), (''HDLC_CRC_16_CCITT'', ucast HDLC_CRC_16_CCITT)]"

definition ProfilePreambleLengths :: "(string \<times> u32) list" where
  "ProfilePreambleLengths =
    [(''HDLC_PREAMBLE_LENGTH_8BITS'', ucast HDLC_PREAMBLE_LENGTH_8BITS),
     (''HDLC_PREAMBLE_LENGTH_16BITS'', ucast HDLC_PREAMBLE_LENGTH_16BITS),
     (''HDLC_PREAMBLE_LENGTH_32BITS'', ucast HDLC_PREAMBLE_LENGTH_32BITS),
     (''HDLC_PREAMBLE_LENGTH_64BITS'', ucast HDLC_PREAMBLE_LENGTH_64BITS)]"

definition ProfilePreamblePatterns :: "(string \<times> u32) list" where
  "ProfilePreamblePatterns =
    [(''HDLC_PREAMBLE_PATTERN_NONE'', ucast HDLC_PREAMBLE_PATTERN_NONE),
     (''HDLC_PREAMBLE_PATTERN_ZEROS'', ucast HDLC_PREAMBLE_PATTERN_ZEROS),
     (''HDLC_PREAMBLE_PATTERN_FLAGS'', ucast HDLC_PREAMBLE_PATTERN_FLAGS),
     (''HDLC_PREAMBLE_PATTERN_10'', ucast HDLC_PREAMBLE_PATTERN_10),
     (''HDLC_PREAMBLE_PATTERN_01'', ucast HDLC_PREAMBLE_PATTERN_01)]"

definition ProfileParity :: "(string \<times> u32) list" where
  "ProfileParity =
    [(''ASYNC_PARITY_NONE'', ucast ASYNC_PARITY_NONE), (''ASYNC_PARITY_EVEN'', ucast ASYNC_PARITY_EVEN),
     (''ASYNC_PARITY_ODD'', ucast ASYNC_PARITY_ODD)]"

definition ProfileTxIdles :: "(string \<times> u32) list" where
  "ProfileTxIdles =
    [(''HDLC_TXIDLE_FLAGS'', HDLC_TXIDLE_FLAGS), (''HDLC_TXIDLE_ALT_ZEROS_ONES'', HDLC_TXIDLE_ALT_ZEROS_ONES),
     (''HDLC_TXIDLE_ZEROS'', HDLC_TXIDLE_ZEROS), (''HDLC_TXIDLE_ONES'', HDLC_TXIDLE_ONES),
     (''HDLC_TXIDLE_ALT_MARK_SPACE'', HDLC_TXIDLE_ALT_MARK_SPACE), (''HDLC_TXIDLE_SPACE'', HDLC_TXIDLE_SPACE),
     (''HDLC_TXIDLE_MARK'', HDLC_TXIDLE_MARK)]"

abbreviation (input) UNDERRUN_FLAGS :: u16 where
  "UNDERRUN_FLAGS \<equiv> HDLC_FLAG_UNDERRUN_ABORT7 OR HDLC_FLAG_UNDERRUN_ABORT15 OR HDLC_FLAG_UNDERRUN_FLAG OR HDLC_FLAG_UNDERRUN_CRC"

abbreviation (input) RXC_FLAGS :: u16 where
  "RXC_FLAGS \<equiv> HDLC_FLAG_RXC_DPLL OR HDLC_FLAG_RXC_BRG OR HDLC_FLAG_RXC_TXCPIN OR HDLC_FLAG_RXC_RXCPIN"

abbreviation (input) TXC_FLAGS :: u16 where
  "TXC_FLAGS \<equiv> HDLC_FLAG_TXC_DPLL OR HDLC_FLAG_TXC_BRG OR HDLC_FLAG_TXC_TXCPIN OR HDLC_FLAG_TXC_RXCPIN"

abbreviation (input) DPLL_FLAGS :: u16 where
  "DPLL_FLAGS \<equiv> HDLC_FLAG_DPLL_DIV8 OR HDLC_FLAG_DPLL_DIV16 OR HDLC_FLAG_DPLL_DIV32"

text \<open>The name of an option, the bits to clear, the bits to set.\<close>

definition ProfileFlags :: "(string \<times> u16 \<times> u16) list" where
  "ProfileFlags =
    [(''HDLC_FLAG_SHARE_ZERO'', 0, HDLC_FLAG_SHARE_ZERO), (''HDLC_FLAG_AUTO_CTS'', 0, HDLC_FLAG_AUTO_CTS),
     (''HDLC_FLAG_AUTO_DCD'', 0, HDLC_FLAG_AUTO_DCD), (''HDLC_FLAG_AUTO_RTS'', 0, HDLC_FLAG_AUTO_RTS),
     (''HDLC_FLAG_HDLC_LOOPMODE'', 0, HDLC_FLAG_HDLC_LOOPMODE),
     (''HDLC_FLAG_UNDERRUN_ABORT7'', UNDERRUN_FLAGS, HDLC_FLAG_UNDERRUN_ABORT7),
     (''HDLC_FLAG_UNDERRUN_ABORT15'', UNDERRUN_FLAGS, HDLC_FLAG_UNDERRUN_ABORT15),
     (''HDLC_FLAG_UNDERRUN_FLAG'', UNDERRUN_FLAGS, HDLC_FLAG_UNDERRUN_FLAG),
     (''HDLC_FLAG_UNDERRUN_CRC'', UNDERRUN_FLAGS, HDLC_FLAG_UNDERRUN_CRC),
     (''HDLC_FLAG_RXC_DPLL'', RXC_FLAGS, HDLC_FLAG_RXC_DPLL), (''HDLC_FLAG_RXC_BRG'', RXC_FLAGS, HDLC_FLAG_RXC_BRG),
     (''HDLC_FLAG_RXC_TXCPIN'', RXC_FLAGS, HDLC_FLAG_RXC_TXCPIN),
     (''HDLC_FLAG_RXC_RXCPIN'', RXC_FLAGS, HDLC_FLAG_RXC_RXCPIN),
     (''HDLC_FLAG_TXC_DPLL'', TXC_FLAGS, HDLC_FLAG_TXC_DPLL), (''HDLC_FLAG_TXC_BRG'', TXC_FLAGS, HDLC_FLAG_TXC_BRG),
     (''HDLC_FLAG_TXC_TXCPIN'', TXC_FLAGS, HDLC_FLAG_TXC_TXCPIN),
     (''HDLC_FLAG_TXC_RXCPIN'', TXC_FLAGS, HDLC_FLAG_TXC_RXCPIN),
     (''HDLC_FLAG_DPLL_DIV8'', DPLL_FLAGS, HDLC_FLAG_DPLL_DIV8),
     (''HDLC_FLAG_DPLL_DIV16'', DPLL_FLAGS, HDLC_FLAG_DPLL_DIV16),
     (''HDLC_FLAG_DPLL_DIV32'', DPLL_FLAGS, HDLC_FLAG_DPLL_DIV32)]"

subsection \<open>Reading the file\<close>

text \<open>The file and the memory: what the calls of the C library find.\<close>

record profile_file =
  exists :: bool
  content :: string
  read_fails :: bool
  realloc_ok :: "nat \<Rightarrow> bool"
  strdup_ok :: "nat \<Rightarrow> bool"

text \<open>The global variables; the array of entries has \<open>SizeProfileEntries\<close> slots.\<close>

record profile =
  NumProfileEntries :: nat
  SizeProfileEntries :: nat
  pProfileEntries :: "string option list option"

definition no_profile :: profile where
  "no_profile = \<lparr> NumProfileEntries = 0, SizeProfileEntries = 0, pProfileEntries = None \<rparr>"

abbreviation (input) LF :: char where "LF \<equiv> CHR 0x0A"
abbreviation (input) CR :: char where "CR \<equiv> CHR 0x0D"
abbreviation (input) NUL :: char where "NUL \<equiv> CHR 0x00"
abbreviation (input) TAB :: char where "TAB \<equiv> CHR 0x09"

text \<open>\<open>fgets\<close> with a buffer of \<open>n + 1\<close> bytes: what it reads and what is left.\<close>

fun fgets :: "nat \<Rightarrow> string \<Rightarrow> string \<times> string" where
  "fgets 0 s = ([], s)"
| "fgets (Suc n) [] = ([], [])"
| "fgets (Suc n) (c # s) = (if c = LF then ([c], s) else let (t, r) = fgets n s in (c # t, r))"

lemma fgets_length: "fgets n s = (t, r) \<Longrightarrow> length t + length r = length s"
  by (induction n s arbitrary: t r rule: fgets.induct) (auto split: if_splits prod.splits)

lemma fgets_shorter: "fgets n s = (t, r) \<Longrightarrow> t \<noteq> [] \<Longrightarrow> length r < length s"
  using fgets_length [of n s t r] by (cases t) auto

definition is_blank :: "char \<Rightarrow> bool" where
  "is_blank c \<longleftrightarrow> c = CHR '' '' \<or> c = TAB"

text \<open>
  The line as it is kept: without its end, and without white space before it. An empty line makes the
  code look at the byte before the buffer.
\<close>

definition strip_line :: "string \<Rightarrow> string option" where
  "strip_line s =
    (let t = takeWhile (\<lambda>c. c \<noteq> LF) s
     in if t = [] then None
        else Some (dropWhile is_blank (if last t = CR then butlast t else t)))"

text \<open>The array of the entries gets ten more slots when it is full.\<close>

definition enlarge :: "(nat \<Rightarrow> bool) \<Rightarrow> profile \<Rightarrow> bool \<times> profile" where
  "enlarge ok p =
    (if NumProfileEntries p = SizeProfileEntries p
     then let n = SizeProfileEntries p + 10;
              old = (case pProfileEntries p of None \<Rightarrow> [] | Some es \<Rightarrow> es)
          in if ok n
             then (True, p\<lparr> SizeProfileEntries := n, pProfileEntries := Some (old @ replicate 10 None) \<rparr>)
             else (False, p\<lparr> SizeProfileEntries := n \<rparr>)
     else (True, p))"

definition add_entry :: "string \<Rightarrow> profile \<Rightarrow> profile option" where
  "add_entry e p =
    do { es \<leftarrow> pProfileEntries p;
         es \<leftarrow> aset es (NumProfileEntries p) (Some e);
         Some (p\<lparr> pProfileEntries := Some es, NumProfileEntries := NumProfileEntries p + 1 \<rparr>) }"

text \<open>The loop over the lines.\<close>

function read_lines :: "(nat \<Rightarrow> bool) \<Rightarrow> (nat \<Rightarrow> bool) \<Rightarrow> string \<Rightarrow> bool \<Rightarrow> profile \<Rightarrow> stop + bool \<times> profile" where
  "read_lines rok sok text result p =
    (let (line, rest) = fgets 1023 text;
         input = takeWhile (\<lambda>c. c \<noteq> NUL) line
     in if line = [] then Inr (result, p)
        else if LF \<notin> set input then Inr (False, p)
        else case strip_line input of
               None \<Rightarrow> Inl Undefined
             | Some e \<Rightarrow>
                 if take 1 e = ''#'' then read_lines rok sok rest result p
                 else let (ok, p) = enlarge rok p;
                          result = (result \<and> ok)
                      in if \<not> sok (NumProfileEntries p) then (if add_entry e p = None then Inl Undefined else Inl Aborted)
                         else (case add_entry e p of
                                None \<Rightarrow> Inl Undefined
                              | Some p \<Rightarrow> read_lines rok sok rest result p))"
  by pat_completeness auto

termination
  by (relation "measure (\<lambda>(rok, sok, text, result, p). length text)") (auto dest: fgets_shorter [OF sym])

declare read_lines.simps [simp del]

text \<open>The array goes, the two counts stay.\<close>

definition FreeMemory :: "profile \<Rightarrow> profile" where
  "FreeMemory p = p\<lparr> pProfileEntries := None \<rparr>"

definition ReadProfile :: "profile_file \<Rightarrow> profile \<Rightarrow> stop + bool \<times> profile" where
  "ReadProfile f p =
    (if \<not> exists f then Inl Undefined
     else case read_lines (realloc_ok f) (strdup_ok f) (content f) True p of
            Inl e \<Rightarrow> Inl e
          | Inr (result, p) \<Rightarrow>
              let result = (result \<and> \<not> read_fails f)
              in Inr (result, if result then p else FreeMemory p))"

subsection \<open>Looking up a setting\<close>

definition to_lower :: "char \<Rightarrow> char" where
  "to_lower c = (if 65 \<le> (of_char c :: nat) \<and> (of_char c :: nat) \<le> 90 then char_of ((of_char c :: nat) + 32) else c)"

definition strcaseeq :: "string \<Rightarrow> string \<Rightarrow> bool" where
  "strcaseeq s t \<longleftrightarrow> map to_lower s = map to_lower t"

text \<open>The value of an entry, if it is one for the key.\<close>

definition entry_value :: "string \<Rightarrow> string \<Rightarrow> string option" where
  "entry_value key e =
    (if strcaseeq (take (length key) e) key
     then let p = dropWhile (\<lambda>c. c \<in> set (''[ '' @ [TAB] @ '']'')) (drop (length key) e)
          in if take 1 p = ''='' then Some (dropWhile is_blank (drop 1 p)) else None
     else None)"

text \<open>The loop over the entries, with the buffer of \<open>n\<close> bytes.\<close>

fun find_entries :: "nat \<Rightarrow> string \<Rightarrow> string option list \<Rightarrow> string \<Rightarrow> string option" where
  "find_entries n key [] buf = Some buf"
| "find_entries n key (e # es) buf =
     do { e \<leftarrow> e;
          case entry_value key e of
            None \<Rightarrow> find_entries n key es buf
          | Some v \<Rightarrow> if length v < n then find_entries n key es v else None }"

definition GetProfileString :: "profile \<Rightarrow> string \<Rightarrow> string \<Rightarrow> nat \<Rightarrow> string option" where
  "GetProfileString p key def n =
    (if NumProfileEntries p = 0 then Some def
     else do { es \<leftarrow> pProfileEntries p;
               if NumProfileEntries p \<le> length es then find_entries n key (take (NumProfileEntries p) es) def else None })"

definition GetProfileInt :: "profile \<Rightarrow> string \<Rightarrow> int \<Rightarrow> int option" where
  "GetProfileInt p key def =
    do { v \<leftarrow> GetProfileString p key [] 128;
         Some (if v = [] then def else case scan_number base_i v of Scan_val i _ \<Rightarrow> to_int i | _ \<Rightarrow> def) }"

text \<open>The first word of a value.\<close>

definition first_word :: "string \<Rightarrow> string" where
  "first_word v = takeWhile (\<lambda>c. \<not> is_blank c) (dropWhile is_blank v)"

definition GetProfileOption :: "profile \<Rightarrow> string \<Rightarrow> (string \<times> u32) list \<Rightarrow> u32 option option" where
  "GetProfileOption p key options =
    do { v \<leftarrow> GetProfileString p key [] 1024;
         Some (map_option snd (find (\<lambda>(name, _). strcaseeq (first_word v) name) options)) }"

text \<open>All words of a value.\<close>

function split_words :: "string \<Rightarrow> string list" where
  "split_words v =
    (let s = dropWhile is_blank v
     in if s = [] then []
        else takeWhile (\<lambda>c. \<not> is_blank c) s # split_words (dropWhile (\<lambda>c. \<not> is_blank c) s))"
  by pat_completeness auto

termination
proof (relation "measure length")
  fix v :: string and s
  assume s: "s = dropWhile is_blank v" "s \<noteq> []"
  then have "\<not> is_blank (hd s)" using hd_dropWhile [of is_blank v] by simp
  then obtain c cs where c: "s = c # cs" "\<not> is_blank c" using s(2) by (cases s) auto
  have "length (dropWhile (\<lambda>c. \<not> is_blank c) s) \<le> length cs" using c length_dropWhile_le [of _ cs] by simp
  also have "\<dots> < length s" by (simp add: c)
  also have "\<dots> \<le> length v" by (simp add: s(1) length_dropWhile_le)
  finally show "(dropWhile (\<lambda>c. \<not> is_blank c) s, v) \<in> measure length" by simp
qed simp

declare split_words.simps [simp del]

text \<open>The loop over the words: None for a word that is not in the table.\<close>

fun apply_flags :: "string list \<Rightarrow> (string \<times> u16 \<times> u16) list \<Rightarrow> u32 \<Rightarrow> u32 option" where
  "apply_flags [] table v = Some v"
| "apply_flags (w # ws) table v =
     (case find (\<lambda>(name, _). strcaseeq w name) table of
        None \<Rightarrow> None
      | Some (_, off, on) \<Rightarrow> apply_flags ws table ((v AND NOT (ucast off)) OR ucast on))"

definition GetProfileFlags :: "profile \<Rightarrow> string \<Rightarrow> (string \<times> u16 \<times> u16) list \<Rightarrow> u32 \<Rightarrow> u32 option option" where
  "GetProfileFlags p key table v0 =
    do { v \<leftarrow> GetProfileString p key [] 1024; Some (apply_flags (split_words v) table v0) }"

subsection \<open>The settings\<close>

type_synonym 'a parse_step = "profile \<Rightarrow> 'a APP_DATA \<Rightarrow> (bool \<times> 'a APP_DATA) option"

definition parse_int :: "string \<Rightarrow> int \<Rightarrow> (int \<Rightarrow> 'a APP_DATA \<Rightarrow> 'a APP_DATA) \<Rightarrow> 'a parse_step" where
  "parse_int key def upd p a = do { v \<leftarrow> GetProfileInt p key def; Some (True, upd v a) }"

definition parse_option :: "string \<Rightarrow> (string \<times> u32) list \<Rightarrow> (u32 \<Rightarrow> 'a APP_DATA \<Rightarrow> 'a APP_DATA) \<Rightarrow> 'a parse_step" where
  "parse_option key options upd p a =
    do { r \<leftarrow> GetProfileOption p key options;
         case r of None \<Rightarrow> Some (False, a) | Some v \<Rightarrow> Some (True, upd v a) }"

definition parse_flags :: "'a parse_step" where
  "parse_flags p a =
    do { r \<leftarrow> GetProfileFlags p ''Flags'' ProfileFlags 0;
         case r of None \<Rightarrow> Some (False, a) | Some v \<Rightarrow> Some (True, Rt56Params_update (flags_update (\<lambda>_. ucast v)) a) }"

text \<open>The name of the port has 20 bytes.\<close>

definition parse_port :: "'a parse_step" where
  "parse_port p a =
    do { v \<leftarrow> GetProfileString p ''Port'' [] 1024;
         if v = [] then Some (True, a)
         else if length v < 20 then Some (True, a\<lparr> PortName := v \<rparr>) else None }"

text \<open>The address is a hexadecimal number other than 0; a value without a number leaves the variable alone.\<close>

definition to_uint :: "int \<Rightarrow> u32" where
  "to_uint v = (if \<bar>v\<bar> < 2 ^ 64 then of_int v else - 1)"

definition parse_addr :: "'a parse_step" where
  "parse_addr p a =
    do { v \<leftarrow> GetProfileString p ''Addr'' [] 1024;
         case scan_number base_x v of
           Scan_val i _ \<Rightarrow>
             if to_uint i = 0 then Some (False, a)
             else Some (True, Rt56Params_update (addr_filter_update (\<lambda>_. ucast (to_uint i))) a)
         | _ \<Rightarrow> Some (False, a) }"

fun parse_steps :: "'a parse_step list \<Rightarrow> 'a parse_step" where
  "parse_steps [] p a = Some (True, a)"
| "parse_steps (f # fs) p a = do { (ok, a) \<leftarrow> f p a; if ok then parse_steps fs p a else Some (False, a) }"

definition parse_table :: "'a parse_step list" where
  "parse_table =
    [parse_int ''Primary'' 0 (\<lambda>v. bPrimary_update (\<lambda>_. v)),
     parse_int ''NumTransactions'' 0 (\<lambda>v. NumTransactions_update (\<lambda>_. of_int v)),
     parse_int ''NewTransactionInterval'' 2 (\<lambda>v. NewTransactionInterval_update (\<lambda>_. of_int v)),
     parse_int ''PollInterval'' 1 (\<lambda>v. PollInterval_update (\<lambda>_. of_int v)),
     parse_int ''RxTimeout'' 2000 (\<lambda>v. RxTimeout_update (\<lambda>_. of_int v)),
     parse_int ''TxTimeout'' 2000 (\<lambda>v. TxTimeout_update (\<lambda>_. of_int v)),
     parse_port,
     parse_int ''Loopback'' 0 (\<lambda>v. Rt56Params_update (loopback_update (\<lambda>_. of_int v))),
     parse_option ''Mode'' ProfileModes (\<lambda>v. Rt56Params_update (mode_update (\<lambda>_. ucast v))),
     parse_flags,
     parse_option ''Encoding'' ProfileEncoding (\<lambda>v. Rt56Params_update (encoding_update (\<lambda>_. ucast v))),
     parse_option ''TxIdle'' ProfileTxIdles (\<lambda>v. TxIdle_update (\<lambda>_. v)),
     parse_int ''ClockSpeed'' 9600 (\<lambda>v. Rt56Params_update (clock_speed_update (\<lambda>_. of_int v))),
     parse_addr,
     parse_option ''CrcType'' ProfileCrcTypes (\<lambda>v. Rt56Params_update (crc_type_update (\<lambda>_. ucast v))),
     parse_option ''PreambleLength'' ProfilePreambleLengths (\<lambda>v. Rt56Params_update (preamble_length_update (\<lambda>_. ucast v))),
     parse_option ''PreamblePattern'' ProfilePreamblePatterns (\<lambda>v. Rt56Params_update (preamble_update (\<lambda>_. ucast v))),
     parse_int ''DataRate'' 9600 (\<lambda>v. Rt56Params_update (data_rate_update (\<lambda>_. of_int v))),
     parse_int ''DataBits'' 8 (\<lambda>v. Rt56Params_update (data_bits_update (\<lambda>_. of_int v))),
     parse_int ''StopBits'' 1 (\<lambda>v. Rt56Params_update (stop_bits_update (\<lambda>_. of_int v))),
     parse_option ''Parity'' ProfileParity (\<lambda>v. Rt56Params_update (parity_update (\<lambda>_. ucast v)))]"

definition ParseProfile :: "'a parse_step" where
  "ParseProfile = parse_steps parse_table"

definition GetProfile :: "host \<Rightarrow> profile_file \<Rightarrow> profile \<Rightarrow> stop + bool \<times> 'a APP_DATA \<times> profile" where
  "GetProfile h f p =
    (case ReadProfile f p of
       Inl e \<Rightarrow> Inl e
     | Inr (False, p) \<Rightarrow> Inr (False, zero_app h, FreeMemory p)
     | Inr (True, p) \<Rightarrow>
         (case ParseProfile p (zero_app h) of
            None \<Rightarrow> Inl Undefined
          | Some (ok, a) \<Rightarrow> Inr (ok, a, FreeMemory p)))"

end
