(* ===== verification/R56_Profile_Read.thy ===== *)
theory R56_Profile_Read
  imports R56_Profile
begin

text \<open>
  What a profile says is what the program gets: the lines of a well-formed file are kept, a setting is found
  under its key, and a configuration that is written out is read back.
\<close>

subsection \<open>Lines\<close>

definition good_line :: "string \<Rightarrow> bool" where
  "good_line e \<longleftrightarrow>
     e \<noteq> [] \<and> length e \<le> 1022 \<and> LF \<notin> set e \<and> NUL \<notin> set e \<and> last e \<noteq> CR \<and> \<not> is_blank (hd e) \<and> hd e \<noteq> CHR ''#''"

definition lines_text :: "string list \<Rightarrow> string" where
  "lines_text es = concat (map (\<lambda>e. e @ [LF]) es)"

lemma fgets_line: "length e < n \<Longrightarrow> LF \<notin> set e \<Longrightarrow> fgets n (e @ LF # rest) = (e @ [LF], rest)"
proof (induction n "e @ LF # rest" arbitrary: e rule: fgets.induct)
  case (3 n c s)
  then show ?case by (cases e) auto
qed auto

lemma strip_good_line: "good_line e \<Longrightarrow> strip_line (e @ [LF]) = Some e"
proof -
  assume g: "good_line e"
  then have t: "takeWhile (\<lambda>c. c \<noteq> LF) (e @ [LF]) = e"
    by (subst takeWhile_append2) (auto simp: good_line_def)
  obtain c cs where "e = c # cs" "\<not> is_blank c" using g by (cases e) (auto simp: good_line_def)
  then have "dropWhile is_blank e = e" by simp
  then show ?thesis using g unfolding strip_line_def t by (simp add: good_line_def Let_def)
qed

text \<open>The entries that are stored.\<close>

definition holds :: "profile \<Rightarrow> string list \<Rightarrow> bool" where
  "holds p xs \<longleftrightarrow>
     NumProfileEntries p = length xs \<and>
     (case pProfileEntries p of
        None \<Rightarrow> xs = [] \<and> SizeProfileEntries p = 0
      | Some es \<Rightarrow> length es = SizeProfileEntries p \<and> length xs \<le> length es \<and> take (length xs) es = map Some xs)"

lemma holds_no_profile: "holds no_profile []"
  by (simp add: holds_def no_profile_def)

lemma holds_add:
  assumes "holds p xs"
  shows "\<exists>q r. enlarge (\<lambda>_. True) p = (True, q) \<and> add_entry e q = Some r \<and> holds r (xs @ [e])"
proof -
  obtain q es where q: "enlarge (\<lambda>_. True) p = (True, q)" "pProfileEntries q = Some es" "NumProfileEntries q = length xs"
    "length es = SizeProfileEntries q" "length xs < length es" "take (length xs) es = map Some xs"
  proof (cases "NumProfileEntries p = SizeProfileEntries p")
    case True
    show thesis
      by (rule that [of "snd (enlarge (\<lambda>_. True) p)" "(case pProfileEntries p of None \<Rightarrow> [] | Some es \<Rightarrow> es) @ replicate 10 None"])
        (use True assms in \<open>auto simp: enlarge_def holds_def split: option.splits\<close>)
  next
    case False
    then obtain es where "pProfileEntries p = Some es" using assms by (auto simp: holds_def split: option.splits)
    then show thesis using that [of p es] False assms by (auto simp: enlarge_def holds_def)
  qed
  then have "add_entry e q = Some (q\<lparr> pProfileEntries := Some (es[length xs := Some e]), NumProfileEntries := length xs + 1 \<rparr>)"
    by (simp add: add_entry_def aset_def)
  moreover have "take (Suc (length xs)) (es[length xs := Some e]) = map Some (xs @ [e])"
    using q(5,6) by (simp add: take_Suc_conv_app_nth)
  ultimately show ?thesis using q by (auto simp: holds_def)
qed

lemma read_good_line:
  assumes g: "good_line e" and h: "holds p xs"
  shows "\<exists>q. holds q (xs @ [e]) \<and>
    read_lines (\<lambda>_. True) (\<lambda>_. True) (e @ LF # rest) True p = read_lines (\<lambda>_. True) (\<lambda>_. True) rest True q"
proof -
  from holds_add [OF h] obtain q r where q: "enlarge (\<lambda>_. True) p = (True, q)" "add_entry e q = Some r" "holds r (xs @ [e])" by blast
  have f: "fgets 1023 (e @ LF # rest) = (e @ [LF], rest)" using g by (intro fgets_line) (auto simp: good_line_def)
  have i: "takeWhile (\<lambda>c. c \<noteq> NUL) (e @ [LF]) = e @ [LF]" using g by (auto simp: takeWhile_eq_all_conv good_line_def)
  obtain c cs where "e = c # cs" "c \<noteq> CHR ''#''" using g by (cases e) (auto simp: good_line_def)
  then have "take 1 e \<noteq> ''#''" by simp
  then have "read_lines (\<lambda>_. True) (\<lambda>_. True) (e @ LF # rest) True p = read_lines (\<lambda>_. True) (\<lambda>_. True) rest True r"
    using q strip_good_line [OF g] by (subst read_lines.simps) (simp add: f i Let_def)
  then show ?thesis using q(3) by blast
qed

lemma read_good_lines:
  "\<forall>e\<in>set es. good_line e \<Longrightarrow> holds p xs \<Longrightarrow> \<exists>q. holds q (xs @ es) \<and>
    read_lines (\<lambda>_. True) (\<lambda>_. True) (lines_text es @ rest) True p = read_lines (\<lambda>_. True) (\<lambda>_. True) rest True q"
proof (induction es arbitrary: p xs)
  case Nil
  then show ?case by (auto simp: lines_text_def)
next
  case (Cons e es)
  from read_good_line [of e p xs "lines_text es @ rest"] Cons(2,3) obtain q where
    "holds q (xs @ [e])" "read_lines (\<lambda>_. True) (\<lambda>_. True) (e @ LF # lines_text es @ rest) True p =
      read_lines (\<lambda>_. True) (\<lambda>_. True) (lines_text es @ rest) True q" by auto
  then show ?case using Cons(1) [of q "xs @ [e]"] Cons(2) by (auto simp: lines_text_def)
qed

definition whole_file :: "string \<Rightarrow> profile_file" where
  "whole_file s = \<lparr> exists = True, content = s, read_fails = False, realloc_ok = (\<lambda>_. True), strdup_ok = (\<lambda>_. True) \<rparr>"

lemma read_profile_lines:
  assumes "\<forall>e\<in>set es. good_line e"
  shows "\<exists>q. ReadProfile (whole_file (lines_text es)) no_profile = Inr (True, q) \<and> holds q es"
proof -
  from read_good_lines [OF assms holds_no_profile, of "[]"] obtain q where
    "holds q es" "read_lines (\<lambda>_. True) (\<lambda>_. True) (lines_text es) True no_profile = read_lines (\<lambda>_. True) (\<lambda>_. True) [] True q" by auto
  moreover have "read_lines (\<lambda>_. True) (\<lambda>_. True) [] True q = Inr (True, q)" for q
    by (subst read_lines.simps) (simp add: numeral_eq_Suc)
  ultimately show ?thesis by (simp add: ReadProfile_def whole_file_def)
qed

subsection \<open>Looking up\<close>

text \<open>The reference: the last entry for the key.\<close>

definition last_value :: "string \<Rightarrow> string list \<Rightarrow> string \<Rightarrow> string" where
  "last_value key es def = last (def # List.map_filter (entry_value key) es)"

lemma find_entries_last:
  "\<forall>e\<in>set es. \<forall>v. entry_value key e = Some v \<longrightarrow> length v < n \<Longrightarrow>
    find_entries n key (map Some es) buf = Some (last_value key es buf)"
  by (induction es arbitrary: buf) (auto simp: last_value_def List.map_filter_simps split: option.splits)

lemma get_string_last:
  assumes "holds p es" "\<forall>e\<in>set es. \<forall>v. entry_value key e = Some v \<longrightarrow> length v < n"
  shows "GetProfileString p key def n = Some (last_value key es def)"
  using assms find_entries_last [OF assms(2), of def]
  by (auto simp: GetProfileString_def holds_def last_value_def List.map_filter_simps split: option.splits)

text \<open>Entries written as key and value.\<close>

definition setting :: "string \<times> string \<Rightarrow> string" where
  "setting kv = fst kv @ ''='' @ snd kv"

definition separate_keys :: "string list \<Rightarrow> bool" where
  "separate_keys ks \<longleftrightarrow>
     distinct ks \<and> (\<forall>k\<in>set ks. CHR ''='' \<notin> set k \<and> (\<forall>l\<in>set ks. strcaseeq (take (length k) l) k \<longrightarrow> l = k))"

lemma to_lower_equals: "to_lower c = CHR ''='' \<longleftrightarrow> c = CHR ''=''"
proof (cases "65 \<le> (of_char c :: nat) \<and> (of_char c :: nat) \<le> 90")
  case True
  have "char_of ((of_char c :: nat) + 32) \<noteq> CHR ''=''"
  proof
    assume "char_of ((of_char c :: nat) + 32) = CHR ''=''"
    then have "of_char (char_of ((of_char c :: nat) + 32) :: char) = (61 :: nat)" by simp
    then show False using True by (simp add: of_char_of)
  qed
  then show ?thesis using True by (auto simp: to_lower_def)
next
  case False
  then show ?thesis by (simp only: to_lower_def if_False)
qed

lemma entry_value_own:
  assumes "v = [] \<or> \<not> is_blank (hd v)"
  shows "entry_value k (setting (k, v)) = Some v"
proof -
  have "dropWhile is_blank v = v" using assms by (cases v) auto
  then show ?thesis by (simp add: entry_value_def setting_def strcaseeq_def)
qed

lemma entry_value_other:
  assumes "\<not> strcaseeq (take (length k) l) k" "CHR ''='' \<notin> set k"
  shows "entry_value k (setting (l, v)) = None"
proof -
  have "\<not> strcaseeq (take (length k) (l @ ''='' @ v)) k"
  proof
    assume eq: "strcaseeq (take (length k) (l @ ''='' @ v)) k"
    show False
    proof (cases "length k \<le> length l")
      case True
      then show False using eq assms(1) by simp
    next
      case False
      then have "map to_lower (take (length k) (l @ ''='' @ v)) ! length l = CHR ''=''"
        by (simp add: nth_append to_lower_def)
      then have "map to_lower k ! length l = CHR ''=''" using eq by (simp add: strcaseeq_def)
      then have "k ! length l = CHR ''=''" using False by (simp add: to_lower_equals)
      then show False using False assms(2) by (metis not_le nth_mem)
    qed
  qed
  then show ?thesis by (simp add: entry_value_def setting_def)
qed

lemma lookup_setting:
  assumes h: "holds p (map setting kvs)" and keys: "separate_keys (map fst kvs)" and kv: "(k, v) \<in> set kvs"
    and v: "v = [] \<or> \<not> is_blank (hd v)" "length v < n"
  shows "GetProfileString p k def n = Some v"
proof -
  have val: "entry_value k (setting kv) = (if fst kv = k then Some v else None)" if "kv \<in> set kvs" for kv
  proof (cases "fst kv = k")
    case True
    then have "snd kv = v" using that kv keys by (cases kv) (auto simp: separate_keys_def eq_key_imp_eq_value)
    then have "kv = (k, v)" using True by (cases kv) simp
    then show ?thesis using entry_value_own [OF v(1)] by simp
  next
    case False
    then have "\<not> strcaseeq (take (length k) (fst kv)) k" "CHR ''='' \<notin> set k"
      using keys kv that by (force simp: separate_keys_def)+
    then show ?thesis using False entry_value_other [of k "fst kv" "snd kv"] by simp
  qed
  have "List.map_filter (entry_value k) (map setting kvs) = [v]"
  proof -
    have "List.map_filter (entry_value k) (map setting ls) = map (\<lambda>_. v) (filter (\<lambda>l. fst l = k) ls)" if "set ls \<subseteq> set kvs" for ls
      using that by (induction ls) (auto simp: List.map_filter_simps val)
    moreover have "filter (\<lambda>l. fst l = k) ls = [l]" if "l \<in> set ls" "fst l = k" "distinct (map fst ls)" for ls and l :: "string \<times> string"
      using that
    proof (induction ls)
      case (Cons m ls)
      show ?case
      proof (cases "m = l")
        case True
        then have "k \<notin> fst ` set ls" using Cons(3,4) by auto
        then have "filter (\<lambda>l. fst l = k) ls = []" unfolding filter_empty_conv by force
        then show ?thesis using True Cons(3) by simp
      next
        case False
        then have "l \<in> set ls" "fst m \<noteq> k" using Cons(2,3,4) by auto
        then show ?thesis using Cons by simp
      qed
    qed simp
    ultimately show ?thesis using kv keys by (auto simp: separate_keys_def)
  qed
  then have "last_value k (map setting kvs) def = v" by (simp add: last_value_def)
  moreover have "\<forall>e\<in>set (map setting kvs). \<forall>u. entry_value k e = Some u \<longrightarrow> length u < n" using val v(2) by auto
  ultimately show ?thesis using get_string_last [OF h] by simp
qed

subsection \<open>Writing a configuration\<close>

text \<open>Values as they are written: decimal numbers, the name of an option, the address in hexadecimal, and the
  options among the flags each followed by a blank.\<close>

definition decimal :: "int \<Rightarrow> string" where
  "decimal i = show_nat 10 (nat i)"

definition option_name :: "(string \<times> u32) list \<Rightarrow> u32 \<Rightarrow> string" where
  "option_name table v = (case find (\<lambda>(_, x). x = v) table of None \<Rightarrow> [] | Some (n, _) \<Rightarrow> n)"

definition words_text :: "string list \<Rightarrow> string" where
  "words_text ws = concat (map (\<lambda>w. w @ '' '') ws)"

definition profile_settings :: "string list \<Rightarrow> 'a APP_DATA \<Rightarrow> (string \<times> string) list" where
  "profile_settings ws a =
    (let r = Rt56Params a
     in [(''Primary'', decimal (bPrimary a)), (''NumTransactions'', decimal (uint (NumTransactions a))),
         (''NewTransactionInterval'', decimal (uint (NewTransactionInterval a))),
         (''PollInterval'', decimal (uint (PollInterval a))), (''RxTimeout'', decimal (uint (RxTimeout a))),
         (''TxTimeout'', decimal (uint (TxTimeout a))), (''Port'', PortName a),
         (''Loopback'', decimal (uint (loopback r))), (''Mode'', option_name ProfileModes (ucast (mode r))),
         (''Flags'', words_text ws), (''Encoding'', option_name ProfileEncoding (ucast (encoding r))),
         (''TxIdle'', option_name ProfileTxIdles (TxIdle a)), (''ClockSpeed'', decimal (uint (clock_speed r))),
         (''Addr'', show_nat 16 (unat (addr_filter r))), (''CrcType'', option_name ProfileCrcTypes (ucast (crc_type r))),
         (''PreambleLength'', option_name ProfilePreambleLengths (ucast (preamble_length r))),
         (''PreamblePattern'', option_name ProfilePreamblePatterns (ucast (preamble r))),
         (''DataRate'', decimal (uint (data_rate r))), (''DataBits'', decimal (uint (data_bits r))),
         (''StopBits'', decimal (uint (stop_bits r))), (''Parity'', option_name ProfileParity (ucast (parity r)))])"

definition profile_text :: "string list \<Rightarrow> 'a APP_DATA \<Rightarrow> string" where
  "profile_text ws a = lines_text (map setting (profile_settings ws a))"

text \<open>Characters that can stand in a value; the configurations that a profile can express.\<close>

definition plain :: "string \<Rightarrow> bool" where
  "plain v \<longleftrightarrow> LF \<notin> set v \<and> NUL \<notin> set v \<and> CR \<notin> set v \<and> (v = [] \<or> \<not> is_blank (hd v))"

definition writable :: "string list \<Rightarrow> 'a APP_DATA \<Rightarrow> bool" where
  "writable ws a \<longleftrightarrow>
     (let r = Rt56Params a
      in 0 \<le> bPrimary a \<and> bPrimary a < 2 ^ 31 \<and> NumTransactions a < 2 ^ 31 \<and> NewTransactionInterval a < 2 ^ 31 \<and>
         PollInterval a < 2 ^ 31 \<and> RxTimeout a < 2 ^ 31 \<and> TxTimeout a < 2 ^ 31 \<and>
         clock_speed r < 2 ^ 31 \<and> data_rate r < 2 ^ 31 \<and>
         PortName a \<noteq> [] \<and> length (PortName a) < 20 \<and> plain (PortName a) \<and>
         mode r < 2 ^ 31 \<and> ucast (mode r) \<in> snd ` set ProfileModes \<and>
         ucast (encoding r) \<in> snd ` set ProfileEncoding \<and> TxIdle a \<in> snd ` set ProfileTxIdles \<and>
         ucast (crc_type r) \<in> snd ` set ProfileCrcTypes \<and>
         ucast (preamble_length r) \<in> snd ` set ProfilePreambleLengths \<and>
         ucast (preamble r) \<in> snd ` set ProfilePreamblePatterns \<and> ucast (parity r) \<in> snd ` set ProfileParity \<and>
         addr_filter r \<noteq> 0 \<and> interface r = 0 \<and>
         length ws \<le> 24 \<and> set ws \<subseteq> fst ` set ProfileFlags \<and>
         map_option ucast (apply_flags ws ProfileFlags 0) = Some (flags r))"

definition same_config :: "'a APP_DATA \<Rightarrow> 'b APP_DATA \<Rightarrow> bool" where
  "same_config a b \<longleftrightarrow>
     bPrimary a = bPrimary b \<and> NumTransactions a = NumTransactions b \<and>
     NewTransactionInterval a = NewTransactionInterval b \<and> PollInterval a = PollInterval b \<and>
     RxTimeout a = RxTimeout b \<and> TxTimeout a = TxTimeout b \<and> PortName a = PortName b \<and> TxIdle a = TxIdle b \<and>
     Rt56Params a = Rt56Params b"

lemma length_show_nat: "2 \<le> b \<Longrightarrow> n < b ^ Suc k \<Longrightarrow> length (show_nat b n) \<le> Suc k"
proof (induction k arbitrary: n)
  case 0
  then show ?case by (subst show_nat.simps) simp
next
  case (Suc k)
  have "n div b < b ^ Suc k" using Suc.prems by (simp add: less_mult_imp_div_less mult.commute)
  then show ?case using Suc by (subst show_nat.simps) simp
qed

lemma plain_digits: "list_all (is_digit b) s \<Longrightarrow> plain s"
proof -
  assume s: "list_all (is_digit b) s"
  have "\<not> is_digit b LF" "\<not> is_digit b NUL" "\<not> is_digit b CR" "\<not> is_digit b CHR '' ''" "\<not> is_digit b TAB"
    by (simp_all add: is_digit_def digit_val_def)
  then show ?thesis using s by (cases s) (auto simp: plain_def is_blank_def list_all_iff)
qed

lemma decimal_plain [simp]: "plain (decimal i)"
  unfolding decimal_def by (rule plain_digits [OF show_nat_digits]) simp_all

lemma hex_plain [simp]: "plain (show_nat 16 n)"
  by (rule plain_digits [OF show_nat_digits]) simp_all

lemma length_decimal: "i < 2 ^ 31 \<Longrightarrow> length (decimal i) \<le> 10"
  unfolding decimal_def using length_show_nat [of 10 "nat i" 9] by simp

text \<open>Tables whose names can be read back: no two of their names agree, also without regard to case.\<close>

definition readable :: "(string \<times> u32) list \<Rightarrow> bool" where
  "readable table \<longleftrightarrow>
     (\<forall>(n, v)\<in>set table. first_word n = n \<and> plain n \<and> length n < 40 \<and>
        map_option snd (find (\<lambda>(m, _). strcaseeq n m) table) = Some v)"

definition capital :: "char \<Rightarrow> bool" where
  "capital c \<longleftrightarrow> 33 \<le> (of_char c :: nat) \<and> (of_char c :: nat) < 97"

definition lower_code :: "nat \<Rightarrow> nat" where
  "lower_code n = (if 65 \<le> n \<and> n \<le> 90 then n + 32 else n)"

lemma to_lower_code: "capital c \<Longrightarrow> of_char (to_lower c) = lower_code (of_char c)"
  by (simp add: to_lower_def lower_code_def capital_def of_char_of)

lemma lower_code_inj: "m < 97 \<Longrightarrow> n < 97 \<Longrightarrow> lower_code m = lower_code n \<Longrightarrow> m = n"
  by (simp add: lower_code_def split: if_splits)

lemma to_lower_inj:
  assumes "capital c" "capital d"
  shows "to_lower c = to_lower d \<longleftrightarrow> c = d"
proof
  assume "to_lower c = to_lower d"
  then have "lower_code (of_char c) = lower_code (of_char d)" by (metis assms to_lower_code)
  then have "(of_char c :: nat) = of_char d"
    by (rule lower_code_inj [rotated 2]) (use assms in \<open>simp_all add: capital_def\<close>)
  then show "c = d" by simp
qed simp

lemma strcaseeq_capital: "list_all capital s \<Longrightarrow> list_all capital t \<Longrightarrow> strcaseeq s t \<longleftrightarrow> s = t"
  unfolding strcaseeq_def by (induction s t rule: list_induct2') (auto simp: to_lower_inj)

definition capital_table :: "(string \<times> 'a) list \<Rightarrow> bool" where
  "capital_table table \<longleftrightarrow>
     distinct (map fst table) \<and> list_all (\<lambda>n. n \<noteq> [] \<and> list_all capital n \<and> length n < 40) (map fst table)"

lemma capital_plain: "list_all capital n \<Longrightarrow> plain n \<and> list_all (\<lambda>c. \<not> is_blank c) n"
proof (induction n)
  case (Cons c n)
  have "c \<noteq> LF" "c \<noteq> NUL" "c \<noteq> CR" "\<not> is_blank c" using Cons(2) by (auto simp: capital_def is_blank_def)
  then show ?case using Cons by (auto simp: plain_def)
qed (simp add: plain_def)

lemma first_word_capital: "list_all capital n \<Longrightarrow> first_word n = n"
proof -
  assume n: "list_all capital n"
  have "dropWhile is_blank n = n" using capital_plain [OF n] by (cases n) auto
  then show ?thesis using capital_plain [OF n] by (simp add: first_word_def takeWhile_eq_all_conv list_all_iff)
qed

lemma find_capital:
  assumes "capital_table table" "(n, v) \<in> set table"
  shows "find (\<lambda>(m, _). strcaseeq n m) table = Some (n, v)"
  using assms
proof (induction table)
  case (Cons x table)
  obtain m u where x: "x = (m, u)" by (cases x)
  have c: "list_all capital n" "list_all capital m" using Cons(2,3) by (auto simp: capital_table_def list_all_iff x)
  show ?case
  proof (cases "n = m")
    case True
    then have "v = u" using Cons(2,3) by (force simp: capital_table_def x)
    then show ?thesis using True by (simp add: x strcaseeq_def)
  next
    case False
    then show ?thesis using Cons strcaseeq_capital [OF c] by (auto simp: capital_table_def x)
  qed
qed simp

lemma capital_readable: "capital_table table \<Longrightarrow> readable table"
  using find_capital [of table] by (auto simp: readable_def capital_table_def list_all_iff first_word_capital capital_plain)

lemma capital_tables:
  "capital_table ProfileModes" "capital_table ProfileEncoding" "capital_table ProfileTxIdles"
  "capital_table ProfileCrcTypes" "capital_table ProfilePreambleLengths" "capital_table ProfilePreamblePatterns"
  "capital_table ProfileParity" "capital_table ProfileFlags"
  by code_simp+

lemmas readable_tables = capital_tables(1-7) [THEN capital_readable]

lemma option_name_readable:
  assumes "readable table" "v \<in> snd ` set table"
  shows "first_word (option_name table v) = option_name table v \<and> plain (option_name table v) \<and>
    length (option_name table v) < 40 \<and>
    map_option snd (find (\<lambda>(m, _). strcaseeq (option_name table v) m) table) = Some v"
proof -
  obtain n where n: "find (\<lambda>(_, x). x = v) table = Some (n, v)"
    using assms(2) by (cases "find (\<lambda>(_, x). x = v) table") (auto simp: find_None_iff find_Some_iff)
  then have "(n, v) \<in> set table" by (metis find_Some_iff nth_mem)
  moreover have "option_name table v = n" using n by (simp add: option_name_def)
  ultimately show ?thesis using assms(1) by (auto simp: readable_def)
qed

text \<open>The words of the flags.\<close>

lemma split_words_text:
  assumes "\<forall>w\<in>set ws. w \<noteq> [] \<and> list_all (\<lambda>c. \<not> is_blank c) w"
  shows "split_words (words_text ws) = ws"
  using assms
proof (induction ws)
  case Nil
  then show ?case by (subst split_words.simps) (simp add: words_text_def)
next
  case (Cons w ws)
  have t: "words_text (w # ws) = w @ CHR '' '' # words_text ws" by (simp add: words_text_def)
  obtain c cs where "w = c # cs" "\<not> is_blank c" using Cons(2) by (cases w) auto
  then have d: "dropWhile is_blank (words_text (w # ws)) = w @ CHR '' '' # words_text ws" unfolding t by simp
  have b: "is_blank CHR '' ''" by (simp add: is_blank_def)
  have "takeWhile (\<lambda>c. \<not> is_blank c) (w @ CHR '' '' # words_text ws) = w"
    "dropWhile (\<lambda>c. \<not> is_blank c) (w @ CHR '' '' # words_text ws) = CHR '' '' # words_text ws"
    using Cons(2) b by (auto simp: takeWhile_append2 dropWhile_append2 list_all_iff)
  moreover have "split_words (CHR '' '' # words_text ws) = split_words (words_text ws)"
    using b by (subst split_words.simps, subst (2) split_words.simps) simp
  ultimately show ?case using Cons d by (subst split_words.simps) (simp add: Let_def)
qed

lemma flag_words: "w \<in> fst ` set ProfileFlags \<Longrightarrow>
    w \<noteq> [] \<and> list_all (\<lambda>c. \<not> is_blank c) w \<and> plain w \<and> length w < 40"
  using capital_tables(8) capital_plain by (auto simp: capital_table_def list_all_iff)

lemma words_text_plain:
  "\<forall>w\<in>set ws. w \<noteq> [] \<and> list_all (\<lambda>c. \<not> is_blank c) w \<and> plain w \<and> length w < 40 \<Longrightarrow>
    plain (words_text ws) \<and> length (words_text ws) \<le> 40 * length ws"
proof (induction ws)
  case (Cons w ws)
  have "words_text (w # ws) = w @ CHR '' '' # words_text ws" by (simp add: words_text_def)
  moreover have "plain (words_text ws) \<and> length (words_text ws) \<le> 40 * length ws" using Cons by simp
  ultimately show ?case using Cons(2) by (cases w) (auto simp: plain_def)
qed (simp add: words_text_def plain_def)


subsection \<open>Reading a configuration back\<close>

definition profile_keys :: "string list" where
  "profile_keys =
     [''Primary'', ''NumTransactions'', ''NewTransactionInterval'', ''PollInterval'', ''RxTimeout'', ''TxTimeout'',
      ''Port'', ''Loopback'', ''Mode'', ''Flags'', ''Encoding'', ''TxIdle'', ''ClockSpeed'', ''Addr'', ''CrcType'',
      ''PreambleLength'', ''PreamblePattern'', ''DataRate'', ''DataBits'', ''StopBits'', ''Parity'']"

definition low :: "string \<Rightarrow> string" where
  "low = map to_lower"

lemma profile_keys_low:
  "map low profile_keys =
     [''primary'', ''numtransactions'', ''newtransactioninterval'', ''pollinterval'', ''rxtimeout'', ''txtimeout'',
      ''port'', ''loopback'', ''mode'', ''flags'', ''encoding'', ''txidle'', ''clockspeed'', ''addr'', ''crctype'',
      ''preamblelength'', ''preamblepattern'', ''datarate'', ''databits'', ''stopbits'', ''parity'']"
  by code_simp

definition prefix_free :: "string list \<Rightarrow> bool" where
  "prefix_free ks \<longleftrightarrow> distinct ks \<and> list_all (\<lambda>k. list_all (\<lambda>l. take (length k) l = k \<longrightarrow> l = k) ks) ks"

lemma separate_keys_low:
  assumes p: "prefix_free (map low ks)" and e: "list_all (\<lambda>k. CHR ''='' \<notin> set k) ks"
  shows "separate_keys ks"
proof -
  have inj: "l = k" if "k \<in> set ks" "l \<in> set ks" "low l = low k" for k l
    using p that by (auto simp: prefix_free_def distinct_map inj_on_def)
  have "low l = low k" if "k \<in> set ks" "l \<in> set ks" "take (length k) (low l) = low k" for k l
    using p that by (auto simp: prefix_free_def list_all_iff low_def)
  moreover have "distinct ks" using p by (simp add: prefix_free_def distinct_map)
  moreover have "l = k" if "k \<in> set ks" "l \<in> set ks" "strcaseeq (take (length k) l) k" for k l
    using that \<open>\<And>k l. k \<in> set ks \<Longrightarrow> l \<in> set ks \<Longrightarrow> take (length k) (low l) = low k \<Longrightarrow> low l = low k\<close> [of k l]
      inj [of k l] by (simp add: strcaseeq_def low_def take_map)
  ultimately show ?thesis using e by (simp add: separate_keys_def list_all_iff)
qed

lemma separate_profile_keys: "separate_keys profile_keys"
proof (rule separate_keys_low)
  show "prefix_free (map low profile_keys)" unfolding profile_keys_low by code_simp
  show "list_all (\<lambda>k. CHR ''='' \<notin> set k) profile_keys" by code_simp
qed

lemma profile_settings_keys: "map fst (profile_settings ws a) = profile_keys"
  by (simp add: profile_settings_def profile_keys_def Let_def)

lemma found_setting:
  assumes "holds p (map setting (profile_settings ws a))" "(k, v) \<in> set (profile_settings ws a)" "plain v" "length v < n"
  shows "GetProfileString p k def n = Some v"
  using lookup_setting [OF assms(1) _ assms(2) _ assms(4)] assms(3) separate_profile_keys
  by (simp add: profile_settings_keys plain_def)

lemma decimal_value:
  assumes "0 \<le> i" "i < 2 ^ 31"
  shows "decimal i \<noteq> [] \<and> scan_number base_i (decimal i) = Scan_val i [] \<and> to_int i = i"
proof -
  have "signed_take_bit 31 i = i" using assms by (intro signed_take_bit_int_eq_self) auto
  then show ?thesis using assms scan_show_decimal [of "nat i"] by (simp add: decimal_def to_int_def)
qed

lemma parse_int_decimal:
  assumes "GetProfileString p key [] 128 = Some (decimal i)" "0 \<le> i" "i < 2 ^ 31"
  shows "parse_int key def upd p a = Some (True, upd i a)"
  using assms decimal_value [of i] by (simp add: parse_int_def GetProfileInt_def)

lemma parse_option_name:
  assumes "GetProfileString p key [] 1024 = Some (option_name table v)" "readable table" "v \<in> snd ` set table"
  shows "parse_option key table upd p a = Some (True, upd v a)"
proof -
  obtain n where "find (\<lambda>(m, _). strcaseeq (first_word (option_name table v)) m) table = Some (n, v)"
    using option_name_readable [OF assms(2,3)] by auto
  then show ?thesis using assms(1) by (simp add: parse_option_def GetProfileOption_def)
qed

lemma parse_flags_words:
  assumes "GetProfileString p ''Flags'' [] 1024 = Some (words_text ws)" "set ws \<subseteq> fst ` set ProfileFlags"
    "apply_flags ws ProfileFlags 0 = Some f"
  shows "parse_flags p a = Some (True, Rt56Params_update (flags_update (\<lambda>_. ucast f)) a)"
proof -
  have "split_words (words_text ws) = ws" using assms(2) flag_words by (intro split_words_text) blast
  then show ?thesis using assms by (simp add: parse_flags_def GetProfileFlags_def)
qed

lemma ucast_back: "(ucast (ucast v :: u32) :: u8) = v" "(ucast (ucast c :: u32) :: u16) = c"
  by (rule bit_word_eqI, simp add: bit_simps)+

lemma parse_addr_hex:
  assumes "GetProfileString p ''Addr'' [] 1024 = Some (show_nat 16 (unat v))" "v \<noteq> (0 :: u8)"
  shows "parse_addr p a = Some (True, Rt56Params_update (addr_filter_update (\<lambda>_. v)) a)"
proof -
  have "unat v < 256" using unsigned_less [of v] by simp
  moreover have "to_uint (int (unat v)) = ucast v"
    using uint_lt2p [of v] by (simp add: to_uint_def)
  moreover have "(ucast v :: u32) \<noteq> 0" using assms(2) ucast_back(1) [of v] by auto
  ultimately show ?thesis using assms scan_show_hex [of "unat v"] by (simp add: parse_addr_def ucast_back)
qed

text \<open>The sizes of the buffers: 128 bytes for a number, 1024 for other values.\<close>

lemma writable_numbers:
  assumes "writable ws a"
  shows "\<forall>i\<in>set [bPrimary a, uint (NumTransactions a), uint (NewTransactionInterval a), uint (PollInterval a),
      uint (RxTimeout a), uint (TxTimeout a), uint (loopback (Rt56Params a)), uint (clock_speed (Rt56Params a)),
      uint (data_rate (Rt56Params a)), uint (data_bits (Rt56Params a)), uint (stop_bits (Rt56Params a))].
    0 \<le> i \<and> i < 2 ^ 31"
proof -
  have byte: "uint (v :: u8) < 2 ^ 31" for v using uint_lt2p [of v] by simp
  show ?thesis using assms byte by (simp add: writable_def Let_def word_less_def)
qed

lemma option_short:
  "readable table \<Longrightarrow> v \<in> snd ` set table \<Longrightarrow> plain (option_name table v) \<and> length (option_name table v) < 991"
  using option_name_readable [of table v] by auto

lemma writable_values:
  assumes "writable ws a"
  shows "\<forall>kv\<in>set (profile_settings ws a). plain (snd kv) \<and> length (snd kv) < 991"
proof -
  note w = assms [unfolded writable_def Let_def]
  have num: "plain (decimal i) \<and> length (decimal i) < 991"
    if "i \<in> set [bPrimary a, uint (NumTransactions a), uint (NewTransactionInterval a), uint (PollInterval a),
      uint (RxTimeout a), uint (TxTimeout a), uint (loopback (Rt56Params a)), uint (clock_speed (Rt56Params a)),
      uint (data_rate (Rt56Params a)), uint (data_bits (Rt56Params a)), uint (stop_bits (Rt56Params a))]" for i
    using length_decimal [of i] writable_numbers [OF assms] that by fastforce
  have "\<forall>x\<in>set ws. x \<noteq> [] \<and> list_all (\<lambda>c. \<not> is_blank c) x \<and> plain x \<and> length x < 40" using w flag_words by blast
  then have flags: "plain (words_text ws) \<and> length (words_text ws) < 991" using words_text_plain [of ws] w by auto
  have "unat (addr_filter (Rt56Params a)) < 16 ^ Suc 1" using unsigned_less [of "addr_filter (Rt56Params a)"] by simp
  then have addr: "length (show_nat 16 (unat (addr_filter (Rt56Params a)))) < 991"
    using length_show_nat [of 16 "unat (addr_filter (Rt56Params a))" 1] by simp
  show ?thesis
    unfolding profile_settings_def Let_def list.set ball_simps
    using num flags addr w option_short [OF readable_tables(1)] option_short [OF readable_tables(2)]
      option_short [OF readable_tables(3)] option_short [OF readable_tables(4)] option_short [OF readable_tables(5)]
      option_short [OF readable_tables(6)] option_short [OF readable_tables(7)]
    by simp
qed

lemma writable_lines:
  assumes "writable ws a"
  shows "\<forall>e\<in>set (map setting (profile_settings ws a)). good_line e"
proof -
  have value_line: "good_line (setting (k, v))" if "k \<in> set profile_keys" "plain v" "length v \<le> 990" for k v
  proof -
    have "list_all (\<lambda>k. k \<noteq> [] \<and> length k \<le> 22 \<and> LF \<notin> set k \<and> NUL \<notin> set k \<and> \<not> is_blank (hd k) \<and> hd k \<noteq> CHR ''#'') profile_keys"
      by code_simp
    then have "k \<noteq> [] \<and> length k \<le> 22 \<and> LF \<notin> set k \<and> NUL \<notin> set k \<and> \<not> is_blank (hd k) \<and> hd k \<noteq> CHR ''#''"
      using that(1) by (simp add: list_all_iff)
    moreover have "last (k @ ''='' @ v) \<noteq> CR"
    proof (cases "v = []")
      case False
      then have "last v \<in> set v" by simp
      then have "last v \<noteq> CR" using that(2) unfolding plain_def by metis
      then show ?thesis using False by simp
    qed simp
    ultimately show ?thesis using that by (auto simp: good_line_def setting_def plain_def)
  qed
  have "\<forall>kv\<in>set (profile_settings ws a). plain (snd kv) \<and> length (snd kv) \<le> 990" using writable_values [OF assms] by (simp add: less_Suc_eq_le [symmetric])
  moreover have "fst kv \<in> set profile_keys" if "kv \<in> set (profile_settings ws a)" for kv
    using that profile_settings_keys [of ws a] by (metis list.set_map image_eqI)
  ultimately show ?thesis using value_line by force
qed
lemma params_filled:
  "interface r = 0 \<Longrightarrow> Rt56Params (zero_app h)
     \<lparr> loopback := loopback r, mode := mode r, flags := flags r, encoding := encoding r, clock_speed := clock_speed r,
       addr_filter := addr_filter r, crc_type := crc_type r, preamble_length := preamble_length r, preamble := preamble r,
       data_rate := data_rate r, data_bits := data_bits r, stop_bits := stop_bits r, parity := parity r \<rparr> = r"
  by (cases r) (simp add: zero_app_def zero_params_def)

lemma parse_written:
  assumes w: "writable ws a" and h: "holds p (map setting (profile_settings ws a))"
  shows "\<exists>b. ParseProfile p (zero_app hst) = Some (True, b) \<and> same_config (b :: 'c APP_DATA) a"
proof -
  note c = w [unfolded writable_def Let_def]
  obtain f where f: "apply_flags ws ProfileFlags 0 = Some f" "ucast f = flags (Rt56Params a)" using c by auto
  have str: "GetProfileString p k [] 1024 = Some v" if "(k, v) \<in> set (profile_settings ws a)" for k v
    using found_setting [OF h that] writable_values [OF w] that by force
  have num: "parse_int k def upd p b = Some (True, upd i b)"
    if "(k, decimal i) \<in> set (profile_settings ws a)" "0 \<le> i \<and> i < 2 ^ 31"
    for k def i and upd :: "int \<Rightarrow> 'c APP_DATA \<Rightarrow> 'c APP_DATA" and b
    using that found_setting [OF h that(1) decimal_plain, of 128] length_decimal [of i] by (intro parse_int_decimal) auto
  note n = writable_numbers [OF w, simplified]
  have opt: "parse_option k table upd p b = Some (True, upd v b)"
    if "(k, option_name table v) \<in> set (profile_settings ws a)" "readable table" "v \<in> snd ` set table"
    for k table v and upd :: "u32 \<Rightarrow> 'c APP_DATA \<Rightarrow> 'c APP_DATA" and b
    using parse_option_name [OF str [OF that(1)] that(2,3)] .
  define r where "r = Rt56Params a"
  have "list_all (\<lambda>(k, i). \<forall>def upd (b :: 'c APP_DATA). parse_int k def upd p b = Some (True, upd i b))
    [(''Primary'', bPrimary a), (''NumTransactions'', uint (NumTransactions a)),
     (''NewTransactionInterval'', uint (NewTransactionInterval a)), (''PollInterval'', uint (PollInterval a)),
     (''RxTimeout'', uint (RxTimeout a)), (''TxTimeout'', uint (TxTimeout a)), (''Loopback'', uint (loopback r)),
     (''ClockSpeed'', uint (clock_speed r)), (''DataRate'', uint (data_rate r)), (''DataBits'', uint (data_bits r)),
     (''StopBits'', uint (stop_bits r))]"
    unfolding list.pred_inject prod.case r_def by (intro conjI allI num) (simp_all add: profile_settings_def Let_def n)
  note ints = this [simplified]
  have "list_all (\<lambda>(k, t, v). \<forall>upd (b :: 'c APP_DATA). parse_option k t upd p b = Some (True, upd v b))
    [(''Mode'', ProfileModes, ucast (mode r)), (''Encoding'', ProfileEncoding, ucast (encoding r)),
     (''TxIdle'', ProfileTxIdles, TxIdle a), (''CrcType'', ProfileCrcTypes, ucast (crc_type r)),
     (''PreambleLength'', ProfilePreambleLengths, ucast (preamble_length r)),
     (''PreamblePattern'', ProfilePreamblePatterns, ucast (preamble r)), (''Parity'', ProfileParity, ucast (parity r))]"
    unfolding list.pred_inject prod.case r_def
    by (intro conjI allI opt readable_tables TrueI) (use c in \<open>simp_all add: profile_settings_def Let_def\<close>)
  note options = this [simplified]
  have port: "parse_port p b = Some (True, b\<lparr> PortName := PortName a \<rparr>)" for b :: "'c APP_DATA"
    using str [of "''Port''" "PortName a"] c by (simp add: parse_port_def profile_settings_def Let_def)
  have flags: "parse_flags p b = Some (True, Rt56Params_update (flags_update (\<lambda>_. ucast f)) b)" for b :: "'c APP_DATA"
    by (rule parse_flags_words [OF str _ f(1)]) (use c in \<open>simp_all add: profile_settings_def Let_def\<close>)
  have addr: "parse_addr p b = Some (True, Rt56Params_update (addr_filter_update (\<lambda>_. addr_filter r)) b)" for b :: "'c APP_DATA"
    unfolding r_def by (rule parse_addr_hex [OF str]) (use c in \<open>simp_all add: profile_settings_def Let_def\<close>)
  have mode: "(ucast (ucast (mode r) :: u32) :: u64) = mode r"
  proof -
    have "uint (mode r) < 2 ^ 31" using c by (simp add: r_def word_less_def)
    then have "take_bit 32 (uint (mode r)) = uint (mode r)" by (intro take_bit_int_eq_self) auto
    then show ?thesis by (simp add: word_uint_eq_iff unsigned_ucast_eq unsigned_take_bit_eq)
  qed
  show ?thesis
    using c by (simp add: ParseProfile_def parse_table_def ints options port flags addr same_config_def ucast_back mode f(2)
        params_filled flip: r_def)
qed

text \<open>C17: A configuration that a profile can express is read back from the profile that writes it out: every
  number, name, option and flag reaches its place.\<close>

theorem profile_written_is_read:
  assumes "writable ws a"
  shows "\<exists>b p. GetProfile h (whole_file (profile_text ws a)) no_profile = Inr (True, b, p) \<and>
    same_config (b :: 'c APP_DATA) a"
proof -
  obtain q where q: "ReadProfile (whole_file (profile_text ws a)) no_profile = Inr (True, q)" "holds q (map setting (profile_settings ws a))"
    using read_profile_lines [OF writable_lines [OF assms]] by (auto simp: profile_text_def)
  from parse_written [OF assms q(2)] obtain b :: "'c APP_DATA" where "ParseProfile q (zero_app h) = Some (True, b)" "same_config b a" by blast
  then show ?thesis using q(1) by (simp add: GetProfile_def)
qed

text \<open>The settings of the station in \<open>slave1.ini\<close>.\<close>

definition slave1 :: "unit APP_DATA" where
  "slave1 = (zero_app undefined)\<lparr> NumTransactions := 5, NewTransactionInterval := 2, PollInterval := 1, RxTimeout := 1000,
     TxTimeout := 5000, PortName := ''/dev/ttySL0'',
     Rt56Params := \<lparr> mode = R56_MODE_HDLC, loopback = 0, interface = 0, flags = 0xc002, encoding = HDLC_ENCODING_NRZI_SPACE,
       clock_speed = 9600, addr_filter = 0xc1, crc_type = HDLC_CRC_16_CCITT, preamble_length = HDLC_PREAMBLE_LENGTH_8BITS,
       preamble = HDLC_PREAMBLE_PATTERN_NONE, data_rate = 9600, data_bits = 8, stop_bits = 1, parity = ASYNC_PARITY_NONE \<rparr> \<rparr>"

definition slave1_flags :: "string list" where
  "slave1_flags =
     [''HDLC_FLAG_UNDERRUN_FLAG'', ''HDLC_FLAG_HDLC_LOOPMODE'', ''HDLC_FLAG_TXC_TXCPIN'', ''HDLC_FLAG_RXC_TXCPIN'']"

lemma flag_step:
  "(w, off, on) \<in> set ProfileFlags \<Longrightarrow>
    apply_flags (w # ws) ProfileFlags v = apply_flags ws ProfileFlags ((v AND NOT (ucast off)) OR ucast on)"
  by (simp add: find_capital [OF capital_tables(8)])

lemma slave1_writable: "writable slave1_flags slave1"
proof -
  have "(''HDLC_FLAG_UNDERRUN_FLAG'', 7, 2) \<in> set ProfileFlags" "(''HDLC_FLAG_HDLC_LOOPMODE'', 0, 0x4000) \<in> set ProfileFlags"
    "(''HDLC_FLAG_TXC_TXCPIN'', 0xc08, 0) \<in> set ProfileFlags" "(''HDLC_FLAG_RXC_TXCPIN'', 0x8300, 0x8000) \<in> set ProfileFlags"
    by (simp_all add: ProfileFlags_def)
  note steps = this [THEN flag_step]
  have "map_option ucast (apply_flags slave1_flags ProfileFlags 0) = Some (0xc002 :: u16)"
    unfolding slave1_flags_def by (simp only: steps) simp
  moreover have "set slave1_flags \<subseteq> fst ` set ProfileFlags" by (simp add: slave1_flags_def ProfileFlags_def)
  ultimately show ?thesis
    by (simp add: writable_def Let_def slave1_def zero_app_def plain_def is_blank_def ProfileModes_def ProfileEncoding_def
        ProfileTxIdles_def ProfileCrcTypes_def ProfilePreambleLengths_def ProfilePreamblePatterns_def ProfileParity_def)
      (simp add: slave1_flags_def)
qed

theorem profile_written_is_read_witness:
  "writable slave1_flags slave1 \<and>
   (\<exists>b p. GetProfile undefined (whole_file (profile_text slave1_flags slave1)) no_profile = Inr (True, b :: unit APP_DATA, p) \<and>
      same_config b slave1)"
  using profile_written_is_read [OF slave1_writable, of undefined] slave1_writable by blast

text \<open>C38: An empty line takes the reader outside its buffer: it looks at the byte before the first, whatever
  follows. The profiles that come with the program have such lines.\<close>

theorem profile_empty_line_undefined:
  assumes "\<forall>e\<in>set es. good_line e"
  shows "ReadProfile (whole_file (lines_text es @ LF # rest)) no_profile = Inl Undefined"
proof -
  obtain q where "read_lines (\<lambda>_. True) (\<lambda>_. True) (lines_text es @ LF # rest) True no_profile =
      read_lines (\<lambda>_. True) (\<lambda>_. True) (LF # rest) True q"
    using read_good_lines [OF assms holds_no_profile, of "LF # rest"] by blast
  moreover have "read_lines (\<lambda>_. True) (\<lambda>_. True) (LF # rest) True q = Inl Undefined"
    by (subst read_lines.simps) (simp add: fgets_line [of "[]", simplified] strip_line_def Let_def)
  ultimately show ?thesis by (simp add: ReadProfile_def whole_file_def)
qed

definition slave1_start :: "string list" where
  "slave1_start = [''Primary = 0'' @ [TAB, TAB, TAB, TAB] @ ''# not a primary station'']"

theorem profile_empty_line_undefined_witness:
  "ReadProfile (whole_file (lines_text slave1_start @ LF # ''NumTransactions = 5'')) no_profile = Inl Undefined"
  by (rule profile_empty_line_undefined) (simp add: slave1_start_def good_line_def is_blank_def)

end
