(* ===== verification/R56_Stations.thy ===== *)
theory R56_Stations
  imports R56_Profile
begin

text \<open>
  The secondary station (\<open>examples/sample-loopmode/secondary.c\<close>) and the primary station
  (\<open>primary.c\<close>): their transaction lists, the frames they exchange and their main loops.
\<close>

abbreviation (input) DISC :: u8 where "DISC \<equiv> 0x53"
abbreviation (input) SIM :: u8 where "SIM \<equiv> 0x17"
abbreviation (input) POLL :: u8 where "POLL \<equiv> 0x10"
abbreviation (input) FINAL :: u8 where "FINAL \<equiv> 0x10"
abbreviation (input) RR :: u8 where "RR \<equiv> 0x01"
abbreviation (input) INFO_FIELD :: nat where "INFO_FIELD \<equiv> 2"

text \<open>The pointer \<open>pNext\<close> of a block, \<open>malloc\<close> with the contents that are then put in, and \<open>free\<close>.\<close>

definition get_next :: "nat \<Rightarrow> 'a APP_DATA \<Rightarrow> nat option" where
  "get_next p a = map_option snd (store a p)"

definition set_next :: "nat \<Rightarrow> nat \<Rightarrow> 'a APP_DATA \<Rightarrow> 'a APP_DATA option" where
  "set_next p n a = do { (t, _) \<leftarrow> store a p; Some (a\<lparr> store := (store a)(p \<mapsto> (t, n)) \<rparr>) }"

definition new_block :: "'a \<Rightarrow> 'a APP_DATA \<Rightarrow> nat \<times> 'a APP_DATA" where
  "new_block t a =
    (let (r, _, a) = call Malloc a
     in if r = 0 then (0, a)
        else (next_free a, a\<lparr> store := (store a)(next_free a \<mapsto> (t, 0)), next_free := next_free a + 1 \<rparr>))"

definition free_block :: "nat \<Rightarrow> 'a APP_DATA \<Rightarrow> 'a APP_DATA" where
  "free_block p a = (let a = call_only (Free p) a in a\<lparr> store := (store a)(p := None) \<rparr>)"

text \<open>Bytes written into the receive buffer.\<close>

definition overwrite :: "nat \<Rightarrow> 'b list \<Rightarrow> 'b list \<Rightarrow> 'b list option" where
  "overwrite k bs xs = (if k + length bs \<le> length xs then Some (take k xs @ bs @ drop (k + length bs) xs) else None)"

definition poke_rx :: "nat \<Rightarrow> u8 list \<Rightarrow> 'a APP_DATA \<Rightarrow> 'a APP_DATA option" where
  "poke_rx k bs a = do { buf \<leftarrow> pRxBuffer a; buf \<leftarrow> overwrite k bs buf; Some (a\<lparr> pRxBuffer := Some buf \<rparr>) }"

section \<open>The secondary station\<close>

type_synonym secondary = "APP_TRANSACTION APP_DATA"

subsection \<open>Transaction lists\<close>

definition AddToQueuedTransactionList :: "nat \<Rightarrow> secondary \<Rightarrow> secondary option" where
  "AddToQueuedTransactionList p a =
    do { a \<leftarrow> set_next p 0 a;
         a \<leftarrow> (if pQueuedTransactionList a = 0 then Some (a\<lparr> pQueuedTransactionList := p \<rparr>)
              else set_next (pLastQueuedTransactionList a) p a);
         Some (a\<lparr> pLastQueuedTransactionList := p, NumQueuedTransactions := NumQueuedTransactions a + 1 \<rparr>) }"

text \<open>The pointer to the next entry is cleared before it is read.\<close>

definition RemoveQueuedTransationListHead :: "secondary \<Rightarrow> (nat \<times> secondary) option" where
  "RemoveQueuedTransationListHead a =
    (let p = pQueuedTransactionList a
     in if p = 0 then Some (0, a)
        else do { a \<leftarrow> set_next p 0 a;
                  n \<leftarrow> get_next p a;
                  Some (p, a\<lparr> pQueuedTransactionList := n, NumQueuedTransactions := NumQueuedTransactions a - 1 \<rparr>) })"

definition AddToPendingTransactionList :: "nat \<Rightarrow> secondary \<Rightarrow> secondary option" where
  "AddToPendingTransactionList p a =
    do { a \<leftarrow> set_next p 0 a;
         a \<leftarrow> (if pPendingTransactionList a = 0 then Some (a\<lparr> pPendingTransactionList := p \<rparr>)
              else set_next (pLastPendingTransactionList a) p a);
         Some (a\<lparr> pLastPendingTransactionList := p, NumPendingTransactions := NumPendingTransactions a + 1 \<rparr>) }"

definition MoveQueuedTransactionToPendingList :: "secondary \<Rightarrow> (bool \<times> secondary) option" where
  "MoveQueuedTransactionToPendingList a =
    do { (p, a) \<leftarrow> RemoveQueuedTransationListHead a;
         if p \<noteq> 0 then do { a \<leftarrow> AddToPendingTransactionList p a; Some (True, a) } else Some (False, a) }"

definition same_transaction :: "APP_TRANSACTION \<Rightarrow> APP_TRANSACTION \<Rightarrow> bool" where
  "same_transaction s t \<longleftrightarrow>
     TransactionNumber s = TransactionNumber t \<and> tv_sec (CreationTimeStamp s) = tv_sec (CreationTimeStamp t) \<and>
     tv_usec (CreationTimeStamp s) = tv_usec (CreationTimeStamp t)"

definition remove_pending :: "nat \<Rightarrow> nat \<Rightarrow> nat \<Rightarrow> secondary \<Rightarrow> secondary option" where
  "remove_pending pList next pLast a =
    do { a \<leftarrow> (if pList = pPendingTransactionList a then Some (a\<lparr> pPendingTransactionList := next \<rparr>)
              else set_next pLast next a);
         a \<leftarrow> (if pLast \<noteq> 0
              then do { n \<leftarrow> get_next pLast a; Some (if n = 0 then a\<lparr> pLastPendingTransactionList := pLast \<rparr> else a) }
              else Some a);
         let a = free_block pList a in Some (a\<lparr> NumPendingTransactions := NumPendingTransactions a - 1 \<rparr>) }"

partial_function (option) reconcile_loop ::
  "APP_TRANSACTION \<Rightarrow> nat \<Rightarrow> nat \<Rightarrow> secondary \<Rightarrow> (bool \<times> secondary) option" where
  [code]: "reconcile_loop t pList pLast a =
    (if pList = 0 then Some (False, a)
     else do { (s, n) \<leftarrow> store a pList;
               if same_transaction s t then do { a \<leftarrow> remove_pending pList n pLast a; Some (True, a) }
               else reconcile_loop t n pList a })"

text \<open>The transaction is the information field in the receive buffer.\<close>

definition ReconcileTransaction :: "secondary \<Rightarrow> (bool \<times> secondary) option" where
  "ReconcileTransaction a =
    (let (now, a) = gettimeofday a
     in do { a \<leftarrow> poke_rx (INFO_FIELD + 56) (time_bytes now) a;
             buf \<leftarrow> pRxBuffer a;
             reconcile_loop (transaction_at (drop INFO_FIELD buf)) (pPendingTransactionList a) 0 a })"

subsection \<open>Frames\<close>

definition send_short :: "u8 \<Rightarrow> secondary \<Rightarrow> (bool \<times> secondary) option" where
  "send_short ctrl a =
    do { a \<leftarrow> put_bytes [addr_filter (Rt56Params a)] (start_frame a);
         a \<leftarrow> put_bytes [ctrl] a;
         LoopModeSendLastFrame a }"

definition SendSIMRequest :: "secondary \<Rightarrow> (bool \<times> secondary) option" where
  "SendSIMRequest a = send_short SIM a"

definition SendDiscResponse :: "secondary \<Rightarrow> (bool \<times> secondary) option" where
  "SendDiscResponse a = send_short DISC a"

definition Nr_bits :: "secondary \<Rightarrow> u8" where
  "Nr_bits a = push_bit 5 (ReceiveCount a)"

definition Ns_bits :: "secondary \<Rightarrow> u8" where
  "Ns_bits a = push_bit 1 (SendCount a)"

text \<open>The loop over the queued transactions: the last one gets the final bit and releases the line.\<close>

partial_function (option) poll_loop :: "secondary \<Rightarrow> (bool \<times> secondary) option" where
  [code]: "poll_loop a =
    (let p = pQueuedTransactionList a
     in if p = 0 then Some (True, a)
        else do { (t, n) \<leftarrow> store a p;
                  a \<leftarrow> put_bytes [addr_filter (Rt56Params a)] (start_frame a);
                  a \<leftarrow> put_bytes [(Nr_bits a OR Ns_bits a) OR (if n = 0 then FINAL else 0)] a;
                  a \<leftarrow> put_bytes (transaction_bytes t n) a;
                  (ok, a) \<leftarrow> (if n \<noteq> 0 then SendFrame a else LoopModeSendLastFrame a);
                  if ok
                  then do { (_, a) \<leftarrow> MoveQueuedTransactionToPendingList a;
                            poll_loop (a\<lparr> SendCount := (SendCount a + 1) AND 7 \<rparr>) }
                  else Some (False, a) })"

definition DoPollResponse :: "secondary \<Rightarrow> (bool \<times> secondary) option" where
  "DoPollResponse a =
    (if pQueuedTransactionList a = 0 then send_short ((Nr_bits a OR RR) OR FINAL) a else poll_loop a)"

definition ProcessRxFrame :: "APP_TRANSACTION callback" where
  "ProcessRxFrame len a =
    do { buf \<leftarrow> pRxBuffer a;
         ctrl \<leftarrow> aget buf 1;
         if len = 2 \<and> ctrl = DISC
         then if bInitialized a
              then do { (ok, a) \<leftarrow> SendDiscResponse a; Some (False, if ok then a\<lparr> bInitialized := False \<rparr> else a) }
              else Some (False, a)
         else if \<not> bInitialized a
         then if len = 2 \<and> tst ctrl FINAL \<and> ctrl AND 0x0f = RR
              then do { (_, a) \<leftarrow> SendSIMRequest a; Some (False, a) }
              else if len = 3 \<and> ctrl = SIM
              then do { ts \<leftarrow> aset (Timers a) 0 (NewTransactionInterval a);
                        Some (False, a\<lparr> bInitialized := True, Timers := ts, SendCount := 0 \<rparr>) }
              else Some (True, a)
         else if len = 2 \<and> tst ctrl POLL then do { (_, a) \<leftarrow> DoPollResponse a; Some (False, a) }
         else if \<not> tst ctrl 1
         then do { request \<leftarrow> aget buf (INFO_FIELD + 1);
                   (_, a) \<leftarrow> (if request = 0 then ReconcileTransaction a else Some (True, a));
                   Some (\<not> tst ctrl FINAL, a) }
         else Some (True, a) }"

definition CheckForNewTransactions :: "secondary \<Rightarrow> (bool \<times> secondary) option" where
  "CheckForNewTransactions a =
    do { timer \<leftarrow> aget (Timers a) 0;
         if timer \<noteq> 0 then Some (True, a)
         else if NumTransactions a \<noteq> 0 \<and> LastTransactionNumber a \<ge> NumTransactions a
         then Some (True, a\<lparr> ShowedLimitHitMessage := True \<rparr>)
         else let t = \<lparr> Addr = addr_filter (Rt56Params a), Request = 1, TransactionNumber = LastTransactionNumber a + 1,
                        CreationTimeStamp = zero_time, PrimaryReceiptTimeStamp = zero_time, PrimaryTimeStamp = zero_time,
                        CompletionTimeStamp = zero_time \<rparr>;
                  (p, a) = new_block t a
              in if p = 0 then Some (False, a)
                 else let (now, a) = gettimeofday (a\<lparr> LastTransactionNumber := LastTransactionNumber a + 1 \<rparr>);
                          a = a\<lparr> store := (store a)(p \<mapsto> (t\<lparr> CreationTimeStamp := now \<rparr>, 0)) \<rparr>
                      in do { a \<leftarrow> AddToQueuedTransactionList p a;
                              ts \<leftarrow> aset (Timers a) 0 (NewTransactionInterval a);
                              Some (True, a\<lparr> Timers := ts \<rparr>) } }"

subsection \<open>Main loop\<close>

text \<open>Installing the handlers and the interval timer.\<close>

definition set_up_signals :: "handler \<Rightarrow> 'a APP_DATA \<Rightarrow> bool \<times> 'a APP_DATA" where
  "set_up_signals hdl a =
    (let (r, _, a) = call (Sigaction SIGALRM) a
     in if r \<noteq> 0 then (False, a)
        else let (r, _, a) = call (Sigaction SIGINT) a
             in if r \<noteq> 0 then (False, a)
                else let (r, _, a) = call Setitimer (a\<lparr> installed := hdl \<rparr>) in (r = 0, a))"

text \<open>Receiver, idle pattern and transmitter.\<close>

definition set_up_port :: "'a APP_DATA \<Rightarrow> bool \<times> 'a APP_DATA" where
  "set_up_port a =
    (let (ok, a) = EnableReceiver True a
     in if \<not> ok then (False, a)
        else let (ok, a) = SetIdle (TxIdle a) a in if \<not> ok then (False, a) else EnableTransmitter True a)"

partial_function (option) insertion_loop :: "u32 \<Rightarrow> secondary \<Rightarrow> (bool \<times> secondary) option" where
  [code]: "insertion_loop start a =
    (if start \<noteq> ic_rxabort (app_stats a) then Some (True, a)
     else let a = call_only Select_sleep a
          in if CheckUserExitRequest a then Some (False, a)
             else let (rc, a) = Rt56GetStats a
                  in if rc \<noteq> 0 then Some (False, a) else insertion_loop start a)"

partial_function (option) secondary_loop :: "secondary \<Rightarrow> secondary option" where
  [code]: "secondary_loop a =
    (if CheckUserExitRequest a then Some a
     else do { (_, a) \<leftarrow> CheckReceive (RxTimeout a) ProcessRxFrame a;
               a \<leftarrow> (if bInitialized a then do { (_, a) \<leftarrow> CheckForNewTransactions a; Some a } else Some a);
               secondary_loop a })"

definition SecondaryLoopTest :: "secondary \<Rightarrow> (bool \<times> secondary) option" where
  "SecondaryLoopTest a =
    (let (ok, a) = set_up_signals Secondary_handler a
     in if \<not> ok then Some (False, a)
        else let (rc, a) = Rt56GetStats a
             in if rc \<noteq> 0 then Some (False, a)
                else let start = ic_rxabort (app_stats a);
                         (ok, a) = set_up_port a
                     in if \<not> ok then Some (False, a)
                        else do { (ok, a) \<leftarrow> insertion_loop start a;
                                  if \<not> ok then Some (False, a)
                                  else do { a \<leftarrow> secondary_loop a;
                                            Some (True, snd (EnableReceiver False a)) } })"

text \<open>
  The programs: the profile named by the only argument, the resources, the test, and the way back. The result
  of the port counts as success when it is not 0.
\<close>

definition run_station :: "('a APP_DATA \<Rightarrow> (bool \<times> 'a APP_DATA) option) \<Rightarrow> nat \<Rightarrow> u8 \<Rightarrow> host \<Rightarrow> profile_file \<Rightarrow>
    stop + int \<times> 'a APP_DATA" where
  "run_station test argc fill h f =
    (if argc \<noteq> 2 then Inr (- 1, zero_app h)
     else case GetProfile h f no_profile of
            Inl e \<Rightarrow> Inl e
          | Inr (ok, a, p) \<Rightarrow>
              if \<not> ok then Inr (0, a)
              else let (ok, a) = AllocateResources fill a;
                       (r, a) = (if ok then AllocatePort a else (0, a))
                   in (case (if ok \<and> r \<noteq> 0 then test a else Some (True, a)) of
                         None \<Rightarrow> Inl Undefined
                       | Some (_, a) \<Rightarrow> Inr (0, snd (DeallocateResources (snd (DeallocatePort a))))))"

definition secondary_main :: "nat \<Rightarrow> u8 \<Rightarrow> host \<Rightarrow> profile_file \<Rightarrow> stop + int \<times> secondary" where
  "secondary_main = run_station SecondaryLoopTest"

section \<open>The primary station\<close>

text \<open>A queued request is the received frame.\<close>

type_synonym primary = "u8 list APP_DATA"

subsection \<open>Clients\<close>

definition client_index :: "u8 \<Rightarrow> primary \<Rightarrow> nat option" where
  "client_index addr a =
    (let k = length (takeWhile (\<lambda>c. client_Addr c \<noteq> addr) (pClientList a))
     in if k < length (pClientList a) then Some k else None)"

definition GetClientInfo :: "u8 \<Rightarrow> primary \<Rightarrow> CLIENT option" where
  "GetClientInfo addr a = map_option (\<lambda>k. pClientList a ! k) (client_index addr a)"

definition AllocateClient :: "u8 \<Rightarrow> primary \<Rightarrow> bool \<times> primary" where
  "AllocateClient addr a =
    (case client_index addr a of
       Some k \<Rightarrow>
         (True, a\<lparr> pClientList := (pClientList a)[k := (pClientList a ! k)\<lparr> client_Nr := 0, client_Ns := 0 \<rparr>] \<rparr>)
     | None \<Rightarrow>
         let (r, _, a) = call Malloc a
         in if r = 0 then (False, a)
            else (True, a\<lparr> pClientList := pClientList a @ [\<lparr> client_Addr = addr, client_Nr = 0, client_Ns = 0 \<rparr>] \<rparr>))"

definition DeallocateClient :: "u8 \<Rightarrow> primary \<Rightarrow> bool \<times> primary" where
  "DeallocateClient addr a =
    (case client_index addr a of
       Some k \<Rightarrow> (True, call_only (Free 0) (a\<lparr> pClientList := take k (pClientList a) @ drop (Suc k) (pClientList a) \<rparr>))
     | None \<Rightarrow> (True, a))"

subsection \<open>Queued requests\<close>

text \<open>
  A request of \<open>len\<close> bytes gets its time of receipt and is copied. When the first block cannot be allocated,
  the code reads through the null pointer.
\<close>

definition QueueTransaction :: "nat \<Rightarrow> primary \<Rightarrow> (bool \<times> primary) option" where
  "QueueTransaction len a =
    (let (m, _, a) = call Malloc a;
         (now, a) = gettimeofday a
     in do { a \<leftarrow> poke_rx (INFO_FIELD + 24) (time_bytes now) a;
             if m = 0 then None
             else do { buf \<leftarrow> pRxBuffer a;
                       let (p, a) = new_block (take len buf) a
                       in if p = 0 then Some (False, call_only (Free 0) a)
                          else do { a \<leftarrow> (if pQueuedTransactionList a = 0 then Some (a\<lparr> pQueuedTransactionList := p \<rparr>)
                                         else set_next (pLastQueuedTransactionList a) p a);
                                    Some (True, a\<lparr> pLastQueuedTransactionList := p,
                                                   NumQueuedTransactions := NumQueuedTransactions a + 1 \<rparr>) } } })"

definition remove_head :: "primary \<Rightarrow> primary option" where
  "remove_head a =
    (let p = pQueuedTransactionList a
     in if p = 0 then Some a
        else do { n \<leftarrow> get_next p a;
                  let a = free_block p (call_only (Free 0) (a\<lparr> pQueuedTransactionList := n \<rparr>))
                  in Some (a\<lparr> NumQueuedTransactions := NumQueuedTransactions a - 1 \<rparr>) })"

subsection \<open>Frames\<close>

definition SendSIMResponse :: "u8 \<Rightarrow> primary \<Rightarrow> (bool \<times> primary) option" where
  "SendSIMResponse addr a =
    do { a \<leftarrow> put_bytes [addr] (start_frame a); a \<leftarrow> put_bytes [SIM] a; a \<leftarrow> put_bytes [addr] a; SendFrame a }"

definition SendGeneralPoll :: "primary \<Rightarrow> (bool \<times> primary) option" where
  "SendGeneralPoll a =
    do { a \<leftarrow> put_bytes [BROADCAST_ADDR] (start_frame a); a \<leftarrow> put_bytes [POLL OR RR] a; SendFrame a }"

text \<open>The response to a request: its frame gets the time and is no longer a request.\<close>

definition answer_request :: "nat \<Rightarrow> u8 list \<Rightarrow> nat \<Rightarrow> primary \<Rightarrow> (bool \<times> primary) option" where
  "answer_request p frame k a =
    (let (now, a) = gettimeofday a
     in do { (_, n) \<leftarrow> store a p;
             frame \<leftarrow> overwrite (INFO_FIELD + 40) (time_bytes now) frame;
             frame \<leftarrow> overwrite (INFO_FIELD + 1) [0] frame;
             client \<leftarrow> aget (pClientList a) k;
             a \<leftarrow> put_bytes [frame ! 0] (start_frame (a\<lparr> store := (store a)(p \<mapsto> (frame, n)) \<rparr>));
             a \<leftarrow> put_bytes [push_bit 1 (client_Ns client)] a;
             let a = a\<lparr> pClientList := (pClientList a)[k := client\<lparr> client_Ns := (client_Ns client + 1) AND 7 \<rparr>] \<rparr>
             in if INFO_FIELD + TRANSACTION_SIZE \<le> length frame
                then do { a \<leftarrow> put_bytes (take TRANSACTION_SIZE (drop INFO_FIELD frame)) a; SendFrame a }
                else None })"

partial_function (option) response_loop :: "primary \<Rightarrow> primary option" where
  [code]: "response_loop a =
    (let p = pQueuedTransactionList a
     in if p = 0 then Some a
        else do { (frame, n) \<leftarrow> store a p;
                  addr \<leftarrow> aget frame 0;
                  case client_index addr a of
                    None \<Rightarrow> do { a \<leftarrow> remove_head a; response_loop a }
                  | Some k \<Rightarrow>
                      do { (sent, a) \<leftarrow> answer_request p frame k a;
                           if sent then do { a \<leftarrow> remove_head a; response_loop a } else Some a } })"

definition SendTransactionResponses :: "primary \<Rightarrow> (bool \<times> primary) option" where
  "SendTransactionResponses a =
    (let p = pQueuedTransactionList a
     in if p = 0 then Some (True, a)
        else do { n \<leftarrow> get_next p a;
                  let a = (if n \<noteq> 0 then snd (SetIdle HDLC_TXIDLE_FLAGS a) else a)
                  in do { a \<leftarrow> response_loop a;
                          (_, a) \<leftarrow> SendGeneralPoll a;
                          if n \<noteq> 0
                          then do { (_, a) \<leftarrow> wait_all_sent 10000 a; Some (True, snd (SetIdle HDLC_TXIDLE_ONES a)) }
                          else Some (True, a) } })"

definition ProcessRxFrames :: "u8 list callback" where
  "ProcessRxFrames len a =
    do { buf \<leftarrow> pRxBuffer a;
         addr \<leftarrow> aget buf 0;
         ctrl \<leftarrow> aget buf 1;
         if len = 2 \<and> ctrl = SIM
         then let (ok, a) = AllocateClient addr a
              in if ok then do { (_, a) \<leftarrow> SendSIMResponse addr a; Some (True, a) } else Some (True, a)
         else if len = 2 \<and> ctrl = DISC then Some (True, snd (DeallocateClient addr a))
         else if \<not> tst ctrl 1
         then case client_index addr a of
                None \<Rightarrow> Some (True, a)
              | Some _ \<Rightarrow>
                  do { request \<leftarrow> aget buf (INFO_FIELD + 1);
                       if request \<noteq> 0 then do { (_, a) \<leftarrow> QueueTransaction len a; Some (True, a) } else Some (True, a) }
         else Some (True, a) }"

definition ProcessRxDiscFrames :: "u8 list callback" where
  "ProcessRxDiscFrames len a =
    do { buf \<leftarrow> pRxBuffer a;
         addr \<leftarrow> aget buf 0;
         ctrl \<leftarrow> aget buf 1;
         Some (True, if len = 2 \<and> ctrl = DISC then snd (DeallocateClient addr a) else a) }"

subsection \<open>Main loop\<close>

definition CheckTransmit :: "primary \<Rightarrow> (bool \<times> primary) option" where
  "CheckTransmit a =
    do { timer \<leftarrow> aget (Timers a) 0;
         if timer \<noteq> 0 then Some (True, a)
         else do { (_, a) \<leftarrow> (if pQueuedTransactionList a \<noteq> 0 then SendTransactionResponses a else SendGeneralPoll a);
                   ts \<leftarrow> aset (Timers a) 0 (PollInterval a);
                   Some (True, a\<lparr> Timers := ts \<rparr>) } }"

partial_function (option) disc_loop :: "primary \<Rightarrow> (bool \<times> primary) option" where
  [code]: "disc_loop a =
    do { timer \<leftarrow> aget (Timers a) 0;
         (ok, a) \<leftarrow> (if timer = 0
                     then do { a \<leftarrow> put_bytes [BROADCAST_ADDR] (start_frame a);
                               a \<leftarrow> put_bytes [DISC] a;
                               (ok, a) \<leftarrow> SendFrame a;
                               if ok then do { ts \<leftarrow> aset (Timers a) 0 (PollInterval a); Some (True, a\<lparr> Timers := ts \<rparr>) }
                               else Some (False, a) }
                     else Some (True, a));
         if \<not> ok then Some (False, a)
         else do { (_, a) \<leftarrow> CheckReceive (RxTimeout a) ProcessRxDiscFrames a;
                   if pClientList a = [] then Some (True, a)
                   else if CheckUserExitRequest a then Some (False, a)
                   else disc_loop a } }"

definition DoDisc :: "primary \<Rightarrow> (bool \<times> primary) option" where
  "DoDisc a =
    do { ts \<leftarrow> aset (Timers a) 0 (PollInterval a); disc_loop (ResetUserExitRequest (a\<lparr> Timers := ts \<rparr>)) }"

partial_function (option) primary_loop :: "primary \<Rightarrow> primary option" where
  [code]: "primary_loop a =
    (if CheckUserExitRequest a then Some a
     else do { (_, a) \<leftarrow> CheckReceive (RxTimeout a) ProcessRxFrames a;
               (_, a) \<leftarrow> CheckTransmit a;
               primary_loop a })"

definition PrimaryLoopTest :: "primary \<Rightarrow> (bool \<times> primary) option" where
  "PrimaryLoopTest a =
    (let (ok, a) = set_up_signals Primary_handler a
     in if \<not> ok then Some (False, a)
        else let a = (if PollInterval a < RxTimeout a div 1000 then a\<lparr> RxTimeout := PollInterval a * 1000 \<rparr> else a);
                 (ok, a) = set_up_port a
             in if \<not> ok then Some (False, a)
                else do { a \<leftarrow> primary_loop a;
                          (_, a) \<leftarrow> DoDisc a;
                          Some (True, snd (EnableReceiver False a)) })"

definition primary_main :: "nat \<Rightarrow> u8 \<Rightarrow> host \<Rightarrow> profile_file \<Rightarrow> stop + int \<times> primary" where
  "primary_main = run_station PrimaryLoopTest"

end
