(* ===== verification/R56_Loopmode.thy ===== *)
theory R56_Loopmode
  imports R56_Stations
begin

text \<open>
  What the secondary station of the loop does with its transactions: calls and signals leave the lists alone,
  frames are sent as they are put together, lists in the store grow at their end, a poll sends and moves one
  transaction, and a transaction can be read back from its bytes.
\<close>

subsection \<open>Calls leave the lists and buffers alone\<close>

lemma tick_keeps:
  assumes "\<And>b x. f (b\<lparr> ElapsedMS := x \<rparr>) = f b" "\<And>b x. f (b\<lparr> Timers := x \<rparr>) = f b"
  shows "f (tick a) = f a"
  using assms by (simp add: tick_def Let_def)

lemma deliver_keeps:
  assumes "\<And>b x. f (b\<lparr> ElapsedMS := x \<rparr>) = f b" "\<And>b x. f (b\<lparr> Timers := x \<rparr>) = f b"
    "\<And>b x. f (b\<lparr> bExitApplication := x \<rparr>) = f b" "\<And>b x. f (b\<lparr> app_stats := x \<rparr>) = f b"
    "\<And>b x. f (b\<lparr> last_stats := x \<rparr>) = f b" "\<And>b. f (log_call Gstats b) = f b"
  shows "f (deliver ss a) = f a"
proof -
  have tick: "f (tick b) = f b" for b by (rule tick_keeps [OF assms(1,2)])
  have p: "f (primary_signal_handler s b) = f b" for s b
    using assms(3-6) tick by (cases s) (auto simp: primary_signal_handler_def get_stats_def Let_def)
  have s: "f (secondary_signal_handler s b) = f b" for s b
    using assms(3) tick by (cases s) (auto simp: secondary_signal_handler_def)
  have "f (fold primary_signal_handler ss b) = f b" "f (fold secondary_signal_handler ss b) = f b" for b
    by (induction ss arbitrary: b) (simp_all add: p s)
  then show ?thesis by (cases "installed a") (simp_all add: deliver_def)
qed

lemma call_keeps:
  assumes "\<And>b x. f (b\<lparr> ElapsedMS := x \<rparr>) = f b" "\<And>b x. f (b\<lparr> Timers := x \<rparr>) = f b"
    "\<And>b x. f (b\<lparr> bExitApplication := x \<rparr>) = f b" "\<And>b x. f (b\<lparr> app_stats := x \<rparr>) = f b"
    "\<And>b x. f (b\<lparr> last_stats := x \<rparr>) = f b" "\<And>b x. f (b\<lparr> hostlog := x \<rparr>) = f b"
  shows "f (snd (snd (call c a))) = f a"
  using deliver_keeps [of f, OF assms(1-5)] assms(6) by (simp add: call_def log_call_def Let_def)

lemma call_fields [simp]:
  "store (snd (snd (call c a))) = store a"
  "next_free (snd (snd (call c a))) = next_free a"
  "pQueuedTransactionList (snd (snd (call c a))) = pQueuedTransactionList a"
  "pLastQueuedTransactionList (snd (snd (call c a))) = pLastQueuedTransactionList a"
  "NumQueuedTransactions (snd (snd (call c a))) = NumQueuedTransactions a"
  "pPendingTransactionList (snd (snd (call c a))) = pPendingTransactionList a"
  "pLastPendingTransactionList (snd (snd (call c a))) = pLastPendingTransactionList a"
  "NumPendingTransactions (snd (snd (call c a))) = NumPendingTransactions a"
  "pClientList (snd (snd (call c a))) = pClientList a"
  "pTxBuffer (snd (snd (call c a))) = pTxBuffer a"
  "TxBufferSize (snd (snd (call c a))) = TxBufferSize a"
  "pRxBuffer (snd (snd (call c a))) = pRxBuffer a"
  "Rt56Params (snd (snd (call c a))) = Rt56Params a"
  "TxTimeout (snd (snd (call c a))) = TxTimeout a"
  "SendCount (snd (snd (call c a))) = SendCount a"
  "ReceiveCount (snd (snd (call c a))) = ReceiveCount a"
  "bInitialized (snd (snd (call c a))) = bInitialized a"
  "bPrimary (snd (snd (call c a))) = bPrimary a"
  "hDevice (snd (snd (call c a))) = hDevice a"
  "installed (snd (snd (call c a))) = installed a"
  "host (snd (snd (call c a))) = host a"
  by (rule call_keeps; simp)+

lemma call_only_eq: "call_only c a = snd (snd (call c a))"
  by (simp add: call_only_def case_prod_unfold)

lemma gettimeofday_eq: "gettimeofday a = (time_of_day (host a) (hostlog a @ [Gettimeofday]), snd (snd (call Gettimeofday a)))"
  by (simp add: gettimeofday_def call_only_eq)

lemma call_ret [simp]: "fst (call c a) = ret (host a) (hostlog a @ [c])"
  by (simp add: call_def log_call_def Let_def)

text \<open>What is put on the line: the frames, and the notices that one was the last.\<close>

fun on_line :: "hostcall \<Rightarrow> bool" where
  "on_line (Write_port _) = True"
| "on_line Looptxdone = True"
| "on_line _ = False"

definition line_log :: "'a APP_DATA \<Rightarrow> hostcall list" where
  "line_log a = filter on_line (hostlog a)"

lemma line_log_call [simp]: "line_log (snd (snd (call c a))) = line_log a @ (if on_line c then [c] else [])"
proof -
  have "line_log (deliver ss b) = line_log b" for ss and b :: "'a APP_DATA"
    by (rule deliver_keeps) (simp_all add: line_log_def log_call_def)
  then show ?thesis by (simp add: call_def Let_def log_call_def line_log_def)
qed

lemma tx_frame_call [simp]: "tx_frame (snd (snd (call c a))) = tx_frame a"
  by (simp add: tx_frame_def split: option.split)

subsection \<open>Sending\<close>

text \<open>A port that takes every frame and sends it, and memory enough.\<close>

definition port_ready :: "host \<Rightarrow> bool" where
  "port_ready h \<longleftrightarrow>
     (\<forall>l tv. ret h (l @ [Select_write tv]) > 0) \<and> (\<forall>l f. ret h (l @ [Write_port f]) > 0) \<and>
     (\<forall>l. ret h (l @ [Tcdrain]) \<ge> 0) \<and> (\<forall>l. ret h (l @ [Malloc]) \<noteq> 0)"

definition txbuf_ready :: "'a APP_DATA \<Rightarrow> bool" where
  "txbuf_ready a \<longleftrightarrow> (\<exists>buf. pTxBuffer a = Some buf \<and> length buf = 4096)"

text \<open>What sending does not change.\<close>

definition app_frame :: "'a APP_DATA \<Rightarrow> 'a APP_DATA \<Rightarrow> bool" where
  "app_frame a b \<longleftrightarrow>
     store b = store a \<and> next_free b = next_free a \<and> pQueuedTransactionList b = pQueuedTransactionList a \<and>
     pLastQueuedTransactionList b = pLastQueuedTransactionList a \<and> NumQueuedTransactions b = NumQueuedTransactions a \<and>
     pPendingTransactionList b = pPendingTransactionList a \<and>
     pLastPendingTransactionList b = pLastPendingTransactionList a \<and>
     NumPendingTransactions b = NumPendingTransactions a \<and> pClientList b = pClientList a \<and>
     pRxBuffer b = pRxBuffer a \<and>
     Rt56Params b = Rt56Params a \<and> TxTimeout b = TxTimeout a \<and> SendCount b = SendCount a \<and>
     ReceiveCount b = ReceiveCount a \<and> bInitialized b = bInitialized a \<and> bPrimary b = bPrimary a \<and>
     hDevice b = hDevice a \<and> installed b = installed a \<and> host b = host a \<and> (txbuf_ready a \<longrightarrow> txbuf_ready b)"

lemma app_frame_refl [simp]: "app_frame a a"
  by (simp add: app_frame_def)

lemma app_frame_call [simp]: "app_frame a (snd (snd (call c a)))"
  by (simp add: app_frame_def txbuf_ready_def)

lemma app_frame_trans: "app_frame a b \<Longrightarrow> app_frame b c \<Longrightarrow> app_frame a c"
  by (simp add: app_frame_def)

lemma send_frame:
  assumes "port_ready (host a)"
  shows "\<exists>b. SendFrame a = Some (True, b) \<and> app_frame a b \<and> line_log b = line_log a @ [Write_port (tx_frame a)]"
proof -
  define b where "b = snd (snd (call Gettimeofday a))"
  define tv where "tv = of_ms (sint (TxTimeout a))"
  define c where "c = snd (snd (call (Select_write tv) b))"
  define d where "d = snd (snd (call (Write_port (tx_frame a)) c))"
  have r: "ret (host a) (hostlog b @ [Select_write tv]) > 0" "ret (host a) (hostlog c @ [Write_port (tx_frame a)]) > 0"
    using assms by (simp_all add: port_ready_def)
  have h: "host b = host a" "host c = host a" by (simp_all add: b_def c_def)
  have s: "select_write tv t tv b = Some (ret (host a) (hostlog b @ [Select_write tv]),
      time_left (host b) (hostlog b @ [Select_write tv]), c)" for t
    using r(1) h by (subst select_write.simps) (simp add: c_def case_prod_unfold Let_def)
  have "write_again tv t (tx_frame a) tv b = Some (ret (host a) (hostlog c @ [Write_port (tx_frame a)]), d)" for t
    using r h s [of t] by (subst write_again.simps) (simp add: d_def case_prod_unfold Let_def)
  then have "SendFrame a = Some (True, d)"
    using r(2) by (simp add: SendFrame_def write_timed_def gettimeofday_eq b_def tv_def Let_def)
  moreover have "app_frame a d"
    unfolding d_def c_def b_def by (intro app_frame_trans [OF app_frame_trans [OF app_frame_call app_frame_call] app_frame_call])
  moreover have "line_log d = line_log a @ [Write_port (tx_frame a)]" by (simp add: d_def c_def b_def)
  ultimately show ?thesis by blast
qed

lemma send_last_frame:
  assumes "port_ready (host a)"
  shows "\<exists>b. LoopModeSendLastFrame a = Some (True, b) \<and> app_frame a b \<and>
    line_log b = line_log a @ [Write_port (tx_frame a), Looptxdone]"
proof -
  from send_frame [OF assms] obtain b where b: "SendFrame a = Some (True, b)" "app_frame a b"
    "line_log b = line_log a @ [Write_port (tx_frame a)]" by blast
  have "app_frame a (call_only Looptxdone b)" unfolding call_only_eq by (rule app_frame_trans [OF b(2) app_frame_call])
  then show ?thesis using b by (simp add: LoopModeSendLastFrame_def call_only_eq)
qed

lemma put_more:
  assumes "txbuf_ready a" "TxBufferSize a + length bs \<le> 4096"
  shows "\<exists>b. put_bytes bs a = Some b \<and> app_frame a b \<and> tx_frame b = tx_frame a @ bs \<and>
    TxBufferSize b = TxBufferSize a + length bs \<and> line_log b = line_log a"
  using assms by (auto simp: put_bytes_def txbuf_ready_def app_frame_def tx_frame_def line_log_def)

lemma start_frame_facts [simp]:
  "tx_frame (start_frame a) = []" "TxBufferSize (start_frame a) = 0" "txbuf_ready (start_frame a) = txbuf_ready a"
  "app_frame a (start_frame a)" "line_log (start_frame a) = line_log a"
  by (simp_all add: start_frame_def tx_frame_def txbuf_ready_def app_frame_def line_log_def split: option.split)

text \<open>A frame of address, control byte and information field.\<close>

lemma put_header:
  assumes "txbuf_ready a"
  shows "\<exists>b c. put_bytes [addr] (start_frame a) = Some b \<and> app_frame a b \<and> line_log b = line_log a \<and>
    put_bytes [ctrl] b = Some c \<and> app_frame b c \<and> tx_frame c = [addr, ctrl] \<and> TxBufferSize c = 2 \<and> line_log c = line_log a"
proof -
  obtain b where b: "put_bytes [addr] (start_frame a) = Some b" "app_frame (start_frame a) b" "tx_frame b = [addr]"
    "TxBufferSize b = 1" "line_log b = line_log a"
    using put_more [of "start_frame a" "[addr]"] assms by auto
  have "txbuf_ready b" using b(2) assms by (simp add: app_frame_def)
  from put_more [OF this, of "[ctrl]"] b obtain c where "put_bytes [ctrl] b = Some c" "app_frame b c" "tx_frame c = [addr, ctrl]"
    "TxBufferSize c = 2" "line_log c = line_log a" by auto
  then show ?thesis using b app_frame_trans [OF start_frame_facts(4) b(2)] by blast
qed

subsection \<open>Lists in the store\<close>

text \<open>The entries, each with its address, from one pointer to another.\<close>

primrec path :: "'a store \<Rightarrow> nat \<Rightarrow> (nat \<times> 'a) list \<Rightarrow> nat \<Rightarrow> bool" where
  "path s p [] q \<longleftrightarrow> p = q"
| "path s p (x # xs) q \<longleftrightarrow> p = fst x \<and> p \<noteq> 0 \<and> (\<exists>n. s p = Some (snd x, n) \<and> path s n xs q)"

lemma path_append: "path s p (xs @ ys) q \<longleftrightarrow> (\<exists>r. path s p xs r \<and> path s r ys q)"
  by (induction xs arbitrary: p) auto

lemma path_update [simp]: "a \<notin> fst ` set xs \<Longrightarrow> path (s(a := v)) p xs q = path s p xs q"
  by (induction xs arbitrary: p) auto

lemma path_null: "path s 0 xs 0 \<longleftrightarrow> xs = []"
  by (cases xs) auto

text \<open>A list with its head and tail pointers.\<close>

definition listed :: "'a store \<Rightarrow> nat \<Rightarrow> nat \<Rightarrow> (nat \<times> 'a) list \<Rightarrow> bool" where
  "listed s h t xs \<longleftrightarrow> path s h xs 0 \<and> distinct (map fst xs) \<and> (xs \<noteq> [] \<longrightarrow> t = fst (last xs))"

lemma listed_Nil [simp]: "listed s h t [] \<longleftrightarrow> h = 0"
  by (simp add: listed_def)

lemma listed_update [simp]: "a \<notin> fst ` set xs \<Longrightarrow> listed (s(a := v)) h t xs = listed s h t xs"
  by (simp add: listed_def)

text \<open>Adding an entry behind the last one.\<close>

lemma listed_snoc:
  assumes l: "listed s h t xs" and p: "p \<noteq> 0" "p \<notin> fst ` set xs" "s p = Some (v, 0)"
  shows "xs = [] \<Longrightarrow> listed s p p [(p, v)]"
    "xs \<noteq> [] \<Longrightarrow> h \<noteq> 0 \<and> t \<noteq> p \<and> (\<exists>u n. s t = Some (u, n) \<and> listed (s(t \<mapsto> (u, p))) h p (xs @ [(p, v)]))"
proof -
  show "xs = [] \<Longrightarrow> listed s p p [(p, v)]" using p by (simp add: listed_def)
  assume ne: "xs \<noteq> []"
  then obtain ys u where xs: "xs = ys @ [(t, u)]" using l by (cases xs rule: rev_cases) (auto simp: listed_def)
  have t: "path s h ys t" "t \<noteq> 0" "s t = Some (u, 0)" "t \<notin> fst ` set ys" "h \<noteq> 0"
    using l by (cases ys, auto simp: listed_def xs path_append)+
  then have "listed (s(t \<mapsto> (u, p))) h p (xs @ [(p, v)])"
    using p l by (auto simp: listed_def xs path_append)
  then show "h \<noteq> 0 \<and> t \<noteq> p \<and> (\<exists>u n. s t = Some (u, n) \<and> listed (s(t \<mapsto> (u, p))) h p (xs @ [(p, v)]))"
    using t p xs by auto
qed

subsection \<open>The lists of the secondary station\<close>

definition queued :: "secondary \<Rightarrow> (nat \<times> APP_TRANSACTION) list \<Rightarrow> bool" where
  "queued a xs \<longleftrightarrow> listed (store a) (pQueuedTransactionList a) (pLastQueuedTransactionList a) xs"

definition pending :: "secondary \<Rightarrow> (nat \<times> APP_TRANSACTION) list \<Rightarrow> bool" where
  "pending a xs \<longleftrightarrow> listed (store a) (pPendingTransactionList a) (pLastPendingTransactionList a) xs"

lemma app_frame_lists:
  assumes "app_frame a b"
  shows "queued b xs = queued a xs" "pending b xs = pending a xs"
  using assms by (simp_all add: app_frame_def queued_def pending_def)

lemma remove_queued:
  assumes "queued a ((p, v) # xs)"
  shows "RemoveQueuedTransationListHead a =
    Some (p, a\<lparr> store := (store a)(p \<mapsto> (v, 0)), pQueuedTransactionList := 0,
                NumQueuedTransactions := NumQueuedTransactions a - 1 \<rparr>)"
  using assms by (auto simp: RemoveQueuedTransationListHead_def queued_def listed_def set_next_def get_next_def Let_def)

lemma add_pending:
  assumes q: "pending a ps" and p: "store a p = Some (v, n)" "p \<noteq> 0" "p \<notin> fst ` set ps"
  shows "\<exists>s h. AddToPendingTransactionList p a =
      Some (a\<lparr> store := s, pPendingTransactionList := h, pLastPendingTransactionList := p,
               NumPendingTransactions := NumPendingTransactions a + 1 \<rparr>) \<and> listed s h p (ps @ [(p, v)])"
proof -
  define s where "s = (store a)(p \<mapsto> (v, 0))"
  have l: "listed s (pPendingTransactionList a) (pLastPendingTransactionList a) ps" "s p = Some (v, 0)"
    using q p by (simp_all add: s_def pending_def)
  have n: "set_next p 0 a = Some (a\<lparr> store := s \<rparr>)" using p by (simp add: set_next_def s_def)
  show ?thesis
  proof (cases "ps = []")
    case True
    then have "pPendingTransactionList a = 0" using q by (simp add: pending_def)
    then show ?thesis using n listed_snoc(1) [OF l(1) p(2,3) l(2) True] True
      by (auto simp: AddToPendingTransactionList_def)
  next
    case False
    from listed_snoc(2) [OF l(1) p(2,3) l(2) False] obtain u m where
      u: "pPendingTransactionList a \<noteq> 0" "s (pLastPendingTransactionList a) = Some (u, m)"
        "listed (s(pLastPendingTransactionList a \<mapsto> (u, p))) (pPendingTransactionList a) p (ps @ [(p, v)])" by blast
    then have "set_next (pLastPendingTransactionList a) p (a\<lparr> store := s \<rparr>) =
        Some (a\<lparr> store := s(pLastPendingTransactionList a \<mapsto> (u, p)) \<rparr>)" by (simp add: set_next_def)
    then show ?thesis
      by (intro exI [of _ "s(pLastPendingTransactionList a \<mapsto> (u, p))"] exI [of _ "pPendingTransactionList a"])
        (use u in \<open>simp add: AddToPendingTransactionList_def n\<close>)
  qed
qed

lemma move_queued:
  assumes q: "queued a ((p, v) # xs)" "pending a ps" and d: "p \<notin> fst ` set ps"
  shows "\<exists>b. MoveQueuedTransactionToPendingList a = Some (True, b) \<and> queued b [] \<and> pending b (ps @ [(p, v)]) \<and>
    NumQueuedTransactions b = NumQueuedTransactions a - 1 \<and> NumPendingTransactions b = NumPendingTransactions a + 1 \<and>
    line_log b = line_log a \<and> SendCount b = SendCount a"
proof -
  define c where "c = a\<lparr> store := (store a)(p \<mapsto> (v, 0)), pQueuedTransactionList := 0,
      NumQueuedTransactions := NumQueuedTransactions a - 1 \<rparr>"
  have p: "p \<noteq> 0" using q(1) by (auto simp: queued_def listed_def)
  have "pending c ps" "store c p = Some (v, 0)" using q(2) d by (simp_all add: c_def pending_def)
  from add_pending [OF this p d] obtain s h where
    "AddToPendingTransactionList p c = Some (c\<lparr> store := s, pPendingTransactionList := h, pLastPendingTransactionList := p,
        NumPendingTransactions := NumPendingTransactions c + 1 \<rparr>)" "listed s h p (ps @ [(p, v)])" by blast
  then show ?thesis
    by (simp add: MoveQueuedTransactionToPendingList_def remove_queued [OF q(1)] p c_def queued_def pending_def line_log_def)
qed

subsection \<open>Answering a poll\<close>

lemma length_transaction_bytes [simp]: "length (transaction_bytes t n) = 80"
  by (simp add: transaction_bytes_def bytes4_def bytes8_def time_bytes_def)

text \<open>The first round of the loop, as far as the frame: the final bit only for the last transaction.\<close>

definition poll_frame :: "secondary \<Rightarrow> APP_TRANSACTION \<Rightarrow> nat \<Rightarrow> u8 list" where
  "poll_frame a t n =
     [addr_filter (Rt56Params a), (Nr_bits a OR Ns_bits a) OR (if n = 0 then FINAL else 0)] @ transaction_bytes t n"

lemma poll_step:
  assumes ready: "port_ready (host a)" "txbuf_ready a" and q: "queued a ((p, t) # xs)" "pending a ps" "p \<notin> fst ` set ps"
  shows "\<exists>b n. store a p = Some (t, n) \<and> (n = 0 \<longleftrightarrow> xs = []) \<and> (xs \<noteq> [] \<longrightarrow> n = fst (hd xs)) \<and>
    poll_loop a = poll_loop (b\<lparr> SendCount := (SendCount b + 1) AND 7 \<rparr>) \<and> queued b [] \<and> pending b (ps @ [(p, t)]) \<and>
    NumQueuedTransactions b = NumQueuedTransactions a - 1 \<and> NumPendingTransactions b = NumPendingTransactions a + 1 \<and>
    line_log b = line_log a @ Write_port (poll_frame a t n) # (if n = 0 then [Looptxdone] else [])"
proof -
  obtain n where n: "pQueuedTransactionList a = p" "p \<noteq> 0" "store a p = Some (t, n)" "path (store a) n xs 0"
    using q(1) by (auto simp: queued_def listed_def)
  have nx: "n = 0 \<longleftrightarrow> xs = []" "xs \<noteq> [] \<longrightarrow> n = fst (hd xs)" using n(4) by (cases xs; auto)+
  define ctrl where "ctrl = (Nr_bits a OR Ns_bits a) OR (if n = 0 then FINAL else 0)"
  from put_header [OF ready(2), of "addr_filter (Rt56Params a)" ctrl] obtain b c where
    b: "put_bytes [addr_filter (Rt56Params a)] (start_frame a) = Some b" "app_frame a b" and
    c: "put_bytes [ctrl] b = Some c" "app_frame b c" "tx_frame c = [addr_filter (Rt56Params a), ctrl]" "TxBufferSize c = 2"
      "line_log c = line_log a" by blast
  have bits: "Nr_bits b = Nr_bits a" "Ns_bits b = Ns_bits a" using b(2) by (simp_all add: app_frame_def Nr_bits_def Ns_bits_def)
  have ac: "app_frame a c" by (rule app_frame_trans [OF b(2) c(2)])
  then have "txbuf_ready c" using ready(2) by (simp add: app_frame_def)
  from put_more [OF this, of "transaction_bytes t n"] c(4) obtain d where
    d: "put_bytes (transaction_bytes t n) c = Some d" "app_frame c d" "tx_frame d = tx_frame c @ transaction_bytes t n"
      "line_log d = line_log c" by auto
  have ad: "app_frame a d" by (rule app_frame_trans [OF ac d(2)])
  then have "port_ready (host d)" using ready(1) by (simp add: app_frame_def)
  have frame: "tx_frame d = poll_frame a t n" by (simp add: d(3) c(3) poll_frame_def ctrl_def)
  obtain e where e: "(if n \<noteq> 0 then SendFrame d else LoopModeSendLastFrame d) = Some (True, e)" "app_frame d e"
    "line_log e = line_log a @ Write_port (poll_frame a t n) # (if n = 0 then [Looptxdone] else [])"
    using send_frame [OF \<open>port_ready (host d)\<close>] send_last_frame [OF \<open>port_ready (host d)\<close>]
    by (cases "n = 0") (auto simp: frame d(4) c(5))
  have ae: "app_frame a e" by (rule app_frame_trans [OF ad e(2)])
  have "queued e ((p, t) # xs)" "pending e ps" using q by (simp_all add: app_frame_lists [OF ae])
  from move_queued [OF this q(3)] obtain g where
    g: "MoveQueuedTransactionToPendingList e = Some (True, g)" "queued g []" "pending g (ps @ [(p, t)])"
      "NumQueuedTransactions g = NumQueuedTransactions e - 1" "NumPendingTransactions g = NumPendingTransactions e + 1"
      "line_log g = line_log e" by blast
  have "poll_loop a = poll_loop (g\<lparr> SendCount := (SendCount g + 1) AND 7 \<rparr>)"
    using b(1) c(1) d(1) e(1) g(1) n by (subst poll_loop.simps) (simp add: Let_def bits ctrl_def)
  then show ?thesis using n nx g ae e(3) by (auto simp: app_frame_def)
qed

lemma poll_response:
  assumes ready: "port_ready (host a)" "txbuf_ready a" and q: "queued a ((p, t) # xs)" "pending a ps" "p \<notin> fst ` set ps"
  shows "\<exists>b. DoPollResponse a = Some (True, b) \<and> queued b [] \<and> pending b (ps @ [(p, t)]) \<and>
    NumQueuedTransactions b = NumQueuedTransactions a - 1 \<and> NumPendingTransactions b = NumPendingTransactions a + 1 \<and>
    line_log b = line_log a @
      (if xs = [] then [Write_port (poll_frame a t 0), Looptxdone] else [Write_port (poll_frame a t (fst (hd xs)))])"
proof -
  from poll_step [OF ready q] obtain b n where b: "store a p = Some (t, n)" "n = 0 \<longleftrightarrow> xs = []" "xs \<noteq> [] \<longrightarrow> n = fst (hd xs)"
    "poll_loop a = poll_loop (b\<lparr> SendCount := (SendCount b + 1) AND 7 \<rparr>)" "queued b []" "pending b (ps @ [(p, t)])"
    "NumQueuedTransactions b = NumQueuedTransactions a - 1" "NumPendingTransactions b = NumPendingTransactions a + 1"
    "line_log b = line_log a @ Write_port (poll_frame a t n) # (if n = 0 then [Looptxdone] else [])"
    by (elim exE conjE) (rule that)
  have "pQueuedTransactionList a \<noteq> 0" using q(1) by (auto simp: queued_def listed_def)
  moreover have "poll_loop (b\<lparr> SendCount := k \<rparr>) = Some (True, b\<lparr> SendCount := k \<rparr>)" for k
    using b(5) by (subst poll_loop.simps) (simp add: queued_def)
  ultimately have "DoPollResponse a = Some (True, b\<lparr> SendCount := (SendCount b + 1) AND 7 \<rparr>)"
    using b(4) by (simp add: DoPollResponse_def)
  then show ?thesis using b by (auto simp: queued_def pending_def line_log_def)
qed

subsection \<open>Transactions as bytes\<close>

lemma byte_below:
  fixes v :: "'a::len word"
  shows "ucast (ucast (drop_bit k v) :: u8) OR push_bit 8 (drop_bit (k + 8) v) = drop_bit k v"
proof (rule bit_word_eqI)
  fix n assume "n < LENGTH('a)"
  then show "bit (ucast (ucast (drop_bit k v) :: u8) OR push_bit 8 (drop_bit (k + 8) v)) n = bit (drop_bit k v) n"
    by (cases "n < 8") (simp_all add: bit_simps)
qed

lemma lowest_byte: "ucast (ucast v :: u8) OR push_bit 8 (drop_bit 8 v) = (v :: 'a::len word)"
  using byte_below [of 0 v] by simp

lemma drop_all: "drop_bit LENGTH('a) (v :: 'a::len word) = 0"
  by (rule bit_word_eqI) (simp add: bit_simps)

lemma word4_bytes [simp]: "word4 (bytes4 v @ rest) = v"
proof -
  have "word4 (bytes4 v @ rest) = ucast (ucast (drop_bit 0 v) :: u8) OR push_bit 8 (ucast (ucast (drop_bit 8 v) :: u8) OR
    push_bit 8 (ucast (ucast (drop_bit (8 + 8) v) :: u8) OR push_bit 8 (ucast (ucast (drop_bit (8 + 8 + 8) v) :: u8) OR
    push_bit 8 (drop_bit (8 + 8 + 8 + 8) v))))"
    using drop_all [of v] by (simp add: word4_def bytes4_def upt_rec)
  also have "\<dots> = v" unfolding byte_below using lowest_byte [of v] by simp
  finally show ?thesis .
qed

lemma word8_bytes [simp]: "word8 (bytes8 v @ rest) = v"
proof -
  have "word8 (bytes8 v @ rest) = ucast (ucast (drop_bit 0 v) :: u8) OR push_bit 8 (ucast (ucast (drop_bit 8 v) :: u8) OR
    push_bit 8 (ucast (ucast (drop_bit (8 + 8) v) :: u8) OR push_bit 8 (ucast (ucast (drop_bit (8 + 8 + 8) v) :: u8) OR
    push_bit 8 (ucast (ucast (drop_bit (8 + 8 + 8 + 8) v) :: u8) OR push_bit 8 (ucast (ucast (drop_bit (8 + 8 + 8 + 8 + 8) v) :: u8) OR
    push_bit 8 (ucast (ucast (drop_bit (8 + 8 + 8 + 8 + 8 + 8) v) :: u8) OR
    push_bit 8 (ucast (ucast (drop_bit (8 + 8 + 8 + 8 + 8 + 8 + 8) v) :: u8) OR
    push_bit 8 (drop_bit (8 + 8 + 8 + 8 + 8 + 8 + 8 + 8) v))))))))"
    using drop_all [of v] by (simp add: word8_def bytes8_def upt_rec)
  also have "\<dots> = v" unfolding byte_below using lowest_byte [of v] by simp
  finally show ?thesis .
qed

lemma length_bytes [simp]: "length (bytes4 v) = 4" "length (bytes8 w) = 8" "length (time_bytes t) = 16"
  by (simp_all add: bytes4_def bytes8_def time_bytes_def)

lemma time_at_bytes: "length xs = k \<Longrightarrow> time_at k (xs @ time_bytes t @ rest) = t"
  by (cases t) (simp add: time_at_def time_bytes_def)

lemma time_at_skip: "length xs \<le> k \<Longrightarrow> time_at k (xs @ ys) = time_at (k - length xs) ys"
  by (simp add: time_at_def)

lemma time_at_Cons: "time_at (numeral k) (x # xs) = time_at (pred_numeral k) xs"
  by (simp add: time_at_def numeral_eq_Suc)

lemma transaction_at_bytes: "transaction_at (transaction_bytes t n @ rest) = t"
  using time_at_bytes [of "[]" 0 "CreationTimeStamp t"] time_at_bytes [of "[]" 0 "PrimaryReceiptTimeStamp t"]
    time_at_bytes [of "[]" 0 "PrimaryTimeStamp t"] time_at_bytes [of "[]" 0 "CompletionTimeStamp t"]
  by (cases t) (simp add: transaction_at_def transaction_bytes_def time_at_skip time_at_Cons)

lemma overwrite_middle:
  "length xs = k \<Longrightarrow> length ys = length bs \<Longrightarrow> overwrite k bs (xs @ ys @ zs) = Some (xs @ bs @ zs)"
  by (simp add: overwrite_def)

text \<open>Stamping the transaction in a frame.\<close>

lemma frame_stamps:
  assumes "length hd2 = 2"
  shows
    "overwrite (INFO_FIELD + 24) (time_bytes now) (hd2 @ transaction_bytes t n @ rest) =
       Some (hd2 @ transaction_bytes (t\<lparr> PrimaryReceiptTimeStamp := now \<rparr>) n @ rest)"
    "overwrite (INFO_FIELD + 40) (time_bytes now) (hd2 @ transaction_bytes t n @ rest) =
       Some (hd2 @ transaction_bytes (t\<lparr> PrimaryTimeStamp := now \<rparr>) n @ rest)"
    "overwrite (INFO_FIELD + 56) (time_bytes now) (hd2 @ transaction_bytes t n @ rest) =
       Some (hd2 @ transaction_bytes (t\<lparr> CompletionTimeStamp := now \<rparr>) n @ rest)"
    "overwrite (INFO_FIELD + 1) [0] (hd2 @ transaction_bytes t n @ rest) =
       Some (hd2 @ transaction_bytes (t\<lparr> Request := 0 \<rparr>) n @ rest)"
  using assms
    overwrite_middle [of "hd2 @ [Addr t, Request t, 0, 0] @ bytes4 (TransactionNumber t) @ time_bytes (CreationTimeStamp t)" 26
      "time_bytes (PrimaryReceiptTimeStamp t)" "time_bytes now"
      "time_bytes (PrimaryTimeStamp t) @ time_bytes (CompletionTimeStamp t) @ bytes8 (of_nat n) @ rest"]
    overwrite_middle [of "hd2 @ [Addr t, Request t, 0, 0] @ bytes4 (TransactionNumber t) @ time_bytes (CreationTimeStamp t) @
      time_bytes (PrimaryReceiptTimeStamp t)" 42 "time_bytes (PrimaryTimeStamp t)" "time_bytes now"
      "time_bytes (CompletionTimeStamp t) @ bytes8 (of_nat n) @ rest"]
    overwrite_middle [of "hd2 @ [Addr t, Request t, 0, 0] @ bytes4 (TransactionNumber t) @ time_bytes (CreationTimeStamp t) @
      time_bytes (PrimaryReceiptTimeStamp t) @ time_bytes (PrimaryTimeStamp t)" 58 "time_bytes (CompletionTimeStamp t)"
      "time_bytes now" "bytes8 (of_nat n) @ rest"]
    overwrite_middle [of "hd2 @ [Addr t]" 3 "[Request t]" "[0]" "[0, 0] @ bytes4 (TransactionNumber t) @
      time_bytes (CreationTimeStamp t) @ time_bytes (PrimaryReceiptTimeStamp t) @ time_bytes (PrimaryTimeStamp t) @
      time_bytes (CompletionTimeStamp t) @ bytes8 (of_nat n) @ rest"]
  by (simp_all add: transaction_bytes_def)

end
