(* ===== verification/R56_Exchange.thy ===== *)
theory R56_Exchange
  imports R56_Loopmode
begin

text \<open>
  The exchange between the stations of the loop: the secondary takes a response out of its list of pending
  transactions, the primary queues requests first-in first-out and answers them, and a transaction makes
  its way from its station to the primary and back.
\<close>

subsection \<open>Reconciling a response\<close>

text \<open>The search stops at the first match, with the entry before it at hand.\<close>

lemma reconcile_find:
  assumes "path (store a) r (xs @ (p, s) # ys) 0" "\<forall>x\<in>set xs. \<not> same_transaction (snd x) t" "same_transaction s t"
  shows "reconcile_loop t r l a = reconcile_loop t p (if xs = [] then l else fst (last xs)) a"
  using assms
proof (induction xs arbitrary: r l)
  case (Cons x xs)
  obtain n where n: "r = fst x" "r \<noteq> 0" "store a r = Some (snd x, n)" "path (store a) n (xs @ (p, s) # ys) 0" using Cons(2) by auto
  have "reconcile_loop t r l a = reconcile_loop t n r a" using n Cons(3) by (subst reconcile_loop.simps) simp
  then show ?case using Cons(1) [OF n(4) _ Cons(4), of r] Cons(3) n(1) by simp
qed auto

lemma txbuf_ready_simps [simp]:
  "txbuf_ready (snd (snd (call c a))) = txbuf_ready a" "txbuf_ready (a\<lparr> pQueuedTransactionList := n \<rparr>) = txbuf_ready a"
  "line_log (a\<lparr> pQueuedTransactionList := n \<rparr>) = line_log a"
  by (simp_all add: txbuf_ready_def line_log_def)

lemma free_block_facts [simp]:
  "store (free_block p a) = (store a)(p := None)"
  "pPendingTransactionList (free_block p a) = pPendingTransactionList a"
  "pLastPendingTransactionList (free_block p a) = pLastPendingTransactionList a"
  "NumPendingTransactions (free_block p a) = NumPendingTransactions a"
  "pQueuedTransactionList (free_block p a) = pQueuedTransactionList a"
  "pLastQueuedTransactionList (free_block p a) = pLastQueuedTransactionList a"
  "NumQueuedTransactions (free_block p a) = NumQueuedTransactions a"
  "pClientList (free_block p a) = pClientList a" "next_free (free_block p a) = next_free a"
  "txbuf_ready (free_block p a) = txbuf_ready a" "host (free_block p a) = host a"
  "Rt56Params (free_block p a) = Rt56Params a" "line_log (free_block p a) = line_log a"
  by (simp_all add: free_block_def call_only_eq Let_def txbuf_ready_def line_log_def)
    (use line_log_call [of "Free p" a] in \<open>simp add: line_log_def\<close>)

lemma remove_pending_first:
  assumes "pending a ((p, s) # ys)" "store a p = Some (s, n)"
  shows "\<exists>b. remove_pending p n 0 a = Some b \<and> pending b ys \<and> NumPendingTransactions b = NumPendingTransactions a - 1"
  using assms by (auto simp: remove_pending_def pending_def listed_def Let_def)

lemma remove_pending_later:
  assumes l: "pending a (xs @ (p, s) # ys)" "xs \<noteq> []" and n: "store a p = Some (s, n)"
  shows "\<exists>b. remove_pending p n (fst (last xs)) a = Some b \<and> pending b (xs @ ys) \<and>
    NumPendingTransactions b = NumPendingTransactions a - 1"
proof -
  obtain zs l u where xs: "xs = zs @ [(l, u)]" using l(2) by (cases xs rule: rev_cases) auto
  have d: "path (store a) (pPendingTransactionList a) zs l" "l \<noteq> 0" "store a l = Some (u, p)" "path (store a) n ys 0"
    "distinct (map fst (zs @ (l, u) # (p, s) # ys))" "p \<noteq> 0" "pPendingTransactionList a \<noteq> p"
    using l(1) n by (cases zs, auto simp: pending_def listed_def xs path_append)+
  have set_n: "set_next l n a = Some (a\<lparr> store := (store a)(l \<mapsto> (u, n)) \<rparr>)" using d(3) by (simp add: set_next_def)
  define b where "b = (free_block p ((a\<lparr> store := (store a)(l \<mapsto> (u, n)) \<rparr>)
      \<lparr> pLastPendingTransactionList := (if n = 0 then l else pLastPendingTransactionList a) \<rparr>))"
  have run: "remove_pending p n (fst (last xs)) a = Some (b\<lparr> NumPendingTransactions := NumPendingTransactions b - 1 \<rparr>)"
    using d set_n by (cases "n = 0") (simp_all add: remove_pending_def xs get_next_def b_def Let_def)
  have n0: "n = 0 \<longleftrightarrow> ys = []" using d(4) by (cases ys) auto
  have "path ((store a)(l \<mapsto> (u, n), p := None)) (pPendingTransactionList a) (zs @ [(l, u)] @ ys) 0"
    unfolding path_append using d by auto
  moreover have "ys \<noteq> [] \<Longrightarrow> pLastPendingTransactionList a = fst (last ys)" using l(1) by (simp add: pending_def listed_def)
  ultimately have "pending (b\<lparr> NumPendingTransactions := NumPendingTransactions b - 1 \<rparr>) (xs @ ys)"
    using d(5) n0 by (auto simp: pending_def listed_def b_def xs)
  then show ?thesis using run by (simp add: b_def)
qed

lemma reconcile_removes:
  assumes l: "pending a (xs @ (p, s) # ys)" and m: "\<forall>x\<in>set xs. \<not> same_transaction (snd x) t" "same_transaction s t"
  shows "\<exists>b. reconcile_loop t (pPendingTransactionList a) 0 a = Some (True, b) \<and> pending b (xs @ ys) \<and>
    NumPendingTransactions b = NumPendingTransactions a - 1"
proof -
  have path: "path (store a) (pPendingTransactionList a) (xs @ (p, s) # ys) 0" using l by (simp add: pending_def listed_def)
  then obtain n where n: "store a p = Some (s, n)" "p \<noteq> 0" by (auto simp: path_append)
  define q where "q = (if xs = [] then 0 else fst (last xs))"
  obtain b where b: "remove_pending p n q a = Some b" "pending b (xs @ ys)" "NumPendingTransactions b = NumPendingTransactions a - 1"
    using remove_pending_first [of a p s ys n] remove_pending_later [of a xs p s ys n] l n by (cases "xs = []") (auto simp: q_def)
  have "reconcile_loop t (pPendingTransactionList a) 0 a = reconcile_loop t p q a"
    using reconcile_find [OF path m, of 0] by (simp add: q_def)
  also have "\<dots> = Some (True, b)" using b n m(2) by (subst reconcile_loop.simps) simp
  finally show ?thesis using b by blast
qed

text \<open>The response in the receive buffer.\<close>

lemma reconcile_response:
  assumes rx: "pRxBuffer a = Some (hd2 @ transaction_bytes t n @ rest)" "length hd2 = 2"
    and l: "pending a (xs @ (p, s) # ys)" and m: "\<forall>x\<in>set xs. \<not> same_transaction (snd x) t" "same_transaction s t"
  shows "\<exists>b. ReconcileTransaction a = Some (True, b) \<and> pending b (xs @ ys) \<and>
    NumPendingTransactions b = NumPendingTransactions a - 1"
proof -
  define now where "now = time_of_day (host a) (hostlog a @ [Gettimeofday])"
  define g where "g = snd (snd (call Gettimeofday a))"
  define u where "u = t\<lparr> CompletionTimeStamp := now \<rparr>"
  define h where "h = g\<lparr> pRxBuffer := Some (hd2 @ transaction_bytes u n @ rest) \<rparr>"
  have poke: "poke_rx (INFO_FIELD + 56) (time_bytes now) g = Some h"
    using rx frame_stamps(3) [OF rx(2), of now t n rest] by (simp add: poke_rx_def g_def h_def u_def)
  have "transaction_at (drop INFO_FIELD (hd2 @ transaction_bytes u n @ rest)) = u" using rx(2) transaction_at_bytes by simp
  then have run: "ReconcileTransaction a = reconcile_loop u (pPendingTransactionList h) 0 h"
    using poke by (simp add: ReconcileTransaction_def gettimeofday_eq g_def [symmetric] now_def [symmetric] Let_def)
      (simp add: h_def)
  have "pending h (xs @ (p, s) # ys)" using l by (simp add: pending_def h_def g_def)
  moreover have "\<forall>x\<in>set xs. \<not> same_transaction (snd x) u" "same_transaction s u" using m by (simp_all add: same_transaction_def u_def)
  ultimately show ?thesis using reconcile_removes [of h xs p s ys u] unfolding run by (simp add: h_def g_def)
qed

subsection \<open>The requests of the primary station\<close>

definition requests :: "primary \<Rightarrow> u8 list list \<Rightarrow> bool" where
  "requests m fs \<longleftrightarrow>
     0 < next_free m \<and>
     (\<exists>ps. listed (store m) (pQueuedTransactionList m) (pLastQueuedTransactionList m) ps \<and> map snd ps = fs \<and>
       (\<forall>p\<in>fst ` set ps. p < next_free m))"

lemma requests_Nil: "requests m [] \<longleftrightarrow> 0 < next_free m \<and> pQueuedTransactionList m = 0"
  by (auto simp: requests_def)

lemma new_block_ready:
  assumes "port_ready (host a)"
  shows "\<exists>b. new_block t a = (next_free a, b\<lparr> store := (store a)(next_free a \<mapsto> (t, 0)), next_free := next_free a + 1 \<rparr>) \<and>
    app_frame a b \<and> line_log b = line_log a"
  using assms app_frame_call [of a Malloc] line_log_call [of Malloc a]
  by (auto simp: new_block_def case_prod_unfold Let_def port_ready_def)

text \<open>What queuing and removing requests leaves alone.\<close>

definition same_port :: "primary \<Rightarrow> primary \<Rightarrow> bool" where
  "same_port m n \<longleftrightarrow>
     pClientList n = pClientList m \<and> host n = host m \<and> line_log n = line_log m \<and> (txbuf_ready m \<longrightarrow> txbuf_ready n)"

text \<open>Linking a new block behind the last one.\<close>

lemma link_request:
  assumes l: "listed (store e) (pQueuedTransactionList e) (pLastQueuedTransactionList e) ps"
    and new: "q \<noteq> 0" "q \<notin> fst ` set ps" "store e q = Some (f, 0)"
  shows "\<exists>n. do { a \<leftarrow> (if pQueuedTransactionList e = 0 then Some (e\<lparr> pQueuedTransactionList := q \<rparr>)
      else set_next (pLastQueuedTransactionList e) q e);
      Some (True, a\<lparr> pLastQueuedTransactionList := q, NumQueuedTransactions := NumQueuedTransactions a + 1 \<rparr>) } = Some (True, n) \<and>
    same_port e n \<and> NumQueuedTransactions n = NumQueuedTransactions e + 1 \<and> next_free n = next_free e \<and>
    listed (store n) (pQueuedTransactionList n) (pLastQueuedTransactionList n) (ps @ [(q, f)])"
proof (cases "ps = []")
  case True
  then show ?thesis using l listed_snoc(1) [OF l new True] by (simp add: same_port_def txbuf_ready_def line_log_def)
next
  case False
  from listed_snoc(2) [OF l new False] obtain u k where
    "pQueuedTransactionList e \<noteq> 0" "store e (pLastQueuedTransactionList e) = Some (u, k)"
      "listed ((store e)(pLastQueuedTransactionList e \<mapsto> (u, q))) (pQueuedTransactionList e) q (ps @ [(q, f)])" by blast
  then show ?thesis by (simp add: set_next_def same_port_def txbuf_ready_def line_log_def)
qed

lemma queue_request:
  assumes r: "requests m fs" and ready: "port_ready (host m)" and rx: "pRxBuffer m = Some buf" "length buf = 4096"
  shows "\<exists>n now buf'. overwrite (INFO_FIELD + 24) (time_bytes now) buf = Some buf' \<and>
    QueueTransaction len m = Some (True, n) \<and> requests n (fs @ [take len buf']) \<and> same_port m n \<and>
    NumQueuedTransactions n = NumQueuedTransactions m + 1"
proof -
  define a where "a = snd (snd (call Malloc m))"
  define now where "now = time_of_day (host a) (hostlog a @ [Gettimeofday])"
  define b where "b = snd (snd (call Gettimeofday a))"
  obtain buf' where buf': "overwrite (INFO_FIELD + 24) (time_bytes now) buf = Some buf'" using rx(2) by (simp add: overwrite_def)
  define c where "c = b\<lparr> pRxBuffer := Some buf' \<rparr>"
  have poke: "poke_rx (INFO_FIELD + 24) (time_bytes now) b = Some c" using rx buf' by (simp add: poke_rx_def c_def b_def a_def)
  have fields: "store c = store m" "next_free c = next_free m" "pQueuedTransactionList c = pQueuedTransactionList m"
    "pLastQueuedTransactionList c = pLastQueuedTransactionList m" "NumQueuedTransactions c = NumQueuedTransactions m" "same_port m c"
    "host c = host m"
    by (simp_all add: c_def b_def a_def same_port_def txbuf_ready_def line_log_def [of "_\<lparr> pRxBuffer := _ \<rparr>"])
      (simp_all add: line_log_def [symmetric])
  obtain d where d: "new_block (take len buf') c = (next_free c, d\<lparr> store := (store c)(next_free c \<mapsto> (take len buf', 0)),
      next_free := next_free c + 1 \<rparr>)" "app_frame c d" "line_log d = line_log c"
    using new_block_ready [of c "take len buf'"] ready fields by auto
  define q where "q = next_free m"
  define e where "e = d\<lparr> store := (store m)(q \<mapsto> (take len buf', 0)), next_free := q + 1 \<rparr>"
  have e: "new_block (take len buf') c = (q, e)" using d(1) by (simp add: e_def q_def fields)
  have same_e: "pQueuedTransactionList e = pQueuedTransactionList m" "pLastQueuedTransactionList e = pLastQueuedTransactionList m"
    "NumQueuedTransactions e = NumQueuedTransactions m" "same_port m e"
    using d(2,3) fields by (auto simp: e_def app_frame_def same_port_def txbuf_ready_def line_log_def)
  from r obtain ps where ps: "0 < q" "listed (store m) (pQueuedTransactionList m) (pLastQueuedTransactionList m) ps"
    "map snd ps = fs" "\<forall>p\<in>fst ` set ps. p < q" by (auto simp: requests_def q_def)
  then have new: "q \<noteq> 0" "q \<notin> fst ` set ps" "(store e) q = Some (take len buf', 0)" by (auto simp: e_def)
  have run: "QueueTransaction len m = do { a \<leftarrow> (if pQueuedTransactionList e = 0 then Some (e\<lparr> pQueuedTransactionList := q \<rparr>)
      else set_next (pLastQueuedTransactionList e) q e);
      Some (True, a\<lparr> pLastQueuedTransactionList := q, NumQueuedTransactions := NumQueuedTransactions a + 1 \<rparr>) }"
  proof -
    have "ret (host m) (hostlog m @ [Malloc]) \<noteq> 0" using ready by (simp add: port_ready_def)
    moreover have "pRxBuffer c = Some buf'" by (simp add: c_def)
    ultimately show ?thesis using poke e new(1)
      by (simp add: QueueTransaction_def gettimeofday_eq case_prod_unfold Let_def a_def [symmetric] b_def [symmetric] now_def [symmetric])
  qed
  have le: "listed (store e) (pQueuedTransactionList e) (pLastQueuedTransactionList e) ps"
    using ps(2) new(2) same_e by (simp add: e_def)
  from link_request [OF this new] obtain n where n: "QueueTransaction len m = Some (True, n)" "same_port e n"
    "NumQueuedTransactions n = NumQueuedTransactions e + 1" "next_free n = next_free e"
    "listed (store n) (pQueuedTransactionList n) (pLastQueuedTransactionList n) (ps @ [(q, take len buf')])"
    unfolding run by blast
  have "next_free e = q + 1" by (simp add: e_def)
  then have "requests n (fs @ [take len buf'])"
    unfolding requests_def by (intro conjI exI [of _ "ps @ [(q, take len buf')]"]) (use n ps in \<open>auto intro: less_SucI\<close>)
  then show ?thesis using buf' n same_e by (auto simp: same_port_def)
qed

lemma remove_request:
  assumes "requests m (f # fs)"
  shows "\<exists>n. remove_head m = Some n \<and> requests n fs \<and> same_port m n \<and> NumQueuedTransactions n = NumQueuedTransactions m - 1"
proof -
  from assms obtain p ps where ps: "0 < next_free m" "map snd ps = fs" "\<forall>p\<in>fst ` set ps. p < next_free m"
    "listed (store m) (pQueuedTransactionList m) (pLastQueuedTransactionList m) ((p, f) # ps)"
    by (auto simp: requests_def map_eq_Cons_conv)
  then obtain n where n: "pQueuedTransactionList m = p" "p \<noteq> 0" "store m p = Some (f, n)" "path (store m) n ps 0" "p \<notin> fst ` set ps"
    "distinct (map fst ps)" "ps \<noteq> [] \<longrightarrow> pLastQueuedTransactionList m = fst (last ps)" by (auto simp: listed_def)
  define b where "b = free_block p (call_only (Free 0) (m\<lparr> pQueuedTransactionList := n \<rparr>))"
  have run: "remove_head m = Some (b\<lparr> NumQueuedTransactions := NumQueuedTransactions b - 1 \<rparr>)"
    using n by (simp add: remove_head_def get_next_def b_def Let_def)
  have b: "store b = (store m)(p := None)" "pQueuedTransactionList b = n" "pLastQueuedTransactionList b = pLastQueuedTransactionList m"
    "next_free b = next_free m" "NumQueuedTransactions b = NumQueuedTransactions m" "same_port m b"
    by (simp_all add: b_def call_only_eq same_port_def)
  have "listed (store b) (pQueuedTransactionList b) (pLastQueuedTransactionList b) ps"
    unfolding b using n by (simp add: listed_def)
  then have "requests (b\<lparr> NumQueuedTransactions := NumQueuedTransactions b - 1 \<rparr>) fs"
    unfolding requests_def using ps(1-3) b(4) by auto
  then show ?thesis using run b by (auto simp: same_port_def txbuf_ready_def line_log_def)
qed

subsection \<open>Answering the requests\<close>

text \<open>
  The reference: a request of a known client is answered by its own information field, stamped and no longer
  a request, under the next number of the client; a request of an unknown station is dropped.
\<close>

definition stamped :: "timeval \<Rightarrow> u8 list \<Rightarrow> u8 list" where
  "stamped now f = take 3 f @ [0] @ take 38 (drop 4 f) @ time_bytes now @ drop 58 f"

definition response_frame :: "timeval \<Rightarrow> u8 \<Rightarrow> u8 list \<Rightarrow> u8 list" where
  "response_frame now ns f = [f ! 0, push_bit 1 ns] @ take 80 (drop 2 (stamped now f))"

definition number_client :: "nat \<Rightarrow> CLIENT list \<Rightarrow> CLIENT list" where
  "number_client k cl = cl[k := (cl ! k)\<lparr> client_Ns := (client_Ns (cl ! k) + 1) AND 7 \<rparr>]"

definition find_client :: "u8 \<Rightarrow> CLIENT list \<Rightarrow> nat option" where
  "find_client addr cl =
    (let k = length (takeWhile (\<lambda>c. client_Addr c \<noteq> addr) cl) in if k < length cl then Some k else None)"

fun responses :: "(nat \<Rightarrow> timeval) \<Rightarrow> CLIENT list \<Rightarrow> u8 list list \<Rightarrow> u8 list list" where
  "responses now cl [] = []"
| "responses now cl (f # fs) =
     (case find_client (f ! 0) cl of
        None \<Rightarrow> responses now cl fs
      | Some k \<Rightarrow> response_frame (now (length fs)) (client_Ns (cl ! k)) f # responses now (number_client k cl) fs)"

lemma client_index_find: "client_index addr m = find_client addr (pClientList m)"
  by (simp add: client_index_def find_client_def Let_def)

lemma find_client_less: "find_client addr cl = Some k \<Longrightarrow> k < length cl"
  by (auto simp: find_client_def Let_def split: if_splits)

lemma responses_same_times: "\<forall>i<length fs. now i = now' i \<Longrightarrow> responses now cl fs = responses now' cl fs"
  by (induction fs arbitrary: cl) (auto split: option.split)

lemma overwrite_stamped:
  assumes "82 \<le> length f"
  shows "\<exists>g. overwrite (INFO_FIELD + 40) (time_bytes now) f = Some g \<and> overwrite (INFO_FIELD + 1) [0] g = Some (stamped now f)"
proof -
  have "f = take 3 f @ [f ! 3] @ take 38 (drop 4 f) @ drop 42 f"
    by (rule nth_equalityI) (use assms in \<open>auto simp: nth_append nth_Cons' min_def\<close>)
  moreover have "length (take 3 f) = 3" using assms by simp
  ultimately show ?thesis using assms
    by (auto simp: overwrite_def stamped_def take_Cons' drop_Cons' min_def take_drop)
qed

lemma stamped_facts [simp]:
  assumes "82 \<le> length f"
  shows "length (stamped now f) = length f" "stamped now f ! 0 = f ! 0"
  using assms by (simp_all add: stamped_def nth_append)

lemma answer_request_sends:
  assumes ready: "port_ready (host m)" "txbuf_ready m" and f: "82 \<le> length f" and p: "store m p = Some (f, n)"
    and k: "k < length (pClientList m)"
  shows "\<exists>b now. answer_request p f k m = Some (True, b) \<and>
    line_log b = line_log m @ [Write_port (response_frame now (client_Ns (pClientList m ! k)) f)] \<and>
    app_frame (m\<lparr> store := (store m)(p \<mapsto> (stamped now f, n)), pClientList := number_client k (pClientList m) \<rparr>) b"
proof -
  define now where "now = time_of_day (host m) (hostlog m @ [Gettimeofday])"
  define a where "a = snd (snd (call Gettimeofday m))"
  obtain g where g: "overwrite (INFO_FIELD + 40) (time_bytes now) f = Some g" "overwrite (INFO_FIELD + 1) [0] g = Some (stamped now f)"
    using overwrite_stamped [OF f] by blast
  define cl where "cl = pClientList m ! k"
  define a1 where "a1 = a\<lparr> store := (store m)(p \<mapsto> (stamped now f, n)) \<rparr>"
  have a1: "txbuf_ready a1" "line_log a1 = line_log m" using ready(2) line_log_call [of Gettimeofday m]
    by (simp_all add: a1_def a_def txbuf_ready_def line_log_def)
  from put_header [OF a1(1), of "f ! 0" "push_bit 1 (client_Ns cl)"] obtain b c where
    b: "put_bytes [f ! 0] (start_frame a1) = Some b" "app_frame a1 b" "put_bytes [push_bit 1 (client_Ns cl)] b = Some c" "app_frame b c"
      "tx_frame c = [f ! 0, push_bit 1 (client_Ns cl)]" "TxBufferSize c = 2" "line_log c = line_log m" using a1(2) by auto
  have ac: "app_frame a1 c" by (rule app_frame_trans [OF b(2,4)])
  define d where "d = c\<lparr> pClientList := number_client k (pClientList m) \<rparr>"
  have d: "txbuf_ready d" "TxBufferSize d = 2" "tx_frame d = tx_frame c" "line_log d = line_log m" "pClientList c = pClientList m"
    using ac a1(1) b(6,7) by (simp_all add: d_def app_frame_def txbuf_ready_def tx_frame_def line_log_def a1_def a_def cong: option.case_cong)
  have "TxBufferSize d + length (take 80 (drop 2 (stamped now f))) \<le> 4096" using d(2) by simp
  from put_more [OF d(1) this] obtain e where
    e: "put_bytes (take 80 (drop 2 (stamped now f))) d = Some e" "app_frame d e"
      "tx_frame e = tx_frame d @ take 80 (drop 2 (stamped now f))" "line_log e = line_log d" by auto
  have hosts: "host c = host m" "host e = host m" using ac e(2) by (simp_all add: app_frame_def d_def a1_def a_def)
  then have "port_ready (host e)" using ready(1) by simp
  from send_frame [OF this] obtain s where s: "SendFrame e = Some (True, s)" "app_frame e s"
    "line_log s = line_log e @ [Write_port (tx_frame e)]" by blast
  have "answer_request p f k m = Some (True, s)"
    using g p k b(1,3) e(1) s(1) f ac
    by (simp add: answer_request_def gettimeofday_eq now_def [symmetric] a_def [symmetric] aget_def cl_def [symmetric] Let_def)
      (simp add: a_def a1_def d_def number_client_def app_frame_def cl_def)
  moreover have "line_log s = line_log m @ [Write_port (response_frame now (client_Ns cl) f)]"
    using s(3) e(3,4) d(3,4) b(5) by (simp add: response_frame_def)
  moreover have "app_frame (m\<lparr> store := (store m)(p \<mapsto> (stamped now f, n)), pClientList := number_client k (pClientList m) \<rparr>) d"
    using ac d(1) by (simp add: app_frame_def d_def a1_def a_def)
  ultimately show ?thesis using app_frame_trans [OF app_frame_trans [OF _ e(2)] s(2)] cl_def by blast
qed

text \<open>The loop answers everything in its order.\<close>

lemma response_loop_answers:
  assumes "requests m fs" "\<forall>f\<in>set fs. 82 \<le> length f" "port_ready (host m)" "txbuf_ready m"
  shows "\<exists>n now. response_loop m = Some n \<and> requests n [] \<and> txbuf_ready n \<and> host n = host m \<and>
    line_log n = line_log m @ map Write_port (responses now (pClientList m) fs)"
  using assms
proof (induction fs arbitrary: m)
  case Nil
  then show ?case by (subst response_loop.simps) (auto simp: requests_Nil)
next
  case (Cons f fs)
  note ready = Cons(4,5)
  from Cons(2) obtain p ps where ps: "0 < next_free m" "map snd ps = fs" "\<forall>q\<in>fst ` set ((p, f) # ps). q < next_free m"
    "listed (store m) (pQueuedTransactionList m) (pLastQueuedTransactionList m) ((p, f) # ps)"
    by (auto simp: requests_def map_eq_Cons_conv)
  then obtain n where n: "pQueuedTransactionList m = p" "p \<noteq> 0" "store m p = Some (f, n)" "p \<notin> fst ` set ps"
    by (auto simp: listed_def)
  have f: "82 \<le> length f" "aget f 0 = Some (f ! 0)" using Cons(3) by (auto simp: aget_def)
  show ?case
  proof (cases "find_client (f ! 0) (pClientList m)")
    case None
    from remove_request [OF Cons(2)] obtain b where b: "remove_head m = Some b" "requests b fs" "same_port m b" by blast
    have "response_loop m = response_loop b"
      using n f None b(1) by (subst response_loop.simps) (simp add: Let_def client_index_find)
    moreover have "port_ready (host b)" "txbuf_ready b" using b(3) ready by (simp_all add: same_port_def)
    ultimately show ?thesis using Cons(1) [OF b(2)] Cons(3) b(3) None by (simp add: same_port_def)
  next
    case (Some k)
    from answer_request_sends [OF ready f(1) n(3) find_client_less [OF Some]] obtain b t where
      b: "answer_request p f k m = Some (True, b)"
        "line_log b = line_log m @ [Write_port (response_frame t (client_Ns (pClientList m ! k)) f)]"
        "app_frame (m\<lparr> store := (store m)(p \<mapsto> (stamped t f, n)), pClientList := number_client k (pClientList m) \<rparr>) b" by blast
    have bf: "store b = (store m)(p \<mapsto> (stamped t f, n))" "pClientList b = number_client k (pClientList m)" "host b = host m"
      "pQueuedTransactionList b = pQueuedTransactionList m" "pLastQueuedTransactionList b = pLastQueuedTransactionList m"
      "next_free b = next_free m" "txbuf_ready b"
      using b(3) ready(2) by (simp_all add: app_frame_def txbuf_ready_def)
    have "listed (store b) (pQueuedTransactionList b) (pLastQueuedTransactionList b) ((p, stamped t f) # ps)"
      using ps(4) n unfolding bf by (auto simp: listed_def)
    then have "requests b (stamped t f # fs)"
      unfolding requests_def bf(6) by (intro conjI ps(1) exI [of _ "(p, stamped t f) # ps"]) (use ps in auto)
    from remove_request [OF this] obtain c where c: "remove_head b = Some c" "requests c fs" "same_port b c" by blast
    have run: "response_loop m = response_loop c"
      using n f Some b(1) c(1) by (subst response_loop.simps) (simp add: Let_def client_index_find)
    have ready': "port_ready (host c)" "txbuf_ready c" "host c = host m" using c(3) bf ready by (simp_all add: same_port_def)
    from Cons(1) [OF c(2) _ ready'(1,2)] Cons(3) obtain e now where e: "response_loop c = Some e" "requests e []" "txbuf_ready e"
      "host e = host c" "line_log e = line_log c @ map Write_port (responses now (pClientList c) fs)" by auto
    have "responses (now(length fs := t)) (pClientList m) (f # fs) =
        response_frame t (client_Ns (pClientList m ! k)) f # responses now (pClientList c) fs"
      using Some c(3) bf(2) responses_same_times [of fs "now(length fs := t)" now] by (simp add: same_port_def)
    then have "line_log e = line_log m @ map Write_port (responses (now(length fs := t)) (pClientList m) (f # fs))"
      using e(5) b(2) c(3) by (simp add: same_port_def)
    then show ?thesis using run e ready'(3) by auto
  qed
qed

text \<open>With the general poll behind it and, for more than one, the idle pattern before and after.\<close>

lemma general_poll:
  assumes "port_ready (host m)" "txbuf_ready m"
  shows "\<exists>n. SendGeneralPoll m = Some (True, n) \<and> app_frame m n \<and> line_log n = line_log m @ [Write_port [0xff, 0x11]]"
proof -
  from put_header [OF assms(2), of BROADCAST_ADDR "POLL OR RR"] obtain b c where
    b: "put_bytes [BROADCAST_ADDR] (start_frame m) = Some b" "app_frame m b" "put_bytes [POLL OR RR] b = Some c" "app_frame b c"
      "tx_frame c = [BROADCAST_ADDR, POLL OR RR]" "line_log c = line_log m" by blast
  have "port_ready (host c)" using assms(1) b(2,4) by (simp add: app_frame_def)
  from send_frame [OF this] obtain d where d: "SendFrame c = Some (True, d)" "app_frame c d"
    "line_log d = line_log c @ [Write_port (tx_frame c)]" by blast
  have "SendGeneralPoll m = Some (True, d)" using b(1,3) d(1) by (simp add: SendGeneralPoll_def)
  then show ?thesis using app_frame_trans [OF app_frame_trans [OF b(2,4)] d(2)] d(3) b(5,6) by auto
qed

lemma wait_all_sent_ready:
  assumes "port_ready (host a)"
  shows "\<exists>r b. wait_all_sent t a = Some (r, b) \<and> app_frame a b \<and> line_log b = line_log a"
proof -
  define b where "b = snd (snd (call Gettimeofday a))"
  define c where "c = snd (snd (call Tcdrain b))"
  have "host b = host a" by (simp add: b_def)
  then have "ret (host b) (hostlog b @ [Tcdrain]) \<ge> 0" using assms by (simp add: port_ready_def)
  then have "drain_loop u v b = Some (ret (host b) (hostlog b @ [Tcdrain]), c)" for u v
    by (subst drain_loop.simps) (simp add: case_prod_unfold Let_def c_def)
  then have "wait_all_sent t a = Some (ret (host b) (hostlog b @ [Tcdrain]), c)"
    by (simp add: wait_all_sent_def gettimeofday_eq b_def Let_def)
  moreover have "app_frame a c" unfolding c_def b_def by (rule app_frame_trans [OF app_frame_call app_frame_call])
  ultimately show ?thesis by (simp add: c_def b_def)
qed

lemma set_idle_frame: "app_frame a (snd (SetIdle m a))" "line_log (snd (SetIdle m a)) = line_log a"
  by (simp_all add: SetIdle_def case_prod_unfold Let_def)

lemma requests_frame: "app_frame m n \<Longrightarrow> requests n fs = requests m fs"
  by (simp add: app_frame_def requests_def)

lemma answers_requests:
  assumes r: "requests m fs" "fs \<noteq> []" and f: "\<forall>f\<in>set fs. 82 \<le> length f" and ready: "port_ready (host m)" "txbuf_ready m"
  shows "\<exists>n now. SendTransactionResponses m = Some (True, n) \<and> requests n [] \<and>
    line_log n = line_log m @ map Write_port (responses now (pClientList m) fs) @ [Write_port [0xff, 0x11]]"
proof -
  obtain p n where p: "pQueuedTransactionList m = p" "p \<noteq> 0" "get_next p m = Some n"
  proof -
    from r obtain ps where "path (store m) (pQueuedTransactionList m) ps 0" "ps \<noteq> []" by (auto simp: requests_def listed_def)
    then show thesis using that by (cases ps) (auto simp: get_next_def)
  qed
  define a where "a = (if n \<noteq> 0 then snd (SetIdle HDLC_TXIDLE_FLAGS m) else m)"
  have a: "app_frame m a" "line_log a = line_log m" using set_idle_frame [where a = m] by (simp_all add: a_def)
  have "requests a fs" "port_ready (host a)" "txbuf_ready a" "pClientList a = pClientList m"
    using r(1) ready a(1) requests_frame [OF a(1)] by (simp_all add: app_frame_def)
  from response_loop_answers [OF this(1) f this(2,3)] \<open>pClientList a = pClientList m\<close> a obtain b now where
    b: "response_loop a = Some b" "requests b []" "txbuf_ready b" "host b = host m"
      "line_log b = line_log m @ map Write_port (responses now (pClientList m) fs)" by (auto simp: app_frame_def)
  from general_poll [of b] b(3,4) ready(1) obtain c where c: "SendGeneralPoll b = Some (True, c)" "app_frame b c"
    "line_log c = line_log b @ [Write_port [0xff, 0x11]]" by auto
  have "port_ready (host c)" using c(2) b(4) ready(1) by (simp add: app_frame_def)
  from wait_all_sent_ready [OF this, of 10000] obtain w d where d: "wait_all_sent 10000 c = Some (w, d)" "app_frame c d"
    "line_log d = line_log c" by blast
  define e where "e = (if n \<noteq> 0 then snd (SetIdle HDLC_TXIDLE_ONES d) else c)"
  have e: "app_frame c e" "line_log e = line_log c"
    using app_frame_trans [OF d(2) set_idle_frame(1)] d(3) by (simp_all add: e_def set_idle_frame)
  have "SendTransactionResponses m = Some (True, e)"
    using p b(1) c(1) d(1) a_def e_def by (cases "n = 0") (simp_all add: SendTransactionResponses_def Let_def)
  moreover have "requests e []" using b(2) requests_frame [OF app_frame_trans [OF c(2) e(1)]] by simp
  ultimately show ?thesis using e(2) c(3) b(5) by auto
qed

subsection \<open>What the stations promise\<close>

text \<open>C20: The primary station answers every queued request of a known client once, in the order of arrival, with
  consecutive numbers per client, drops the requests of unknown stations, and ends with a general poll; then
  nothing is queued.\<close>

theorem primary_answers_requests:
  assumes "requests m fs" "fs \<noteq> []" "\<forall>f\<in>set fs. 82 \<le> length f" "port_ready (host m)" "txbuf_ready m"
  shows "\<exists>n now. SendTransactionResponses m = Some (True, n) \<and> requests n [] \<and>
    line_log n = line_log m @ map Write_port (responses now (pClientList m) fs) @ [Write_port [0xff, 0x11]]"
  by (rule answers_requests [OF assms])

text \<open>A host that grants everything.\<close>

definition kind_host :: host where
  "kind_host = \<lparr> ret = (\<lambda>_. 1), errno = (\<lambda>_. 0), time_of_day = (\<lambda>_. zero_time), time_left = (\<lambda>_. zero_time),
     received = (\<lambda>_. []), port_disc = (\<lambda>_. 0), port_termios = (\<lambda>_. zero_termios), port_stats = (\<lambda>_. zero_icount), signals = (\<lambda>_. []) \<rparr>"

lemma kind_host_ready: "port_ready kind_host"
  by (simp add: port_ready_def kind_host_def)

text \<open>Two requests of station 0xc1 and one of a station that is not known.\<close>

definition primary_example :: primary where
  "primary_example = (zero_app kind_host)\<lparr> pTxBuffer := Some (replicate 4096 0), pRxBuffer := Some (replicate 4096 0),
     pClientList := [\<lparr> client_Addr = 0xc1, client_Nr = 0, client_Ns = 7 \<rparr>],
     store := [1 \<mapsto> (0xc1 # replicate 81 1, 2), 2 \<mapsto> (0xc2 # replicate 81 1, 3), 3 \<mapsto> (0xc1 # replicate 81 2, 0)],
     next_free := 4, pQueuedTransactionList := 1, pLastQueuedTransactionList := 3 \<rparr>"

lemma primary_example_requests:
  "requests primary_example [0xc1 # replicate 81 1, 0xc2 # replicate 81 1, 0xc1 # replicate 81 2]"
  unfolding requests_def
  by (intro conjI exI [of _ "[(1, 0xc1 # replicate 81 1), (2, 0xc2 # replicate 81 1), (3, 0xc1 # replicate 81 2)]"])
    (simp_all add: primary_example_def listed_def)

lemma primary_example_ready: "port_ready (host primary_example)" "txbuf_ready primary_example"
  using kind_host_ready by (simp_all add: primary_example_def zero_app_def txbuf_ready_def)

theorem primary_answers_requests_witness:
  "\<exists>n now. SendTransactionResponses primary_example = Some (True, n) \<and> requests n [] \<and>
     line_log n = line_log primary_example @
       [Write_port (response_frame (now (2 :: nat)) 7 (0xc1 # replicate 81 1)), Write_port (response_frame (now 0) 0 (0xc1 # replicate 81 2)),
        Write_port [0xff, 0x11]]"
proof -
  have "\<forall>f\<in>set [0xc1 # replicate 81 1, 0xc2 # replicate 81 1, 0xc1 # replicate 81 (2 :: u8)]. 82 \<le> length f" by simp
  moreover have "pClientList primary_example = [\<lparr> client_Addr = 0xc1, client_Nr = 0, client_Ns = 7 \<rparr>]"
    by (simp add: primary_example_def)
  ultimately show ?thesis using primary_answers_requests [OF primary_example_requests _ _ primary_example_ready]
    by (simp add: find_client_def number_client_def numeral_2_eq_2)
qed

text \<open>C34: A poll that finds more than one transaction sends only the first, without the final bit and without
  releasing the line, and forgets the others: the pointer to the next entry is cleared before it is followed.\<close>

theorem poll_forgets_transactions:
  assumes "queued a ((p, t) # (q, u) # xs)" "pending a ps" "p \<notin> fst ` set ps" "port_ready (host a)" "txbuf_ready a"
  shows "\<exists>b. DoPollResponse a = Some (True, b) \<and> pQueuedTransactionList b = 0 \<and> pending b (ps @ [(p, t)]) \<and>
    NumQueuedTransactions b = NumQueuedTransactions a - 1 \<and>
    line_log b = line_log a @ [Write_port ([addr_filter (Rt56Params a), Nr_bits a OR Ns_bits a] @ transaction_bytes t q)]"
proof -
  have "q \<noteq> 0" using assms(1) by (auto simp: queued_def listed_def)
  then show ?thesis using poll_response [OF assms(4,5,1-3)] by (auto simp: queued_def poll_frame_def)
qed

definition some_transaction :: "u32 \<Rightarrow> APP_TRANSACTION" where
  "some_transaction k = \<lparr> Addr = 0xc1, Request = 1, TransactionNumber = k, CreationTimeStamp = zero_time,
     PrimaryReceiptTimeStamp = zero_time, PrimaryTimeStamp = zero_time, CompletionTimeStamp = zero_time \<rparr>"

definition secondary_example :: "APP_TRANSACTION store \<Rightarrow> secondary" where
  "secondary_example st = (zero_app kind_host)\<lparr> pTxBuffer := Some (replicate 4096 0), pRxBuffer := Some (replicate 4096 0),
     Rt56Params := zero_params\<lparr> addr_filter := 0xc1 \<rparr>, bInitialized := True, store := st, next_free := 3,
     pQueuedTransactionList := 1, pLastQueuedTransactionList := (if st 2 = None then 1 else 2) \<rparr>"

lemma secondary_example_ready: "port_ready (host (secondary_example st))" "txbuf_ready (secondary_example st)"
  "pending (secondary_example st) []"
  using kind_host_ready by (simp_all add: secondary_example_def zero_app_def txbuf_ready_def pending_def)

definition two_waiting :: secondary where
  "two_waiting = secondary_example [1 \<mapsto> (some_transaction 1, 2), 2 \<mapsto> (some_transaction 2, 0)]"

theorem poll_forgets_transactions_witness:
  "\<exists>b. DoPollResponse two_waiting = Some (True, b) \<and> pQueuedTransactionList b = 0 \<and>
     pending b [(1, some_transaction 1)] \<and> NumQueuedTransactions b = - 1 \<and> (\<exists>f. line_log b = [Write_port f])"
proof -
  have "queued two_waiting [(1, some_transaction 1), (2, some_transaction 2)]"
    by (simp add: two_waiting_def secondary_example_def queued_def listed_def)
  then have "\<exists>b. DoPollResponse two_waiting = Some (True, b) \<and> pQueuedTransactionList b = 0 \<and>
      pending b ([] @ [(1, some_transaction 1)]) \<and> NumQueuedTransactions b = NumQueuedTransactions two_waiting - 1 \<and>
      line_log b = line_log two_waiting @ [Write_port ([addr_filter (Rt56Params two_waiting), Nr_bits two_waiting OR Ns_bits two_waiting] @
        transaction_bytes (some_transaction 1) 2)]"
    by (rule poll_forgets_transactions) (simp_all add: two_waiting_def secondary_example_ready)
  moreover have "NumQueuedTransactions two_waiting = 0" "line_log two_waiting = []"
    by (simp_all add: two_waiting_def secondary_example_def zero_app_def line_log_def)
  ultimately show ?thesis by auto
qed

text \<open>A request and its response in the receive buffers.\<close>

lemma process_request:
  assumes r: "requests m fs" and ready: "port_ready (host m)" "txbuf_ready m" and len: "length rest + 82 = 4096"
    and rx: "pRxBuffer m = Some ([addr, ctrl] @ transaction_bytes t n @ rest)" "\<not> tst ctrl 1" "Request t \<noteq> 0"
    and k: "find_client addr (pClientList m) = Some k"
  shows "\<exists>b now. ProcessRxFrames 82 m = Some (True, b) \<and> same_port m b \<and>
    requests b (fs @ [[addr, ctrl] @ transaction_bytes (t\<lparr> PrimaryReceiptTimeStamp := now \<rparr>) n])"
proof -
  define buf where "buf = [addr, ctrl] @ transaction_bytes t n @ rest"
  have buf: "pRxBuffer m = Some buf" "length buf = 4096" using rx(1) len by (simp_all add: buf_def)
  from queue_request [OF r ready(1) buf, of 82] obtain b now buf' where
    b: "overwrite (INFO_FIELD + 24) (time_bytes now) buf = Some buf'" "QueueTransaction 82 m = Some (True, b)"
      "requests b (fs @ [take 82 buf'])" "same_port m b" by blast
  have "buf' = [addr, ctrl] @ transaction_bytes (t\<lparr> PrimaryReceiptTimeStamp := now \<rparr>) n @ rest"
    using b(1) frame_stamps(1) [of "[addr, ctrl]" now t n rest] by (simp add: buf_def)
  then have "take 82 buf' = [addr, ctrl] @ transaction_bytes (t\<lparr> PrimaryReceiptTimeStamp := now \<rparr>) n" by simp
  moreover have "aget buf 0 = Some addr" "aget buf 1 = Some ctrl" "aget buf 3 = Some (Request t)"
    by (simp_all add: buf_def aget_def transaction_bytes_def numeral_3_eq_3)
  then have "ProcessRxFrames 82 m = Some (True, b)"
    using buf(1) rx(2,3) k b(2) by (simp add: ProcessRxFrames_def client_index_find)
  ultimately show ?thesis using b(3,4) by auto
qed

lemma response_of_transaction:
  "response_frame now ns ([addr, ctrl] @ transaction_bytes t n) =
     [addr, push_bit 1 ns] @ transaction_bytes (t\<lparr> PrimaryTimeStamp := now, Request := 0 \<rparr>) n"
proof -
  define f where "f = [addr, ctrl] @ transaction_bytes t n"
  have "82 \<le> length f" by (simp add: f_def)
  from overwrite_stamped [OF this, of now] obtain g where
    g: "overwrite (INFO_FIELD + 40) (time_bytes now) f = Some g" "overwrite (INFO_FIELD + 1) [0] g = Some (stamped now f)" by blast
  then have "stamped now f = [addr, ctrl] @ transaction_bytes (t\<lparr> PrimaryTimeStamp := now, Request := 0 \<rparr>) n"
    using frame_stamps(2) [of "[addr, ctrl]" now t n "[]"] frame_stamps(4) [of "[addr, ctrl]" "t\<lparr> PrimaryTimeStamp := now \<rparr>" n "[]"]
    by (simp add: f_def)
  then show ?thesis by (simp add: response_frame_def f_def)
qed

lemma process_response:
  assumes rx: "pRxBuffer a = Some ([addr, push_bit 1 ns] @ transaction_bytes u n @ rest)" "Request u = 0" and init: "bInitialized a"
    and l: "pending a (xs @ (p, t) # ys)" "\<forall>x\<in>set xs. \<not> same_transaction (snd x) u" "same_transaction t u"
  shows "\<exists>go b. ProcessRxFrame 82 a = Some (go, b) \<and> pending b (xs @ ys) \<and> NumPendingTransactions b = NumPendingTransactions a - 1"
proof -
  define buf where "buf = [addr, push_bit 1 ns] @ transaction_bytes u n @ rest"
  have "pRxBuffer a = Some ([addr, push_bit 1 ns] @ transaction_bytes u n @ rest)" "length [addr, push_bit 1 ns] = 2" using rx(1) by simp_all
  from reconcile_response [OF this l] obtain b where b: "ReconcileTransaction a = Some (True, b)" "pending b (xs @ ys)"
    "NumPendingTransactions b = NumPendingTransactions a - 1" by blast
  define ctrl where "ctrl = (push_bit 1 ns :: u8)"
  have "\<not> tst ctrl 1" by (auto simp: ctrl_def tst_iff_bit bit_simps bit_0)
  moreover have "pRxBuffer a = Some buf" using rx(1) by (simp add: buf_def)
  moreover have "aget buf 1 = Some ctrl" "aget buf 3 = Some 0"
    using rx(2) by (simp_all add: buf_def ctrl_def aget_def transaction_bytes_def numeral_3_eq_3)
  ultimately have "ProcessRxFrame 82 a = Some (\<not> tst ctrl FINAL, b)"
    using init b(1) by (simp add: ProcessRxFrame_def)
  then show ?thesis using b by blast
qed

lemma poll_frame_control: "\<not> tst ((Nr_bits a OR Ns_bits a) OR FINAL) 1"
  by (auto simp: tst_iff_bit bit_simps bit_0 Nr_bits_def Ns_bits_def)

text \<open>The primary station queues and answers a request.\<close>

lemma primary_serves:
  assumes r: "requests m []" and ready: "port_ready (host m)" "txbuf_ready m" and k: "find_client addr (pClientList m) = Some k"
    and rx: "pRxBuffer m = Some ([addr, ctrl] @ transaction_bytes t 0 @ rest)" "length rest + 82 = 4096" "\<not> tst ctrl 1" "Request t \<noteq> 0"
  shows "\<exists>n1 n2 u. ProcessRxFrames 82 m = Some (True, n1) \<and> SendTransactionResponses n1 = Some (True, n2) \<and> requests n2 [] \<and>
    line_log n2 = line_log m @
      [Write_port ([addr, push_bit 1 (client_Ns (pClientList m ! k))] @ transaction_bytes u 0), Write_port [0xff, 0x11]] \<and>
    Request u = 0 \<and> (\<forall>s. same_transaction s u = same_transaction s t)"
proof -
  from process_request [OF r ready rx(2,1,3,4) k] obtain n1 now1 where
    n1: "ProcessRxFrames 82 m = Some (True, n1)" "same_port m n1"
      "requests n1 [[addr, ctrl] @ transaction_bytes (t\<lparr> PrimaryReceiptTimeStamp := now1 \<rparr>) 0]" by auto
  have "port_ready (host n1)" "txbuf_ready n1" "pClientList n1 = pClientList m" using n1(2) ready by (simp_all add: same_port_def)
  then obtain n2 now2 where n2: "SendTransactionResponses n1 = Some (True, n2)" "requests n2 []"
    "line_log n2 = line_log n1 @ map Write_port (responses now2 (pClientList m)
        [[addr, ctrl] @ transaction_bytes (t\<lparr> PrimaryReceiptTimeStamp := now1 \<rparr>) 0]) @ [Write_port [0xff, 0x11]]"
    using answers_requests [OF n1(3)] by auto
  define u where "u = t\<lparr> PrimaryReceiptTimeStamp := now1, PrimaryTimeStamp := now2 0, Request := 0 \<rparr>"
  have "responses now2 (pClientList m) [[addr, ctrl] @ transaction_bytes (t\<lparr> PrimaryReceiptTimeStamp := now1 \<rparr>) 0] =
      [[addr, push_bit 1 (client_Ns (pClientList m ! k))] @ transaction_bytes u 0]"
    using k response_of_transaction [of "now2 0" _ addr ctrl "t\<lparr> PrimaryReceiptTimeStamp := now1 \<rparr>" 0] by (simp add: u_def)
  moreover have "Request u = 0" "\<forall>s. same_transaction s u = same_transaction s t" by (simp_all add: u_def same_transaction_def)
  ultimately show ?thesis using n1(1,2) n2 by (auto simp: same_port_def)
qed


text \<open>A station with one transaction, and a primary that has received its frame.\<close>

definition one_waiting :: secondary where
  "one_waiting = secondary_example [1 \<mapsto> (some_transaction 1, 0)]"

definition receiving_primary :: "u8 list \<Rightarrow> primary" where
  "receiving_primary f = (zero_app kind_host)\<lparr> pTxBuffer := Some (replicate 4096 0),
     pRxBuffer := Some (f @ replicate (4096 - length f) 0),
     pClientList := [\<lparr> client_Addr = 0xc1, client_Nr = 0, client_Ns = 0 \<rparr>] \<rparr>"

lemma receiving_primary_facts:
  "requests (receiving_primary f) []" "port_ready (host (receiving_primary f))" "txbuf_ready (receiving_primary f)"
  "find_client 0xc1 (pClientList (receiving_primary f)) = Some 0"
  "pRxBuffer (receiving_primary f) = Some (f @ replicate (4096 - length f) 0)"
  using kind_host_ready by (simp_all add: receiving_primary_def zero_app_def requests_Nil txbuf_ready_def find_client_def)


text \<open>C35: A request that is shorter than the structure is queued without a look at its size; answering it writes
  the time behind the end of its block.\<close>

theorem short_request_overflows:
  assumes "requests m []" "port_ready (host m)" "pRxBuffer m = Some buf" "length buf = 4096"
    and "find_client (buf ! 0) (pClientList m) = Some k" "\<not> tst (buf ! 1) 1" "buf ! 3 \<noteq> 0" "2 < len" "len < 58"
  shows "\<exists>b. ProcessRxFrames len m = Some (True, b) \<and> SendTransactionResponses b = None"
proof -
  from queue_request [OF assms(1-4), of len] obtain b now buf' where
    b: "overwrite (INFO_FIELD + 24) (time_bytes now) buf = Some buf'" "QueueTransaction len m = Some (True, b)"
      "requests b [take len buf']" "same_port m b" by auto
  define f where "f = take len buf'"
  have f: "length f < 58" "aget f 0 = Some (buf ! 0)"
    using b(1) assms(4,8,9) by (auto simp: f_def overwrite_def aget_def nth_append split: if_splits)
  have "aget buf 0 = Some (buf ! 0)" "aget buf 1 = Some (buf ! 1)" "aget buf 3 = Some (buf ! 3)" using assms(4) by (simp_all add: aget_def)
  then have run: "ProcessRxFrames len m = Some (True, b)"
    using assms(3,5-8) b(2) by (simp add: ProcessRxFrames_def client_index_find)
  obtain p where p: "pQueuedTransactionList b = p" "p \<noteq> 0" "store b p = Some (f, 0)"
    using b(3) by (auto simp: requests_def listed_def f_def map_eq_Cons_conv)
  have "overwrite (INFO_FIELD + 40) (time_bytes t) f = None" for t using f(1) by (simp add: overwrite_def)
  then have "answer_request p f k b = None" using p by (simp add: answer_request_def gettimeofday_eq Let_def)
  then have "response_loop b = None"
    using p f(2) assms(5) b(4) by (subst response_loop.simps) (simp add: Let_def client_index_find same_port_def)
  then have "SendTransactionResponses b = None" using p by (simp add: SendTransactionResponses_def get_next_def Let_def)
  then show ?thesis using run by blast
qed

theorem short_request_overflows_witness:
  "\<exists>b. ProcessRxFrames 4 (receiving_primary [0xc1, 0, 0, 1]) = Some (True, b) \<and> SendTransactionResponses b = None"
  by (rule short_request_overflows [OF receiving_primary_facts(1,2,5)])
    (use receiving_primary_facts(4) in \<open>simp_all add: numeral_3_eq_3\<close>)

end
