(* ===== verification/R56_Programs.thy ===== *)
theory R56_Programs
  imports R56_Sample
begin

text \<open>
  The six programs that send to, or receive from, one port: \<open>examples/sample-hdlc\<close>,
  \<open>examples/sample-raw\<close> and \<open>examples/sample-async\<close>.

  The system answers a call as a function of the calls made before; messages are left out.
\<close>

subsection \<open>The system\<close>

datatype scall =
    S_malloc nat | S_fopen string | S_open string | S_setdisc int | S_getparams | S_setparams R56_PARAMS
  | S_settxidle u32 | S_tcgetattr | S_tcsetattr termios | S_blocking | S_mbis u32 | S_mbic u32
  | S_write "u8 list" | S_read nat | S_fwrite "u8 list" | S_fflush | S_tcdrain | S_sleep nat

record system =
  s_ret :: "scall list \<Rightarrow> int"
  s_errno :: "scall list \<Rightarrow> int"
  s_params_of :: "scall list \<Rightarrow> R56_PARAMS"
  s_termios_of :: "scall list \<Rightarrow> termios"
  s_data :: "scall list \<Rightarrow> u8 list"

text \<open>The variables \<open>params\<close>, \<open>termios\<close> and \<open>buf\<close> of the program, and the calls made.\<close>

record sample =
  v_params :: R56_PARAMS
  v_termios :: termios
  v_buf :: "u8 list"
  s_system :: system
  s_calls :: "scall list"

definition scall :: "scall \<Rightarrow> sample \<Rightarrow> int \<times> sample" where
  "scall c s = (let cs = s_calls s @ [c] in (s_ret (s_system s) cs, s\<lparr> s_calls := cs \<rparr>))"


text \<open>A step of the program: a result ends it, None goes on.\<close>

type_synonym sample_step = "sample \<Rightarrow> int option \<times> sample"

fun run_steps :: "sample_step list \<Rightarrow> sample_step" where
  "run_steps [] s = (None, s)"
| "run_steps (f # fs) s = (case f s of (Some rc, s) \<Rightarrow> (Some rc, s) | (None, s) \<Rightarrow> run_steps fs s)"

text \<open>A call that must not fail, one whose result does not matter, and an assignment.\<close>

definition must :: "(sample \<Rightarrow> scall) \<Rightarrow> sample_step" where
  "must c s = (let (rc, s) = scall (c s) s in (if rc < 0 then Some rc else None, s))"

definition may :: "scall \<Rightarrow> sample_step" where
  "may c s = (None, snd (scall c s))"

definition assign :: "(sample \<Rightarrow> sample) \<Rightarrow> sample_step" where
  "assign f s = (None, f s)"

subsection \<open>The parts of the programs\<close>

definition device_name :: "string \<Rightarrow> string list \<Rightarrow> string" where
  "device_name standard argv = (case argv of [] \<Rightarrow> standard | a # _ \<Rightarrow> a)"

definition allocate_buffer :: "nat \<Rightarrow> sample_step" where
  "allocate_buffer n s = (let (p, s) = scall (S_malloc n) s in (if p = 0 then Some ENOMEM else None, s))"

definition open_capture :: sample_step where
  "open_capture s =
    (let err = s_errno (s_system s) (s_calls s @ [S_fopen ''data'']);
         (fp, s) = scall (S_fopen ''data'') s
     in (if fp = 0 then Some err else None, s))"

text \<open>The receiving programs return the error number, the sending ones the result of \<open>open\<close>.\<close>

definition open_to_receive :: "string \<Rightarrow> sample_step" where
  "open_to_receive name s =
    (let err = s_errno (s_system s) (s_calls s @ [S_open name]);
         (fd, s) = scall (S_open name) s
     in (if fd < 0 then Some err else None, s))"

definition get_port_params :: sample_step where
  "get_port_params s =
    (let p = s_params_of (s_system s) (s_calls s @ [S_getparams]);
         (r, s) = must (\<lambda>_. S_getparams) s
     in (r, if r = None then s\<lparr> v_params := p \<rparr> else s))"

definition get_attributes :: sample_step where
  "get_attributes s =
    (let t = s_termios_of (s_system s) (s_calls s @ [S_tcgetattr]);
         (r, s) = must (\<lambda>_. S_tcgetattr) s
     in (r, if r = None then s\<lparr> v_termios := t \<rparr> else s))"

text \<open>Line discipline and parameters; the asynchronous programs also set the terminal attributes.\<close>

definition program_port :: "int \<Rightarrow> (R56_PARAMS \<Rightarrow> R56_PARAMS) \<Rightarrow> sample_step list" where
  "program_port disc f =
    [must (\<lambda>_. S_setdisc disc), get_port_params, assign (v_params_update f), must (\<lambda>s. S_setparams (v_params s))]"

definition async_attributes :: "termios \<Rightarrow> termios" where
  "async_attributes t =
    t\<lparr> t_iflag := 0, t_oflag := 0, t_cflag := ((CREAD OR CS8 OR HUPCL OR CLOCAL) AND NOT CBAUD) OR B9600, t_lflag := 0,
       t_vtime := 0, t_vmin := 1 \<rparr>"

definition set_attributes :: "sample_step list" where
  "set_attributes = [get_attributes, assign (v_termios_update async_attributes), must (\<lambda>s. S_tcsetattr (v_termios s))]"

definition raise_signals :: "sample_step" where
  "raise_signals = must (\<lambda>_. S_mbis (TIOCM_RTS + TIOCM_DTR))"

definition lower_signals :: "sample_step" where
  "lower_signals = must (\<lambda>_. S_mbic (TIOCM_RTS + TIOCM_DTR))"

definition counting_bytes :: "nat \<Rightarrow> u8 list" where
  "counting_bytes n = map of_nat [0 ..< n]"

definition fill_buffer :: "u8 list \<Rightarrow> sample_step" where
  "fill_buffer bs = assign (\<lambda>s. s\<lparr> v_buf := bs \<rparr>)"

definition send_buffer :: "sample_step list" where
  "send_buffer = [may S_blocking, raise_signals, must (\<lambda>s. S_write (v_buf s)), may S_tcdrain]"

text \<open>
  The loop of the receiving programs: what is read goes to the file, until reading or writing fails. The buffer is
  cleared before every read.
\<close>

partial_function (option) capture_loop :: "sample \<Rightarrow> sample option" where
  [code]: "capture_loop s =
    (let bs = take 4096 (s_data (s_system s) (s_calls s @ [S_read 4096]));
         (rc, s) = scall (S_read 4096) (s\<lparr> v_buf := replicate 4096 0 \<rparr>)
     in if rc < 0 then Some s
        else let s = s\<lparr> v_buf := bs @ drop (length bs) (v_buf s) \<rparr>
             in if rc = 0 then capture_loop s
                else let (n, s) = scall (S_fwrite (take (nat rc) (v_buf s))) s
                     in if n \<noteq> rc then Some s else capture_loop (snd (scall S_fflush s)))"

text \<open>A program without, and one with the loop: the result of \<open>main\<close>.\<close>

definition result_of :: "int option \<times> sample \<Rightarrow> int \<times> sample" where
  "result_of r = (case r of (Some rc, s) \<Rightarrow> (rc, s) | (None, s) \<Rightarrow> (0, s))"

definition receive_program :: "sample_step list \<Rightarrow> sample \<Rightarrow> (int \<times> sample) option" where
  "receive_program steps s =
    (case run_steps steps s of
       (Some rc, s) \<Rightarrow> Some (rc, s)
     | (None, s) \<Rightarrow> do { s \<leftarrow> capture_loop s; Some (result_of (lower_signals s)) })"

subsection \<open>The programs\<close>

definition init_sample :: "system \<Rightarrow> sample" where
  "init_sample k = \<lparr> v_params = zero_params, v_termios = zero_termios, v_buf = [], s_system = k, s_calls = [] \<rparr>"

definition send_hdlc_params :: "R56_PARAMS \<Rightarrow> R56_PARAMS" where
  "send_hdlc_params p =
    p\<lparr> mode := R56_MODE_HDLC, loopback := 0, flags := HDLC_FLAG_RXC_BRG + HDLC_FLAG_TXC_BRG + HDLC_FLAG_UNDERRUN_FLAG,
       encoding := HDLC_ENCODING_NRZ, clock_speed := 2000000, crc_type := HDLC_CRC_NONE \<rparr>"

definition send_raw_params :: "R56_PARAMS \<Rightarrow> R56_PARAMS" where
  "send_raw_params p =
    p\<lparr> mode := R56_MODE_RAW, loopback := 0, flags := HDLC_FLAG_RXC_BRG + HDLC_FLAG_TXC_BRG,
       encoding := HDLC_ENCODING_NRZ, clock_speed := 1000, crc_type := HDLC_CRC_NONE \<rparr>"

definition receive_hdlc_params :: "R56_PARAMS \<Rightarrow> R56_PARAMS" where
  "receive_hdlc_params p =
    p\<lparr> mode := R56_MODE_HDLC, loopback := 0, flags := HDLC_FLAG_RXC_RXCPIN + HDLC_FLAG_TXC_TXCPIN,
       encoding := HDLC_ENCODING_NRZ, clock_speed := 0, crc_type := HDLC_CRC_NONE \<rparr>"

definition receive_raw_params :: "R56_PARAMS \<Rightarrow> R56_PARAMS" where
  "receive_raw_params p =
    p\<lparr> mode := R56_MODE_RAW, loopback := 0, flags := HDLC_FLAG_RXC_RXCPIN + HDLC_FLAG_TXC_TXCPIN,
       encoding := HDLC_ENCODING_NRZ, clock_speed := 0, crc_type := HDLC_CRC_NONE \<rparr>"

definition async_params :: "R56_PARAMS \<Rightarrow> R56_PARAMS" where
  "async_params p = p\<lparr> mode := R56_MODE_ASYNC, loopback := 0 \<rparr>"

abbreviation (input) disc_async :: int where "disc_async \<equiv> 0"
abbreviation (input) disc_sync :: int where "disc_sync \<equiv> 13"

definition send_hdlc_main :: "system \<Rightarrow> string list \<Rightarrow> int \<times> sample" where
  "send_hdlc_main k argv =
    result_of (run_steps
      ([allocate_buffer 1024, must (\<lambda>_. S_open (device_name ''/dev/ttySL0'' argv))] @
       program_port disc_sync send_hdlc_params @
       [must (\<lambda>_. S_settxidle HDLC_TXIDLE_FLAGS), fill_buffer (counting_bytes 1024)] @
       send_buffer @ [may (S_sleep 1), lower_signals])
      (init_sample k))"

definition send_raw_main :: "system \<Rightarrow> string list \<Rightarrow> int \<times> sample" where
  "send_raw_main k argv =
    result_of (run_steps
      ([allocate_buffer 1024, must (\<lambda>_. S_open (device_name ''/dev/ttySL0'' argv))] @
       program_port disc_sync send_raw_params @
       [must (\<lambda>_. S_settxidle HDLC_TXIDLE_ONES), fill_buffer (replicate 1024 0)] @
       send_buffer @ [may (S_sleep 1), lower_signals])
      (init_sample k))"

definition send_async_main :: "system \<Rightarrow> string list \<Rightarrow> int \<times> sample" where
  "send_async_main k argv =
    result_of (run_steps
      ([allocate_buffer 1024, must (\<lambda>_. S_open (device_name ''/dev/ttySL0'' argv))] @
       program_port disc_async async_params @ set_attributes @ [fill_buffer (counting_bytes 1024)] @
       send_buffer @ [lower_signals])
      (init_sample k))"

definition receive_hdlc_main :: "system \<Rightarrow> string list \<Rightarrow> (int \<times> sample) option" where
  "receive_hdlc_main k argv =
    receive_program
      ([allocate_buffer 4096, open_capture, open_to_receive (device_name ''/dev/ttySL1'' argv)] @
       program_port disc_sync receive_hdlc_params @ [raise_signals, may S_blocking])
      (init_sample k)"

definition receive_raw_main :: "system \<Rightarrow> string list \<Rightarrow> (int \<times> sample) option" where
  "receive_raw_main k argv =
    receive_program
      ([allocate_buffer 4096, open_capture, open_to_receive (device_name ''/dev/ttySL1'' argv)] @
       program_port disc_sync receive_raw_params @ [raise_signals, may S_blocking])
      (init_sample k)"

definition receive_async_main :: "system \<Rightarrow> string list \<Rightarrow> (int \<times> sample) option" where
  "receive_async_main k argv =
    receive_program
      ([allocate_buffer 4096, open_capture, open_to_receive (device_name ''/dev/ttySL1'' argv)] @
       program_port disc_async async_params @ set_attributes @ [raise_signals, may S_blocking])
      (init_sample k)"

subsection \<open>What they send and capture\<close>

text \<open>The data that the reads after the calls \<open>l\<close> give, each taken by the file, before one fails.\<close>

fun delivers :: "system \<Rightarrow> scall list \<Rightarrow> u8 list list \<Rightarrow> bool" where
  "delivers k l [] \<longleftrightarrow> s_ret k (l @ [S_read 4096]) < 0"
| "delivers k l (d # ds) \<longleftrightarrow>
     d \<noteq> [] \<and> length d \<le> 4096 \<and> s_ret k (l @ [S_read 4096]) = int (length d) \<and> s_data k (l @ [S_read 4096]) = d \<and>
     s_ret k (l @ [S_read 4096, S_fwrite d]) = int (length d) \<and> delivers k (l @ [S_read 4096, S_fwrite d, S_fflush]) ds"

lemma scall_simps [simp]:
  "s_system (snd (scall c s)) = s_system s" "s_calls (snd (scall c s)) = s_calls s @ [c]"
  "v_buf (snd (scall c s)) = v_buf s" "v_params (snd (scall c s)) = v_params s"
  "fst (scall c s) = s_ret (s_system s) (s_calls s @ [c])"
  by (simp_all add: scall_def Let_def)

text \<open>The loop ends, and has written to the file exactly what it has read, in order.\<close>

lemma capture_loop_captures:
  assumes "delivers (s_system s) (s_calls s) ds"
  shows "\<exists>s'. capture_loop s = Some s' \<and> s_system s' = s_system s \<and>
    s_calls s' = s_calls s @ concat (map (\<lambda>d. [S_read 4096, S_fwrite d, S_fflush]) ds) @ [S_read 4096]"
  using assms
proof (induction ds arbitrary: s)
  case Nil
  then show ?case by (subst capture_loop.simps) (simp add: Let_def case_prod_beta)
next
  case (Cons d ds)
  define t where "t = snd (scall S_fflush (snd (scall (S_fwrite d)
    ((snd (scall (S_read 4096) (s\<lparr> v_buf := replicate 4096 0 \<rparr>)))\<lparr> v_buf := d @ replicate (4096 - length d) 0 \<rparr>))))"
  have t: "s_system t = s_system s" "s_calls t = s_calls s @ [S_read 4096, S_fwrite d, S_fflush]"
    by (simp_all add: t_def)
  have "capture_loop s = capture_loop t"
    by (subst capture_loop.simps) (use Cons(2) in \<open>simp add: Let_def case_prod_beta t_def\<close>)
  then show ?case
    using Cons(1) [of t] Cons(2) t by auto
qed

text \<open>When no call fails, the programs that send write their buffer once and lower the signals at the end.\<close>

definition no_failure :: "system \<Rightarrow> bool" where
  "no_failure k \<longleftrightarrow> (\<forall>l n. s_ret k (l @ [S_malloc n]) \<noteq> 0) \<and> (\<forall>l c. s_ret k (l @ [c]) \<ge> 0)"

lemma run_steps_append:
  "run_steps (fs @ gs) s = (case run_steps fs s of (Some rc, s) \<Rightarrow> (Some rc, s) | (None, s) \<Rightarrow> run_steps gs s)"
  by (induction fs arbitrary: s) (auto split: prod.splits option.splits)

lemma must_succeeds: "no_failure (s_system s) \<Longrightarrow> must c s = (None, snd (scall (c s) s))"
  by (auto simp: must_def no_failure_def case_prod_beta Let_def not_less [symmetric])

lemma malloc_succeeds: "no_failure k \<Longrightarrow> s_ret k [S_malloc n] \<noteq> 0"
  unfolding no_failure_def by (metis append_Nil)

lemma program_port_succeeds:
  assumes "no_failure (s_system s)"
  shows "\<exists>s'. run_steps (program_port disc f) s = (None, s') \<and> s_system s' = s_system s \<and> v_buf s' = v_buf s \<and>
    s_calls s' = s_calls s @ [S_setdisc disc, S_getparams,
      S_setparams (f (s_params_of (s_system s) (s_calls s @ [S_setdisc disc, S_getparams])))]"
  using assms by (simp add: program_port_def must_succeeds get_port_params_def assign_def Let_def)

lemma send_buffer_succeeds:
  assumes "no_failure (s_system s)"
  shows "\<exists>s'. run_steps send_buffer s = (None, s') \<and> s_system s' = s_system s \<and>
    s_calls s' = s_calls s @ [S_blocking, S_mbis (TIOCM_RTS + TIOCM_DTR), S_write (v_buf s), S_tcdrain]"
  using assms by (simp add: send_buffer_def must_succeeds raise_signals_def may_def)

lemma send_hdlc_succeeds:
  assumes k: "no_failure k"
  shows "\<exists>s p. send_hdlc_main k argv = (0, s) \<and>
    s_calls s = [S_malloc 1024, S_open (device_name ''/dev/ttySL0'' argv), S_setdisc 13, S_getparams,
      S_setparams (send_hdlc_params p), S_settxidle HDLC_TXIDLE_FLAGS, S_blocking, S_mbis 6, S_write (counting_bytes 1024),
      S_tcdrain, S_sleep 1, S_mbic 6]"
proof -
  define name where "name = device_name ''/dev/ttySL0'' argv"
  define a where "a = snd (scall (S_open name) (snd (scall (S_malloc 1024) (init_sample k))))"
  have a: "s_system a = k" "s_calls a = [S_malloc 1024, S_open name]"
    by (simp_all add: a_def init_sample_def)
  have "run_steps [allocate_buffer 1024, must (\<lambda>_. S_open name)] (init_sample k) = (None, a)"
    using k by (simp add: allocate_buffer_def must_succeeds malloc_succeeds Let_def case_prod_beta init_sample_def a_def)
  moreover obtain b where b: "run_steps (program_port 13 send_hdlc_params) a = (None, b)" "s_system b = k"
    "s_calls b = s_calls a @ [S_setdisc 13, S_getparams,
       S_setparams (send_hdlc_params (s_params_of k (s_calls a @ [S_setdisc 13, S_getparams])))]"
    using program_port_succeeds [of a 13 send_hdlc_params] k a(1) by auto
  moreover define c where "c = (snd (scall (S_settxidle HDLC_TXIDLE_FLAGS) b))\<lparr> v_buf := counting_bytes 1024 \<rparr>"
  have c: "s_system c = k" "s_calls c = s_calls b @ [S_settxidle HDLC_TXIDLE_FLAGS]" "v_buf c = counting_bytes 1024"
    by (simp_all add: c_def b(2))
  have "run_steps [must (\<lambda>_. S_settxidle HDLC_TXIDLE_FLAGS), fill_buffer (counting_bytes 1024)] b = (None, c)"
    using k b(2) by (simp add: must_succeeds fill_buffer_def assign_def c_def)
  moreover obtain d where d: "run_steps send_buffer c = (None, d)" "s_system d = k"
    "s_calls d = s_calls c @ [S_blocking, S_mbis (TIOCM_RTS + TIOCM_DTR), S_write (v_buf c), S_tcdrain]"
    using send_buffer_succeeds [of c] k c(1) by auto
  ultimately have "send_hdlc_main k argv = result_of (run_steps [may (S_sleep 1), lower_signals] d)"
    unfolding send_hdlc_main_def name_def [symmetric] by (simp only: run_steps_append option.case prod.case)
  also have "\<dots> = (0, snd (scall (S_mbic 6) (snd (scall (S_sleep 1) d))))"
    using k d(2) by (simp add: may_def lower_signals_def must_succeeds result_of_def)
  finally show ?thesis
    using a b(3) c d(3) by (auto simp: name_def [symmetric])
qed

end
