(* ===== verification/R56_Tester.thy ===== *)
theory R56_Tester
  imports R56_Util
begin

text \<open>
  The loopback test \<open>utilities/r56test.c\<close>: its options, the reads and writes with a time limit, and the
  loop that sends frames and compares what comes back (master), or echoes what it receives (slave).

  The kernel answers a call as a function of the calls made before. Progress messages are left out; the
  results are in the log. None stands for a use of memory outside an allocated block, or of a variable
  that has no value.
\<close>

subsection \<open>State\<close>

datatype tcall =
    T_malloc int | T_free | T_sigaction | T_open string | T_close | T_getparams | T_getd | T_setd int | T_blocking
  | T_mbis | T_mbic | T_alarm int | T_waitevent | T_select_read int | T_select_write int
  | T_read int | T_write "u8 list" | T_stats | T_print string

datatype tsignal = T_SIGALRM | T_SIGINT | T_SIGQUIT

record tkernel =
  t_ret :: "tcall list \<Rightarrow> int"
  t_errno :: "tcall list \<Rightarrow> int"
  t_disc :: "tcall list \<Rightarrow> int"
  t_params :: "tcall list \<Rightarrow> R56_PARAMS"
  t_events :: "tcall list \<Rightarrow> u32"
  t_data :: "tcall list \<Rightarrow> u8 list"
  t_icount :: "tcall list \<Rightarrow> r56_icount"
  t_signals :: "tcall list \<Rightarrow> tsignal list"

text \<open>The global variables and the counters of \<open>test_device\<close>.\<close>

record tester =
  test_count :: int
  tx_frame_size :: int
  rx_frame_size :: int
  master :: bool
  test_quiet :: bool
  test_timeout :: int
  crc_ex :: nat
  hdlc_mode :: bool
  sig_alarm :: int
  sig_int :: int
  sig_quit :: int
  loop_count :: int
  rx_ok :: int
  rx_timeout :: int
  rx_errors :: int
  tx_ok :: int
  tx_timeout :: int
  xmit_frame :: "u8 list"
  rcv_frame :: "u8 list"
  t_kernel :: tkernel
  t_log :: "tcall list"

definition init_tester :: "tkernel \<Rightarrow> tester" where
  "init_tester k =
     \<lparr> test_count = 100, tx_frame_size = 1024, rx_frame_size = 2048, master = True, test_quiet = False, test_timeout = 5,
       crc_ex = 0, hdlc_mode = True, sig_alarm = 0, sig_int = 0, sig_quit = 0, loop_count = 0, rx_ok = 0, rx_timeout = 0,
       rx_errors = 0, tx_ok = 0, tx_timeout = 0, xmit_frame = [], rcv_frame = [], t_kernel = k, t_log = [] \<rparr>"

definition t_signal_handler :: "tsignal \<Rightarrow> tester \<Rightarrow> tester" where
  "t_signal_handler g s =
    (case g of
       T_SIGALRM \<Rightarrow> s\<lparr> sig_alarm := sig_alarm s + 1 \<rparr>
     | T_SIGQUIT \<Rightarrow> s\<lparr> sig_quit := sig_quit s + 1 \<rparr>
     | T_SIGINT \<Rightarrow> s\<lparr> sig_int := sig_int s + 1 \<rparr>)"

text \<open>A call, its return value, and the signals that arrive meanwhile.\<close>

definition tcall :: "tcall \<Rightarrow> tester \<Rightarrow> int \<times> tester" where
  "tcall c s =
    (let l = t_log s @ [c]
     in (t_ret (t_kernel s) l, fold t_signal_handler (t_signals (t_kernel s) l) (s\<lparr> t_log := l \<rparr>)))"

definition t_print :: "string \<Rightarrow> tester \<Rightarrow> tester" where
  "t_print m s = s\<lparr> t_log := t_log s @ [T_print m] \<rparr>"

subsection \<open>Options\<close>

type_synonym test_option = "string list \<Rightarrow> tester \<Rightarrow> (int \<times> tester) option"

definition test_set_slave :: test_option where
  "test_set_slave argv s = Some (1, s\<lparr> master := False \<rparr>)"

definition test_set_master :: test_option where
  "test_set_master argv s = Some (1, s\<lparr> master := True \<rparr>)"

definition test_set_quiet :: test_option where
  "test_set_quiet argv s = Some (1, s\<lparr> test_quiet := True \<rparr>)"

definition test_set_crc16ex :: test_option where
  "test_set_crc16ex argv s = Some (1, s\<lparr> crc_ex := 2 \<rparr>)"

definition test_set_crc32ex :: test_option where
  "test_set_crc32ex argv s = Some (1, s\<lparr> crc_ex := 4 \<rparr>)"

text \<open>The number after an option. At the end of the input \<open>sscanf\<close> leaves the variable alone, which
  has a first value only in \<open>set_timeout\<close>.\<close>

definition test_set_size :: test_option where
  "test_set_size argv s =
    (if length argv < 2 then Some (- EINVAL, s)
     else case scan_number base_i (argv ! 1) of
            Scan_eof \<Rightarrow> None
          | Scan_fail \<Rightarrow> Some (- EINVAL, s)
          | Scan_val v _ \<Rightarrow>
              if to_int v < 2 \<or> to_int v > 65535 then Some (- EINVAL, s)
              else Some (2, s\<lparr> tx_frame_size := to_int v, rx_frame_size := to_int v * 2 \<rparr>))"

definition test_set_count :: test_option where
  "test_set_count argv s =
    (if length argv < 2 then Some (- EINVAL, s)
     else case scan_number base_i (argv ! 1) of
            Scan_eof \<Rightarrow> None
          | Scan_fail \<Rightarrow> Some (- EINVAL, s)
          | Scan_val v _ \<Rightarrow> Some (2, s\<lparr> test_count := to_int v \<rparr>))"

definition test_set_timeout :: test_option where
  "test_set_timeout argv s =
    (if length argv < 2 then Some (- EINVAL, s)
     else case scan_number base_i (argv ! 1) of
            Scan_val v _ \<Rightarrow> if to_int v = 0 then Some (- EINVAL, s) else Some (2, s\<lparr> test_timeout := to_int v \<rparr>)
          | _ \<Rightarrow> Some (- EINVAL, s))"

definition test_cmd_table :: "(string \<times> test_option) list" where
  "test_cmd_table =
    [(''count'', test_set_count), (''size'', test_set_size), (''slave'', test_set_slave), (''master'', test_set_master),
     (''quiet'', test_set_quiet), (''timeout'', test_set_timeout), (''crc16ex'', test_set_crc16ex),
     (''crc32ex'', test_set_crc32ex)]"

datatype test_outcome = Test_exit int tester | Test_return int tester

partial_function (option) test_parse_cmdline :: "string list \<Rightarrow> tester \<Rightarrow> test_outcome option" where
  [code]: "test_parse_cmdline argv s =
    (case argv of
       [] \<Rightarrow> Some (Test_return 0 s)
     | option # _ \<Rightarrow>
         (case map_of test_cmd_table option of
            None \<Rightarrow> Some (Test_exit (- EINVAL) (t_print (''Invalid option '' @ option) s))
          | Some func \<Rightarrow>
              do { (rc, s) \<leftarrow> func argv s;
                   if rc < 0 then Some (Test_return rc s) else test_parse_cmdline (drop (nat rc) argv) s }))"

subsection \<open>Reads and writes with a time limit\<close>

definition test_write_timed :: "u8 list \<Rightarrow> int \<Rightarrow> tester \<Rightarrow> int \<times> tester" where
  "test_write_timed buf limit s =
    (let (rc, s) = tcall (T_select_write limit) s in if rc > 0 then tcall (T_write buf) s else (rc, s))"

text \<open>
  The loop of \<open>read_timed\<close>: \<open>got\<close> are the bytes that are in the buffer already. In HDLC mode the first read is
  the frame; otherwise it goes on until the buffer is full, and a time-out or an error forgets the count.
\<close>

partial_function (option) test_read_loop :: "int \<Rightarrow> int \<Rightarrow> u8 list \<Rightarrow> tester \<Rightarrow> (int \<times> u8 list \<times> tester) option" where
  [code]: "test_read_loop len limit got s =
    (if int (length got) < len
     then let (rc, s) = (if limit \<noteq> - 1 then tcall (T_select_read limit) s else (1, s))
          in if rc \<le> 0 then Some (rc, got, s)
             else let want = len - int (length got);
                      bs = t_data (t_kernel s) (t_log s @ [T_read want]);
                      (rc, s) = tcall (T_read want) s;
                      bs = take (nat (min rc want)) bs
                  in if rc \<le> 0 then Some (rc, got, s)
                     else if hdlc_mode s then Some (rc, got @ bs, s)
                     else test_read_loop len limit (got @ bs) s
     else Some (int (length got), got, s))"

text \<open>The buffer keeps what it had behind the bytes that were read.\<close>

definition test_read_timed :: "int \<Rightarrow> int \<Rightarrow> tester \<Rightarrow> (int \<times> tester) option" where
  "test_read_timed len limit s =
    do { (rc, got, s) \<leftarrow> test_read_loop len limit [] s;
         Some (rc, s\<lparr> rcv_frame := got @ drop (length got) (rcv_frame s) \<rparr>) }"

subsection \<open>One round\<close>

definition test_pattern :: "int \<Rightarrow> int \<Rightarrow> u8 list" where
  "test_pattern n len =
    (let f = replicate (nat len) (of_int n); f = f[0 := 0xff]; f = f[1 := 0xa5]; f = f[nat len - 2 := 0xde]
     in f[nat len - 1 := 0xad])"

text \<open>
  The status byte and the CRC behind the data: the length without them. The CRC is read for the message,
  as an \<open>unsigned long\<close> when it has four bytes.
\<close>

definition strip_crc :: "int \<Rightarrow> tester \<Rightarrow> int option" where
  "strip_crc rc s =
    (if crc_ex s = 0 then Some rc
     else do { status \<leftarrow> aget (rcv_frame s) (nat (rc - 1));
               if status = RX_OK \<or> status = RX_CRC_ERROR
               then let at = rc - 1 - int (crc_ex s); width = (if crc_ex s > 2 then 8 else 2)
                    in if 0 \<le> at \<and> at + width \<le> int (length (rcv_frame s)) then Some at else None
               else Some rc })"

text \<open>What the loop does next.\<close>

datatype round = Continue | Break

definition master_check :: "int \<Rightarrow> tester \<Rightarrow> tester option" where
  "master_check rc s =
    do { rc \<leftarrow> strip_crc rc s;
         Some (if rc \<noteq> tx_frame_size s then s\<lparr> rx_errors := rx_errors s + 1 \<rparr>
               else if take (nat rc) (xmit_frame s) \<noteq> take (nat rc) (rcv_frame s)
               then s\<lparr> rx_errors := rx_errors s + 1 \<rparr>
               else s\<lparr> rx_ok := rx_ok s + 1 \<rparr>) }"

definition read_size :: "tester \<Rightarrow> int" where
  "read_size s = (if hdlc_mode s then rx_frame_size s else tx_frame_size s)"

definition master_round :: "tester \<Rightarrow> (round \<times> int \<times> tester) option" where
  "master_round s =
    (let s = s\<lparr> xmit_frame := test_pattern (loop_count s) (tx_frame_size s),
                rcv_frame := replicate (nat (rx_frame_size s)) 0 \<rparr>;
         (rc, s) = test_write_timed (xmit_frame s) (test_timeout s) s
     in if rc = 0 then Some (Continue, rc, s\<lparr> tx_timeout := tx_timeout s + 1 \<rparr>)
        else if rc < 0 then Some (Break, rc, s)
        else do { (rc, s) \<leftarrow> test_read_timed (read_size s) (test_timeout s * 2) (s\<lparr> tx_ok := tx_ok s + 1 \<rparr>);
                  if rc = 0 then Some (Continue, rc, s\<lparr> rx_timeout := rx_timeout s + 1 \<rparr>)
                  else if rc < 0 then Some (Break, rc, s)
                  else do { s \<leftarrow> master_check rc s; Some (Continue, rc, s) } })"

definition slave_round :: "tester \<Rightarrow> (round \<times> int \<times> tester) option" where
  "slave_round s =
    do { (rc, s) \<leftarrow> test_read_timed (read_size s) (- 1) s;
         if rc < 0 then Some (Break, rc, s)
         else if rc < 2 \<or> rc > tx_frame_size s then Some (Continue, rc, s\<lparr> rx_errors := rx_errors s + 1 \<rparr>)
         else let s = s\<lparr> rx_ok := rx_ok s + 1 \<rparr>;
                  (rc, s) = test_write_timed (take (nat rc) (rcv_frame s)) (test_timeout s) s
              in if rc = 0 then Some (Continue, rc, s\<lparr> tx_timeout := tx_timeout s + 1 \<rparr>)
                 else if rc < 0 then Some (Break, rc, s)
                 else Some (Continue, rc, s\<lparr> tx_ok := tx_ok s + 1 \<rparr>) }"

partial_function (option) test_loop :: "tester \<Rightarrow> tester option" where
  [code]: "test_loop s =
    (if master s
     then let s = s\<lparr> loop_count := loop_count s + 1 \<rparr>
          in if test_count s \<noteq> 0 \<and> loop_count s > test_count s then Some s
             else do { (next, _, s) \<leftarrow> master_round s; if next = Break then Some s else test_loop s }
     else do { (next, _, s) \<leftarrow> slave_round s; if next = Break then Some s else test_loop s })"

subsection \<open>The test\<close>

definition test_results :: "tester \<Rightarrow> string" where
  "test_results s =
    (if master s
     then concat [newline, ''Master test results:'', newline,
                  ''transmit OK='', show_int (tx_ok s), '', transmit timeouts='', show_int (tx_timeout s), newline,
                  ''receive OK='', show_int (rx_ok s), '', receive timeouts='', show_int (rx_timeout s), newline,
                  ''receive errors='', show_int (rx_errors s),
                  '', lost frames='', show_int (tx_ok s - rx_ok s - rx_errors s), newline, newline]
     else concat [newline, ''Slave test results:'', newline,
                  ''echoed OK='', show_int (tx_ok s), '', echo timeouts='', show_int (tx_timeout s), newline,
                  ''receive OK='', show_int (rx_ok s), '', receive timeout='', show_int (rx_timeout s), newline,
                  ''receive errors='', show_int (rx_errors s), newline, newline])"

definition test_stats :: "r56_icount \<Rightarrow> string" where
  "test_stats c =
    concat
     [newline, ''*** Statistics ***'', newline,
      ''irqs: DSR:'', show_count (ic_dsr c), '' CTS:'', show_count (ic_cts c), '' DCD:'', show_count (ic_dcd c),
      '' RI:'', show_count (ic_rng c), '' TX:'', show_count (ic_tx c), '' RX:'', show_count (ic_rx c), newline,
      ''async stats:'', newline,
      ''    framing='', show_count (ic_frame c), '' parity='', show_count (ic_parity c),
      '' overrun='', show_count (ic_overrun c), '' breaks='', show_count (ic_brk c),
      '' bufoverrun='', show_count (ic_buf_overrun c), newline,
      ''hdlc frame stats:'', newline,
      ''    txok='', show_count (ic_txok c), '' txunder='', show_count (ic_txunder c),
      '' txabort='', show_count (ic_txabort c), '' txtimeout='', show_count (ic_txtimeout c), newline,
      ''    rxok='', show_count (ic_rxok c), '' rxshort='', show_count (ic_rxshort c),
      '' rxlong='', show_count (ic_rxlong c), '' rxabort='', show_count (ic_rxabort c),
      '' rxoverrun='', show_count (ic_rxover c), '' rxcrc='', show_count (ic_rxcrc c), newline, newline]"

definition test_display_stats :: "tester \<Rightarrow> tester" where
  "test_display_stats s =
    (let icount = t_icount (t_kernel s) (t_log s @ [T_stats]);
         (rc, s) = tcall T_stats s
     in if rc < 0 then s else t_print (test_stats icount) s)"

text \<open>The wait for the carrier: an alarm interrupts it every second; SIGQUIT goes on without it.\<close>

partial_function (option) wait_dcd :: "tester \<Rightarrow> (bool \<times> int \<times> tester) option" where
  [code]: "wait_dcd s =
    (let (_, s) = tcall (T_alarm 1) (s\<lparr> sig_alarm := 0 \<rparr>);
         events = t_events (t_kernel s) (t_log s @ [T_waitevent]);
         err = t_errno (t_kernel s) (t_log s @ [T_waitevent]);
         (rc, s) = tcall T_waitevent s;
         (_, s) = tcall (T_alarm 0) s
     in if rc = 0 \<and> tst events Rt56Event_DcdActive then Some (True, rc, s)
        else if rc < 0
        then if err = 4
             then if sig_alarm s \<noteq> 0 then wait_dcd s
                  else if sig_quit s \<noteq> 0 then Some (True, rc, s)
                  else if sig_int s \<noteq> 0 then Some (False, rc, s)
                  else wait_dcd s
             else Some (False, rc, s)
        else wait_dcd s)"

text \<open>The label \<open>cleanup\<close>; \<open>tx\<close> and \<open>rx\<close> are the addresses of the two buffers.\<close>

definition test_cleanup :: "int \<Rightarrow> int \<Rightarrow> int \<Rightarrow> int \<Rightarrow> tester \<Rightarrow> int \<times> tester" where
  "test_cleanup fd tx rx rc s =
    (let s = (if fd < 0 then s else snd (tcall T_close s));
         s = (if tx = 0 then s else snd (tcall T_free s));
         s = (if rx = 0 then s else snd (tcall T_free s))
     in (rc, s))"

text \<open>After the loop: the results, the statistics, the signals off and the line discipline \<open>old\<close> again.\<close>

definition test_finish :: "int \<Rightarrow> int \<Rightarrow> int \<Rightarrow> int \<Rightarrow> tester \<Rightarrow> int \<times> tester" where
  "test_finish fd tx rx old s =
    (let s = test_display_stats (t_print (test_results s) s);
         (rc, s) = tcall T_mbic s
     in if rc < 0 then test_cleanup fd tx rx rc s
        else let (rc, s) = tcall (T_setd old) s in test_cleanup fd tx rx rc s)"

abbreviation (input) disc_tty :: int where "disc_tty \<equiv> 0"
abbreviation (input) disc_hdlc :: int where "disc_hdlc \<equiv> 13"

definition test_device :: "string \<Rightarrow> tester \<Rightarrow> (int \<times> tester) option" where
  "test_device device s =
    (let (tx, s) = tcall (T_malloc (tx_frame_size s)) s;
         (rx, s) = tcall (T_malloc (rx_frame_size s)) s
     in if tx = 0 \<or> rx = 0 then Some (test_cleanup (- 1) tx rx (- 1) s)
        else
    (let (_, s) = tcall T_sigaction s; (_, s) = tcall T_sigaction s; (_, s) = tcall T_sigaction s;
         s = s\<lparr> xmit_frame := map (\<lambda>i. of_nat i) [0 ..< nat (tx_frame_size s)], rcv_frame := [] \<rparr>;
         (fd, s) = tcall (T_open device) s
     in if fd < 0 then Some (test_cleanup fd tx rx (- 1) s)
        else
    (let params = t_params (t_kernel s) (t_log s @ [T_getparams]);
         (rc, s) = tcall T_getparams s
     in if rc < 0 then Some (test_cleanup fd tx rx rc s)
        else
    (let s = s\<lparr> hdlc_mode := R56_PARAMS.mode params \<noteq> R56_MODE_ASYNC \<rparr>;
         old = t_disc (t_kernel s) (t_log s @ [T_getd]);
         (rc, s) = tcall T_getd s
     in if rc < 0 then Some (test_cleanup fd tx rx rc s)
        else
    (let (rc, s) = tcall (T_setd (if hdlc_mode s then disc_hdlc else disc_tty)) s
     in if rc < 0 then Some (test_cleanup fd tx rx rc s)
        else
    (let (_, s) = tcall T_blocking s;
         (rc, s) = tcall T_mbis s
     in if rc < 0 then Some (test_cleanup fd tx rx rc s)
        else do {
          (go, rc, s) \<leftarrow> (if loopback params = 0 then wait_dcd s else Some (True, rc, s));
          if \<not> go then Some (test_cleanup fd tx rx rc s)
          else do { s \<leftarrow> test_loop s; Some (test_finish fd tx rx old s) } }))))))"

text \<open>The program; None also where the device name has a conversion or does not fit the 50 bytes it is copied to.\<close>

definition test_main :: "tkernel \<Rightarrow> string list \<Rightarrow> test_outcome option" where
  "test_main k argv =
    (case argv of
       [] \<Rightarrow> Some (Test_exit 0 (init_tester k))
     | arg # args \<Rightarrow>
         if arg = ''--help'' then Some (Test_exit 0 (init_tester k))
         else do { name \<leftarrow> format_plain arg;
                   if length name < 50
                   then do { out \<leftarrow> test_parse_cmdline args (init_tester k);
                             (case out of
                                Test_return rc s \<Rightarrow>
                                  if rc = 0 then do { (rc, s) \<leftarrow> test_device name s; Some (Test_return rc s) }
                                  else Some out
                              | _ \<Rightarrow> Some out) }
                   else None })"

end
