(* ===== verification/R56_Echo.thy ===== *)
theory R56_Echo
  imports R56_Tester
begin

text \<open>
  The loopback test against a device that echoes: every frame of the master test is counted as received.
\<close>

lemma t_signals_frame:
  "rx_ok (fold t_signal_handler gs s) = rx_ok s" "rx_errors (fold t_signal_handler gs s) = rx_errors s"
  "rx_timeout (fold t_signal_handler gs s) = rx_timeout s" "tx_ok (fold t_signal_handler gs s) = tx_ok s"
  "tx_timeout (fold t_signal_handler gs s) = tx_timeout s" "t_kernel (fold t_signal_handler gs s) = t_kernel s"
  "t_log (fold t_signal_handler gs s) = t_log s" "xmit_frame (fold t_signal_handler gs s) = xmit_frame s"
  "rcv_frame (fold t_signal_handler gs s) = rcv_frame s" "master (fold t_signal_handler gs s) = master s"
  "tx_frame_size (fold t_signal_handler gs s) = tx_frame_size s" "hdlc_mode (fold t_signal_handler gs s) = hdlc_mode s"
  "rx_frame_size (fold t_signal_handler gs s) = rx_frame_size s" "crc_ex (fold t_signal_handler gs s) = crc_ex s"
  "test_count (fold t_signal_handler gs s) = test_count s" "loop_count (fold t_signal_handler gs s) = loop_count s"
  "test_timeout (fold t_signal_handler gs s) = test_timeout s"
  by (induction gs arbitrary: s; simp add: t_signal_handler_def split: tsignal.split)+

lemma tcall_frame:
  "rx_ok (snd (tcall c s)) = rx_ok s" "rx_errors (snd (tcall c s)) = rx_errors s"
  "rx_timeout (snd (tcall c s)) = rx_timeout s" "tx_ok (snd (tcall c s)) = tx_ok s"
  "tx_timeout (snd (tcall c s)) = tx_timeout s" "t_kernel (snd (tcall c s)) = t_kernel s"
  "t_log (snd (tcall c s)) = t_log s @ [c]" "xmit_frame (snd (tcall c s)) = xmit_frame s"
  "rcv_frame (snd (tcall c s)) = rcv_frame s" "master (snd (tcall c s)) = master s"
  "tx_frame_size (snd (tcall c s)) = tx_frame_size s" "hdlc_mode (snd (tcall c s)) = hdlc_mode s"
  "rx_frame_size (snd (tcall c s)) = rx_frame_size s" "crc_ex (snd (tcall c s)) = crc_ex s"
  "test_count (snd (tcall c s)) = test_count s" "loop_count (snd (tcall c s)) = loop_count s"
  "test_timeout (snd (tcall c s)) = test_timeout s"
  by (simp_all add: tcall_def Let_def t_signals_frame)

lemma tcall_ret: "fst (tcall c s) = t_ret (t_kernel s) (t_log s @ [c])"
  by (simp add: tcall_def Let_def)

lemma test_pattern_length [simp]: "length (test_pattern n len) = nat len"
  by (simp add: test_pattern_def Let_def)

text \<open>What follows the frame in the buffer: nothing, or with the extended CRC option the CRC and the status.\<close>

definition echo_tail :: "nat \<Rightarrow> u8 list \<Rightarrow> bool" where
  "echo_tail crc bs = (if crc = 0 then bs = [] else length bs = crc + 1 \<and> (last bs = RX_OK \<or> last bs = RX_CRC_ERROR))"

text \<open>The device takes every frame and gives it back, with \<open>tail\<close> behind it, to the next read.\<close>

definition echo_device :: "u8 list \<Rightarrow> tkernel \<Rightarrow> bool" where
  "echo_device tail k =
    (\<forall>l t u n b.
       t_ret k (l @ [T_select_write t]) > 0 \<and>
       t_ret k (l @ [T_write b]) = int (length b) \<and>
       t_ret k (l @ [T_write b, T_select_read u]) > 0 \<and>
       t_ret k (l @ [T_write b, T_select_read u, T_read n]) = int (length (b @ tail)) \<and>
       t_data k (l @ [T_write b, T_select_read u, T_read n]) = b @ tail)"

definition testing :: "u8 list \<Rightarrow> tester \<Rightarrow> bool" where
  "testing tail s =
    (echo_device tail (t_kernel s) \<and> echo_tail (crc_ex s) tail \<and> crc_ex s \<in> {0, 2, 4} \<and> master s \<and> hdlc_mode s \<and>
     2 \<le> tx_frame_size s \<and> rx_frame_size s = 2 * tx_frame_size s \<and> test_timeout s * 2 \<noteq> - 1 \<and>
     (crc_ex s = 2 \<longrightarrow> 3 \<le> tx_frame_size s) \<and> (crc_ex s = 4 \<longrightarrow> 8 \<le> tx_frame_size s))"

lemma echo_device_takes:
  assumes "echo_device tail k"
  shows "t_ret k (l @ [c, T_write b]) = int (length b)"
proof -
  have "t_ret k ((l @ [c]) @ [T_write b]) = int (length b)"
    using assms unfolding echo_device_def by blast
  then show ?thesis by simp
qed

lemma echo_read:
  assumes "testing tail s" "t_log s = l @ [T_write b]" "length b = nat (tx_frame_size s)" and d: "d = b @ tail"
  shows "test_read_timed (read_size s) (test_timeout s * 2) s =
           Some (int (length d),
                 snd (tcall (T_read (rx_frame_size s)) (snd (tcall (T_select_read (test_timeout s * 2)) s)))
                   \<lparr> rcv_frame := d @ drop (length d) (rcv_frame s) \<rparr>)"
proof -
  let ?s1 = "snd (tcall (T_select_read (test_timeout s * 2)) s)"
  have e: "echo_device tail (t_kernel s)" and h: "hdlc_mode s" and t: "test_timeout s * 2 \<noteq> - 1"
    using assms(1) by (simp_all add: testing_def)
  have pos: "0 < int (length d)" and fit: "int (length d) \<le> rx_frame_size s"
    using assms by (auto simp: testing_def echo_tail_def split: if_splits)
  have room: "0 < rx_frame_size s"
    using pos fit by linarith
  have sel: "fst (tcall (T_select_read (test_timeout s * 2)) s) > 0"
    using e assms(2) by (simp add: echo_device_def tcall_ret)
  have rd: "fst (tcall (T_read (rx_frame_size s)) ?s1) = int (length d)"
    "t_data (t_kernel ?s1) (t_log ?s1 @ [T_read (rx_frame_size s)]) = d"
    using e assms(2) by (simp_all add: d echo_device_def tcall_ret tcall_frame)
  have "test_read_loop (rx_frame_size s) (test_timeout s * 2) [] s =
          Some (int (length d), d, snd (tcall (T_read (rx_frame_size s)) ?s1))"
    by (subst test_read_loop.simps)
      (use sel rd h t fit pos room in \<open>simp add: Let_def case_prod_beta tcall_frame min_def\<close>)
  then show ?thesis
    by (simp add: test_read_timed_def read_size_def h tcall_frame)
qed

lemma echo_check:
  assumes "testing tail s" "length b = nat (tx_frame_size s)" "xmit_frame s = b"
    and "rcv_frame s = b @ tail @ rest" "int (length (rcv_frame s)) = rx_frame_size s"
  shows "master_check (int (length (b @ tail))) s = Some (s\<lparr> rx_ok := rx_ok s + 1 \<rparr>)"
proof -
  have n: "int (length b) = tx_frame_size s" "2 \<le> tx_frame_size s"
    using assms(1,2) by (auto simp: testing_def)
  have "strip_crc (int (length (b @ tail))) s = Some (int (length b))"
  proof (cases "crc_ex s = 0")
    case True
    then show ?thesis
      using assms(1) by (simp add: strip_crc_def testing_def echo_tail_def)
  next
    case False
    then have l: "length tail = crc_ex s + 1" and st: "last tail = RX_OK \<or> last tail = RX_CRC_ERROR"
      and c: "crc_ex s = 2 \<or> crc_ex s = 4"
      using assms(1) by (auto simp: testing_def echo_tail_def)
    have status: "rcv_frame s ! (length b + crc_ex s) = last tail"
      using l assms(4) by (cases tail rule: rev_cases) (auto simp: nth_append)
    have at: "nat (int (length (b @ tail)) - 1) = length b + crc_ex s"
      using l by simp
    have room: "tx_frame_size s + (if crc_ex s > 2 then 8 else 2) \<le> rx_frame_size s"
      using assms(1) c by (auto simp: testing_def)
    have "aget (rcv_frame s) (length b + crc_ex s) = Some (last tail)"
      using l assms(4) status by (simp add: aget_def)
    then show ?thesis
      unfolding strip_crc_def at using False st room n l assms(5) by simp
  qed
  then show ?thesis
    using assms(3,4) n by (simp add: master_check_def)
qed

lemma echo_round:
  assumes "testing tail s" "length b = nat (tx_frame_size s)" "test_pattern (loop_count s) (tx_frame_size s) = b"
  shows "\<exists>rc s'. master_round s = Some (Continue, rc, s') \<and> testing tail s' \<and> rx_ok s' = rx_ok s + 1 \<and>
           tx_ok s' = tx_ok s + 1 \<and> rx_errors s' = rx_errors s \<and> rx_timeout s' = rx_timeout s \<and>
           tx_timeout s' = tx_timeout s \<and> loop_count s' = loop_count s \<and> test_count s' = test_count s"
proof -
  let ?s0 = "s\<lparr> xmit_frame := b, rcv_frame := replicate (nat (rx_frame_size s)) 0 \<rparr>"
  let ?s1 = "snd (tcall (T_write b) (snd (tcall (T_select_write (test_timeout s)) ?s0)))"
  let ?s2 = "?s1\<lparr> tx_ok := tx_ok ?s1 + 1 \<rparr>"
  let ?d = "b @ tail"
  let ?s3 = "snd (tcall (T_read (rx_frame_size s)) (snd (tcall (T_select_read (test_timeout s * 2)) ?s2)))
               \<lparr> rcv_frame := ?d @ drop (length ?d) (rcv_frame ?s2) \<rparr>"
  have e: "echo_device tail (t_kernel s)" and n: "2 \<le> tx_frame_size s" "rx_frame_size s = 2 * tx_frame_size s"
    using assms(1) by (simp_all add: testing_def)
  have w: "test_write_timed b (test_timeout s) ?s0 = (int (length b), ?s1)"
    using e by (simp add: test_write_timed_def Let_def case_prod_beta prod_eq_iff tcall_ret tcall_frame
      echo_device_takes [OF e]) (simp add: echo_device_def)
  have t2: "testing tail ?s2" and t3: "testing tail ?s3"
    using assms(1) by (simp_all add: testing_def tcall_frame)
  have r: "test_read_timed (read_size ?s2) (test_timeout ?s2 * 2) ?s2 = Some (int (length ?d), ?s3)"
    using echo_read [OF t2, of "t_log s @ [T_select_write (test_timeout s)]" b ?d] assms(2)
    by (simp add: tcall_frame)
  have fit: "int (length ?d) \<le> rx_frame_size s"
    using assms(1,2) by (auto simp: testing_def echo_tail_def split: if_splits)
  have c: "master_check (int (length ?d)) ?s3 = Some (?s3\<lparr> rx_ok := rx_ok ?s3 + 1 \<rparr>)"
    by (rule echo_check [OF t3]) (use assms(2) fit n in \<open>auto simp: tcall_frame\<close>)
  have step: "master_round s = Some (Continue, rc, s4)"
    if "s0 = s\<lparr> xmit_frame := test_pattern (loop_count s) (tx_frame_size s),
                  rcv_frame := replicate (nat (rx_frame_size s)) 0 \<rparr>"
      "test_write_timed (xmit_frame s0) (test_timeout s0) s0 = (wc, s1)" "0 < wc"
      "test_read_timed (read_size s1) (test_timeout s1 * 2) (s1\<lparr> tx_ok := tx_ok s1 + 1 \<rparr>) = Some (rc, s3)" "0 < rc"
      "master_check rc s3 = Some s4" for s0 s1 s3 s4 wc rc
    unfolding master_round_def that(1) [symmetric] using that(2-6) by (simp add: Let_def)
  have "master_round s = Some (Continue, int (length ?d), ?s3\<lparr> rx_ok := rx_ok ?s3 + 1 \<rparr>)"
  proof (rule step)
    show "?s0 = s\<lparr> xmit_frame := test_pattern (loop_count s) (tx_frame_size s),
                  rcv_frame := replicate (nat (rx_frame_size s)) 0 \<rparr>"
      using assms(3) by simp
    show "test_write_timed (xmit_frame ?s0) (test_timeout ?s0) ?s0 = (int (length b), ?s1)"
      using w by simp
    have sz: "read_size ?s2 = read_size ?s1" "test_timeout ?s2 = test_timeout ?s1"
      by (simp_all add: read_size_def)
    show "test_read_timed (read_size ?s1) (test_timeout ?s1 * 2) ?s2 = Some (int (length ?d), ?s3)"
      using r unfolding sz .
    show "0 < int (length b)" "0 < int (length ?d)"
      using assms(2) n by simp_all
    show "master_check (int (length ?d)) ?s3 = Some (?s3\<lparr> rx_ok := rx_ok ?s3 + 1 \<rparr>)"
      by (rule c)
  qed
  then show ?thesis
    using t3 by (intro exI [of _ "int (length ?d)"] exI [of _ "?s3\<lparr> rx_ok := rx_ok ?s3 + 1 \<rparr>"])
      (simp add: tcall_frame testing_def)
qed

text \<open>C22: Against a device that takes every frame and returns it, the master test ends, with every one of the
  \<open>n\<close> frames counted as sent and as received, and no error or time-out more; with the extended CRC options the
  frames must have 3 and 8 bytes at least (see \<open>testing\<close>).\<close>

theorem echoed_frames_are_counted:
  assumes "testing tail s" "loop_count s + int n = test_count s" "test_count s \<noteq> 0"
  shows "\<exists>s'. test_loop s = Some s' \<and> rx_ok s' = rx_ok s + int n \<and> tx_ok s' = tx_ok s + int n \<and>
           rx_errors s' = rx_errors s \<and> rx_timeout s' = rx_timeout s \<and> tx_timeout s' = tx_timeout s"
  using assms
proof (induction n arbitrary: s)
  case 0
  then show ?case
    by (subst test_loop.simps) (simp add: testing_def Let_def)
next
  case (Suc n)
  let ?s = "s\<lparr> loop_count := loop_count s + 1 \<rparr>"
  have t: "testing tail ?s"
    using Suc.prems(1) by (simp add: testing_def)
  obtain rc s' where r: "master_round ?s = Some (Continue, rc, s')" and t': "testing tail s'"
    and same: "rx_ok s' = rx_ok s + 1" "tx_ok s' = tx_ok s + 1" "rx_errors s' = rx_errors s"
      "rx_timeout s' = rx_timeout s" "tx_timeout s' = tx_timeout s" "loop_count s' = loop_count s + 1"
      "test_count s' = test_count s"
    using echo_round [OF t _ refl] by auto
  have "test_loop s = test_loop s'"
    by (subst test_loop.simps) (use r Suc.prems in \<open>simp add: testing_def Let_def\<close>)
  then show ?case
    using Suc.IH [OF t'] Suc.prems same by (simp add: add_ac)
qed

text \<open>A device that echoes the last frame written, with a CRC of two bytes behind it.\<close>

definition echo_tail_16 :: "u8 list" where
  "echo_tail_16 = [0x12, 0x34, RX_OK]"

fun last_written :: "tcall list \<Rightarrow> u8 list" where
  "last_written (T_write b # _) = b"
| "last_written (_ # l) = last_written l"
| "last_written [] = []"

definition echo_kernel :: tkernel where
  "echo_kernel =
     \<lparr> t_ret = (\<lambda>l. case rev l of
                  T_write b # _ \<Rightarrow> int (length b)
                | T_read _ # l \<Rightarrow> int (length (last_written l @ echo_tail_16))
                | _ \<Rightarrow> 1),
       t_errno = (\<lambda>l. 0), t_disc = (\<lambda>l. 0), t_params = (\<lambda>l. zero_params), t_events = (\<lambda>l. 0),
       t_data = (\<lambda>l. last_written (rev l) @ echo_tail_16), t_icount = (\<lambda>l. undefined), t_signals = (\<lambda>l. []) \<rparr>"

lemma echoed_frames_are_counted_witness:
  "\<exists>s'. test_loop ((init_tester echo_kernel)\<lparr> crc_ex := 2 \<rparr>) = Some s' \<and> rx_ok s' = 100 \<and> tx_ok s' = 100 \<and> rx_errors s' = 0"
proof -
  let ?s = "(init_tester echo_kernel)\<lparr> crc_ex := 2 \<rparr>"
  have "testing echo_tail_16 ?s"
    by (simp add: testing_def init_tester_def echo_tail_def echo_tail_16_def echo_device_def echo_kernel_def)
  then show ?thesis
    using echoed_frames_are_counted [of echo_tail_16 ?s 100] by (auto simp: init_tester_def)
qed

end
