(* ===== verification/Spec2Isabelle.thy ===== *)
theory Spec2Isabelle
  imports R56_Netsys R56_Line R56_Roundtrip R56_Module R56_Profile_Read R56_Exchange R56_Programs R56_Echo
begin

text \<open>
  Verification of the Sealevel Route 56 synchronous serial driver (\<open>src/driver/route56.c\<close>,
  with \<open>src/driver/z16c32.h\<close> and \<open>src/include/route56.h\<close>), of its configuration
  utility (\<open>src/utilities/r56util.c\<close>), its loopback test (\<open>src/utilities/r56test.c\<close>)
  and the sample programs (\<open>src/examples\<close>), of which the largest are the two stations of a loop.

  \<^bold>\<open>The program.\<close> The driver runs a Zilog Z16C32 serial controller with built-in DMA behind a
  Linux terminal device. Frames arrive in a ring of 4096-byte DMA buffers that the controller fills;
  the interrupt handler only notes work, and a bottom half takes frames from the ring, checks and hands them
  to the line discipline. Frames to be sent are copied to a second ring, or held in up to five holding
  buffers while the ring is full; in asynchronous mode characters go through a circular page and the
  transmit FIFO instead. Compiled for it, the driver offers each adapter to the generic HDLC layer of the kernel as well:
  a device then belongs to the terminal or to the network, never to both. A device is opened by claiming resources, testing the adapter and programming
  it from the parameter block and the terminal settings. The utility reads the parameter block by an ioctl request,
  edits it as its command line says, shows it and writes it back. The loopback test sends frames and counts
  what comes back. The stations talk over a loop: a primary station polls, the secondary stations send requests when they
  are polled, keep them as pending, and the primary station queues and answers them; both are set up by a profile.

  \<^bold>\<open>Representation.\<close> A \<open>world\<close> (\<open>R56_State\<close>) is the device instance
  \<open>r56_struct\<close> with the fields of the C structure, byte memory, the trace of all port accesses and
  kernel calls so far, and an \<open>environment\<close>: the adapter and the kernel as functions from that trace to
  the value they answer with. Nothing is assumed of the environment unless a theorem says so. Every routine is a
  function from worlds to worlds; one that can follow NULL, leave an array or not return has an option as its
  result, and None stands for all three. Machine words have their C width and wrap; a C \<open>int\<close> is an
  \<open>int\<close> where the code keeps it in range, otherwise the conversion is written out. Locks are not
  represented: what the code does under \<open>irq_spinlock\<close> is one step of the system.

  \<^bold>\<open>Theories.\<close> In the order of their imports, with the routines they model:
    \<^item> \<open>R56_Prelude\<close>, \<open>R56_Consts\<close>: flag tests, rings of indices, byte memory; the
      constants under their names in the headers.
    \<^item> \<open>R56_State\<close>: parameter block, counters, buffer entries, device instance, world.
    \<^item> \<open>R56_Bus\<close>: \<open>usc_OutReg\<close>, \<open>usc_InReg\<close> with the register banks of the
      model 5101, and the command and interrupt macros; the locale \<open>register_bus\<close> states what a register
      write promises (the value last written, everything else unchanged).
    \<^item> \<open>R56_Usc\<close>, \<open>R56_Mode\<close>: signals, clocks, idle patterns, the SDLC, synchronous and
      asynchronous set-up, reset.
    \<^item> \<open>R56_Dma\<close>: sizing, allocation, linking, reset and release of the rings.
    \<^item> \<open>R56_Rx\<close>: \<open>r56_get_rx_frame\<close>, \<open>r56_get_raw_rx_frame\<close>,
      buffer recycling, \<open>usc_process_rxoverrun_sync\<close>, \<open>usc_start_receiver\<close>.
    \<^item> \<open>R56_Tx\<close>, \<open>R56_Write\<close>: \<open>r56_load_tx_dma_buffer\<close>, the holding queue,
      the character ring, \<open>usc_load_txfifo\<close>, \<open>usc_start_transmitter\<close>, \<open>r56_write\<close>
      and what they guarantee; the locale \<open>bounded_queue\<close> is the contract that the character ring and the
      holding buffers both meet. \<open>R56_Line\<close>: a frame from one terminal to the line discipline of another,
      with the two DMA controllers and the line as a hypothesis on the rings.
    \<^item> \<open>R56_Isr\<close>, \<open>R56_Handlers\<close>: the interrupt handlers, \<open>r56_interrupt\<close>,
      the bottom half.
    \<^item> \<open>R56_System\<close>: the step relation \<open>sys_step\<close> in which interrupts, rounds of the bottom
      half, the transmit timer, DMA and writes follow each other in any order.
    \<^item> \<open>R56_Diag\<close>, \<open>R56_Params\<close>, \<open>R56_Init\<close>: adapter tests; programming and
      parameter requests; resources, \<open>startup\<close>, \<open>shutdown\<close>, the list of instances.
    \<^item> \<open>R56_Claim\<close>, \<open>R56_Startup\<close>, \<open>R56_Open\<close>: claiming gets everything or
      gives everything back; the tests return; opening, closing and reprogramming a device.
    \<^item> \<open>R56_Tty\<close>: the terminal operations, ioctl, event waiting, open, close, hang-up.
    \<^item> \<open>R56_Net\<close>: the network interface (\<open>hdlcdev_\<close> routines) over an instance together with
      its \<open>net_device\<close>, the calls into the network layers as events. \<open>R56_Netup\<close>: bringing it up
      and down. \<open>R56_Netisr\<close>: the receive path, interrupt handlers, time-out and bottom half as compiled with
      \<open>R56_GENERIC_HDLC\<close>, and their relation to those without. \<open>R56_Netsys\<close>: the step relation
      \<open>net_step\<close> of an interface that is up.
    \<^item> \<open>R56_Scan\<close>, \<open>R56_Options\<close>, \<open>R56_Cmdline\<close>, \<open>R56_Util\<close>,
      \<open>R56_Roundtrip\<close>: number conversions of the C library; the option handlers, table, command line loop,
      display and requests of the utility; what its command line can express.
    \<^item> \<open>R56_Module\<close>: \<open>route56_init\<close>, \<open>route56_cleanup\<close>,
      \<open>r56_init_tty\<close>; the text of \<open>line_info\<close> under \<open>/proc\<close>.
    \<^item> \<open>R56_Tester\<close>, \<open>R56_Echo\<close>: the loopback test, and its run against a device that echoes.
    \<^item> \<open>R56_Sample\<close>: \<open>common.h\<close> and \<open>common.c\<close> of the stations: state,
      signals, timed reads and writes, frames. \<open>R56_Profile\<close>, \<open>R56_Profile_Read\<close>: \<open>profile.c\<close>
      and what it reads back. \<open>R56_Stations\<close>: \<open>secondary.c\<close>, \<open>primary.c\<close>.
      \<open>R56_Programs\<close>: the six programs of \<open>sample-hdlc\<close>, \<open>sample-raw\<close> and
      \<open>sample-async\<close>. \<open>R56_Loopmode\<close>, \<open>R56_Exchange\<close>: the transaction lists as lists in the store, and the exchange
      of a transaction between two stations.

  \<^bold>\<open>What is shown.\<close> The centre is the invariant \<open>dev_inv\<close> of an open device (\<open>drv_inv\<close> with a
  terminal, \<open>net_inv\<close> without): both rings and
  their indices, the intermediate buffer, the queues and the pending work are well formed. \<open>startup\<close>
  establishes it or leaves nothing claimed; every step of the system and every change of parameters keeps it;
  \<open>shutdown\<close> needs only it to give everything back. Under it every handler returns, accesses stay inside
  the arrays, and pending work is always scheduled and gets done. The receive and transmit paths are shown to
  pass on frames byte for byte; the queues refine bounded first-in first-out queues; the search
  loops agree with reference definitions. For the utility: every setting that has options is reached by the command
  line that writes it out, and the command line loop ends. Loading the module leaves what unloading takes away, call by
  call. A configuration of a station survives being written out as a profile and read; a transaction goes from a
  secondary station to the primary one and back and is then no longer pending; the answers of the primary station are
  those of a reference definition; the loopback test counts every frame that is echoed. The network interface changes
  nothing of the interrupt routine while it is down; while it is up the bottom half does to the instance what it does without
  it, frames and settings arrive unchanged, opening and closing give everything back, and the queue of the network runs only
  while the transmitter is idle. The adapter tests are run by sleeping code of both kinds of owner, which the locale
  \<open>diagnosed\<close> covers once for both. The error properties state, at the code's own definitions,
  where the code does not do what it means to; each has a witness.

  \<^bold>\<open>Loops.\<close> A loop of the code that is bounded by a list or a counter is structural recursion, one that waits
  for the adapter, a clock or the ring is \<open>partial_function (option)\<close>, so that not returning is None, and
  its termination is a theorem: frame search and recycling by the length of the ring, the bottom half by the buffers
  in use and the work items left, the FIFO loops by the characters left (receive: the adapter's FIFO drains,
  \<open>fifo_drains\<close>), the polling loops of the DMA test by a clock that advances
  (\<open>clock_ok\<close>: after every history there is a number of looks within which one is told that the time is
  over).

  \<^bold>\<open>Parameters.\<close> \<open>sleep\<close> is what happens while the code sleeps in the interrupt test
  (\<open>sleep_ok\<close>, \<open>net_sleep_ok\<close>: steps of the system); \<open>dev_dma\<close> what the DMA controller has written
  (\<open>dma_ok\<close>: it does not move the buffers); \<open>answers\<close>, \<open>tkernel\<close>, \<open>host\<close>, \<open>mret\<close> and \<open>nret\<close> what the system tells
  the utility, the loopback test, the stations, the module and the network interface, as functions of the calls made before; \<open>port_ready\<close>
  is a host on which writes and allocations succeed, \<open>echo_device\<close> a device that returns each frame. A copy to or from
  user memory is an option or a flag that says whether it succeeds. \<open>net_adapter_ok\<close> is an adapter that raises no
  transmit data interrupt, which is enabled in asynchronous mode only. For properties about a device on the PCI bus
  \<open>configured\<close> bounds the configuration: a maximal frame size from 4096 to 65535 bytes and at most 61 pages of
  transmit buffers, so that of the 62 data pages of the shared memory one is left for receiving.

  \<^bold>\<open>Not modelled.\<close>
    \<^item> A driver with the network interface as one program: the interface is compiled only with
      \<open>R56_GENERIC_HDLC\<close> set, and then its forward declarations, which name \<open>struct mgsl_struct\<close>,
      contradict the definitions. The theories up to \<open>R56_Tty\<close> are the driver as it compiles, without it;
      \<open>R56_Netisr\<close> has the handlers that differ with it.
    \<^item> The contents of the tables handed to the kernel by \<open>r56_init_tty\<close> and \<open>route56_init\<close>
      (names, minor numbers, operations).
    \<^item> Debug output: \<open>printk\<close> under \<open>debug_level\<close>, the sanity checks of
      \<open>r56_paranoia_check\<close> and \<open>r56_trace_block\<close>.
    \<^item> The usage texts of the utilities, the progress messages of the loopback test, and the log, dumps and messages of the
      samples (\<open>Log\<close>, \<open>DumpFrame\<close>, \<open>DumpTransaction\<close>): text output only.
    \<^item> Interruption of a handler of the same device by another processor, which the spin lock excludes, and of
      the stretches that the code runs without the lock; the step relation interleaves whole routines.
\<close>

end
